(* ===== verification/Prelude.thy ===== *)
theory Prelude
  imports Complex_Main "HOL-Library.Multiset"
begin

text \<open>
  Shared ground of the development: the HTTP exceptions the NestJS services raise, the
  JavaScript operators the services use on nullable values, and the interface of the TypeORM
  repositories.

  TypeORM is third-party code, so its repository is a parameter of every operation that
  queries the database: a record of functions, \<open>'e orm\<close>, over the rows of a table
  (a list). What the services rely on is the locale \<open>repository\<close>: \<open>find\<close> returns the
  matching rows, ordered and cut to the requested page; \<open>save\<close> replaces the row with the
  same primary key or adds one; \<open>update\<close> and \<open>delete\<close> touch exactly the matching rows.
  Nothing is assumed about the order of rows the query does not order. Two flags say
  what a \<open>null\<close> or \<open>undefined\<close> operand in a \<open>where\<close> clause does: TypeORM 0.3 documents that
  the condition is skipped by default (\<open>invalidWhereValuesBehavior\<close>).
\<close>

section \<open>Errors and nullable values\<close>

datatype http_error =
    BadRequest string
  | Unauthorized string
  | Forbidden string
  | NotFound string
  | Conflict string
  | ServiceUnavailable string
  | PlainError string

type_synonym 'a outcome = "http_error + 'a"
type_synonym js_time = int

named_theorems op_defs "definitions of the service operations"

definition nullish :: "'a option \<Rightarrow> 'a \<Rightarrow> 'a" where
  "nullish x d = (case x of None \<Rightarrow> d | Some v \<Rightarrow> v)"

definition patch :: "'a option \<Rightarrow> ('a \<Rightarrow> 'e \<Rightarrow> 'e) \<Rightarrow> 'e \<Rightarrow> 'e" where
  "patch x f e = (case x of None \<Rightarrow> e | Some v \<Rightarrow> f v e)"

text \<open>\<open>Math.round\<close>\<close>

definition js_round :: "real \<Rightarrow> int" where
  "js_round x = \<lfloor>x + 1 / 2\<rfloor>"

text \<open>\<open>save\<close> of a loaded entity writes nothing, and so leaves \<open>updatedAt\<close>, when no column has changed
  (a decimal column set to the number it holds counts as unchanged).\<close>

definition touched :: "('e \<Rightarrow> 'e) \<Rightarrow> 'e \<Rightarrow> 'e \<Rightarrow> 'e" where
  "touched stamp old new = (if new = old then old else stamp new)"

definition falsy_str :: "string option \<Rightarrow> bool" where
  "falsy_str s = (case s of None \<Rightarrow> True | Some v \<Rightarrow> v = [])"

lemma nullish_simps [simp]:
  "nullish None d = d" "nullish (Some v) d = v"
  by (simp_all add: nullish_def)

lemma patch_simps [simp]:
  "patch None f e = e" "patch (Some v) f e = f v e"
  by (simp_all add: patch_def)

lemma touched_keeps: "(\<And>e. g (stamp e) = g e) \<Longrightarrow> g new = g old \<Longrightarrow> g (touched stamp old new) = g old"
  by (simp add: touched_def)

lemma falsy_str_simps [simp]:
  "falsy_str None" "falsy_str (Some s) = (s = [])"
  by (simp_all add: falsy_str_def)

section \<open>Ordering rows\<close>

fun insort_by :: "('e \<Rightarrow> 'e \<Rightarrow> bool) \<Rightarrow> 'e \<Rightarrow> 'e list \<Rightarrow> 'e list" where
  "insort_by le x [] = [x]"
| "insort_by le x (y # ys) = (if le x y then x # y # ys else y # insort_by le x ys)"

fun isort_by :: "('e \<Rightarrow> 'e \<Rightarrow> bool) \<Rightarrow> 'e list \<Rightarrow> 'e list" where
  "isort_by le [] = []"
| "isort_by le (x # xs) = insort_by le x (isort_by le xs)"

definition preorder_by :: "('e \<Rightarrow> 'e \<Rightarrow> bool) \<Rightarrow> bool" where
  "preorder_by le \<longleftrightarrow>
     (\<forall>a b. le a b \<or> le b a) \<and> (\<forall>a b c. le a b \<longrightarrow> le b c \<longrightarrow> le a c)"

abbreviation any_order :: "'e \<Rightarrow> 'e \<Rightarrow> bool" where
  "any_order \<equiv> \<lambda>_ _. True"

definition asc :: "('e \<Rightarrow> 'k::linorder) \<Rightarrow> 'e \<Rightarrow> 'e \<Rightarrow> bool" where
  "asc f a b \<longleftrightarrow> f a \<le> f b"

definition desc :: "('e \<Rightarrow> 'k::linorder) \<Rightarrow> 'e \<Rightarrow> 'e \<Rightarrow> bool" where
  "desc f a b \<longleftrightarrow> f b \<le> f a"

lemma mset_insort_by [simp]: "mset (insort_by le x ys) = add_mset x (mset ys)"
  by (induction ys) auto

lemma mset_isort_by [simp]: "mset (isort_by le xs) = mset xs"
  by (induction xs) auto

lemma set_insort_by [simp]: "set (insort_by le x ys) = insert x (set ys)"
  by (induction ys) auto

lemma set_isort_by [simp]: "set (isort_by le xs) = set xs"
  by (induction xs) auto

lemma sorted_insort_by:
  "preorder_by le \<Longrightarrow> sorted_wrt le ys \<Longrightarrow> sorted_wrt le (insort_by le x ys)"
proof (induction ys)
  case (Cons y ys)
  have "le y x" if "\<not> le x y" using Cons.prems(1) that by (auto simp: preorder_by_def)
  moreover have "le x z" if "le x y" "z \<in> set ys" for z
    using Cons.prems that by (auto simp: preorder_by_def)
  ultimately show ?case using Cons by auto
qed simp

lemma sorted_isort_by: "preorder_by le \<Longrightarrow> sorted_wrt le (isort_by le xs)"
  by (induction xs) (auto intro: sorted_insort_by)

lemma preorder_any [simp, intro]: "preorder_by any_order"
  by (simp add: preorder_by_def)

lemma preorder_asc [simp, intro]: "preorder_by (asc f)"
  by (auto simp: preorder_by_def asc_def)

lemma preorder_desc [simp, intro]: "preorder_by (desc f)"
  by (auto simp: preorder_by_def desc_def)

lemma sorted_wrt_asc: "sorted_wrt (asc f) xs \<longleftrightarrow> sorted (map f xs)"
  by (simp add: sorted_map asc_def [abs_def])

lemma sorted_wrt_desc: "sorted_wrt (desc f) xs \<longleftrightarrow> sorted (rev (map f xs))"
  by (simp add: sorted_wrt_rev sorted_wrt_map desc_def [abs_def])

section \<open>The repository interface\<close>

record 'e orm =
  orm_find :: "('e \<Rightarrow> bool) \<Rightarrow> ('e \<Rightarrow> 'e \<Rightarrow> bool) \<Rightarrow> nat option \<Rightarrow> 'e list \<Rightarrow> 'e list"
  orm_save :: "'e \<Rightarrow> 'e list \<Rightarrow> 'e list"
  orm_update :: "('e \<Rightarrow> bool) \<Rightarrow> ('e \<Rightarrow> 'e) \<Rightarrow> 'e list \<Rightarrow> 'e list"
  orm_delete :: "('e \<Rightarrow> bool) \<Rightarrow> 'e list \<Rightarrow> 'e list"
  orm_null_ignored :: bool
  orm_undefined_ignored :: bool

definition find_one_by :: "'e orm \<Rightarrow> ('e \<Rightarrow> bool) \<Rightarrow> ('e \<Rightarrow> 'e \<Rightarrow> bool) \<Rightarrow> 'e list \<Rightarrow> 'e option" where
  "find_one_by R P le t = (case orm_find R P le (Some 1) t of [] \<Rightarrow> None | e # _ \<Rightarrow> Some e)"

definition find_one :: "'e orm \<Rightarrow> ('e \<Rightarrow> bool) \<Rightarrow> 'e list \<Rightarrow> 'e option" where
  "find_one R P t = find_one_by R P any_order t"

definition count_where :: "'e orm \<Rightarrow> ('e \<Rightarrow> bool) \<Rightarrow> 'e list \<Rightarrow> nat" where
  "count_where R P t = length (orm_find R P any_order None t)"

definition where_null :: "'e orm \<Rightarrow> 'a option \<Rightarrow> bool" where
  "where_null R c \<longleftrightarrow> orm_null_ignored R \<or> c = None"

definition where_opt :: "'e orm \<Rightarrow> 'a option \<Rightarrow> 'a \<Rightarrow> bool" where
  "where_opt R v c = (case v of None \<Rightarrow> orm_undefined_ignored R | Some x \<Rightarrow> c = x)"

definition save_all :: "'e orm \<Rightarrow> 'e list \<Rightarrow> 'e list \<Rightarrow> 'e list" where
  "save_all R es t = fold (orm_save R) es t"

definition page :: "nat option \<Rightarrow> 'e list \<Rightarrow> 'e list" where
  "page n ys = (case n of None \<Rightarrow> ys | Some k \<Rightarrow> take k ys)"

definition keyed :: "('e \<Rightarrow> 'k) \<Rightarrow> 'e list \<Rightarrow> bool" where
  "keyed key t \<longleftrightarrow> distinct (map key t)"

lemma keyed_same: "keyed k t \<Longrightarrow> a \<in> set t \<Longrightarrow> b \<in> set t \<Longrightarrow> k a = k b \<Longrightarrow> a = b"
  by (auto simp: keyed_def distinct_map inj_on_def)

lemma filter_other_keys: "i \<notin> k ` set t \<Longrightarrow> filter_mset (\<lambda>r. k r \<noteq> i) (mset t) = mset t"
  by (induction t) auto

lemma keyed_remove:
  "keyed k t \<Longrightarrow> e \<in> set t \<Longrightarrow> mset t = add_mset e (filter_mset (\<lambda>r. k r \<noteq> k e) (mset t))"
proof (induction t)
  case (Cons a t)
  show ?case
  proof (cases "a = e")
    case True
    then show ?thesis using Cons.prems filter_other_keys [of "k e" k t] by (simp add: keyed_def)
  next
    case False
    then have "k a \<noteq> k e" using keyed_same [OF Cons.prems(1), of a e] Cons.prems(2) by auto
    then show ?thesis using Cons False by (simp add: keyed_def)
  qed
qed simp

locale repository =
  fixes R :: "'e orm" and key :: "'e \<Rightarrow> string"
  assumes find_rows:
    "\<exists>ys. mset ys = filter_mset P (mset t) \<and> (preorder_by le \<longrightarrow> sorted_wrt le ys) \<and>
       orm_find R P le n t = page n ys"
  and save_rows: "mset (orm_save R e t) = filter_mset (\<lambda>r. key r \<noteq> key e) (mset t) + {#e#}"
  and update_rows: "mset (orm_update R P f t) = image_mset (\<lambda>r. if P r then f r else r) (mset t)"
  and delete_rows: "mset (orm_delete R P t) = filter_mset (\<lambda>r. \<not> P r) (mset t)"
begin

lemma find_mset: "mset (orm_find R P le None t) = filter_mset P (mset t)"
  using find_rows [of P t le None] by (auto simp: page_def)

lemma find_set: "set (orm_find R P le None t) = {e \<in> set t. P e}"
  using find_mset [of P le t] by (metis set_mset_filter set_mset_mset)

lemma find_subset: "e \<in> set (orm_find R P le n t) \<Longrightarrow> e \<in> set t \<and> P e"
proof -
  assume e: "e \<in> set (orm_find R P le n t)"
  obtain ys where ys: "mset ys = filter_mset P (mset t)" "orm_find R P le n t = page n ys"
    using find_rows [of P t le n] by blast
  have "e \<in> set ys" using e ys(2) by (auto simp: page_def dest: in_set_takeD split: option.splits)
  then show ?thesis using ys(1) by (metis mem_Collect_eq set_mset_filter set_mset_mset)
qed

lemma find_length: "length (orm_find R P le (Some k) t) \<le> k"
  using find_rows [of P t le "Some k"] by (auto simp: page_def)

lemma find_sorted: "preorder_by le \<Longrightarrow> sorted_wrt le (orm_find R P le n t)"
  using find_rows [of P t le n] by (auto simp: page_def sorted_wrt_take split: option.splits)

lemma find_count: "length (orm_find R P le None t) = size (filter_mset P (mset t))"
  using find_mset [of P le t] by (metis size_mset)

lemma find_one_by_SomeD: "find_one_by R P le t = Some e \<Longrightarrow> e \<in> set t \<and> P e"
  by (auto simp: find_one_by_def split: list.splits intro: find_subset [of e P le "Some 1" t, THEN conjunct1]
      find_subset [of e P le "Some 1" t, THEN conjunct2])

lemma find_one_by_None: "find_one_by R P le t = None \<longleftrightarrow> (\<forall>e \<in> set t. \<not> P e)"
proof -
  obtain ys where ys: "mset ys = filter_mset P (mset t)" "orm_find R P le (Some 1) t = take 1 ys"
    using find_rows [of P t le "Some 1"] by (auto simp: page_def)
  have s: "set ys = {e \<in> set t. P e}" using ys(1) by (metis set_mset_filter set_mset_mset)
  have "find_one_by R P le t = None \<longleftrightarrow> ys = []"
    using ys(2) by (cases ys) (auto simp: find_one_by_def)
  then show ?thesis using s by (metis (no_types, lifting) Collect_empty_eq set_empty)
qed

lemma find_one_by_least:
  assumes "preorder_by le" and "find_one_by R P le t = Some e" and "r \<in> set t" and "P r"
  shows "le e r"
proof -
  obtain ys where ys: "mset ys = filter_mset P (mset t)" "sorted_wrt le ys"
    "orm_find R P le (Some 1) t = take 1 ys"
    using find_rows [of P t le "Some 1"] assms(1) by (auto simp: page_def)
  have r: "r \<in> set ys" using ys(1) assms(3,4)
    by (metis (no_types, lifting) mem_Collect_eq set_mset_filter set_mset_mset)
  obtain zs where "ys = e # zs"
    using ys(3) assms(2) by (cases ys) (auto simp: find_one_by_def)
  then show ?thesis using r ys(2) assms(1) by (auto simp: preorder_by_def)
qed

lemma find_one_SomeD: "find_one R P t = Some e \<Longrightarrow> e \<in> set t \<and> P e"
  unfolding find_one_def by (rule find_one_by_SomeD)

lemma find_one_None: "find_one R P t = None \<longleftrightarrow> (\<forall>e \<in> set t. \<not> P e)"
  unfolding find_one_def by (rule find_one_by_None)

lemma find_one_ex: "e \<in> set t \<Longrightarrow> P e \<Longrightarrow> \<exists>r. find_one R P t = Some r"
  using find_one_None [of P t] by (cases "find_one R P t") auto

lemma find_one_unique:
  "e \<in> set t \<Longrightarrow> P e \<Longrightarrow> (\<And>r. r \<in> set t \<Longrightarrow> P r \<Longrightarrow> r = e) \<Longrightarrow> find_one R P t = Some e"
  using find_one_ex [of e t P] find_one_SomeD [of P t] by blast

lemma set_save: "set (orm_save R e t) = {r \<in> set t. key r \<noteq> key e} \<union> {e}"
proof -
  have "set_mset (mset (orm_save R e t)) = {r \<in> set t. key r \<noteq> key e} \<union> {e}"
    unfolding save_rows by auto
  then show ?thesis by simp
qed

lemma set_update: "set (orm_update R P f t) = (\<lambda>r. if P r then f r else r) ` set t"
proof -
  have "set_mset (mset (orm_update R P f t)) = (\<lambda>r. if P r then f r else r) ` set t"
    unfolding update_rows by simp
  then show ?thesis by simp
qed

lemma set_delete: "set (orm_delete R P t) = {r \<in> set t. \<not> P r}"
proof -
  have "set_mset (mset (orm_delete R P t)) = {r \<in> set t. \<not> P r}"
    unfolding delete_rows by auto
  then show ?thesis by simp
qed

lemma save_fresh: "key e \<notin> key ` set t \<Longrightarrow> mset (orm_save R e t) = mset t + {#e#}"
  by (simp add: save_rows filter_other_keys)

lemmas set_simps = set_save set_update set_delete find_set

lemma keyed_save: "keyed key t \<Longrightarrow> keyed key (orm_save R e t)"
proof -
  assume t: "keyed key t"
  let ?l = "key e # map key (filter (\<lambda>r. key r \<noteq> key e) t)"
  have "mset (map key (orm_save R e t)) = mset ?l" by (simp add: save_rows)
  moreover have "distinct ?l" using t by (auto simp: keyed_def distinct_map_filter)
  ultimately show ?thesis unfolding keyed_def by (metis mset_eq_imp_distinct_iff)
qed

lemma keyed_delete: "keyed key t \<Longrightarrow> keyed key (orm_delete R P t)"
proof -
  assume t: "keyed key t"
  have "mset (map key (orm_delete R P t)) = mset (map key (filter (\<lambda>r. \<not> P r) t))"
    by (simp add: delete_rows)
  moreover have "distinct (map key (filter (\<lambda>r. \<not> P r) t))"
    using t by (simp add: keyed_def distinct_map_filter)
  ultimately show ?thesis unfolding keyed_def by (metis mset_eq_imp_distinct_iff)
qed

lemma keyed_update:
  assumes "keyed key t" and "\<And>r. key (f r) = key r"
  shows "keyed key (orm_update R P f t)"
proof -
  have "mset (map key (orm_update R P f t)) = mset (map key t)"
    using assms(2) by (simp add: update_rows multiset.map_comp comp_def if_distrib cong: if_cong)
  then show ?thesis using assms(1) unfolding keyed_def by (metis mset_eq_imp_distinct_iff)
qed

lemma keyed_eq: "keyed key t \<Longrightarrow> a \<in> set t \<Longrightarrow> b \<in> set t \<Longrightarrow> key a = key b \<Longrightarrow> a = b"
  by (auto simp: keyed_def distinct_map inj_on_def)

lemmas keyed_simps = keyed_save keyed_delete keyed_update

end

section \<open>A table held in memory\<close>

text \<open>
  A repository over a plain list, the concrete parameter the witnesses use. It meets the
  interface, so the hypothesis \<open>repository R key\<close> of the properties can hold; \<open>typeorm_list\<close>
  has the flags of TypeORM's default configuration, \<open>strict_list\<close> reads \<open>null\<close> as SQL does.
\<close>

definition list_orm :: "bool \<Rightarrow> ('e \<Rightarrow> string) \<Rightarrow> 'e orm" where
  "list_orm skip key =
     \<lparr>orm_find = (\<lambda>P le n t. page n (isort_by le (filter P t))),
      orm_save = (\<lambda>e t. filter (\<lambda>r. key r \<noteq> key e) t @ [e]),
      orm_update = (\<lambda>P f t. map (\<lambda>r. if P r then f r else r) t),
      orm_delete = (\<lambda>P t. filter (\<lambda>r. \<not> P r) t),
      orm_null_ignored = skip, orm_undefined_ignored = skip\<rparr>"

abbreviation typeorm_list :: "('e \<Rightarrow> string) \<Rightarrow> 'e orm" where
  "typeorm_list \<equiv> list_orm True"

abbreviation strict_list :: "('e \<Rightarrow> string) \<Rightarrow> 'e orm" where
  "strict_list \<equiv> list_orm False"

interpretation mem: repository "list_orm skip key" key for skip :: bool and key :: "'e \<Rightarrow> string"
proof unfold_locales
  fix P le and t :: "'e list" and n
  show "\<exists>ys. mset ys = filter_mset P (mset t) \<and> (preorder_by le \<longrightarrow> sorted_wrt le ys) \<and>
       orm_find (list_orm skip key) P le n t = page n ys"
    by (rule exI [of _ "isort_by le (filter P t)"]) (simp add: list_orm_def sorted_isort_by)
qed (simp_all add: list_orm_def)

lemmas list_orm_repository [intro, simp] = mem.repository_axioms

lemma list_orm_simps [simp]:
  "orm_find (list_orm skip key) P le n t = page n (isort_by le (filter P t))"
  "orm_save (list_orm skip key) e t = filter (\<lambda>r. key r \<noteq> key e) t @ [e]"
  "orm_update (list_orm skip key) P f t = map (\<lambda>r. if P r then f r else r) t"
  "orm_delete (list_orm skip key) P t = filter (\<lambda>r. \<not> P r) t"
  "orm_null_ignored (list_orm skip key) = skip"
  "orm_undefined_ignored (list_orm skip key) = skip"
  by (simp_all add: list_orm_def)

lemma page_simps [simp]: "page None ys = ys" "page (Some k) ys = take k ys"
  by (simp_all add: page_def)

lemma find_one_list [simp]:
  "find_one (list_orm skip key) P t = (case isort_by any_order (filter P t) of [] \<Rightarrow> None | e # _ \<Rightarrow> Some e)"
  by (simp add: find_one_def find_one_by_def split: list.splits)

end
