(* ===== verification/EntitiesPeople.thy ===== *)
theory EntitiesPeople
  imports Prelude
begin

text \<open>
  Tables of people and tenants (database/entities: user, organization, refresh-token,
  subscription, audit-log).

  One record per TypeORM entity, a field per column, in the order of the class. A nullable
  column is an \<open>option\<close>, a timestamp is the number of milliseconds since the epoch, an enum is
  a datatype with the string value it has in the database, a decimal or float column is a
  \<open>real\<close>. Relation properties (\<open>@ManyToOne\<close>) are no columns: the code that asks for them
  joins on the id, and the model looks the row up. The columns \<open>passwordHash\<close> and \<open>agentToken\<close> of a user
  are declared \<open>select: false\<close>: they are fields of the row, which a query does not return unless it names
  them. The code modelled here reads them only where it does.
\<close>

datatype json =
    JNull
  | JBool bool
  | JNum int
  | JStr string
  | JArr "json list"
  | JObj "(string \<times> json) list"

datatype UserRole = ADMIN | MANAGER | EMPLOYEE

fun role_str :: "UserRole \<Rightarrow> string" where
  "role_str ADMIN = ''admin''"
| "role_str MANAGER = ''manager''"
| "role_str EMPLOYEE = ''employee''"

datatype OrgPlan = STARTER | PRO | ENTERPRISE

datatype SubscriptionStatus = ACTIVE | PAST_DUE | CANCELED | TRIALING

fun sub_status_str :: "SubscriptionStatus \<Rightarrow> string" where
  "sub_status_str ACTIVE = ''active''"
| "sub_status_str PAST_DUE = ''past_due''"
| "sub_status_str CANCELED = ''canceled''"
| "sub_status_str TRIALING = ''trialing''"

record User =
  u_id :: string
  u_organizationId :: string
  u_email :: string
  u_passwordHash :: string
  u_firstName :: string
  u_lastName :: string
  u_role :: UserRole
  u_avatarUrl :: "string option"
  u_emailVerified :: bool
  u_isActive :: bool
  u_agentToken :: "string option"
  u_invitedBy :: "string option"
  u_createdAt :: js_time
  u_updatedAt :: js_time

record Organization =
  org_id :: string
  org_name :: string
  org_slug :: string
  org_plan :: OrgPlan
  org_seats :: int
  org_logoUrl :: "string option"
  org_website :: "string option"
  org_timezone :: "string option"
  org_screenshotIntervalSec :: int
  org_isActive :: bool
  org_streamingEnabled :: bool
  org_cameraEnabled :: bool
  org_audioEnabled :: bool
  org_maxStreamFps :: int
  org_dailyBandwidthCapMb :: int
  org_createdAt :: js_time
  org_updatedAt :: js_time

record RefreshToken =
  rt_id :: string
  rt_userId :: string
  rt_organizationId :: string
  rt_token :: string
  rt_expiresAt :: js_time
  rt_revoked :: bool
  rt_revokedAt :: "js_time option"
  rt_createdAt :: js_time

record Subscription =
  sub_id :: string
  sub_organizationId :: string
  sub_stripeCustomerId :: "string option"
  sub_stripeSubscriptionId :: "string option"
  sub_plan :: "string option"
  sub_stripePriceId :: "string option"
  sub_status :: SubscriptionStatus
  sub_seats :: int
  sub_currentPeriodStart :: "js_time option"
  sub_currentPeriodEnd :: "js_time option"
  sub_canceledAt :: "js_time option"
  sub_createdAt :: js_time
  sub_updatedAt :: js_time

record AuditLog =
  lg_id :: string
  lg_organizationId :: string
  lg_actorId :: "string option"
  lg_actorEmail :: string
  lg_action :: string
  lg_resourceType :: string
  lg_resourceId :: "string option"
  lg_metadata :: "json option"
  lg_ipAddress :: "string option"
  lg_createdAt :: js_time

end
