(* ===== verification/EntitiesAgent.thy ===== *)
theory EntitiesAgent
  imports EntitiesPeople
begin

text \<open>
  Tables fed by the desktop agent, alerts and integrations (database/entities: agent-device,
  activity-event, screenshot, agent-metric, keystroke-event, agent-telemetry, gps-location,
  geofence, stream-session, alert-rule, alert-event, webhook-endpoint, webhook-delivery,
  slack-integration).

  One record per TypeORM entity, a field per column, in the order of the class. A nullable
  column is an \<open>option\<close>, a timestamp is the number of milliseconds since the epoch, an enum is
  a datatype with the string value it has in the database, a decimal or float column is a
  \<open>real\<close>. Relation properties (\<open>@ManyToOne\<close>) are no columns: the code that asks for them
  joins on the id, and the model looks the row up.
\<close>

datatype StreamMode = Mode_idle | Mode_grid | Mode_full

datatype AlertType = IDLE_TOO_LONG | OVERTIME | LATE_CLOCK_IN | PRODUCTIVITY_BELOW

fun alert_type_str :: "AlertType \<Rightarrow> string" where
  "alert_type_str IDLE_TOO_LONG = ''idle_too_long''"
| "alert_type_str OVERTIME = ''overtime''"
| "alert_type_str LATE_CLOCK_IN = ''late_clock_in''"
| "alert_type_str PRODUCTIVITY_BELOW = ''productivity_below''"

record AgentDevice =
  ad_id :: string
  ad_organizationId :: string
  ad_userId :: string
  ad_deviceToken :: string
  ad_hostname :: "string option"
  ad_displayName :: "string option"
  ad_platform :: "string option"
  ad_agentVersion :: "string option"
  ad_lastSeenAt :: "js_time option"
  ad_isActive :: bool
  ad_createdAt :: js_time

record ActivityEvent =
  ae_id :: string
  ae_userId :: string
  ae_organizationId :: string
  ae_deviceId :: "string option"
  ae_appName :: string
  ae_windowTitle :: "string option"
  ae_startedAt :: js_time
  ae_durationSec :: int
  ae_keystrokeCount :: int
  ae_createdAt :: js_time

record Screenshot =
  ss_id :: string
  ss_userId :: string
  ss_organizationId :: string
  ss_deviceId :: "string option"
  ss_s3Key :: string
  ss_capturedAt :: js_time
  ss_fileSizeBytes :: int
  ss_createdAt :: js_time

record AgentMetric =
  am_id :: string
  am_employeeId :: string
  am_orgId :: string
  am_cpuPercent :: real
  am_memUsedMb :: real
  am_memTotalMb :: real
  am_agentCpuPercent :: real
  am_agentMemMb :: real
  am_recordedAt :: js_time
  am_createdAt :: js_time

record KeystrokeEvent =
  ke_id :: string
  ke_userId :: string
  ke_organizationId :: string
  ke_keysPerMin :: int
  ke_mousePerMin :: int
  ke_recordedAt :: js_time
  ke_createdAt :: js_time

record AgentTelemetry =
  at_id :: string
  at_userId :: string
  at_organizationId :: string
  at_agentVersion :: string
  at_os :: string
  at_uptimeSec :: int
  at_memUsedMb :: real
  at_cpuPercent :: real
  at_lastSyncSuccess :: bool
  at_lastSyncLatencyMs :: int
  at_bufferedEvents :: int
  at_syncErrorCount :: int
  at_hasScreenRecording :: bool
  at_hasAccessibility :: bool
  at_urlDetectionLayer :: int
  at_recordedAt :: js_time
  at_createdAt :: js_time

record GpsLocation =
  gl_id :: string
  gl_userId :: string
  gl_organizationId :: string
  gl_lat :: real
  gl_lng :: real
  gl_accuracy :: "real option"
  gl_batteryLevel :: "real option"
  gl_recordedAt :: js_time
  gl_createdAt :: js_time

record Geofence =
  gf_id :: string
  gf_organizationId :: string
  gf_name :: string
  gf_lat :: real
  gf_lng :: real
  gf_radiusMeters :: int
  gf_autoClockIn :: bool
  gf_autoClockOut :: bool
  gf_isActive :: bool
  gf_createdAt :: js_time
  gf_updatedAt :: js_time

record StreamSession =
  st_id :: string
  st_userId :: string
  st_organizationId :: string
  st_socketId :: "string option"
  st_startedAt :: js_time
  st_endedAt :: "js_time option"
  st_bytesRx :: string
  st_bytesTx :: string
  st_isActive :: bool
  st_mode :: StreamMode
  st_disconnectReason :: "string option"

record AlertRule =
  ar_id :: string
  ar_organizationId :: string
  ar_name :: string
  ar_metric :: "string option"
  ar_type :: AlertType
  ar_threshold :: int
  ar_enabled :: bool
  ar_notifyEmail :: bool
  ar_notifyInApp :: bool
  ar_createdAt :: js_time
  ar_updatedAt :: js_time

record AlertEvent =
  al_id :: string
  al_organizationId :: string
  al_userId :: string
  al_ruleId :: "string option"
  al_type :: "AlertType option"
  al_message :: "string option"
  al_seenAt :: "js_time option"
  al_triggeredAt :: js_time
  al_createdAt :: js_time

record WebhookEndpoint =
  we_id :: string
  we_organizationId :: string
  we_url :: string
  we_secret :: "string option"
  we_events :: "string list"
  we_isActive :: bool
  we_createdAt :: js_time
  we_updatedAt :: js_time

record WebhookDelivery =
  wd_id :: string
  wd_endpointId :: "string option"
  wd_eventType :: string
  wd_payload :: json
  wd_statusCode :: "int option"
  wd_attemptCount :: int
  wd_succeeded :: bool
  wd_deliveredAt :: "js_time option"
  wd_createdAt :: js_time

record SlackIntegration =
  sl_id :: string
  sl_organizationId :: string
  sl_webhookUrl :: string
  sl_isActive :: bool
  sl_createdAt :: js_time
  sl_updatedAt :: js_time

end
