(* ===== verification/KeyValueStore.thy ===== *)
theory KeyValueStore
  imports Prelude
begin

text \<open>
  RedisService and TokenService (infrastructure/redis, infrastructure/token).

  \<open>RedisService\<close> forwards to an ioredis client when \<open>REDIS_URL\<close> is set and otherwise keeps the
  entries in a \<open>Map\<close> with absolute expiry times that is mirrored to a JSON file. The ioredis
  client is third-party: a record of its operations over its own state, with the documented
  behaviour of SET, SETEX, GET, DEL and EXISTS as the locale \<open>redis_server\<close>. The interface
  the rest of the API is written against is \<open>'s kv\<close> (the injected service) with the locale
  \<open>kv_store\<close>; \<open>redis_kv\<close> is the code's implementation and is shown to provide it in both
  modes.
\<close>

section \<open>The interface of the injected store\<close>

record 's kv =
  kv_set :: "js_time \<Rightarrow> string \<Rightarrow> string \<Rightarrow> int option \<Rightarrow> 's \<Rightarrow> 's"
  kv_get :: "js_time \<Rightarrow> string \<Rightarrow> 's \<Rightarrow> string option \<times> 's"
  kv_del :: "string \<Rightarrow> 's \<Rightarrow> 's"
  kv_exists :: "js_time \<Rightarrow> string \<Rightarrow> 's \<Rightarrow> bool \<times> 's"

text \<open>An entry written at \<open>t\<close> with a time to live is readable at \<open>t'\<close>; no TTL, or 0, is forever.\<close>

definition unexpired :: "js_time \<Rightarrow> int option \<Rightarrow> js_time \<Rightarrow> bool" where
  "unexpired t ttl t' = (case ttl of None \<Rightarrow> True | Some n \<Rightarrow> n = 0 \<or> t' \<le> t + n * 1000)"

locale kv_store =
  fixes K :: "'s kv" and live :: "js_time \<Rightarrow> string \<Rightarrow> 's \<Rightarrow> string option"
  assumes get_live: "fst (kv_get K t k s) = live t k s"
  and get_frame: "t \<le> t' \<Longrightarrow> live t' k' (snd (kv_get K t k s)) = live t' k' s"
  and set_live: "t \<le> t' \<Longrightarrow> live t' k' (kv_set K t k v ttl s) =
     (if k' = k then if unexpired t ttl t' then Some v else None else live t' k' s)"
  and del_live: "live t' k' (kv_del K k s) = (if k' = k then None else live t' k' s)"
  and exists_live: "fst (kv_exists K t k s) = (live t k s \<noteq> None)"
  and exists_frame: "t \<le> t' \<Longrightarrow> live t' k' (snd (kv_exists K t k s)) = live t' k' s"
begin

lemma get_after_set:
  "t \<le> t' \<Longrightarrow> unexpired t ttl t' \<Longrightarrow> fst (kv_get K t' k (kv_set K t k v ttl s)) = Some v"
  by (simp add: get_live set_live)

lemma get_expired:
  "t \<le> t' \<Longrightarrow> \<not> unexpired t ttl t' \<Longrightarrow> fst (kv_get K t' k (kv_set K t k v ttl s)) = None"
  by (simp add: get_live set_live)

lemma get_other:
  "t \<le> t' \<Longrightarrow> k' \<noteq> k \<Longrightarrow> fst (kv_get K t' k' (kv_set K t k v ttl s)) = fst (kv_get K t' k' s)"
  by (simp add: get_live set_live)

lemma get_deleted: "fst (kv_get K t k (kv_del K k s)) = None"
  by (simp add: get_live del_live)

lemmas kv_laws = get_live get_frame set_live del_live exists_live exists_frame

end

section \<open>RedisService\<close>

record MemEntry =
  me_value :: string
  me_expiresAt :: "js_time option"

record 'c redis_client =
  rc_set :: "js_time \<Rightarrow> string \<Rightarrow> string \<Rightarrow> 'c \<Rightarrow> 'c"
  rc_setex :: "js_time \<Rightarrow> string \<Rightarrow> int \<Rightarrow> string \<Rightarrow> 'c \<Rightarrow> 'c"
  rc_get :: "js_time \<Rightarrow> string \<Rightarrow> 'c \<Rightarrow> string option"
  rc_del :: "string \<Rightarrow> 'c \<Rightarrow> 'c"
  rc_exists :: "js_time \<Rightarrow> string \<Rightarrow> 'c \<Rightarrow> int"

record 'c RedisService =
  rs_client :: "'c option"
  rs_mem :: "string \<rightharpoonup> MemEntry"
  rs_disk :: "(string \<rightharpoonup> MemEntry) option"

text \<open>
  \<open>saveToDisk\<close> overwrites the file with every entry, expired ones included; \<open>io\<close> says whether the
  write succeeds (a failure is logged and dropped). \<open>loadFromDisk\<close> reads the file once at
  start-up; a missing or unreadable file (\<open>None\<close>) is a fresh start.
\<close>

definition saveToDisk :: "bool \<Rightarrow> 'c RedisService \<Rightarrow> 'c RedisService" where
  "saveToDisk io s = (if io then s\<lparr>rs_disk := Some (rs_mem s)\<rparr> else s)"

definition loadFromDisk :: "js_time \<Rightarrow> 'c RedisService \<Rightarrow> 'c RedisService" where
  "loadFromDisk now s = (case rs_disk s of
     None \<Rightarrow> s
   | Some entries \<Rightarrow> s\<lparr>rs_mem := (\<lambda>k. case entries k of
       None \<Rightarrow> rs_mem s k
     | Some v \<Rightarrow> (case me_expiresAt v of
         None \<Rightarrow> Some v
       | Some e \<Rightarrow> if e > now then Some v else rs_mem s k))\<rparr>)"

definition redis_onModuleInit ::
  "(string \<Rightarrow> 'c) \<Rightarrow> string option \<Rightarrow> js_time \<Rightarrow> 'c RedisService \<Rightarrow> 'c RedisService" where
  "redis_onModuleInit connect redisUrl now s =
     (if falsy_str redisUrl then loadFromDisk now s
      else s\<lparr>rs_client := Some (connect (the redisUrl))\<rparr>)"

definition redis_set ::
  "'c redis_client \<Rightarrow> bool \<Rightarrow> js_time \<Rightarrow> string \<Rightarrow> string \<Rightarrow> int option \<Rightarrow> 'c RedisService \<Rightarrow> 'c RedisService" where
  "redis_set C io now k v ttl s = (case rs_client s of
     Some c \<Rightarrow> s\<lparr>rs_client := Some
       (if nullish ttl 0 \<noteq> 0 then rc_setex C now k (nullish ttl 0) v c else rc_set C now k v c)\<rparr>
   | None \<Rightarrow>
       let entry = \<lparr>me_value = v,
         me_expiresAt = (if nullish ttl 0 \<noteq> 0 then Some (now + nullish ttl 0 * 1000) else None)\<rparr>
       in saveToDisk io (s\<lparr>rs_mem := (rs_mem s)(k \<mapsto> entry)\<rparr>))"

definition redis_get ::
  "'c redis_client \<Rightarrow> bool \<Rightarrow> js_time \<Rightarrow> string \<Rightarrow> 'c RedisService \<Rightarrow> string option \<times> 'c RedisService" where
  "redis_get C io now k s = (case rs_client s of
     Some c \<Rightarrow> (rc_get C now k c, s)
   | None \<Rightarrow> (case rs_mem s k of
       None \<Rightarrow> (None, s)
     | Some entry \<Rightarrow>
         if (case me_expiresAt entry of None \<Rightarrow> False | Some e \<Rightarrow> now > e)
         then (None, saveToDisk io (s\<lparr>rs_mem := (rs_mem s)(k := None)\<rparr>))
         else (Some (me_value entry), s)))"

definition redis_del :: "'c redis_client \<Rightarrow> bool \<Rightarrow> string \<Rightarrow> 'c RedisService \<Rightarrow> 'c RedisService" where
  "redis_del C io k s = (case rs_client s of
     Some c \<Rightarrow> s\<lparr>rs_client := Some (rc_del C k c)\<rparr>
   | None \<Rightarrow> saveToDisk io (s\<lparr>rs_mem := (rs_mem s)(k := None)\<rparr>))"

definition redis_exists ::
  "'c redis_client \<Rightarrow> bool \<Rightarrow> js_time \<Rightarrow> string \<Rightarrow> 'c RedisService \<Rightarrow> bool \<times> 'c RedisService" where
  "redis_exists C io now k s = (case rs_client s of
     Some c \<Rightarrow> (rc_exists C now k c = 1, s)
   | None \<Rightarrow> (case redis_get C io now k s of (v, s') \<Rightarrow> (v \<noteq> None, s')))"

definition redis_kv :: "'c redis_client \<Rightarrow> bool \<Rightarrow> 'c RedisService kv" where
  "redis_kv C io = \<lparr>kv_set = redis_set C io, kv_get = redis_get C io, kv_del = redis_del C io,
     kv_exists = redis_exists C io\<rparr>"

lemmas redis_defs = redis_kv_def redis_set_def redis_get_def redis_del_def redis_exists_def
  saveToDisk_def

text \<open>What a reader sees at a time: the entry, unless its expiry time has passed.\<close>

definition mem_live :: "js_time \<Rightarrow> string \<Rightarrow> (string \<rightharpoonup> MemEntry) \<Rightarrow> string option" where
  "mem_live t k m = (case m k of
     None \<Rightarrow> None
   | Some e \<Rightarrow> if (case me_expiresAt e of None \<Rightarrow> True | Some x \<Rightarrow> t \<le> x)
              then Some (me_value e) else None)"

definition redis_live ::
  "(js_time \<Rightarrow> string \<Rightarrow> 'c \<Rightarrow> string option) \<Rightarrow> js_time \<Rightarrow> string \<Rightarrow> 'c RedisService \<Rightarrow> string option" where
  "redis_live rl t k s = (case rs_client s of Some c \<Rightarrow> rl t k c | None \<Rightarrow> mem_live t k (rs_mem s))"

locale redis_server =
  fixes C :: "'c redis_client" and rl :: "js_time \<Rightarrow> string \<Rightarrow> 'c \<Rightarrow> string option"
  assumes rc_get: "rc_get C t k c = rl t k c"
  and rc_exists: "rc_exists C t k c = (if rl t k c = None then 0 else 1)"
  and rc_set: "t \<le> t' \<Longrightarrow> rl t' k' (rc_set C t k v c) = (if k' = k then Some v else rl t' k' c)"
  and rc_setex: "t \<le> t' \<Longrightarrow> n \<noteq> 0 \<Longrightarrow> rl t' k' (rc_setex C t k n v c) =
     (if k' = k then if t' \<le> t + n * 1000 then Some v else None else rl t' k' c)"
  and rc_del: "rl t' k' (rc_del C k c) = (if k' = k then None else rl t' k' c)"

sublocale redis_server \<subseteq> served: kv_store "redis_kv C io" "redis_live rl" for io :: bool
proof unfold_locales
  fix t t' k k' v ttl s
  show "fst (kv_get (redis_kv C io) t k s) = redis_live rl t k s"
    by (auto simp: redis_defs redis_live_def mem_live_def rc_get split: option.splits)
  show "fst (kv_exists (redis_kv C io) t k s) = (redis_live rl t k s \<noteq> None)"
    by (auto simp: redis_defs redis_live_def mem_live_def rc_exists split: option.splits)
  show "redis_live rl t' k' (kv_del (redis_kv C io) k s) =
      (if k' = k then None else redis_live rl t' k' s)"
    by (auto simp: redis_defs redis_live_def mem_live_def rc_del split: option.splits)
  assume t: "t \<le> t'"
  show "redis_live rl t' k' (snd (kv_get (redis_kv C io) t k s)) = redis_live rl t' k' s"
    using t by (auto simp: redis_defs redis_live_def mem_live_def split: option.splits)
  show "redis_live rl t' k' (snd (kv_exists (redis_kv C io) t k s)) = redis_live rl t' k' s"
    using t by (auto simp: redis_defs redis_live_def mem_live_def split: option.splits)
  show "redis_live rl t' k' (kv_set (redis_kv C io) t k v ttl s) =
      (if k' = k then if unexpired t ttl t' then Some v else None else redis_live rl t' k' s)"
    using t by (auto simp: redis_defs redis_live_def mem_live_def unexpired_def Let_def rc_set
        rc_setex nullish_def split: option.splits)
qed

context redis_server
begin

lemma served_store: "kv_store (redis_kv C io) (redis_live rl)"
  by (rule served.kv_store_axioms)

end

text \<open>A server held in memory: the concrete parameter the witnesses use.\<close>

definition map_client :: "(string \<rightharpoonup> MemEntry) redis_client" where
  "map_client = \<lparr>
     rc_set = (\<lambda>t k v m. m(k \<mapsto> \<lparr>me_value = v, me_expiresAt = None\<rparr>)),
     rc_setex = (\<lambda>t k n v m. m(k \<mapsto> \<lparr>me_value = v, me_expiresAt = Some (t + n * 1000)\<rparr>)),
     rc_get = mem_live, rc_del = (\<lambda>k m. m(k := None)),
     rc_exists = (\<lambda>t k m. if mem_live t k m = None then 0 else 1)\<rparr>"

interpretation map_server: redis_server map_client mem_live
  by unfold_locales (auto simp: map_client_def mem_live_def)

abbreviation file_kv :: "(string \<rightharpoonup> MemEntry) RedisService kv" where
  "file_kv \<equiv> redis_kv map_client True"

definition empty_redis :: "(string \<rightharpoonup> MemEntry) RedisService" where
  "empty_redis = \<lparr>rs_client = None, rs_mem = Map.empty, rs_disk = None\<rparr>"

section \<open>Restart\<close>

lemma mem_live_mono: "t \<le> t' \<Longrightarrow> mem_live t k m = None \<Longrightarrow> mem_live t' k m = None"
  by (auto simp: mem_live_def split: option.splits if_splits)

lemma loadFromDisk_live:
  assumes "rs_client s = None" and "rs_disk s = Some d" and "rs_mem s = Map.empty" and "now < t"
  shows "redis_live rl t k (loadFromDisk now s) = mem_live t k d"
  using assms by (auto simp: loadFromDisk_def redis_live_def mem_live_def split: option.splits)

section \<open>TokenService\<close>

datatype TokenPurpose = Email_verify | Invite | Password_reset

fun purpose_str :: "TokenPurpose \<Rightarrow> string" where
  "purpose_str Email_verify = ''email-verify''"
| "purpose_str Invite = ''invite''"
| "purpose_str Password_reset = ''password-reset''"

fun token_ttl :: "TokenPurpose \<Rightarrow> int" where
  "token_ttl Email_verify = 86400"
| "token_ttl Invite = 259200"
| "token_ttl Password_reset = 3600"

definition token_key :: "TokenPurpose \<Rightarrow> string \<Rightarrow> string" where
  "token_key p tok = ''token:'' @ purpose_str p @ '':'' @ tok"

definition token_generate ::
  "'s kv \<Rightarrow> js_time \<Rightarrow> string \<Rightarrow> TokenPurpose \<Rightarrow> string \<Rightarrow> 's \<Rightarrow> string \<times> 's" where
  "token_generate K now rand p userId s =
     (rand, kv_set K now (token_key p rand) userId (Some (token_ttl p)) s)"

definition token_peek ::
  "'s kv \<Rightarrow> js_time \<Rightarrow> TokenPurpose \<Rightarrow> string \<Rightarrow> 's \<Rightarrow> string option \<times> 's" where
  "token_peek K now p tok s = kv_get K now (token_key p tok) s"

definition token_consume ::
  "'s kv \<Rightarrow> js_time \<Rightarrow> TokenPurpose \<Rightarrow> string \<Rightarrow> 's \<Rightarrow> string option \<times> 's" where
  "token_consume K now p tok s =
     (case kv_get K now (token_key p tok) s of
        (userId, s1) \<Rightarrow> (userId, if falsy_str userId then s1 else kv_del K (token_key p tok) s1))"

lemma token_key_inj: "token_key p a = token_key q b \<longleftrightarrow> p = q \<and> a = b"
  by (cases p; cases q) (auto simp: token_key_def)

lemma token_ttl_pos [simp]: "token_ttl p > 0" "token_ttl p \<noteq> 0"
  by (cases p; simp)+

context kv_store
begin

lemma consume_live: "fst (token_consume K t p tok s) = live t (token_key p tok) s"
  by (simp add: token_consume_def get_live [symmetric] split: prod.splits)

lemma consume_frame:
  assumes "t \<le> t'"
  shows "live t' k (snd (token_consume K t p tok s)) =
    (if k = token_key p tok \<and> \<not> falsy_str (live t k s) then None else live t' k s)"
proof -
  obtain v s1 where g: "kv_get K t (token_key p tok) s = (v, s1)" by fastforce
  have v: "v = live t (token_key p tok) s" using get_live [of t "token_key p tok" s] g by simp
  have f: "live t' x s1 = live t' x s" for x
    using get_frame [OF assms, of x "token_key p tok" s] g by simp
  show ?thesis using v f by (auto simp: token_consume_def g del_live)
qed

lemma generate_live:
  "t \<le> t' \<Longrightarrow> live t' k (snd (token_generate K t r p u s)) =
    (if k = token_key p r then if t' \<le> t + token_ttl p * 1000 then Some u else None else live t' k s)"
  by (auto simp: token_generate_def set_live unexpired_def)

lemma consume_once:
  assumes "t \<le> t'" and "fst (token_consume K t p tok s) = Some u" and "u \<noteq> []"
  shows "fst (token_consume K t' p tok (snd (token_consume K t p tok s))) = None"
proof -
  have "live t (token_key p tok) s = Some u" using assms(2) by (simp add: consume_live)
  then show ?thesis using assms(3) by (simp add: consume_live consume_frame [OF assms(1)])
qed

lemma consume_generated:
  assumes "t \<le> t'" and "u \<noteq> []"
  shows "fst (token_consume K t' q tok (snd (token_generate K t r p u s))) =
    (if q = p \<and> tok = r then if t' \<le> t + token_ttl p * 1000 then Some u else None
     else live t' (token_key q tok) s)"
  using assms by (auto simp: consume_live generate_live token_key_inj)

end

end
