(* ===== verification/EntitiesWork.thy ===== *)
theory EntitiesWork
  imports Prelude
begin

text \<open>
  Tables of working time and projects (database/entities: attendance, time-entry, timesheet,
  project, task, task-comment, milestone).

  One record per TypeORM entity, a field per column, in the order of the class. A nullable
  column is an \<open>option\<close>, a timestamp is the number of milliseconds since the epoch, an enum is
  a datatype with the string value it has in the database, a decimal or float column is a
  \<open>real\<close>. Relation properties (\<open>@ManyToOne\<close>) are no columns: the code that asks for them
  joins on the id, and the model looks the row up.
\<close>

datatype TimeEntrySource = AUTOMATIC | MANUAL | EDITED

fun source_str :: "TimeEntrySource \<Rightarrow> string" where
  "source_str AUTOMATIC = ''automatic''"
| "source_str MANUAL = ''manual''"
| "source_str EDITED = ''edited''"

datatype TimesheetStatus = DRAFT | SUBMITTED | APPROVED | REJECTED

fun ts_status_str :: "TimesheetStatus \<Rightarrow> string" where
  "ts_status_str DRAFT = ''draft''"
| "ts_status_str SUBMITTED = ''submitted''"
| "ts_status_str APPROVED = ''approved''"
| "ts_status_str REJECTED = ''rejected''"

record Attendance =
  att_id :: string
  att_userId :: string
  att_organizationId :: string
  att_clockIn :: js_time
  att_clockOut :: "js_time option"
  att_locationLat :: "real option"
  att_locationLng :: "real option"
  att_note :: "string option"
  att_createdAt :: js_time

record TimeEntry =
  te_id :: string
  te_userId :: string
  te_organizationId :: string
  te_attendanceId :: "string option"
  te_projectId :: "string option"
  te_taskId :: "string option"
  te_startedAt :: js_time
  te_endedAt :: "js_time option"
  te_source :: TimeEntrySource
  te_description :: "string option"
  te_createdAt :: js_time
  te_updatedAt :: js_time

record Timesheet =
  ts_id :: string
  ts_userId :: string
  ts_organizationId :: string
  ts_weekStart :: string
  ts_totalMinutes :: int
  ts_status :: TimesheetStatus
  ts_submittedAt :: "js_time option"
  ts_approvedBy :: "string option"
  ts_approvedAt :: "js_time option"
  ts_rejectionNote :: "string option"
  ts_createdAt :: js_time
  ts_updatedAt :: js_time

record Project =
  pr_id :: string
  pr_organizationId :: string
  pr_name :: string
  pr_description :: "string option"
  pr_status :: string
  pr_deadline :: "js_time option"
  pr_color :: string
  pr_createdBy :: string
  pr_createdAt :: js_time
  pr_updatedAt :: js_time

record Task =
  tk_id :: string
  tk_projectId :: string
  tk_organizationId :: string
  tk_assigneeId :: "string option"
  tk_title :: string
  tk_description :: "string option"
  tk_status :: string
  tk_priority :: string
  tk_estimatedHours :: "real option"
  tk_dueDate :: "js_time option"
  tk_position :: int
  tk_createdBy :: "string option"
  tk_createdAt :: js_time
  tk_updatedAt :: js_time

record TaskComment =
  tc_id :: string
  tc_taskId :: string
  tc_userId :: string
  tc_content :: string
  tc_createdAt :: js_time
  tc_updatedAt :: js_time

record Milestone =
  ms_id :: string
  ms_projectId :: string
  ms_organizationId :: string
  ms_name :: string
  ms_dueDate :: "js_time option"
  ms_completedAt :: "js_time option"
  ms_createdAt :: js_time
  ms_updatedAt :: js_time

end
