(* ===== verification/AuditTrail.thy ===== *)
theory AuditTrail
  imports EntitiesPeople
begin

text \<open>
  AuditLogService (modules/admin/audit-log.service.ts): the append-only audit trail other
  services write to, and the filtered, paged listing of it. The id and the time of a new row
  are arguments, since the database generates them.
\<close>

record AuditActor =
  aa_id :: "string option"
  aa_email :: string

record GetLogsFilters =
  lf_actorId :: "string option"
  lf_action :: "string option"
  lf_from :: "js_time option"
  lf_to :: "js_time option"
  lf_limit :: "nat option"
  lf_offset :: "nat option"

definition audit_log ::
  "AuditLog orm \<Rightarrow> string \<Rightarrow> js_time \<Rightarrow> string \<Rightarrow> AuditActor \<Rightarrow> string \<Rightarrow> string \<Rightarrow> string option \<Rightarrow>
   json option \<Rightarrow> string option \<Rightarrow> AuditLog list \<Rightarrow> AuditLog list" where
  "audit_log R newId now organizationId actor action resourceType resourceId metadata ipAddress t =
     orm_save R \<lparr>lg_id = newId, lg_organizationId = organizationId, lg_actorId = aa_id actor,
       lg_actorEmail = aa_email actor, lg_action = action, lg_resourceType = resourceType,
       lg_resourceId = resourceId, lg_metadata = metadata, lg_ipAddress = ipAddress,
       lg_createdAt = now\<rparr> t"

text \<open>A filter that is absent or an empty string adds no condition.\<close>

definition log_matches :: "string \<Rightarrow> GetLogsFilters \<Rightarrow> AuditLog \<Rightarrow> bool" where
  "log_matches orgId f l \<longleftrightarrow>
     lg_organizationId l = orgId \<and>
     (falsy_str (lf_actorId f) \<or> lg_actorId l = lf_actorId f) \<and>
     (falsy_str (lf_action f) \<or> Some (lg_action l) = lf_action f) \<and>
     (case lf_from f of None \<Rightarrow> True | Some d \<Rightarrow> lg_createdAt l \<ge> d) \<and>
     (case lf_to f of None \<Rightarrow> True | Some d \<Rightarrow> lg_createdAt l \<le> d)"

definition getLogs ::
  "AuditLog orm \<Rightarrow> string \<Rightarrow> GetLogsFilters \<Rightarrow> AuditLog list \<Rightarrow> AuditLog list \<times> nat" where
  "getLogs R organizationId filters t =
     (let limit = nullish (lf_limit filters) 50;
          offset = nullish (lf_offset filters) 0;
          P = log_matches organizationId filters
      in (drop offset (orm_find R P (desc lg_createdAt) (Some (offset + limit)) t),
          count_where R P t))"

context repository
begin

lemma count_where_size: "count_where R P t = size (filter_mset P (mset t))"
  by (simp add: count_where_def find_count)

lemma drop_find_length: "length (drop k (orm_find R P le (Some (k + n)) t)) \<le> n"
  using find_length [of P le "k + n" t] by simp

lemma drop_find_subset: "e \<in> set (drop k (orm_find R P le n t)) \<Longrightarrow> e \<in> set t \<and> P e"
  using find_subset [of e P le n t] by (auto dest: in_set_dropD)

lemma drop_find_sorted: "preorder_by le \<Longrightarrow> sorted_wrt le (drop k (orm_find R P le n t))"
  by (simp add: find_sorted sorted_wrt_drop)

end

text \<open>
  Audit listing: the page returned by \<open>getLogs\<close> holds only rows of the caller's organisation
  that meet every given filter, newest first, at most \<open>limit\<close> (default 50) of them, and the total
  counts all the matching rows of the table, whatever the page.
\<close>

theorem getLogs_page:
  assumes "repository R lg_id"
  shows "(\<forall>l \<in> set (fst (getLogs R org f t)). l \<in> set t \<and> log_matches org f l) \<and>
    sorted_wrt (desc lg_createdAt) (fst (getLogs R org f t)) \<and>
    length (fst (getLogs R org f t)) \<le> nullish (lf_limit f) 50 \<and>
    snd (getLogs R org f t) = size (filter_mset (log_matches org f) (mset t))"
proof -
  note p = repository.drop_find_subset [OF assms] repository.drop_find_sorted [OF assms]
    repository.drop_find_length [OF assms] repository.count_where_size [OF assms]
  show ?thesis unfolding getLogs_def Let_def fst_conv snd_conv
    by (intro conjI ballI p preorder_desc) (use p(1) in blast)+
qed

definition sample_log :: AuditLog where
  "sample_log = \<lparr>lg_id = ''l1'', lg_organizationId = ''o1'', lg_actorId = Some ''u1'',
     lg_actorEmail = ''a@x'', lg_action = ''user.invited'', lg_resourceType = ''user'',
     lg_resourceId = None, lg_metadata = None, lg_ipAddress = None, lg_createdAt = 5\<rparr>"

definition all_logs :: GetLogsFilters where
  "all_logs = \<lparr>lf_actorId = None, lf_action = Some ''user.invited'', lf_from = Some 1, lf_to = None,
     lf_limit = None, lf_offset = None\<rparr>"

theorem getLogs_page_witness:
  "getLogs (typeorm_list lg_id) ''o1'' all_logs [sample_log] = ([sample_log], 1) \<and>
   length (fst (getLogs (typeorm_list lg_id) ''o1'' all_logs [sample_log])) \<le> 50"
  using getLogs_page [OF list_orm_repository [of True lg_id], of "''o1''" all_logs "[sample_log]"]
  by (simp add: getLogs_def all_logs_def sample_log_def log_matches_def count_where_def)

end
