(* ===== verification/TimeTracking.thy ===== *)
theory TimeTracking
  imports EntitiesWork AuditTrail "HOL-Library.Char_ord" "HOL-Library.List_Lexorder"
begin

text \<open>
  TimeTrackingService (modules/time-tracking): attendance (clock in, clock out), time entries
  and the weekly timesheets with their approval workflow.

  \<open>null\<close> in \<open>where: {clockOut: null}\<close> is \<open>where_null\<close>: skipped or read as SQL's IS NULL, by the
  flag of the repository. \<open>D\<close> is \<open>Date.parse\<close> (None for an Invalid Date), whose result for
  strings outside the ISO format is left to the engine; \<open>plus_days\<close> is \<open>setDate\<close> in the
  server's time zone. A row with an Invalid Date is refused by the database driver.
\<close>

section \<open>State and inputs\<close>

record TimeTrackingService =
  tt_attendance :: "Attendance list"
  tt_entries :: "TimeEntry list"
  tt_timesheets :: "Timesheet list"
  tt_audit :: "AuditLog list"

record ClockInDto =
  ci_locationLat :: "real option"
  ci_locationLng :: "real option"
  ci_note :: "string option"

record ClockOutDto =
  co_note :: "string option"

record ManualEntryDto =
  me_startedAt :: string
  me_endedAt :: string
  me_description :: "string option"

record DateRangeQueryDto =
  dr_from :: "string option"
  dr_to :: "string option"

definition valid_ClockInDto :: "ClockInDto \<Rightarrow> bool" where
  "valid_ClockInDto d \<longleftrightarrow>
     (case ci_locationLat d of None \<Rightarrow> True | Some x \<Rightarrow> -90 \<le> x \<and> x \<le> 90) \<and>
     (case ci_locationLng d of None \<Rightarrow> True | Some x \<Rightarrow> -180 \<le> x \<and> x \<le> 180)"

definition invalid_date :: http_error where
  "invalid_date = PlainError ''invalid input syntax for type timestamp''"

text \<open>
  The date-range condition of the listings is added only when both bounds are non-empty. With an
  Invalid Date as a bound the query is refused (\<open>None\<close>).
\<close>

definition in_range ::
  "(string \<Rightarrow> js_time option) \<Rightarrow> DateRangeQueryDto \<Rightarrow> (js_time \<Rightarrow> bool) option" where
  "in_range D q =
     (if falsy_str (dr_from q) \<or> falsy_str (dr_to q) then Some (\<lambda>_. True)
      else (case (D (the (dr_from q)), D (the (dr_to q))) of
        (Some a, Some b) \<Rightarrow> Some (\<lambda>x. a \<le> x \<and> x \<le> b)
      | _ \<Rightarrow> None))"

section \<open>Attendance\<close>

definition open_of :: "Attendance orm \<Rightarrow> string \<Rightarrow> string \<Rightarrow> Attendance \<Rightarrow> bool" where
  "open_of RA userId organizationId a \<longleftrightarrow>
     att_userId a = userId \<and> att_organizationId a = organizationId \<and>
     where_null RA (att_clockOut a)"

definition getStatus ::
  "Attendance orm \<Rightarrow> string \<Rightarrow> string \<Rightarrow> TimeTrackingService \<Rightarrow> Attendance option" where
  "getStatus RA userId organizationId st =
     find_one RA (open_of RA userId organizationId) (tt_attendance st)"

definition clockIn ::
  "Attendance orm \<Rightarrow> js_time \<Rightarrow> string \<Rightarrow> string \<Rightarrow> string \<Rightarrow> ClockInDto \<Rightarrow> TimeTrackingService \<Rightarrow>
   Attendance outcome \<times> TimeTrackingService" where
  "clockIn RA now newId userId organizationId dto st =
     (case find_one RA (open_of RA userId organizationId) (tt_attendance st) of
        Some _ \<Rightarrow> (Inl (BadRequest ''Already clocked in''), st)
      | None \<Rightarrow>
          let att = \<lparr>att_id = newId, att_userId = userId, att_organizationId = organizationId,
            att_clockIn = now, att_clockOut = None, att_locationLat = ci_locationLat dto,
            att_locationLng = ci_locationLng dto, att_note = ci_note dto, att_createdAt = now\<rparr>
          in (Inr att, st\<lparr>tt_attendance := orm_save RA att (tt_attendance st)\<rparr>))"

definition clockOut ::
  "Attendance orm \<Rightarrow> TimeEntry orm \<Rightarrow> js_time \<Rightarrow> string \<Rightarrow> string \<Rightarrow> string \<Rightarrow> ClockOutDto \<Rightarrow>
   TimeTrackingService \<Rightarrow> (Attendance \<times> TimeEntry) outcome \<times> TimeTrackingService" where
  "clockOut RA RE now newId userId organizationId dto st =
     (case find_one RA (open_of RA userId organizationId) (tt_attendance st) of
        None \<Rightarrow> (Inl (BadRequest ''Not clocked in''), st)
      | Some opened \<Rightarrow>
          let attendance = opened\<lparr>att_clockOut := Some now,
                att_note := (if falsy_str (co_note dto) then att_note opened else co_note dto)\<rparr>;
              entry = \<lparr>te_id = newId, te_userId = userId, te_organizationId = organizationId,
                te_attendanceId = Some (att_id opened), te_projectId = None, te_taskId = None,
                te_startedAt = att_clockIn opened, te_endedAt = Some now, te_source = AUTOMATIC,
                te_description = None, te_createdAt = now, te_updatedAt = now\<rparr>
          in (Inr (attendance, entry),
              st\<lparr>tt_attendance := orm_save RA attendance (tt_attendance st),
                 tt_entries := orm_save RE entry (tt_entries st)\<rparr>))"

definition getAttendance ::
  "Attendance orm \<Rightarrow> (string \<Rightarrow> js_time option) \<Rightarrow> string \<Rightarrow> string \<Rightarrow> DateRangeQueryDto \<Rightarrow>
   TimeTrackingService \<Rightarrow> Attendance list outcome" where
  "getAttendance RA D userId organizationId query st = (case in_range D query of
     None \<Rightarrow> Inl invalid_date
   | Some inside \<Rightarrow> Inr (orm_find RA (\<lambda>a. att_userId a = userId \<and>
       att_organizationId a = organizationId \<and> inside (att_clockIn a))
       (desc att_clockIn) (Some 100) (tt_attendance st)))"

definition getTeamStatus ::
  "Attendance orm \<Rightarrow> string \<Rightarrow> TimeTrackingService \<Rightarrow> Attendance list" where
  "getTeamStatus RA organizationId st =
     orm_find RA (\<lambda>a. att_organizationId a = organizationId \<and> where_null RA (att_clockOut a))
       (asc att_clockIn) None (tt_attendance st)"

section \<open>Time entries\<close>

definition getEntries ::
  "TimeEntry orm \<Rightarrow> (string \<Rightarrow> js_time option) \<Rightarrow> string \<Rightarrow> string \<Rightarrow> DateRangeQueryDto \<Rightarrow>
   TimeTrackingService \<Rightarrow> TimeEntry list outcome" where
  "getEntries RE D userId organizationId query st = (case in_range D query of
     None \<Rightarrow> Inl invalid_date
   | Some inside \<Rightarrow> Inr (orm_find RE (\<lambda>e. te_userId e = userId \<and>
       te_organizationId e = organizationId \<and> inside (te_startedAt e))
       (desc te_startedAt) (Some 200) (tt_entries st)))"

definition createManualEntry ::
  "TimeEntry orm \<Rightarrow> (string \<Rightarrow> js_time option) \<Rightarrow> js_time \<Rightarrow> string \<Rightarrow> string \<Rightarrow> string \<Rightarrow> ManualEntryDto \<Rightarrow>
   TimeTrackingService \<Rightarrow> TimeEntry outcome \<times> TimeTrackingService" where
  "createManualEntry RE D now newId userId organizationId dto st =
     (case (D (me_startedAt dto), D (me_endedAt dto)) of
        (Some startedAt, Some endedAt) \<Rightarrow>
          if endedAt \<le> startedAt then (Inl (BadRequest ''endedAt must be after startedAt''), st)
          else
            let entry = \<lparr>te_id = newId, te_userId = userId, te_organizationId = organizationId,
              te_attendanceId = None, te_projectId = None, te_taskId = None,
              te_startedAt = startedAt, te_endedAt = Some endedAt, te_source = MANUAL,
              te_description = me_description dto, te_createdAt = now, te_updatedAt = now\<rparr>
            in (Inr entry, st\<lparr>tt_entries := orm_save RE entry (tt_entries st)\<rparr>)
      | _ \<Rightarrow> (Inl invalid_date, st))"

definition deleteEntry ::
  "TimeEntry orm \<Rightarrow> string \<Rightarrow> string \<Rightarrow> string \<Rightarrow> TimeTrackingService \<Rightarrow>
   unit outcome \<times> TimeTrackingService" where
  "deleteEntry RE eid userId organizationId st =
     (case find_one RE (\<lambda>e. te_id e = eid \<and> te_userId e = userId \<and>
         te_organizationId e = organizationId) (tt_entries st) of
        None \<Rightarrow> (Inl (NotFound ''Time entry not found''), st)
      | Some entry \<Rightarrow>
          if te_source entry = AUTOMATIC
          then (Inl (BadRequest ''Automatic entries cannot be deleted''), st)
          else (Inr (), st\<lparr>tt_entries := orm_delete RE (\<lambda>e. te_id e = eid) (tt_entries st)\<rparr>))"

section \<open>Timesheets\<close>

definition entry_minutes :: "TimeEntry \<Rightarrow> int" where
  "entry_minutes e = (case te_endedAt e of None \<Rightarrow> 0 | Some t \<Rightarrow> (t - te_startedAt e) div 60000)"

definition week_minutes :: "TimeEntry list \<Rightarrow> int" where
  "week_minutes es = foldl (\<lambda>s e. s + entry_minutes e) 0 es"

definition submitTimesheet ::
  "TimeEntry orm \<Rightarrow> Timesheet orm \<Rightarrow> (string \<Rightarrow> js_time option) \<Rightarrow> (js_time \<Rightarrow> int \<Rightarrow> js_time) \<Rightarrow>
   js_time \<Rightarrow> string \<Rightarrow> string \<Rightarrow> string \<Rightarrow> string \<Rightarrow>
   TimeTrackingService \<Rightarrow> Timesheet outcome \<times> TimeTrackingService" where
  "submitTimesheet RE RT D plus_days now newId userId organizationId weekStart st =
     (let existing = find_one RT (\<lambda>s. ts_userId s = userId \<and>
            ts_organizationId s = organizationId \<and> ts_weekStart s = weekStart) (tt_timesheets st)
      in case map_option ts_status existing of
        Some APPROVED \<Rightarrow> (Inl (BadRequest (''Timesheet is already '' @ ts_status_str APPROVED)), st)
      | Some SUBMITTED \<Rightarrow> (Inl (BadRequest (''Timesheet is already '' @ ts_status_str SUBMITTED)), st)
      | _ \<Rightarrow> (case D weekStart of
          None \<Rightarrow> (Inl invalid_date, st)
        | Some start \<Rightarrow>
            let weekEnd = plus_days start 7;
                entries = orm_find RE (\<lambda>e. te_userId e = userId \<and>
                  te_organizationId e = organizationId \<and>
                  start \<le> te_startedAt e \<and> te_startedAt e \<le> weekEnd) any_order None (tt_entries st);
                totalMinutes = week_minutes entries;
                sheet = (case existing of
                  Some s \<Rightarrow> s\<lparr>ts_totalMinutes := totalMinutes, ts_status := SUBMITTED,
                    ts_submittedAt := Some now, ts_updatedAt := now\<rparr>
                | None \<Rightarrow> \<lparr>ts_id = newId, ts_userId = userId, ts_organizationId = organizationId,
                    ts_weekStart = weekStart, ts_totalMinutes = totalMinutes,
                    ts_status = SUBMITTED, ts_submittedAt = Some now, ts_approvedBy = None,
                    ts_approvedAt = None, ts_rejectionNote = None, ts_createdAt = now,
                    ts_updatedAt = now\<rparr>)
            in (Inr sheet, st\<lparr>tt_timesheets := orm_save RT sheet (tt_timesheets st)\<rparr>)))"

definition approveTimesheet ::
  "Timesheet orm \<Rightarrow> AuditLog orm \<Rightarrow> js_time \<Rightarrow> string \<Rightarrow> string \<Rightarrow> string \<Rightarrow> string \<Rightarrow>
   TimeTrackingService \<Rightarrow> Timesheet outcome \<times> TimeTrackingService" where
  "approveTimesheet RT RL now logId approverId organizationId timesheetId st =
     (case find_one RT (\<lambda>s. ts_id s = timesheetId \<and> ts_organizationId s = organizationId)
        (tt_timesheets st) of
        None \<Rightarrow> (Inl (NotFound ''Timesheet not found''), st)
      | Some sheet \<Rightarrow>
          if ts_status sheet \<noteq> SUBMITTED
          then (Inl (BadRequest ''Only submitted timesheets can be approved''), st)
          else
            let saved = sheet\<lparr>ts_status := APPROVED, ts_approvedBy := Some approverId,
                  ts_approvedAt := Some now, ts_updatedAt := now\<rparr>
            in (Inr saved, st\<lparr>tt_timesheets := orm_save RT saved (tt_timesheets st),
                 tt_audit := audit_log RL logId now organizationId
                   \<lparr>aa_id = Some approverId, aa_email = []\<rparr> ''timesheet.approved'' ''timesheet''
                   (Some timesheetId) None None (tt_audit st)\<rparr>))"

definition rejectTimesheet ::
  "Timesheet orm \<Rightarrow> AuditLog orm \<Rightarrow> js_time \<Rightarrow> string \<Rightarrow> string \<Rightarrow> string \<Rightarrow> string \<Rightarrow> string \<Rightarrow>
   TimeTrackingService \<Rightarrow> Timesheet outcome \<times> TimeTrackingService" where
  "rejectTimesheet RT RL now logId approverId organizationId timesheetId rejectionNote st =
     (case find_one RT (\<lambda>s. ts_id s = timesheetId \<and> ts_organizationId s = organizationId)
        (tt_timesheets st) of
        None \<Rightarrow> (Inl (NotFound ''Timesheet not found''), st)
      | Some sheet \<Rightarrow>
          if ts_status sheet \<noteq> SUBMITTED
          then (Inl (BadRequest ''Only submitted timesheets can be rejected''), st)
          else
            let saved = sheet\<lparr>ts_status := REJECTED, ts_rejectionNote := Some rejectionNote,
                  ts_updatedAt := now\<rparr>
            in (Inr saved, st\<lparr>tt_timesheets := orm_save RT saved (tt_timesheets st),
                 tt_audit := audit_log RL logId now organizationId
                   \<lparr>aa_id = Some approverId, aa_email = []\<rparr> ''timesheet.rejected'' ''timesheet''
                   (Some timesheetId) (Some (JObj [(''rejectionNote'', JStr rejectionNote)])) None
                   (tt_audit st)\<rparr>))"

definition getTimesheets ::
  "Timesheet orm \<Rightarrow> string \<Rightarrow> string \<Rightarrow> UserRole \<Rightarrow> TimeTrackingService \<Rightarrow> Timesheet list" where
  "getTimesheets RT userId organizationId role st =
     orm_find RT (\<lambda>s. ts_organizationId s = organizationId \<and>
       (role = EMPLOYEE \<longrightarrow> ts_userId s = userId)) (desc ts_weekStart) (Some 52) (tt_timesheets st)"

definition week_then_created :: "Timesheet \<Rightarrow> Timesheet \<Rightarrow> bool" where
  "week_then_created a b \<longleftrightarrow> ts_weekStart b < ts_weekStart a \<or>
     (ts_weekStart a = ts_weekStart b \<and> ts_createdAt b \<le> ts_createdAt a)"

definition getTeamTimesheets ::
  "Timesheet orm \<Rightarrow> string \<Rightarrow> string option \<Rightarrow> string option \<Rightarrow> TimeTrackingService \<Rightarrow>
   Timesheet list outcome" where
  "getTeamTimesheets RT organizationId weekStart status st =
     (if \<not> falsy_str status \<and>
         the status \<notin> ts_status_str ` {DRAFT, SUBMITTED, APPROVED, REJECTED}
      then Inl (PlainError ''invalid input value for enum'')
      else Inr (orm_find RT (\<lambda>s. ts_organizationId s = organizationId \<and>
        (falsy_str weekStart \<or> Some (ts_weekStart s) = weekStart) \<and>
        (falsy_str status \<or> Some (ts_status_str (ts_status s)) = status))
        week_then_created (Some 500) (tt_timesheets st)))"

record PayrollRow =
  pay_userId :: string
  pay_firstName :: string
  pay_lastName :: string
  pay_weekStart :: string
  pay_totalMinutes :: int
  pay_overtimeMinutes :: int
  pay_status :: TimesheetStatus

definition payroll_row :: "(string \<Rightarrow> User option) \<Rightarrow> Timesheet \<Rightarrow> PayrollRow" where
  "payroll_row user ts =
     (let regularMinutes = min (ts_totalMinutes ts) (8 * 5 * 60);
          overtimeMinutes = max 0 (ts_totalMinutes ts - regularMinutes);
          u = user (ts_userId ts)
      in \<lparr>pay_userId = ts_userId ts,
          pay_firstName = (case u of None \<Rightarrow> [] | Some x \<Rightarrow> u_firstName x),
          pay_lastName = (case u of None \<Rightarrow> [] | Some x \<Rightarrow> u_lastName x),
          pay_weekStart = ts_weekStart ts, pay_totalMinutes = ts_totalMinutes ts,
          pay_overtimeMinutes = overtimeMinutes, pay_status = ts_status ts\<rparr>)"

definition getPayrollReport ::
  "Timesheet orm \<Rightarrow> (string \<Rightarrow> User option) \<Rightarrow> string \<Rightarrow> string \<Rightarrow> string \<Rightarrow>
   TimeTrackingService \<Rightarrow> PayrollRow list" where
  "getPayrollReport RT user organizationId fromDay toDay st =
     map (payroll_row user) (orm_find RT (\<lambda>s. ts_organizationId s = organizationId \<and>
       ts_status s = APPROVED \<and> fromDay \<le> ts_weekStart s \<and> ts_weekStart s \<le> toDay)
       (asc ts_weekStart) None (tt_timesheets st))"

lemmas attendance_defs = clockIn_def clockOut_def getStatus_def
lemmas sheet_defs = submitTimesheet_def approveTimesheet_def rejectTimesheet_def
declare attendance_defs [op_defs] sheet_defs [op_defs] deleteEntry_def [op_defs]
  createManualEntry_def [op_defs]

section \<open>Runs of attendance operations\<close>

datatype att_op =
    OpClockIn js_time string string string ClockInDto
  | OpClockOut js_time string string string ClockOutDto

fun att_step :: "Attendance orm \<Rightarrow> TimeEntry orm \<Rightarrow> att_op \<Rightarrow> TimeTrackingService \<Rightarrow> TimeTrackingService" where
  "att_step RA RE (OpClockIn now i u g d) st = snd (clockIn RA now i u g d st)"
| "att_step RA RE (OpClockOut now i u g d) st = snd (clockOut RA RE now i u g d st)"

fun att_run :: "Attendance orm \<Rightarrow> TimeEntry orm \<Rightarrow> att_op list \<Rightarrow> TimeTrackingService \<Rightarrow> TimeTrackingService" where
  "att_run RA RE [] st = st"
| "att_run RA RE (x # xs) st = att_run RA RE xs (att_step RA RE x st)"

text \<open>The ids the database hands out along a run are new to the table.\<close>

fun ids_fresh :: "Attendance orm \<Rightarrow> TimeEntry orm \<Rightarrow> att_op list \<Rightarrow> TimeTrackingService \<Rightarrow> bool" where
  "ids_fresh RA RE [] st = True"
| "ids_fresh RA RE (x # xs) st =
     ((case x of OpClockIn now i u g d \<Rightarrow> i \<notin> att_id ` set (tt_attendance st) | _ \<Rightarrow> True) \<and>
      ids_fresh RA RE xs (att_step RA RE x st))"

definition one_open :: "Attendance list \<Rightarrow> bool" where
  "one_open t \<longleftrightarrow> (\<forall>a \<in> set t. \<forall>b \<in> set t. att_clockOut a = None \<longrightarrow> att_clockOut b = None \<longrightarrow>
     att_userId a = att_userId b \<longrightarrow> att_organizationId a = att_organizationId b \<longrightarrow> a = b)"

lemma where_null_strict [simp]: "\<not> orm_null_ignored R \<Longrightarrow> where_null R c \<longleftrightarrow> c = None"
  and where_null_skip [simp]: "orm_null_ignored R \<Longrightarrow> where_null R c"
  by (simp_all add: where_null_def)

lemma clockIn_one_open:
  assumes "repository RA att_id" and "one_open (tt_attendance st)"
  shows "one_open (tt_attendance (snd (clockIn RA now i u g d st)))"
proof (cases "find_one RA (open_of RA u g) (tt_attendance st)")
  case None
  then have "\<forall>a \<in> set (tt_attendance st). \<not> open_of RA u g a"
    using repository.find_one_None [OF assms(1)] by blast
  then show ?thesis using assms None
    by (fastforce simp: clockIn_def one_open_def open_of_def where_null_def Let_def repository.set_save [OF assms(1)])
qed (use assms in \<open>simp add: clockIn_def\<close>)

lemma clockOut_one_open:
  assumes "repository RA att_id" and "one_open (tt_attendance st)"
  shows "one_open (tt_attendance (snd (clockOut RA RE now i u g d st)))"
  using assms(2)
  by (auto simp: clockOut_def one_open_def Let_def repository.set_save [OF assms(1)] split: option.splits)

text \<open>
  C1. Whether TypeORM skips the \<open>null\<close> of the lookup, as it does by default, or reads it as IS NULL, a user has at
  most one open attendance per organisation after any sequence of clock-ins and clock-outs of any users.
\<close>

theorem one_open_attendance:
  assumes "repository RA att_id" and "one_open (tt_attendance st)"
  shows "one_open (tt_attendance (att_run RA RE ops st))"
  using assms(2)
proof (induction ops arbitrary: st)
  case (Cons x xs)
  then show ?case
    by (cases x) (simp_all add: clockIn_one_open [OF assms(1)] clockOut_one_open [OF assms(1)])
qed simp

definition no_note :: ClockInDto where
  "no_note = \<lparr>ci_locationLat = None, ci_locationLng = None, ci_note = None\<rparr>"

definition tt_empty :: TimeTrackingService where
  "tt_empty = \<lparr>tt_attendance = [], tt_entries = [], tt_timesheets = [], tt_audit = []\<rparr>"

theorem one_open_attendance_witness:
  "one_open (tt_attendance (att_run (strict_list att_id) (strict_list te_id)
     [OpClockIn 10 ''a1'' ''u1'' ''o1'' no_note, OpClockIn 20 ''a2'' ''u2'' ''o1'' no_note,
      OpClockOut 30 ''e1'' ''u1'' ''o1'' \<lparr>co_note = None\<rparr>] tt_empty)) \<and>
   length (tt_attendance (att_run (strict_list att_id) (strict_list te_id)
     [OpClockIn 10 ''a1'' ''u1'' ''o1'' no_note, OpClockIn 20 ''a2'' ''u2'' ''o1'' no_note] tt_empty)) = 2"
proof
  show "one_open (tt_attendance (att_run (strict_list att_id) (strict_list te_id)
     [OpClockIn 10 ''a1'' ''u1'' ''o1'' no_note, OpClockIn 20 ''a2'' ''u2'' ''o1'' no_note,
      OpClockOut 30 ''e1'' ''u1'' ''o1'' \<lparr>co_note = None\<rparr>] tt_empty))"
    by (rule one_open_attendance) (simp_all add: tt_empty_def one_open_def)
qed (simp add: clockIn_def tt_empty_def open_of_def Let_def)

text \<open>
  Rows of a user survive every operation, so once TypeORM skips the \<open>null\<close> condition the query
  for an open attendance keeps finding one.
\<close>

definition seen :: "string \<Rightarrow> string \<Rightarrow> TimeTrackingService \<Rightarrow> bool" where
  "seen u g st \<longleftrightarrow> keyed att_id (tt_attendance st) \<and>
     (\<exists>a \<in> set (tt_attendance st). att_userId a = u \<and> att_organizationId a = g)"

lemma clockIn_seen:
  assumes "repository RA att_id" and "i \<notin> att_id ` set (tt_attendance st)" and "seen u g st"
  shows "seen u g (snd (clockIn RA now i u' g' d st))"
  using assms(2,3)
  by (fastforce simp: clockIn_def seen_def Let_def repository.set_save [OF assms(1)]
      repository.keyed_save [OF assms(1)] split: option.splits)

lemma clockOut_seen:
  assumes "repository RA att_id" and "seen u g st"
  shows "seen u g (snd (clockOut RA RE now i u' g' d st))"
proof (cases "find_one RA (open_of RA u' g') (tt_attendance st)")
  case (Some b)
  let ?b = "b\<lparr>att_clockOut := Some now,
    att_note := (if falsy_str (co_note d) then att_note b else co_note d)\<rparr>"
  obtain a where a: "a \<in> set (tt_attendance st)" "att_userId a = u" "att_organizationId a = g"
    using assms(2) by (auto simp: seen_def)
  have b: "b \<in> set (tt_attendance st)"
    using repository.find_one_SomeD [OF assms(1) Some] by simp
  have k: "keyed att_id (tt_attendance st)" using assms(2) by (simp add: seen_def)
  have "\<exists>x \<in> set (orm_save RA ?b (tt_attendance st)). att_userId x = u \<and> att_organizationId x = g"
  proof (cases "att_id a = att_id b")
    case True
    then have "a = b" using repository.keyed_eq [OF assms(1) k a(1) b] by simp
    then show ?thesis using a by (auto simp: repository.set_save [OF assms(1)])
  next
    case False
    then show ?thesis using a by (auto simp: repository.set_save [OF assms(1)])
  qed
  then show ?thesis using k Some
    by (simp add: clockOut_def seen_def Let_def repository.keyed_save [OF assms(1)])
qed (use assms in \<open>simp add: clockOut_def\<close>)

lemma att_run_seen:
  assumes "repository RA att_id"
  shows "seen u g st \<Longrightarrow> ids_fresh RA RE ops st \<Longrightarrow> seen u g (att_run RA RE ops st)"
proof (induction ops arbitrary: st)
  case (Cons x xs)
  then show ?case
    by (cases x) (simp_all add: clockIn_seen [OF assms] clockOut_seen [OF assms])
qed simp

text \<open>
  C2. With TypeORM's default, which skips a \<open>null\<close> operand, the same code locks a user out: after a
  first clock-in, whatever clock-ins and clock-outs follow, clocking in fails as if still clocked
  in, and every further clock-out succeeds, on an attendance that may long be closed.
\<close>

theorem clock_in_only_once:
  assumes "repository RA att_id" and "orm_null_ignored RA"
    and "keyed att_id (tt_attendance st)" and "i \<notin> att_id ` set (tt_attendance st)"
    and "\<not> isl (fst (clockIn RA now i u g d st))"
    and "ids_fresh RA RE ops (snd (clockIn RA now i u g d st))"
    and "st' = att_run RA RE ops (snd (clockIn RA now i u g d st))"
  shows "clockIn RA now' i' u g d' st' = (Inl (BadRequest ''Already clocked in''), st') \<and>
    \<not> isl (fst (clockOut RA RE now' i' u g co st'))"
proof -
  have "seen u g (snd (clockIn RA now i u g d st))"
    using assms(3-5)
    by (auto simp: clockIn_def seen_def Let_def repository.set_save [OF assms(1)]
        repository.keyed_save [OF assms(1)] split: option.splits)
  then have "seen u g st'" using att_run_seen [OF assms(1)] assms(6,7) by blast
  then obtain x where "find_one RA (open_of RA u g) (tt_attendance st') = Some x"
    using repository.find_one_ex [OF assms(1), of _ "tt_attendance st'" "open_of RA u g"] assms(2)
    by (auto simp: seen_def open_of_def)
  then show ?thesis by (simp add: clockIn_def clockOut_def Let_def)
qed

theorem clock_in_only_once_witness:
  "clockIn (typeorm_list att_id) 50 ''a2'' ''u1'' ''o1'' no_note
     (att_run (typeorm_list att_id) (typeorm_list te_id) [OpClockOut 30 ''e1'' ''u1'' ''o1'' \<lparr>co_note = None\<rparr>]
       (snd (clockIn (typeorm_list att_id) 10 ''a1'' ''u1'' ''o1'' no_note tt_empty)))
   = (Inl (BadRequest ''Already clocked in''),
      att_run (typeorm_list att_id) (typeorm_list te_id) [OpClockOut 30 ''e1'' ''u1'' ''o1'' \<lparr>co_note = None\<rparr>]
       (snd (clockIn (typeorm_list att_id) 10 ''a1'' ''u1'' ''o1'' no_note tt_empty)))"
  by (rule clock_in_only_once [where st = tt_empty and i = "''a1''" and
        RE = "typeorm_list te_id" and now = 10 and d = no_note and
        ops = "[OpClockOut 30 ''e1'' ''u1'' ''o1'' \<lparr>co_note = None\<rparr>]",
        THEN conjunct1])
    (auto simp: tt_empty_def keyed_def clockIn_def clockOut_def open_of_def Let_def)

text \<open>
  Clocking out: without an open attendance it fails and changes nothing; with one it closes that
  attendance now, adds one automatic time entry from its clock-in to now that refers to it, and
  leaves the user without an open attendance.
\<close>

theorem clockOut_closes:
  assumes "repository RA att_id" and "repository RE te_id" and "\<not> orm_null_ignored RA"
    and "one_open (tt_attendance st)"
  shows "case getStatus RA u g st of
      None \<Rightarrow> clockOut RA RE now i u g co st = (Inl (BadRequest ''Not clocked in''), st)
    | Some a \<Rightarrow> \<exists>att e st'. clockOut RA RE now i u g co st = (Inr (att, e), st') \<and>
        att_id att = att_id a \<and> att_clockOut att = Some now \<and>
        te_startedAt e = att_clockIn a \<and> te_endedAt e = Some now \<and> te_source e = AUTOMATIC \<and>
        te_attendanceId e = Some (att_id a) \<and> te_userId e = u \<and> te_organizationId e = g \<and>
        set (tt_entries st') = {x \<in> set (tt_entries st). te_id x \<noteq> i} \<union> {e} \<and>
        getStatus RA u g st' = None"
proof (cases "getStatus RA u g st")
  case (Some a)
  have a: "a \<in> set (tt_attendance st)" "open_of RA u g a"
    using repository.find_one_SomeD [OF assms(1)] Some by (auto simp: getStatus_def)
  let ?st = "snd (clockOut RA RE now i u g co st)"
  have "\<not> open_of RA u g x" if "x \<in> set (tt_attendance ?st)" for x
    using that a assms(3,4) Some
    by (auto simp: clockOut_def getStatus_def Let_def repository.set_save [OF assms(1)]
        open_of_def one_open_def)
  then have "getStatus RA u g ?st = None"
    unfolding getStatus_def by (simp add: repository.find_one_None [OF assms(1)])
  then show ?thesis using Some
    by (simp add: clockOut_def getStatus_def Let_def repository.set_save [OF assms(2)])
qed (simp add: getStatus_def clockOut_def)

definition clocked_in :: TimeTrackingService where
  "clocked_in = tt_empty\<lparr>tt_attendance := [\<lparr>att_id = ''a1'', att_userId = ''u1'',
     att_organizationId = ''o1'', att_clockIn = 10, att_clockOut = None, att_locationLat = None,
     att_locationLng = None, att_note = None, att_createdAt = 10\<rparr>]\<rparr>"

theorem clockOut_closes_witness:
  "\<exists>att e st'. clockOut (strict_list att_id) (strict_list te_id) 60010 ''e1'' ''u1'' ''o1'' \<lparr>co_note = None\<rparr>
     clocked_in = (Inr (att, e), st') \<and> te_startedAt e = 10 \<and> te_endedAt e = Some 60010"
  using clockOut_closes [where RA = "strict_list att_id" and RE = "strict_list te_id" and
      st = clocked_in and u = "''u1''" and g = "''o1''" and now = 60010 and i = "''e1''" and
      co = "\<lparr>co_note = None\<rparr>"]
  by (simp add: clocked_in_def tt_empty_def one_open_def getStatus_def open_of_def clockOut_def Let_def)

end
