(* ===== verification/Timesheets.thy ===== *)
theory Timesheets
  imports TimeTracking
begin

text \<open>
  The properties of the timesheet workflow, the payroll report and the deletion of time entries
  (TimeTrackingService). The workflow is first stated abstractly, as the step relation
  \<open>sheet_step\<close> on the status of one sheet; submit, approve and reject are shown to follow it.
\<close>

section \<open>The approval workflow\<close>

inductive sheet_step :: "TimesheetStatus option \<Rightarrow> TimesheetStatus option \<Rightarrow> bool" where
  first_submit: "sheet_step None (Some SUBMITTED)"
| submit_draft: "sheet_step (Some DRAFT) (Some SUBMITTED)"
| resubmit: "sheet_step (Some REJECTED) (Some SUBMITTED)"
| approve: "sheet_step (Some SUBMITTED) (Some APPROVED)"
| reject: "sheet_step (Some SUBMITTED) (Some REJECTED)"

inductive_simps from_approved [simp]: "sheet_step (Some APPROVED) x"
inductive_cases from_submitted [elim]: "sheet_step (Some SUBMITTED) x"

datatype sheet_op =
    OpSubmit js_time string string string string
  | OpApprove js_time string string string string
  | OpReject js_time string string string string string

record sheet_env =
  env_entries :: "TimeEntry orm"
  env_sheets :: "Timesheet orm"
  env_logs :: "AuditLog orm"
  env_parse :: "string \<Rightarrow> js_time option"
  env_plus :: "js_time \<Rightarrow> int \<Rightarrow> js_time"

fun sheet_apply :: "sheet_env \<Rightarrow> sheet_op \<Rightarrow> TimeTrackingService \<Rightarrow> TimeTrackingService" where
  "sheet_apply E (OpSubmit now i u g w) st =
     snd (submitTimesheet (env_entries E) (env_sheets E) (env_parse E) (env_plus E) now i u g w st)"
| "sheet_apply E (OpApprove now l a g i) st =
     snd (approveTimesheet (env_sheets E) (env_logs E) now l a g i st)"
| "sheet_apply E (OpReject now l a g i n) st =
     snd (rejectTimesheet (env_sheets E) (env_logs E) now l a g i n st)"

fun new_id_ok :: "sheet_op \<Rightarrow> TimeTrackingService \<Rightarrow> bool" where
  "new_id_ok (OpSubmit now i u g w) st = (i \<notin> ts_id ` set (tt_timesheets st))"
| "new_id_ok _ st = True"

fun sheet_run :: "sheet_env \<Rightarrow> sheet_op list \<Rightarrow> TimeTrackingService \<Rightarrow> TimeTrackingService" where
  "sheet_run E [] st = st"
| "sheet_run E (x # xs) st = sheet_run E xs (sheet_apply E x st)"

fun new_ids_ok :: "sheet_env \<Rightarrow> sheet_op list \<Rightarrow> TimeTrackingService \<Rightarrow> bool" where
  "new_ids_ok E [] st = True"
| "new_ids_ok E (x # xs) st = (new_id_ok x st \<and> new_ids_ok E xs (sheet_apply E x st))"

definition status_of :: "string \<Rightarrow> TimeTrackingService \<Rightarrow> TimesheetStatus option" where
  "status_of i st = map_of (map (\<lambda>s. (ts_id s, ts_status s)) (tt_timesheets st)) i"

text \<open>
  Every operation either leaves the sheets alone or saves one sheet whose old row, if any, was not
  approved; the new row has the old id.
\<close>

inductive sheet_write :: "sheet_env \<Rightarrow> TimeTrackingService \<Rightarrow> TimeTrackingService \<Rightarrow> bool" where
  no_write: "tt_timesheets st' = tt_timesheets st \<Longrightarrow> sheet_write E st st'"
| write_new: "ts_id s \<notin> ts_id ` set (tt_timesheets st) \<Longrightarrow> ts_status s = SUBMITTED \<Longrightarrow>
    tt_timesheets st' = orm_save (env_sheets E) s (tt_timesheets st) \<Longrightarrow> sheet_write E st st'"
| write_old: "old \<in> set (tt_timesheets st) \<Longrightarrow> ts_id s = ts_id old \<Longrightarrow>
    sheet_step (Some (ts_status old)) (Some (ts_status s)) \<Longrightarrow>
    tt_timesheets st' = orm_save (env_sheets E) s (tt_timesheets st) \<Longrightarrow> sheet_write E st st'"

text \<open>What each operation saves when it succeeds; a failure saves nothing.\<close>

lemma submit_Inl: "fst (submitTimesheet RE RT D pd now i u g w st) = Inl e \<Longrightarrow>
    snd (submitTimesheet RE RT D pd now i u g w st) = st"
  by (auto simp: submitTimesheet_def Let_def split: option.splits TimesheetStatus.splits)

lemma submit_Inr: "fst (submitTimesheet RE RT D pd now i u g w st) = Inr s \<Longrightarrow>
    tt_timesheets (snd (submitTimesheet RE RT D pd now i u g w st)) = orm_save RT s (tt_timesheets st) \<and>
    ts_status s = SUBMITTED \<and>
    (case find_one RT (\<lambda>s. ts_userId s = u \<and> ts_organizationId s = g \<and> ts_weekStart s = w)
       (tt_timesheets st) of
       None \<Rightarrow> ts_id s = i
     | Some old \<Rightarrow> ts_id s = ts_id old \<and> ts_status old \<in> {DRAFT, REJECTED})"
  by (auto simp: submitTimesheet_def Let_def split: option.splits TimesheetStatus.splits)

lemma approve_Inl: "fst (approveTimesheet RT RL now l a g i st) = Inl e \<Longrightarrow>
    snd (approveTimesheet RT RL now l a g i st) = st"
  by (auto simp: approveTimesheet_def Let_def split: option.splits if_splits)

lemma approve_Inr: "fst (approveTimesheet RT RL now l a g i st) = Inr s \<Longrightarrow>
    \<exists>old. find_one RT (\<lambda>s. ts_id s = i \<and> ts_organizationId s = g) (tt_timesheets st) = Some old \<and>
      ts_status old = SUBMITTED \<and>
      s = old\<lparr>ts_status := APPROVED, ts_approvedBy := Some a, ts_approvedAt := Some now,
        ts_updatedAt := now\<rparr> \<and>
      tt_timesheets (snd (approveTimesheet RT RL now l a g i st)) = orm_save RT s (tt_timesheets st)"
  by (auto simp: approveTimesheet_def Let_def split: option.splits if_splits)

lemma reject_Inl: "fst (rejectTimesheet RT RL now l a g i n st) = Inl e \<Longrightarrow>
    snd (rejectTimesheet RT RL now l a g i n st) = st"
  by (auto simp: rejectTimesheet_def Let_def split: option.splits if_splits)

lemma reject_Inr: "fst (rejectTimesheet RT RL now l a g i n st) = Inr s \<Longrightarrow>
    \<exists>old. find_one RT (\<lambda>s. ts_id s = i \<and> ts_organizationId s = g) (tt_timesheets st) = Some old \<and>
      ts_status old = SUBMITTED \<and>
      s = old\<lparr>ts_status := REJECTED, ts_rejectionNote := Some n, ts_updatedAt := now\<rparr> \<and>
      tt_timesheets (snd (rejectTimesheet RT RL now l a g i n st)) = orm_save RT s (tt_timesheets st)"
  by (auto simp: rejectTimesheet_def Let_def split: option.splits if_splits)

lemma submit_write:
  assumes "repository (env_sheets E) ts_id" and "i \<notin> ts_id ` set (tt_timesheets st)"
  shows "sheet_write E st (sheet_apply E (OpSubmit now i u g w) st)"
proof (cases "fst (submitTimesheet (env_entries E) (env_sheets E) (env_parse E) (env_plus E) now i u g w st)")
  case (Inl e)
  then show ?thesis by (simp add: submit_Inl sheet_write.no_write)
next
  case (Inr s)
  let ?P = "\<lambda>s. ts_userId s = u \<and> ts_organizationId s = g \<and> ts_weekStart s = w"
  note r = submit_Inr [OF Inr]
  show ?thesis
  proof (cases "find_one (env_sheets E) ?P (tt_timesheets st)")
    case None
    then show ?thesis using r assms(2) by (intro sheet_write.write_new [of s]) auto
  next
    case (Some old)
    then show ?thesis using r repository.find_one_SomeD [OF assms(1) Some]
      by (intro sheet_write.write_old [of old _ s]) (auto intro: sheet_step.intros)
  qed
qed

lemma approve_write:
  assumes "repository (env_sheets E) ts_id"
  shows "sheet_write E st (sheet_apply E (OpApprove now l a g i) st)"
proof (cases "fst (approveTimesheet (env_sheets E) (env_logs E) now l a g i st)")
  case (Inl e)
  then show ?thesis by (simp add: approve_Inl sheet_write.no_write)
next
  case (Inr s)
  then obtain old where old: "find_one (env_sheets E) (\<lambda>s. ts_id s = i \<and> ts_organizationId s = g)
      (tt_timesheets st) = Some old" "ts_status old = SUBMITTED"
    "ts_id s = ts_id old" "ts_status s = APPROVED"
    "tt_timesheets (sheet_apply E (OpApprove now l a g i) st) = orm_save (env_sheets E) s (tt_timesheets st)"
    by (auto dest!: approve_Inr)
  then show ?thesis using repository.find_one_SomeD [OF assms old(1)]
    by (intro sheet_write.write_old [of old _ s]) (auto intro: sheet_step.intros)
qed

lemma reject_write:
  assumes "repository (env_sheets E) ts_id"
  shows "sheet_write E st (sheet_apply E (OpReject now l a g i n) st)"
proof (cases "fst (rejectTimesheet (env_sheets E) (env_logs E) now l a g i n st)")
  case (Inl e)
  then show ?thesis by (simp add: reject_Inl sheet_write.no_write)
next
  case (Inr s)
  then obtain old where old: "find_one (env_sheets E) (\<lambda>s. ts_id s = i \<and> ts_organizationId s = g)
      (tt_timesheets st) = Some old" "ts_status old = SUBMITTED"
    "ts_id s = ts_id old" "ts_status s = REJECTED"
    "tt_timesheets (sheet_apply E (OpReject now l a g i n) st) = orm_save (env_sheets E) s (tt_timesheets st)"
    by (auto dest!: reject_Inr)
  then show ?thesis using repository.find_one_SomeD [OF assms old(1)]
    by (intro sheet_write.write_old [of old _ s]) (auto intro: sheet_step.intros)
qed

lemma sheet_apply_write:
  "repository (env_sheets E) ts_id \<Longrightarrow> new_id_ok x st \<Longrightarrow> sheet_write E st (sheet_apply E x st)"
proof (cases x)
  case (OpSubmit now i u g w)
  assume "repository (env_sheets E) ts_id" "new_id_ok x st"
  then show ?thesis using submit_write OpSubmit by simp
next
  case (OpApprove now l a g i)
  assume "repository (env_sheets E) ts_id"
  then show ?thesis using approve_write OpApprove by blast
next
  case (OpReject now l a g i n)
  assume "repository (env_sheets E) ts_id"
  then show ?thesis using reject_write OpReject by blast
qed

lemma status_of_iff:
  "keyed ts_id (tt_timesheets st) \<Longrightarrow>
   status_of i st = Some x \<longleftrightarrow> (\<exists>s \<in> set (tt_timesheets st). ts_id s = i \<and> ts_status s = x)"
  unfolding status_of_def keyed_def by (subst map_of_eq_Some_iff) (auto simp: comp_def)

lemma status_of_None: "status_of i st = None \<longleftrightarrow> i \<notin> ts_id ` set (tt_timesheets st)"
  unfolding status_of_def map_of_eq_None_iff by force

lemma sheet_write_keyed:
  assumes "repository (env_sheets E) ts_id" and "sheet_write E st st'" and "keyed ts_id (tt_timesheets st)"
  shows "keyed ts_id (tt_timesheets st')"
  using assms(2,3) by cases (simp_all add: repository.keyed_save [OF assms(1)])

lemma saved_status:
  assumes "repository (env_sheets E) ts_id" and "keyed ts_id (tt_timesheets st)"
    and "tt_timesheets st' = orm_save (env_sheets E) s (tt_timesheets st)"
  shows "status_of i st' = (if i = ts_id s then Some (ts_status s) else status_of i st)"
proof -
  have k: "keyed ts_id (tt_timesheets st')"
    using assms by (simp add: repository.keyed_save)
  have "status_of i st' = Some x \<longleftrightarrow>
      (if i = ts_id s then Some (ts_status s) else status_of i st) = Some x" for x
    using status_of_iff [OF k, of i x] status_of_iff [OF assms(2), of i x]
    by (auto simp: assms(3) repository.set_save [OF assms(1)])
  then show ?thesis by (metis option.exhaust)
qed

text \<open>
  C3. Refinement: for every timesheet, one submit, approve or reject leaves its status unchanged or
  moves it along one step of the approval workflow: only a new, drafted or rejected sheet can be
  submitted, only a submitted one approved or rejected, and an approved one never moves.
\<close>

theorem workflow_refined:
  assumes "repository (env_sheets E) ts_id" and "keyed ts_id (tt_timesheets st)"
    and "new_id_ok x st"
  shows "status_of i (sheet_apply E x st) = status_of i st \<or>
    sheet_step (status_of i st) (status_of i (sheet_apply E x st))"
  using sheet_apply_write [OF assms(1,3)]
proof cases
  case no_write
  then show ?thesis by (simp add: status_of_def)
next
  case (write_new s)
  have "status_of (ts_id s) st = None" using write_new(1) by (simp add: status_of_None)
  then show ?thesis using saved_status [OF assms(1,2) write_new(3), of i] write_new(2)
    by (auto intro: sheet_step.intros)
next
  case (write_old old s)
  have "status_of (ts_id old) st = Some (ts_status old)"
    using write_old(1) by (auto simp: status_of_iff [OF assms(2)])
  then show ?thesis using saved_status [OF assms(1,2) write_old(4), of i] write_old(2,3) by auto
qed

definition sample_sheet :: Timesheet where
  "sample_sheet = \<lparr>ts_id = ''s1'', ts_userId = ''u1'', ts_organizationId = ''o1'',
     ts_weekStart = ''2026-04-06'', ts_totalMinutes = 480, ts_status = SUBMITTED,
     ts_submittedAt = Some 5, ts_approvedBy = None, ts_approvedAt = None, ts_rejectionNote = None,
     ts_createdAt = 5, ts_updatedAt = 5\<rparr>"

definition utc_days :: "js_time \<Rightarrow> int \<Rightarrow> js_time" where
  "utc_days t n = t + n * 86400000"

definition sample_env :: sheet_env where
  "sample_env = \<lparr>env_entries = typeorm_list te_id, env_sheets = typeorm_list ts_id,
     env_logs = typeorm_list lg_id, env_parse = (\<lambda>_. Some 0), env_plus = utc_days\<rparr>"

theorem workflow_refined_witness:
  "status_of ''s1'' (sheet_apply sample_env (OpApprove 9 ''l1'' ''m1'' ''o1'' ''s1'')
     (tt_empty\<lparr>tt_timesheets := [sample_sheet]\<rparr>)) = Some APPROVED"
  using workflow_refined [of sample_env "tt_empty\<lparr>tt_timesheets := [sample_sheet]\<rparr>"
      "OpApprove 9 ''l1'' ''m1'' ''o1'' ''s1''" "''s1''"]
  by (auto simp: sample_env_def status_of_def approveTimesheet_def sample_sheet_def tt_empty_def
      keyed_def Let_def)

lemma approved_step:
  assumes "repository (env_sheets E) ts_id" and "keyed ts_id (tt_timesheets st)"
    and "new_id_ok x st" and "s \<in> set (tt_timesheets st)" and "ts_status s = APPROVED"
  shows "s \<in> set (tt_timesheets (sheet_apply E x st)) \<and> keyed ts_id (tt_timesheets (sheet_apply E x st))"
proof
  note w = sheet_apply_write [OF assms(1,3)]
  show "keyed ts_id (tt_timesheets (sheet_apply E x st))"
    by (rule sheet_write_keyed [OF assms(1) w assms(2)])
  show "s \<in> set (tt_timesheets (sheet_apply E x st))"
    using w
  proof cases
    case (write_old old r)
    then have "ts_id s \<noteq> ts_id r"
      using repository.keyed_eq [OF assms(1,2,4) write_old(1)] assms(5) by auto
    then show ?thesis using write_old(4) assms(4) by (simp add: repository.set_save [OF assms(1)])
  next
    case (write_new r)
    have "ts_id s \<in> ts_id ` set (tt_timesheets st)" using assms(4) by simp
    then have "ts_id s \<noteq> ts_id r" using write_new(1) by metis
    then show ?thesis using write_new(3) assms(4) by (simp add: repository.set_save [OF assms(1)])
  qed (use assms(4) in simp)
qed

text \<open>
  C4. Approval is final: an approved timesheet stays in the table with its minutes, approver and
  every other column unchanged, through any sequence of submissions, approvals and rejections.
\<close>

theorem approved_is_final:
  assumes "repository (env_sheets E) ts_id" and "keyed ts_id (tt_timesheets st)"
    and "new_ids_ok E ops st" and "s \<in> set (tt_timesheets st)" and "ts_status s = APPROVED"
  shows "s \<in> set (tt_timesheets (sheet_run E ops st))"
  using assms(2-4)
proof (induction ops arbitrary: st)
  case (Cons x xs)
  then show ?case using approved_step [OF assms(1), of st x s] assms(5) by simp
qed simp

theorem approved_is_final_witness:
  "sample_sheet\<lparr>ts_status := APPROVED\<rparr> \<in> set (tt_timesheets (sheet_run sample_env
     [OpReject 9 ''l1'' ''m1'' ''o1'' ''s1'' ''no'', OpSubmit 10 ''s2'' ''u1'' ''o1'' ''2026-04-06'']
     (tt_empty\<lparr>tt_timesheets := [sample_sheet\<lparr>ts_status := APPROVED\<rparr>]\<rparr>)))"
  by (rule approved_is_final)
    (auto simp: sample_env_def tt_empty_def keyed_def sample_sheet_def rejectTimesheet_def)

section \<open>Minutes of a week\<close>

lemma week_minutes_sum: "week_minutes es = sum_list (map entry_minutes es)"
proof -
  have "foldl (\<lambda>s e. s + entry_minutes e) a es = a + sum_list (map entry_minutes es)" for a
    by (induction es arbitrary: a) simp_all
  then show ?thesis by (simp add: week_minutes_def)
qed

text \<open>The entries a submission for the week starting at \<open>start\<close> adds up.\<close>

definition week_entries :: "(js_time \<Rightarrow> int \<Rightarrow> js_time) \<Rightarrow> string \<Rightarrow> string \<Rightarrow> js_time \<Rightarrow> TimeEntry list \<Rightarrow>
    TimeEntry multiset" where
  "week_entries plus_days u g start es = filter_mset (\<lambda>e. te_userId e = u \<and>
     te_organizationId e = g \<and> start \<le> te_startedAt e \<and> te_startedAt e \<le> plus_days start 7) (mset es)"

text \<open>
  C5. A successful submission stores, for the requested week, exactly the sum of the whole minutes of
  the user's finished entries of that organisation that start in the week, both ends included, and
  stamps the sheet as submitted now; resubmitting keeps the sheet's id.
\<close>

theorem submit_total:
  assumes "repository RE te_id" and "repository RT ts_id" and "D w = Some start"
    and "fst (submitTimesheet RE RT D pd now i u g w st) = Inr s"
  shows "ts_totalMinutes s =
      sum_mset (image_mset entry_minutes (week_entries pd u g start (tt_entries st))) \<and>
    ts_status s = SUBMITTED \<and> ts_submittedAt s = Some now \<and> ts_userId s = u \<and>
    ts_organizationId s = g \<and> ts_weekStart s = w \<and>
    s \<in> set (tt_timesheets (snd (submitTimesheet RE RT D pd now i u g w st)))"
proof -
  let ?P = "\<lambda>e. te_userId e = u \<and> te_organizationId e = g \<and> start \<le> te_startedAt e \<and>
    te_startedAt e \<le> pd start 7"
  have m: "sum_list (map entry_minutes (orm_find RE ?P any_order None (tt_entries st))) =
      sum_mset (image_mset entry_minutes (week_entries pd u g start (tt_entries st)))"
    unfolding week_entries_def repository.find_mset [OF assms(1), symmetric, where le = any_order]
    by (simp add: sum_mset_sum_list flip: mset_map)
  have "s \<in> set (tt_timesheets (snd (submitTimesheet RE RT D pd now i u g w st)))"
    using submit_Inr [OF assms(4)] by (simp add: repository.set_save [OF assms(2)])
  moreover have "ts_totalMinutes s =
      sum_list (map entry_minutes (orm_find RE ?P any_order None (tt_entries st))) \<and>
    ts_submittedAt s = Some now \<and> ts_userId s = u \<and> ts_organizationId s = g \<and> ts_weekStart s = w"
    using assms(3,4)
    by (auto simp: submitTimesheet_def Let_def week_minutes_sum
        split: option.splits TimesheetStatus.splits dest!: repository.find_one_SomeD [OF assms(2)])
  ultimately show ?thesis using submit_Inr [OF assms(4)] m by simp
qed

definition hour_entry :: "js_time \<Rightarrow> TimeEntry" where
  "hour_entry t = \<lparr>te_id = ''e1'', te_userId = ''u1'', te_organizationId = ''o1'',
     te_attendanceId = None, te_projectId = None, te_taskId = None, te_startedAt = t,
     te_endedAt = Some (t + 3659999), te_source = MANUAL, te_description = None,
     te_createdAt = t, te_updatedAt = t\<rparr>"

lemma submit_example:
  "fst (submitTimesheet (typeorm_list te_id) (typeorm_list ts_id) (\<lambda>_. Some t) utc_days 9 ''s1'' ''u1''
     ''o1'' w (tt_empty\<lparr>tt_entries := [hour_entry t]\<rparr>)) =
   Inr \<lparr>ts_id = ''s1'', ts_userId = ''u1'', ts_organizationId = ''o1'', ts_weekStart = w,
     ts_totalMinutes = 60, ts_status = SUBMITTED, ts_submittedAt = Some 9, ts_approvedBy = None,
     ts_approvedAt = None, ts_rejectionNote = None, ts_createdAt = 9, ts_updatedAt = 9\<rparr>"
  by (simp add: submitTimesheet_def tt_empty_def hour_entry_def week_minutes_def entry_minutes_def
      utc_days_def Let_def)

theorem submit_total_witness:
  "sum_mset (image_mset entry_minutes (week_entries utc_days ''u1'' ''o1'' 0 [hour_entry 0])) = 60"
  using submit_total [OF list_orm_repository list_orm_repository refl submit_example [of 0 "''w''"]]
  by (simp add: tt_empty_def)

lemma filter_or_and:
  "filter_mset P M + filter_mset Q M = filter_mset (\<lambda>x. P x \<or> Q x) M + filter_mset (\<lambda>x. P x \<and> Q x) M"
  by (rule multiset_eqI) auto

text \<open>
  Both ends of a week are included, so the instant at which the next week starts belongs to two
  weeks: the totals of the timesheets of two adjacent weeks add up to the minutes of all the entries
  of the fortnight plus, a second time, the minutes of the entries that start at that instant.
\<close>

theorem adjacent_weeks_count_boundary_twice:
  assumes "repository RE te_id" and "repository RT ts_id"
    and "D w1 = Some start" and "D w2 = Some (pd start 7)"
    and "start \<le> pd start 7" and "pd start 7 \<le> pd (pd start 7) 7"
    and "fst (submitTimesheet RE RT D pd n1 i1 u g w1 st1) = Inr s1"
    and "fst (submitTimesheet RE RT D pd n2 i2 u g w2 st2) = Inr s2"
    and "tt_entries st2 = tt_entries st1"
  shows "ts_totalMinutes s1 + ts_totalMinutes s2 =
    (\<Sum>e \<in># {#e \<in># mset (tt_entries st1). te_userId e = u \<and> te_organizationId e = g \<and>
      start \<le> te_startedAt e \<and> te_startedAt e \<le> pd (pd start 7) 7#}. entry_minutes e) +
    (\<Sum>e \<in># {#e \<in># mset (tt_entries st1). te_userId e = u \<and> te_organizationId e = g \<and>
      te_startedAt e = pd start 7#}. entry_minutes e)"
proof -
  have "week_entries pd u g start (tt_entries st1) + week_entries pd u g (pd start 7) (tt_entries st1) =
      {#e \<in># mset (tt_entries st1). te_userId e = u \<and> te_organizationId e = g \<and>
        start \<le> te_startedAt e \<and> te_startedAt e \<le> pd (pd start 7) 7#} +
      {#e \<in># mset (tt_entries st1). te_userId e = u \<and> te_organizationId e = g \<and>
        te_startedAt e = pd start 7#}"
    unfolding week_entries_def
    by (subst filter_or_and, intro arg_cong2 [where f = "(+)"] filter_mset_cong) (use assms(5,6) in auto)
  from arg_cong [OF this, of "\<lambda>M. sum_mset (image_mset entry_minutes M)"] show ?thesis
    using submit_total [OF assms(1,2,3,7)] submit_total [OF assms(1,2,4,8)] assms(9) by simp
qed

theorem adjacent_weeks_count_boundary_twice_witness:
  "(60::int) + 60 =
    (\<Sum>e \<in># {#e \<in># mset [hour_entry 604800000]. te_userId e = ''u1'' \<and> te_organizationId e = ''o1'' \<and>
      0 \<le> te_startedAt e \<and> te_startedAt e \<le> utc_days (utc_days 0 7) 7#}. entry_minutes e) +
    (\<Sum>e \<in># {#e \<in># mset [hour_entry 604800000]. te_userId e = ''u1'' \<and> te_organizationId e = ''o1'' \<and>
      te_startedAt e = utc_days 0 7#}. entry_minutes e)"
proof -
  let ?D = "\<lambda>w. if w = ''w1'' then Some 0 else Some 604800000"
  let ?st = "tt_empty\<lparr>tt_entries := [hour_entry 604800000]\<rparr>"
  let ?sub = "\<lambda>w. fst (submitTimesheet (typeorm_list te_id) (typeorm_list ts_id) ?D utc_days 9 ''s1''
      ''u1'' ''o1'' w ?st)"
  have e: "\<exists>s. ?sub w = Inr s \<and> ts_totalMinutes s = 60" if "w = ''w1'' \<or> w = ''w2''" for w
    using that by (auto simp: submitTimesheet_def tt_empty_def hour_entry_def week_minutes_def
        entry_minutes_def utc_days_def Let_def)
  obtain s1 where s1: "?sub ''w1'' = Inr s1" "ts_totalMinutes s1 = 60" using e [of "''w1''"] by auto
  obtain s2 where s2: "?sub ''w2'' = Inr s2" "ts_totalMinutes s2 = 60" using e [of "''w2''"] by auto
  show ?thesis
    using adjacent_weeks_count_boundary_twice [OF list_orm_repository list_orm_repository _ _ _ _
        s1(1) s2(1), of 0] s1(2) s2(2) by (simp add: utc_days_def tt_empty_def)
qed

section \<open>Deleting entries, payroll\<close>

text \<open>
  C30. Deleting a time entry either fails and changes nothing, or removes exactly the rows with that
  id from the table; it succeeds only when the user's own organisation holds such an entry of the
  user that was not recorded automatically, so automatic entries are never lost.
\<close>

theorem deleteEntry_only_own_manual:
  assumes "repository RE te_id" and "keyed te_id (tt_entries st)"
    and "deleteEntry RE i u g st = (r, st')"
  shows "(case r of
      Inl e \<Rightarrow> st' = st
    | Inr _ \<Rightarrow> (\<exists>e \<in> set (tt_entries st). te_id e = i \<and> te_userId e = u \<and>
          te_organizationId e = g \<and> te_source e \<noteq> AUTOMATIC) \<and>
        set (tt_entries st') = {e \<in> set (tt_entries st). te_id e \<noteq> i}) \<and>
    (\<forall>e \<in> set (tt_entries st). te_source e = AUTOMATIC \<longrightarrow> e \<in> set (tt_entries st'))"
proof (cases r)
  case (Inl e)
  then show ?thesis using assms(3) by (auto simp: deleteEntry_def split: option.splits if_splits)
next
  case (Inr x)
  let ?P = "\<lambda>e. te_id e = i \<and> te_userId e = u \<and> te_organizationId e = g"
  obtain e where e: "find_one RE ?P (tt_entries st) = Some e" "te_source e \<noteq> AUTOMATIC"
    "tt_entries st' = orm_delete RE (\<lambda>e. te_id e = i) (tt_entries st)"
    using assms(3) Inr by (auto simp: deleteEntry_def split: option.splits if_splits)
  have m: "e \<in> set (tt_entries st)" "te_id e = i" "te_userId e = u" "te_organizationId e = g"
    using repository.find_one_SomeD [OF assms(1) e(1)] by simp_all
  have u: "a = e" if "a \<in> set (tt_entries st)" "te_id a = i" for a
    using repository.keyed_eq [OF assms(1,2) that(1) m(1)] that(2) m(2) by simp
  have del: "set (tt_entries st') = {e \<in> set (tt_entries st). te_id e \<noteq> i}"
    using e(3) by (simp add: repository.set_delete [OF assms(1)])
  have "\<exists>e \<in> set (tt_entries st). te_id e = i \<and> te_userId e = u \<and>
      te_organizationId e = g \<and> te_source e \<noteq> AUTOMATIC" using m e(2) by blast
  moreover have "a \<in> set (tt_entries st')" if "a \<in> set (tt_entries st)" "te_source a = AUTOMATIC" for a
    using del u that e(2) by auto
  ultimately show ?thesis using Inr del by simp
qed

theorem deleteEntry_only_own_manual_witness:
  "deleteEntry (typeorm_list te_id) ''e1'' ''u1'' ''o1'' (tt_empty\<lparr>tt_entries := [hour_entry 0]\<rparr>) =
     (Inr (), tt_empty) \<and>
   set (tt_entries tt_empty) = {e \<in> set (tt_entries (tt_empty\<lparr>tt_entries := [hour_entry 0]\<rparr>)). te_id e \<noteq> ''e1''}"
proof
  show d: "deleteEntry (typeorm_list te_id) ''e1'' ''u1'' ''o1'' (tt_empty\<lparr>tt_entries := [hour_entry 0]\<rparr>) =
     (Inr (), tt_empty)"
    by (simp add: deleteEntry_def tt_empty_def hour_entry_def)
  show "set (tt_entries tt_empty) =
      {e \<in> set (tt_entries (tt_empty\<lparr>tt_entries := [hour_entry 0]\<rparr>)). te_id e \<noteq> ''e1''}"
    using deleteEntry_only_own_manual [OF list_orm_repository _ d]
    by (simp add: tt_empty_def keyed_def)
qed

text \<open>
  The payroll report lists approved timesheets of the organisation in the requested weeks and
  nothing else, ordered by week; in each row the overtime is what exceeds 2400 minutes, never
  negative, and together with the capped regular time it gives the sheet's total.
\<close>

theorem payroll_rows:
  assumes "repository RT ts_id" and "r \<in> set (getPayrollReport RT user g a b st)"
  shows "(\<exists>s \<in> set (tt_timesheets st). ts_organizationId s = g \<and> ts_status s = APPROVED \<and>
      a \<le> ts_weekStart s \<and> ts_weekStart s \<le> b \<and> r = payroll_row user s) \<and>
    0 \<le> pay_overtimeMinutes r \<and>
    pay_totalMinutes r = min (pay_totalMinutes r) 2400 + pay_overtimeMinutes r \<and>
    pay_status r = APPROVED \<and>
    sorted (map pay_weekStart (getPayrollReport RT user g a b st))"
proof -
  let ?P = "\<lambda>s. ts_organizationId s = g \<and> ts_status s = APPROVED \<and> a \<le> ts_weekStart s \<and> ts_weekStart s \<le> b"
  let ?rows = "orm_find RT ?P (asc ts_weekStart) None (tt_timesheets st)"
  obtain s where s: "s \<in> set ?rows" "r = payroll_row user s"
    using assms(2) by (auto simp: getPayrollReport_def)
  have "s \<in> set (tt_timesheets st) \<and> ?P s"
    using s(1) by (rule repository.find_subset [OF assms(1)])
  moreover have "sorted_wrt (asc ts_weekStart) ?rows"
    by (rule repository.find_sorted [OF assms(1)]) simp
  then have "sorted (map pay_weekStart (getPayrollReport RT user g a b st))"
    by (simp add: getPayrollReport_def sorted_wrt_asc comp_def payroll_row_def Let_def)
  ultimately show ?thesis using s(2) by (auto simp: payroll_row_def Let_def)
qed

theorem payroll_rows_witness:
  "map pay_overtimeMinutes (getPayrollReport (typeorm_list ts_id) (\<lambda>_. None) ''o1'' ''2026-04-01'' ''2026-04-30''
     (tt_empty\<lparr>tt_timesheets := [sample_sheet\<lparr>ts_status := APPROVED, ts_totalMinutes := 2460\<rparr>]\<rparr>)) = [60] \<and>
   0 \<le> pay_overtimeMinutes (payroll_row (\<lambda>_. None)
     (sample_sheet\<lparr>ts_status := APPROVED, ts_totalMinutes := 2460\<rparr>))"
proof -
  let ?s = "sample_sheet\<lparr>ts_status := APPROVED, ts_totalMinutes := 2460\<rparr>"
  let ?st = "tt_empty\<lparr>tt_timesheets := [?s]\<rparr>"
  have g: "getPayrollReport (typeorm_list ts_id) (\<lambda>_. None) ''o1'' ''2026-04-01'' ''2026-04-30'' ?st =
      [payroll_row (\<lambda>_. None) ?s]"
    by (simp add: getPayrollReport_def sample_sheet_def tt_empty_def)
  have m: "payroll_row (\<lambda>_. None) ?s \<in> set (getPayrollReport (typeorm_list ts_id) (\<lambda>_. None)
      ''o1'' ''2026-04-01'' ''2026-04-30'' ?st)"
    unfolding g by simp
  show ?thesis unfolding g using payroll_rows [OF list_orm_repository m]
    by (simp add: payroll_row_def Let_def sample_sheet_def)
qed

end
