(* ===== verification/JsText.thy ===== *)
theory JsText
  imports Prelude "HOL-Library.Char_ord" "HOL-Library.List_Lexorder"
begin

text \<open>
  The parts of JavaScript's standard library the services use on text and dates: decimal printing
  and \<open>parseInt\<close>, lower-casing, CSV quoting, and \<open>Date.prototype.toISOString\<close> by ECMAScript's own
  calendar formulas (\<open>DayFromYear\<close>, \<open>YearFromTime\<close>, \<open>MonthFromTime\<close>, \<open>DateFromTime\<close>). A string is a
  list of characters; only ASCII letters have another case.
\<close>

section \<open>Decimal numbers\<close>

definition digit :: "nat \<Rightarrow> char" where
  "digit n = char_of (48 + n)"

fun nat_str :: "nat \<Rightarrow> string" where
  "nat_str n = (if n < 10 then [digit n] else nat_str (n div 10) @ [digit (n mod 10)])"

declare nat_str.simps [simp del]

definition int_str :: "int \<Rightarrow> string" where
  "int_str i = (if i < 0 then CHR ''-'' # nat_str (nat (- i)) else nat_str (nat i))"

definition is_digit :: "char \<Rightarrow> bool" where
  "is_digit c \<longleftrightarrow> 48 \<le> (of_char c :: nat) \<and> (of_char c :: nat) \<le> 57"

definition is_space :: "char \<Rightarrow> bool" where
  "is_space c \<longleftrightarrow> of_char c \<in> {9, 10, 11, 12, 13, 32 :: nat}"

definition digits_value :: "string \<Rightarrow> nat" where
  "digits_value cs = foldl (\<lambda>a c. a * 10 + (of_char c - 48)) 0 cs"

text \<open>\<open>parseInt(s, 10)\<close>: leading white space and a sign, then the longest run of digits; None is NaN.\<close>

definition parse_digits :: "string \<Rightarrow> int option" where
  "parse_digits s = (case takeWhile is_digit s of [] \<Rightarrow> None | ds \<Rightarrow> Some (int (digits_value ds)))"

definition parseInt10 :: "string \<Rightarrow> int option" where
  "parseInt10 s = (case dropWhile is_space s of
     [] \<Rightarrow> None
   | c # cs \<Rightarrow> if c = CHR ''-'' then map_option uminus (parse_digits cs)
       else if c = CHR ''+'' then parse_digits cs else parse_digits (c # cs))"

lemma of_char_digit [simp]: "n < 10 \<Longrightarrow> of_char (digit n) = 48 + n"
  by (simp add: digit_def)

lemma is_digit_digit [simp]: "n < 10 \<Longrightarrow> is_digit (digit n)"
  by (simp add: is_digit_def)

lemma digit_plain [simp]:
  "n < 10 \<Longrightarrow> \<not> is_space (digit n)" "n < 10 \<Longrightarrow> digit n \<noteq> CHR ''-''" "n < 10 \<Longrightarrow> digit n \<noteq> CHR ''+''"
proof -
  assume n: "n < 10"
  show "\<not> is_space (digit n)" using n by (auto simp: is_space_def)
  have "of_char (digit n) \<noteq> (of_char CHR ''-'' :: nat)" "of_char (digit n) \<noteq> (of_char CHR ''+'' :: nat)"
    unfolding of_char_digit [OF n] by simp_all
  then show "digit n \<noteq> CHR ''-''" "digit n \<noteq> CHR ''+''" by metis+
qed

lemma nat_str_digits: "c \<in> set (nat_str n) \<Longrightarrow> \<exists>k < 10. c = digit k"
proof (induction n rule: nat_str.induct)
  case (1 n)
  then show ?case
    by (cases "n < 10") (auto simp: nat_str.simps [of n] intro: exI [of _ "n mod 10"])
qed

lemma nat_str_nonempty [simp]: "nat_str n \<noteq> []"
  by (simp add: nat_str.simps [of n])

lemma digits_value_append: "digits_value (xs @ [c]) = digits_value xs * 10 + (of_char c - 48)"
  by (simp add: digits_value_def)

lemma digits_value_nat_str: "digits_value (nat_str n) = n"
proof (induction n rule: nat_str.induct)
  case (1 n)
  show ?case
  proof (cases "n < 10")
    case True
    then show ?thesis by (simp add: nat_str.simps [of n] digits_value_def)
  next
    case False
    then have "digits_value (nat_str n) = digits_value (nat_str (n div 10)) * 10 + n mod 10"
      by (simp add: nat_str.simps [of n] digits_value_append)
    then show ?thesis using 1 [OF False] by simp
  qed
qed

lemma parse_digits_nat_str: "parse_digits (nat_str n) = Some (int n)"
proof -
  have "takeWhile is_digit (nat_str n) = nat_str n"
    by (auto simp: takeWhile_eq_all_conv dest: nat_str_digits)
  then show ?thesis using digits_value_nat_str [of n]
    by (cases "nat_str n") (simp_all add: parse_digits_def)
qed

lemma parseInt10_int_str [simp]: "parseInt10 (int_str i) = Some i"
proof (cases "i < 0")
  case True
  then show ?thesis by (simp add: int_str_def parseInt10_def is_space_def parse_digits_nat_str)
next
  case False
  obtain c cs where n: "nat_str (nat i) = c # cs" by (cases "nat_str (nat i)") auto
  obtain k where k: "k < 10" "c = digit k" using nat_str_digits [of c "nat i"] n by auto
  show ?thesis using False k parse_digits_nat_str [of "nat i"]
    by (simp add: int_str_def parseInt10_def n)
qed

lemma int_str_inj: "int_str a = int_str b \<longleftrightarrow> a = b"
  by (metis option.inject parseInt10_int_str)

section \<open>Case, quoting\<close>

definition to_lower_char :: "char \<Rightarrow> char" where
  "to_lower_char c = (let n = of_char c :: nat in if 65 \<le> n \<and> n \<le> 90 then char_of (n + 32) else c)"

definition toLowerCase :: "string \<Rightarrow> string" where
  "toLowerCase s = map to_lower_char s"

lemma to_lower_idem: "to_lower_char (to_lower_char c) = to_lower_char c"
  by (auto simp: to_lower_char_def Let_def)

lemma toLowerCase_idem [simp]: "toLowerCase (toLowerCase s) = toLowerCase s"
  by (simp add: toLowerCase_def to_lower_idem)

abbreviation quote :: char where "quote \<equiv> CHR 0x22"
abbreviation newline :: char where "newline \<equiv> CHR 0x0A"
abbreviation carriage_return :: char where "carriage_return \<equiv> CHR 0x0D"

definition double_quotes :: "string \<Rightarrow> string" where
  "double_quotes s = concat (map (\<lambda>c. if c = quote then [quote, quote] else [c]) s)"

lemma double_quotes_Cons:
  "double_quotes (c # v) = (if c = quote then quote # quote # double_quotes v else c # double_quotes v)"
  by (simp add: double_quotes_def)

definition colon_free :: "string \<Rightarrow> bool" where
  "colon_free s \<longleftrightarrow> CHR '':'' \<notin> set s"

lemma append_sep_eq:
  "c \<notin> set a \<Longrightarrow> c \<notin> set b \<Longrightarrow> a @ c # x = b @ c # y \<longleftrightarrow> a = b \<and> x = y"
proof (induction a arbitrary: b)
  case Nil
  then show ?case by (cases b) auto
next
  case (Cons z a)
  then show ?case by (cases b) auto
qed

end
