(* ===== verification/JsDate.thy ===== *)
theory JsDate
  imports JsText
begin

text \<open>
  \<open>Date.prototype.toISOString\<close> by ECMAScript's calendar formulas: \<open>DayFromYear\<close>, \<open>YearFromTime\<close> (the
  greatest year that begins no later than the time), \<open>MonthFromTime\<close> and \<open>DateFromTime\<close>. The
  services slice the text: ten characters are the UTC day, seven the UTC month. The lemmas
  show that for the years 0 to 9999 two times have the same slice exactly when they lie on
  the same day, so a key or a bucket made of it stands for one day.
\<close>

definition ms_per_day :: int where "ms_per_day = 86400000"

definition Day :: "js_time \<Rightarrow> int" where "Day t = t div 86400000"

definition DayFromYear :: "int \<Rightarrow> int" where
  "DayFromYear y = 365 * (y - 1970) + (y - 1969) div 4 - (y - 1901) div 100 + (y - 1601) div 400"

definition year_of_day :: "int \<Rightarrow> int" where
  "year_of_day d = (let y = 1970 + d * 400 div 146097 in
     if d < DayFromYear y then y - 1 else if DayFromYear (y + 1) \<le> d then y + 1 else y)"

definition leap_year :: "int \<Rightarrow> bool" where
  "leap_year y \<longleftrightarrow> y mod 4 = 0 \<and> (y mod 100 \<noteq> 0 \<or> y mod 400 = 0)"

definition month_starts :: "bool \<Rightarrow> int list" where
  "month_starts leap = (if leap then [0, 31, 60, 91, 121, 152, 182, 213, 244, 274, 305, 335]
     else [0, 31, 59, 90, 120, 151, 181, 212, 243, 273, 304, 334])"

definition month_of_day :: "bool \<Rightarrow> int \<Rightarrow> nat" where
  "month_of_day leap n = length (takeWhile (\<lambda>s. s \<le> n) (month_starts leap))"

definition YearFromTime :: "js_time \<Rightarrow> int" where "YearFromTime t = year_of_day (Day t)"

definition DayWithinYear :: "js_time \<Rightarrow> int" where
  "DayWithinYear t = Day t - DayFromYear (YearFromTime t)"

definition MonthFromTime :: "js_time \<Rightarrow> nat" where
  "MonthFromTime t = month_of_day (leap_year (YearFromTime t)) (DayWithinYear t)"

definition DateFromTime :: "js_time \<Rightarrow> nat" where
  "DateFromTime t = nat (DayWithinYear t
     - month_starts (leap_year (YearFromTime t)) ! (MonthFromTime t - 1) + 1)"

definition HourFromTime :: "js_time \<Rightarrow> nat" where "HourFromTime t = nat (t div 3600000 mod 24)"
definition MinFromTime :: "js_time \<Rightarrow> nat" where "MinFromTime t = nat (t div 60000 mod 60)"

text \<open>The week day, 0 for Sunday: the epoch was a Thursday.\<close>

definition WeekDay :: "js_time \<Rightarrow> nat" where "WeekDay t = nat ((Day t + 4) mod 7)"

definition pad2 :: "nat \<Rightarrow> string" where "pad2 n = [digit (n div 10 mod 10), digit (n mod 10)]"
definition pad3 :: "nat \<Rightarrow> string" where "pad3 n = digit (n div 100 mod 10) # pad2 (n mod 100)"
definition pad4 :: "nat \<Rightarrow> string" where "pad4 n = pad2 (n div 100) @ pad2 (n mod 100)"

text \<open>\<open>(n / 60).toFixed(2)\<close> for a whole number of minutes.\<close>

definition hours_fixed2 :: "int \<Rightarrow> string" where
  "hours_fixed2 n = (let h = nat ((\<bar>n\<bar> * 100 + 30) div 60) in
     (if n < 0 then ''-'' else []) @ nat_str (h div 100) @ ''.'' @ pad2 (h mod 100))"

text \<open>Outside the years 0 to 9999 the year is written with a sign and six digits.\<close>

definition iso_year :: "int \<Rightarrow> string" where
  "iso_year y = (if 0 \<le> y \<and> y \<le> 9999 then pad4 (nat y)
     else (if y < 0 then ''-'' else ''+'') @ pad3 (nat \<bar>y\<bar> div 1000) @ pad3 (nat \<bar>y\<bar> mod 1000))"

definition toISOString :: "js_time \<Rightarrow> string" where
  "toISOString t = iso_year (YearFromTime t) @ ''-'' @ pad2 (MonthFromTime t) @ ''-''
     @ pad2 (DateFromTime t) @ ''T'' @ pad2 (HourFromTime t) @ '':'' @ pad2 (MinFromTime t) @ '':''
     @ pad2 (nat (t div 1000 mod 60)) @ ''.'' @ pad3 (nat (t mod 1000)) @ ''Z''"

definition iso_date :: "js_time \<Rightarrow> string" where "iso_date t = take 10 (toISOString t)"
definition iso_month :: "js_time \<Rightarrow> string" where "iso_month t = take 7 (toISOString t)"
definition iso_hhmm :: "js_time \<Rightarrow> string" where "iso_hhmm t = take 5 (drop 11 (toISOString t))"

section \<open>The year is the one that contains the day\<close>

lemma div_bounds:
  fixes z n :: int
  assumes "0 < n"
  shows "n * (z div n) \<le> z \<and> z < n * (z div n) + n"
  using assms pos_mod_sign [of n z] pos_mod_bound [of n z] mult_div_mod_eq [of n z] by linarith

lemma year_of_day_brackets:
  "DayFromYear (year_of_day d) \<le> d \<and> d < DayFromYear (year_of_day d + 1)"
proof -
  define k where "k = d * 400 div 146097"
  have k: "146097 * k \<le> 400 * d" "400 * d < 146097 * k + 146097" using div_bounds [of 146097 "d * 400"]
    unfolding k_def by linarith+
  have est: "DayFromYear (1970 + j) * 400 \<le> 146097 * j + 600 \<and>
      146097 * j - 600 \<le> DayFromYear (1970 + j) * 400" for j
  proof -
    define x y z where "x = (j + 1) div 4" and "y = (j + 69) div 100" and "z = (j + 369) div 400"
    have b: "4 * x \<le> j + 1" "j + 1 < 4 * x + 4" "100 * y \<le> j + 69" "j + 69 < 100 * y + 100"
      "400 * z \<le> j + 369" "j + 369 < 400 * z + 400"
      using div_bounds [of 4 "j + 1"] div_bounds [of 100 "j + 69"] div_bounds [of 400 "j + 369"]
      unfolding x_def y_def z_def by linarith+
    have e: "1970 + j - 1970 = j" "1970 + j - 1969 = j + 1" "1970 + j - 1901 = j + 69"
      "1970 + j - 1601 = j + 369" by linarith+
    have "DayFromYear (1970 + j) = 365 * j + x - y + z"
      unfolding DayFromYear_def e x_def y_def z_def ..
    then show ?thesis using b by linarith
  qed
  define A B where "A = DayFromYear (1970 + (k - 1))" and "B = DayFromYear (1970 + (k + 2))"
  have "A * 400 \<le> 146097 * (k - 1) + 600" "146097 * (k + 2) - 600 \<le> B * 400"
    using est [of "k - 1"] est [of "k + 2"] by (simp_all only: A_def B_def)
  then have "A \<le> d \<and> d < B" using k by (simp add: algebra_simps)
  then have a: "DayFromYear (1970 + (k - 1)) \<le> d" "d < DayFromYear (1970 + (k + 2))"
    by (simp_all only: A_def B_def)
  have e: "1970 + (k - 1) = 1970 + k - 1" "1970 + (k + 2) = 1970 + k + 1 + 1"
    "1970 + k - 1 + 1 = 1970 + k" by linarith+
  show ?thesis using a unfolding e
    unfolding year_of_day_def Let_def k_def [symmetric] by (simp only: e not_less not_le split: if_split) simp
qed

lemma YearFromTime_brackets:
  "DayFromYear (YearFromTime t) \<le> Day t" "Day t < DayFromYear (YearFromTime t + 1)"
  using year_of_day_brackets [of "Day t"] by (simp_all add: YearFromTime_def)

lemma div_step:
  fixes z n :: int
  assumes "0 < n"
  shows "(z + 1) div n = z div n + (if (z + 1) mod n = 0 then 1 else 0)"
proof -
  define q r where "q = (z + 1) div n" and "r = (z + 1) mod n"
  have z: "z + 1 = n * q + r" and r: "0 \<le> r" "r < n" using assms by (auto simp: q_def r_def)
  have "z div n = (if r = 0 then q - 1 else q)"
  proof (cases "r = 0")
    case True
    then have "z = n * (q - 1) + (n - 1)" using z by (simp add: algebra_simps)
    then show ?thesis using True assms int_div_pos_eq [of z n "q - 1" "n - 1"] by simp
  next
    case False
    then have "z = n * q + (r - 1)" using z by simp
    then show ?thesis using False r int_div_pos_eq [of z n q "r - 1"] by simp
  qed
  then show ?thesis by (simp add: q_def r_def)
qed

lemma div_shift:
  fixes n c y :: int
  assumes "0 < n" and "n dvd c - 1"
  shows "(y + 1 - c) div n = (y - c) div n + (if y mod n = 0 then 1 else 0)"
proof -
  have "(y - (c - 1)) mod n = 0 \<longleftrightarrow> y mod n = 0"
    using assms(2) by (metis dvd_add_left_iff diff_add_cancel mod_eq_0_iff_dvd)
  moreover have "y - c + 1 = y - (c - 1)" "y + 1 - c = y - (c - 1)" by simp_all
  ultimately show ?thesis using div_step [OF assms(1), of "y - c"] by (simp only:)
qed

lemma DayFromYear_step: "DayFromYear (y + 1) = DayFromYear y + (if leap_year y then 366 else 365)"
proof -
  have d: "(y + 1 - 1969) div 4 = (y - 1969) div 4 + (if y mod 4 = 0 then 1 else 0)"
    "(y + 1 - 1901) div 100 = (y - 1901) div 100 + (if y mod 100 = 0 then 1 else 0)"
    "(y + 1 - 1601) div 400 = (y - 1601) div 400 + (if y mod 400 = 0 then 1 else 0)"
    by (rule div_shift; simp)+
  have m: "y mod 100 mod 4 = y mod 4" "y mod 400 mod 100 = y mod 100" by (rule mod_mod_cancel; simp)+
  have i: "y mod 4 = 0" if "y mod 100 = 0"
    unfolding m(1) [symmetric] that by (rule mod_0)
  have j: "y mod 100 = 0" if "y mod 400 = 0"
    unfolding m(2) [symmetric] that by (rule mod_0)
  define a b c where "a \<longleftrightarrow> y mod 4 = 0" and "b \<longleftrightarrow> y mod 100 = 0" and "c \<longleftrightarrow> y mod 400 = 0"
  have e: "365 * (y + 1 - 1970) = 365 * (y - 1970) + 365" by simp
  have "DayFromYear (y + 1) = DayFromYear y + 365
      + (if a then 1 else 0) - (if b then 1 else 0) + (if c then 1 else 0)"
    unfolding DayFromYear_def d e a_def [symmetric] b_def [symmetric] c_def [symmetric]
    by (simp only: ac_simps)
  moreover have "leap_year y \<longleftrightarrow> a \<and> (\<not> b \<or> c)"
    by (simp only: leap_year_def a_def b_def c_def)
  moreover have "b \<longrightarrow> a" unfolding a_def b_def using i by (rule impI)
  moreover have "c \<longrightarrow> b" unfolding b_def c_def using j by (rule impI)
  ultimately show ?thesis by (cases a; cases b; cases c) simp_all
qed

lemma DayWithinYear_range:
  "0 \<le> DayWithinYear t" "DayWithinYear t < (if leap_year (YearFromTime t) then 366 else 365)"
  using YearFromTime_brackets [of t] by (auto simp: DayWithinYear_def DayFromYear_step)

section \<open>Month and day of the month\<close>

lemma month_of_day_start:
  assumes "0 \<le> n"
  shows "1 \<le> month_of_day l n" "month_of_day l n \<le> 12"
    "month_starts l ! (month_of_day l n - 1) \<le> n"
    "n < (if l then 366 else 365) \<Longrightarrow> n - month_starts l ! (month_of_day l n - 1) < 31"
  using assms by (auto simp: month_of_day_def month_starts_def)

lemma Month_Date_range:
  "1 \<le> MonthFromTime t" "MonthFromTime t \<le> 12" "1 \<le> DateFromTime t" "DateFromTime t \<le> 31"
  using month_of_day_start [OF DayWithinYear_range(1) [of t], where l = "leap_year (YearFromTime t)"]
    DayWithinYear_range(2) [of t]
  by (auto simp: MonthFromTime_def DateFromTime_def nat_le_iff)

lemma Day_from_civil:
  "Day t = DayFromYear (YearFromTime t)
     + month_starts (leap_year (YearFromTime t)) ! (MonthFromTime t - 1) + int (DateFromTime t) - 1"
  using month_of_day_start(3) [OF DayWithinYear_range(1) [of t], where l = "leap_year (YearFromTime t)"]
  by (simp add: DateFromTime_def MonthFromTime_def DayWithinYear_def)

section \<open>The text of a day\<close>

lemma digit_inj: "m < 10 \<Longrightarrow> n < 10 \<Longrightarrow> digit m = digit n \<longleftrightarrow> m = n"
  by (metis add_left_cancel of_char_digit)

lemma length_pad [simp]: "length (pad2 n) = 2" "length (pad3 n) = 3" "length (pad4 n) = 4"
  by (simp_all add: pad2_def pad3_def pad4_def)

lemma pad2_inj: "m < 100 \<Longrightarrow> n < 100 \<Longrightarrow> pad2 m = pad2 n \<longleftrightarrow> m = n"
proof -
  assume mn: "m < 100" "n < 100"
  then have "m div 10 < 10" "n div 10 < 10" by auto
  then have "pad2 m = pad2 n \<longleftrightarrow> m div 10 = n div 10 \<and> m mod 10 = n mod 10"
    by (simp add: pad2_def digit_inj)
  then show ?thesis by (metis div_mult_mod_eq)
qed

lemma pad4_inj: "m < 10000 \<Longrightarrow> n < 10000 \<Longrightarrow> pad4 m = pad4 n \<longleftrightarrow> m = n"
proof -
  assume mn: "m < 10000" "n < 10000"
  then have "m div 100 < 100" "n div 100 < 100" by auto
  then have "pad4 m = pad4 n \<longleftrightarrow> m div 100 = n div 100 \<and> m mod 100 = n mod 100"
    by (simp add: pad4_def pad2_inj)
  then show ?thesis by (metis div_mult_mod_eq)
qed

definition four_digit_year :: "js_time \<Rightarrow> bool" where
  "four_digit_year t \<longleftrightarrow> 0 \<le> YearFromTime t \<and> YearFromTime t \<le> 9999"

lemma iso_date_text:
  "four_digit_year t \<Longrightarrow> iso_date t =
     pad4 (nat (YearFromTime t)) @ ''-'' @ pad2 (MonthFromTime t) @ ''-'' @ pad2 (DateFromTime t)"
  by (simp add: iso_date_def toISOString_def iso_year_def four_digit_year_def)

lemma iso_month_text:
  "four_digit_year t \<Longrightarrow> iso_month t = pad4 (nat (YearFromTime t)) @ ''-'' @ pad2 (MonthFromTime t)"
  by (simp add: iso_month_def toISOString_def iso_year_def four_digit_year_def)

lemma iso_date_eq_iff:
  assumes "four_digit_year s" "four_digit_year t"
  shows "iso_date s = iso_date t \<longleftrightarrow> Day s = Day t"
proof
  assume eq: "iso_date s = iso_date t"
  have y: "YearFromTime s = YearFromTime t"
    using eq assms by (auto simp: iso_date_text pad4_inj four_digit_year_def eq_nat_nat_iff)
  have m: "MonthFromTime s = MonthFromTime t"
    using eq assms Month_Date_range(2) [of s] Month_Date_range(2) [of t] by (auto simp: iso_date_text pad2_inj)
  have "DateFromTime s = DateFromTime t"
    using eq assms Month_Date_range(4) [of s] Month_Date_range(4) [of t] by (auto simp: iso_date_text pad2_inj)
  then show "Day s = Day t" using y m by (simp add: Day_from_civil)
next
  assume "Day s = Day t"
  then show "iso_date s = iso_date t"
    by (simp add: iso_date_text [OF assms(1)] iso_date_text [OF assms(2)] MonthFromTime_def
        DateFromTime_def DayWithinYear_def YearFromTime_def)
qed

lemma length_iso_date: "four_digit_year t \<Longrightarrow> length (iso_date t) = 10"
  by (simp add: iso_date_text)

lemma iso_date_examples:
  "iso_date 0 = ''1970-01-01''" "iso_date 951782400000 = ''2000-02-29''"
  "toISOString 1767225599999 = ''2025-12-31T23:59:59.999Z''"
  by code_simp+

end
