(* ===== verification/StreamingSvc.thy ===== *)
theory StreamingSvc
  imports EntitiesAgent KeyValueStore JsDate
begin

text \<open>
  StreamingService and EgressMonitorService (modules/streaming): stream sessions, the daily
  bandwidth counter kept in the key-value store, and the hourly check of the monthly egress.
  A counter is a JavaScript number read with \<open>parseInt\<close>: \<open>None\<close> is NaN. The store \<open>K\<close> is the injected
  RedisService; a read and a later write of the same counter are separate steps, because the
  handler awaits in between.
\<close>

section \<open>Sessions\<close>

record StreamingDb =
  sd_sessions :: "StreamSession list"
  sd_orgs :: "Organization list"

definition getActiveSessions :: "StreamSession orm \<Rightarrow> string \<Rightarrow> StreamingDb \<Rightarrow> StreamSession list" where
  "getActiveSessions R orgId db =
     orm_find R (\<lambda>s. st_organizationId s = orgId \<and> st_isActive s) any_order None (sd_sessions db)"

definition createSession ::
  "StreamSession orm \<Rightarrow> js_time \<Rightarrow> string \<Rightarrow> string \<Rightarrow> string \<Rightarrow> string \<Rightarrow> StreamingDb \<Rightarrow>
   StreamSession \<times> StreamingDb" where
  "createSession R now newId userId orgId socketId db =
     (let session = \<lparr>st_id = newId, st_userId = userId, st_organizationId = orgId,
        st_socketId = Some socketId, st_startedAt = now, st_endedAt = None, st_bytesRx = ''0'',
        st_bytesTx = ''0'', st_isActive = True, st_mode = Mode_idle, st_disconnectReason = None\<rparr>
      in (session, db\<lparr>sd_sessions := orm_save R session (sd_sessions db)\<rparr>))"

definition closeSession ::
  "StreamSession orm \<Rightarrow> js_time \<Rightarrow> string \<Rightarrow> string \<Rightarrow> StreamingDb \<Rightarrow> StreamingDb" where
  "closeSession R now socketId reason db =
     db\<lparr>sd_sessions := orm_update R (\<lambda>s. st_socketId s = Some socketId \<and> st_isActive s)
       (\<lambda>s. s\<lparr>st_isActive := False, st_endedAt := Some now, st_disconnectReason := Some reason\<rparr>)
       (sd_sessions db)\<rparr>"

definition getSessionByUserId :: "StreamSession orm \<Rightarrow> string \<Rightarrow> StreamingDb \<Rightarrow> StreamSession option" where
  "getSessionByUserId R userId db =
     find_one_by R (\<lambda>s. st_userId s = userId \<and> st_isActive s) (desc st_startedAt) (sd_sessions db)"

definition updateSessionMode ::
  "StreamSession orm \<Rightarrow> string \<Rightarrow> StreamMode \<Rightarrow> StreamingDb \<Rightarrow> StreamingDb" where
  "updateSessionMode R userId mode db =
     db\<lparr>sd_sessions := orm_update R (\<lambda>s. st_userId s = userId \<and> st_isActive s)
       (\<lambda>s. s\<lparr>st_mode := mode\<rparr>) (sd_sessions db)\<rparr>"

text \<open>One row per user: the sums of the two counters (\<open>bigint\<close> columns read as decimal text).\<close>

record SessionStats =
  ss_user :: string
  ss_bytesRx :: int
  ss_bytesTx :: int
  ss_sessionCount :: nat

definition getSessionStats ::
  "StreamSession orm \<Rightarrow> string \<Rightarrow> js_time \<Rightarrow> js_time \<Rightarrow> StreamingDb \<Rightarrow> SessionStats list" where
  "getSessionStats R orgId fromDate toDate db =
     (let rows = orm_find R (\<lambda>s. st_organizationId s = orgId \<and> fromDate \<le> st_startedAt s
            \<and> st_startedAt s \<le> toDate) any_order None (sd_sessions db)
      in map (\<lambda>u. let mine = filter (\<lambda>s. st_userId s = u) rows in
          \<lparr>ss_user = u, ss_bytesRx = (\<Sum>s\<leftarrow>mine. nullish (parseInt10 (st_bytesRx s)) 0),
            ss_bytesTx = (\<Sum>s\<leftarrow>mine. nullish (parseInt10 (st_bytesTx s)) 0),
            ss_sessionCount = length mine\<rparr>)
        (remdups (map st_userId rows)))"

record StreamingConfig =
  sc_streamingEnabled :: bool
  sc_cameraEnabled :: bool
  sc_audioEnabled :: bool
  sc_maxStreamFps :: int
  sc_dailyBandwidthCapMb :: int

record UpdateStreamingConfigDto =
  us_streamingEnabled :: "bool option"
  us_cameraEnabled :: "bool option"
  us_audioEnabled :: "bool option"
  us_maxStreamFps :: "int option"
  us_dailyBandwidthCapMb :: "int option"

definition getOrgStreamingConfig :: "Organization orm \<Rightarrow> string \<Rightarrow> StreamingDb \<Rightarrow> StreamingConfig" where
  "getOrgStreamingConfig RO orgId db =
     (case find_one RO (\<lambda>o1. org_id o1 = orgId) (sd_orgs db) of
        None \<Rightarrow> \<lparr>sc_streamingEnabled = False, sc_cameraEnabled = False, sc_audioEnabled = False,
          sc_maxStreamFps = 1, sc_dailyBandwidthCapMb = 500\<rparr>
      | Some o1 \<Rightarrow> \<lparr>sc_streamingEnabled = org_streamingEnabled o1,
          sc_cameraEnabled = org_cameraEnabled o1, sc_audioEnabled = org_audioEnabled o1,
          sc_maxStreamFps = org_maxStreamFps o1,
          sc_dailyBandwidthCapMb = org_dailyBandwidthCapMb o1\<rparr>)"

definition apply_stream_config :: "js_time \<Rightarrow> UpdateStreamingConfigDto \<Rightarrow> Organization \<Rightarrow> Organization" where
  "apply_stream_config now u o1 =
     (patch (us_streamingEnabled u) (\<lambda>v x. x\<lparr>org_streamingEnabled := v\<rparr>)
     (patch (us_cameraEnabled u) (\<lambda>v x. x\<lparr>org_cameraEnabled := v\<rparr>)
     (patch (us_audioEnabled u) (\<lambda>v x. x\<lparr>org_audioEnabled := v\<rparr>)
     (patch (us_maxStreamFps u) (\<lambda>v x. x\<lparr>org_maxStreamFps := v\<rparr>)
     (patch (us_dailyBandwidthCapMb u) (\<lambda>v x. x\<lparr>org_dailyBandwidthCapMb := v\<rparr>) o1)))))
     \<lparr>org_updatedAt := now\<rparr>"

definition updateOrgStreamingConfig ::
  "Organization orm \<Rightarrow> js_time \<Rightarrow> string \<Rightarrow> UpdateStreamingConfigDto \<Rightarrow> StreamingDb \<Rightarrow>
   StreamingConfig \<times> StreamingDb" where
  "updateOrgStreamingConfig RO now orgId updates db =
     (let db' = db\<lparr>sd_orgs := orm_update RO (\<lambda>o1. org_id o1 = orgId)
        (apply_stream_config now updates) (sd_orgs db)\<rparr>
      in (getOrgStreamingConfig RO orgId db', db'))"

section \<open>Counters in the store\<close>

definition bw_key :: "string \<Rightarrow> js_time \<Rightarrow> string" where
  "bw_key userId now = ''bw:'' @ userId @ '':'' @ iso_date now"

definition month_key :: "js_time \<Rightarrow> string" where
  "month_key now = ''egress:monthly:'' @ iso_month now"

definition counter_value :: "string option \<Rightarrow> int option" where
  "counter_value v = (if falsy_str v then Some 0 else parseInt10 (the v))"

definition num_str :: "int option \<Rightarrow> string" where
  "num_str n = (case n of None \<Rightarrow> ''NaN'' | Some i \<Rightarrow> int_str i)"

text \<open>\<open>trackBandwidth\<close> reads the counter, awaits, and writes the sum: the two steps of a call.\<close>

definition bandwidth_read ::
  "'s kv \<Rightarrow> js_time \<Rightarrow> string \<Rightarrow> 's \<Rightarrow> int option \<times> 's" where
  "bandwidth_read K now userId s =
     (case kv_get K now (bw_key userId now) s of (v, s') \<Rightarrow> (counter_value v, s'))"

definition bandwidth_write ::
  "'s kv \<Rightarrow> js_time \<Rightarrow> string \<Rightarrow> int option \<Rightarrow> int \<Rightarrow> 's \<Rightarrow> bool \<times> 's" where
  "bandwidth_write K now key currentBytes bytes s =
     (let newTotal = map_option (\<lambda>c. c + bytes) currentBytes;
          s' = kv_set K now key (num_str newTotal) (Some 90000) s;
          capMb = 500
      in ((case newTotal of None \<Rightarrow> False | Some n \<Rightarrow> n < capMb * 1024 * 1024), s'))"

definition trackBandwidth ::
  "'s kv \<Rightarrow> js_time \<Rightarrow> string \<Rightarrow> int \<Rightarrow> 's \<Rightarrow> bool \<times> 's" where
  "trackBandwidth K now userId bytes s =
     (case bandwidth_read K now userId s of (cur, s') \<Rightarrow>
       bandwidth_write K now (bw_key userId now) cur bytes s')"

text \<open>Frames are the time of arrival, the user and the number of bytes.\<close>

type_synonym frame_arrival = "js_time \<times> string \<times> int"

fun track_frames :: "'s kv \<Rightarrow> frame_arrival list \<Rightarrow> 's \<Rightarrow> bool list \<times> 's" where
  "track_frames K [] s = ([], s)"
| "track_frames K ((t, userId, n) # fs) s =
     (case trackBandwidth K t userId n s of (ok, s') \<Rightarrow>
       (case track_frames K fs s' of (oks, s'') \<Rightarrow> (ok # oks, s'')))"

definition addMonthlyEgress :: "'s kv \<Rightarrow> js_time \<Rightarrow> int \<Rightarrow> 's \<Rightarrow> 's" where
  "addMonthlyEgress K now bytes s =
     (case kv_get K now (month_key now) s of (v, s') \<Rightarrow>
       kv_set K now (month_key now) (num_str (map_option (\<lambda>c. c + bytes) (counter_value v))) None s')"

section \<open>EgressMonitorService\<close>

definition TEN_TB_BYTES :: int where "TEN_TB_BYTES = 10 * 1024 * 1024 * 1024 * 1024"

datatype egress_action = Stop_streaming | Reduce_fps

text \<open>\<open>pct >= 0.95\<close> and \<open>pct >= 0.80\<close> on the quotient; NaN compares false.\<close>

definition checkEgress :: "'s kv \<Rightarrow> js_time \<Rightarrow> 's \<Rightarrow> egress_action option \<times> 's" where
  "checkEgress K now s =
     (case kv_get K now (month_key now) s of (v, s') \<Rightarrow>
       ((case counter_value v of
           None \<Rightarrow> None
         | Some bytes \<Rightarrow>
             let pct = real_of_int bytes / real_of_int TEN_TB_BYTES in
             if pct \<ge> 95 / 100 then Some Stop_streaming
             else if pct \<ge> 80 / 100 then Some Reduce_fps else None), s'))"

lemmas [op_defs] = createSession_def closeSession_def updateSessionMode_def
  bandwidth_read_def bandwidth_write_def trackBandwidth_def checkEgress_def


section \<open>The daily counter is exact when calls do not overlap\<close>

definition on_day :: "string \<Rightarrow> js_time \<Rightarrow> frame_arrival \<Rightarrow> bool" where
  "on_day u t f \<longleftrightarrow> fst (snd f) = u \<and> Day (fst f) = Day t"

definition day_sum :: "string \<Rightarrow> js_time \<Rightarrow> frame_arrival list \<Rightarrow> int" where
  "day_sum u t fs = (\<Sum>f\<leftarrow>filter (on_day u t) fs. snd (snd f))"

definition good_frame :: "frame_arrival \<Rightarrow> bool" where
  "good_frame f \<longleftrightarrow> four_digit_year (fst f) \<and> colon_free (fst (snd f))"

definition counters_exact ::
  "(js_time \<Rightarrow> string \<Rightarrow> 's \<Rightarrow> string option) \<Rightarrow> js_time \<Rightarrow> frame_arrival list \<Rightarrow> 's \<Rightarrow> bool" where
  "counters_exact live now fs s \<longleftrightarrow>
     (\<forall>u t. colon_free u \<longrightarrow> four_digit_year t \<longrightarrow> now \<le> t \<longrightarrow>
       live t (bw_key u t) s =
         (if \<exists>f \<in> set fs. on_day u t f then Some (int_str (day_sum u t fs)) else None))"

lemma bw_key_eq:
  assumes "colon_free u" "colon_free u'" "four_digit_year t" "four_digit_year t'"
  shows "bw_key u t = bw_key u' t' \<longleftrightarrow> u = u' \<and> Day t = Day t'"
  using assms append_sep_eq [of "CHR '':''" u u' "iso_date t" "iso_date t'"]
  by (simp add: bw_key_def colon_free_def iso_date_eq_iff)

lemma same_day_close: "Day t = Day t' \<Longrightarrow> t' \<le> t + 90000 * 1000"
proof -
  assume "Day t = Day t'"
  then have "t div 86400000 = t' div 86400000" by (simp add: Day_def)
  moreover have "t = t div 86400000 * 86400000 + t mod 86400000" "t mod 86400000 \<ge> 0"
    "t' = t' div 86400000 * 86400000 + t' mod 86400000" "t' mod 86400000 < 86400000"
    by simp_all
  ultimately show ?thesis by linarith
qed

lemma int_str_nonempty [simp]: "int_str i \<noteq> []"
  by (simp add: int_str_def)

lemma counter_value_simps [simp]:
  "counter_value None = Some 0" "counter_value (Some (int_str i)) = Some i"
  by (simp_all add: counter_value_def)

lemma num_str_Some [simp]: "num_str (Some i) = int_str i"
  by (simp add: num_str_def)

lemma day_sum_none: "\<not> (\<exists>f \<in> set fs. on_day u t f) \<Longrightarrow> day_sum u t fs = 0"
proof -
  assume "\<not> (\<exists>f \<in> set fs. on_day u t f)"
  then have "filter (on_day u t) fs = []" by (auto simp: filter_empty_conv)
  then show ?thesis by (simp add: day_sum_def)
qed

lemma day_sum_snoc:
  "day_sum u t (fs @ [(t', u', n)]) = day_sum u t fs + (if u' = u \<and> Day t' = Day t then n else 0)"
  by (simp add: day_sum_def on_day_def)

lemma on_day_cong: "Day t = Day t' \<Longrightarrow> on_day u t = on_day u t'"
  by (rule ext) (simp add: on_day_def)

lemma day_sum_cong: "Day t = Day t' \<Longrightarrow> day_sum u t fs = day_sum u t' fs"
  by (simp add: day_sum_def on_day_cong [of t t'])

context kv_store
begin

lemma bandwidth_read_live:
  "fst (bandwidth_read K t u s) = counter_value (live t (bw_key u t) s)"
  "t \<le> t' \<Longrightarrow> live t' k (snd (bandwidth_read K t u s)) = live t' k s"
  using get_live [of t "bw_key u t" s] get_frame [of t t' k "bw_key u t" s]
  by (cases "kv_get K t (bw_key u t) s"; simp add: bandwidth_read_def)+

lemma bandwidth_write_live:
  "t \<le> t' \<Longrightarrow> live t' k (snd (bandwidth_write K t k0 (Some c) n s)) =
     (if k = k0 then if t' \<le> t + 90000 * 1000 then Some (int_str (c + n)) else None
      else live t' k s)"
  by (simp add: bandwidth_write_def Let_def set_live unexpired_def)

lemma trackBandwidth_live:
  assumes c: "counter_value (live t (bw_key u t) s) = Some c"
  shows "fst (trackBandwidth K t u n s) = (c + n < 524288000)"
    and "t \<le> t' \<Longrightarrow> live t' k (snd (trackBandwidth K t u n s)) =
     (if k = bw_key u t then if t' \<le> t + 90000 * 1000 then Some (int_str (c + n)) else None
      else live t' k s)"
proof -
  obtain s1 where r: "bandwidth_read K t u s = (Some c, s1)"
    using bandwidth_read_live(1) [of t u s] c by (metis prod.collapse)
  show "fst (trackBandwidth K t u n s) = (c + n < 524288000)"
    by (simp add: trackBandwidth_def r bandwidth_write_def Let_def)
  assume t: "t \<le> t'"
  have "live t' k s1 = live t' k s" using bandwidth_read_live(2) [OF t, of k u s] r by simp
  then show "live t' k (snd (trackBandwidth K t u n s)) =
     (if k = bw_key u t then if t' \<le> t + 90000 * 1000 then Some (int_str (c + n)) else None
      else live t' k s)"
    using bandwidth_write_live [OF t, of k "bw_key u t" c n s1] by (simp add: trackBandwidth_def r)
qed

lemma track_step_exact:
  assumes inv: "counters_exact live now fs s" and "now \<le> t" and good: "good_frame (t, u, n)"
  shows "fst (trackBandwidth K t u n s) = (day_sum u t (fs @ [(t, u, n)]) < 524288000)"
    and "counters_exact live t (fs @ [(t, u, n)]) (snd (trackBandwidth K t u n s))"
proof -
  have g: "four_digit_year t" "colon_free u" using good by (auto simp: good_frame_def)
  have c: "counter_value (live t (bw_key u t) s) = Some (day_sum u t fs)"
    using inv g assms(2) day_sum_none [of fs u t] by (auto simp: counters_exact_def)
  show "fst (trackBandwidth K t u n s) = (day_sum u t (fs @ [(t, u, n)]) < 524288000)"
    by (simp add: trackBandwidth_live(1) [OF c] day_sum_snoc)
  show "counters_exact live t (fs @ [(t, u, n)]) (snd (trackBandwidth K t u n s))"
    unfolding counters_exact_def
  proof (intro allI impI)
    fix v t' assume v: "colon_free v" "four_digit_year t'" "t \<le> t'"
    have old: "live t' (bw_key v t') s =
        (if \<exists>f \<in> set fs. on_day v t' f then Some (int_str (day_sum v t' fs)) else None)"
      using inv v assms(2) by (simp add: counters_exact_def)
    show "live t' (bw_key v t') (snd (trackBandwidth K t u n s)) =
        (if \<exists>f \<in> set (fs @ [(t, u, n)]). on_day v t' f
         then Some (int_str (day_sum v t' (fs @ [(t, u, n)]))) else None)"
    proof (cases "v = u \<and> Day t' = Day t")
      case True
      then show ?thesis
        using trackBandwidth_live(2) [OF c v(3), of "bw_key v t'" n] same_day_close [of t t']
          day_sum_cong [of t' t u fs] bw_key_eq [OF v(1) g(2) v(2) g(1)]
        by (simp add: day_sum_snoc on_day_def)
    next
      case False
      then show ?thesis
        using trackBandwidth_live(2) [OF c v(3), of "bw_key v t'" n] old
          bw_key_eq [OF v(1) g(2) v(2) g(1)]
        by (auto simp: day_sum_snoc on_day_def)
    qed
  qed
qed

lemma track_frames_exact:
  assumes "counters_exact live now ps s" and "sorted (map fst fs)"
    and "\<forall>f \<in> set fs. now \<le> fst f \<and> good_frame f"
  shows "fst (track_frames K fs s) =
    map (\<lambda>k. day_sum (fst (snd (fs ! k))) (fst (fs ! k)) (ps @ take (Suc k) fs) < 524288000)
      [0..<length fs]"
  using assms
proof (induction fs arbitrary: now ps s)
  case (Cons f fs)
  obtain t u n where f: "f = (t, u, n)" by (metis prod.collapse)
  note step = track_step_exact [of now ps s t u n]
  let ?s = "snd (trackBandwidth K t u n s)"
  have "fst (track_frames K fs ?s) =
    map (\<lambda>k. day_sum (fst (snd (fs ! k))) (fst (fs ! k)) ((ps @ [f]) @ take (Suc k) fs) < 524288000)
      [0..<length fs]"
    by (rule Cons.IH [of t]) (use Cons.prems step f in auto)
  then show ?case
    using step(1) Cons.prems f
    by (auto simp: map_upt_Suc simp del: upt_Suc split: prod.splits)
qed simp

lemma overlap_live:
  assumes "t1 \<le> t2" "t2 \<le> t3" "t3 \<le> t4" "t4 \<le> t" and "Day t1 = Day t" "Day t1 = Day t2"
    and "four_digit_year t1" "four_digit_year t2" and "colon_free u"
    and c: "\<And>t'. t1 \<le> t' \<Longrightarrow> Day t' = Day t1 \<Longrightarrow> counter_value (live t' (bw_key u t1) s) = Some c"
    and r1: "bandwidth_read K t1 u s = (c1, s1)" and r2: "bandwidth_read K t2 u s1 = (c2, s2)"
  shows "live t (bw_key u t1) (snd (bandwidth_write K t4 (bw_key u t2) c2 n2
      (snd (bandwidth_write K t3 (bw_key u t1) c1 n1 s2)))) = Some (int_str (c + n2))"
proof -
  have k: "bw_key u t2 = bw_key u t1" using assms by (simp add: bw_key_eq)
  have c1: "c1 = Some c" using bandwidth_read_live(1) [of t1 u s] r1 c [of t1] by simp
  have "live t2 (bw_key u t1) s1 = live t2 (bw_key u t1) s"
    using bandwidth_read_live(2) [OF assms(1), of _ u s] r1 by simp
  then have c2: "c2 = Some c"
    using bandwidth_read_live(1) [of t2 u s1] r2 c [OF assms(1)] k assms(6) by simp
  have "Day t4 = Day t"
  proof -
    have "Day t1 \<le> Day t4" "Day t4 \<le> Day t" using assms(1-4) by (simp_all add: Day_def zdiv_mono1)
    then show ?thesis using assms(5) by simp
  qed
  then have "t \<le> t4 + 90000 * 1000" using same_day_close [of t4 t] by simp
  then show ?thesis
    using bandwidth_write_live [OF assms(4), of "bw_key u t1"] by (simp add: c2 k)
qed

end

text \<open>
  When the calls of \<open>trackBandwidth\<close> do not overlap, each returns whether the bytes its user
  sent so far on that UTC day, its own frame included, are below 500 MiB: users and days do not
  mix, and the 25-hour time to live never drops a counter before its day ends.
\<close>

lemma bandwidth_exact:
  assumes "redis_server C rl" and "sorted (map fst fs)" and "\<forall>f \<in> set fs. t0 \<le> fst f \<and> good_frame f"
    and "\<forall>u t. t0 \<le> t \<longrightarrow> redis_live rl t (bw_key u t) s = None"
  shows "fst (track_frames (redis_kv C io) fs s) =
    map (\<lambda>k. day_sum (fst (snd (fs ! k))) (fst (fs ! k)) (take (Suc k) fs) < 524288000)
      [0..<length fs]"
  using kv_store.track_frames_exact [OF redis_server.served_store [OF assms(1)], where ps = "[]" and s = s and fs = fs and now = t0]
    assms(2-4)
  by (simp add: counters_exact_def)

lemma updated_cap:
  assumes R: "repository RO org_id" and og: "og \<in> set (sd_orgs db)" "org_id og = orgId"
    and cap: "us_dailyBandwidthCapMb u = Some capMb"
  shows "sc_dailyBandwidthCapMb (fst (updateOrgStreamingConfig RO now orgId u db)) = capMb"
proof -
  let ?f = "apply_stream_config now u"
  let ?t = "orm_update RO (\<lambda>x. org_id x = orgId) ?f (sd_orgs db)"
  have rows: "set ?t = (\<lambda>x. if org_id x = orgId then ?f x else x) ` set (sd_orgs db)"
    by (rule repository.set_update [OF R])
  have keep: "org_id (?f x) = org_id x" and new: "org_dailyBandwidthCapMb (?f x) = capMb" for x
    using cap by (cases "us_streamingEnabled u"; cases "us_cameraEnabled u"; cases "us_audioEnabled u";
      cases "us_maxStreamFps u"; simp add: apply_stream_config_def)+
  have "?f og \<in> set ?t" unfolding rows using og by force
  then obtain o2 where o2: "find_one RO (\<lambda>x. org_id x = orgId) ?t = Some o2"
    using repository.find_one_ex [OF R, where P = "\<lambda>x. org_id x = orgId" and t = ?t] keep og(2) by metis
  then have "o2 \<in> set ?t" "org_id o2 = orgId" using repository.find_one_SomeD [OF R o2] by auto
  then have "org_dailyBandwidthCapMb o2 = capMb" unfolding rows using new keep by (auto split: if_splits)
  then show ?thesis using o2 by (simp add: updateOrgStreamingConfig_def getOrgStreamingConfig_def Let_def)
qed

text \<open>
  C8. The daily cap an administrator sets is stored and shown, and not enforced. Whatever cap is set,
  each of a sequence of calls that do not overlap lets a frame through exactly if its user sent less than
  500 MiB on that UTC day, the frame included; so it answers otherwise than the setting asks for exactly
  while the bytes sent lie between the two caps.
\<close>

theorem bandwidth_cap_ignored:
  assumes "repository RO org_id" and "og \<in> set (sd_orgs db)" "org_id og = orgId"
    and "us_dailyBandwidthCapMb u = Some capMb"
    and "redis_server C rl" and "sorted (map fst fs)" and "\<forall>f \<in> set fs. start \<le> fst f \<and> good_frame f"
    and "\<forall>u t. start \<le> t \<longrightarrow> redis_live rl t (bw_key u t) s = None"
    and "k < length fs"
  shows "let config = fst (updateOrgStreamingConfig RO now orgId u db);
      accepted = fst (track_frames (redis_kv C io) fs s) ! k;
      total = day_sum (fst (snd (fs ! k))) (fst (fs ! k)) (take (Suc k) fs)
    in sc_dailyBandwidthCapMb config = capMb \<and>
      (accepted \<longleftrightarrow> total < 500 * 1024 * 1024) \<and>
      ((accepted \<noteq> (total < sc_dailyBandwidthCapMb config * 1024 * 1024)) \<longleftrightarrow>
        min capMb 500 * 1024 * 1024 \<le> total \<and> total < max capMb 500 * 1024 * 1024)"
  using updated_cap [OF assms(1-4)] bandwidth_exact [OF assms(5-8)] assms(9)
  by (auto simp: Let_def min_def max_def)

definition capped_org :: Organization where
  "capped_org = \<lparr>org_id = ''o'', org_name = ''Acme'', org_slug = ''acme'', org_plan = STARTER,
     org_seats = 5, org_logoUrl = None, org_website = None, org_timezone = Some ''UTC'',
     org_screenshotIntervalSec = 300, org_isActive = True, org_streamingEnabled = True,
     org_cameraEnabled = False, org_audioEnabled = False, org_maxStreamFps = 1,
     org_dailyBandwidthCapMb = 500, org_createdAt = 0, org_updatedAt = 0\<rparr>"

theorem bandwidth_cap_ignored_witness:
  "fst (track_frames file_kv [(0, ''u'', 200000000), (5, ''u'', 7)] empty_redis) ! 1 \<and>
    sc_dailyBandwidthCapMb (fst (updateOrgStreamingConfig (typeorm_list org_id) 0 ''o''
      \<lparr>us_streamingEnabled = None, us_cameraEnabled = None, us_audioEnabled = None, us_maxStreamFps = None,
       us_dailyBandwidthCapMb = Some 100\<rparr> \<lparr>sd_sessions = [], sd_orgs = [capped_org]\<rparr>)) = 100"
  using bandwidth_cap_ignored [where RO = "typeorm_list org_id" and og = capped_org and orgId = "''o''"
      and db = "\<lparr>sd_sessions = [], sd_orgs = [capped_org]\<rparr>" and capMb = 100 and now = 0
      and u = "\<lparr>us_streamingEnabled = None, us_cameraEnabled = None, us_audioEnabled = None, us_maxStreamFps = None,
       us_dailyBandwidthCapMb = Some 100\<rparr>" and io = True
      and fs = "[(0, ''u'', 200000000), (5, ''u'', 7)]" and start = 0 and s = empty_redis and k = 1,
      OF _ _ _ _ map_server.redis_server_axioms]
  by (simp add: good_frame_def colon_free_def four_digit_year_def YearFromTime_def year_of_day_def
      DayFromYear_def Day_def day_sum_def on_day_def empty_redis_def redis_live_def mem_live_def Let_def capped_org_def)

text \<open>
  Two frames of one user whose calls overlap, both reading the counter before either
  writes it, are counted once: after both writes the counter holds the old total plus the bytes
  of the later write only.
\<close>

theorem overlapping_frames_lose_bytes:
  assumes "redis_server C rl" and "t1 \<le> t2" "t2 \<le> t3" "t3 \<le> t4" "t4 \<le> t"
    and "Day t1 = Day t" "Day t1 = Day t2" and "four_digit_year t1" "four_digit_year t2"
    and "colon_free u"
    and "\<And>t'. t1 \<le> t' \<Longrightarrow> Day t' = Day t1 \<Longrightarrow>
       counter_value (redis_live rl t' (bw_key u t1) s) = Some c"
    and "bandwidth_read (redis_kv C io) t1 u s = (c1, s1)"
    and "bandwidth_read (redis_kv C io) t2 u s1 = (c2, s2)"
  shows "redis_live rl t (bw_key u t1) (snd (bandwidth_write (redis_kv C io) t4 (bw_key u t2) c2 n2
      (snd (bandwidth_write (redis_kv C io) t3 (bw_key u t1) c1 n1 s2)))) = Some (int_str (c + n2))"
  by (rule kv_store.overlap_live [OF redis_server.served_store [OF assms(1)] assms(2-13)])

theorem overlapping_frames_lose_bytes_witness:
  "redis_live mem_live 3 (bw_key ''u'' 0) (snd (bandwidth_write file_kv 3 (bw_key ''u'' 1) (Some 0) 20
     (snd (bandwidth_write file_kv 2 (bw_key ''u'' 0) (Some 0) 10 empty_redis)))) = Some ''20''"
proof -
  have e: "bandwidth_read file_kv t ''u'' empty_redis = (Some 0, empty_redis)" for t
    by (simp add: bandwidth_read_def redis_defs empty_redis_def)
  have i: "int_str 20 = ''20''" by code_simp
  have l: "counter_value (redis_live mem_live t k empty_redis) = Some 0" for t k
    by (simp add: empty_redis_def redis_live_def mem_live_def)
  have d: "Day 0 = 0" "Day 1 = 0" "Day 3 = 0" "four_digit_year 0" "four_digit_year 1"
    by (simp_all add: Day_def four_digit_year_def YearFromTime_def year_of_day_def DayFromYear_def)
  show ?thesis
    using overlapping_frames_lose_bytes [OF map_server.redis_server_axioms, of 0 1 2 3 3 "''u''"
        empty_redis 0 True "Some 0" empty_redis "Some 0" empty_redis 20 10]
    by (simp add: e i l d colon_free_def)
qed

end
