(* ===== verification/JsJson.thy ===== *)
theory JsJson
  imports EntitiesPeople JsText
begin

text \<open>
  \<open>JSON.stringify\<close> and \<open>JSON.parse\<close> on the values the services serialise (numbers are integers,
  characters are bytes). A string is written with the quote, the backslash and the control
  characters escaped; properties keep their order. The parser recurses with fuel, which the
  length of the text bounds; the last lemma is the round trip.
\<close>

abbreviation backslash :: char where "backslash \<equiv> CHR 0x5C"

section \<open>Writing\<close>

definition hex_digit :: "nat \<Rightarrow> char" where
  "hex_digit n = (if n < 10 then char_of (48 + n) else char_of (87 + n))"

definition json_char :: "char \<Rightarrow> string" where
  "json_char c = (let n = of_char c :: nat in
     if n = 34 \<or> n = 92 then [backslash, c]
     else if n = 8 then [backslash, CHR ''b''] else if n = 12 then [backslash, CHR ''f'']
     else if n = 10 then [backslash, CHR ''n''] else if n = 13 then [backslash, CHR ''r'']
     else if n = 9 then [backslash, CHR ''t'']
     else if n < 32 then backslash # ''u00'' @ [hex_digit (n div 16), hex_digit (n mod 16)]
     else [c])"

definition json_string :: "string \<Rightarrow> string" where
  "json_string s = quote # concat (map json_char s) @ [quote]"

fun join_with :: "string \<Rightarrow> string list \<Rightarrow> string" where
  "join_with sep [] = []"
| "join_with sep [x] = x"
| "join_with sep (x # xs) = x @ sep @ join_with sep xs"

fun stringify :: "json \<Rightarrow> string" where
  "stringify JNull = ''null''"
| "stringify (JBool b) = (if b then ''true'' else ''false'')"
| "stringify (JNum i) = int_str i"
| "stringify (JStr s) = json_string s"
| "stringify (JArr xs) = ''['' @ join_with '','' (map stringify xs) @ '']''"
| "stringify (JObj ps) = ''{'' @ join_with '',''
     (map (\<lambda>(k, v). json_string k @ '':'' @ stringify v) ps) @ ''}''"

section \<open>Reading\<close>

definition hex_value :: "char \<Rightarrow> nat option" where
  "hex_value c = (let n = of_char c :: nat in
     if 48 \<le> n \<and> n \<le> 57 then Some (n - 48) else if 97 \<le> n \<and> n \<le> 102 then Some (n - 87)
     else if 65 \<le> n \<and> n \<le> 70 then Some (n - 55) else None)"

definition plain_escape :: "char \<Rightarrow> char option" where
  "plain_escape c = (let n = of_char c :: nat in
     if n = 34 \<or> n = 92 \<or> n = 47 then Some c
     else if n = 98 then Some (char_of (8 :: nat)) else if n = 102 then Some (char_of (12 :: nat))
     else if n = 110 then Some (char_of (10 :: nat)) else if n = 114 then Some (char_of (13 :: nat))
     else if n = 116 then Some (char_of (9 :: nat)) else None)"

definition hex_escape :: "char \<Rightarrow> char \<Rightarrow> char \<Rightarrow> char \<Rightarrow> char option" where
  "hex_escape a b c d = (case (hex_value a, hex_value b, hex_value c, hex_value d) of
     (Some 0, Some 0, Some x, Some y) \<Rightarrow> Some (char_of (x * 16 + y))
   | _ \<Rightarrow> None)"

function parse_string :: "string \<Rightarrow> (string \<times> string) option" where
  "parse_string s = (case s of
     [] \<Rightarrow> None
   | c # t \<Rightarrow>
       if c = quote then Some ([], t)
       else if c = backslash then (case t of
           [] \<Rightarrow> None
         | e # u \<Rightarrow> (case plain_escape e of
             Some x \<Rightarrow> map_option (\<lambda>(v, r). (x # v, r)) (parse_string u)
           | None \<Rightarrow> (case u of
               a # b # c' # d # w \<Rightarrow>
                 if e = CHR ''u'' then (case hex_escape a b c' d of
                   Some x \<Rightarrow> map_option (\<lambda>(v, r). (x # v, r)) (parse_string w)
                 | None \<Rightarrow> None)
                 else None
             | _ \<Rightarrow> None)))
       else if (of_char c :: nat) < 32 then None
       else map_option (\<lambda>(v, r). (c # v, r)) (parse_string t))"
  by auto
termination by (relation "measure length") auto

declare parse_string.simps [simp del]

definition strip_prefix :: "string \<Rightarrow> string \<Rightarrow> string option" where
  "strip_prefix p s = (if take (length p) s = p then Some (drop (length p) s) else None)"

fun parse_value :: "nat \<Rightarrow> string \<Rightarrow> (json \<times> string) option"
  and parse_elements :: "nat \<Rightarrow> string \<Rightarrow> (json list \<times> string) option"
  and parse_members :: "nat \<Rightarrow> string \<Rightarrow> ((string \<times> json) list \<times> string) option" where
  "parse_value 0 s = None"
| "parse_value (Suc n) s = (case dropWhile is_space s of
     [] \<Rightarrow> None
   | c # t \<Rightarrow>
       if c = CHR ''n'' then map_option (\<lambda>r. (JNull, r)) (strip_prefix ''ull'' t)
       else if c = CHR ''t'' then map_option (\<lambda>r. (JBool True, r)) (strip_prefix ''rue'' t)
       else if c = CHR ''f'' then map_option (\<lambda>r. (JBool False, r)) (strip_prefix ''alse'' t)
       else if c = quote then map_option (\<lambda>(v, r). (JStr v, r)) (parse_string t)
       else if c = CHR ''['' then (case dropWhile is_space t of
           d # u \<Rightarrow> if d = CHR '']'' then Some (JArr [], u)
             else map_option (\<lambda>(v, r). (JArr v, r)) (parse_elements n (d # u))
         | [] \<Rightarrow> None)
       else if c = CHR 0x7B then (case dropWhile is_space t of
           d # u \<Rightarrow> if d = CHR 0x7D then Some (JObj [], u)
             else map_option (\<lambda>(v, r). (JObj v, r)) (parse_members n (d # u))
         | [] \<Rightarrow> None)
       else if c = CHR ''-'' then map_option (\<lambda>i. (JNum (- i), dropWhile is_digit t)) (parse_digits t)
       else map_option (\<lambda>i. (JNum i, dropWhile is_digit (c # t))) (parse_digits (c # t)))"
| "parse_elements 0 s = None"
| "parse_elements (Suc n) s = (case parse_value n s of
     None \<Rightarrow> None
   | Some (v, r) \<Rightarrow> (case dropWhile is_space r of
       [] \<Rightarrow> None
     | c # t \<Rightarrow> if c = CHR '']'' then Some ([v], t)
         else if c = CHR '','' then map_option (\<lambda>(vs, r'). (v # vs, r')) (parse_elements n t)
         else None))"
| "parse_members 0 s = None"
| "parse_members (Suc n) s = (case dropWhile is_space s of
     [] \<Rightarrow> None
   | q # s1 \<Rightarrow> if q \<noteq> quote then None else (case parse_string s1 of
       None \<Rightarrow> None
     | Some (k, s2) \<Rightarrow> (case dropWhile is_space s2 of
         [] \<Rightarrow> None
       | c # s3 \<Rightarrow> if c \<noteq> CHR '':'' then None else (case parse_value n s3 of
           None \<Rightarrow> None
         | Some (v, r) \<Rightarrow> (case dropWhile is_space r of
             [] \<Rightarrow> None
           | d # t \<Rightarrow> if d = CHR 0x7D then Some ([(k, v)], t)
               else if d = CHR '','' then map_option (\<lambda>(ps, r'). ((k, v) # ps, r')) (parse_members n t)
               else None)))))"

definition JSON_parse :: "string \<Rightarrow> json option" where
  "JSON_parse s = (case parse_value (2 * length s + 2) s of
     None \<Rightarrow> None
   | Some (v, r) \<Rightarrow> if dropWhile is_space r = [] then Some v else None)"

section \<open>The round trip\<close>

lemma hex_value_digit: "k < 16 \<Longrightarrow> hex_value (hex_digit k) = Some k"
  by (cases "k < 10") (simp_all add: hex_value_def hex_digit_def Let_def)

lemma parse_json_char:
  "parse_string (json_char c @ s) = map_option (\<lambda>(v, r). (c # v, r)) (parse_string s)"
proof -
  define n where "n = (of_char c :: nat)"
  have cn: "c = char_of n" by (simp add: n_def)
  consider (special) "n \<in> {34, 92, 8, 12, 10, 13, 9}" | (control) "n \<notin> {34, 92, 8, 12, 10, 13, 9}" "n < 32"
    | (plain) "n \<noteq> 34" "n \<noteq> 92" "32 \<le> n" by force
  then show ?thesis
  proof cases
    case special
    then have "c \<in> {char_of (34::nat), char_of (92::nat), char_of (8::nat), char_of (12::nat),
        char_of (10::nat), char_of (13::nat), char_of (9::nat)}"
      using cn by auto
    then show ?thesis
      by (auto simp: json_char_def plain_escape_def Let_def parse_string.simps [of "_ # _"])
  next
    case control
    have j: "json_char c = [backslash, CHR ''u'', CHR ''0'', CHR ''0'', hex_digit (n div 16), hex_digit (n mod 16)]"
      using control by (simp add: json_char_def n_def Let_def)
    have "hex_escape CHR ''0'' CHR ''0'' (hex_digit (n div 16)) (hex_digit (n mod 16)) = Some c"
      using control hex_value_digit [of "n div 16"] hex_value_digit [of "n mod 16"]
      by (simp add: hex_escape_def n_def) (simp add: hex_value_def)
    then show ?thesis unfolding j
      by (subst parse_string.simps) (simp add: plain_escape_def)
  next
    case plain
    then have "json_char c = [c]" "c \<noteq> quote" "c \<noteq> backslash" by (auto simp: json_char_def n_def Let_def)
    then show ?thesis using plain by (subst parse_string.simps) (simp add: n_def)
  qed
qed

lemma parse_json_string: "parse_string (concat (map json_char v) @ quote # r) = Some (v, r)"
  by (induction v) (simp_all add: parse_json_char parse_string.simps [of "quote # r"])

definition boundary :: "string \<Rightarrow> bool" where
  "boundary r \<longleftrightarrow> (case r of [] \<Rightarrow> True | c # _ \<Rightarrow> \<not> is_digit c)"

lemma nat_str_all_digits: "\<forall>c \<in> set (nat_str n). is_digit c"
  using nat_str_digits by fastforce

lemma parse_digits_boundary:
  assumes "boundary r"
  shows "parse_digits (nat_str n @ r) = Some (int n)" "dropWhile is_digit (nat_str n @ r) = r"
proof -
  have "takeWhile is_digit r = []" "dropWhile is_digit r = r"
    using assms by (auto simp: boundary_def split: list.splits)
  then have t: "takeWhile is_digit (nat_str n @ r) = nat_str n"
    and d: "dropWhile is_digit (nat_str n @ r) = r"
    using nat_str_all_digits [of n] by (simp_all add: takeWhile_append2 dropWhile_append2)
  have "takeWhile is_digit (nat_str n) = nat_str n"
    unfolding takeWhile_eq_all_conv by (rule nat_str_all_digits)
  then have "parse_digits (nat_str n @ r) = parse_digits (nat_str n)"
    unfolding parse_digits_def by (simp only: t)
  then show "parse_digits (nat_str n @ r) = Some (int n)" by (simp add: parse_digits_nat_str)
  show "dropWhile is_digit (nat_str n @ r) = r" by (rule d)
qed

lemma nat_str_head: "\<exists>c t. nat_str n = c # t \<and> is_digit c"
  using nat_str_all_digits [of n] by (cases "nat_str n") auto

lemma digit_not_special:
  "is_digit c \<Longrightarrow> \<not> is_space c \<and> c \<notin> {CHR ''n'', CHR ''t'', CHR ''f'', quote, CHR ''['', CHR 0x7B,
     CHR ''-'', CHR '']''}"
  by (auto simp: is_digit_def is_space_def)

lemma stringify_head: "\<exists>c t. stringify j = c # t \<and> \<not> is_space c \<and> c \<noteq> CHR '']''"
proof (cases j)
  case (JNum i)
  then show ?thesis using nat_str_head [of "nat i"] digit_not_special
    by (cases "i < 0") (auto simp: int_str_def is_space_def)
qed (auto simp: json_string_def is_space_def)

lemma parse_value_num: "boundary r \<Longrightarrow> parse_value (Suc n) (int_str i @ r) = Some (JNum i, r)"
proof (cases "i < 0")
  case True
  then show "boundary r \<Longrightarrow> ?thesis"
    using parse_digits_boundary by (simp add: int_str_def is_space_def)
next
  case False
  obtain c t where c: "nat_str (nat i) = c # t" "is_digit c" using nat_str_head by blast
  assume r: "boundary r"
  have "parse_digits (c # t @ r) = Some i" "dropWhile is_digit (c # t @ r) = r"
    using parse_digits_boundary [OF r, of "nat i"] False by (simp_all add: c)
  then show ?thesis using False digit_not_special [OF c(2)] by (simp add: int_str_def c(1))
qed

definition parses_back :: "json \<Rightarrow> bool" where
  "parses_back j \<longleftrightarrow> (\<forall>n r. length (stringify j) < n \<longrightarrow> boundary r \<longrightarrow>
     parse_value n (stringify j @ r) = Some (j, r))"

lemma boundary_Cons [simp]: "boundary (CHR '','' # r)" "boundary (CHR '']'' # r)" "boundary (CHR 0x7D # r)" "boundary []"
  by (simp_all add: boundary_def is_digit_def)

lemma parse_elements_back:
  assumes "\<forall>x \<in> set xs. parses_back x" and "xs \<noteq> []"
    and "length (join_with '','' (map stringify xs)) + 1 < n"
  shows "parse_elements n (join_with '','' (map stringify xs) @ CHR '']'' # r) = Some (xs, r)"
  using assms
proof (induction xs arbitrary: n)
  case (Cons x xs)
  obtain m where n: "n = Suc m" using Cons.prems(3) by (cases n) auto
  have x: "parses_back x" using Cons.prems by simp
  show ?case
  proof (cases xs)
    case Nil
    then show ?thesis using x Cons.prems(3) by (simp add: n parses_back_def is_space_def)
  next
    case (Cons y ys)
    then have len: "length (stringify x) < m" "length (join_with '','' (map stringify xs)) + 1 < m"
      using Cons.prems(3) by (simp_all add: n)
    have "parse_elements m (join_with '','' (map stringify xs) @ CHR '']'' # r) = Some (xs, r)"
      using Cons.IH [of m] Cons.prems Cons len by simp
    then show ?thesis using x len Cons by (simp add: n parses_back_def is_space_def)
  qed
qed simp

lemma parse_members_back:
  assumes "\<forall>(k, v) \<in> set ps. parses_back v" and "ps \<noteq> []"
    and "length (join_with '','' (map (\<lambda>(k, v). json_string k @ '':'' @ stringify v) ps)) + 1 < n"
  shows "parse_members n (join_with '','' (map (\<lambda>(k, v). json_string k @ '':'' @ stringify v) ps)
     @ CHR 0x7D # r) = Some (ps, r)"
  using assms
proof (induction ps arbitrary: n)
  case (Cons p ps)
  obtain k v where p: "p = (k, v)" by fastforce
  obtain m where n: "n = Suc m" using Cons.prems(3) by (cases n) auto
  have v: "parses_back v" using Cons.prems p by simp
  let ?j = "\<lambda>ps. join_with '','' (map (\<lambda>(k, v). json_string k @ '':'' @ stringify v) ps)"
  show ?case
  proof (cases ps)
    case Nil
    then show ?thesis using v Cons.prems(3)
      by (simp add: n p parses_back_def is_space_def json_string_def parse_json_string)
  next
    case (Cons y ys)
    then have len: "length (stringify v) < m" "length (?j ps) + 1 < m"
      using Cons.prems(3) by (simp_all add: n p)
    have "parse_members m (?j ps @ CHR 0x7D # r) = Some (ps, r)"
      using Cons.IH [of m] Cons.prems Cons len by simp
    then show ?thesis using v len Cons
      by (simp add: n p parses_back_def is_space_def json_string_def parse_json_string)
  qed
qed simp

lemma stringify_array_head:
  "xs \<noteq> [] \<Longrightarrow> \<exists>c t. join_with '','' (map stringify xs) @ r = c # t \<and> \<not> is_space c \<and> c \<noteq> CHR '']''"
proof -
  assume "xs \<noteq> []"
  then obtain x ys where "xs = x # ys" by (cases xs) auto
  then show ?thesis using stringify_head [of x] by (cases ys) auto
qed

lemma stringify_object_head:
  "ps \<noteq> [] \<Longrightarrow> \<exists>t. join_with '','' (map (\<lambda>(k, v). json_string k @ '':'' @ stringify v) ps) @ r = quote # t"
proof -
  assume "ps \<noteq> []"
  then obtain k v ys where "ps = (k, v) # ys" by (cases ps) auto
  then show ?thesis by (cases ys) (auto simp: json_string_def)
qed

lemma parse_array_back:
  assumes "\<forall>x \<in> set xs. parses_back x" and "length (stringify (JArr xs)) < n"
  shows "parse_value n (stringify (JArr xs) @ r) = Some (JArr xs, r)"
proof -
  obtain m where n: "n = Suc m" using assms(2) by (cases n) auto
  show ?thesis
  proof (cases "xs = []")
    case True
    then show ?thesis by (simp add: n is_space_def)
  next
    case False
    then obtain c t where "join_with '','' (map stringify xs) @ CHR '']'' # r = c # t"
      "\<not> is_space c" "c \<noteq> CHR '']''" using stringify_array_head by blast
    moreover have "parse_elements m (join_with '','' (map stringify xs) @ CHR '']'' # r) = Some (xs, r)"
      by (rule parse_elements_back [OF assms(1) False]) (use assms(2) n in simp)
    ultimately show ?thesis by (simp add: n is_space_def)
  qed
qed

lemma parse_object_back:
  assumes "\<forall>(k, v) \<in> set ps. parses_back v" and "length (stringify (JObj ps)) < n"
  shows "parse_value n (stringify (JObj ps) @ r) = Some (JObj ps, r)"
proof -
  obtain m where n: "n = Suc m" using assms(2) by (cases n) auto
  show ?thesis
  proof (cases "ps = []")
    case True
    then show ?thesis by (simp add: n is_space_def)
  next
    case False
    let ?j = "join_with '','' (map (\<lambda>(k, v). json_string k @ '':'' @ stringify v) ps)"
    obtain t where "?j @ CHR 0x7D # r = quote # t" using stringify_object_head [OF False] by blast
    moreover have "parse_members m (?j @ CHR 0x7D # r) = Some (ps, r)"
      by (rule parse_members_back [OF assms(1) False]) (use assms(2) n in simp)
    ultimately show ?thesis by (simp add: n is_space_def)
  qed
qed

lemma parses_back: "parses_back j"
proof (induction j rule: stringify.induct)
  case (3 i)
  show ?case unfolding parses_back_def
    using parse_value_num by (metis gr0_conv_Suc less_nat_zero_code neq0_conv stringify.simps(3))
next
  case (4 s)
  show ?case unfolding parses_back_def
  proof (intro allI impI)
    fix n r assume "length (stringify (JStr s)) < n"
    then obtain m where "n = Suc m" by (cases n) auto
    then show "parse_value n (stringify (JStr s) @ r) = Some (JStr s, r)"
      by (simp add: json_string_def parse_json_string is_space_def)
  qed
next
  case (5 xs)
  then show ?case unfolding parses_back_def [of "JArr xs"] using parse_array_back by blast
next
  case (6 ps)
  then have "\<forall>(k, v) \<in> set ps. parses_back v" by fastforce
  then show ?case unfolding parses_back_def [of "JObj ps"] using parse_object_back by blast
next
  case 1
  show ?case unfolding parses_back_def
  proof (intro allI impI)
    fix n r assume "length (stringify JNull) < n"
    then obtain m where "n = Suc m" by (cases n) auto
    then show "parse_value n (stringify JNull @ r) = Some (JNull, r)"
      by (simp add: is_space_def strip_prefix_def)
  qed
next
  case (2 b)
  show ?case unfolding parses_back_def
  proof (intro allI impI)
    fix n r assume "length (stringify (JBool b)) < n"
    then obtain m where "n = Suc m" by (cases n) auto
    then show "parse_value n (stringify (JBool b) @ r) = Some (JBool b, r)"
      by (cases b) (simp_all add: is_space_def strip_prefix_def)
  qed
qed

lemma JSON_parse_stringify [simp]: "JSON_parse (stringify j) = Some j"
proof -
  have "parse_value (2 * length (stringify j) + 2) (stringify j @ []) = Some (j, [])"
    using parses_back [of j] unfolding parses_back_def by (metis add_2_eq_Suc' boundary_Cons(4)
        less_SucI lessI mult_2 less_add_Suc1)
  then show ?thesis by (simp add: JSON_parse_def)
qed

lemma stringify_inj: "stringify a = stringify b \<longleftrightarrow> a = b"
  by (metis JSON_parse_stringify option.inject)

end
