(* ===== verification/StreamProtocol.thy ===== *)
theory StreamProtocol
  imports JsJson "HOL-Library.Word"
begin

text \<open>
  The binary frame of the live stream (modules/streaming/protocol.ts): one version byte, one type
  byte, two unused bytes, the payload length as a big-endian 32-bit number, the payload. A
  \<open>Buffer\<close> is a list of bytes. The lemmas show that \<open>parseFrame\<close> inverts \<open>buildFrame\<close>, accepts
  exactly the buffers that hold a whole frame, and cuts off anything behind it.
\<close>

type_synonym buffer = "8 word list"

datatype FrameType = SCREEN_DELTA | SCREEN_FULL | CAMERA | AUDIO | HEARTBEAT | ACK | CONTROL

fun frame_code :: "FrameType \<Rightarrow> 8 word" where
  "frame_code SCREEN_DELTA = 0x01"
| "frame_code SCREEN_FULL = 0x02"
| "frame_code CAMERA = 0x03"
| "frame_code AUDIO = 0x04"
| "frame_code HEARTBEAT = 0x05"
| "frame_code ACK = 0x06"
| "frame_code CONTROL = 0x07"

definition FRAME_VERSION :: "8 word" where "FRAME_VERSION = 0x01"
definition HEADER_SIZE :: nat where "HEADER_SIZE = 8"

text \<open>\<open>writeUInt32BE\<close> throws for a value that does not fit; \<open>readUInt32BE\<close> reads four bytes.\<close>

definition u32_bytes :: "nat \<Rightarrow> buffer" where
  "u32_bytes n = [of_nat (n div 2 ^ 24), of_nat (n div 2 ^ 16), of_nat (n div 2 ^ 8), of_nat n]"

definition writeUInt32BE :: "nat \<Rightarrow> buffer outcome" where
  "writeUInt32BE n = (if n < 2 ^ 32 then Inr (u32_bytes n)
     else Inl (PlainError ''ERR_OUT_OF_RANGE''))"

definition readUInt32BE :: "buffer \<Rightarrow> nat \<Rightarrow> nat" where
  "readUInt32BE b i = unat (b ! i) * 2 ^ 24 + unat (b ! (i + 1)) * 2 ^ 16
     + unat (b ! (i + 2)) * 2 ^ 8 + unat (b ! (i + 3))"

definition parseFrame :: "buffer \<Rightarrow> (8 word \<times> buffer) outcome" where
  "parseFrame buf =
     (if length buf < HEADER_SIZE
      then Inl (PlainError (''Frame too short: '' @ nat_str (length buf) @ '' bytes''))
      else let ty = buf ! 1; payloadLen = readUInt32BE buf 4 in
        if length buf < HEADER_SIZE + payloadLen
        then Inl (PlainError (''Incomplete frame: expected '' @ nat_str (HEADER_SIZE + payloadLen)
               @ '', got '' @ nat_str (length buf)))
        else Inr (ty, take payloadLen (drop HEADER_SIZE buf)))"

definition buildFrame :: "FrameType \<Rightarrow> buffer \<Rightarrow> buffer outcome" where
  "buildFrame ty payload = (case writeUInt32BE (length payload) of
     Inl e \<Rightarrow> Inl e
   | Inr len \<Rightarrow> Inr ([FRAME_VERSION, frame_code ty, 0, 0] @ len @ payload))"

definition ascii_bytes :: "string \<Rightarrow> buffer" where
  "ascii_bytes s = map (\<lambda>c. of_nat (of_char c)) s"

definition buildControlFrame :: "json \<Rightarrow> buffer outcome" where
  "buildControlFrame d = buildFrame CONTROL (ascii_bytes (stringify d))"

definition buildHeartbeatFrame :: "buffer outcome" where
  "buildHeartbeatFrame = buildFrame HEARTBEAT []"

lemmas frame_defs = parseFrame_def buildFrame_def writeUInt32BE_def HEADER_SIZE_def Let_def

section \<open>The length field\<close>

lemma byte_bound: "unat (w :: 8 word) < 256"
proof -
  have "unat w < 2 ^ LENGTH(8)" by (rule unsigned_less)
  then show ?thesis by simp
qed

lemma unat_byte: "unat (of_nat n :: 8 word) = n mod 256"
  by (simp add: unat_of_nat)

lemma base256: "n < 2 ^ 32 \<Longrightarrow>
  n div 2 ^ 24 mod 256 * 2 ^ 24 + n div 2 ^ 16 mod 256 * 2 ^ 16 + n div 2 ^ 8 mod 256 * 2 ^ 8 + n mod 256 = (n :: nat)"
proof -
  assume n: "n < 2 ^ 32"
  define a b c where "a = n div 2 ^ 8" and "b = a div 256" and "c = b div 256"
  have e: "n = a * 256 + n mod 256" "a = b * 256 + a mod 256" "b = c * 256 + b mod 256"
    unfolding a_def b_def c_def by (simp_all add: div_mult_mod_eq)
  have d: "n div 2 ^ 16 = b" "n div 2 ^ 24 = c" by (simp_all add: a_def b_def c_def div_mult2_eq [symmetric])
  have "c < 256" using n by (simp add: d [symmetric] less_mult_imp_div_less)
  then have "c mod 256 = c" by simp
  then show ?thesis unfolding d a_def [symmetric] using e by simp
qed

lemma read_u32: "n < 2 ^ 32 \<Longrightarrow> readUInt32BE (w # x # y # z # u32_bytes n @ p) 4 = n"
  using base256 [of n] by (simp add: readUInt32BE_def u32_bytes_def unat_byte)

lemma readUInt32BE_bound: "readUInt32BE b i < 2 ^ 32"
proof -
  have "unat (w :: 8 word) \<le> 255" for w using byte_bound [of w] by simp
  from this [of "b ! i"] this [of "b ! (i + 1)"] this [of "b ! (i + 2)"] this [of "b ! (i + 3)"]
  show ?thesis unfolding readUInt32BE_def by simp
qed

section \<open>Building and parsing\<close>

lemma buildFrame_Inr:
  "buildFrame ty p = Inr b \<longleftrightarrow>
     length p < 2 ^ 32 \<and> b = FRAME_VERSION # frame_code ty # 0 # 0 # u32_bytes (length p) @ p"
  by (auto simp: buildFrame_def writeUInt32BE_def)

lemma length_u32_bytes [simp]: "length (u32_bytes n) = 4"
  by (simp add: u32_bytes_def)

lemma parse_header:
  assumes "n < 2 ^ 32"
  shows "parseFrame (w # x # y # z # u32_bytes n @ q) =
    (if length q < n then Inl (PlainError (''Incomplete frame: expected '' @ nat_str (8 + n)
        @ '', got '' @ nat_str (8 + length q)))
     else Inr (x, take n q))"
  using read_u32 [OF assms, of w x y z q] by (simp add: parseFrame_def HEADER_SIZE_def Let_def)

lemma frame_code_inj: "frame_code a = frame_code b \<longleftrightarrow> a = b"
  by (cases a; cases b) simp_all

lemma u32_bytes_readback:
  "u32_bytes (readUInt32BE [a, b, c, d] 0) = [a, b, c, d]"
proof -
  note l = byte_bound
  let ?n = "((unat a * 256 + unat b) * 256 + unat c) * 256 + unat d"
  have n: "readUInt32BE [a, b, c, d] 0 = ?n" by (simp add: readUInt32BE_def)
  have d1: "?n div 256 = (unat a * 256 + unat b) * 256 + unat c" using l [of d] by simp
  have d2: "?n div 65536 = unat a * 256 + unat b"
    using d1 l [of c] div_mult2_eq [of ?n 256 256] by simp
  have d3: "?n div 16777216 = unat a"
    using d2 l [of b] div_mult2_eq [of ?n 65536 256] by simp
  have z: "(256 :: 8 word) = 0" by transfer simp
  have w: "(of_nat (m * 256 + unat x) :: 8 word) = x" for m x
    by (simp add: z)
  have d: "?n div 2 ^ 24 = unat a" "?n div 2 ^ 16 = unat a * 256 + unat b"
    "?n div 2 ^ 8 = (unat a * 256 + unat b) * 256 + unat c"
    using d1 d2 d3 by simp_all
  have "(of_nat (unat a) :: 8 word) = a" by simp
  then show ?thesis by (simp only: n u32_bytes_def d w)
qed

text \<open>
  C6. A built frame, followed by any other bytes, parses to its own type and payload; every
  proper prefix of it is rejected.
\<close>

theorem frame_roundtrip:
  assumes "buildFrame ty p = Inr b"
  shows "parseFrame (b @ rest) = Inr (frame_code ty, p) \<and>
    (\<forall>k < length b. \<exists>m. parseFrame (take k b) = Inl (PlainError m))"
proof -
  have n: "length p < 2 ^ 32" and
    b: "b = FRAME_VERSION # frame_code ty # 0 # 0 # u32_bytes (length p) @ p"
    using assms by (auto simp: buildFrame_Inr)
  have "\<exists>m. parseFrame (take k b) = Inl (PlainError m)" if k: "k < length b" for k
  proof (cases "k < 8")
    case True
    then show ?thesis using k by (simp add: parseFrame_def HEADER_SIZE_def)
  next
    case False
    define j where "j = k - 8"
    have "take k b = FRAME_VERSION # frame_code ty # 0 # 0 # u32_bytes (length p) @ take j p"
      using False by (simp add: b j_def take_Cons' )
    moreover have "length (take j p) < length p" using k False by (simp add: b j_def)
    ultimately show ?thesis using parse_header [OF n] by simp
  qed
  moreover have "parseFrame (b @ rest) = Inr (frame_code ty, p)"
    using parse_header [OF n, of _ _ _ _ "p @ rest"] by (simp add: b)
  ultimately show ?thesis by blast
qed

theorem frame_roundtrip_witness:
  "parseFrame ([0x01, 0x03, 0, 0, 0, 0, 0, 2, 7, 9] @ [5]) = Inr (frame_code CAMERA, [7, 9])"
  using frame_roundtrip [of CAMERA "[7, 9]" "[0x01, 0x03, 0, 0, 0, 0, 0, 2, 7, 9]" "[5]"]
  by (simp add: buildFrame_Inr FRAME_VERSION_def u32_bytes_def)

text \<open>
  The parser accepts exactly the buffers that begin with a header whose length field is
  the length of the payload it returns: neither the version byte nor the two bytes before the
  length are checked, and bytes behind the payload are dropped.
\<close>

theorem parse_accepts_iff:
  "parseFrame buf = Inr (ty, p) \<longleftrightarrow> (\<exists>v x y rest. length p < 2 ^ 32 \<and>
     buf = [v, ty, x, y] @ u32_bytes (length p) @ p @ rest)"
proof
  assume r: "parseFrame buf = Inr (ty, p)"
  then have "8 \<le> length buf" by (simp add: parseFrame_def HEADER_SIZE_def split: if_splits)
  then obtain v t x y a b c d q where buf: "buf = [v, t, x, y] @ [a, b, c, d] @ q"
    by (auto simp: numeral_eq_Suc Suc_le_length_iff)
  define n where "n = readUInt32BE [a, b, c, d] 0"
  have n: "n < 2 ^ 32" and u: "[a, b, c, d] = u32_bytes n"
    unfolding n_def by (rule readUInt32BE_bound, rule u32_bytes_readback [symmetric])
  have "parseFrame (v # t # x # y # u32_bytes n @ q) = Inr (ty, p)" using r buf u by simp
  then have "t = ty" "p = take n q" "n \<le> length q"
    unfolding parse_header [OF n] by (auto split: if_splits)
  then have "n = length p" "q = p @ drop n q" by simp_all
  then show "\<exists>v x y rest. length p < 2 ^ 32 \<and>
      buf = [v, ty, x, y] @ u32_bytes (length p) @ p @ rest"
    using n buf u \<open>t = ty\<close> by (metis append_Cons append_Nil)
next
  assume "\<exists>v x y rest. length p < 2 ^ 32 \<and> buf = [v, ty, x, y] @ u32_bytes (length p) @ p @ rest"
  then show "parseFrame buf = Inr (ty, p)" using parse_header by force
qed

end
