(* ===== verification/LiveWatch.thy ===== *)
theory LiveWatch
  imports JsText
begin

text \<open>
  LiveWatchCache (modules/streaming/live-watch-cache.service.ts): which device is being watched
  live, as a map from \<open>userId:deviceId\<close> to an absolute expiry time. The clock is an argument of
  every operation. The contract is per device: the last mark or clear decides, and neither a
  read, which drops an expired entry, nor the periodic sweep can be observed.
\<close>

record LiveWatchCache =
  lw_store :: "string \<rightharpoonup> js_time"

definition watch_key :: "string \<Rightarrow> string \<Rightarrow> string" where
  "watch_key userId deviceId = userId @ '':'' @ deviceId"

definition markWatched ::
  "js_time \<Rightarrow> string \<Rightarrow> string \<Rightarrow> int \<Rightarrow> LiveWatchCache \<Rightarrow> LiveWatchCache" where
  "markWatched now userId deviceId ttlSeconds s =
     s\<lparr>lw_store := (lw_store s)(watch_key userId deviceId \<mapsto> now + ttlSeconds * 1000)\<rparr>"

definition isWatched ::
  "js_time \<Rightarrow> string \<Rightarrow> string \<Rightarrow> LiveWatchCache \<Rightarrow> bool \<times> LiveWatchCache" where
  "isWatched now userId deviceId s =
     (let k = watch_key userId deviceId in case lw_store s k of
        None \<Rightarrow> (False, s)
      | Some expiresAt \<Rightarrow>
          if now > expiresAt then (False, s\<lparr>lw_store := (lw_store s)(k := None)\<rparr>) else (True, s))"

definition clearWatched :: "string \<Rightarrow> string \<Rightarrow> LiveWatchCache \<Rightarrow> LiveWatchCache" where
  "clearWatched userId deviceId s =
     s\<lparr>lw_store := (lw_store s)(watch_key userId deviceId := None)\<rparr>"

definition watch_sweep :: "js_time \<Rightarrow> LiveWatchCache \<Rightarrow> LiveWatchCache" where
  "watch_sweep now s = s\<lparr>lw_store := (\<lambda>k. case lw_store s k of
     Some expiresAt \<Rightarrow> if now > expiresAt then None else Some expiresAt | None \<Rightarrow> None)\<rparr>"

definition watch_onModuleDestroy :: "LiveWatchCache \<Rightarrow> LiveWatchCache" where
  "watch_onModuleDestroy s = s\<lparr>lw_store := Map.empty\<rparr>"

lemmas [op_defs] = markWatched_def isWatched_def clearWatched_def watch_sweep_def

lemma isWatched_after_mark:
  "fst (isWatched t u d (markWatched now u' d' ttl s)) =
     (if watch_key u d = watch_key u' d' then t \<le> now + ttl * 1000 else fst (isWatched t u d s))"
  by (auto simp: isWatched_def markWatched_def Let_def split: option.splits)

section \<open>Runs of the cache\<close>

datatype watch_op = Mark string string int | Read string string | Clear string string | Sweep

fun watch_step :: "js_time \<times> watch_op \<Rightarrow> LiveWatchCache \<Rightarrow> LiveWatchCache" where
  "watch_step (t, Mark u d ttl) s = markWatched t u d ttl s"
| "watch_step (t, Read u d) s = snd (isWatched t u d s)"
| "watch_step (t, Clear u d) s = clearWatched u d s"
| "watch_step (t, Sweep) s = watch_sweep t s"

definition watch_run :: "(js_time \<times> watch_op) list \<Rightarrow> LiveWatchCache" where
  "watch_run ops = fold watch_step ops \<lparr>lw_store = Map.empty\<rparr>"

text \<open>What the watchers asked for: the expiry of the last mark of the device that no clear follows.\<close>

fun asked :: "string \<Rightarrow> string \<Rightarrow> (js_time \<times> watch_op) list \<Rightarrow> js_time option" where
  "asked u d [] = None"
| "asked u d ((t, Mark u' d' ttl) # ops) =
     (if u' = u \<and> d' = d then Some (t + ttl * 1000) else asked u d ops)"
| "asked u d ((t, Clear u' d') # ops) = (if u' = u \<and> d' = d then None else asked u d ops)"
| "asked u d ((t, _) # ops) = asked u d ops"

fun op_user :: "watch_op \<Rightarrow> string" where
  "op_user (Mark u d ttl) = u"
| "op_user (Read u d) = u"
| "op_user (Clear u d) = u"
| "op_user Sweep = []"

lemma watch_key_inj:
  "colon_free u \<Longrightarrow> colon_free u' \<Longrightarrow> watch_key u d = watch_key u' d' \<longleftrightarrow> u = u' \<and> d = d'"
  by (simp add: watch_key_def colon_free_def append_sep_eq)

text \<open>An entry is as asked, or it has been dropped after it expired.\<close>

definition as_asked :: "js_time \<Rightarrow> js_time option \<Rightarrow> js_time option \<Rightarrow> bool" where
  "as_asked now e e' \<longleftrightarrow> e' = e \<or> (e' = None \<and> (\<exists>x. e = Some x \<and> x < now))"

lemma as_asked_later: "as_asked t e e' \<Longrightarrow> t \<le> t' \<Longrightarrow> as_asked t' e e'"
  by (auto simp: as_asked_def)

lemma watch_step_asked:
  assumes "as_asked t (asked u d ops) (lw_store s (watch_key u d))" and "t \<le> t'"
    and "colon_free u" and "colon_free (op_user p)"
  shows "as_asked t' (asked u d ((t', p) # ops)) (lw_store (watch_step (t', p) s) (watch_key u d))"
  using assms as_asked_later [OF assms(1,2)]
  by (cases p) (auto simp: op_defs watch_key_inj as_asked_def Let_def split: option.splits)

lemma watch_run_asked:
  assumes "sorted (map fst ops)" and "\<forall>p \<in> snd ` set ops. colon_free (op_user p)"
    and "colon_free u" and "\<forall>t \<in> fst ` set ops. t \<le> now"
  shows "as_asked now (asked u d (rev ops)) (lw_store (watch_run ops) (watch_key u d))"
  using assms
proof (induction ops arbitrary: now rule: rev_induct)
  case Nil
  then show ?case by (simp add: as_asked_def watch_run_def)
next
  case (snoc tp ops)
  obtain t p where tp: "tp = (t, p)" by fastforce
  have "as_asked t (asked u d (rev ops)) (lw_store (watch_run ops) (watch_key u d))"
    by (rule snoc.IH) (use snoc.prems tp in \<open>auto simp: sorted_append\<close>)
  then have "as_asked t (asked u d (rev (ops @ [tp])))
      (lw_store (watch_run (ops @ [tp])) (watch_key u d))"
    using watch_step_asked [of t u d "rev ops" "watch_run ops" t p] snoc.prems tp
    by (simp add: watch_run_def)
  then show ?case by (rule as_asked_later) (use snoc.prems tp in simp)
qed

text \<open>
  C7. For user ids without a colon, a device is reported as watched exactly when its last mark
  that no clear follows has not expired: whatever happens to other devices, and however reads
  and sweeps interleave, the answer is that of the per-device specification.
\<close>

theorem watched_refines:
  assumes "sorted (map fst ops)" and "\<forall>t \<in> fst ` set ops. t \<le> now"
    and "\<forall>p \<in> snd ` set ops. colon_free (op_user p)" and "colon_free u"
  shows "fst (isWatched now u d (watch_run ops)) =
    (case asked u d (rev ops) of None \<Rightarrow> False | Some expiry \<Rightarrow> now \<le> expiry)"
  using watch_run_asked [OF assms(1,3,4,2), of d]
  by (cases "asked u d (rev ops)"; cases "lw_store (watch_run ops) (watch_key u d)")
    (auto simp: isWatched_def Let_def as_asked_def)

theorem watched_refines_witness:
  "fst (isWatched 70000 ''u'' ''d'' (watch_run [(0, Mark ''u'' ''d'' 60), (20000, Mark ''u'' ''e'' 60),
     (30000, Mark ''u'' ''d'' 60), (61000, Sweep), (65000, Clear ''u'' ''e'')]))"
  using watched_refines [of "[(0, Mark ''u'' ''d'' 60), (20000, Mark ''u'' ''e'' 60),
     (30000, Mark ''u'' ''d'' 60), (61000, Sweep), (65000, Clear ''u'' ''e'')]" 70000 "''u''" "''d''"]
  by (simp add: colon_free_def)

end
