(* ===== verification/StreamGateway.thy ===== *)
theory StreamGateway
  imports StreamingSvc StreamProtocol LiveWatch
begin

text \<open>
  StreamingGateway and StreamingController (modules/streaming): the socket.io gateway that agents
  and dashboards connect to, and the REST endpoints that start and stop a live view. The
  state is the two maps of the gateway, the rooms socket.io keeps, what was emitted, the
  tables and the key-value store. \<open>verify\<close> is the JWT check (None when it throws), the
  repositories and the store are parameters. \<open>client.disconnect()\<close> is recorded as an event; the
  framework answers it by calling \<open>handleDisconnect\<close>.
\<close>

record ConnectionMeta =
  cm_userId :: string
  cm_orgId :: string
  cm_isAgent :: bool
  cm_timeout :: "js_time option"

datatype gw_target = To_socket string | To_room string | To_everyone

datatype gw_event =
    Stream_online string
  | Stream_offline string
  | Stream_control_frame buffer
  | Stream_control json
  | Stream_frame buffer string "8 word"
  | Force_disconnect

record 's StreamingGateway =
  gw_connections :: "string \<rightharpoonup> ConnectionMeta"
  gw_agentSockets :: "string \<rightharpoonup> string"
  gw_rooms :: "(string \<times> string) set"
  gw_out :: "(gw_target \<times> gw_event) list"
  gw_db :: StreamingDb
  gw_kv :: 's

definition gw_emit :: "gw_target \<Rightarrow> gw_event \<Rightarrow> 's StreamingGateway \<Rightarrow> 's StreamingGateway" where
  "gw_emit tgt ev g = g\<lparr>gw_out := gw_out g @ [(tgt, ev)]\<rparr>"

definition gw_join :: "string \<Rightarrow> string \<Rightarrow> 's StreamingGateway \<Rightarrow> 's StreamingGateway" where
  "gw_join client room g = g\<lparr>gw_rooms := insert (room, client) (gw_rooms g)\<rparr>"

definition gw_emit_control :: "string \<Rightarrow> string \<Rightarrow> 's StreamingGateway \<Rightarrow> 's StreamingGateway" where
  "gw_emit_control client action g =
     (case buildControlFrame (JObj [(''action'', JStr action)]) of
        Inl _ \<Rightarrow> g
      | Inr b \<Rightarrow> gw_emit (To_socket client) (Stream_control_frame b) g)"

section \<open>Connections\<close>

definition session_max_hours :: "int option \<Rightarrow> int" where
  "session_max_hours cfg = (if nullish cfg 0 = 0 then 8 else the cfg)"

text \<open>
  What the handler does for an agent, in the three pieces between its awaits: the entries of the maps once the
  user is found, the row that \<open>createSession\<close> inserts, and what follows when that is done.
\<close>

definition connect_maps :: "string \<Rightarrow> User \<Rightarrow> 's StreamingGateway \<Rightarrow> 's StreamingGateway" where
  "connect_maps client agentUser g =
     (let conn = \<lparr>cm_userId = u_id agentUser, cm_orgId = u_organizationId agentUser,
            cm_isAgent = True, cm_timeout = None\<rparr>;
          g1 = g\<lparr>gw_connections := (gw_connections g)(client \<mapsto> conn),
                 gw_agentSockets := (gw_agentSockets g)(u_id agentUser \<mapsto> client)\<rparr>
      in gw_join client (''org:'' @ u_organizationId agentUser) (gw_join client (''agent:'' @ u_id agentUser) g1))"

definition connect_row ::
  "StreamSession orm \<Rightarrow> js_time \<Rightarrow> string \<Rightarrow> string \<Rightarrow> User \<Rightarrow> 's StreamingGateway \<Rightarrow> 's StreamingGateway" where
  "connect_row R now newId client agentUser g = g\<lparr>gw_db := snd (createSession R now newId (u_id agentUser)
     (u_organizationId agentUser) client (gw_db g))\<rparr>"

definition connect_resume ::
  "js_time \<Rightarrow> int option \<Rightarrow> string \<Rightarrow> User \<Rightarrow> 's StreamingGateway \<Rightarrow> 's StreamingGateway" where
  "connect_resume now cfgHours client agentUser g =
     (let g1 = gw_emit (To_room (''org:'' @ u_organizationId agentUser)) (Stream_online (u_id agentUser)) g
      in g1\<lparr>gw_connections := (gw_connections g1)(client \<mapsto>
           \<lparr>cm_userId = u_id agentUser, cm_orgId = u_organizationId agentUser, cm_isAgent = True,
            cm_timeout = Some (now + session_max_hours cfgHours * 3600 * 1000)\<rparr>)\<rparr>)"

text \<open>The whole handler when nothing else happens in between.\<close>

definition connect_agent ::
  "StreamSession orm \<Rightarrow> js_time \<Rightarrow> string \<Rightarrow> int option \<Rightarrow> string \<Rightarrow> User \<Rightarrow> 's StreamingGateway \<Rightarrow>
   's StreamingGateway" where
  "connect_agent R now newId cfgHours client agentUser g = connect_resume now cfgHours client agentUser
     (connect_row R now newId client agentUser (connect_maps client agentUser g))"

definition stream_handleConnection ::
  "(string \<Rightarrow> (string \<times> string) option) \<Rightarrow> User orm \<Rightarrow> User list \<Rightarrow> StreamSession orm \<Rightarrow> js_time \<Rightarrow>
   string \<Rightarrow> int option \<Rightarrow> string \<Rightarrow> string option \<Rightarrow> 's StreamingGateway \<Rightarrow> 's StreamingGateway" where
  "stream_handleConnection verify RU users R now newId cfgHours client token g =
     (if falsy_str token then gw_emit (To_socket client) Force_disconnect g
      else case verify (the token) of
        Some (sub, orgId) \<Rightarrow>
          gw_join client (''manager:'' @ orgId)
            (g\<lparr>gw_connections := (gw_connections g)(client \<mapsto>
              \<lparr>cm_userId = sub, cm_orgId = orgId, cm_isAgent = False, cm_timeout = None\<rparr>)\<rparr>)
      | None \<Rightarrow> (case find_one RU (\<lambda>u. u_agentToken u = token) users of
          None \<Rightarrow> gw_emit (To_socket client) Force_disconnect g
        | Some agentUser \<Rightarrow> connect_agent R now newId cfgHours client agentUser g))"

text \<open>The timer of an agent connection: it goes off at most once, when its time has come.\<close>

definition session_timeout :: "js_time \<Rightarrow> string \<Rightarrow> 's StreamingGateway \<Rightarrow> 's StreamingGateway" where
  "session_timeout now client g = (case gw_connections g client of
     Some c \<Rightarrow> (case cm_timeout c of
       Some t \<Rightarrow> if t \<le> now
         then gw_emit (To_socket client) Force_disconnect (gw_emit_control client ''session_timeout'' g)
         else g
     | None \<Rightarrow> g)
   | None \<Rightarrow> g)"

text \<open>
  A disconnect up to its await, with the connection there was, and the end of it for an agent. The socket
  leaves its rooms whatever the handler does.
\<close>

definition disconnect_maps ::
  "string \<Rightarrow> 's StreamingGateway \<Rightarrow> ConnectionMeta option \<times> 's StreamingGateway" where
  "disconnect_maps client g =
     (let g0 = g\<lparr>gw_rooms := {rc \<in> gw_rooms g. snd rc \<noteq> client}\<rparr>
      in case gw_connections g client of
        None \<Rightarrow> (None, g0)
      | Some conn \<Rightarrow>
          let g1 = g0\<lparr>gw_connections := (gw_connections g0)(client := None)\<rparr>
          in (Some conn, if cm_isAgent conn
            then g1\<lparr>gw_agentSockets := (gw_agentSockets g1)(cm_userId conn := None)\<rparr> else g1))"

definition disconnect_close ::
  "StreamSession orm \<Rightarrow> js_time \<Rightarrow> string \<Rightarrow> ConnectionMeta \<Rightarrow> 's StreamingGateway \<Rightarrow> 's StreamingGateway" where
  "disconnect_close R now client conn g = gw_emit (To_room (''org:'' @ cm_orgId conn)) (Stream_offline (cm_userId conn))
     (g\<lparr>gw_db := closeSession R now client ''disconnected'' (gw_db g)\<rparr>)"

definition stream_handleDisconnect ::
  "StreamSession orm \<Rightarrow> js_time \<Rightarrow> string \<Rightarrow> 's StreamingGateway \<Rightarrow> 's StreamingGateway" where
  "stream_handleDisconnect R now client g = (case disconnect_maps client g of
     (Some conn, g1) \<Rightarrow> if cm_isAgent conn then disconnect_close R now client conn g1 else g1
   | (None, g1) \<Rightarrow> g1)"

section \<open>Messages\<close>

definition stream_handleFrame ::
  "'s kv \<Rightarrow> js_time \<Rightarrow> string \<Rightarrow> buffer \<Rightarrow> 's StreamingGateway \<Rightarrow> 's StreamingGateway" where
  "stream_handleFrame K now client data g = (case gw_connections g client of
     None \<Rightarrow> g
   | Some conn \<Rightarrow>
       if \<not> cm_isAgent conn then g
       else case trackBandwidth K now (cm_userId conn) (int (length data)) (gw_kv g) of
         (withinCap, s1) \<Rightarrow>
           if \<not> withinCap then gw_emit_control client ''bandwidth_cap_exceeded'' (g\<lparr>gw_kv := s1\<rparr>)
           else let g1 = g\<lparr>gw_kv := addMonthlyEgress K now (int (length data)) s1\<rparr>
             in case parseFrame data of
                  Inl _ \<Rightarrow> g1
                | Inr (ty, _) \<Rightarrow> gw_emit (To_room (''watchers:'' @ cm_userId conn))
                    (Stream_frame data (cm_userId conn) ty) g1)"

definition handleSubscribe :: "string \<Rightarrow> string \<Rightarrow> 's StreamingGateway \<Rightarrow> 's StreamingGateway" where
  "handleSubscribe client userId g = (case gw_connections g client of
     None \<Rightarrow> g
   | Some conn \<Rightarrow> if cm_isAgent conn then g else gw_join client (''watchers:'' @ userId) g)"

definition handleUnsubscribe :: "string \<Rightarrow> string \<Rightarrow> 's StreamingGateway \<Rightarrow> 's StreamingGateway" where
  "handleUnsubscribe client userId g =
     g\<lparr>gw_rooms := gw_rooms g - {(''watchers:'' @ userId, client)}\<rparr>"

definition sendControlToAgent ::
  "string \<Rightarrow> json \<Rightarrow> 's StreamingGateway \<Rightarrow> bool \<times> 's StreamingGateway" where
  "sendControlToAgent userId payload g = (case gw_agentSockets g userId of
     None \<Rightarrow> (False, g)
   | Some socketId \<Rightarrow>
       if socketId = [] then (False, g)
       else (True, gw_emit (To_socket socketId) (Stream_control payload) g))"

lemmas gw_defs = gw_emit_def gw_join_def Let_def

section \<open>The REST endpoints\<close>

definition WATCH_FLAG_TTL_SECONDS :: int where "WATCH_FLAG_TTL_SECONDS = 60"

record 's StreamingController =
  sk_gateway :: "'s StreamingGateway"
  sk_cache :: LiveWatchCache
  sk_devices :: "AgentDevice list"

fun mode_of_str :: "string \<Rightarrow> StreamMode option" where
  "mode_of_str s = (if s = ''idle'' then Some Mode_idle else if s = ''grid'' then Some Mode_grid
     else if s = ''full'' then Some Mode_full else None)"

definition ctl_getSessionStats ::
  "(string \<Rightarrow> js_time option) \<Rightarrow> StreamSession orm \<Rightarrow> User \<Rightarrow> string option \<Rightarrow> string option \<Rightarrow>
   's StreamingController \<Rightarrow> SessionStats list outcome" where
  "ctl_getSessionStats D R user fromStr toStr c =
     (if falsy_str fromStr \<or> falsy_str toStr
      then Inl (BadRequest ''Query params \"from\" and \"to\" are required'')
      else case (D (the fromStr), D (the toStr)) of
        (Some fromDate, Some toDate) \<Rightarrow>
          Inr (getSessionStats R (u_organizationId user) fromDate toDate (gw_db (sk_gateway c)))
      | _ \<Rightarrow> Inl (BadRequest ''\"from\" and \"to\" must be valid ISO date strings''))"

definition ctl_updateSessionMode ::
  "StreamSession orm \<Rightarrow> string \<Rightarrow> string \<Rightarrow> 's StreamingController \<Rightarrow>
   StreamMode outcome \<times> 's StreamingController" where
  "ctl_updateSessionMode R userId mode c = (case mode_of_str mode of
     None \<Rightarrow> (Inl (BadRequest ''mode must be one of: idle, grid, full''), c)
   | Some m \<Rightarrow> (Inr m, c\<lparr>sk_gateway := (sk_gateway c)
       \<lparr>gw_db := updateSessionMode R userId m (gw_db (sk_gateway c))\<rparr>\<rparr>))"

definition control_msg :: "string \<Rightarrow> User \<Rightarrow> json" where
  "control_msg action user = JObj [(''action'', JStr action), (''requestedBy'', JStr (u_id user))]"

definition send_control :: "string \<Rightarrow> json \<Rightarrow> 's StreamingController \<Rightarrow> 's StreamingController" where
  "send_control userId payload c =
     c\<lparr>sk_gateway := snd (sendControlToAgent userId payload (sk_gateway c))\<rparr>"

definition requestStreamByDevice ::
  "AgentDevice orm \<Rightarrow> js_time \<Rightarrow> string \<Rightarrow> User \<Rightarrow> 's StreamingController \<Rightarrow>
   (string \<times> string) outcome \<times> 's StreamingController" where
  "requestStreamByDevice RD now deviceId user c =
     (case find_one RD (\<lambda>d. ad_id d = deviceId \<and> ad_organizationId d = u_organizationId user)
         (sk_devices c) of
        None \<Rightarrow> (Inl (NotFound ''Device not found''), c)
      | Some device \<Rightarrow> (Inr (ad_userId device, ad_id device),
          send_control (ad_userId device) (control_msg ''start_stream'' user)
            (c\<lparr>sk_cache := markWatched now (ad_userId device) (ad_id device)
                 WATCH_FLAG_TTL_SECONDS (sk_cache c)\<rparr>)))"

definition stopStreamByDevice ::
  "AgentDevice orm \<Rightarrow> string \<Rightarrow> User \<Rightarrow> 's StreamingController \<Rightarrow>
   (string \<times> string) outcome \<times> 's StreamingController" where
  "stopStreamByDevice RD deviceId user c =
     (case find_one RD (\<lambda>d. ad_id d = deviceId \<and> ad_organizationId d = u_organizationId user)
         (sk_devices c) of
        None \<Rightarrow> (Inl (NotFound ''Device not found''), c)
      | Some device \<Rightarrow> (Inr (ad_userId device, ad_id device),
          send_control (ad_userId device) (control_msg ''stop_stream'' user)
            (c\<lparr>sk_cache := clearWatched (ad_userId device) (ad_id device) (sk_cache c)\<rparr>)))"

text \<open>
  \<open>order: {lastSeenAt: 'DESC'}\<close>: PostgreSQL puts NULL first in a descending order.
\<close>

definition last_seen_desc :: "AgentDevice \<Rightarrow> AgentDevice \<Rightarrow> bool" where
  "last_seen_desc a b = (case ad_lastSeenAt a of
     None \<Rightarrow> True
   | Some x \<Rightarrow> (case ad_lastSeenAt b of None \<Rightarrow> False | Some y \<Rightarrow> y \<le> x))"

definition requestStream ::
  "AgentDevice orm \<Rightarrow> js_time \<Rightarrow> string \<Rightarrow> User \<Rightarrow> 's StreamingController \<Rightarrow>
   string option \<times> 's StreamingController" where
  "requestStream RD now userId user c =
     (case find_one_by RD (\<lambda>d. ad_userId d = userId \<and> ad_organizationId d = u_organizationId user
           \<and> ad_isActive d) last_seen_desc (sk_devices c) of
        None \<Rightarrow> (None, c)
      | Some device \<Rightarrow> (Some (ad_id device),
          send_control userId (control_msg ''start_stream'' user)
            (c\<lparr>sk_cache := markWatched now userId (ad_id device) WATCH_FLAG_TTL_SECONDS (sk_cache c)\<rparr>)))"

definition stopStream ::
  "AgentDevice orm \<Rightarrow> string \<Rightarrow> User \<Rightarrow> 's StreamingController \<Rightarrow> 's StreamingController" where
  "stopStream RD userId user c =
     (let devices = orm_find RD (\<lambda>d. ad_userId d = userId
            \<and> ad_organizationId d = u_organizationId user \<and> ad_isActive d) any_order None (sk_devices c)
      in send_control userId (control_msg ''stop_stream'' user)
        (c\<lparr>sk_cache := fold (\<lambda>d. clearWatched userId (ad_id d)) devices (sk_cache c)\<rparr>))"

lemmas live_view_defs = requestStreamByDevice_def stopStreamByDevice_def requestStream_def
  stopStream_def send_control_def

section \<open>Runs of the gateway\<close>

text \<open>
  A step is what the gateway does between two awaits. Where the handler of a socket stands is kept beside the
  state: looking the agent up, waiting for \<open>createSession\<close>, back from it, refused by it (the handler then asks for
  the socket to be closed), or waiting for \<open>closeSession\<close>,
  with whether there was a row to close. Handlers of different sockets interleave as they like;
  that a socket is closed only when its own connect handler is through is part of the relation, and
  \<open>early_disconnect_leaks\<close> shows what happens otherwise. \<open>closeSession\<close> itself does not fail. Socket ids are chosen
  fresh by socket.io, row ids by the database.
\<close>

datatype gw_phase =
    Looking string
  | Creating User
  | Inserted User
  | Refused User
  | Closing bool ConnectionMeta

definition connect_begin ::
  "(string \<Rightarrow> (string \<times> string) option) \<Rightarrow> string \<Rightarrow> string option \<Rightarrow> 's StreamingGateway \<Rightarrow>
   gw_phase option \<times> 's StreamingGateway" where
  "connect_begin verify client token g =
     (if falsy_str token then (None, gw_emit (To_socket client) Force_disconnect g)
      else case verify (the token) of
        Some (sub, orgId) \<Rightarrow> (None, gw_join client (''manager:'' @ orgId)
            (g\<lparr>gw_connections := (gw_connections g)(client \<mapsto>
              \<lparr>cm_userId = sub, cm_orgId = orgId, cm_isAgent = False, cm_timeout = None\<rparr>)\<rparr>))
      | None \<Rightarrow> (Some (Looking (the token)), g))"

definition connect_found ::
  "User orm \<Rightarrow> User list \<Rightarrow> string \<Rightarrow> string \<Rightarrow> 's StreamingGateway \<Rightarrow> gw_phase option \<times> 's StreamingGateway" where
  "connect_found RU users client token g = (case find_one RU (\<lambda>u. u_agentToken u = Some token) users of
     None \<Rightarrow> (None, gw_emit (To_socket client) Force_disconnect g)
   | Some agentUser \<Rightarrow> (Some (Creating agentUser), connect_maps client agentUser g))"

lemma handleConnection_segments:
  "stream_handleConnection verify RU users R now newId cfg client token g =
    (case connect_begin verify client token g of
       (Some (Looking tok), g1) \<Rightarrow> (case connect_found RU users client tok g1 of
          (Some (Creating u), g2) \<Rightarrow> connect_resume now cfg client u (connect_row R now newId client u g2)
        | (_, g2) \<Rightarrow> g2)
     | (_, g1) \<Rightarrow> g1)"
  by (cases token) (auto simp: stream_handleConnection_def connect_begin_def connect_found_def connect_agent_def
      split: option.split)

type_synonym 's gw_config = "'s StreamingGateway \<times> (string \<rightharpoonup> gw_phase)"

definition sockets_of :: "'s StreamingGateway \<Rightarrow> string set" where
  "sockets_of g = {c. \<exists>s \<in> set (sd_sessions (gw_db g)). st_socketId s = Some c}"

inductive gw_step ::
  "(string \<Rightarrow> (string \<times> string) option) \<Rightarrow> User orm \<Rightarrow> StreamSession orm \<Rightarrow> 's kv \<Rightarrow>
   's gw_config \<Rightarrow> 's gw_config \<Rightarrow> bool"
  for verify RU R K where
  begins: "gw_connections g client = None \<Longrightarrow> client \<notin> sockets_of g \<Longrightarrow> P client = None \<Longrightarrow>
     connect_begin verify client token g = (ph, g') \<Longrightarrow> gw_step verify RU R K (g, P) (g', P(client := ph))"
| found: "P client = Some (Looking tok) \<Longrightarrow> connect_found RU users client tok g = (ph, g') \<Longrightarrow>
     gw_step verify RU R K (g, P) (g', P(client := ph))"
| inserted: "P client = Some (Creating u) \<Longrightarrow> newId \<notin> st_id ` set (sd_sessions (gw_db g)) \<Longrightarrow>
     gw_step verify RU R K (g, P) (connect_row R now newId client u g, P(client \<mapsto> Inserted u))"
| refused: "P client = Some (Creating u) \<Longrightarrow>
     gw_step verify RU R K (g, P) (gw_emit (To_socket client) Force_disconnect g, P(client \<mapsto> Refused u))"
| resumed: "P client = Some (Inserted u) \<Longrightarrow>
     gw_step verify RU R K (g, P) (connect_resume now cfg client u g, P(client := None))"
| leaves: "P client = None \<or> P client = Some (Refused u) \<Longrightarrow> disconnect_maps client g = (conn, g') \<Longrightarrow>
     gw_step verify RU R K (g, P) (g', P(client := (case conn of
       Some c \<Rightarrow> if cm_isAgent c then Some (Closing (P client = None) c) else None | None \<Rightarrow> None)))"
| closed: "P client = Some (Closing b c) \<Longrightarrow>
     gw_step verify RU R K (g, P) (disconnect_close R now client c g, P(client := None))"
| mode: "gw_step verify RU R K (g, P) (g\<lparr>gw_db := updateSessionMode R v m (gw_db g)\<rparr>, P)"
| timeout: "gw_step verify RU R K (g, P) (session_timeout now client g, P)"
| frame: "gw_step verify RU R K (g, P) (stream_handleFrame K now client data g, P)"
| subscribe: "gw_step verify RU R K (g, P) (handleSubscribe client v g, P)"
| unsubscribe: "gw_step verify RU R K (g, P) (handleUnsubscribe client v g, P)"
| control: "gw_step verify RU R K (g, P) (snd (sendControlToAgent v payload g), P)"

text \<open>The runs of a process that starts with the tables of \<open>g0\<close>, sessions of an earlier process included.\<close>

inductive gw_run ::
  "(string \<Rightarrow> (string \<times> string) option) \<Rightarrow> User orm \<Rightarrow> StreamSession orm \<Rightarrow> 's kv \<Rightarrow>
   's StreamingGateway \<Rightarrow> 's gw_config \<Rightarrow> bool"
  for verify RU R K g0 where
  start: "gw_connections g0 = Map.empty \<Longrightarrow> gw_agentSockets g0 = Map.empty \<Longrightarrow>
     gw_run verify RU R K g0 (g0, Map.empty)"
| step: "gw_run verify RU R K g0 x \<Longrightarrow> gw_step verify RU R K x y \<Longrightarrow> gw_run verify RU R K g0 y"

definition agent_at :: "'s StreamingGateway \<Rightarrow> string \<Rightarrow> string \<Rightarrow> bool" where
  "agent_at g client u \<longleftrightarrow> (\<exists>c. gw_connections g client = Some c \<and> cm_isAgent c \<and> cm_userId c = u)"

definition active_socket :: "'s StreamingGateway \<Rightarrow> string \<Rightarrow> string \<Rightarrow> bool" where
  "active_socket g client u \<longleftrightarrow> (\<exists>s \<in> set (sd_sessions (gw_db g)).
     st_isActive s \<and> st_socketId s = Some client \<and> st_userId s = u)"

text \<open>Which row a connection has, by where its handler stands.\<close>

fun row_due :: "gw_phase option \<Rightarrow> bool \<Rightarrow> string \<Rightarrow> bool" where
  "row_due (Some (Creating v)) here u = False"
| "row_due (Some (Refused v)) here u = False"
| "row_due (Some (Closing b c)) here u = (b \<and> cm_userId c = u)"
| "row_due _ here u = here"

fun phase_ok :: "gw_phase option \<Rightarrow> 's StreamingGateway \<Rightarrow> string \<Rightarrow> bool" where
  "phase_ok (Some (Looking tok)) g c = (gw_connections g c = None)"
| "phase_ok (Some (Creating u)) g c = agent_at g c (u_id u)"
| "phase_ok (Some (Inserted u)) g c = agent_at g c (u_id u)"
| "phase_ok (Some (Refused u)) g c = agent_at g c (u_id u)"
| "phase_ok (Some (Closing b m)) g c = (gw_connections g c = None)"
| "phase_ok None g c = True"

definition gw_inv :: "'s StreamingGateway \<Rightarrow> 's gw_config \<Rightarrow> bool" where
  "gw_inv g0 x \<longleftrightarrow> (case x of (g, P) \<Rightarrow>
     (\<forall>u c. gw_agentSockets g u = Some c \<longrightarrow> agent_at g c u) \<and>
     sockets_of g0 \<subseteq> sockets_of g \<and>
     (\<forall>c \<in> sockets_of g0. gw_connections g c = None \<and> P c = None) \<and>
     (\<forall>c. phase_ok (P c) g c) \<and>
     (\<forall>c u. active_socket g c u \<longleftrightarrow> (if c \<in> sockets_of g0 then active_socket g0 c u
        else row_due (P c) (agent_at g c u) u)))"

definition same_core :: "'s StreamingGateway \<Rightarrow> 's StreamingGateway \<Rightarrow> bool" where
  "same_core g g' \<longleftrightarrow> gw_connections g' = gw_connections g \<and>
     gw_agentSockets g' = gw_agentSockets g \<and> gw_db g' = gw_db g"

lemma same_core_facts:
  assumes "same_core g g'"
  shows "agent_at g' = agent_at g" "active_socket g' = active_socket g" "sockets_of g' = sockets_of g"
    "gw_connections g' = gw_connections g" "gw_agentSockets g' = gw_agentSockets g"
  using assms by (simp_all add: same_core_def agent_at_def active_socket_def sockets_of_def fun_eq_iff)

lemma phase_ok_core: "gw_connections g' c = gw_connections g c \<Longrightarrow> phase_ok ph g' c = phase_ok ph g c"
  by (cases "(ph, g, c)" rule: phase_ok.cases) (simp_all add: agent_at_def)

lemma gw_inv_core: "same_core g g' \<Longrightarrow> gw_inv g0 (g', P) = gw_inv g0 (g, P)"
  using same_core_facts [of g g'] phase_ok_core [of g' _ g] by (simp add: gw_inv_def)

lemma core_emit [simp]:
  "gw_connections (gw_emit t e g) = gw_connections g" "gw_agentSockets (gw_emit t e g) = gw_agentSockets g"
  "gw_db (gw_emit t e g) = gw_db g" "gw_kv (gw_emit t e g) = gw_kv g"
  "gw_rooms (gw_emit t e g) = gw_rooms g"
  by (simp_all add: gw_emit_def)

lemma core_emit_control [simp]:
  "gw_connections (gw_emit_control c a g) = gw_connections g"
  "gw_agentSockets (gw_emit_control c a g) = gw_agentSockets g"
  "gw_db (gw_emit_control c a g) = gw_db g" "gw_kv (gw_emit_control c a g) = gw_kv g"
  "gw_rooms (gw_emit_control c a g) = gw_rooms g"
  by (simp_all add: gw_emit_control_def split: sum.splits)

lemma core_join [simp]:
  "gw_connections (gw_join c r g) = gw_connections g" "gw_agentSockets (gw_join c r g) = gw_agentSockets g"
  "gw_db (gw_join c r g) = gw_db g" "gw_kv (gw_join c r g) = gw_kv g" "gw_out (gw_join c r g) = gw_out g"
  by (simp_all add: gw_join_def)

lemma quiet_handlers:
  "same_core g (session_timeout now client g)" "same_core g (stream_handleFrame K now client data g)"
  "same_core g (handleSubscribe client u g)" "same_core g (handleUnsubscribe client u g)"
  "same_core g (snd (sendControlToAgent u payload g))"
  by (auto simp: same_core_def session_timeout_def stream_handleFrame_def handleSubscribe_def
      handleUnsubscribe_def sendControlToAgent_def Let_def split: option.splits prod.splits sum.splits)

lemma connect_maps_simps [simp]:
  "gw_agentSockets (connect_maps client u g) = (gw_agentSockets g)(u_id u \<mapsto> client)"
  "gw_db (connect_maps client u g) = gw_db g"
  "gw_connections (connect_maps client u g) = (gw_connections g)(client \<mapsto>
     \<lparr>cm_userId = u_id u, cm_orgId = u_organizationId u, cm_isAgent = True, cm_timeout = None\<rparr>)"
  by (simp_all add: connect_maps_def Let_def)

lemma connect_row_simps [simp]:
  "gw_agentSockets (connect_row R now newId client u g) = gw_agentSockets g"
  "gw_connections (connect_row R now newId client u g) = gw_connections g"
  "gw_db (connect_row R now newId client u g) =
     snd (createSession R now newId (u_id u) (u_organizationId u) client (gw_db g))"
  by (simp_all add: connect_row_def)

lemma connect_resume_simps [simp]:
  "gw_agentSockets (connect_resume now cfg client u g) = gw_agentSockets g"
  "gw_db (connect_resume now cfg client u g) = gw_db g"
  "gw_connections (connect_resume now cfg client u g) = (gw_connections g)(client \<mapsto>
     \<lparr>cm_userId = u_id u, cm_orgId = u_organizationId u, cm_isAgent = True,
      cm_timeout = Some (now + session_max_hours cfg * 3600 * 1000)\<rparr>)"
  by (simp_all add: connect_resume_def Let_def)

lemma disconnect_close_simps [simp]:
  "gw_agentSockets (disconnect_close R now client c g) = gw_agentSockets g"
  "gw_connections (disconnect_close R now client c g) = gw_connections g"
  "gw_db (disconnect_close R now client c g) = closeSession R now client ''disconnected'' (gw_db g)"
  by (simp_all add: disconnect_close_def)

lemma disconnect_maps_simps:
  "fst (disconnect_maps client g) = gw_connections g client"
  "gw_connections (snd (disconnect_maps client g)) = (gw_connections g)(client := None)"
  "gw_db (snd (disconnect_maps client g)) = gw_db g"
  "gw_agentSockets (snd (disconnect_maps client g)) = (case gw_connections g client of
     Some c \<Rightarrow> if cm_isAgent c then (gw_agentSockets g)(cm_userId c := None) else gw_agentSockets g
   | None \<Rightarrow> gw_agentSockets g)"
  by (auto simp: disconnect_maps_def Let_def split: option.split)

lemma connect_agent_simps:
  "gw_agentSockets (connect_agent R now newId cfg client u g) = (gw_agentSockets g)(u_id u \<mapsto> client)"
  "gw_db (connect_agent R now newId cfg client u g) =
     snd (createSession R now newId (u_id u) (u_organizationId u) client (gw_db g))"
  "gw_connections (connect_agent R now newId cfg client u g) = (gw_connections g)(client \<mapsto>
     \<lparr>cm_userId = u_id u, cm_orgId = u_organizationId u, cm_isAgent = True,
      cm_timeout = Some (now + session_max_hours cfg * 3600 * 1000)\<rparr>)"
  by (simp_all add: connect_agent_def)

text \<open>The rows after an insert, after the sessions of a socket were closed, and after a change of mode.\<close>

lemma active_same_db: "gw_db g' = gw_db g \<Longrightarrow> active_socket g' c u = active_socket g c u"
  "gw_db g' = gw_db g \<Longrightarrow> sockets_of g' = sockets_of g"
  by (simp_all add: active_socket_def sockets_of_def)

lemma active_unchanged [simp]:
  "active_socket (gw_emit t e g) = active_socket g" "sockets_of (gw_emit t e g) = sockets_of g"
  "active_socket (connect_maps client u g) = active_socket g" "sockets_of (connect_maps client u g) = sockets_of g"
  "active_socket (connect_resume now cfg client u g) = active_socket g"
  "sockets_of (connect_resume now cfg client u g) = sockets_of g"
  "active_socket (snd (disconnect_maps client g)) = active_socket g"
  "sockets_of (snd (disconnect_maps client g)) = sockets_of g"
  by (simp_all add: active_socket_def sockets_of_def disconnect_maps_simps fun_eq_iff)

lemma row_facts:
  assumes R: "repository R st_id" and new: "newId \<notin> st_id ` set (sd_sessions (gw_db g))"
  shows "active_socket (connect_row R now newId client u g) c v \<longleftrightarrow>
      (c = client \<and> v = u_id u) \<or> active_socket g c v"
    and "sockets_of (connect_row R now newId client u g) = insert client (sockets_of g)"
proof -
  have rows: "set (sd_sessions (gw_db (connect_row R now newId client u g))) = set (sd_sessions (gw_db g)) \<union>
      {fst (createSession R now newId (u_id u) (u_organizationId u) client (gw_db g))}"
    using repository.set_save [OF R] new by (auto simp: createSession_def Let_def)
  show "active_socket (connect_row R now newId client u g) c v \<longleftrightarrow> (c = client \<and> v = u_id u) \<or> active_socket g c v"
    unfolding active_socket_def rows by (auto simp: createSession_def Let_def)
  show "sockets_of (connect_row R now newId client u g) = insert client (sockets_of g)"
    unfolding sockets_of_def rows by (auto simp: createSession_def Let_def)
qed

lemma close_facts:
  assumes R: "repository R st_id"
  shows "active_socket (disconnect_close R now client m g) c v \<longleftrightarrow> c \<noteq> client \<and> active_socket g c v"
    and "sockets_of (disconnect_close R now client m g) = sockets_of g"
proof -
  have rows: "set (sd_sessions (gw_db (disconnect_close R now client m g))) =
      (\<lambda>s. if st_socketId s = Some client \<and> st_isActive s
        then s\<lparr>st_isActive := False, st_endedAt := Some now, st_disconnectReason := Some ''disconnected''\<rparr>
        else s) ` set (sd_sessions (gw_db g))"
    using repository.set_update [OF R] by (simp add: closeSession_def)
  have "st_isActive (if st_socketId s = Some client \<and> st_isActive s then s\<lparr>st_isActive := False, st_endedAt := x, st_disconnectReason := y\<rparr>
        else s) \<and>
      st_socketId (if st_socketId s = Some client \<and> st_isActive s then s\<lparr>st_isActive := False, st_endedAt := x, st_disconnectReason := y\<rparr>
        else s) = Some c \<and>
      st_userId (if st_socketId s = Some client \<and> st_isActive s then s\<lparr>st_isActive := False, st_endedAt := x, st_disconnectReason := y\<rparr>
        else s) = v \<longleftrightarrow> c \<noteq> client \<and> st_isActive s \<and> st_socketId s = Some c \<and> st_userId s = v"
    for x y and s :: StreamSession by auto
  then show "active_socket (disconnect_close R now client m g) c v \<longleftrightarrow> c \<noteq> client \<and> active_socket g c v"
    unfolding active_socket_def rows bex_simps by simp
  have "st_socketId (if b then s\<lparr>st_isActive := x, st_endedAt := y, st_disconnectReason := z\<rparr> else s) = st_socketId s"
    for b x y z and s :: StreamSession by simp
  then show "sockets_of (disconnect_close R now client m g) = sockets_of g"
    unfolding sockets_of_def rows bex_simps by simp
qed

lemma mode_facts:
  assumes R: "repository R st_id"
  shows "active_socket (g\<lparr>gw_db := updateSessionMode R v m (gw_db g)\<rparr>) c u = active_socket g c u"
    and "sockets_of (g\<lparr>gw_db := updateSessionMode R v m (gw_db g)\<rparr>) = sockets_of g"
proof -
  have rows: "set (sd_sessions (gw_db (g\<lparr>gw_db := updateSessionMode R v m (gw_db g)\<rparr>))) =
      (\<lambda>s. if st_userId s = v \<and> st_isActive s then s\<lparr>st_mode := m\<rparr> else s) ` set (sd_sessions (gw_db g))"
    using repository.set_update [OF R] by (simp add: updateSessionMode_def)
  show "active_socket (g\<lparr>gw_db := updateSessionMode R v m (gw_db g)\<rparr>) c u = active_socket g c u"
    unfolding active_socket_def rows bex_simps by (auto split: if_splits)
  have "st_socketId (if b then s\<lparr>st_mode := m\<rparr> else s) = st_socketId s" for b and s :: StreamSession by simp
  then show "sockets_of (g\<lparr>gw_db := updateSessionMode R v m (gw_db g)\<rparr>) = sockets_of g"
    unfolding sockets_of_def rows bex_simps by simp
qed

lemma inactive_elsewhere: "c \<notin> sockets_of g \<Longrightarrow> \<not> active_socket g c u"
  by (auto simp: sockets_of_def active_socket_def)

lemma gw_invD:
  assumes "gw_inv g0 (g, P)"
  shows "gw_agentSockets g u = Some c \<Longrightarrow> agent_at g c u" "phase_ok (P c) g c"
    "c \<in> sockets_of g0 \<Longrightarrow> gw_connections g c = None \<and> P c = None" "sockets_of g0 \<subseteq> sockets_of g"
    "c \<in> sockets_of g0 \<Longrightarrow> active_socket g c u = active_socket g0 c u"
    "c \<notin> sockets_of g0 \<Longrightarrow> active_socket g c u = row_due (P c) (agent_at g c u) u"
  using assms by (simp_all add: gw_inv_def)

text \<open>A step that touches one socket only.\<close>

lemma gw_inv_at:
  assumes inv: "gw_inv g0 (g, P)" and old: "client \<notin> sockets_of g0"
    and rest: "\<And>c. c \<noteq> client \<Longrightarrow> gw_connections g' c = gw_connections g c"
    and rows: "\<And>c u. c \<noteq> client \<Longrightarrow> active_socket g' c u = active_socket g c u" "sockets_of g \<subseteq> sockets_of g'"
    and agents: "\<And>c u. gw_agentSockets g' u = Some c \<Longrightarrow>
      (if c = client then agent_at g' c u else gw_agentSockets g u = Some c)"
    and ph: "phase_ok ph g' client"
    and row: "\<And>u. active_socket g' client u = row_due ph (agent_at g' client u) u"
  shows "gw_inv g0 (g', P(client := ph))"
proof -
  have at: "agent_at g' c u = agent_at g c u" if "c \<noteq> client" for c u
    using rest [OF that] by (simp add: agent_at_def)
  have "agent_at g' c u" if "gw_agentSockets g' u = Some c" for c u
    using agents [OF that] gw_invD(1) [OF inv] at by (auto split: if_splits)
  moreover have "phase_ok ((P(client := ph)) c) g' c" for c
    using ph gw_invD(2) [OF inv] phase_ok_core [OF rest] by auto
  moreover have "active_socket g' c u = (if c \<in> sockets_of g0 then active_socket g0 c u
      else row_due ((P(client := ph)) c) (agent_at g' c u) u)" for c u
    using row rows(1) old gw_invD(5,6) [OF inv] at by (cases "c = client") auto
  moreover have "gw_connections g' c = None \<and> (P(client := ph)) c = None" if "c \<in> sockets_of g0" for c
    using that old gw_invD(3) [OF inv that] rest by (metis fun_upd_other)
  ultimately show ?thesis using gw_invD(4) [OF inv] rows(2) unfolding gw_inv_def by auto
qed

lemma begins_inv:
  assumes inv: "gw_inv g0 (g, P)" and none: "gw_connections g client = None" and new: "client \<notin> sockets_of g"
    and b: "connect_begin verify client token g = (ph, g')"
  shows "gw_inv g0 (g', P(client := ph))"
proof (rule gw_inv_at [OF inv])
  show "client \<notin> sockets_of g0" using gw_invD(4) [OF inv] new by blast
  have db: "gw_db g' = gw_db g" "gw_agentSockets g' = gw_agentSockets g"
    using b by (auto simp: connect_begin_def split: if_splits option.splits)
  show "gw_connections g' c = gw_connections g c" if "c \<noteq> client" for c
    using b that by (auto simp: connect_begin_def split: if_splits option.splits)
  show "active_socket g' c u = active_socket g c u" "sockets_of g \<subseteq> sockets_of g'" for c u
    by (simp_all add: active_same_db [OF db(1)])
  show "if c = client then agent_at g' c u else gw_agentSockets g u = Some c" if "gw_agentSockets g' u = Some c" for c u
    using that gw_invD(1) [OF inv, of u client] none unfolding db(2) by (auto simp: agent_at_def)
  show "phase_ok ph g' client" using b none by (auto simp: connect_begin_def split: if_splits option.splits)
  have "\<not> active_socket g client u" for u by (rule inactive_elsewhere [OF new])
  moreover have "\<not> row_due ph (agent_at g' client u) u" for u
    using b none by (auto simp: connect_begin_def agent_at_def split: if_splits option.splits)
  ultimately show "active_socket g' client u = row_due ph (agent_at g' client u) u" for u
    by (simp add: active_same_db [OF db(1)])
qed

lemma gw_step_inv:
  assumes R: "repository R st_id" and "gw_inv g0 x" and "gw_step verify RU R K x y"
  shows "gw_inv g0 y"
  using assms(3,2)
proof (induction rule: gw_step.induct)
  case (begins g client P token ph g')
  then show ?case by (intro begins_inv)
next
  case (found P client tok users g ph g')
  note inv = found.prems
  have none: "gw_connections g client = None" using gw_invD(2) [OF inv, of client] found.hyps(1) by simp
  have old: "client \<notin> sockets_of g0" using gw_invD(3) [OF inv, of client] found.hyps(1) by auto
  have row: "\<not> active_socket g client u" for u
    using gw_invD(6) [OF inv old, of u] found.hyps(1) none by (simp add: agent_at_def)
  have own: "gw_agentSockets g u \<noteq> Some client" for u
    using gw_invD(1) [OF inv, of u client] none by (auto simp: agent_at_def)
  show ?case
    by (rule gw_inv_at [OF inv old])
      (use found.hyps(2) none row own in
        \<open>auto simp: connect_found_def agent_at_def split: option.splits if_splits\<close>)
next
  case (inserted P client u newId g now)
  note inv = inserted.prems
  have old: "client \<notin> sockets_of g0" using gw_invD(3) [OF inv, of client] inserted.hyps(1) by auto
  have at: "agent_at g client (u_id u)" using gw_invD(2) [OF inv, of client] inserted.hyps(1) by simp
  then have at': "agent_at g client v \<longleftrightarrow> v = u_id u" for v by (auto simp: agent_at_def)
  have row: "\<not> active_socket g client v" for v using gw_invD(6) [OF inv old, of v] inserted.hyps(1) by simp
  have own: "gw_agentSockets g v = Some client \<Longrightarrow> v = u_id u" for v
    using gw_invD(1) [OF inv, of v client] at' by simp
  have same: "agent_at (connect_row R now newId client u g) c v = agent_at g c v" for c v
    by (simp add: agent_at_def)
  show ?case
    by (rule gw_inv_at [OF inv old])
      (use at' row row_facts [OF R inserted.hyps(2)] own in \<open>auto simp: same\<close>)
next
  case (refused P client u g)
  note inv = refused.prems
  have old: "client \<notin> sockets_of g0" using gw_invD(3) [OF inv, of client] refused.hyps(1) by auto
  have at: "agent_at g client (u_id u)" using gw_invD(2) [OF inv, of client] refused.hyps(1) by simp
  have row: "\<not> active_socket g client v" for v using gw_invD(6) [OF inv old, of v] refused.hyps(1) by simp
  have own: "gw_agentSockets g v = Some client \<Longrightarrow> agent_at g client v" for v by (rule gw_invD(1) [OF inv])
  show ?case
    by (rule gw_inv_at [OF inv old]) (use at row own in \<open>simp_all add: agent_at_def split: if_split\<close>)
next
  case (resumed P client u g now cfg)
  note inv = resumed.prems
  have old: "client \<notin> sockets_of g0" using gw_invD(3) [OF inv, of client] resumed.hyps(1) by auto
  have at: "agent_at g client (u_id u)" using gw_invD(2) [OF inv, of client] resumed.hyps(1) by simp
  have row: "active_socket g client v \<longleftrightarrow> v = u_id u" for v
    using gw_invD(6) [OF inv old, of v] resumed.hyps(1) at by (auto simp: agent_at_def)
  have own: "gw_agentSockets g v = Some client \<Longrightarrow> v = u_id u" for v
    using gw_invD(1) [OF inv, of v client] at by (auto simp: agent_at_def)
  show ?case
    by (rule gw_inv_at [OF inv old])
      (use row own in \<open>auto simp: agent_at_def split: if_splits\<close>)
next
  case (leaves P client u g conn g')
  note inv = leaves.prems
  have g': "g' = snd (disconnect_maps client g)" "conn = gw_connections g client"
    using leaves.hyps(2) disconnect_maps_simps(1) [of client g] by simp_all
  show ?case
  proof (cases "client \<in> sockets_of g0")
    case True
    then have none: "gw_connections g client = None" "P client = None" using gw_invD(3) [OF inv] by auto
    have "same_core g g'" using none unfolding same_core_def g'(1) by (auto simp: disconnect_maps_simps)
    then show ?thesis using inv none g'(2) gw_inv_core [of g g' g0 P] by (simp add: fun_upd_idem)
  next
    case False
    have own: "c = client \<Longrightarrow> gw_agentSockets g v = Some c \<Longrightarrow>
        \<exists>m. gw_connections g client = Some m \<and> cm_isAgent m \<and> cm_userId m = v" for v c
      using gw_invD(1) [OF inv] by (auto simp: agent_at_def)
    have row: "active_socket g client v \<longleftrightarrow> P client = None \<and> agent_at g client v" for v
      using gw_invD(6) [OF inv False, of v] leaves.hyps(1) by auto
    show ?thesis
      by (rule gw_inv_at [OF inv False])
        (use row leaves.hyps(1) own in
          \<open>auto simp: g' disconnect_maps_simps agent_at_def split: option.splits if_splits\<close>)
  qed
next
  case (closed P client b m g now)
  note inv = closed.prems
  have old: "client \<notin> sockets_of g0" using gw_invD(3) [OF inv, of client] closed.hyps(1) by auto
  have none: "gw_connections g client = None" using gw_invD(2) [OF inv, of client] closed.hyps(1) by simp
  have own: "gw_agentSockets g v \<noteq> Some client" for v
    using gw_invD(1) [OF inv, of v client] none by (auto simp: agent_at_def)
  show ?case
    by (rule gw_inv_at [OF inv old])
      (use none own in \<open>auto simp: agent_at_def close_facts [OF R]\<close>)
next
  case (mode g P v m)
  have "agent_at (g\<lparr>gw_db := updateSessionMode R v m (gw_db g)\<rparr>) = agent_at g"
    by (simp add: agent_at_def fun_eq_iff)
  moreover have "phase_ok ph (g\<lparr>gw_db := updateSessionMode R v m (gw_db g)\<rparr>) c = phase_ok ph g c" for ph c
    by (rule phase_ok_core) simp
  ultimately show ?case using mode.prems by (simp add: gw_inv_def mode_facts [OF R])
qed (simp_all add: gw_inv_core [OF quiet_handlers(1)] gw_inv_core [OF quiet_handlers(2)]
    gw_inv_core [OF quiet_handlers(3)] gw_inv_core [OF quiet_handlers(4)] gw_inv_core [OF quiet_handlers(5)])

text \<open>
  C9. Whatever the sockets of a process do and however their handlers interleave, a socket that connected to this
  process has an active session of a user exactly if it is connected as that user's agent, its row not being
  awaited or refused, or if it has left and its row is about to be closed; sessions an earlier process left active
  stay active; and a socket registered for control messages to an agent is connected as that agent. This needs
  that a socket is not closed while its own connect handler waits.
\<close>

theorem sessions_match_connections:
  assumes "repository R st_id" and "gw_run verify RU R K g0 (g, P)"
  shows "(active_socket g client u \<longleftrightarrow>
      (if client \<in> sockets_of g0 then active_socket g0 client u
       else case P client of
         None \<Rightarrow> agent_at g client u
       | Some (Creating v) \<Rightarrow> False
       | Some (Refused v) \<Rightarrow> False
       | Some (Closing b c) \<Rightarrow> b \<and> cm_userId c = u
       | Some (Inserted v) \<Rightarrow> agent_at g client u
       | Some (Looking tok) \<Rightarrow> False)) \<and>
    (gw_agentSockets g u = Some client \<longrightarrow> agent_at g client u)"
proof -
  have "gw_inv g0 (g, P)" using assms(2)
  proof (induction "(g, P)" arbitrary: g P rule: gw_run.induct)
    case start
    then show ?case by (auto simp: gw_inv_def agent_at_def inactive_elsewhere)
  next
    case (step x g P)
    then show ?case using gw_step_inv [OF assms(1)] by (metis prod.collapse)
  qed
  note inv = gw_invD [OF this]
  have "\<not> agent_at g client u" if "P client = Some (Looking tok)" for tok
    using inv(2) [of client] that by (simp add: agent_at_def)
  then show ?thesis using inv(1) inv(5,6) [of client u] by (auto split: option.split gw_phase.split)
qed

definition idle_gateway :: "'s \<Rightarrow> 's StreamingGateway" where
  "idle_gateway s = \<lparr>gw_connections = Map.empty, gw_agentSockets = Map.empty, gw_rooms = {},
     gw_out = [], gw_db = \<lparr>sd_sessions = [], sd_orgs = []\<rparr>, gw_kv = s\<rparr>"

definition agent_user :: "string \<Rightarrow> string \<Rightarrow> string \<Rightarrow> User" where
  "agent_user userId orgId tok = \<lparr>u_id = userId, u_organizationId = orgId, u_email = [],
     u_passwordHash = [], u_firstName = [], u_lastName = [], u_role = EMPLOYEE, u_avatarUrl = None,
     u_emailVerified = True, u_isActive = True, u_agentToken = Some tok, u_invitedBy = None,
     u_createdAt = 0, u_updatedAt = 0\<rparr>"

definition connected_gateway :: "unit StreamingGateway" where
  "connected_gateway = stream_handleConnection (\<lambda>_. None) (typeorm_list u_id)
     [agent_user ''u'' ''o'' ''t''] (typeorm_list st_id) 0 ''s1'' None ''c1'' (Some ''t'') (idle_gateway ())"

lemma connected_run:
  "gw_run (\<lambda>_. None) (typeorm_list u_id) (typeorm_list st_id) K (idle_gateway ()) (connected_gateway, Map.empty)"
proof -
  let ?u = "agent_user ''u'' ''o'' ''t''" and ?R = "typeorm_list st_id"
  let ?step = "gw_step (\<lambda>_. None) (typeorm_list u_id) ?R K" and ?g = "idle_gateway ()"
  note start = gw_run.start [of ?g "\<lambda>_. None" "typeorm_list u_id" ?R K]
  have 1: "?step (?g, Map.empty) (?g, Map.empty(''c1'' := Some (Looking ''t'')))"
    by (rule gw_step.begins [where token = "Some ''t''"]) (simp_all add: idle_gateway_def sockets_of_def connect_begin_def)
  have 2: "?step (?g, Map.empty(''c1'' := Some (Looking ''t'')))
      (connect_maps ''c1'' ?u ?g, (Map.empty(''c1'' := Some (Looking ''t'')))(''c1'' := Some (Creating ?u)))"
    by (rule gw_step.found [where users = "[?u]"]) (simp_all add: connect_found_def agent_user_def)
  have 3: "?step (connect_maps ''c1'' ?u ?g, (Map.empty(''c1'' := Some (Looking ''t'')))(''c1'' := Some (Creating ?u)))
      (connect_row ?R 0 ''s1'' ''c1'' ?u (connect_maps ''c1'' ?u ?g),
       (Map.empty(''c1'' := Some (Looking ''t''), ''c1'' := Some (Creating ?u)))(''c1'' \<mapsto> Inserted ?u))"
    by (rule gw_step.inserted) (simp_all add: idle_gateway_def)
  have 4: "?step (connect_row ?R 0 ''s1'' ''c1'' ?u (connect_maps ''c1'' ?u ?g),
       (Map.empty(''c1'' := Some (Looking ''t''), ''c1'' := Some (Creating ?u)))(''c1'' \<mapsto> Inserted ?u))
      (connect_resume 0 None ''c1'' ?u (connect_row ?R 0 ''s1'' ''c1'' ?u (connect_maps ''c1'' ?u ?g)),
       ((Map.empty(''c1'' := Some (Looking ''t''), ''c1'' := Some (Creating ?u)))(''c1'' \<mapsto> Inserted ?u))(''c1'' := None))"
    by (rule gw_step.resumed) simp
  have "connected_gateway = connect_resume 0 None ''c1'' ?u (connect_row ?R 0 ''s1'' ''c1'' ?u (connect_maps ''c1'' ?u ?g))"
    by (simp add: connected_gateway_def stream_handleConnection_def connect_agent_def agent_user_def)
  moreover have "((Map.empty(''c1'' := Some (Looking ''t''), ''c1'' := Some (Creating ?u)))(''c1'' \<mapsto> Inserted ?u))(''c1'' := None)
      = Map.empty"
    by (simp add: fun_eq_iff)
  ultimately show ?thesis
    using gw_run.step [OF gw_run.step [OF gw_run.step [OF gw_run.step [OF start 1] 2] 3] 4]
    by (simp add: idle_gateway_def del: fun_upd_apply fun_upd_upd)
qed

lemma connected_maps:
  "gw_agentSockets connected_gateway = [''u'' \<mapsto> ''c1'']"
  "gw_connections connected_gateway = [''c1'' \<mapsto> \<lparr>cm_userId = ''u'', cm_orgId = ''o'',
     cm_isAgent = True, cm_timeout = Some 28800000\<rparr>]"
  by (simp_all add: connected_gateway_def stream_handleConnection_def connect_agent_simps
      agent_user_def idle_gateway_def session_max_hours_def)

theorem sessions_match_connections_witness:
  "active_socket connected_gateway ''c1'' ''u'' \<and> \<not> active_socket connected_gateway ''c2'' ''u''"
  using sessions_match_connections [OF list_orm_repository connected_run, of "''c1''" "''u''"]
    sessions_match_connections [OF list_orm_repository connected_run, of "''c2''" "''u''"]
  by (simp add: connected_maps agent_at_def sockets_of_def idle_gateway_def)

text \<open>
  A socket that is closed while its connect handler waits for the insert is never forgotten: the handler comes
  back, puts the connection into the map again and leaves the row active, and no further disconnect will come.
\<close>

lemma early_disconnect_leaks:
  assumes R: "repository R st_id" and new: "newId \<notin> st_id ` set (sd_sessions (gw_db g))"
  shows "let g1 = connect_maps client u g;
      (conn, g2) = disconnect_maps client g1;
      g3 = disconnect_close R t2 client (the conn) g2;
      g4 = connect_resume t4 cfg client u (connect_row R t3 newId client u g3)
    in active_socket g4 client (u_id u) \<and> agent_at g4 client (u_id u) \<and> gw_agentSockets g4 (u_id u) = None"
proof -
  define g3 where "g3 m = disconnect_close R t2 client m (snd (disconnect_maps client (connect_maps client u g)))" for m
  have rows: "set (sd_sessions (gw_db (g3 m))) = (\<lambda>s. if st_socketId s = Some client \<and> st_isActive s
      then s\<lparr>st_isActive := False, st_endedAt := Some t2, st_disconnectReason := Some ''disconnected''\<rparr>
      else s) ` set (sd_sessions (gw_db g))" for m
    using repository.set_update [OF R] unfolding g3_def by (simp add: closeSession_def disconnect_maps_simps)
  have "st_id ` set (sd_sessions (gw_db (g3 m))) = st_id ` set (sd_sessions (gw_db g))" for m
    unfolding rows image_image by (rule image_cong) simp_all
  then have "active_socket (connect_row R t3 newId client u (g3 m)) client (u_id u)" for m
    using row_facts(1) [OF R, of newId "g3 m" t3 client u client "u_id u"] new by simp
  then show ?thesis unfolding g3_def
    by (simp add: Let_def agent_at_def disconnect_maps_simps split_beta)
qed

section \<open>What the gateway does not keep apart\<close>

text \<open>
  When an agent reconnects before its old socket is closed, closing the old socket
  unregisters the new one: the agent stays connected with an active session, but control
  messages to it are dropped until it connects again.
\<close>

theorem stale_disconnect_unregisters:
  assumes "a \<noteq> b" and "u_agentToken usr = Some tok" and "tok \<noteq> []" and "verify tok = None"
    and "find_one RU (\<lambda>u. u_agentToken u = Some tok) users = Some usr"
  shows "let connect = \<lambda>now newId client. stream_handleConnection verify RU users R now newId cfg
        client (Some tok);
      g' = stream_handleDisconnect R t3 a (connect t2 n2 b (connect t1 n1 a g))
    in (\<exists>c. gw_connections g' b = Some c \<and> cm_isAgent c \<and> cm_userId c = u_id usr) \<and>
       sendControlToAgent (u_id usr) payload g' = (False, g')"
  using assms
  by (simp add: stream_handleConnection_def stream_handleDisconnect_def connect_agent_simps
      disconnect_maps_def sendControlToAgent_def Let_def)

theorem stale_disconnect_unregisters_witness:
  "fst (sendControlToAgent ''u'' JNull (stream_handleDisconnect (typeorm_list st_id) 3 ''a''
     (stream_handleConnection (\<lambda>_. None) (typeorm_list u_id) [agent_user ''u'' ''o'' ''t'']
       (typeorm_list st_id) 2 ''s2'' None ''b'' (Some ''t'')
     (stream_handleConnection (\<lambda>_. None) (typeorm_list u_id) [agent_user ''u'' ''o'' ''t'']
       (typeorm_list st_id) 1 ''s1'' None ''a'' (Some ''t'') (idle_gateway ()))))) = False"
  using stale_disconnect_unregisters [of "''a''" "''b''" "agent_user ''u'' ''o'' ''t''" "''t''" "\<lambda>_. None"
      "typeorm_list u_id" "[agent_user ''u'' ''o'' ''t'']" "typeorm_list st_id" None 3 2 "''s2''" 1
      "''s1''" "idle_gateway ()" JNull]
  by (simp add: Let_def agent_user_def)

text \<open>
  C10. A dashboard connection of any organisation may subscribe to any user id; from then on it
  is in the room to which every well-formed frame of that user's agent, sent within the
  bandwidth cap, is relayed, whatever organisation the agent belongs to.
\<close>

theorem subscription_crosses_tenants:
  assumes "gw_connections g viewer = Some v" and "\<not> cm_isAgent v"
    and "gw_connections g client = Some c" and "cm_isAgent c"
    and "fst (trackBandwidth K now (cm_userId c) (int (length data)) (gw_kv g))"
    and "parseFrame data = Inr (ty, body)"
  shows "let g' = stream_handleFrame K now client data (handleSubscribe viewer (cm_userId c) g)
    in (''watchers:'' @ cm_userId c, viewer) \<in> gw_rooms g' \<and>
      last (gw_out g') = (To_room (''watchers:'' @ cm_userId c), Stream_frame data (cm_userId c) ty)"
proof -
  obtain s1 where t: "trackBandwidth K now (cm_userId c) (int (length data)) (gw_kv g) = (True, s1)"
    using assms(5) by (metis (full_types) prod.collapse)
  have "gw_kv (handleSubscribe viewer (cm_userId c) g) = gw_kv g"
    "gw_connections (handleSubscribe viewer (cm_userId c) g) = gw_connections g"
    "(''watchers:'' @ cm_userId c, viewer) \<in> gw_rooms (handleSubscribe viewer (cm_userId c) g)"
    using assms(1,2) by (simp_all add: handleSubscribe_def gw_join_def)
  then show ?thesis using assms(3,4,6) t
    by (simp add: stream_handleFrame_def Let_def gw_emit_def)
qed

theorem subscription_crosses_tenants_witness:
  "let g = (idle_gateway empty_redis)\<lparr>gw_connections :=
       [''m'' \<mapsto> \<lparr>cm_userId = ''boss'', cm_orgId = ''one'', cm_isAgent = False, cm_timeout = None\<rparr>,
        ''a'' \<mapsto> \<lparr>cm_userId = ''u'', cm_orgId = ''two'', cm_isAgent = True, cm_timeout = None\<rparr>]\<rparr>;
     g' = stream_handleFrame file_kv 0 ''a'' [1, 5, 0, 0, 0, 0, 0, 0] (handleSubscribe ''m'' ''u'' g)
   in (''watchers:u'', ''m'') \<in> gw_rooms g'"
  using subscription_crosses_tenants [of "(idle_gateway empty_redis)\<lparr>gw_connections :=
       [''m'' \<mapsto> \<lparr>cm_userId = ''boss'', cm_orgId = ''one'', cm_isAgent = False, cm_timeout = None\<rparr>,
        ''a'' \<mapsto> \<lparr>cm_userId = ''u'', cm_orgId = ''two'', cm_isAgent = True, cm_timeout = None\<rparr>]\<rparr>" "''m''"
     "\<lparr>cm_userId = ''boss'', cm_orgId = ''one'', cm_isAgent = False, cm_timeout = None\<rparr>" "''a''"
     "\<lparr>cm_userId = ''u'', cm_orgId = ''two'', cm_isAgent = True, cm_timeout = None\<rparr>" file_kv 0
     "[1, 5, 0, 0, 0, 0, 0, 0]" 5 "[]"]
  by (simp add: Let_def idle_gateway_def trackBandwidth_def bandwidth_read_def bandwidth_write_def
      redis_defs empty_redis_def parseFrame_def HEADER_SIZE_def readUInt32BE_def)

text \<open>
  A live view of a device is granted only inside the requester's organisation, and then the
  device, and no other device of that user, is reported as watched for exactly the next 60
  seconds; otherwise the request fails and changes nothing.
\<close>

theorem live_view_of_own_device:
  assumes RD: "repository RD ad_id" and "now \<le> t"
    and free: "colon_free u" "\<forall>e \<in> set (sk_devices c). colon_free (ad_userId e)"
    and off: "\<not> fst (isWatched t u dev (sk_cache c))"
  shows "case requestStreamByDevice RD now deviceId usr c of
      (Inl e, c') \<Rightarrow> c' = c \<and>
        (\<forall>e \<in> set (sk_devices c). ad_id e = deviceId \<longrightarrow> ad_organizationId e \<noteq> u_organizationId usr)
    | (Inr (u', d'), c') \<Rightarrow>
        (\<exists>e \<in> set (sk_devices c). ad_id e = deviceId \<and> ad_organizationId e = u_organizationId usr \<and>
           u' = ad_userId e \<and> d' = ad_id e) \<and>
        (fst (isWatched t u dev (sk_cache c')) \<longleftrightarrow> u = u' \<and> dev = d' \<and> t \<le> now + 60000)"
proof (cases "find_one RD (\<lambda>d. ad_id d = deviceId \<and> ad_organizationId d = u_organizationId usr)
    (sk_devices c)")
  case None
  then have "\<forall>e \<in> set (sk_devices c). \<not> (ad_id e = deviceId \<and>
      ad_organizationId e = u_organizationId usr)"
    by (simp only: repository.find_one_None [OF RD])
  then show ?thesis using None by (simp add: requestStreamByDevice_def)
next
  case (Some e)
  have e: "e \<in> set (sk_devices c)" "ad_id e = deviceId" "ad_organizationId e = u_organizationId usr"
    using repository.find_one_SomeD [OF RD Some] by simp_all
  have "watch_key u dev = watch_key (ad_userId e) (ad_id e) \<longleftrightarrow> u = ad_userId e \<and> dev = ad_id e"
    using free e(1) watch_key_inj by blast
  then show ?thesis using Some e off
    by (auto simp: requestStreamByDevice_def send_control_def isWatched_after_mark
        WATCH_FLAG_TTL_SECONDS_def)
qed

definition sample_device :: AgentDevice where
  "sample_device = \<lparr>ad_id = ''d'', ad_organizationId = ''o'', ad_userId = ''u'', ad_deviceToken = ''t'',
     ad_hostname = None, ad_displayName = None, ad_platform = None, ad_agentVersion = None,
     ad_lastSeenAt = None, ad_isActive = True, ad_createdAt = 0\<rparr>"

theorem live_view_of_own_device_witness:
  "fst (isWatched 60000 ''u'' ''d'' (sk_cache (snd (requestStreamByDevice (typeorm_list ad_id) 0 ''d''
     (agent_user ''m'' ''o'' ''x'')
     \<lparr>sk_gateway = connected_gateway, sk_cache = \<lparr>lw_store = Map.empty\<rparr>, sk_devices = [sample_device]\<rparr>))))"
proof -
  let ?c = "\<lparr>sk_gateway = connected_gateway, sk_cache = \<lparr>lw_store = Map.empty\<rparr>, sk_devices = [sample_device]\<rparr>"
  obtain c' where r: "requestStreamByDevice (typeorm_list ad_id) 0 ''d'' (agent_user ''m'' ''o'' ''x'') ?c
      = (Inr (''u'', ''d''), c')"
    by (simp add: requestStreamByDevice_def sample_device_def agent_user_def)
  then show ?thesis
    using live_view_of_own_device [of "typeorm_list ad_id" 0 60000 "''u''" ?c "''d''" "''d''"
        "agent_user ''m'' ''o'' ''x''"]
    by (simp add: colon_free_def isWatched_def sample_device_def)
qed

end
