(* ===== verification/HeartbeatBuffer.thy ===== *)
theory HeartbeatBuffer
  imports EntitiesAgent "HOL-Library.AList"
begin

text \<open>
  HeartbeatBufferService (modules/agent/heartbeat-buffer.service.ts): a write-behind cache of the
  latest heartbeat per device. The pending \<open>Map\<close> is an association list in insertion order.
  \<open>flush\<close> drains it, awaits one bulk UPDATE, and puts the entries back when the UPDATE fails;
  because of the await it is two steps, \<open>flush_begin\<close> and \<open>flush_end\<close>, between which heartbeats
  keep arriving. The UPDATE itself sets \<open>last_seen_at\<close> of the active rows of the snapshot.
\<close>

record HeartbeatBufferService =
  hb_pending :: "(string \<times> js_time) list"

definition heartbeat_record ::
  "string option \<Rightarrow> js_time \<Rightarrow> HeartbeatBufferService \<Rightarrow> HeartbeatBufferService" where
  "heartbeat_record deviceId lastSeenAt s =
     (if falsy_str deviceId then s
      else s\<lparr>hb_pending := AList.update (the deviceId) lastSeenAt (hb_pending s)\<rparr>)"

definition flush_begin ::
  "HeartbeatBufferService \<Rightarrow> (string \<times> js_time) list option \<times> HeartbeatBufferService" where
  "flush_begin s = (if hb_pending s = [] then (None, s)
     else (Some (hb_pending s), s\<lparr>hb_pending := []\<rparr>))"

definition bulk_update :: "(string \<times> js_time) list \<Rightarrow> AgentDevice list \<Rightarrow> AgentDevice list" where
  "bulk_update snapshot devices = map (\<lambda>d. case map_of snapshot (ad_id d) of
     Some ts \<Rightarrow> if ad_isActive d then d\<lparr>ad_lastSeenAt := Some ts\<rparr> else d
   | None \<Rightarrow> d) devices"

definition put_back :: "string \<times> js_time \<Rightarrow> (string \<times> js_time) list \<Rightarrow> (string \<times> js_time) list" where
  "put_back e pending = (case map_of pending (fst e) of
     None \<Rightarrow> AList.update (fst e) (snd e) pending
   | Some existing \<Rightarrow> if existing < snd e then AList.update (fst e) (snd e) pending else pending)"

definition flush_end ::
  "bool \<Rightarrow> (string \<times> js_time) list \<Rightarrow> HeartbeatBufferService \<times> AgentDevice list \<Rightarrow>
   HeartbeatBufferService \<times> AgentDevice list" where
  "flush_end ok snapshot = (\<lambda>(s, devices).
     if ok then (s, bulk_update snapshot devices)
     else (s\<lparr>hb_pending := fold put_back snapshot (hb_pending s)\<rparr>, devices))"

definition heartbeat_flush ::
  "bool \<Rightarrow> HeartbeatBufferService \<times> AgentDevice list \<Rightarrow> HeartbeatBufferService \<times> AgentDevice list" where
  "heartbeat_flush ok = (\<lambda>(s, devices). case flush_begin s of
     (None, s') \<Rightarrow> (s', devices)
   | (Some snapshot, s') \<Rightarrow> flush_end ok snapshot (s', devices))"

definition heartbeat_onModuleDestroy ::
  "bool \<Rightarrow> HeartbeatBufferService \<times> AgentDevice list \<Rightarrow> HeartbeatBufferService \<times> AgentDevice list" where
  "heartbeat_onModuleDestroy ok = heartbeat_flush ok"

section \<open>Runs\<close>

text \<open>A run keeps the snapshots whose UPDATE has not returned yet; flushes may overlap.\<close>

datatype hb_op = Beat string js_time | Begin | Finish nat bool

record hb_state =
  hs_buffer :: HeartbeatBufferService
  hs_flight :: "(string \<times> js_time) list list"
  hs_devices :: "AgentDevice list"

fun hb_step :: "hb_op \<Rightarrow> hb_state \<Rightarrow> hb_state" where
  "hb_step (Beat d t) h = h\<lparr>hs_buffer := heartbeat_record (Some d) t (hs_buffer h)\<rparr>"
| "hb_step Begin h = (case flush_begin (hs_buffer h) of
     (None, b) \<Rightarrow> h\<lparr>hs_buffer := b\<rparr>
   | (Some snap, b) \<Rightarrow> h\<lparr>hs_buffer := b, hs_flight := hs_flight h @ [snap]\<rparr>)"
| "hb_step (Finish i ok) h = (if i < length (hs_flight h)
     then (case flush_end ok (hs_flight h ! i) (hs_buffer h, hs_devices h) of
       (b, ds) \<Rightarrow> \<lparr>hs_buffer = b, hs_flight = take i (hs_flight h) @ drop (Suc i) (hs_flight h),
         hs_devices = ds\<rparr>)
     else h)"

definition hb_run :: "hb_op list \<Rightarrow> hb_state \<Rightarrow> hb_state" where
  "hb_run ops h = fold hb_step ops h"

fun alternating :: "bool \<Rightarrow> hb_op list \<Rightarrow> bool" where
  "alternating busy [] = True"
| "alternating busy (Beat d t # ops) = alternating busy ops"
| "alternating busy (Begin # ops) = (\<not> busy \<and> alternating True ops)"
| "alternating busy (Finish i ok # ops) = (i = 0 \<and> alternating False ops)"

fun beat_times :: "hb_op list \<Rightarrow> js_time list" where
  "beat_times [] = []"
| "beat_times (Beat d t # ops) = t # beat_times ops"
| "beat_times (_ # ops) = beat_times ops"

fun beats_of :: "string \<Rightarrow> hb_op list \<Rightarrow> js_time list" where
  "beats_of d [] = []"
| "beats_of d (Beat d' t # ops) = (if d' = d then t # beats_of d ops else beats_of d ops)"
| "beats_of d (_ # ops) = beats_of d ops"

section \<open>Putting entries back\<close>

lemma put_back_map_of:
  "map_of (put_back e p) = (case map_of p (fst e) of
     None \<Rightarrow> (map_of p)(fst e \<mapsto> snd e) | Some x \<Rightarrow> (map_of p)(fst e \<mapsto> max x (snd e)))"
  by (auto simp: put_back_def update_conv' max_def split: option.splits)

definition newest :: "js_time option \<Rightarrow> js_time option \<Rightarrow> js_time option" where
  "newest a b = (case a of None \<Rightarrow> b | Some x \<Rightarrow> (case b of None \<Rightarrow> a | Some y \<Rightarrow> Some (max x y)))"

lemma put_back_all:
  "distinct (map fst snap) \<Longrightarrow>
   map_of (fold put_back snap p) k = newest (map_of p k) (map_of snap k)"
proof (induction snap arbitrary: p)
  case Nil
  then show ?case by (simp add: newest_def split: option.splits)
next
  case (Cons e snap)
  obtain d t where e: "e = (d, t)" by fastforce
  have "map_of snap d = None" using Cons.prems e by (simp add: map_of_eq_None_iff)
  then show ?case using Cons e
    by (auto simp: put_back_map_of newest_def split: option.splits)
qed

lemma distinct_record: "distinct (map fst (hb_pending s)) \<Longrightarrow>
  distinct (map fst (hb_pending (heartbeat_record d t s)))"
  by (simp add: heartbeat_record_def distinct_update)

lemma distinct_put_back: "distinct (map fst p) \<Longrightarrow> distinct (map fst (fold put_back snap p))"
  by (induction snap arbitrary: p) (auto simp: put_back_def distinct_update split: option.splits)

section \<open>No heartbeat is lost while flushes do not overlap\<close>

definition last_beat :: "js_time option \<Rightarrow> js_time list \<Rightarrow> js_time option" where
  "last_beat nb ts = (if ts = [] then nb else Some (last ts))"

definition flight_of :: "hb_state \<Rightarrow> string \<Rightarrow> js_time option" where
  "flight_of h d = map_of (concat (hs_flight h)) d"

definition waiting_of :: "hb_state \<Rightarrow> string \<Rightarrow> js_time option" where
  "waiting_of h d = map_of (hb_pending (hs_buffer h)) d"

definition written :: "hb_state \<Rightarrow> string \<Rightarrow> js_time option \<Rightarrow> bool" where
  "written h d t \<longleftrightarrow>
     (\<forall>x \<in> set (hs_devices h). ad_id x = d \<longrightarrow> ad_isActive x \<longrightarrow> ad_lastSeenAt x = t)"

text \<open>Where the newest heartbeat \<open>nb\<close> of a device is: waiting, in the flight, or in its row.\<close>

definition accounted :: "string \<Rightarrow> js_time option \<Rightarrow> hb_state \<Rightarrow> bool" where
  "accounted d nb h \<longleftrightarrow> (case waiting_of h d of
     Some t \<Rightarrow> nb = Some t \<and> (\<forall>f. flight_of h d = Some f \<longrightarrow> f \<le> t)
   | None \<Rightarrow> (case flight_of h d of
       Some f \<Rightarrow> nb = Some f
     | None \<Rightarrow> nb = None \<or> written h d nb))"

definition hb_inv :: "bool \<Rightarrow> js_time \<Rightarrow> string \<Rightarrow> js_time option \<Rightarrow> hb_state \<Rightarrow> bool" where
  "hb_inv busy now d nb h \<longleftrightarrow> (\<not> busy \<longrightarrow> hs_flight h = []) \<and>
     length (hs_flight h) \<le> 1 \<and> (\<forall>snap \<in> set (hs_flight h). distinct (map fst snap)) \<and>
     distinct (map fst (hb_pending (hs_buffer h))) \<and>
     (\<forall>t. nb = Some t \<longrightarrow> t \<le> now) \<and> accounted d nb h"

lemma newest_simps [simp]:
  "newest None b = b" "newest a None = a" "newest (Some x) (Some y) = Some (max x y)"
  by (simp_all add: newest_def split: option.splits)

lemma inv_beat:
  assumes "hb_inv busy now d nb h" and "now \<le> t" and "d \<noteq> []"
  shows "hb_inv busy t d (if d' = d then Some t else nb) (hb_step (Beat d' t) h)"
proof -
  have w: "waiting_of (hb_step (Beat d' t) h) d = (if d' = d then Some t else waiting_of h d)"
    using assms(3) by (simp add: waiting_of_def heartbeat_record_def update_conv')
  have f: "flight_of (hb_step (Beat d' t) h) d = flight_of h d" by (simp add: flight_of_def)
  have r: "written (hb_step (Beat d' t) h) d x = written h d x" for x by (simp add: written_def)
  have le: "flight_of h d = Some y \<Longrightarrow> y \<le> t" for y
    using assms(1,2) unfolding hb_inv_def accounted_def by (cases "waiting_of h d") fastforce+
  have "accounted d (if d' = d then Some t else nb) (hb_step (Beat d' t) h)"
    using assms(1) le unfolding accounted_def w f r hb_inv_def by (auto split: option.splits)
  moreover have "distinct (map fst (hb_pending (hs_buffer (hb_step (Beat d' t) h))))"
    using assms(1) by (simp add: hb_inv_def distinct_record)
  ultimately show ?thesis using assms(1,2) by (auto simp: hb_inv_def)
qed

lemma inv_begin:
  assumes "hb_inv False now d nb h"
  shows "hb_inv True now d nb (hb_step Begin h)"
proof -
  have f: "hs_flight h = []" using assms by (simp add: hb_inv_def)
  have w: "waiting_of (hb_step Begin h) d = None"
    and b: "flight_of (hb_step Begin h) d = waiting_of h d"
    and r: "written (hb_step Begin h) d x = written h d x" for x
    using f by (simp_all add: waiting_of_def flight_of_def written_def flush_begin_def)
  have "flight_of h d = None" by (simp add: flight_of_def f)
  then have "accounted d nb (hb_step Begin h)"
    using assms unfolding accounted_def w b r hb_inv_def by (simp split: option.splits)
  then show ?thesis using assms f by (simp add: hb_inv_def flush_begin_def)
qed

lemma bulk_update_written:
  assumes "map_of snap d = Some t"
  shows "\<forall>x \<in> set (bulk_update snap ds). ad_id x = d \<longrightarrow> ad_isActive x \<longrightarrow> ad_lastSeenAt x = Some t"
  using assms by (auto simp: bulk_update_def split: option.splits if_splits)

lemma bulk_update_other:
  assumes "map_of snap d = None"
  shows "(\<forall>x \<in> set (bulk_update snap ds). ad_id x = d \<longrightarrow> ad_isActive x \<longrightarrow> ad_lastSeenAt x = nb) \<longleftrightarrow>
    (\<forall>x \<in> set ds. ad_id x = d \<longrightarrow> ad_isActive x \<longrightarrow> ad_lastSeenAt x = nb)"
  using assms by (auto simp: bulk_update_def split: option.splits if_splits)

lemma inv_finish:
  assumes "hb_inv busy now d nb h"
  shows "hb_inv False now d nb (hb_step (Finish 0 ok) h)"
proof (cases "hs_flight h")
  case Nil
  then show ?thesis using assms by (simp add: hb_inv_def)
next
  case (Cons snap rest)
  then have fl: "hs_flight h = [snap]" and dist: "distinct (map fst snap)"
    using assms by (auto simp: hb_inv_def)
  have f: "flight_of h d = map_of snap d" by (simp add: flight_of_def fl)
  have f': "flight_of (hb_step (Finish 0 ok) h) d = None"
    by (simp add: flight_of_def fl flush_end_def)
  show ?thesis
  proof (cases ok)
    case True
    have w: "waiting_of (hb_step (Finish 0 ok) h) d = waiting_of h d"
      by (simp add: waiting_of_def fl True flush_end_def)
    have r: "written (hb_step (Finish 0 ok) h) d x =
        (case flight_of h d of None \<Rightarrow> written h d x | Some t \<Rightarrow> written h d x \<or> x = Some t)"
      if "x = flight_of h d \<or> flight_of h d = None" for x
      using that bulk_update_written [of snap d] bulk_update_other [of snap d]
      by (auto simp: written_def fl f True flush_end_def split: option.splits)
    have "accounted d nb (hb_step (Finish 0 ok) h)"
      using assms r [of nb] unfolding accounted_def w f' hb_inv_def by (auto split: option.splits)
    then show ?thesis using assms fl True by (simp add: hb_inv_def flush_end_def)
  next
    case False
    have w: "waiting_of (hb_step (Finish 0 ok) h) d = newest (waiting_of h d) (flight_of h d)"
      using put_back_all [OF dist] by (simp add: waiting_of_def fl f False flush_end_def)
    have r: "written (hb_step (Finish 0 ok) h) d x = written h d x" for x
      by (simp add: written_def fl False flush_end_def)
    have "accounted d nb (hb_step (Finish 0 ok) h)"
      using assms unfolding accounted_def w f' r hb_inv_def
      by (cases "flight_of h d"; cases "waiting_of h d") (auto simp: max_def)
    then show ?thesis using assms fl False
      by (simp add: hb_inv_def flush_end_def distinct_put_back)
  qed
qed

lemma inv_run:
  assumes "hb_inv busy now d nb h" and "alternating busy ops" and "sorted (beat_times ops)"
    and "\<forall>t \<in> set (beat_times ops). now \<le> t" and "d \<noteq> []"
  shows "\<exists>busy' now'. hb_inv busy' now' d (last_beat nb (beats_of d ops)) (hb_run ops h)"
  using assms
proof (induction ops arbitrary: busy now nb h)
  case Nil
  then show ?case by (auto simp: hb_run_def last_beat_def)
next
  case (Cons p ops)
  have run: "hb_run (p # ops) h = hb_run ops (hb_step p h)" by (simp add: hb_run_def)
  show ?case
  proof (cases p)
    case (Beat d' t)
    have "hb_inv busy t d (if d' = d then Some t else nb) (hb_step p h)"
      using inv_beat [OF Cons.prems(1), of t d'] Cons.prems Beat by simp
    then have "\<exists>busy' now'. hb_inv busy' now' d
        (last_beat (if d' = d then Some t else nb) (beats_of d ops)) (hb_run ops (hb_step p h))"
      by (rule Cons.IH) (use Cons.prems Beat in auto)
    then show ?thesis using Beat run by (cases "d' = d") (auto simp: last_beat_def split: if_splits)
  next
    case Begin
    then show ?thesis using Cons.prems run
      by (auto intro!: Cons.IH [of True now nb] inv_begin simp del: hb_step.simps)
  next
    case (Finish i ok)
    then show ?thesis using Cons.prems run
      by (auto intro!: Cons.IH [of False now nb] inv_finish simp del: hb_step.simps)
  qed
qed

text \<open>
  C11. While flushes do not overlap, no heartbeat is lost, whether the bulk UPDATE succeeds or
  fails: after any sequence of heartbeats (in the order of their times) and flushes, the newest
  heartbeat of a device is waiting, or in the running flush, or it is what its active rows hold.
\<close>

theorem no_heartbeat_lost:
  assumes "alternating False ops" and "sorted (beat_times ops)" and "d \<noteq> []"
    and "hs_buffer h = \<lparr>hb_pending = []\<rparr>" and "hs_flight h = []"
  shows "case waiting_of (hb_run ops h) d of
      Some t \<Rightarrow> last_beat None (beats_of d ops) = Some t
    | None \<Rightarrow> (case flight_of (hb_run ops h) d of
        Some t \<Rightarrow> last_beat None (beats_of d ops) = Some t
      | None \<Rightarrow> last_beat None (beats_of d ops) = None \<or>
          written (hb_run ops h) d (last_beat None (beats_of d ops)))"
proof -
  obtain now where "\<forall>t \<in> set (beat_times ops). now \<le> t" using assms(2) by (cases "beat_times ops") auto
  moreover have "hb_inv False now d None h"
    using assms(4,5) by (simp add: hb_inv_def accounted_def waiting_of_def flight_of_def)
  ultimately obtain busy' now' where
    "hb_inv busy' now' d (last_beat None (beats_of d ops)) (hb_run ops h)"
    using inv_run [of False now d None h ops] assms(1,2,3) by blast
  then show ?thesis by (simp add: hb_inv_def accounted_def split: option.splits)
qed

definition seen_device :: "string \<Rightarrow> AgentDevice" where
  "seen_device i = \<lparr>ad_id = i, ad_organizationId = ''o'', ad_userId = ''u'', ad_deviceToken = ''t'',
     ad_hostname = None, ad_displayName = None, ad_platform = None, ad_agentVersion = None,
     ad_lastSeenAt = None, ad_isActive = True, ad_createdAt = 0\<rparr>"

definition fresh_hb :: hb_state where
  "fresh_hb = \<lparr>hs_buffer = \<lparr>hb_pending = []\<rparr>, hs_flight = [], hs_devices = [seen_device ''d'']\<rparr>"

theorem no_heartbeat_lost_witness:
  "written (hb_run [Beat ''d'' 1, Begin, Beat ''d'' 5, Finish 0 False, Begin, Finish 0 True] fresh_hb)
     ''d'' (Some 5)"
  using no_heartbeat_lost [of "[Beat ''d'' 1, Begin, Beat ''d'' 5, Finish 0 False, Begin,
      Finish 0 True]" "''d''" fresh_hb]
  by (simp add: fresh_hb_def hb_run_def waiting_of_def flight_of_def flush_begin_def flush_end_def
      heartbeat_record_def put_back_def last_beat_def)

text \<open>
  When a flush is still running as the next one starts, and the two finish in the other order,
  the row of an active device ends with the older of its two heartbeats, and nothing is left to
  correct it.
\<close>

theorem late_flush_moves_last_seen_back:
  assumes "t1 < t2" and "d \<noteq> []" and "hs_buffer h = \<lparr>hb_pending = []\<rparr>" and "hs_flight h = []"
    and "x \<in> set (hs_devices h)" and "ad_id x = d" and "ad_isActive x"
  shows "let h' = hb_run [Beat d t1, Begin, Beat d t2, Begin, Finish 1 True, Finish 0 True] h
    in x\<lparr>ad_lastSeenAt := Some t1\<rparr> \<in> set (hs_devices h') \<and>
       waiting_of h' d = None \<and> flight_of h' d = None"
proof -
  have "x\<lparr>ad_lastSeenAt := Some t1\<rparr> = (x\<lparr>ad_lastSeenAt := Some t2\<rparr>)\<lparr>ad_lastSeenAt := Some t1\<rparr>" by simp
  then show ?thesis using assms
    by (simp add: hb_run_def flush_begin_def flush_end_def heartbeat_record_def waiting_of_def
        flight_of_def bulk_update_def Let_def image_image)
      (rule image_eqI [of _ _ x]; simp)
qed

theorem late_flush_moves_last_seen_back_witness:
  "ad_lastSeenAt (hd (hs_devices (hb_run [Beat ''d'' 1, Begin, Beat ''d'' 2, Begin, Finish 1 True,
     Finish 0 True] fresh_hb))) = Some 1"
proof -
  have "let h' = hb_run [Beat ''d'' 1, Begin, Beat ''d'' 2, Begin, Finish 1 True, Finish 0 True] fresh_hb
    in (seen_device ''d'')\<lparr>ad_lastSeenAt := Some 1\<rparr> \<in> set (hs_devices h') \<and>
       waiting_of h' ''d'' = None \<and> flight_of h' ''d'' = None"
    by (rule late_flush_moves_last_seen_back) (simp_all add: fresh_hb_def seen_device_def)
  then show ?thesis
    by (simp add: fresh_hb_def hb_run_def flush_begin_def flush_end_def heartbeat_record_def
        bulk_update_def Let_def seen_device_def)
qed

end
