(* ===== verification/IngestQueue.thy ===== *)
theory IngestQueue
  imports EntitiesAgent JsText
begin

text \<open>
  The queues between the agent endpoints and the database (modules/agent: activity-, metrics- and
  keystrokes-queue.service.ts) and the workers that drain them (activity-, metrics- and
  keystrokes-worker.service.ts). The queue is the Postgres extension pgmq, third-party code: a
  record of its functions over its own state, with its documented behaviour as the locale
  \<open>pgmq_queue\<close>: \<open>read\<close> returns the first messages in the order of their ids that are visible and
  hides them for the visibility timeout, \<open>delete\<close> removes by id, \<open>send\<close> appends.

  A worker's \<open>drain\<close> reads a batch, awaits the insert and then the delete, so it is two steps,
  \<open>drain_begin\<close> and \<open>drain_end\<close>; \<open>flushing\<close> keeps a second drain out in between. The insert of a
  batch runs in one transaction: all rows or none. The three workers share all of this and differ
  in the rows a payload gives, the interface \<open>queue_worker\<close>.
\<close>

section \<open>pgmq\<close>

record ('m, 'q) pgmq =
  pg_send :: "string \<Rightarrow> 'm \<Rightarrow> 'q \<Rightarrow> int \<times> 'q"
  pg_read :: "string \<Rightarrow> js_time \<Rightarrow> nat \<Rightarrow> nat \<Rightarrow> 'q \<Rightarrow> (int \<times> 'm) list \<times> 'q"
  pg_delete :: "string \<Rightarrow> int list \<Rightarrow> 'q \<Rightarrow> 'q"
  pg_length :: "string \<Rightarrow> 'q \<Rightarrow> string"

locale pgmq_queue =
  fixes P :: "('m, 'q) pgmq" and name :: string
    and contents :: "'q \<Rightarrow> (int \<times> 'm) list" and hidden_until :: "'q \<Rightarrow> int \<Rightarrow> js_time"
  assumes ids: "distinct (map fst (contents q))"
  and send: "contents (snd (pg_send P name m q)) = contents q @ [(fst (pg_send P name m q), m)]"
  and send_hidden: "i \<in> fst ` set (contents q) \<Longrightarrow>
     hidden_until (snd (pg_send P name m q)) i = hidden_until q i"
  and read: "fst (pg_read P name now vt n q) =
     take n (filter (\<lambda>x. hidden_until q (fst x) \<le> now) (contents q))"
  and read_contents: "contents (snd (pg_read P name now vt n q)) = contents q"
  and read_hidden: "hidden_until (snd (pg_read P name now vt n q)) i =
     (if i \<in> fst ` set (fst (pg_read P name now vt n q)) then now + int vt * 1000
      else hidden_until q i)"
  and delete: "contents (pg_delete P name is q) = filter (\<lambda>x. fst x \<notin> set is) (contents q)"
  and delete_hidden: "i \<notin> set is \<Longrightarrow> hidden_until (pg_delete P name is q) i = hidden_until q i"

section \<open>The queue services\<close>

definition queue_enqueue :: "('m, 'q) pgmq \<Rightarrow> string \<Rightarrow> 'm \<Rightarrow> 'q \<Rightarrow> int \<times> 'q" where
  "queue_enqueue P name payload q = pg_send P name payload q"

definition queue_read ::
  "('m, 'q) pgmq \<Rightarrow> string \<Rightarrow> js_time \<Rightarrow> nat \<Rightarrow> nat \<Rightarrow> 'q \<Rightarrow> (int \<times> 'm) list \<times> 'q" where
  "queue_read P name now batchSize visibilityTimeoutSec q =
     pg_read P name now visibilityTimeoutSec batchSize q"

definition queue_delete :: "('m, 'q) pgmq \<Rightarrow> string \<Rightarrow> int \<Rightarrow> 'q \<Rightarrow> 'q" where
  "queue_delete P name msgId q = pg_delete P name [msgId] q"

definition queue_deleteMany :: "('m, 'q) pgmq \<Rightarrow> string \<Rightarrow> int list \<Rightarrow> 'q \<Rightarrow> 'q" where
  "queue_deleteMany P name msgIds q = (if msgIds = [] then q else pg_delete P name msgIds q)"

definition queue_depth :: "('m, 'q) pgmq \<Rightarrow> string \<Rightarrow> 'q \<Rightarrow> int option" where
  "queue_depth P name q = parseInt10 (pg_length P name q)"

lemmas queue_defs = queue_enqueue_def queue_read_def queue_delete_def queue_deleteMany_def

section \<open>The workers\<close>

record ('m, 'row, 'q) worker =
  wk_flushing :: bool
  wk_batch :: "(int \<times> 'm) list option"
  wk_queue :: 'q
  wk_table :: "'row list"

datatype drain_outcome = Insert_fails | Delete_fails | Completes

definition BATCH_SIZE :: nat where "BATCH_SIZE = 200"
definition VISIBILITY_TIMEOUT_SEC :: nat where "VISIBILITY_TIMEOUT_SEC = 30"

text \<open>Building the rows of a batch throws when one of its events cannot be converted (\<open>None\<close>).\<close>

fun batch_rows :: "('m \<Rightarrow> 'row list option) \<Rightarrow> (int \<times> 'm) list \<Rightarrow> 'row list option" where
  "batch_rows rows [] = Some []"
| "batch_rows rows ((i, m) # ms) = (case rows m of
     None \<Rightarrow> None
   | Some rs \<Rightarrow> map_option (\<lambda>rest. rs @ rest) (batch_rows rows ms))"

definition drain_begin ::
  "('m, 'q) pgmq \<Rightarrow> string \<Rightarrow> js_time \<Rightarrow> ('m, 'row, 'q) worker \<Rightarrow> ('m, 'row, 'q) worker" where
  "drain_begin P name now w =
     (if wk_flushing w then w
      else case queue_read P name now BATCH_SIZE VISIBILITY_TIMEOUT_SEC (wk_queue w) of
        (messages, q) \<Rightarrow>
          if messages = [] then w\<lparr>wk_queue := q\<rparr>
          else w\<lparr>wk_flushing := True, wk_batch := Some messages, wk_queue := q\<rparr>)"

definition drain_end ::
  "('m, 'q) pgmq \<Rightarrow> string \<Rightarrow> ('m \<Rightarrow> 'row list option) \<Rightarrow> ('row \<Rightarrow> bool) \<Rightarrow> drain_outcome \<Rightarrow>
   ('m, 'row, 'q) worker \<Rightarrow> ('m, 'row, 'q) worker" where
  "drain_end P name rows accepts outcome w = (case wk_batch w of
     None \<Rightarrow> w
   | Some messages \<Rightarrow>
       let w0 = w\<lparr>wk_flushing := False, wk_batch := None\<rparr> in
       case batch_rows rows messages of
         None \<Rightarrow> w0
       | Some allEntities \<Rightarrow>
           if outcome = Insert_fails \<or> \<not> list_all accepts allEntities then w0
           else let w1 = w0\<lparr>wk_table := wk_table w @ allEntities\<rparr> in
             if outcome = Delete_fails then w1
             else w1\<lparr>wk_queue := queue_deleteMany P name (map fst messages) (wk_queue w)\<rparr>)"

definition worker_drain ::
  "('m, 'q) pgmq \<Rightarrow> string \<Rightarrow> ('m \<Rightarrow> 'row list option) \<Rightarrow> ('row \<Rightarrow> bool) \<Rightarrow> js_time \<Rightarrow> drain_outcome \<Rightarrow>
   ('m, 'row, 'q) worker \<Rightarrow> ('m, 'row, 'q) worker" where
  "worker_drain P name rows accepts now outcome w =
     drain_end P name rows accepts outcome (drain_begin P name now w)"

datatype 'm worker_op = Enqueue 'm | Drain_begin js_time | Drain_end drain_outcome

fun worker_step ::
  "('m, 'q) pgmq \<Rightarrow> string \<Rightarrow> ('m \<Rightarrow> 'row list option) \<Rightarrow> ('row \<Rightarrow> bool) \<Rightarrow> 'm worker_op \<Rightarrow>
   ('m, 'row, 'q) worker \<Rightarrow> ('m, 'row, 'q) worker" where
  "worker_step P name rows accepts (Enqueue m) w =
     w\<lparr>wk_queue := snd (queue_enqueue P name m (wk_queue w))\<rparr>"
| "worker_step P name rows accepts (Drain_begin now) w = drain_begin P name now w"
| "worker_step P name rows accepts (Drain_end oc) w = drain_end P name rows accepts oc w"

definition worker_run ::
  "('m, 'q) pgmq \<Rightarrow> string \<Rightarrow> ('m \<Rightarrow> 'row list option) \<Rightarrow> ('row \<Rightarrow> bool) \<Rightarrow> 'm worker_op list \<Rightarrow>
   ('m, 'row, 'q) worker \<Rightarrow> ('m, 'row, 'q) worker" where
  "worker_run P name rows accepts ops w = fold (worker_step P name rows accepts) ops w"

fun sent :: "'m worker_op list \<Rightarrow> 'm list" where
  "sent [] = []"
| "sent (Enqueue m # ops) = m # sent ops"
| "sent (_ # ops) = sent ops"

definition rows_of :: "('m \<Rightarrow> 'row list option) \<Rightarrow> 'm list \<Rightarrow> 'row multiset" where
  "rows_of rows ms = (\<Sum>m\<leftarrow>ms. mset (nullish (rows m) []))"

lemma rows_of_simps [simp]:
  "rows_of rows [] = {#}" "rows_of rows (m # ms) = mset (nullish (rows m) []) + rows_of rows ms"
  "rows_of rows (xs @ ys) = rows_of rows xs + rows_of rows ys"
  by (simp_all add: rows_of_def)

lemma batch_rows_Some: "batch_rows rows ms = Some rs \<Longrightarrow> mset rs = rows_of rows (map snd ms)"
proof (induction ms arbitrary: rs)
  case (Cons x ms)
  then show ?case by (cases x) (auto split: option.splits)
qed simp

lemma batch_rows_poison:
  assumes "x \<in> set ms" and "case rows (snd x) of None \<Rightarrow> True | Some rs \<Rightarrow> \<not> list_all accepts rs"
  shows "case batch_rows rows ms of None \<Rightarrow> True | Some rs \<Rightarrow> \<not> list_all accepts rs"
  using assms by (induction ms) (auto split: option.splits)

lemma rows_of_filter: "rows_of rows (map snd xs) =
    rows_of rows (map snd (filter p xs)) + rows_of rows (map snd (filter (\<lambda>x. \<not> p x) xs))"
  by (induction xs) simp_all

lemma rows_of_mset: "mset ms = mset ns \<Longrightarrow> rows_of rows ms = rows_of rows ns"
  by (metis rows_of_def mset_map sum_mset_sum_list)

section \<open>What every worker guarantees\<close>

locale queue_worker = pgmq_queue P name contents hidden_until
  for P :: "('m, 'q) pgmq" and name contents hidden_until +
  fixes rows :: "'m \<Rightarrow> 'row list option" and accepts :: "'row \<Rightarrow> bool"
begin

abbreviation step :: "'m worker_op \<Rightarrow> ('m, 'row, 'q) worker \<Rightarrow> ('m, 'row, 'q) worker" where
  "step \<equiv> worker_step P name rows accepts"

abbreviation queued :: "('m, 'row, 'q) worker \<Rightarrow> (int \<times> 'm) list" where
  "queued w \<equiv> contents (wk_queue w)"

definition batch_ok :: "('m, 'row, 'q) worker \<Rightarrow> bool" where
  "batch_ok w \<longleftrightarrow> (wk_flushing w \<longleftrightarrow> wk_batch w \<noteq> None) \<and>
     (\<forall>ms. wk_batch w = Some ms \<longrightarrow> set ms \<subseteq> set (queued w) \<and> distinct (map fst ms))"

lemma read_batch:
  "set (fst (pg_read P name now vt n q)) \<subseteq> set (contents q)"
  "distinct (map fst (fst (pg_read P name now vt n q)))"
proof -
  show "set (fst (pg_read P name now vt n q)) \<subseteq> set (contents q)"
    unfolding read by (auto dest: in_set_takeD)
  show "distinct (map fst (fst (pg_read P name now vt n q)))"
    unfolding read using ids [of q] by (simp add: take_map [symmetric] distinct_map_filter)
qed

lemma drain_begin_queued: "queued (drain_begin P name now w) = queued w"
  using read_contents [of now VISIBILITY_TIMEOUT_SEC BATCH_SIZE "wk_queue w"]
  by (auto simp: drain_begin_def queue_read_def split: prod.splits)

lemma drain_begin_ok: "batch_ok w \<Longrightarrow> batch_ok (drain_begin P name now w)"
  using read_batch [of now VISIBILITY_TIMEOUT_SEC BATCH_SIZE "wk_queue w"]
    read_contents [of now VISIBILITY_TIMEOUT_SEC BATCH_SIZE "wk_queue w"]
  by (auto simp: batch_ok_def drain_begin_def queue_read_def split: prod.splits)

lemma drain_end_idle: "wk_batch (drain_end P name rows accepts oc w) = None"
  by (auto simp: drain_end_def Let_def split: option.splits)

lemma step_ok: "batch_ok w \<Longrightarrow> batch_ok (step p w)"
proof (cases p)
  case (Enqueue m)
  then show "batch_ok w \<Longrightarrow> batch_ok (step p w)"
    by (auto simp: batch_ok_def queue_enqueue_def send)
next
  case (Drain_end oc)
  then show "batch_ok w \<Longrightarrow> batch_ok (step p w)"
    by (auto simp: batch_ok_def drain_end_def Let_def split: option.splits)
qed (simp add: drain_begin_ok)

lemma delete_batch:
  assumes "set ms \<subseteq> set (contents q)" and "distinct (map fst ms)"
  shows "rows_of rows (map snd (contents q)) =
    rows_of rows (map snd ms) + rows_of rows (map snd (contents (pg_delete P name (map fst ms) q)))"
proof -
  let ?in = "filter (\<lambda>x. fst x \<in> set (map fst ms)) (contents q)"
  have inj: "x = y" if "x \<in> set (contents q)" "y \<in> set (contents q)" "fst x = fst y" for x y
    using ids [of q] that by (meson eq_key_imp_eq_value prod.expand distinct_map inj_onD)
  have "set ?in = set ms" using assms(1) inj by auto (metis fst_conv subsetD)
  moreover have "distinct ?in" "distinct ms" using ids [of q] assms(2) by (auto simp: distinct_map)
  ultimately have "mset ?in = mset ms" using set_eq_iff_mset_eq_distinct by blast
  then have "rows_of rows (map snd ?in) = rows_of rows (map snd ms)"
    by (metis mset_map rows_of_mset)
  then show ?thesis
    using rows_of_filter [of rows "contents q" "\<lambda>x. fst x \<in> set (map fst ms)"] by (simp add: delete)
qed

text \<open>What is in the table and what is still queued, together.\<close>

definition held :: "('m, 'row, 'q) worker \<Rightarrow> 'row multiset" where
  "held w = mset (wk_table w) + rows_of rows (map snd (queued w))"

lemma drain_end_held:
  assumes "batch_ok w"
  shows "held w \<subseteq># held (drain_end P name rows accepts oc w)"
    and "oc \<noteq> Delete_fails \<Longrightarrow> held (drain_end P name rows accepts oc w) = held w"
proof -
  have "held w \<subseteq># held (drain_end P name rows accepts oc w) \<and>
    (oc \<noteq> Delete_fails \<longrightarrow> held (drain_end P name rows accepts oc w) = held w)"
  proof (cases "wk_batch w")
    case None
    then show ?thesis by (simp add: drain_end_def)
  next
    case (Some ms)
    have ms: "set ms \<subseteq> set (queued w)" "distinct (map fst ms)"
      using assms Some by (auto simp: batch_ok_def)
    show ?thesis
    proof (cases "batch_rows rows ms")
      case None
      then show ?thesis using Some by (simp add: drain_end_def held_def)
    next
      case (Some rs)
      have "rows_of rows (map snd (queued w)) = mset rs +
          rows_of rows (map snd (contents (queue_deleteMany P name (map fst ms) (wk_queue w))))"
        using delete_batch [OF ms] batch_rows_Some [OF Some] by (simp add: queue_deleteMany_def)
      then show ?thesis using \<open>wk_batch w = Some ms\<close> Some
        by (simp add: drain_end_def held_def Let_def)
    qed
  qed
  then show "held w \<subseteq># held (drain_end P name rows accepts oc w)"
    and "oc \<noteq> Delete_fails \<Longrightarrow> held (drain_end P name rows accepts oc w) = held w" by auto
qed

lemma drain_begin_held: "held (drain_begin P name now w) = held w"
proof -
  have "wk_table (drain_begin P name now w) = wk_table w"
    by (auto simp: drain_begin_def split: prod.splits)
  then show ?thesis by (simp add: held_def drain_begin_queued)
qed

lemma run_held:
  assumes "batch_ok w"
  shows "held w + rows_of rows (sent ops) \<subseteq># held (worker_run P name rows accepts ops w)"
    and "Drain_end Delete_fails \<notin> set ops \<Longrightarrow>
      held (worker_run P name rows accepts ops w) = held w + rows_of rows (sent ops)"
proof -
  have "held w + rows_of rows (sent ops) \<subseteq># held (worker_run P name rows accepts ops w) \<and>
    (Drain_end Delete_fails \<notin> set ops \<longrightarrow>
      held (worker_run P name rows accepts ops w) = held w + rows_of rows (sent ops))"
    using assms
  proof (induction ops arbitrary: w)
    case Nil
    then show ?case by (simp add: worker_run_def)
  next
    case (Cons p ops)
    have run: "worker_run P name rows accepts (p # ops) w =
        worker_run P name rows accepts ops (step p w)" by (simp add: worker_run_def)
    note IH = Cons.IH [OF step_ok [OF Cons.prems], of p]
    show ?case
    proof (cases p)
      case (Enqueue m)
      have "held (step p w) = held w + mset (nullish (rows m) [])"
        by (simp add: Enqueue held_def queue_enqueue_def send)
      then show ?thesis unfolding run using IH
        by (simp add: Enqueue ac_simps del: worker_step.simps)
    next
      case (Drain_begin now)
      then show ?thesis unfolding run using IH by (simp add: drain_begin_held)
    next
      case (Drain_end oc)
      have le: "held w + rows_of rows (sent ops) \<subseteq># held (step p w) + rows_of rows (sent ops)"
        using drain_end_held(1) [OF Cons.prems, of oc] Drain_end by simp
      have "held w + rows_of rows (sent ops) \<subseteq># held (worker_run P name rows accepts ops (step p w))"
        by (rule subset_mset.order_trans [OF le]) (rule IH [THEN conjunct1])
      then show ?thesis unfolding run using IH [THEN conjunct2] drain_end_held(2) [OF Cons.prems, of oc]
        by (auto simp: Drain_end)
    qed
  qed
  then show "held w + rows_of rows (sent ops) \<subseteq># held (worker_run P name rows accepts ops w)"
    and "Drain_end Delete_fails \<notin> set ops \<Longrightarrow>
      held (worker_run P name rows accepts ops w) = held w + rows_of rows (sent ops)" by auto
qed

text \<open>
  A block of messages at the head of the queue, hidden until the same time, is read as a whole
  or not at all; with a message in it whose rows are refused it never leaves.
\<close>

definition blocked :: "(int \<times> 'm) list \<Rightarrow> ('m, 'row, 'q) worker \<Rightarrow> bool" where
  "blocked B w \<longleftrightarrow> (\<exists>rest. queued w = B @ rest) \<and>
     (\<exists>h. \<forall>x \<in> set B. hidden_until (wk_queue w) (fst x) = h) \<and>
     (\<forall>ms. wk_batch w = Some ms \<longrightarrow> set B \<subseteq> set ms \<or> fst ` set B \<inter> fst ` set ms = {})"

definition poisonous :: "'m \<Rightarrow> bool" where
  "poisonous m \<longleftrightarrow> (case rows m of None \<Rightarrow> True | Some rs \<Rightarrow> \<not> list_all accepts rs)"

lemma read_block:
  assumes q: "contents q = B @ rest" and h: "\<forall>x \<in> set B. hidden_until q (fst x) = h"
    and "length B \<le> n"
  shows "set B \<subseteq> set (fst (pg_read P name now vt n q)) \<or>
    fst ` set B \<inter> fst ` set (fst (pg_read P name now vt n q)) = {}"
proof (cases "h \<le> now")
  case True
  then have "filter (\<lambda>x. hidden_until q (fst x) \<le> now) B = B" using h by (auto simp: filter_id_conv)
  then show ?thesis using assms(3) by (simp add: read q)
next
  case False
  then have "filter (\<lambda>x. hidden_until q (fst x) \<le> now) B = []" using h by (auto simp: filter_empty_conv)
  moreover have "fst ` set B \<inter> fst ` set rest = {}" using ids [of q] by (auto simp: q)
  moreover have "set (take n (filter (\<lambda>x. hidden_until q (fst x) \<le> now) rest)) \<subseteq> set rest"
    by (auto dest: in_set_takeD)
  ultimately show ?thesis unfolding read q by auto
qed

lemma drain_begin_blocked:
  assumes "blocked B w" and "length B \<le> BATCH_SIZE"
  shows "blocked B (drain_begin P name now w)"
proof (cases "wk_flushing w")
  case True
  then show ?thesis using assms(1) by (simp add: drain_begin_def)
next
  case False
  obtain rest h where b: "queued w = B @ rest" "\<forall>x \<in> set B. hidden_until (wk_queue w) (fst x) = h"
    using assms(1) by (auto simp: blocked_def)
  obtain ms q where r: "pg_read P name now VISIBILITY_TIMEOUT_SEC BATCH_SIZE (wk_queue w) = (ms, q)"
    by fastforce
  have c: "contents q = B @ rest" using read_contents r b(1) by (metis snd_conv)
  have part: "set B \<subseteq> set ms \<or> fst ` set B \<inter> fst ` set ms = {}"
    using read_block [OF b assms(2), of now VISIBILITY_TIMEOUT_SEC] by (simp add: r)
  have "hidden_until q i = (if i \<in> fst ` set ms then now + int VISIBILITY_TIMEOUT_SEC * 1000
      else hidden_until (wk_queue w) i)" for i
    using read_hidden [of now VISIBILITY_TIMEOUT_SEC BATCH_SIZE "wk_queue w" i] by (simp add: r)
  then have "\<forall>x \<in> set B. hidden_until q (fst x) =
      (if set B \<subseteq> set ms then now + int VISIBILITY_TIMEOUT_SEC * 1000 else h)"
    using part b(2) by auto
  then have "\<exists>h. \<forall>x \<in> set B. hidden_until q (fst x) = h" by blast
  then show ?thesis using False c part assms(1)
    by (auto simp: blocked_def drain_begin_def queue_read_def r)
qed

lemma drain_end_blocked:
  assumes "blocked B w" and "x \<in> set B" and "poisonous (snd x)"
  shows "blocked B (drain_end P name rows accepts oc w)"
proof (cases "wk_batch w")
  case None
  then show ?thesis using assms(1) by (simp add: drain_end_def)
next
  case (Some ms)
  then consider "set B \<subseteq> set ms" | "fst ` set B \<inter> fst ` set ms = {}"
    using assms(1) by (auto simp: blocked_def)
  then show ?thesis
  proof cases
    case 1
    then have "case batch_rows rows ms of None \<Rightarrow> True | Some rs \<Rightarrow> \<not> list_all accepts rs"
      using batch_rows_poison [where x = x and ms = ms and rows = rows and accepts = accepts] assms(2,3) by (auto simp: poisonous_def)
    then show ?thesis using assms(1) Some
      by (auto simp: drain_end_def blocked_def Let_def split: option.splits)
  next
    case 2
    obtain rest where q: "queued w = B @ rest" using assms(1) by (auto simp: blocked_def)
    have "filter (\<lambda>x. fst x \<notin> set (map fst ms)) B = B" using 2 by (auto simp: filter_id_conv)
    then have "\<exists>rest. contents (queue_deleteMany P name (map fst ms) (wk_queue w)) = B @ rest"
      using q by (auto simp: queue_deleteMany_def delete)
    moreover have "\<forall>y \<in> set B. hidden_until (queue_deleteMany P name (map fst ms) (wk_queue w)) (fst y) =
        hidden_until (wk_queue w) (fst y)"
      using 2 by (auto simp: queue_deleteMany_def intro!: delete_hidden)
    ultimately show ?thesis using assms(1) Some
      by (auto simp: drain_end_def blocked_def Let_def split: option.splits)
  qed
qed

lemma run_blocked:
  assumes "blocked B w" and "length B \<le> BATCH_SIZE" and "x \<in> set B" and "poisonous (snd x)"
  shows "blocked B (worker_run P name rows accepts ops w)"
  using assms(1)
proof (induction ops arbitrary: w)
  case Nil
  then show ?case by (simp add: worker_run_def)
next
  case (Cons p ops)
  have "blocked B (step p w)"
  proof (cases p)
    case (Enqueue m)
    have "\<forall>y \<in> set B. fst y \<in> fst ` set (queued w)" using Cons.prems by (auto simp: blocked_def)
    then show ?thesis using Cons.prems send_hidden [of _ "wk_queue w" m]
      by (auto simp: Enqueue blocked_def queue_enqueue_def send)
  next
    case (Drain_begin now)
    then show ?thesis using drain_begin_blocked [OF Cons.prems assms(2)] by simp
  next
    case (Drain_end oc)
    then show ?thesis using drain_end_blocked [OF Cons.prems assms(3,4)] by simp
  qed
  then show ?case using Cons.IH by (simp add: worker_run_def)
qed

end

section \<open>Payloads and rows\<close>

record ActivityQueueEvent =
  aq_appName :: string
  aq_windowTitle :: "string option"
  aq_startedAt :: string
  aq_durationSec :: "int option"
  aq_durationMs :: "real option"
  aq_keystrokeCount :: "int option"

record ActivityQueuePayload =
  aq_userId :: string
  aq_organizationId :: string
  aq_deviceId :: "string option"
  aq_events :: "ActivityQueueEvent list option"

record MetricsQueueEvent =
  mq_cpuPercent :: real
  mq_memUsedMb :: real
  mq_memTotalMb :: real
  mq_agentCpuPercent :: real
  mq_agentMemMb :: real
  mq_recordedAt :: string

record MetricsQueuePayload =
  mq_userId :: string
  mq_organizationId :: string
  mq_events :: "MetricsQueueEvent list option"

record KeystrokesQueueEvent =
  kq_keysPerMin :: int
  kq_mousePerMin :: int
  kq_recordedAt :: string

record KeystrokesQueuePayload =
  kq_userId :: string
  kq_organizationId :: string
  kq_events :: "KeystrokesQueueEvent list option"

text \<open>
  The rows are as \<open>create\<close> leaves them: the id and \<open>created_at\<close> are filled in by the database.
  \<open>D\<close> is \<open>Date.parse\<close>; an Invalid Date makes the insert fail.
\<close>

definition activity_row ::
  "(string \<Rightarrow> js_time option) \<Rightarrow> ActivityQueuePayload \<Rightarrow> ActivityQueueEvent \<Rightarrow> ActivityEvent option" where
  "activity_row D payload e = (case D (aq_startedAt e) of
     None \<Rightarrow> None
   | Some started \<Rightarrow> Some \<lparr>ae_id = [], ae_userId = aq_userId payload,
       ae_organizationId = aq_organizationId payload, ae_deviceId = aq_deviceId payload,
       ae_appName = take 255 (aq_appName e),
       ae_windowTitle = (if falsy_str (aq_windowTitle e) then None
         else Some (take 500 (the (aq_windowTitle e)))),
       ae_startedAt = started,
       ae_durationSec = nullish (aq_durationSec e)
         \<lfloor>nullish (aq_durationMs e) 0 / 1000 + 1 / 2\<rfloor>,
       ae_keystrokeCount = nullish (aq_keystrokeCount e) 0, ae_createdAt = 0\<rparr>)"

definition metrics_row ::
  "(string \<Rightarrow> js_time option) \<Rightarrow> MetricsQueuePayload \<Rightarrow> MetricsQueueEvent \<Rightarrow> AgentMetric option" where
  "metrics_row D payload e = (case D (mq_recordedAt e) of
     None \<Rightarrow> None
   | Some recorded \<Rightarrow> Some \<lparr>am_id = [], am_employeeId = mq_userId payload,
       am_orgId = mq_organizationId payload, am_cpuPercent = mq_cpuPercent e,
       am_memUsedMb = mq_memUsedMb e, am_memTotalMb = mq_memTotalMb e,
       am_agentCpuPercent = mq_agentCpuPercent e, am_agentMemMb = mq_agentMemMb e,
       am_recordedAt = recorded, am_createdAt = 0\<rparr>)"

definition keystrokes_row ::
  "(string \<Rightarrow> js_time option) \<Rightarrow> KeystrokesQueuePayload \<Rightarrow> KeystrokesQueueEvent \<Rightarrow> KeystrokeEvent option" where
  "keystrokes_row D payload e = (case D (kq_recordedAt e) of
     None \<Rightarrow> None
   | Some recorded \<Rightarrow> Some \<lparr>ke_id = [], ke_userId = kq_userId payload,
       ke_organizationId = kq_organizationId payload, ke_keysPerMin = kq_keysPerMin e,
       ke_mousePerMin = kq_mousePerMin e, ke_recordedAt = recorded, ke_createdAt = 0\<rparr>)"

fun all_rows :: "('e \<Rightarrow> 'row option) \<Rightarrow> 'e list \<Rightarrow> 'row list option" where
  "all_rows f [] = Some []"
| "all_rows f (e # es) = (case f e of
     None \<Rightarrow> None
   | Some r \<Rightarrow> map_option (\<lambda>rs. r # rs) (all_rows f es))"

definition activity_rows where
  "activity_rows D payload = all_rows (activity_row D payload) (nullish (aq_events payload) [])"

definition metrics_rows where
  "metrics_rows D payload = all_rows (metrics_row D payload) (nullish (mq_events payload) [])"

definition keystrokes_rows where
  "keystrokes_rows D payload = all_rows (keystrokes_row D payload) (nullish (kq_events payload) [])"

definition activity_enqueue where "activity_enqueue P = queue_enqueue P ''agent_activity''"
definition activity_read where "activity_read P = queue_read P ''agent_activity''"
definition activity_delete where "activity_delete P = queue_delete P ''agent_activity''"
definition activity_deleteMany where "activity_deleteMany P = queue_deleteMany P ''agent_activity''"
definition activity_depth where "activity_depth P = queue_depth P ''agent_activity''"
definition activity_drain where
  "activity_drain P D = worker_drain P ''agent_activity'' (activity_rows D)"

definition metrics_enqueue where "metrics_enqueue P = queue_enqueue P ''agent_metrics''"
definition metrics_read where "metrics_read P = queue_read P ''agent_metrics''"
definition metrics_deleteMany where "metrics_deleteMany P = queue_deleteMany P ''agent_metrics''"
definition metrics_depth where "metrics_depth P = queue_depth P ''agent_metrics''"
definition metrics_drain where
  "metrics_drain P D = worker_drain P ''agent_metrics'' (metrics_rows D)"

definition keystrokes_enqueue where "keystrokes_enqueue P = queue_enqueue P ''agent_keystrokes''"
definition keystrokes_read where "keystrokes_read P = queue_read P ''agent_keystrokes''"
definition keystrokes_deleteMany where
  "keystrokes_deleteMany P = queue_deleteMany P ''agent_keystrokes''"
definition keystrokes_depth where "keystrokes_depth P = queue_depth P ''agent_keystrokes''"
definition keystrokes_drain where
  "keystrokes_drain P D = worker_drain P ''agent_keystrokes'' (keystrokes_rows D)"

section \<open>A queue held in memory\<close>

text \<open>
  A concrete pgmq, the parameter of the witnesses: slot \<open>i\<close> holds the message with id \<open>i\<close> and the
  time until which it is hidden, or nothing once it is deleted.
\<close>

type_synonym 'm slots = "('m \<times> js_time) option list"

fun live_from :: "int \<Rightarrow> 'm slots \<Rightarrow> (int \<times> 'm) list" where
  "live_from k [] = []"
| "live_from k (None # q) = live_from (k + 1) q"
| "live_from k (Some (m, t) # q) = (k, m) # live_from (k + 1) q"

fun hidden_from :: "int \<Rightarrow> 'm slots \<Rightarrow> int \<Rightarrow> js_time" where
  "hidden_from k [] i = 0"
| "hidden_from k (x # q) i =
     (if i = k then (case x of None \<Rightarrow> 0 | Some (m, t) \<Rightarrow> t) else hidden_from (k + 1) q i)"

fun slot_map :: "(int \<Rightarrow> 'm \<times> js_time \<Rightarrow> ('m \<times> js_time) option) \<Rightarrow> int \<Rightarrow> 'm slots \<Rightarrow> 'm slots" where
  "slot_map f k [] = []"
| "slot_map f k (x # q) = (case x of None \<Rightarrow> None | Some s \<Rightarrow> f k s) # slot_map f (k + 1) q"

definition memory_pgmq :: "('m, 'm slots) pgmq" where
  "memory_pgmq = \<lparr>pg_send = (\<lambda>_ m q. (int (length q), q @ [Some (m, 0)])),
     pg_read = (\<lambda>_ now vt n q.
       let ms = take n (filter (\<lambda>x. hidden_from 0 q (fst x) \<le> now) (live_from 0 q))
       in (ms, slot_map (\<lambda>i (m, t). Some (m, if i \<in> fst ` set ms then now + int vt * 1000 else t)) 0 q)),
     pg_delete = (\<lambda>_ is q. slot_map (\<lambda>i s. if i \<in> set is then None else Some s) 0 q),
     pg_length = (\<lambda>_ q. int_str (int (length (live_from 0 q))))\<rparr>"

lemma live_from_ids: "x \<in> set (live_from k q) \<Longrightarrow> k \<le> fst x \<and> fst x < k + int (length q)"
  by (induction k q rule: live_from.induct) auto

lemma live_from_distinct: "distinct (map fst (live_from k q))"
  by (induction k q rule: live_from.induct) (auto dest: live_from_ids)

lemma live_from_append: "live_from k (q @ r) = live_from k q @ live_from (k + int (length q)) r"
  by (induction k q rule: live_from.induct) (auto simp: algebra_simps)

lemma hidden_from_append:
  "k \<le> i \<Longrightarrow> i < k + int (length q) \<Longrightarrow> hidden_from k (q @ r) i = hidden_from k q i"
  by (induction k q i rule: hidden_from.induct) auto

lemma slot_map_hide:
  "live_from k (slot_map (\<lambda>i (m, t). Some (m, g i t)) k q) = live_from k q"
  by (induction k q rule: live_from.induct) auto

lemma hidden_slot_map:
  "hidden_from k (slot_map (\<lambda>i (m, t). Some (m, g i t)) k q) i =
     (if i \<in> fst ` set (live_from k q) then g i (hidden_from k q i) else hidden_from k q i)"
proof (induction k q rule: live_from.induct)
  case (3 k m t q)
  have "i \<noteq> k \<or> i \<notin> fst ` set (live_from (k + 1) q)" using live_from_ids by fastforce
  then show ?case using 3 by auto
next
  case (2 k q)
  have "k \<notin> fst ` set (live_from (k + 1) q)" using live_from_ids by fastforce
  then show ?case using 2 by auto
qed simp

lemma slot_map_delete:
  "live_from k (slot_map (\<lambda>i s. if i \<in> A then None else Some s) k q) =
     filter (\<lambda>x. fst x \<notin> A) (live_from k q)"
  by (induction k q rule: live_from.induct) auto

lemma hidden_slot_delete:
  "i \<notin> A \<Longrightarrow> hidden_from k (slot_map (\<lambda>i s. if i \<in> A then None else Some s) k q) i = hidden_from k q i"
  by (induction k q i rule: hidden_from.induct) (auto split: option.splits)

interpretation memory: pgmq_queue memory_pgmq name "live_from 0" "hidden_from 0" for name :: string
proof unfold_locales
  fix q :: "'a slots" and m i n now vt "is"
  show "distinct (map fst (live_from 0 q))" by (rule live_from_distinct)
  show "live_from 0 (snd (pg_send memory_pgmq name m q)) =
      live_from 0 q @ [(fst (pg_send memory_pgmq name m q), m)]"
    by (simp add: memory_pgmq_def live_from_append)
  show "fst (pg_read memory_pgmq name now vt n q) =
      take n (filter (\<lambda>x. hidden_from 0 q (fst x) \<le> now) (live_from 0 q))"
    by (simp add: memory_pgmq_def Let_def)
  show "live_from 0 (snd (pg_read memory_pgmq name now vt n q)) = live_from 0 q"
    by (simp add: memory_pgmq_def Let_def slot_map_hide)
  show "hidden_from 0 (snd (pg_read memory_pgmq name now vt n q)) i =
      (if i \<in> fst ` set (fst (pg_read memory_pgmq name now vt n q)) then now + int vt * 1000
       else hidden_from 0 q i)"
    by (auto simp: memory_pgmq_def Let_def hidden_slot_map dest!: in_set_takeD)
  show "live_from 0 (pg_delete memory_pgmq name is q) = filter (\<lambda>x. fst x \<notin> set is) (live_from 0 q)"
    by (simp add: memory_pgmq_def slot_map_delete)
  show "hidden_from 0 (pg_delete memory_pgmq name is q) i = hidden_from 0 q i" if "i \<notin> set is"
    using that by (simp add: memory_pgmq_def hidden_slot_delete)
  show "hidden_from 0 (snd (pg_send memory_pgmq name m q)) i = hidden_from 0 q i"
    if "i \<in> fst ` set (live_from 0 q)"
    using that live_from_ids [of _ 0 q] by (force simp: memory_pgmq_def hidden_from_append)
qed

interpretation activity_worker: queue_worker memory_pgmq "''agent_activity''" "live_from 0"
  "hidden_from 0" "activity_rows D" accepts for D accepts
  by unfold_locales

interpretation metrics_worker: queue_worker memory_pgmq "''agent_metrics''" "live_from 0"
  "hidden_from 0" "metrics_rows D" accepts for D accepts
  by unfold_locales

interpretation keystrokes_worker: queue_worker memory_pgmq "''agent_keystrokes''" "live_from 0"
  "hidden_from 0" "keystrokes_rows D" accepts for D accepts
  by unfold_locales

section \<open>Delivery\<close>

definition idle_worker :: "'q \<Rightarrow> ('m, 'row, 'q) worker" where
  "idle_worker q = \<lparr>wk_flushing = False, wk_batch = None, wk_queue = q, wk_table = []\<rparr>"

definition in_table_or_queue ::
  "('q \<Rightarrow> (int \<times> 'm) list) \<Rightarrow> ('m \<Rightarrow> 'row list option) \<Rightarrow> ('m, 'row, 'q) worker \<Rightarrow> 'row multiset" where
  "in_table_or_queue contents rows w =
     mset (wk_table w) + rows_of rows (map snd (contents (wk_queue w)))"

text \<open>
  C12. Whatever inserts and deletes fail, the rows of every message ever enqueued are in the table
  or still in the queue; and as long as no delete fails after its insert, each of them exactly
  once, however drains, enqueues and failures interleave.
\<close>

theorem ingest_conserves_rows:
  assumes "pgmq_queue P name contents hidden_until"
  shows "let w = worker_run P name rows accepts ops (idle_worker q);
      owed = rows_of rows (map snd (contents q)) + rows_of rows (sent ops)
    in owed \<subseteq># in_table_or_queue contents rows w \<and>
      (Drain_end Delete_fails \<notin> set ops \<longrightarrow> in_table_or_queue contents rows w = owed)"
proof -
  note W = queue_worker.intro [OF assms]
  have ok: "queue_worker.batch_ok contents (idle_worker q)"
    by (simp add: queue_worker.batch_ok_def [OF W] idle_worker_def)
  show ?thesis
    using queue_worker.run_held [OF W ok, where rows = rows and accepts = accepts]
    by (simp add: queue_worker.held_def [OF W] in_table_or_queue_def idle_worker_def Let_def)
qed

definition key_event :: "string \<Rightarrow> KeystrokesQueuePayload" where
  "key_event t = \<lparr>kq_userId = ''u'', kq_organizationId = ''o'',
     kq_events = Some [\<lparr>kq_keysPerMin = 3, kq_mousePerMin = 4, kq_recordedAt = t\<rparr>]\<rparr>"

definition key_rows :: "KeystrokesQueuePayload \<Rightarrow> KeystrokeEvent list option" where
  "key_rows = keystrokes_rows (\<lambda>s. if s = ''bad'' then None else Some 7)"

lemmas worker_eval = worker_run_def idle_worker_def drain_begin_def drain_end_def queue_defs
  memory_pgmq_def BATCH_SIZE_def VISIBILITY_TIMEOUT_SEC_def key_rows_def keystrokes_rows_def
  keystrokes_row_def key_event_def in_table_or_queue_def

theorem ingest_conserves_rows_witness:
  "let w = worker_run memory_pgmq ''agent_keystrokes'' key_rows (\<lambda>_. True)
      [Enqueue (key_event ''x''), Drain_begin 0, Enqueue (key_event ''y''), Drain_end Insert_fails,
       Drain_begin 30000, Drain_end Completes] (idle_worker [])
    in in_table_or_queue (live_from 0) key_rows w = rows_of key_rows [key_event ''x'', key_event ''y'']"
  using ingest_conserves_rows [OF memory.pgmq_queue_axioms, where q = "[]" and name = "''agent_keystrokes''"
      and rows = key_rows and accepts = "\<lambda>_. True" and
      ops = "[Enqueue (key_event ''x''), Drain_begin 0, Enqueue (key_event ''y''),
        Drain_end Insert_fails, Drain_begin 30000, Drain_end Completes]"]
  by (simp add: Let_def)

text \<open>
  One message whose rows cannot be inserted takes its neighbours down: while it is among the
  at most 200 messages at the head of the queue, hidden until the same time as the others, none
  of them ever leaves the queue, whatever is enqueued and however often the worker drains.
\<close>

theorem poison_blocks_neighbours:
  assumes "pgmq_queue P name contents hidden_until" and "contents q = B @ rest"
    and "length B \<le> BATCH_SIZE" and "\<forall>x \<in> set B. hidden_until q (fst x) = h"
    and "x \<in> set B" and "case rows (snd x) of None \<Rightarrow> True | Some rs \<Rightarrow> \<not> list_all accepts rs"
  shows "\<exists>rest'. contents (wk_queue (worker_run P name rows accepts ops (idle_worker q))) = B @ rest'"
proof -
  note W = queue_worker.intro [OF assms(1)]
  have b: "queue_worker.blocked contents hidden_until B (idle_worker q)"
    using assms(2,4) by (auto simp: queue_worker.blocked_def [OF W] idle_worker_def)
  have p: "queue_worker.poisonous rows accepts (snd x)"
    using assms(6) by (simp add: queue_worker.poisonous_def [OF W])
  show ?thesis
    using queue_worker.run_blocked [OF W b assms(3,5) p, of ops]
    unfolding queue_worker.blocked_def [OF W] by (rule conjunct1)
qed

theorem poison_blocks_neighbours_witness:
  "\<exists>rest'. live_from 0 (wk_queue (worker_run memory_pgmq ''agent_keystrokes'' key_rows (\<lambda>_. True)
      [Drain_begin 0, Drain_end Completes, Drain_begin 30000, Drain_end Completes]
      (idle_worker [Some (key_event ''x'', 0), Some (key_event ''bad'', 0)])))
    = [(0, key_event ''x''), (1, key_event ''bad'')] @ rest'"
  using poison_blocks_neighbours [OF memory.pgmq_queue_axioms, where name = "''agent_keystrokes''"
      and q = "[Some (key_event ''x'', 0), Some (key_event ''bad'', 0)]" and rest = "[]" and h = 0
      and B = "[(0, key_event ''x''), (1, key_event ''bad'')]" and x = "(1, key_event ''bad'')"
      and rows = key_rows and accepts = "\<lambda>_. True"
      and ops = "[Drain_begin 0, Drain_end Completes, Drain_begin 30000, Drain_end Completes]"]
  by (simp add: BATCH_SIZE_def key_rows_def keystrokes_rows_def keystrokes_row_def key_event_def)

text \<open>
  A drain in which nothing fails takes the first 200 visible messages off the queue and
  inserts exactly their rows, one per event in order; the rows of an activity payload carry the
  identity of the payload and the limits of their columns.
\<close>

theorem drain_inserts_batch:
  assumes Q: "pgmq_queue P name contents hidden_until"
    and ms: "ms = take BATCH_SIZE (filter (\<lambda>x. hidden_until q (fst x) \<le> now) (contents q))"
    and rs: "batch_rows rows ms = Some rs" and "list_all accepts rs"
  shows "let w = worker_drain P name rows accepts now Completes (idle_worker q)
    in wk_table w = rs \<and> \<not> wk_flushing w \<and>
      contents (wk_queue w) = filter (\<lambda>x. fst x \<notin> fst ` set ms) (contents q)"
proof -
  obtain q' where r: "pg_read P name now VISIBILITY_TIMEOUT_SEC BATCH_SIZE q = (ms, q')"
    using pgmq_queue.read [OF Q, of now VISIBILITY_TIMEOUT_SEC BATCH_SIZE q] ms by (metis prod.collapse)
  have c: "contents q' = contents q"
    using pgmq_queue.read_contents [OF Q, of now VISIBILITY_TIMEOUT_SEC BATCH_SIZE q] by (simp add: r)
  show ?thesis
    using assms(4) rs c pgmq_queue.delete [OF Q, of "map fst ms" q']
    by (auto simp: worker_drain_def drain_begin_def drain_end_def idle_worker_def queue_read_def r
        queue_deleteMany_def Let_def)
qed

theorem drain_inserts_batch_witness:
  "length (wk_table (worker_drain memory_pgmq ''agent_keystrokes'' key_rows (\<lambda>_. True) 5 Completes
     (idle_worker [Some (key_event ''x'', 0), None, Some (key_event ''y'', 9)]))) = 1"
  using drain_inserts_batch [OF memory.pgmq_queue_axioms, where name = "''agent_keystrokes''"
      and q = "[Some (key_event ''x'', 0), None, Some (key_event ''y'', 9)]" and now = 5
      and ms = "[(0, key_event ''x'')]" and rows = key_rows and accepts = "\<lambda>_. True"
      and rs = "the (key_rows (key_event ''x''))"]
  by (simp add: Let_def key_rows_def keystrokes_rows_def keystrokes_row_def key_event_def BATCH_SIZE_def)

end
