(* ===== verification/Tenancy.thy ===== *)
theory Tenancy
  imports Prelude
begin

text \<open>
  Tenant isolation as an interface. Operations act on behalf of an organisation; each may touch
  only rows of that organisation. What follows for any sequence of operations is proved once,
  here; every service with organisation-scoped tables provides the law for its operations.
\<close>

fun org_runs :: "(string \<Rightarrow> 'p \<Rightarrow> 's \<Rightarrow> 's) \<Rightarrow> (string \<times> 'p) list \<Rightarrow> 's \<Rightarrow> 's" where
  "org_runs apply_op [] s = s"
| "org_runs apply_op ((org, p) # ops) s = org_runs apply_op ops (apply_op org p s)"

fun ops_valid ::
  "('p \<Rightarrow> 's \<Rightarrow> bool) \<Rightarrow> (string \<Rightarrow> 'p \<Rightarrow> 's \<Rightarrow> 's) \<Rightarrow> (string \<times> 'p) list \<Rightarrow> 's \<Rightarrow> bool" where
  "ops_valid valid apply_op [] s = True"
| "ops_valid valid apply_op ((org, p) # ops) s =
     (valid p s \<and> ops_valid valid apply_op ops (apply_op org p s))"

definition rows_of_org :: "('e \<Rightarrow> string) \<Rightarrow> string \<Rightarrow> 'e list \<Rightarrow> 'e set" where
  "rows_of_org org_of org rows = {r \<in> set rows. org_of r = org}"

locale tenant_ops =
  fixes org_of :: "'e \<Rightarrow> string" and rows :: "'s \<Rightarrow> 'e list"
    and good :: "'s \<Rightarrow> bool" and valid :: "'p \<Rightarrow> 's \<Rightarrow> bool"
    and apply_op :: "string \<Rightarrow> 'p \<Rightarrow> 's \<Rightarrow> 's"
  assumes isolated: "good s \<Longrightarrow> valid p s \<Longrightarrow> org' \<noteq> org \<Longrightarrow>
      rows_of_org org_of org (rows (apply_op org' p s)) = rows_of_org org_of org (rows s)"
  and good_kept: "good s \<Longrightarrow> valid p s \<Longrightarrow> good (apply_op org p s)"
begin

lemma runs_isolated:
  assumes "good s" and "ops_valid valid apply_op ops s" and "org \<notin> fst ` set ops"
  shows "rows_of_org org_of org (rows (org_runs apply_op ops s)) = rows_of_org org_of org (rows s)"
  using assms
proof (induction ops arbitrary: s)
  case (Cons q ops)
  obtain org' p where q: "q = (org', p)" by fastforce
  then have v: "valid p s" and ne: "org' \<noteq> org" using Cons.prems by auto
  have "rows_of_org org_of org (rows (org_runs apply_op ops (apply_op org' p s)))
      = rows_of_org org_of org (rows (apply_op org' p s))"
    by (rule Cons.IH) (use Cons.prems q good_kept [OF Cons.prems(1) v] in auto)
  then show ?case using isolated [OF Cons.prems(1) v ne] q by simp
qed simp

lemma runs_good: "good s \<Longrightarrow> ops_valid valid apply_op ops s \<Longrightarrow> good (org_runs apply_op ops s)"
  by (induction ops arbitrary: s) (auto simp: good_kept)

end

lemma patch_keeps: "(\<And>v e. g (f v e) = g e) \<Longrightarrow> g (patch x f e) = g e"
  by (cases x) simp_all

section \<open>Writes of a repository, seen by another organisation\<close>

text \<open>A row an organisation may save: its id is new, or that of a row the organisation owns.\<close>

definition may_save :: "('e \<Rightarrow> string) \<Rightarrow> ('e \<Rightarrow> string) \<Rightarrow> string \<Rightarrow> 'e \<Rightarrow> 'e list \<Rightarrow> bool" where
  "may_save k org_of org e t \<longleftrightarrow> org_of e = org \<and>
     (k e \<notin> k ` set t \<or> (\<exists>r \<in> set t. k r = k e \<and> org_of r = org))"

lemma may_save_fresh: "org_of e = org \<Longrightarrow> k e \<notin> k ` set t \<Longrightarrow> may_save k org_of org e t"
  by (simp add: may_save_def)

lemma may_save_known:
  "r \<in> set t \<Longrightarrow> k e = k r \<Longrightarrow> org_of r = org \<Longrightarrow> org_of e = org \<Longrightarrow> may_save k org_of org e t"
  by (force simp: may_save_def)

lemma may_save_same:
  "keyed k t \<Longrightarrow> may_save k org_of org e t \<Longrightarrow> r \<in> set t \<Longrightarrow> k r = k e \<Longrightarrow> org_of r = org"
  unfolding may_save_def by (metis imageI keyed_same)

context repository
begin

lemma save_owned:
  assumes "keyed key t" and "may_save key org_of org e t" and "org' \<noteq> org"
  shows "rows_of_org org_of org' (orm_save R e t) = rows_of_org org_of org' t"
  using assms may_save_same [OF assms(1,2)] by (auto simp: rows_of_org_def set_save may_save_def)

lemma delete_owned:
  assumes "keyed key t" and "r \<in> set t" and "org_of r \<noteq> org'"
  shows "rows_of_org org_of org' (orm_delete R (\<lambda>e. key e = key r) t) = rows_of_org org_of org' t"
  using assms keyed_same [OF assms(1) _ assms(2)] by (auto simp: rows_of_org_def set_delete)

lemma save_isolated:
  assumes "\<forall>r \<in> set t. key r = key e \<longrightarrow> org_of r \<noteq> org" and "org_of e \<noteq> org"
  shows "rows_of_org org_of org (orm_save R e t) = rows_of_org org_of org t"
  using assms by (auto simp: rows_of_org_def set_save)

lemma update_isolated:
  assumes "\<And>r. P r \<Longrightarrow> r \<in> set t \<Longrightarrow> org_of r \<noteq> org" and "\<And>r. org_of (f r) = org_of r"
  shows "rows_of_org org_of org (orm_update R P f t) = rows_of_org org_of org t"
proof -
  have no: "\<not> P r" if "r \<in> set t" "org_of r = org" for r using assms(1) that by blast
  show ?thesis unfolding rows_of_org_def set_update
    using no assms(2) by (auto simp: image_iff split: if_splits)
qed

lemma delete_isolated:
  assumes "\<And>r. P r \<Longrightarrow> r \<in> set t \<Longrightarrow> org_of r \<noteq> org"
  shows "rows_of_org org_of org (orm_delete R P t) = rows_of_org org_of org t"
  using assms unfolding rows_of_org_def set_delete by blast

end

text \<open>
  What a request of an organisation may do to a table: nothing, save a row it owns, or delete rows
  it owns. A service whose requests change their table only so is isolated.
\<close>

definition owned_change ::
  "'e orm \<Rightarrow> ('e \<Rightarrow> string) \<Rightarrow> ('e \<Rightarrow> string) \<Rightarrow> string \<Rightarrow> 'e list \<Rightarrow> 'e list \<Rightarrow> bool" where
  "owned_change R k org_of org t t' \<longleftrightarrow> t' = t \<or>
     (\<exists>e. may_save k org_of org e t \<and> t' = orm_save R e t) \<or>
     (\<exists>P. (\<forall>r \<in> set t. P r \<longrightarrow> org_of r = org) \<and> t' = orm_delete R P t)"

lemma owned_same [intro, simp]: "owned_change R k org_of org t t"
  by (simp add: owned_change_def)

lemma owned_save: "may_save k org_of org e t \<Longrightarrow> owned_change R k org_of org t (orm_save R e t)"
  unfolding owned_change_def by (rule disjI2, rule disjI1, rule exI [of _ e], rule conjI, assumption, rule refl)

lemma owned_delete:
  "(\<And>r. r \<in> set t \<Longrightarrow> P r \<Longrightarrow> org_of r = org) \<Longrightarrow> owned_change R k org_of org t (orm_delete R P t)"
  unfolding owned_change_def by (rule disjI2, rule disjI2, rule exI [of _ P], rule conjI) simp_all

lemma owned_delete_key:
  assumes "keyed k t" and "r \<in> set t" and "org_of r = org" and "k r = i"
  shows "owned_change R k org_of org t (orm_delete R (\<lambda>e. k e = i) t)"
  by (rule owned_delete) (metis assms keyed_same)

locale owned_table = repository R key for R :: "'e orm" and key :: "'e \<Rightarrow> string" +
  fixes org_of :: "'e \<Rightarrow> string" and rows :: "'s \<Rightarrow> 'e list"
    and valid :: "'p \<Rightarrow> 's \<Rightarrow> bool" and apply_op :: "string \<Rightarrow> 'p \<Rightarrow> 's \<Rightarrow> 's"
  assumes change: "keyed key (rows s) \<Longrightarrow> valid p s \<Longrightarrow>
    owned_change R key org_of org (rows s) (rows (apply_op org p s))"
begin

lemma change_keyed:
  "keyed key t \<Longrightarrow> owned_change R key org_of org t t' \<Longrightarrow> keyed key t'"
  unfolding owned_change_def by (elim disjE exE conjE) (simp_all add: keyed_save keyed_delete)

lemma change_isolated:
  assumes k: "keyed key t" and c: "owned_change R key org_of org' t t'" and ne: "org' \<noteq> org"
  shows "rows_of_org org_of org t' = rows_of_org org_of org t"
  using c unfolding owned_change_def
proof (elim disjE exE conjE)
  fix e assume "may_save key org_of org' e t" "t' = orm_save R e t"
  then show ?thesis using save_owned [OF k _ ne [symmetric]] by simp
next
  fix P assume P: "\<forall>r \<in> set t. P r \<longrightarrow> org_of r = org'" and t': "t' = orm_delete R P t"
  show ?thesis unfolding t' by (rule delete_isolated) (use P ne in auto)
qed simp

lemma owned_tenant_ops: "tenant_ops org_of rows (\<lambda>s. keyed key (rows s)) valid apply_op"
proof
  fix s p org org'
  assume k: "keyed key (rows s)" and v: "valid p s"
  show "keyed key (rows (apply_op org p s))" by (rule change_keyed [OF k change [OF k v]])
  assume "org' \<noteq> org"
  then show "rows_of_org org_of org (rows (apply_op org' p s)) = rows_of_org org_of org (rows s)"
    by (rule change_isolated [OF k change [OF k v]])
qed

end

sublocale owned_table \<subseteq> tenant_ops org_of rows "\<lambda>s. keyed key (rows s)" valid apply_op
  by (rule owned_tenant_ops)

end
