(* ===== verification/Users.thy ===== *)
theory Users
  imports Tenancy AuditTrail KeyValueStore EntitiesAgent JsText
begin

text \<open>
  UsersService (modules/users) and OrganizationsService (modules/organizations): members of an
  organisation, invitations, and the personal agent token a user pastes into the desktop agent.
  Random values, generated ids and the clock are arguments; mail is a list of what was sent;
  \<open>hash\<close> is bcrypt, third-party code. Every operation except the two on the caller's own agent
  token names the organisation of the caller in its query.
\<close>

datatype mail =
    Invite_email string string string string
  | Verification_email string string
  | Password_reset_email string string

record 's users_env =
  ue_users :: "User orm"
  ue_orgs :: "Organization orm"
  ue_devices :: "AgentDevice orm"
  ue_logs :: "AuditLog orm"
  ue_kv :: "'s kv"
  ue_hash :: "string \<Rightarrow> string"

record 's UsersService =
  uv_users :: "User list"
  uv_orgs :: "Organization list"
  uv_devices :: "AgentDevice list"
  uv_audit :: "AuditLog list"
  uv_kv :: 's
  uv_mail :: "mail list"

record InviteUserDto =
  iu_email :: string
  iu_role :: UserRole

record UpdateUserDto =
  up_firstName :: "string option"
  up_lastName :: "string option"
  up_role :: "UserRole option"

section \<open>Members\<close>

definition users_findAll ::
  "'s users_env \<Rightarrow> string \<Rightarrow> 's UsersService \<Rightarrow> (User \<times> nat) list" where
  "users_findAll E organizationId st =
     map (\<lambda>u. (u, length (filter (\<lambda>d. ad_organizationId d = organizationId \<and> ad_isActive d
             \<and> ad_userId d = u_id u) (uv_devices st))))
       (orm_find (ue_users E) (\<lambda>u. u_organizationId u = organizationId \<and> u_isActive u)
         (desc u_createdAt) None (uv_users st))"

definition users_findById ::
  "'s users_env \<Rightarrow> string \<Rightarrow> string \<Rightarrow> 's UsersService \<Rightarrow> User outcome" where
  "users_findById E uid organizationId st =
     (case find_one (ue_users E) (\<lambda>u. u_id u = uid \<and> u_organizationId u = organizationId) (uv_users st) of
        None \<Rightarrow> Inl (NotFound ''User not found'')
      | Some u \<Rightarrow> Inr u)"

text \<open>A new row with the column defaults of the entity.\<close>

definition new_user ::
  "js_time \<Rightarrow> string \<Rightarrow> string \<Rightarrow> string \<Rightarrow> string \<Rightarrow> string \<Rightarrow> string \<Rightarrow> UserRole \<Rightarrow> string option \<Rightarrow> User" where
  "new_user now newId organizationId email passwordHash firstName lastName role invitedBy =
     \<lparr>u_id = newId, u_organizationId = organizationId, u_email = email, u_passwordHash = passwordHash,
      u_firstName = firstName, u_lastName = lastName, u_role = role, u_avatarUrl = None,
      u_emailVerified = False, u_isActive = True, u_agentToken = None, u_invitedBy = invitedBy,
      u_createdAt = now, u_updatedAt = now\<rparr>"

record fresh_values =
  fv_now :: js_time
  fv_id :: string
  fv_logId :: string
  fv_password :: string
  fv_token :: string

definition users_invite ::
  "'s users_env \<Rightarrow> fresh_values \<Rightarrow> string \<Rightarrow> string \<Rightarrow> InviteUserDto \<Rightarrow> 's UsersService \<Rightarrow>
   User outcome \<times> 's UsersService" where
  "users_invite E F organizationId invitedBy dto st =
     (case find_one (ue_users E) (\<lambda>u. u_email u = toLowerCase (iu_email dto)
          \<and> u_organizationId u = organizationId) (uv_users st) of
        Some _ \<Rightarrow> (Inl (Conflict ''A user with this email already exists in the organization''), st)
      | None \<Rightarrow>
          let savedUser = new_user (fv_now F) (fv_id F) organizationId (toLowerCase (iu_email dto))
                (ue_hash E (fv_password F)) [] [] (iu_role dto) (Some invitedBy);
              users = orm_save (ue_users E) savedUser (uv_users st)
          in case token_generate (ue_kv E) (fv_now F) (fv_token F) Invite (u_id savedUser) (uv_kv st) of
            (token, kv) \<Rightarrow>
              let inviter = find_one (ue_users E) (\<lambda>u. u_id u = invitedBy) users;
                  inviterName = (case inviter of
                    Some u \<Rightarrow> u_firstName u @ '' '' @ u_lastName u | None \<Rightarrow> ''Your admin'');
                  organization = find_one (ue_orgs E) (\<lambda>o1. org_id o1 = organizationId) (uv_orgs st);
                  orgName = (case organization of
                    Some o1 \<Rightarrow> org_name o1 | None \<Rightarrow> ''your organization'');
                  actor = \<lparr>aa_id = Some invitedBy, aa_email = (case inviter of
                    Some u \<Rightarrow> u_email u | None \<Rightarrow> ''unknown'')\<rparr>
              in (Inr savedUser,
                  st\<lparr>uv_users := users, uv_kv := kv,
                    uv_mail := uv_mail st @ [Invite_email (u_email savedUser) inviterName orgName token],
                    uv_audit := audit_log (ue_logs E) (fv_logId F) (fv_now F) organizationId actor
                      ''user.invited'' ''user'' (Some (u_id savedUser))
                      (Some (JObj [(''invitedEmail'', JStr (iu_email dto)),
                        (''role'', JStr (role_str (iu_role dto)))])) None (uv_audit st)\<rparr>))"

definition users_update ::
  "'s users_env \<Rightarrow> js_time \<Rightarrow> string \<Rightarrow> string \<Rightarrow> UpdateUserDto \<Rightarrow> 's UsersService \<Rightarrow>
   User outcome \<times> 's UsersService" where
  "users_update E now uid organizationId dto st =
     (case users_findById E uid organizationId st of
        Inl e \<Rightarrow> (Inl e, st)
      | Inr user \<Rightarrow>
          let user' = touched (\<lambda>u. u\<lparr>u_updatedAt := now\<rparr>) user (patch (up_firstName dto) (\<lambda>v u. u\<lparr>u_firstName := v\<rparr>)
                (patch (up_lastName dto) (\<lambda>v u. u\<lparr>u_lastName := v\<rparr>)
                (patch (up_role dto) (\<lambda>v u. u\<lparr>u_role := v\<rparr>) user)))
          in (Inr user', st\<lparr>uv_users := orm_save (ue_users E) user' (uv_users st)\<rparr>))"

definition users_deactivate ::
  "'s users_env \<Rightarrow> js_time \<Rightarrow> string \<Rightarrow> string \<Rightarrow> string \<Rightarrow> 's UsersService \<Rightarrow>
   unit outcome \<times> 's UsersService" where
  "users_deactivate E now uid organizationId requestingUserId st =
     (if uid = requestingUserId
      then (Inl (BadRequest ''You cannot deactivate your own account''), st)
      else case users_findById E uid organizationId st of
        Inl e \<Rightarrow> (Inl e, st)
      | Inr user \<Rightarrow> (Inr (), st\<lparr>uv_users := orm_update (ue_users E) (\<lambda>u. u_id u = u_id user)
          (\<lambda>u. u\<lparr>u_isActive := False, u_updatedAt := now\<rparr>) (uv_users st)\<rparr>))"

section \<open>The personal agent token\<close>

definition js_trim :: "string \<Rightarrow> string" where
  "js_trim s = rev (dropWhile is_space (rev (dropWhile is_space s)))"

definition slug_char :: "char \<Rightarrow> bool" where
  "slug_char c \<longleftrightarrow> (let n = of_char c :: nat in (97 \<le> n \<and> n \<le> 122) \<or> (48 \<le> n \<and> n \<le> 57))"

definition or_else :: "string \<Rightarrow> string \<Rightarrow> string" where
  "or_else a b = (if a = [] then b else a)"

definition buildPersonalToken :: "string \<Rightarrow> string \<Rightarrow> string \<Rightarrow> string \<Rightarrow> string" where
  "buildPersonalToken uuid firstName lastName email =
     (let nameSource = or_else (js_trim (firstName @ lastName)) (takeWhile (\<lambda>c. c \<noteq> CHR 0x40) email);
          slug = or_else (take 24 (filter slug_char (toLowerCase nameSource))) ''user'';
          hex = filter (\<lambda>c. c \<noteq> CHR ''-'') uuid
      in slug @ ''-'' @ hex)"

definition display_name :: "User \<Rightarrow> string" where
  "display_name u = or_else (js_trim (u_firstName u @ '' '' @ u_lastName u)) (u_email u)"

definition set_agent_token ::
  "'s users_env \<Rightarrow> js_time \<Rightarrow> string \<Rightarrow> string \<Rightarrow> 's UsersService \<Rightarrow> 's UsersService" where
  "set_agent_token E now userId token st = st\<lparr>uv_users := orm_update (ue_users E)
     (\<lambda>u. u_id u = userId) (\<lambda>u. u\<lparr>u_agentToken := Some token, u_updatedAt := now\<rparr>) (uv_users st)\<rparr>"

definition getOrGenerateAgentToken ::
  "'s users_env \<Rightarrow> js_time \<Rightarrow> string \<Rightarrow> string \<Rightarrow> 's UsersService \<Rightarrow>
   (string \<times> string) outcome \<times> 's UsersService" where
  "getOrGenerateAgentToken E now uuid userId st =
     (case find_one (ue_users E) (\<lambda>u. u_id u = userId) (uv_users st) of
        None \<Rightarrow> (Inl (NotFound ''User not found''), st)
      | Some user \<Rightarrow>
          if falsy_str (u_agentToken user)
          then let token = buildPersonalToken uuid (u_firstName user) (u_lastName user) (u_email user)
            in (Inr (token, display_name user), set_agent_token E now userId token st)
          else (Inr (the (u_agentToken user), display_name user), st))"

definition rotateAgentToken ::
  "'s users_env \<Rightarrow> js_time \<Rightarrow> string \<Rightarrow> string \<Rightarrow> 's UsersService \<Rightarrow>
   (string \<times> string) outcome \<times> 's UsersService" where
  "rotateAgentToken E now uuid userId st =
     (case find_one (ue_users E) (\<lambda>u. u_id u = userId) (uv_users st) of
        None \<Rightarrow> (Inl (NotFound ''User not found''), st)
      | Some user \<Rightarrow>
          let token = buildPersonalToken uuid (u_firstName user) (u_lastName user) (u_email user)
          in (Inr (token, display_name user), set_agent_token E now userId token st))"

text \<open>The shape \<open>class-validator\<close> asks of a UUID: 36 characters, dashes at four places, hex digits elsewhere.\<close>

definition is_hex :: "char \<Rightarrow> bool" where
  "is_hex c \<longleftrightarrow> (let n = of_char c :: nat in
     (48 \<le> n \<and> n \<le> 57) \<or> (65 \<le> n \<and> n \<le> 70) \<or> (97 \<le> n \<and> n \<le> 102))"

definition is_uuid :: "string \<Rightarrow> bool" where
  "is_uuid s \<longleftrightarrow> length s = 36 \<and>
     (\<forall>i < 36. if i \<in> {8, 13, 18, 23} then s ! i = CHR ''-'' else is_hex (s ! i))"

section \<open>OrganizationsService\<close>

record UpdateOrganizationDto =
  uo_name :: "string option"
  uo_logoUrl :: "string option"
  uo_website :: "string option"
  uo_timezone :: "string option"

definition organizations_findById ::
  "Organization orm \<Rightarrow> string \<Rightarrow> Organization list \<Rightarrow> Organization outcome" where
  "organizations_findById RO oid t = (case find_one RO (\<lambda>o1. org_id o1 = oid) t of
     None \<Rightarrow> Inl (NotFound ''Organization not found'') | Some o1 \<Rightarrow> Inr o1)"

definition organizations_update ::
  "Organization orm \<Rightarrow> js_time \<Rightarrow> string \<Rightarrow> UpdateOrganizationDto \<Rightarrow> Organization list \<Rightarrow>
   Organization outcome \<times> Organization list" where
  "organizations_update RO now oid dto t =
     (let t' = orm_update RO (\<lambda>o1. org_id o1 = oid)
        (\<lambda>o1. (patch (uo_name dto) (\<lambda>v x. x\<lparr>org_name := v\<rparr>)
          (patch (uo_logoUrl dto) (\<lambda>v x. x\<lparr>org_logoUrl := Some v\<rparr>)
          (patch (uo_website dto) (\<lambda>v x. x\<lparr>org_website := Some v\<rparr>)
          (patch (uo_timezone dto) (\<lambda>v x. x\<lparr>org_timezone := Some v\<rparr>) o1))))
          \<lparr>org_updatedAt := now\<rparr>) t
      in (organizations_findById RO oid t', t'))"

section \<open>The shape of a personal token\<close>

lemma filter_slug_chars: "c \<in> set (take 24 (filter slug_char s)) \<Longrightarrow> slug_char c"
  by (auto dest!: in_set_takeD)

lemma or_else_cases: "or_else a b = a \<or> or_else a b = b"
  by (simp add: or_else_def)

lemma slug_not_dash: "slug_char c \<Longrightarrow> c \<noteq> CHR ''-''"
  by (auto simp: slug_char_def)

lemma uuid_hex_length: "is_uuid s \<Longrightarrow> length (filter (\<lambda>c. c \<noteq> CHR ''-'') s) = 32"
proof -
  assume u: "is_uuid s"
  have dash: "is_hex c \<Longrightarrow> c \<noteq> CHR ''-''" for c by (auto simp: is_hex_def)
  have "length (filter (\<lambda>c. c \<noteq> CHR ''-'') s) = card {i. i < length s \<and> s ! i \<noteq> CHR ''-''}"
    by (rule length_filter_conv_card)
  also have "{i. i < length s \<and> s ! i \<noteq> CHR ''-''} = {0..<36} - {8, 13, 18, 23}"
    using u dash by (auto simp: is_uuid_def)
  also have "card ({0..<36} - {8, 13, 18, 23 :: nat}) = 32" by (subst card_Diff_subset) auto
  finally show ?thesis .
qed

text \<open>
  A personal agent token is a readable name of 1 to 24 lower-case letters and digits, a dash
  and 32 hex digits; it is never a UUID, so the registration endpoint, which validates
  \<open>personalToken\<close> as a UUID, rejects every token the server hands out.
\<close>

theorem personal_token_never_uuid:
  assumes "is_uuid uuid"
  shows "(\<exists>slug hex. buildPersonalToken uuid firstName lastName email = slug @ ''-'' @ hex \<and>
      slug \<noteq> [] \<and> length slug \<le> 24 \<and> (\<forall>c \<in> set slug. slug_char c) \<and> length hex = 32) \<and>
    \<not> is_uuid (buildPersonalToken uuid firstName lastName email)"
proof -
  define slug where "slug = or_else (take 24 (filter slug_char (toLowerCase
      (or_else (js_trim (firstName @ lastName)) (takeWhile (\<lambda>c. c \<noteq> CHR 0x40) email))))) ''user''"
  define hex where "hex = filter (\<lambda>c. c \<noteq> CHR ''-'') uuid"
  have t: "buildPersonalToken uuid firstName lastName email = slug @ ''-'' @ hex"
    by (simp add: buildPersonalToken_def slug_def hex_def Let_def)
  have user: "\<forall>c \<in> set ''user''. slug_char c" by (simp add: slug_char_def)
  have s: "slug \<noteq> []" "length slug \<le> 24" "\<forall>c \<in> set slug. slug_char c"
    using user by (auto simp: slug_def or_else_def dest: filter_slug_chars)
  have h: "length hex = 32" unfolding hex_def by (rule uuid_hex_length [OF assms])
  have "\<not> is_uuid (slug @ ''-'' @ hex)"
  proof
    assume u: "is_uuid (slug @ ''-'' @ hex)"
    then have len: "length slug = 3" using h by (simp add: is_uuid_def)
    have "(slug @ ''-'' @ hex) ! 8 = CHR ''-''" using u by (simp add: is_uuid_def)
    then have "hex ! 4 = CHR ''-''" using len by (simp add: nth_append)
    moreover have "hex ! 4 \<in> set hex" using h by (intro nth_mem) simp
    ultimately show False by (simp add: hex_def)
  qed
  then show ?thesis using t s h by auto
qed

theorem personal_token_never_uuid_witness:
  "\<not> is_uuid (buildPersonalToken ''01234567-89ab-cdef-0123-456789abcdef'' ''Sai'' ''P'' ''s@x'')"
proof -
  have "is_uuid ''01234567-89ab-cdef-0123-456789abcdef''" by code_simp
  then show ?thesis using personal_token_never_uuid by blast
qed

section \<open>Members of other organisations are out of reach\<close>

datatype users_op =
    Op_invite fresh_values string InviteUserDto
  | Op_update js_time string UpdateUserDto
  | Op_deactivate js_time string string

fun users_apply :: "'s users_env \<Rightarrow> string \<Rightarrow> users_op \<Rightarrow> 's UsersService \<Rightarrow> 's UsersService" where
  "users_apply E org (Op_invite F inviter dto) st = snd (users_invite E F org inviter dto st)"
| "users_apply E org (Op_update now uid dto) st = snd (users_update E now uid org dto st)"
| "users_apply E org (Op_deactivate now uid req) st = snd (users_deactivate E now uid org req st)"

definition users_good :: "'s UsersService \<Rightarrow> bool" where
  "users_good st \<longleftrightarrow> keyed u_id (uv_users st)"

fun users_valid :: "users_op \<Rightarrow> 's UsersService \<Rightarrow> bool" where
  "users_valid (Op_invite F inviter dto) st = (fv_id F \<notin> u_id ` set (uv_users st))"
| "users_valid _ st = True"

lemma users_findById_Inr:
  assumes "repository (ue_users E) u_id" and "users_findById E uid org st = Inr u"
  shows "u \<in> set (uv_users st) \<and> u_id u = uid \<and> u_organizationId u = org"
  using assms(2) repository.find_one_SomeD [OF assms(1)]
  by (auto simp: users_findById_def split: option.splits)

lemma users_after_invite:
  "uv_users (snd (users_invite E F org inviter dto st)) = uv_users st \<or>
   (\<exists>u. u_id u = fv_id F \<and> u_organizationId u = org \<and>
      uv_users (snd (users_invite E F org inviter dto st)) = orm_save (ue_users E) u (uv_users st))"
proof (cases "find_one (ue_users E) (\<lambda>u. u_email u = toLowerCase (iu_email dto)
    \<and> u_organizationId u = org) (uv_users st)")
  case None
  let ?u = "new_user (fv_now F) (fv_id F) org (toLowerCase (iu_email dto)) (ue_hash E (fv_password F))
    [] [] (iu_role dto) (Some inviter)"
  have "uv_users (snd (users_invite E F org inviter dto st)) = orm_save (ue_users E) ?u (uv_users st)"
    using None by (simp add: users_invite_def Let_def split: prod.splits)
  then show ?thesis by (auto simp: new_user_def intro!: exI [of _ ?u])
qed (simp add: users_invite_def)

lemma users_after_update:
  assumes "repository (ue_users E) u_id"
  shows "uv_users (snd (users_update E now uid org dto st)) = uv_users st \<or>
   (\<exists>u u'. u \<in> set (uv_users st) \<and> u_organizationId u = org \<and> u_id u' = u_id u \<and>
      u_organizationId u' = org \<and>
      uv_users (snd (users_update E now uid org dto st)) = orm_save (ue_users E) u' (uv_users st))"
proof (cases "users_findById E uid org st")
  case (Inr u)
  define u' where "u' = touched (\<lambda>u. u\<lparr>u_updatedAt := now\<rparr>) u (patch (up_firstName dto) (\<lambda>v u. u\<lparr>u_firstName := v\<rparr>)
      (patch (up_lastName dto) (\<lambda>v u. u\<lparr>u_lastName := v\<rparr>)
      (patch (up_role dto) (\<lambda>v u. u\<lparr>u_role := v\<rparr>) u)))"
  have "u_id u' = u_id u" "u_organizationId u' = u_organizationId u"
    by (simp_all add: u'_def touched_def patch_keeps [where g = u_id] patch_keeps [where g = u_organizationId])
  moreover have "uv_users (snd (users_update E now uid org dto st)) =
      orm_save (ue_users E) u' (uv_users st)"
    using Inr by (simp add: users_update_def u'_def Let_def)
  ultimately show ?thesis using users_findById_Inr [OF assms Inr] by metis
qed (simp add: users_update_def)

lemma users_tenant_ops:
  fixes E :: "'s users_env"
  assumes R: "repository (ue_users E) u_id"
  shows "tenant_ops u_organizationId uv_users users_good users_valid (users_apply E)"
proof unfold_locales
  fix s :: "'s UsersService" and p org org'
  assume good: "users_good s" and valid: "users_valid p s"
  note eq = repository.keyed_eq [OF R good [unfolded users_good_def]]
  note iso = repository.save_isolated [OF R] repository.update_isolated [OF R]
  show "users_good (users_apply E org p s)"
  proof (cases p)
    case (Op_invite F inviter dto)
    then show ?thesis using users_after_invite [of E F org inviter dto s] good
      by (auto simp: users_good_def repository.keyed_save [OF R])
  next
    case (Op_update now uid dto)
    then show ?thesis using users_after_update [OF R, of now uid org dto s] good
      by (auto simp: users_good_def repository.keyed_save [OF R])
  next
    case (Op_deactivate now uid req)
    then show ?thesis using good
      by (auto simp: users_good_def users_deactivate_def repository.keyed_update [OF R] split: sum.splits)
  qed
  assume ne: "org' \<noteq> org"
  show "rows_of_org u_organizationId org (uv_users (users_apply E org' p s)) =
      rows_of_org u_organizationId org (uv_users s)"
  proof (cases p)
    case (Op_invite F inviter dto)
    from users_after_invite [of E F org' inviter dto s] show ?thesis
    proof (elim disjE exE conjE)
      fix u assume u: "u_id u = fv_id F" "u_organizationId u = org'"
        "uv_users (snd (users_invite E F org' inviter dto s)) = orm_save (ue_users E) u (uv_users s)"
      have "\<forall>r \<in> set (uv_users s). u_id r = u_id u \<longrightarrow> u_organizationId r \<noteq> org"
        using valid u(1) unfolding Op_invite users_valid.simps by (metis imageI)
      then show ?thesis
        using u ne iso(1) [of "uv_users s" u u_organizationId org] by (simp add: Op_invite)
    qed (simp add: Op_invite)
  next
    case (Op_update now uid dto)
    from users_after_update [OF R, of now uid org' dto s] show ?thesis
    proof (elim disjE exE conjE)
      fix u u' assume u: "u \<in> set (uv_users s)" "u_organizationId u = org'" "u_id u' = u_id u"
        "u_organizationId u' = org'"
        "uv_users (snd (users_update E now uid org' dto s)) = orm_save (ue_users E) u' (uv_users s)"
      have "\<forall>r \<in> set (uv_users s). u_id r = u_id u' \<longrightarrow> u_organizationId r \<noteq> org"
        using eq [OF _ u(1)] u(2,3) ne by auto
      then show ?thesis using u ne Op_update iso(1) [of "uv_users s" u' u_organizationId org] by simp
    qed (simp add: Op_update)
  next
    case (Op_deactivate now uid req)
    show ?thesis
    proof (cases "uid = req \<or> (\<exists>e. users_findById E uid org' s = Inl e)")
      case True
      then show ?thesis by (auto simp: Op_deactivate users_deactivate_def)
    next
      case False
      then obtain u where u: "users_findById E uid org' s = Inr u" by (cases "users_findById E uid org' s") auto
      have "u_organizationId r \<noteq> org" if "u_id r = u_id u" "r \<in> set (uv_users s)" for r
        using eq [OF that(2) _ that(1)] users_findById_Inr [OF R u] ne by auto
      then show ?thesis using False u by (auto simp: Op_deactivate users_deactivate_def intro!: iso(2))
    qed
  qed
qed

definition list_users_env :: "(string \<Rightarrow> string) \<Rightarrow> 's kv \<Rightarrow> 's users_env" where
  "list_users_env hash K = \<lparr>ue_users = typeorm_list u_id, ue_orgs = typeorm_list org_id,
     ue_devices = typeorm_list ad_id, ue_logs = typeorm_list lg_id, ue_kv = K, ue_hash = hash\<rparr>"

interpretation users_tenancy: tenant_ops u_organizationId uv_users users_good users_valid
  "users_apply (list_users_env hash K)" for hash and K :: "'s kv"
  by (rule users_tenant_ops) (simp add: list_users_env_def)

text \<open>
  C13. Whatever administrators of other organisations invite, edit and deactivate, in any order,
  the user rows of an organisation stay the same.
\<close>

theorem users_isolated:
  assumes "repository (ue_users E) u_id" and "keyed u_id (uv_users st)"
    and "ops_valid users_valid (users_apply E) ops st" and "org \<notin> fst ` set ops"
  shows "rows_of_org u_organizationId org (uv_users (org_runs (users_apply E) ops st)) =
    rows_of_org u_organizationId org (uv_users st)"
  using tenant_ops.runs_isolated [OF users_tenant_ops [OF assms(1)] _ assms(3,4)] assms(2)
  by (simp add: users_good_def)

definition two_orgs :: "unit UsersService" where
  "two_orgs = \<lparr>uv_users = [new_user 0 ''a'' ''o1'' ''a@x'' [] ''A'' [] ADMIN None,
      new_user 0 ''b'' ''o2'' ''b@x'' [] ''B'' [] ADMIN None],
     uv_orgs = [], uv_devices = [], uv_audit = [], uv_kv = (), uv_mail = []\<rparr>"

theorem users_isolated_witness:
  "rows_of_org u_organizationId ''o1'' (uv_users (org_runs (users_apply (list_users_env id undefined))
      [(''o2'', Op_deactivate 5 ''a'' ''b''), (''o2'', Op_update 6 ''b'' \<lparr>up_firstName = Some ''C'',
        up_lastName = None, up_role = None\<rparr>)] two_orgs)) =
    rows_of_org u_organizationId ''o1'' (uv_users two_orgs)"
  by (rule users_isolated) (simp_all add: two_orgs_def list_users_env_def keyed_def new_user_def)

end
