(* ===== verification/Auth.thy ===== *)
theory Auth
  imports Users
begin

text \<open>
  AuthService and JwtStrategy (modules/auth): registration of an organisation with its first
  administrator, login, refresh tokens that are rotated on use, logout, and the flows that spend
  a mail token. bcrypt and the JWT signature are third-party code: \<open>ax_hash\<close> (salt and
  password), \<open>ax_compare\<close> and \<open>ax_sign\<close> are arguments. Random values, generated ids and the clock
  of one call are a record \<open>fresh_auth\<close>.
\<close>

record RegisterDto =
  rg_organizationName :: string
  rg_firstName :: string
  rg_lastName :: string
  rg_email :: string
  rg_password :: string

record LoginDto =
  ln_email :: string
  ln_password :: string

record JwtPayload =
  jp_sub :: string
  jp_orgId :: string
  jp_role :: string
  jp_email :: string

record 's auth_env =
  ax_users :: "User orm"
  ax_orgs :: "Organization orm"
  ax_tokens :: "RefreshToken orm"
  ax_subs :: "Subscription orm"
  ax_kv :: "'s kv"
  ax_sign :: "js_time \<Rightarrow> JwtPayload \<Rightarrow> string"
  ax_hash :: "string \<Rightarrow> string \<Rightarrow> string"
  ax_compare :: "string \<Rightarrow> string \<Rightarrow> bool"

record 's AuthService =
  au_users :: "User list"
  au_orgs :: "Organization list"
  au_tokens :: "RefreshToken list"
  au_subs :: "Subscription list"
  au_kv :: 's
  au_mail :: "mail list"

record fresh_auth =
  fa_now :: js_time
  fa_orgId :: string
  fa_subId :: string
  fa_userId :: string
  fa_rowId :: string
  fa_slugHex :: string
  fa_refresh :: string
  fa_mailToken :: string
  fa_salt :: string

record PublicUser =
  pu_id :: string
  pu_email :: string
  pu_firstName :: string
  pu_lastName :: string
  pu_role :: UserRole
  pu_organizationId :: string

record AuthResult =
  tr_accessToken :: string
  tr_refreshToken :: string
  tr_user :: PublicUser

section \<open>Issuing tokens\<close>

definition jwt_payload :: "User \<Rightarrow> JwtPayload" where
  "jwt_payload user = \<lparr>jp_sub = u_id user, jp_orgId = u_organizationId user,
     jp_role = role_str (u_role user), jp_email = u_email user\<rparr>"

definition new_refresh :: "fresh_auth \<Rightarrow> User \<Rightarrow> RefreshToken" where
  "new_refresh F user = \<lparr>rt_id = fa_rowId F, rt_userId = u_id user,
     rt_organizationId = u_organizationId user, rt_token = fa_refresh F,
     rt_expiresAt = fa_now F + 7 * 24 * 60 * 60 * 1000, rt_revoked = False, rt_revokedAt = None,
     rt_createdAt = fa_now F\<rparr>"

definition public_user :: "User \<Rightarrow> PublicUser" where
  "public_user user = \<lparr>pu_id = u_id user, pu_email = u_email user, pu_firstName = u_firstName user,
     pu_lastName = u_lastName user, pu_role = u_role user,
     pu_organizationId = u_organizationId user\<rparr>"

definition generateTokens ::
  "'s auth_env \<Rightarrow> fresh_auth \<Rightarrow> User \<Rightarrow> 's AuthService \<Rightarrow> AuthResult \<times> 's AuthService" where
  "generateTokens E F user st =
     (\<lparr>tr_accessToken = ax_sign E (fa_now F) (jwt_payload user), tr_refreshToken = fa_refresh F,
        tr_user = public_user user\<rparr>,
      st\<lparr>au_tokens := orm_save (ax_tokens E) (new_refresh F user) (au_tokens st)\<rparr>)"

section \<open>Registration\<close>

text \<open>\<open>replace(/[^a-z0-9]+/g, '-')\<close> turns each run of other characters into one dash.\<close>

function dash_runs :: "string \<Rightarrow> string" where
  "dash_runs [] = []"
| "dash_runs (c # cs) = (if slug_char c then c # dash_runs cs
     else CHR ''-'' # dash_runs (dropWhile (\<lambda>x. \<not> slug_char x) cs))"
  by pat_completeness auto

termination
  by (relation "measure length") (auto simp: le_imp_less_Suc length_dropWhile_le)

definition strip_dashes :: "string \<Rightarrow> string" where
  "strip_dashes s = (let s1 = (case s of c # cs \<Rightarrow> if c = CHR ''-'' then cs else s | [] \<Rightarrow> [])
     in if s1 \<noteq> [] \<and> last s1 = CHR ''-'' then butlast s1 else s1)"

definition org_slug_of :: "string \<Rightarrow> string \<Rightarrow> string" where
  "org_slug_of organizationName hex =
     strip_dashes (dash_runs (toLowerCase organizationName)) @ ''-'' @ hex"

definition new_org :: "js_time \<Rightarrow> string \<Rightarrow> string \<Rightarrow> string \<Rightarrow> Organization" where
  "new_org now newId nm slug = \<lparr>org_id = newId, org_name = nm, org_slug = slug, org_plan = STARTER,
     org_seats = 5, org_logoUrl = None, org_website = None, org_timezone = Some ''UTC'',
     org_screenshotIntervalSec = 300, org_isActive = True, org_streamingEnabled = False,
     org_cameraEnabled = False, org_audioEnabled = False, org_maxStreamFps = 1,
     org_dailyBandwidthCapMb = 500, org_createdAt = now, org_updatedAt = now\<rparr>"

definition new_sub :: "js_time \<Rightarrow> string \<Rightarrow> string \<Rightarrow> Subscription" where
  "new_sub now newId organizationId = \<lparr>sub_id = newId, sub_organizationId = organizationId,
     sub_stripeCustomerId = None, sub_stripeSubscriptionId = None, sub_plan = Some ''starter'',
     sub_stripePriceId = None, sub_status = TRIALING, sub_seats = 5, sub_currentPeriodStart = None,
     sub_currentPeriodEnd = None, sub_canceledAt = None, sub_createdAt = now, sub_updatedAt = now\<rparr>"

text \<open>A conflict rolls the transaction back, so the state is the one before.\<close>

definition auth_register ::
  "'s auth_env \<Rightarrow> fresh_auth \<Rightarrow> RegisterDto \<Rightarrow> 's AuthService \<Rightarrow> AuthResult outcome \<times> 's AuthService" where
  "auth_register E F dto st =
     (let slug = org_slug_of (rg_organizationName dto) (fa_slugHex F);
          email = toLowerCase (rg_email dto)
      in if find_one (ax_orgs E) (\<lambda>o1. org_slug o1 = slug) (au_orgs st) \<noteq> None
         then (Inl (Conflict ''Please try again''), st)
         else if find_one (ax_users E) (\<lambda>u. u_email u = email) (au_users st) \<noteq> None
         then (Inl (Conflict ''An account with this email already exists. Please log in instead.''), st)
         else
           let org = new_org (fa_now F) (fa_orgId F) (rg_organizationName dto) slug;
               user = new_user (fa_now F) (fa_userId F) (org_id org) email
                 (ax_hash E (fa_salt F) (rg_password dto)) (rg_firstName dto) (rg_lastName dto) ADMIN None
           in case generateTokens E F user
                (st\<lparr>au_orgs := orm_save (ax_orgs E) org (au_orgs st),
                   au_subs := orm_save (ax_subs E) (new_sub (fa_now F) (fa_subId F) (org_id org)) (au_subs st),
                   au_users := orm_save (ax_users E) user (au_users st)\<rparr>) of
             (res, st') \<Rightarrow> (Inr res, st'))"

section \<open>Sessions\<close>

definition DUMMY_HASH :: string where
  "DUMMY_HASH = ''$2b$12$invalidhashfortimingnormalizationonly00000000000000000000''"

definition auth_login ::
  "'s auth_env \<Rightarrow> fresh_auth \<Rightarrow> LoginDto \<Rightarrow> 's AuthService \<Rightarrow> AuthResult outcome \<times> 's AuthService" where
  "auth_login E F dto st =
     (let user = find_one (ax_users E) (\<lambda>u. toLowerCase (u_email u) = toLowerCase (ln_email dto)
            \<and> u_isActive u) (au_users st);
          hashToCompare = (case user of Some u \<Rightarrow> u_passwordHash u | None \<Rightarrow> DUMMY_HASH);
          valid = ax_compare E (ln_password dto) hashToCompare
      in case user of
           None \<Rightarrow> (Inl (Unauthorized ''Invalid credentials''), st)
         | Some u \<Rightarrow> if \<not> valid then (Inl (Unauthorized ''Invalid credentials''), st)
             else case generateTokens E F u st of (res, st') \<Rightarrow> (Inr res, st'))"

definition blacklist_key :: "string \<Rightarrow> string" where
  "blacklist_key tok = ''blacklist:'' @ tok"

definition auth_logout ::
  "'s auth_env \<Rightarrow> js_time \<Rightarrow> string \<Rightarrow> string \<Rightarrow> 's AuthService \<Rightarrow> 's AuthService" where
  "auth_logout E now userId accessToken st =
     st\<lparr>au_kv := kv_set (ax_kv E) now (blacklist_key accessToken) ''1'' (Some (15 * 60)) (au_kv st),
       au_tokens := orm_update (ax_tokens E) (\<lambda>r. rt_userId r = userId \<and> \<not> rt_revoked r)
         (\<lambda>r. r\<lparr>rt_revoked := True, rt_revokedAt := Some now\<rparr>) (au_tokens st)\<rparr>"

text \<open>
  \<open>None\<close> is a request body without \<open>refreshToken\<close>: the handler has no DTO, nothing rejects it. The handler awaits
  between its reads and its writes; the parts are the pieces that other requests can come between.
\<close>

definition refresh_stored ::
  "'s auth_env \<Rightarrow> js_time \<Rightarrow> string option \<Rightarrow> 's AuthService \<Rightarrow> RefreshToken outcome" where
  "refresh_stored E now refreshToken st =
     (case find_one (ax_tokens E) (\<lambda>r. where_opt (ax_tokens E) refreshToken (rt_token r)
          \<and> \<not> rt_revoked r) (au_tokens st) of
        None \<Rightarrow> Inl (Unauthorized ''Invalid or expired refresh token'')
      | Some stored \<Rightarrow> if rt_expiresAt stored < now
          then Inl (Unauthorized ''Invalid or expired refresh token'') else Inr stored)"

definition refresh_owner :: "'s auth_env \<Rightarrow> RefreshToken \<Rightarrow> 's AuthService \<Rightarrow> User outcome" where
  "refresh_owner E stored st =
     (case find_one (ax_users E) (\<lambda>u. u_id u = rt_userId stored \<and> u_isActive u) (au_users st) of
        None \<Rightarrow> Inl (Unauthorized ''User not found'')
      | Some user \<Rightarrow> Inr user)"

definition refresh_revoke ::
  "'s auth_env \<Rightarrow> js_time \<Rightarrow> RefreshToken \<Rightarrow> 's AuthService \<Rightarrow> 's AuthService" where
  "refresh_revoke E now stored st = st\<lparr>au_tokens := orm_update (ax_tokens E) (\<lambda>r. rt_id r = rt_id stored)
     (\<lambda>r. r\<lparr>rt_revoked := True, rt_revokedAt := Some now\<rparr>) (au_tokens st)\<rparr>"

text \<open>The handler when no other request comes in between.\<close>

definition refreshTokens ::
  "'s auth_env \<Rightarrow> fresh_auth \<Rightarrow> string option \<Rightarrow> 's AuthService \<Rightarrow>
   AuthResult outcome \<times> 's AuthService" where
  "refreshTokens E F refreshToken st =
     (case refresh_stored E (fa_now F) refreshToken st of
        Inl e \<Rightarrow> (Inl e, st)
      | Inr stored \<Rightarrow> (case refresh_owner E stored st of
          Inl e \<Rightarrow> (Inl e, st)
        | Inr user \<Rightarrow> (case generateTokens E F user (refresh_revoke E (fa_now F) stored st) of
            (res, st') \<Rightarrow> (Inr res, st'))))"

lemma refreshTokens_eq:
  "refreshTokens E F refreshToken st =
     (case find_one (ax_tokens E) (\<lambda>r. where_opt (ax_tokens E) refreshToken (rt_token r)
          \<and> \<not> rt_revoked r) (au_tokens st) of
        None \<Rightarrow> (Inl (Unauthorized ''Invalid or expired refresh token''), st)
      | Some stored \<Rightarrow>
          if rt_expiresAt stored < fa_now F
          then (Inl (Unauthorized ''Invalid or expired refresh token''), st)
          else case find_one (ax_users E) (\<lambda>u. u_id u = rt_userId stored \<and> u_isActive u) (au_users st) of
            None \<Rightarrow> (Inl (Unauthorized ''User not found''), st)
          | Some user \<Rightarrow>
              (case generateTokens E F user (st\<lparr>au_tokens := orm_update (ax_tokens E)
                  (\<lambda>r. rt_id r = rt_id stored)
                  (\<lambda>r. r\<lparr>rt_revoked := True, rt_revokedAt := Some (fa_now F)\<rparr>) (au_tokens st)\<rparr>) of
                (res, st') \<Rightarrow> (Inr res, st')))"
  by (auto simp: refreshTokens_def refresh_stored_def refresh_owner_def refresh_revoke_def split: option.split)

definition jwt_validate ::
  "'s auth_env \<Rightarrow> js_time \<Rightarrow> string \<Rightarrow> JwtPayload \<Rightarrow> 's AuthService \<Rightarrow> User outcome \<times> 's AuthService" where
  "jwt_validate E now tok payload st =
     (case kv_exists (ax_kv E) now (blacklist_key tok) (au_kv st) of
        (isBlacklisted, kv) \<Rightarrow>
          if isBlacklisted then (Inl (Unauthorized ''Token has been revoked''), st\<lparr>au_kv := kv\<rparr>)
          else case find_one (ax_users E) (\<lambda>u. u_id u = jp_sub payload
              \<and> u_organizationId u = jp_orgId payload \<and> u_isActive u) (au_users st) of
            None \<Rightarrow> (Inl (Unauthorized ''User not found or inactive''), st\<lparr>au_kv := kv\<rparr>)
          | Some user \<Rightarrow> (Inr user, st\<lparr>au_kv := kv\<rparr>))"

section \<open>Mail tokens\<close>

definition update_user ::
  "'s auth_env \<Rightarrow> js_time \<Rightarrow> string \<Rightarrow> (User \<Rightarrow> User) \<Rightarrow> 's AuthService \<Rightarrow> 's AuthService" where
  "update_user E now userId f st = st\<lparr>au_users := orm_update (ax_users E) (\<lambda>u. u_id u = userId)
     (\<lambda>u. (f u)\<lparr>u_updatedAt := now\<rparr>) (au_users st)\<rparr>"

definition verifyEmail ::
  "'s auth_env \<Rightarrow> js_time \<Rightarrow> string \<Rightarrow> 's AuthService \<Rightarrow> unit outcome \<times> 's AuthService" where
  "verifyEmail E now tok st =
     (case token_consume (ax_kv E) now Email_verify tok (au_kv st) of (userId, kv) \<Rightarrow>
        if falsy_str userId
        then (Inl (BadRequest ''Invalid or expired verification token''), st\<lparr>au_kv := kv\<rparr>)
        else (Inr (), update_user E now (the userId) (\<lambda>u. u\<lparr>u_emailVerified := True\<rparr>) (st\<lparr>au_kv := kv\<rparr>)))"

definition resendVerification ::
  "'s auth_env \<Rightarrow> fresh_auth \<Rightarrow> string \<Rightarrow> 's AuthService \<Rightarrow> unit outcome \<times> 's AuthService" where
  "resendVerification E F userId st =
     (case find_one (ax_users E) (\<lambda>u. u_id u = userId) (au_users st) of
        None \<Rightarrow> (Inl (NotFound ''User not found''), st)
      | Some user \<Rightarrow> if u_emailVerified user then (Inr (), st)
          else case token_generate (ax_kv E) (fa_now F) (fa_mailToken F) Email_verify userId (au_kv st) of
            (tok, kv) \<Rightarrow> (Inr (), st\<lparr>au_kv := kv,
              au_mail := au_mail st @ [Verification_email (u_email user) tok]\<rparr>))"

definition forgotPassword ::
  "'s auth_env \<Rightarrow> fresh_auth \<Rightarrow> string \<Rightarrow> 's AuthService \<Rightarrow> 's AuthService" where
  "forgotPassword E F email st =
     (case find_one (ax_users E) (\<lambda>u. u_email u = email) (au_users st) of
        None \<Rightarrow> st
      | Some user \<Rightarrow>
          (case token_generate (ax_kv E) (fa_now F) (fa_mailToken F) Password_reset (u_id user) (au_kv st) of
            (tok, kv) \<Rightarrow> st\<lparr>au_kv := kv,
              au_mail := au_mail st @ [Password_reset_email (u_email user) tok]\<rparr>))"

definition resetPassword ::
  "'s auth_env \<Rightarrow> fresh_auth \<Rightarrow> string \<Rightarrow> string \<Rightarrow> 's AuthService \<Rightarrow> unit outcome \<times> 's AuthService" where
  "resetPassword E F tok newPassword st =
     (case token_consume (ax_kv E) (fa_now F) Password_reset tok (au_kv st) of (userId, kv) \<Rightarrow>
        if falsy_str userId
        then (Inl (BadRequest ''Invalid or expired reset token''), st\<lparr>au_kv := kv\<rparr>)
        else let st' = update_user E (fa_now F) (the userId)
            (\<lambda>u. u\<lparr>u_passwordHash := ax_hash E (fa_salt F) newPassword\<rparr>) (st\<lparr>au_kv := kv\<rparr>)
          in (Inr (), st'\<lparr>au_tokens :=
            orm_delete (ax_tokens E) (\<lambda>r. rt_userId r = the userId) (au_tokens st')\<rparr>))"

definition acceptInvite ::
  "'s auth_env \<Rightarrow> fresh_auth \<Rightarrow> string \<Rightarrow> string \<Rightarrow> string \<Rightarrow> string \<Rightarrow> 's AuthService \<Rightarrow>
   unit outcome \<times> 's AuthService" where
  "acceptInvite E F tok firstName lastName password st =
     (case token_consume (ax_kv E) (fa_now F) Invite tok (au_kv st) of (userId, kv) \<Rightarrow>
        if falsy_str userId
        then (Inl (BadRequest ''Invalid or expired invite token''), st\<lparr>au_kv := kv\<rparr>)
        else (Inr (), update_user E (fa_now F) (the userId)
            (\<lambda>u. u\<lparr>u_firstName := firstName, u_lastName := lastName,
              u_passwordHash := ax_hash E (fa_salt F) password, u_emailVerified := True\<rparr>)
            (st\<lparr>au_kv := kv\<rparr>)))"

section \<open>Runs of the service\<close>

datatype auth_op =
    Register RegisterDto
  | Login LoginDto
  | Logout string string
  | Refresh "string option"
  | Verify_email string
  | Resend_verification string
  | Forgot_password string
  | Reset_password string string
  | Accept_invite string string string string

fun auth_apply :: "'s auth_env \<Rightarrow> fresh_auth \<times> auth_op \<Rightarrow> 's AuthService \<Rightarrow> 's AuthService" where
  "auth_apply E (F, Register dto) st = snd (auth_register E F dto st)"
| "auth_apply E (F, Login dto) st = snd (auth_login E F dto st)"
| "auth_apply E (F, Logout userId tok) st = auth_logout E (fa_now F) userId tok st"
| "auth_apply E (F, Refresh tok) st = snd (refreshTokens E F tok st)"
| "auth_apply E (F, Verify_email tok) st = snd (verifyEmail E (fa_now F) tok st)"
| "auth_apply E (F, Resend_verification userId) st = snd (resendVerification E F userId st)"
| "auth_apply E (F, Forgot_password email) st = forgotPassword E F email st"
| "auth_apply E (F, Reset_password tok pw) st = snd (resetPassword E F tok pw st)"
| "auth_apply E (F, Accept_invite tok f l pw) st = snd (acceptInvite E F tok f l pw st)"

abbreviation auth_runs ::
  "'s auth_env \<Rightarrow> (fresh_auth \<times> auth_op) list \<Rightarrow> 's AuthService \<Rightarrow> 's AuthService" where
  "auth_runs E \<equiv> fold (auth_apply E)"

lemmas auth_defs = auth_register_def auth_login_def auth_logout_def refreshTokens_eq
  verifyEmail_def resendVerification_def forgotPassword_def resetPassword_def acceptInvite_def
  update_user_def generateTokens_def

section \<open>A spent refresh token stays spent\<close>

text \<open>No row holds the token unrevoked.\<close>

definition spent :: "string \<Rightarrow> 's AuthService \<Rightarrow> bool" where
  "spent tok st \<longleftrightarrow> (\<forall>r \<in> set (au_tokens st). rt_token r = tok \<longrightarrow> rt_revoked r)"

text \<open>What a call does to the table: rows are dropped or revoked, and one row may be added.\<close>

definition only_revokes :: "RefreshToken list \<Rightarrow> RefreshToken list \<Rightarrow> string \<Rightarrow> bool" where
  "only_revokes t t' issued \<longleftrightarrow> (\<forall>r' \<in> set t'. rt_token r' = issued \<or>
     (\<exists>r \<in> set t. rt_token r' = rt_token r \<and> (rt_revoked r \<longrightarrow> rt_revoked r')))"

lemma only_revokes_refl [simp]: "only_revokes t t i"
  by (auto simp: only_revokes_def)

lemma only_revokes_trans:
  "only_revokes t t' i \<Longrightarrow> only_revokes t' t'' i \<Longrightarrow> only_revokes t t'' i"
  unfolding only_revokes_def by metis

lemma only_revokes_save:
  "repository R rt_id \<Longrightarrow> rt_token e = i \<Longrightarrow> only_revokes t (orm_save R e t) i"
  by (auto simp: only_revokes_def repository.set_save)

lemma only_revokes_update:
  "repository R rt_id \<Longrightarrow> only_revokes t (orm_update R P (\<lambda>r. r\<lparr>rt_revoked := True, rt_revokedAt := v\<rparr>) t) i"
  by (auto simp: only_revokes_def repository.set_update)

lemma only_revokes_delete: "repository R rt_id \<Longrightarrow> only_revokes t (orm_delete R P t) i"
  by (auto simp: only_revokes_def repository.set_delete)

lemma auth_apply_tokens:
  assumes R: "repository (ax_tokens E) rt_id"
  shows "only_revokes (au_tokens st) (au_tokens (auth_apply E (F, p) st)) (fa_refresh F)"
proof -
  note saves = only_revokes_save [OF R] only_revokes_update [OF R] only_revokes_delete [OF R]
  show ?thesis
  proof (cases p)
    case (Refresh tok)
    then show ?thesis
      by (auto simp: auth_defs new_refresh_def saves
          intro!: only_revokes_trans [OF saves(2) saves(1)] split: option.splits)
  qed (auto simp: auth_defs new_refresh_def saves Let_def split: option.splits prod.splits if_splits)
qed

lemma spent_kept:
  "repository (ax_tokens E) rt_id \<Longrightarrow> spent tok st \<Longrightarrow> fa_refresh F \<noteq> tok \<Longrightarrow>
   spent tok (auth_apply E (F, p) st)"
  using auth_apply_tokens [of E st F p] unfolding spent_def only_revokes_def by metis

lemma spent_runs:
  assumes R: "repository (ax_tokens E) rt_id" and "spent tok st"
    and "tok \<notin> (\<lambda>(F, p). fa_refresh F) ` set ops"
  shows "spent tok (auth_runs E ops st)"
  using assms(2,3)
proof (induction ops arbitrary: st)
  case (Cons q ops)
  obtain F p where q: "q = (F, p)" by fastforce
  then have "spent tok (auth_apply E (F, p) st)"
    using Cons.prems by (intro spent_kept [OF R]) auto
  then show ?case using Cons.IH Cons.prems q by auto
qed simp

lemma spent_refused:
  assumes R: "repository (ax_tokens E) rt_id" and "spent tok st"
  shows "refreshTokens E F (Some tok) st = (Inl (Unauthorized ''Invalid or expired refresh token''), st)"
proof -
  have "find_one (ax_tokens E) (\<lambda>r. where_opt (ax_tokens E) (Some tok) (rt_token r) \<and> \<not> rt_revoked r)
      (au_tokens st) = None"
    using assms(2) by (auto simp: repository.find_one_None [OF R] where_opt_def spent_def)
  then show ?thesis by (simp add: refreshTokens_eq)
qed

lemma refresh_spends:
  assumes R: "repository (ax_tokens E) rt_id"
    and K: "keyed rt_token (au_tokens st)"
    and ex: "refreshTokens E F (Some tok) st = (Inr res, st1)" and new: "fa_refresh F \<noteq> tok"
  shows "spent tok st1"
proof -
  obtain r where r: "find_one (ax_tokens E) (\<lambda>r. where_opt (ax_tokens E) (Some tok) (rt_token r)
      \<and> \<not> rt_revoked r) (au_tokens st) = Some r"
    using ex by (auto simp: refreshTokens_eq split: option.splits)
  then have r': "r \<in> set (au_tokens st)" "rt_token r = tok"
    using repository.find_one_SomeD [OF R r] by (auto simp: where_opt_def)
  have st1: "au_tokens st1 = orm_save (ax_tokens E) (new_refresh F user)
      (orm_update (ax_tokens E) (\<lambda>x. rt_id x = rt_id r)
        (\<lambda>x. x\<lparr>rt_revoked := True, rt_revokedAt := Some (fa_now F)\<rparr>) (au_tokens st))"
    if "find_one (ax_users E) (\<lambda>u. u_id u = rt_userId r \<and> u_isActive u) (au_users st) = Some user" for user
    using ex r that by (auto simp: refreshTokens_eq generateTokens_def split: if_splits)
  have "\<exists>user. find_one (ax_users E) (\<lambda>u. u_id u = rt_userId r \<and> u_isActive u) (au_users st) = Some user"
    using ex r by (auto simp: refreshTokens_eq split: if_splits option.splits)
  then obtain user where
    "find_one (ax_users E) (\<lambda>u. u_id u = rt_userId r \<and> u_isActive u) (au_users st) = Some user" ..
  note t1 = st1 [OF this]
  have only: "rt_id x = rt_id r" if "x \<in> set (au_tokens st)" "rt_token x = tok" for x
    using keyed_same [OF K that(1) r'(1)] that(2) r'(2) by simp
  show ?thesis
    unfolding spent_def t1 repository.set_save [OF R] repository.set_update [OF R]
    using new only by (auto simp: new_refresh_def)
qed

text \<open>
  C14. When no two calls overlap, a refresh token is good for one exchange: once it has been exchanged, no sequence
  of calls, whoever makes them, makes it acceptable again, unless the generator repeats it.
\<close>

theorem refresh_single_use:
  assumes R: "repository (ax_tokens E) rt_id"
    and K: "keyed rt_token (au_tokens st)"
    and ex: "refreshTokens E F (Some tok) st = (Inr res, st1)" and new: "fa_refresh F \<noteq> tok"
    and ops: "tok \<notin> (\<lambda>(G, p). fa_refresh G) ` set ops"
  shows "fst (refreshTokens E G (Some tok) (auth_runs E ops st1)) =
    Inl (Unauthorized ''Invalid or expired refresh token'')"
  using spent_refused [OF R spent_runs [OF R refresh_spends [OF R K ex new] ops]] by simp

definition plain_auth :: "'s kv \<Rightarrow> 's auth_env" where
  "plain_auth K = \<lparr>ax_users = typeorm_list u_id, ax_orgs = typeorm_list org_id,
     ax_tokens = typeorm_list rt_id, ax_subs = typeorm_list sub_id, ax_kv = K,
     ax_sign = (\<lambda>t p. ''jwt'' @ jp_sub p), ax_hash = (\<lambda>s pw. s @ pw), ax_compare = (\<lambda>pw h. h = ''s'' @ pw)\<rparr>"

lemma plain_auth_simps [simp]:
  "ax_users (plain_auth K) = typeorm_list u_id" "ax_tokens (plain_auth K) = typeorm_list rt_id"
  "ax_orgs (plain_auth K) = typeorm_list org_id" "ax_subs (plain_auth K) = typeorm_list sub_id"
  "ax_kv (plain_auth K) = K" "ax_sign (plain_auth K) = (\<lambda>t p. ''jwt'' @ jp_sub p)"
  "ax_hash (plain_auth K) = (\<lambda>s pw. s @ pw)" "ax_compare (plain_auth K) = (\<lambda>pw h. h = ''s'' @ pw)"
  by (simp_all add: plain_auth_def)

definition nonce :: "js_time \<Rightarrow> string \<Rightarrow> fresh_auth" where
  "nonce t tok = \<lparr>fa_now = t, fa_orgId = ''o'', fa_subId = ''s'', fa_userId = ''u'', fa_rowId = tok,
     fa_slugHex = ''abc'', fa_refresh = tok, fa_mailToken = tok, fa_salt = ''s''\<rparr>"

lemma nonce_simps [simp]:
  "fa_now (nonce t tok) = t" "fa_orgId (nonce t tok) = ''o''" "fa_subId (nonce t tok) = ''s''"
  "fa_userId (nonce t tok) = ''u''" "fa_rowId (nonce t tok) = tok" "fa_slugHex (nonce t tok) = ''abc''"
  "fa_refresh (nonce t tok) = tok" "fa_mailToken (nonce t tok) = tok" "fa_salt (nonce t tok) = ''s''"
  by (simp_all add: nonce_def)

definition one_user :: "'s \<Rightarrow> 's AuthService" where
  "one_user kv = \<lparr>au_users = [new_user 0 ''u'' ''o'' ''a@x'' ''spw'' ''A'' [] ADMIN None], au_orgs = [],
     au_tokens = [new_refresh (nonce 0 ''r0'') (new_user 0 ''u'' ''o'' ''a@x'' ''spw'' ''A'' [] ADMIN None)],
     au_subs = [], au_kv = kv, au_mail = []\<rparr>"

lemma one_user_simps [simp]:
  "au_users (one_user kv) = [new_user 0 ''u'' ''o'' ''a@x'' ''spw'' ''A'' [] ADMIN None]"
  "au_tokens (one_user kv) =
    [new_refresh (nonce 0 ''r0'') (new_user 0 ''u'' ''o'' ''a@x'' ''spw'' ''A'' [] ADMIN None)]"
  "au_kv (one_user kv) = kv" "au_orgs (one_user kv) = []" "au_subs (one_user kv) = []"
  "au_mail (one_user kv) = []"
  by (simp_all add: one_user_def)

lemma refresh_one_user:
  "\<exists>res st1. refreshTokens (plain_auth K) (nonce 5 ''r1'') (Some ''r0'') (one_user kv) = (Inr res, st1)"
  by (simp add: refreshTokens_eq generateTokens_def new_refresh_def new_user_def where_opt_def)

theorem refresh_single_use_witness:
  "\<exists>st1. fst (refreshTokens (plain_auth file_kv) (nonce 9 ''r2'') (Some ''r0'')
      (auth_runs (plain_auth file_kv) [(nonce 6 ''r3'', Login \<lparr>ln_email = ''a@x'', ln_password = ''pw''\<rparr>)]
        st1)) = Inl (Unauthorized ''Invalid or expired refresh token'')"
proof -
  obtain res st1 where ex:
    "refreshTokens (plain_auth file_kv) (nonce 5 ''r1'') (Some ''r0'') (one_user empty_redis) = (Inr res, st1)"
    using refresh_one_user [where kv = empty_redis] by blast
  show ?thesis
    by (rule exI, rule refresh_single_use [OF _ _ ex]) (simp_all add: keyed_def)
qed

section \<open>Logging out\<close>

lemma blacklist_not_token [simp]:
  "blacklist_key a \<noteq> token_key p b" "token_key p b \<noteq> blacklist_key a"
  by (cases p; simp add: blacklist_key_def token_key_def)+

lemma blacklist_key_inj [simp]: "blacklist_key a = blacklist_key b \<longleftrightarrow> a = b"
  by (simp add: blacklist_key_def)

context kv_store
begin

lemma token_calls_keep_blacklist:
  assumes "t \<le> t'"
  shows "live t' (blacklist_key tok) (snd (token_consume K t p x s)) = live t' (blacklist_key tok) s"
    and "live t' (blacklist_key tok) (snd (token_generate K t r p u s)) = live t' (blacklist_key tok) s"
  using assms by (simp_all add: consume_frame generate_live)

end

lemma auth_keeps_blacklisted:
  assumes S: "kv_store (ax_kv E) live" and "fa_now F \<le> t'" and "t' \<le> fa_now F + 15 * 60 * 1000"
    and "live t' (blacklist_key tok) (au_kv st) \<noteq> None"
  shows "live t' (blacklist_key tok) (au_kv (auth_apply E (F, p) st)) \<noteq> None"
proof -
  note frames = kv_store.token_calls_keep_blacklist [OF S assms(2)]
  have consume: "live t' (blacklist_key tok) kv \<noteq> None"
    if "token_consume (ax_kv E) (fa_now F) q x (au_kv st) = (v, kv)" for q x v kv
    using frames(1) [of tok q x "au_kv st"] that assms(4) by simp
  have generate: "live t' (blacklist_key tok) kv \<noteq> None"
    if "token_generate (ax_kv E) (fa_now F) r q x (au_kv st) = (v, kv)" for q x v kv r
    using frames(2) [of tok r q x "au_kv st"] that assms(4) by simp
  show ?thesis
  proof (cases p)
    case (Logout userId a)
    then show ?thesis using assms
      by (simp add: auth_logout_def kv_store.set_live [OF S assms(2)] unexpired_def)
  qed (use assms(4) consume generate in
      \<open>auto simp: auth_defs Let_def split: option.splits prod.splits if_splits\<close>)
qed

lemma auth_runs_blacklisted:
  assumes S: "kv_store (ax_kv E) live" and "t' \<le> t0 + 15 * 60 * 1000"
    and "live t' (blacklist_key tok) (au_kv st) \<noteq> None"
    and "\<forall>(F, p) \<in> set ops. t0 \<le> fa_now F \<and> fa_now F \<le> t'"
  shows "live t' (blacklist_key tok) (au_kv (auth_runs E ops st)) \<noteq> None"
  using assms(3,4)
proof (induction ops arbitrary: st)
  case (Cons q ops)
  obtain F p where q: "q = (F, p)" by fastforce
  then have "live t' (blacklist_key tok) (au_kv (auth_apply E (F, p) st)) \<noteq> None"
    using Cons.prems assms(2) by (intro auth_keeps_blacklisted [OF S]) auto
  then show ?case using Cons.IH Cons.prems(2) q by auto
qed simp

lemma blacklisted_refused:
  assumes S: "kv_store (ax_kv E) live" and "live t (blacklist_key tok) (au_kv st) \<noteq> None"
  shows "fst (jwt_validate E t tok payload st) = Inl (Unauthorized ''Token has been revoked'')"
  using assms(2) kv_store.exists_live [OF S, of t "blacklist_key tok" "au_kv st"]
  by (auto simp: jwt_validate_def split: prod.splits)

lemma auth_keeps_blacklist:
  assumes S: "kv_store (ax_kv E) live" and "fa_now F \<le> t'" and "\<And>u. p \<noteq> Logout u tok"
  shows "live t' (blacklist_key tok) (au_kv (auth_apply E (F, p) st)) = live t' (blacklist_key tok) (au_kv st)"
proof -
  note frames = kv_store.token_calls_keep_blacklist [OF S assms(2)]
  have consume: "live t' (blacklist_key tok) kv = live t' (blacklist_key tok) (au_kv st)"
    if "token_consume (ax_kv E) (fa_now F) q x (au_kv st) = (v, kv)" for q x v kv
    using frames(1) [of tok q x "au_kv st"] that by simp
  have generate: "live t' (blacklist_key tok) kv = live t' (blacklist_key tok) (au_kv st)"
    if "token_generate (ax_kv E) (fa_now F) r q x (au_kv st) = (v, kv)" for q x v kv r
    using frames(2) [of tok r q x "au_kv st"] that by simp
  show ?thesis
  proof (cases p)
    case (Logout userId a)
    then show ?thesis using assms(3) [of userId]
      by (auto simp: auth_logout_def kv_store.set_live [OF S assms(2)])
  qed (use consume generate in \<open>auto simp: auth_defs Let_def split: option.splits prod.splits if_splits\<close>)
qed

lemma auth_runs_blacklist:
  assumes S: "kv_store (ax_kv E) live" and "\<forall>(F, p) \<in> set ops. fa_now F \<le> t' \<and> (\<forall>u. p \<noteq> Logout u tok)"
  shows "live t' (blacklist_key tok) (au_kv (auth_runs E ops st)) = live t' (blacklist_key tok) (au_kv st)"
  using assms(2)
proof (induction ops arbitrary: st)
  case (Cons q ops)
  obtain F p where q: "q = (F, p)" by fastforce
  then show ?case using Cons auth_keeps_blacklist [OF S, of F t' p tok st] by auto
qed simp

lemma unlisted_accepted:
  assumes S: "kv_store (ax_kv E) live" and "live t (blacklist_key tok) (au_kv st) = None"
  shows "fst (jwt_validate E t tok payload st) = (case find_one (ax_users E) (\<lambda>u. u_id u = jp_sub payload
      \<and> u_organizationId u = jp_orgId payload \<and> u_isActive u) (au_users st) of
        None \<Rightarrow> Inl (Unauthorized ''User not found or inactive'') | Some user \<Rightarrow> Inr user)"
  using assms(2) kv_store.exists_live [OF S, of t "blacklist_key tok" "au_kv st"]
  by (auto simp: jwt_validate_def split: prod.splits option.splits)

text \<open>
  C15. What logging out ends. Every refresh token the user had is refused from then on, whatever calls come in
  between. The access token that was handed in is refused for fifteen minutes and no longer: after that the
  guard takes it for its owner again, as long as its signature and expiry pass. Fifteen minutes is the default of
  JWT_EXPIRES_IN; the Dockerfile sets seven days.
\<close>

theorem logout_ends_session:
  assumes R: "repository (ax_tokens E) rt_id" and S: "kv_store (ax_kv E) live"
    and K: "keyed rt_token (au_tokens st)"
    and r: "r \<in> set (au_tokens st)" "rt_userId r = userId"
    and t: "t0 \<le> t'"
    and ops: "\<forall>(F, p) \<in> set ops. t0 \<le> fa_now F \<and> fa_now F \<le> t' \<and> fa_refresh F \<noteq> rt_token r"
  shows "let st' = auth_runs E ops (auth_logout E t0 userId accessToken st) in
    fst (refreshTokens E G (Some (rt_token r)) st') =
      Inl (Unauthorized ''Invalid or expired refresh token'') \<and>
    (t' \<le> t0 + 15 * 60 * 1000 \<longrightarrow>
      fst (jwt_validate E t' accessToken payload st') = Inl (Unauthorized ''Token has been revoked'')) \<and>
    (t0 + 15 * 60 * 1000 < t' \<longrightarrow> (\<forall>(F, p) \<in> set ops. \<forall>u. p \<noteq> Logout u accessToken) \<longrightarrow>
      fst (jwt_validate E t' accessToken payload st') =
        (case find_one (ax_users E) (\<lambda>u. u_id u = jp_sub payload
            \<and> u_organizationId u = jp_orgId payload \<and> u_isActive u) (au_users st') of
          None \<Rightarrow> Inl (Unauthorized ''User not found or inactive'') | Some user \<Rightarrow> Inr user))"
proof -
  let ?s = "auth_logout E t0 userId accessToken st"
  have set: "live t' (blacklist_key accessToken) (au_kv ?s) = (if unexpired t0 (Some (15 * 60)) t' then Some ''1'' else None)"
    using t by (simp add: auth_logout_def kv_store.set_live [OF S])
  have "spent (rt_token r) ?s"
    unfolding spent_def auth_logout_def using r keyed_same [OF K _ r(1)]
    by (auto simp: repository.set_update [OF R] split: if_splits)
  then have refused: "spent (rt_token r) (auth_runs E ops ?s)"
    by (rule spent_runs [OF R]) (use ops in auto)
  have listed: "live t' (blacklist_key accessToken) (au_kv (auth_runs E ops ?s)) \<noteq> None"
    if "t' \<le> t0 + 15 * 60 * 1000"
    by (rule auth_runs_blacklisted [OF S that]) (use that t ops set in \<open>auto simp: unexpired_def\<close>)
  have unlisted: "live t' (blacklist_key accessToken) (au_kv (auth_runs E ops ?s)) = None"
    if "t0 + 15 * 60 * 1000 < t'" "\<forall>(F, p) \<in> set ops. \<forall>u. p \<noteq> Logout u accessToken"
    using auth_runs_blacklist [OF S, of ops t' accessToken ?s] that ops set by (auto simp: unexpired_def)
  show ?thesis
    using blacklisted_refused [OF S listed] unlisted_accepted [OF S unlisted] spent_refused [OF R refused]
    by (simp add: Let_def)
qed

theorem logout_ends_session_witness:
  "let st' = auth_runs (plain_auth file_kv)
       [(nonce 1200 ''r1'', Login \<lparr>ln_email = ''a@x'', ln_password = ''pw''\<rparr>)]
       (auth_logout (plain_auth file_kv) 1000 ''u'' ''jwtu'' (one_user empty_redis));
     payload = \<lparr>jp_sub = ''u'', jp_orgId = ''o'', jp_role = ''admin'', jp_email = ''a@x''\<rparr> in
    fst (jwt_validate (plain_auth file_kv) 5000 ''jwtu'' payload st') = Inl (Unauthorized ''Token has been revoked'') \<and>
    fst (jwt_validate (plain_auth file_kv) 901001 ''jwtu'' payload st') =
      Inr (new_user 0 ''u'' ''o'' ''a@x'' ''spw'' ''A'' [] ADMIN None)"
proof -
  let ?r = "new_refresh (nonce 0 ''r0'') (new_user 0 ''u'' ''o'' ''a@x'' ''spw'' ''A'' [] ADMIN None)"
  let ?ops = "[(nonce 1200 ''r1'', Login \<lparr>ln_email = ''a@x'', ln_password = ''pw''\<rparr>)]"
  have hyps: "repository (ax_tokens (plain_auth file_kv)) rt_id" "kv_store (ax_kv (plain_auth file_kv)) (redis_live mem_live)"
    "keyed rt_token (au_tokens (one_user empty_redis))" "?r \<in> set (au_tokens (one_user empty_redis))" "rt_userId ?r = ''u''"
    "1000 \<le> (5000 :: int)" "1000 \<le> (901001 :: int)"
    "\<forall>(F, p) \<in> set ?ops. 1000 \<le> fa_now F \<and> fa_now F \<le> 5000 \<and> fa_refresh F \<noteq> rt_token ?r"
    "\<forall>(F, p) \<in> set ?ops. 1000 \<le> fa_now F \<and> fa_now F \<le> 901001 \<and> fa_refresh F \<noteq> rt_token ?r"
    by (simp_all add: keyed_def new_refresh_def new_user_def map_server.served_store)
  have users: "au_users (auth_apply (plain_auth file_kv) (hd ?ops) (auth_logout (plain_auth file_kv) 1000 ''u'' ''jwtu'' (one_user empty_redis))) =
      [new_user 0 ''u'' ''o'' ''a@x'' ''spw'' ''A'' [] ADMIN None]"
    by (simp add: auth_defs split: option.split)
  note users = users [unfolded list.sel]
  show ?thesis
    using logout_ends_session [OF hyps(1-6,8), where accessToken = "''jwtu''"
        and payload = "\<lparr>jp_sub = ''u'', jp_orgId = ''o'', jp_role = ''admin'', jp_email = ''a@x''\<rparr>"]
      logout_ends_session [OF hyps(1-5,7,9), where accessToken = "''jwtu''"
        and payload = "\<lparr>jp_sub = ''u'', jp_orgId = ''o'', jp_role = ''admin'', jp_email = ''a@x''\<rparr>"]
    by (simp add: Let_def users new_user_def del: auth_apply.simps)
qed

section \<open>A refresh request without a token\<close>

text \<open>
  C16. With TypeORM skipping the undefined operand, a refresh request that carries no token is served as if it
  carried the token of some unrevoked row, whoever owns it: it exchanges that token, and answers with a session of
  its owner unless the row is out of date or the owner inactive. Without an unrevoked row it is refused.
\<close>

theorem missing_refresh_token_logs_in:
  assumes R: "repository (ax_tokens E) rt_id" and K: "keyed rt_token (au_tokens st)"
    and skip: "orm_undefined_ignored (ax_tokens E)"
  shows "if \<exists>r \<in> set (au_tokens st). \<not> rt_revoked r
    then \<exists>r \<in> set (au_tokens st). \<not> rt_revoked r \<and> refreshTokens E F None st = refreshTokens E F (Some (rt_token r)) st \<and>
      (fa_now F \<le> rt_expiresAt r \<longrightarrow> (case refresh_owner E r st of
          Inl e \<Rightarrow> fst (refreshTokens E F None st) = Inl e
        | Inr u \<Rightarrow> fst (refreshTokens E F None st) = Inr \<lparr>tr_accessToken = ax_sign E (fa_now F) (jwt_payload u),
            tr_refreshToken = fa_refresh F, tr_user = public_user u\<rparr>))
    else refreshTokens E F None st = (Inl (Unauthorized ''Invalid or expired refresh token''), st)"
proof -
  let ?P = "\<lambda>tok r. where_opt (ax_tokens E) tok (rt_token r) \<and> \<not> rt_revoked r"
  have P: "?P None r \<longleftrightarrow> \<not> rt_revoked r" for r using skip by (simp add: where_opt_def)
  show ?thesis
  proof (cases "\<exists>r \<in> set (au_tokens st). \<not> rt_revoked r")
    case True
    then obtain r where r: "find_one (ax_tokens E) (?P None) (au_tokens st) = Some r"
      using repository.find_one_ex [OF R, where P = "?P None"] P by blast
    then have r': "r \<in> set (au_tokens st)" "\<not> rt_revoked r" using repository.find_one_SomeD [OF R r] by auto
    have "find_one (ax_tokens E) (?P (Some (rt_token r))) (au_tokens st) = Some r"
      by (rule repository.find_one_unique [OF R r'(1)])
        (use r'(2) keyed_same [OF K _ r'(1)] in \<open>auto simp: where_opt_def\<close>)
    then have "refresh_stored E (fa_now F) None st = refresh_stored E (fa_now F) (Some (rt_token r)) st"
      "fa_now F \<le> rt_expiresAt r \<longrightarrow> refresh_stored E (fa_now F) None st = Inr r"
      using r by (simp_all add: refresh_stored_def)
    then show ?thesis using True r'
      by (intro if_P [THEN iffD2, OF True] bexI [of _ r])
        (auto simp: refreshTokens_def generateTokens_def split: sum.split)
  next
    case False
    then have "find_one (ax_tokens E) (?P None) (au_tokens st) = None"
      by (auto simp: repository.find_one_None [OF R])
    then show ?thesis using False by (simp add: refreshTokens_def refresh_stored_def)
  qed
qed

theorem missing_refresh_token_logs_in_witness:
  "\<exists>r \<in> set (au_tokens (one_user empty_redis)).
    refreshTokens (plain_auth file_kv) (nonce 5 ''r1'') None (one_user empty_redis) =
    refreshTokens (plain_auth file_kv) (nonce 5 ''r1'') (Some (rt_token r)) (one_user empty_redis)"
proof -
  have "if \<exists>r \<in> set (au_tokens (one_user empty_redis)). \<not> rt_revoked r then ?thesis else True"
    using missing_refresh_token_logs_in [of "plain_auth file_kv" "one_user empty_redis" "nonce 5 ''r1''"]
    by (auto simp: keyed_def)
  then show ?thesis by (simp add: new_refresh_def)
qed

section \<open>Passwords\<close>

text \<open>
  An administrator who has just registered can log in with the e-mail in any capitalisation
  and gets a session of the new account exactly when the password matches the stored hash;
  otherwise the answer is the one for an unknown e-mail.
\<close>

theorem register_then_login:
  assumes U: "repository (ax_users E) u_id"
    and lower: "\<forall>u \<in> set (au_users st). toLowerCase (u_email u) = u_email u"
    and reg: "auth_register E F dto st = (Inr res, st')"
    and same: "toLowerCase (ln_email l) = toLowerCase (rg_email dto)"
  shows "let user = new_user (fa_now F) (fa_userId F) (fa_orgId F) (toLowerCase (rg_email dto))
       (ax_hash E (fa_salt F) (rg_password dto)) (rg_firstName dto) (rg_lastName dto) ADMIN None in
    fst (auth_login E G l st') =
    (if ax_compare E (ln_password l) (ax_hash E (fa_salt F) (rg_password dto))
     then Inr \<lparr>tr_accessToken = ax_sign E (fa_now G) (jwt_payload user),
       tr_refreshToken = fa_refresh G, tr_user = public_user user\<rparr>
     else Inl (Unauthorized ''Invalid credentials''))"
proof -
  let ?user = "new_user (fa_now F) (fa_userId F) (fa_orgId F) (toLowerCase (rg_email dto))
       (ax_hash E (fa_salt F) (rg_password dto)) (rg_firstName dto) (rg_lastName dto) ADMIN None"
  have none: "find_one (ax_users E) (\<lambda>u. u_email u = toLowerCase (rg_email dto)) (au_users st) = None"
    and users: "au_users st' = orm_save (ax_users E) ?user (au_users st)"
    using reg by (auto simp: auth_register_def generateTokens_def new_org_def Let_def split: if_splits)
  have "find_one (ax_users E) (\<lambda>u. toLowerCase (u_email u) = toLowerCase (ln_email l) \<and> u_isActive u)
      (au_users st') = Some ?user"
  proof (rule repository.find_one_unique [OF U])
    show "?user \<in> set (au_users st')" by (simp add: users repository.set_save [OF U])
    show "toLowerCase (u_email ?user) = toLowerCase (ln_email l) \<and> u_isActive ?user"
      by (simp add: new_user_def same)
    fix r assume r: "r \<in> set (au_users st')"
      "toLowerCase (u_email r) = toLowerCase (ln_email l) \<and> u_isActive r"
    show "r = ?user"
      using r lower none by (auto simp: users repository.set_save [OF U] same
          repository.find_one_None [OF U])
  qed
  then show ?thesis by (simp add: auth_login_def generateTokens_def Let_def new_user_def)
qed

definition acme :: RegisterDto where
  "acme = \<lparr>rg_organizationName = ''Acme, Inc.'', rg_firstName = ''A'', rg_lastName = ''B'',
     rg_email = ''Ann@x'', rg_password = ''pw''\<rparr>"

theorem register_then_login_witness:
  "\<exists>st'. fst (auth_login (plain_auth file_kv) (nonce 7 ''r1'')
      \<lparr>ln_email = ''ANN@X'', ln_password = ''pw''\<rparr> st') =
    Inr \<lparr>tr_accessToken = ''jwtu'', tr_refreshToken = ''r1'', tr_user = public_user
      (new_user 3 ''u'' ''o'' ''ann@x'' ''spw'' ''A'' ''B'' ADMIN None)\<rparr>"
proof -
  let ?S = "(one_user empty_redis)\<lparr>au_users := []\<rparr>"
  have "\<exists>res st'. auth_register (plain_auth file_kv) (nonce 3 ''r0'') acme ?S = (Inr res, st')"
    by (simp add: auth_register_def generateTokens_def Let_def)
  then obtain res st' where reg:
    "auth_register (plain_auth file_kv) (nonce 3 ''r0'') acme ?S = (Inr res, st')" by blast
  have low: "toLowerCase ''ANN@X'' = ''ann@x''" "toLowerCase ''Ann@x'' = ''ann@x''" by code_simp+
  show ?thesis
    by (rule exI [of _ st'], use register_then_login [OF _ _ reg,
          of "\<lparr>ln_email = ''ANN@X'', ln_password = ''pw''\<rparr>" "nonce 7 ''r1''"] in
        \<open>simp add: low acme_def Let_def jwt_payload_def\<close>) (simp add: new_user_def)
qed

lemma resetPassword_success:
  assumes "fst (resetPassword E F tok pw st) = Inr ()"
  shows "\<exists>userId. userId \<noteq> [] \<and> fst (token_consume (ax_kv E) (fa_now F) Password_reset tok (au_kv st)) = Some userId \<and>
    au_tokens (snd (resetPassword E F tok pw st)) =
      orm_delete (ax_tokens E) (\<lambda>r. rt_userId r = userId) (au_tokens st) \<and>
    au_users (snd (resetPassword E F tok pw st)) = orm_update (ax_users E) (\<lambda>u. u_id u = userId)
      (\<lambda>u. u\<lparr>u_passwordHash := ax_hash E (fa_salt F) pw, u_updatedAt := fa_now F\<rparr>) (au_users st) \<and>
    au_kv (snd (resetPassword E F tok pw st)) =
      snd (token_consume (ax_kv E) (fa_now F) Password_reset tok (au_kv st))"
proof -
  obtain v kv where c: "token_consume (ax_kv E) (fa_now F) Password_reset tok (au_kv st) = (v, kv)"
    by fastforce
  then have "\<not> falsy_str v" using assms by (auto simp: resetPassword_def)
  then obtain userId where "v = Some userId" "userId \<noteq> []" by (cases v) auto
  then show ?thesis using c by (simp add: resetPassword_def update_user_def Let_def)
qed

text \<open>
  A successful password reset hands the account over: the mail token it used is spent at
  once, every account with the token's user id carries the hash of the new password, and no
  refresh token issued before is accepted afterwards, whatever calls follow.
\<close>

theorem reset_takes_over:
  assumes R: "repository (ax_tokens E) rt_id" and U: "repository (ax_users E) u_id"
    and S: "kv_store (ax_kv E) live"
    and K: "keyed rt_token (au_tokens st)"
    and ok: "fst (resetPassword E F tok pw st) = Inr ()" and later: "fa_now F \<le> fa_now G"
  shows "\<exists>userId. live (fa_now F) (token_key Password_reset tok) (au_kv st) = Some userId \<and>
    (let st' = snd (resetPassword E F tok pw st) in
      fst (resetPassword E G tok pw' st') = Inl (BadRequest ''Invalid or expired reset token'') \<and>
      (\<forall>u \<in> set (au_users st'). u_id u = userId \<longrightarrow> u_passwordHash u = ax_hash E (fa_salt F) pw) \<and>
      (\<forall>r \<in> set (au_tokens st). \<forall>ops. rt_userId r = userId \<longrightarrow>
         rt_token r \<notin> (\<lambda>(H, p). fa_refresh H) ` set ops \<longrightarrow>
         fst (refreshTokens E H (Some (rt_token r)) (auth_runs E ops st')) =
           Inl (Unauthorized ''Invalid or expired refresh token'')))"
proof -
  let ?s = "snd (resetPassword E F tok pw st)"
  obtain userId where id: "userId \<noteq> []"
    and c: "fst (token_consume (ax_kv E) (fa_now F) Password_reset tok (au_kv st)) = Some userId"
    and t: "au_tokens ?s = orm_delete (ax_tokens E) (\<lambda>r. rt_userId r = userId) (au_tokens st)"
    and u: "au_users ?s = orm_update (ax_users E) (\<lambda>u. u_id u = userId)
      (\<lambda>u. u\<lparr>u_passwordHash := ax_hash E (fa_salt F) pw, u_updatedAt := fa_now F\<rparr>) (au_users st)"
    and kv: "au_kv ?s = snd (token_consume (ax_kv E) (fa_now F) Password_reset tok (au_kv st))"
    using resetPassword_success [OF ok] by blast
  have "fst (token_consume (ax_kv E) (fa_now G) Password_reset tok (au_kv ?s)) = None"
    unfolding kv by (rule kv_store.consume_once [OF S later c id])
  then have again: "fst (resetPassword E G tok pw' ?s) = Inl (BadRequest ''Invalid or expired reset token'')"
    by (auto simp: resetPassword_def split: prod.splits)
  have gone: "spent (rt_token r) ?s" if "r \<in> set (au_tokens st)" "rt_userId r = userId" for r
    unfolding spent_def t repository.set_delete [OF R]
  proof (intro ballI impI)
    fix x assume x: "x \<in> {x \<in> set (au_tokens st). rt_userId x \<noteq> userId}" "rt_token x = rt_token r"
    then show "rt_revoked x" using keyed_same [OF K _ that(1) x(2)] that(2) by simp
  qed
  have hash: "\<forall>u \<in> set (au_users ?s). u_id u = userId \<longrightarrow> u_passwordHash u = ax_hash E (fa_salt F) pw"
    unfolding u repository.set_update [OF U] by (simp add: ball_Un)
  have refused: "\<forall>r \<in> set (au_tokens st). \<forall>ops. rt_userId r = userId \<longrightarrow>
      rt_token r \<notin> (\<lambda>(H, p). fa_refresh H) ` set ops \<longrightarrow>
      fst (refreshTokens E H (Some (rt_token r)) (auth_runs E ops ?s)) =
        Inl (Unauthorized ''Invalid or expired refresh token'')"
  proof (intro ballI allI impI)
    fix r and ops :: "(fresh_auth \<times> auth_op) list" assume r: "r \<in> set (au_tokens st)" "rt_userId r = userId"
      "rt_token r \<notin> (\<lambda>(H, p). fa_refresh H) ` set ops"
    show "fst (refreshTokens E H (Some (rt_token r)) (auth_runs E ops ?s)) =
        Inl (Unauthorized ''Invalid or expired refresh token'')"
      unfolding spent_refused [OF R spent_runs [OF R gone [OF r(1,2)] r(3)]] by (rule fst_conv)
  qed
  have "live (fa_now F) (token_key Password_reset tok) (au_kv st) = Some userId"
    using c unfolding kv_store.consume_live [OF S] .
  then show ?thesis unfolding Let_def using again hash refused by blast
qed

definition mailed :: "(string \<rightharpoonup> MemEntry) RedisService" where
  "mailed = snd (token_generate file_kv 0 ''tok'' Password_reset ''u'' empty_redis)"

lemma mailed_live: "t \<le> 3600000 \<Longrightarrow> 0 \<le> t \<Longrightarrow>
    fst (token_consume file_kv t Password_reset ''tok'' mailed) = Some ''u''"
  by (simp add: mailed_def kv_store.consume_generated [OF map_server.served_store])

theorem reset_takes_over_witness:
  "\<exists>userId. redis_live mem_live 5 (token_key Password_reset ''tok'') mailed = Some userId"
proof -
  have "fst (resetPassword (plain_auth file_kv) (nonce 5 ''r1'') ''tok'' ''new'' (one_user mailed)) = Inr ()"
    using mailed_live [of 5] by (auto simp: resetPassword_def Let_def split: prod.splits)
  from reset_takes_over [OF _ _ _ _ this, where live = "redis_live mem_live" and G = "nonce 6 ''r2''"]
  show ?thesis by (fastforce simp: keyed_def map_server.served_store)
qed

text \<open>
  A mail token works for the purpose it was issued for, for the user it was issued to, until
  its time to live has passed, and then no more after its first use; tokens of the three purposes
  do not open each other's doors.
\<close>

theorem mail_token_once:
  assumes S: "kv_store K live" and "u \<noteq> []" and "t \<le> t'" and "t' \<le> t''"
    and "\<forall>q. live t' (token_key q r) s = None"
  shows "let s1 = snd (token_generate K t r p u s) in
    fst (token_consume K t' q r s1) = (if q = p \<and> t' \<le> t + token_ttl p * 1000 then Some u else None) \<and>
    fst (token_consume K t'' p r (snd (token_consume K t' p r s1))) = None"
proof -
  let ?s = "snd (token_generate K t r p u s)"
  have first: "fst (token_consume K t' q r ?s) =
      (if q = p \<and> t' \<le> t + token_ttl p * 1000 then Some u else None)" for q
    unfolding kv_store.consume_generated [OF S assms(3,2)] using assms(5) by simp
  have "fst (token_consume K t'' p r (snd (token_consume K t' p r ?s))) = None"
  proof (cases "t' \<le> t + token_ttl p * 1000")
    case True
    then show ?thesis using kv_store.consume_once [OF S assms(4)] first [of p] assms(2) by simp
  next
    case False
    then show ?thesis using assms(3,4)
      by (simp add: kv_store.consume_live [OF S] kv_store.consume_frame [OF S assms(4)]
          kv_store.generate_live [OF S])
  qed
  then show ?thesis using first by (simp add: Let_def)
qed

theorem mail_token_once_witness:
  "let s1 = snd (token_generate file_kv 0 ''abc'' Invite ''u1'' empty_redis) in
    fst (token_consume file_kv 9 Password_reset ''abc'' s1) =
      (if Password_reset = Invite \<and> (9::int) \<le> 0 + token_ttl Invite * 1000 then Some ''u1'' else None) \<and>
    fst (token_consume file_kv 10 Invite ''abc'' (snd (token_consume file_kv 9 Invite ''abc'' s1))) = None"
  by (rule mail_token_once [where live = "redis_live mem_live"])
    (simp_all add: map_server.served_store redis_live_def mem_live_def empty_redis_def)

end
