(* ===== verification/MonitorGateway.thy ===== *)
theory MonitorGateway
  imports EntitiesAgent JsText
begin

text \<open>
  MonitoringGateway (modules/monitoring/monitoring.gateway.ts): dashboards connect with their
  access token and join the room of their organisation; the services emit presence, activity,
  screenshots and alerts to that room. socket.io is represented by the rooms a client is in; an
  emit records the room, the event and the clients that were in the room. \<open>verify\<close> is the JWT
  check, None when it throws.
\<close>

datatype presence = Online | Idle | Offline

record EmployeeStatusPayload =
  es_userId :: string
  es_deviceId :: "string option"
  es_status :: presence
  es_activeApp :: "string option"
  es_lastSeen :: js_time

record EmployeeScreenshotPayload =
  sp_userId :: string
  sp_deviceId :: "string option"
  sp_screenshotId :: string
  sp_capturedAt :: js_time
  sp_url :: string

record EmployeeActivityPayload =
  ep_userId :: string
  ep_deviceId :: "string option"
  ep_appName :: string
  ep_windowTitle :: "string option"
  ep_timestamp :: "js_time option"

record AlertEventPayload =
  el_eventId :: string
  el_ruleId :: string
  el_ruleName :: string
  el_type :: string
  el_userId :: string
  el_message :: string
  el_triggeredAt :: js_time

datatype monitor_event =
    Employee_status EmployeeStatusPayload
  | Employee_screenshot EmployeeScreenshotPayload
  | Employee_activity EmployeeActivityPayload
  | Alert_new AlertEventPayload

record MonitoringGateway =
  mg_connections :: "string \<rightharpoonup> string \<times> string"
  mg_rooms :: "(string \<times> string) set"
  mg_dropped :: "string list"
  mg_out :: "(string \<times> monitor_event \<times> string set) list"

definition room_of :: "string \<Rightarrow> string" where
  "room_of orgId = ''org:'' @ orgId"

definition room_members :: "string \<Rightarrow> MonitoringGateway \<Rightarrow> string set" where
  "room_members room g = snd ` Set.filter (\<lambda>rc. fst rc = room) (mg_rooms g)"

definition monitor_handleConnection ::
  "(string \<Rightarrow> (string \<times> string) option) \<Rightarrow> string \<Rightarrow> string option \<Rightarrow> MonitoringGateway \<Rightarrow> MonitoringGateway" where
  "monitor_handleConnection verify client tok g =
     (if falsy_str tok then g\<lparr>mg_dropped := mg_dropped g @ [client]\<rparr>
      else case verify (the tok) of
        Some (sub, orgId) \<Rightarrow>
          g\<lparr>mg_connections := (mg_connections g)(client \<mapsto> (sub, orgId)),
            mg_rooms := insert (room_of orgId, client) (mg_rooms g)\<rparr>
      | None \<Rightarrow> g\<lparr>mg_dropped := mg_dropped g @ [client]\<rparr>)"

text \<open>socket.io has removed the client from its rooms when the handler runs.\<close>

definition monitor_handleDisconnect :: "string \<Rightarrow> MonitoringGateway \<Rightarrow> MonitoringGateway" where
  "monitor_handleDisconnect client g =
     g\<lparr>mg_rooms := Set.filter (\<lambda>rc. snd rc \<noteq> client) (mg_rooms g),
       mg_connections := (mg_connections g)(client := None)\<rparr>"

definition monitor_emit :: "string \<Rightarrow> monitor_event \<Rightarrow> MonitoringGateway \<Rightarrow> MonitoringGateway" where
  "monitor_emit orgId ev g =
     g\<lparr>mg_out := mg_out g @ [(room_of orgId, ev, room_members (room_of orgId) g)]\<rparr>"

definition emitEmployeeStatus :: "string \<Rightarrow> EmployeeStatusPayload \<Rightarrow> MonitoringGateway \<Rightarrow> MonitoringGateway" where
  "emitEmployeeStatus orgId p = monitor_emit orgId (Employee_status p)"

definition emitScreenshotTaken ::
  "string \<Rightarrow> EmployeeScreenshotPayload \<Rightarrow> MonitoringGateway \<Rightarrow> MonitoringGateway" where
  "emitScreenshotTaken orgId p = monitor_emit orgId (Employee_screenshot p)"

definition emitActivityUpdate ::
  "string \<Rightarrow> EmployeeActivityPayload \<Rightarrow> MonitoringGateway \<Rightarrow> MonitoringGateway" where
  "emitActivityUpdate orgId p = monitor_emit orgId (Employee_activity p)"

definition emitAlertNew :: "string \<Rightarrow> AlertEventPayload \<Rightarrow> MonitoringGateway \<Rightarrow> MonitoringGateway" where
  "emitAlertNew orgId p = monitor_emit orgId (Alert_new p)"

lemmas emit_defs = emitEmployeeStatus_def emitScreenshotTaken_def emitActivityUpdate_def emitAlertNew_def

definition empty_monitor :: MonitoringGateway where
  "empty_monitor = \<lparr>mg_connections = Map.empty, mg_rooms = {}, mg_dropped = [], mg_out = []\<rparr>"

section \<open>Who receives an event\<close>

text \<open>Client ids are fresh: a client that is connected does not connect again.\<close>

inductive monitor_step ::
  "(string \<Rightarrow> (string \<times> string) option) \<Rightarrow> MonitoringGateway \<Rightarrow> MonitoringGateway \<Rightarrow> bool"
  for verify where
  connect: "mg_connections g client = None \<Longrightarrow>
    monitor_step verify g (monitor_handleConnection verify client tok g)"
| disconnect: "monitor_step verify g (monitor_handleDisconnect client g)"
| status: "monitor_step verify g (emitEmployeeStatus orgId sp g)"
| screenshot: "monitor_step verify g (emitScreenshotTaken orgId cp g)"
| activity: "monitor_step verify g (emitActivityUpdate orgId ap g)"
| alert: "monitor_step verify g (emitAlertNew orgId lp g)"

abbreviation monitor_reachable :: "(string \<Rightarrow> (string \<times> string) option) \<Rightarrow> MonitoringGateway \<Rightarrow> bool" where
  "monitor_reachable verify \<equiv> (monitor_step verify)\<^sup>*\<^sup>* empty_monitor"

definition rooms_follow_connections :: "MonitoringGateway \<Rightarrow> bool" where
  "rooms_follow_connections g \<longleftrightarrow> (\<forall>room c. (room, c) \<in> mg_rooms g \<longleftrightarrow>
     (\<exists>u orgId. mg_connections g c = Some (u, orgId) \<and> room = room_of orgId))"

lemma rooms_emit [simp]:
  "rooms_follow_connections (monitor_emit o1 ev g) = rooms_follow_connections g"
  by (simp add: rooms_follow_connections_def monitor_emit_def)

lemma rooms_connect:
  "rooms_follow_connections g \<Longrightarrow> mg_connections g client = None \<Longrightarrow>
   rooms_follow_connections (monitor_handleConnection verify client tok g)"
  by (auto simp: rooms_follow_connections_def monitor_handleConnection_def split: option.splits)

lemma rooms_disconnect:
  "rooms_follow_connections g \<Longrightarrow> rooms_follow_connections (monitor_handleDisconnect client g)"
  by (auto simp: rooms_follow_connections_def monitor_handleDisconnect_def)

lemma reachable_rooms: "monitor_reachable verify g \<Longrightarrow> rooms_follow_connections g"
proof (induction rule: rtranclp_induct)
  case base
  show ?case by (simp add: rooms_follow_connections_def empty_monitor_def)
next
  case (step g h)
  from step(2,3) show ?case
    by (cases rule: monitor_step.cases) (simp_all add: emit_defs rooms_connect rooms_disconnect)
qed

text \<open>
  C17. Live events stay inside the organisation: in every reachable state of the gateway the
  clients that receive an event emitted for an organisation are exactly the connected ones whose
  token names that organisation.
\<close>

theorem events_reach_own_org:
  assumes "monitor_reachable verify g"
  shows "mg_out (monitor_emit orgId ev g) =
    mg_out g @ [(room_of orgId, ev, {c. \<exists>u. mg_connections g c = Some (u, orgId)})]"
proof -
  have "room_members (room_of orgId) g = {c. \<exists>u. mg_connections g c = Some (u, orgId)}"
    using reachable_rooms [OF assms]
    by (force simp: room_members_def rooms_follow_connections_def room_of_def image_iff)
  then show ?thesis by (simp add: monitor_emit_def)
qed

definition two_managers :: "string \<Rightarrow> (string \<times> string) option" where
  "two_managers tok = (if tok = ''t1'' then Some (''m1'', ''o1'') else if tok = ''t2'' then Some (''m2'', ''o2'')
     else None)"

definition u_online :: monitor_event where
  "u_online = Employee_status \<lparr>es_userId = ''u'', es_deviceId = None, es_status = Online,
     es_activeApp = None, es_lastSeen = 1\<rparr>"

theorem events_reach_own_org_witness:
  "\<exists>g. monitor_reachable two_managers g \<and> mg_rooms g \<noteq> {} \<and>
    mg_out (monitor_emit ''o1'' u_online g) = [(room_of ''o1'', u_online, {''c1''})]"
proof -
  let ?g = "monitor_handleConnection two_managers ''c2'' (Some ''t2'')
    (monitor_handleConnection two_managers ''c1'' (Some ''t1'') empty_monitor)"
  have c: "{c. \<exists>u. mg_connections ?g c = Some (u, ''o1'')} = {''c1''}" "mg_out ?g = []"
    by (auto simp: monitor_handleConnection_def two_managers_def empty_monitor_def)
  have "monitor_reachable two_managers ?g"
    by (rule rtranclp.rtrancl_into_rtrancl [OF r_into_rtranclp], rule connect, simp add: empty_monitor_def,
      rule connect, simp add: monitor_handleConnection_def two_managers_def empty_monitor_def)
  then show ?thesis using events_reach_own_org [of two_managers ?g "''o1''" u_online] unfolding c append_Nil
    by (intro exI [of _ ?g]) (simp add: monitor_handleConnection_def two_managers_def)
qed

end
