(* ===== verification/AgentSvc.thy ===== *)
theory AgentSvc
  imports Users HeartbeatBuffer IngestQueue JsDate JsJson MonitorGateway
begin

text \<open>
  AgentService (modules/agent/agent.service.ts): what the desktop agent's requests do. Batches go
  to the three queues of \<open>IngestQueue\<close>, heartbeats to \<open>HeartbeatBuffer\<close>, live events to
  \<open>MonitorGateway\<close>; screenshots, GPS points and telemetry are rows; registration spends a token
  of \<open>Users\<close> or \<open>KeyValueStore\<close> and adds a device row. The clients of Supabase Storage and S3
  are third-party code, the record \<open>storage_sdk\<close>; \<open>D\<close> is \<open>Date.parse\<close>, None for an Invalid Date.
\<close>

section \<open>Configuration\<close>

record storage_sdk =
  sx_signed_upload :: "string \<Rightarrow> string + string option"
  sx_signed_download :: "string \<Rightarrow> string + string"
  sx_s3_put :: "string \<Rightarrow> string \<Rightarrow> string"
  sx_s3_get :: "string \<Rightarrow> string \<Rightarrow> string"

text \<open>The endpoint of the S3 client, the bucket, the CDN and whether Supabase is configured.\<close>

record agent_storage =
  as_s3 :: "string option option"
  as_bucket :: "string option"
  as_cdnUrl :: "string option"
  as_supabase :: bool

definition agent_constructor :: "(string \<Rightarrow> string option) \<Rightarrow> agent_storage" where
  "agent_constructor config =
     (let b2Bucket = config ''B2_BUCKET''; s3Bucket = config ''S3_BUCKET'';
          supabase = (\<not> falsy_str (config ''SUPABASE_URL'') \<and> \<not> falsy_str (config ''SUPABASE_SERVICE_KEY''))
      in if \<not> falsy_str b2Bucket
         then \<lparr>as_s3 = Some (config ''B2_ENDPOINT''), as_bucket = b2Bucket,
           as_cdnUrl = (if falsy_str (config ''B2_CDN_URL'') then None else config ''B2_CDN_URL''),
           as_supabase = supabase\<rparr>
         else if \<not> falsy_str s3Bucket
         then \<lparr>as_s3 = Some (if falsy_str (config ''S3_ENDPOINT'') then None else config ''S3_ENDPOINT''),
           as_bucket = s3Bucket, as_cdnUrl = None, as_supabase = supabase\<rparr>
         else \<lparr>as_s3 = None, as_bucket = None, as_cdnUrl = None, as_supabase = supabase\<rparr>)"

definition SCREENSHOTS_BUCKET :: string where "SCREENSHOTS_BUCKET = ''screenshots''"

record ('s, 'qa, 'qm, 'qk) AgentService =
  ag_people :: "'s UsersService"
  ag_screenshots :: "Screenshot list"
  ag_gps :: "GpsLocation list"
  ag_telemetry :: "AgentTelemetry list"
  ag_heartbeats :: HeartbeatBufferService
  ag_activityQueue :: 'qa
  ag_metricsQueue :: 'qm
  ag_keystrokesQueue :: 'qk
  ag_monitor :: MonitoringGateway
  ag_storage :: agent_storage
  ag_supaBuckets :: "string list"
  ag_s3Objects :: "(string \<times> string) set"
  ag_files :: "string \<Rightarrow> string"

text \<open>\<open>listed\<close> is what \<open>listBuckets\<close> answers, None when it throws; \<open>created\<close> whether the call succeeds.\<close>

definition agent_onModuleInit ::
  "string list option \<Rightarrow> bool \<Rightarrow> ('s, 'qa, 'qm, 'qk) AgentService \<Rightarrow> ('s, 'qa, 'qm, 'qk) AgentService" where
  "agent_onModuleInit listed created st =
     (if \<not> as_supabase (ag_storage st) then st
      else case listed of
        None \<Rightarrow> st
      | Some buckets \<Rightarrow> if SCREENSHOTS_BUCKET \<in> set buckets \<or> \<not> created then st
          else st\<lparr>ag_supaBuckets := ag_supaBuckets st @ [SCREENSHOTS_BUCKET]\<rparr>)"

section \<open>Batches\<close>

record ActivityEventItemDto =
  ai_appName :: string
  ai_windowTitle :: "string option"
  ai_startedAt :: string
  ai_endedAt :: "string option"
  ai_durationSec :: "int option"
  ai_durationMs :: "real option"
  ai_keystrokeCount :: "int option"

record KeystrokeEventItemDto =
  ki_keysPerMin :: int
  ki_mousePerMin :: int
  ki_recordedAt :: string

record MetricsEventDto =
  mi_employeeId :: string
  mi_orgId :: string
  mi_cpuPercent :: real
  mi_memUsedMb :: real
  mi_memTotalMb :: real
  mi_agentCpuPercent :: real
  mi_agentMemMb :: real
  mi_recordedAt :: string

definition queued_activity :: "ActivityEventItemDto \<Rightarrow> ActivityQueueEvent" where
  "queued_activity e = \<lparr>aq_appName = ai_appName e, aq_windowTitle = ai_windowTitle e,
     aq_startedAt = ai_startedAt e, aq_durationSec = ai_durationSec e,
     aq_durationMs = ai_durationMs e, aq_keystrokeCount = ai_keystrokeCount e\<rparr>"

definition activity_payload ::
  "User \<Rightarrow> ActivityEventItemDto list \<Rightarrow> string option \<Rightarrow> ActivityQueuePayload" where
  "activity_payload user events deviceId = \<lparr>aq_userId = u_id user,
     aq_organizationId = u_organizationId user, aq_deviceId = deviceId,
     aq_events = Some (map queued_activity events)\<rparr>"

definition saveActivities ::
  "(ActivityQueuePayload, 'qa) pgmq \<Rightarrow> (string \<Rightarrow> js_time option) \<Rightarrow> User \<Rightarrow> ActivityEventItemDto list \<Rightarrow>
   string option \<Rightarrow> ('s, 'qa, 'qm, 'qk) AgentService \<Rightarrow> nat \<times> ('s, 'qa, 'qm, 'qk) AgentService" where
  "saveActivities P D user events deviceId st =
     (if events = [] then (0, st)
      else let latest = last events in
        (length events,
         st\<lparr>ag_activityQueue := snd (activity_enqueue P (activity_payload user events deviceId)
              (ag_activityQueue st)),
            ag_monitor := emitActivityUpdate (u_organizationId user)
              \<lparr>ep_userId = u_id user, ep_deviceId = deviceId, ep_appName = ai_appName latest,
               ep_windowTitle = ai_windowTitle latest, ep_timestamp = D (ai_startedAt latest)\<rparr>
              (ag_monitor st)\<rparr>))"

definition saveMetrics ::
  "(MetricsQueuePayload, 'qm) pgmq \<Rightarrow> User \<Rightarrow> MetricsEventDto list \<Rightarrow>
   ('s, 'qa, 'qm, 'qk) AgentService \<Rightarrow> ('s, 'qa, 'qm, 'qk) AgentService" where
  "saveMetrics P user events st =
     (if events = [] then st
      else st\<lparr>ag_metricsQueue := snd (metrics_enqueue P \<lparr>mq_userId = u_id user,
         mq_organizationId = u_organizationId user,
         mq_events = Some (map (\<lambda>e. \<lparr>mq_cpuPercent = mi_cpuPercent e, mq_memUsedMb = mi_memUsedMb e,
           mq_memTotalMb = mi_memTotalMb e, mq_agentCpuPercent = mi_agentCpuPercent e,
           mq_agentMemMb = mi_agentMemMb e, mq_recordedAt = mi_recordedAt e\<rparr>) events)\<rparr>
         (ag_metricsQueue st))\<rparr>)"

definition saveKeystrokes ::
  "(KeystrokesQueuePayload, 'qk) pgmq \<Rightarrow> User \<Rightarrow> KeystrokeEventItemDto list \<Rightarrow>
   ('s, 'qa, 'qm, 'qk) AgentService \<Rightarrow> nat \<times> ('s, 'qa, 'qm, 'qk) AgentService" where
  "saveKeystrokes P user events st =
     (if events = [] then (0, st)
      else (length events,
        st\<lparr>ag_keystrokesQueue := snd (keystrokes_enqueue P \<lparr>kq_userId = u_id user,
         kq_organizationId = u_organizationId user,
         kq_events = Some (map (\<lambda>e. \<lparr>kq_keysPerMin = ki_keysPerMin e,
           kq_mousePerMin = ki_mousePerMin e, kq_recordedAt = ki_recordedAt e\<rparr>) events)\<rparr>
         (ag_keystrokesQueue st))\<rparr>))"

section \<open>Screenshots\<close>

record SyncScreenshotDto =
  si_screenshotKey :: string
  si_capturedAt :: string
  si_fileSizeBytes :: int

definition stamp_of :: "js_time \<Rightarrow> string" where
  "stamp_of now = map (\<lambda>c. if c = CHR '':'' \<or> c = CHR ''.'' then CHR ''-'' else c) (toISOString now)"

definition screenshot_key :: "js_time \<Rightarrow> User \<Rightarrow> string" where
  "screenshot_key now user =
     u_organizationId user @ ''/'' @ u_id user @ ''/'' @ stamp_of now @ ''.jpg''"

definition generateUploadUrl ::
  "storage_sdk \<Rightarrow> js_time \<Rightarrow> User \<Rightarrow> agent_storage \<Rightarrow> (string \<times> string) outcome" where
  "generateUploadUrl X now user sg =
     (let key = screenshot_key now user in
      if as_supabase sg then
        (case sx_signed_upload X key of
           Inl message \<Rightarrow> Inl (ServiceUnavailable (''Supabase Storage error: '' @ message))
         | Inr url \<Rightarrow> if falsy_str url
             then Inl (ServiceUnavailable ''Supabase Storage returned empty upload URL'')
             else Inr (the url, key))
      else if as_s3 sg \<noteq> None \<and> \<not> falsy_str (as_bucket sg)
        then Inr (sx_s3_put X (the (as_bucket sg)) (''screenshots/'' @ key), ''screenshots/'' @ key)
      else Inl (ServiceUnavailable
        ''Screenshot storage is not configured (set SUPABASE_URL + SUPABASE_SERVICE_KEY)''))"

definition getPresignedDownloadUrl :: "storage_sdk \<Rightarrow> string \<Rightarrow> agent_storage \<Rightarrow> string" where
  "getPresignedDownloadUrl X s3Key sg =
     (if as_supabase sg then (case sx_signed_download X s3Key of Inl _ \<Rightarrow> [] | Inr url \<Rightarrow> url)
      else if as_s3 sg = None \<or> falsy_str (as_bucket sg) then []
      else case as_cdnUrl sg of
        Some cdn \<Rightarrow> cdn @ ''/'' @ s3Key
      | None \<Rightarrow> sx_s3_get X (the (as_bucket sg)) s3Key)"

definition saveScreenshot ::
  "storage_sdk \<Rightarrow> (string \<Rightarrow> js_time option) \<Rightarrow> Screenshot orm \<Rightarrow> js_time \<Rightarrow> string \<Rightarrow> User \<Rightarrow>
   SyncScreenshotDto \<Rightarrow> string option \<Rightarrow> ('s, 'qa, 'qm, 'qk) AgentService \<Rightarrow>
   Screenshot outcome \<times> ('s, 'qa, 'qm, 'qk) AgentService" where
  "saveScreenshot X D R now newId user dto deviceId st =
     (case D (si_capturedAt dto) of
        None \<Rightarrow> (Inl (PlainError ''invalid input syntax for type timestamp''), st)
      | Some capturedAt \<Rightarrow>
          let saved = \<lparr>ss_id = newId, ss_userId = u_id user, ss_organizationId = u_organizationId user,
                ss_deviceId = deviceId, ss_s3Key = si_screenshotKey dto, ss_capturedAt = capturedAt,
                ss_fileSizeBytes = si_fileSizeBytes dto, ss_createdAt = now\<rparr>
          in (Inr saved,
              st\<lparr>ag_screenshots := orm_save R saved (ag_screenshots st),
                ag_monitor := emitScreenshotTaken (u_organizationId user)
                  \<lparr>sp_userId = u_id user, sp_deviceId = deviceId, sp_screenshotId = newId,
                   sp_capturedAt = capturedAt,
                   sp_url = getPresignedDownloadUrl X (si_screenshotKey dto) (ag_storage st)\<rparr>
                  (ag_monitor st)\<rparr>))"

definition deleteS3Object ::
  "string \<Rightarrow> ('s, 'qa, 'qm, 'qk) AgentService \<Rightarrow> ('s, 'qa, 'qm, 'qk) AgentService" where
  "deleteS3Object key st =
     (if as_s3 (ag_storage st) = None \<or> falsy_str (as_bucket (ag_storage st)) then st
      else st\<lparr>ag_s3Objects := ag_s3Objects st - {(the (as_bucket (ag_storage st)), key)}\<rparr>)"

section \<open>GPS points, telemetry and configuration\<close>

record GpsPointDto =
  pt_lat :: real
  pt_lng :: real
  pt_accuracy :: "real option"
  pt_batteryLevel :: "real option"
  pt_recordedAt :: string

definition gps_row ::
  "(string \<Rightarrow> js_time option) \<Rightarrow> js_time \<Rightarrow> User \<Rightarrow> string \<times> GpsPointDto \<Rightarrow> GpsLocation option" where
  "gps_row D now user = (\<lambda>(newId, p). case D (pt_recordedAt p) of
     None \<Rightarrow> None
   | Some recorded \<Rightarrow> Some \<lparr>gl_id = newId, gl_userId = u_id user,
       gl_organizationId = u_organizationId user, gl_lat = pt_lat p, gl_lng = pt_lng p,
       gl_accuracy = pt_accuracy p, gl_batteryLevel = pt_batteryLevel p, gl_recordedAt = recorded,
       gl_createdAt = now\<rparr>)"

text \<open>The rows are saved in one transaction; one Invalid Date rolls the batch back.\<close>

definition saveGpsLocations ::
  "(string \<Rightarrow> js_time option) \<Rightarrow> GpsLocation orm \<Rightarrow> js_time \<Rightarrow> string list \<Rightarrow> User \<Rightarrow> GpsPointDto list \<Rightarrow>
   ('s, 'qa, 'qm, 'qk) AgentService \<Rightarrow> nat outcome \<times> ('s, 'qa, 'qm, 'qk) AgentService" where
  "saveGpsLocations D R now newIds user points st =
     (case all_rows (gps_row D now user) (zip newIds points) of
        None \<Rightarrow> (Inl (PlainError ''invalid input syntax for type timestamp''), st)
      | Some rows \<Rightarrow> (Inr (length rows), st\<lparr>ag_gps := save_all R rows (ag_gps st)\<rparr>))"

record org_config =
  oc_screenshotIntervalSec :: int
  oc_streamingEnabled :: bool
  oc_cameraEnabled :: bool
  oc_audioEnabled :: bool
  oc_maxStreamFps :: int

definition getOrgConfig ::
  "'s users_env \<Rightarrow> string \<Rightarrow> ('s, 'qa, 'qm, 'qk) AgentService \<Rightarrow> org_config" where
  "getOrgConfig E organizationId st =
     (case find_one (ue_orgs E) (\<lambda>o1. org_id o1 = organizationId) (uv_orgs (ag_people st)) of
        Some org \<Rightarrow> \<lparr>oc_screenshotIntervalSec = org_screenshotIntervalSec org,
          oc_streamingEnabled = org_streamingEnabled org, oc_cameraEnabled = org_cameraEnabled org,
          oc_audioEnabled = org_audioEnabled org, oc_maxStreamFps = org_maxStreamFps org\<rparr>
      | None \<Rightarrow> \<lparr>oc_screenshotIntervalSec = 300, oc_streamingEnabled = False,
          oc_cameraEnabled = False, oc_audioEnabled = False, oc_maxStreamFps = 1\<rparr>)"

record SyncTelemetryDto =
  sy_agent_version :: "string option"
  sy_os :: "string option"
  sy_uptime_sec :: "int option"
  sy_mem_used_mb :: "real option"
  sy_cpu_percent :: "real option"
  sy_last_sync_success :: "bool option"
  sy_last_sync_latency_ms :: "int option"
  sy_buffered_events :: "int option"
  sy_sync_error_count :: "int option"
  sy_has_screen_recording :: "bool option"
  sy_has_accessibility :: "bool option"
  sy_url_detection_layer :: "int option"

definition saveTelemetry ::
  "AgentTelemetry orm \<Rightarrow> js_time \<Rightarrow> string \<Rightarrow> User \<Rightarrow> SyncTelemetryDto \<Rightarrow>
   ('s, 'qa, 'qm, 'qk) AgentService \<Rightarrow> ('s, 'qa, 'qm, 'qk) AgentService" where
  "saveTelemetry R now newId user dto st = st\<lparr>ag_telemetry := orm_save R
     \<lparr>at_id = newId, at_userId = u_id user, at_organizationId = u_organizationId user,
      at_agentVersion = take 32 (nullish (sy_agent_version dto) []),
      at_os = take 32 (nullish (sy_os dto) []),
      at_uptimeSec = nullish (sy_uptime_sec dto) 0, at_memUsedMb = nullish (sy_mem_used_mb dto) 0,
      at_cpuPercent = nullish (sy_cpu_percent dto) 0,
      at_lastSyncSuccess = nullish (sy_last_sync_success dto) False,
      at_lastSyncLatencyMs = nullish (sy_last_sync_latency_ms dto) 0,
      at_bufferedEvents = nullish (sy_buffered_events dto) 0,
      at_syncErrorCount = nullish (sy_sync_error_count dto) 0,
      at_hasScreenRecording = nullish (sy_has_screen_recording dto) False,
      at_hasAccessibility = nullish (sy_has_accessibility dto) False,
      at_urlDetectionLayer = nullish (sy_url_detection_layer dto) 0,
      at_recordedAt = now, at_createdAt = now\<rparr> (ag_telemetry st)\<rparr>"

section \<open>Devices\<close>

record RegisterAgentDto =
  ra_inviteToken :: "string option"
  ra_personalToken :: "string option"
  ra_displayName :: "string option"
  ra_hostname :: "string option"
  ra_os :: "string option"
  ra_osVersion :: "string option"
  ra_agentVersion :: "string option"

text \<open>\<open>dto.displayName?.trim() || dto.hostname || null\<close>\<close>

definition device_label :: "RegisterAgentDto \<Rightarrow> string option" where
  "device_label dto = (let named = map_option js_trim (ra_displayName dto) in
     if \<not> falsy_str named then named
     else if \<not> falsy_str (ra_hostname dto) then ra_hostname dto else None)"

definition resolve_agent_user ::
  "'s users_env \<Rightarrow> js_time \<Rightarrow> RegisterAgentDto \<Rightarrow> 's UsersService \<Rightarrow>
   User option outcome \<times> 's UsersService" where
  "resolve_agent_user E now dto w =
     (if \<not> falsy_str (ra_personalToken dto)
      then case find_one (ue_users E) (\<lambda>u. u_agentToken u = ra_personalToken dto) (uv_users w) of
        None \<Rightarrow> (Inl (Unauthorized ''Invalid personal agent token''), w)
      | Some user \<Rightarrow> (Inr (Some user), w)
      else case token_consume (ue_kv E) now Invite (the (ra_inviteToken dto)) (uv_kv w) of
        (userId, kv) \<Rightarrow>
          if falsy_str userId
          then (Inl (Unauthorized ''Invalid or expired invite token''), w\<lparr>uv_kv := kv\<rparr>)
          else (Inr (find_one (ue_users E) (\<lambda>u. u_id u = the userId) (uv_users w)), w\<lparr>uv_kv := kv\<rparr>))"

definition new_device ::
  "js_time \<Rightarrow> string \<Rightarrow> string \<Rightarrow> User \<Rightarrow> RegisterAgentDto \<Rightarrow> AgentDevice" where
  "new_device now newId deviceToken user dto =
     \<lparr>ad_id = newId, ad_organizationId = u_organizationId user, ad_userId = u_id user,
      ad_deviceToken = deviceToken, ad_hostname = ra_hostname dto, ad_displayName = device_label dto,
      ad_platform = ra_os dto, ad_agentVersion = ra_agentVersion dto, ad_lastSeenAt = Some now,
      ad_isActive = True, ad_createdAt = now\<rparr>"

record agent_registration =
  an_agentToken :: string
  an_employeeId :: string
  an_orgId :: string

text \<open>\<open>rotateAgentToken\<close> may throw; the error is logged and the registration stands.\<close>

definition registerAgent ::
  "'s users_env \<Rightarrow> js_time \<Rightarrow> string \<Rightarrow> string \<Rightarrow> string \<Rightarrow> RegisterAgentDto \<Rightarrow> 's UsersService \<Rightarrow>
   agent_registration outcome \<times> 's UsersService" where
  "registerAgent E now newId deviceToken uuid dto w =
     (if falsy_str (ra_personalToken dto) \<and> falsy_str (ra_inviteToken dto)
      then (Inl (Unauthorized ''Missing personalToken or inviteToken''), w)
      else if \<not> falsy_str (ra_personalToken dto) \<and> \<not> falsy_str (ra_inviteToken dto)
      then (Inl (Unauthorized ''Provide only one of personalToken or inviteToken''), w)
      else case resolve_agent_user E now dto w of
        (Inl e, w1) \<Rightarrow> (Inl e, w1)
      | (Inr None, w1) \<Rightarrow> (Inl (Unauthorized ''User not found or inactive''), w1)
      | (Inr (Some user), w1) \<Rightarrow>
          if \<not> u_isActive user then (Inl (Unauthorized ''User not found or inactive''), w1)
          else (Inr \<lparr>an_agentToken = deviceToken, an_employeeId = u_id user,
                  an_orgId = u_organizationId user\<rparr>,
                snd (rotateAgentToken E now uuid (u_id user)
                  (w1\<lparr>uv_devices := orm_save (ue_devices E) (new_device now newId deviceToken user dto)
                    (uv_devices w1)\<rparr>))))"

definition recordHeartbeat ::
  "js_time \<Rightarrow> User \<Rightarrow> bool option \<Rightarrow> string option \<Rightarrow> ('s, 'qa, 'qm, 'qk) AgentService \<Rightarrow>
   ('s, 'qa, 'qm, 'qk) AgentService" where
  "recordHeartbeat now user idle deviceId st =
     st\<lparr>ag_heartbeats := heartbeat_record deviceId now (ag_heartbeats st),
       ag_monitor := emitEmployeeStatus (u_organizationId user)
         \<lparr>es_userId = u_id user, es_deviceId = deviceId,
          es_status = (if nullish idle False then Idle else Online), es_activeApp = None,
          es_lastSeen = now\<rparr> (ag_monitor st)\<rparr>"

definition findDeviceByToken :: "AgentDevice orm \<Rightarrow> string \<Rightarrow> AgentDevice list \<Rightarrow> AgentDevice option" where
  "findDeviceByToken R tok devices =
     find_one R (\<lambda>d. ad_deviceToken d = tok \<and> ad_isActive d) devices"

text \<open>PostgreSQL puts NULL first in a descending order.\<close>

definition nulls_first_desc :: "('e \<Rightarrow> js_time option) \<Rightarrow> 'e \<Rightarrow> 'e \<Rightarrow> bool" where
  "nulls_first_desc f a b = (case (f a, f b) of
     (None, _) \<Rightarrow> True | (Some _, None) \<Rightarrow> False | (Some x, Some y) \<Rightarrow> y \<le> x)"

definition getDevicesForOrg :: "AgentDevice orm \<Rightarrow> string \<Rightarrow> AgentDevice list \<Rightarrow> AgentDevice list" where
  "getDevicesForOrg R orgId devices =
     orm_find R (\<lambda>d. ad_organizationId d = orgId) (nulls_first_desc ad_lastSeenAt) None devices"

section \<open>Crash reports\<close>

text \<open>
  The validated body is an object; \<open>{...report, k: v}\<close> keeps the place of a key that is there and
  adds a new one at the end. \<open>io\<close> says whether the file can be written.
\<close>

fun obj_set :: "string \<Rightarrow> json \<Rightarrow> (string \<times> json) list \<Rightarrow> (string \<times> json) list" where
  "obj_set k v [] = [(k, v)]"
| "obj_set k v ((k', v') # ps) = (if k' = k then (k, v) # ps else (k', v') # obj_set k v ps)"

definition text_field :: "string \<Rightarrow> (string \<times> json) list \<Rightarrow> string" where
  "text_field k report = (case map_of report k of Some (JStr s) \<Rightarrow> s | _ \<Rightarrow> [])"

definition crash_entry :: "js_time \<Rightarrow> (string \<times> json) list \<Rightarrow> json" where
  "crash_entry now report = JObj
     (obj_set ''stack_trace'' (JStr (take 10000 (text_field ''stack_trace'' report)))
     (obj_set ''message'' (JStr (take 2000 (text_field ''message'' report)))
     (obj_set ''received_at'' (JStr (toISOString now)) report)))"

definition saveCrashReport ::
  "(string \<Rightarrow> string option) \<Rightarrow> bool \<Rightarrow> js_time \<Rightarrow> (string \<times> json) list \<Rightarrow>
   ('s, 'qa, 'qm, 'qk) AgentService \<Rightarrow> ('s, 'qa, 'qm, 'qk) AgentService" where
  "saveCrashReport config io now report st =
     (if text_field ''agent_version'' report = [] \<or> text_field ''os'' report = [] \<or> \<not> io then st
      else let filename = nullish (config ''CRASH_REPORTS_DIR'') ''logs/crashes'' @ ''/crashes-''
             @ iso_date now @ ''.ndjson''
        in st\<lparr>ag_files := (ag_files st)(filename :=
          ag_files st filename @ stringify (crash_entry now report) @ [newline])\<rparr>)"

section \<open>What the agent stores\<close>

lemma all_rows_set: "all_rows f xs = Some rows \<Longrightarrow> r \<in> set rows \<Longrightarrow> \<exists>x \<in> set xs. f x = Some r"
  by (induction xs arbitrary: rows) (auto split: option.splits)

lemma all_rows_length: "all_rows f xs = Some rows \<Longrightarrow> length rows = length xs"
  by (induction xs arbitrary: rows) (auto split: option.splits)

text \<open>
  C18. Whatever a batch claims, its queue message becomes one row per event, each of the user, the organisation
  and the device of the authenticated request. The two texts are cut to their columns. The numbers are those of
  an event of the batch, the duration in milliseconds rounded when there is no other, and not negative when the
  validated ones are not; nothing limits them to what an int column takes.
\<close>

theorem queued_rows_well_formed:
  assumes "activity_rows D (activity_payload user events deviceId) = Some rows" and "r \<in> set rows"
    and "\<forall>e \<in> set events. (\<forall>n. ai_durationSec e = Some n \<longrightarrow> 0 \<le> n) \<and>
      (\<forall>x. ai_durationMs e = Some x \<longrightarrow> 0 \<le> x) \<and> (\<forall>n. ai_keystrokeCount e = Some n \<longrightarrow> 0 \<le> n)"
  shows "length rows = length events \<and>
    ae_userId r = u_id user \<and> ae_organizationId r = u_organizationId user \<and>
    ae_deviceId r = deviceId \<and> length (ae_appName r) \<le> 255 \<and>
    (case ae_windowTitle r of None \<Rightarrow> True | Some t \<Rightarrow> t \<noteq> [] \<and> length t \<le> 500) \<and>
    0 \<le> ae_durationSec r \<and> 0 \<le> ae_keystrokeCount r \<and>
    (\<exists>e \<in> set events. ae_appName r = take 255 (ai_appName e) \<and>
      ae_durationSec r = nullish (ai_durationSec e) \<lfloor>nullish (ai_durationMs e) 0 / 1000 + 1 / 2\<rfloor> \<and>
      ae_keystrokeCount r = nullish (ai_keystrokeCount e) 0)"
proof -
  obtain e where e: "e \<in> set events"
    and r: "activity_row D (activity_payload user events deviceId) (queued_activity e) = Some r"
    using all_rows_set [OF assms(1) [unfolded activity_rows_def] assms(2)]
    by (auto simp: activity_payload_def)
  have n: "0 \<le> nullish (ai_durationSec e) \<lfloor>nullish (ai_durationMs e) 0 / 1000 + 1 / 2\<rfloor>"
    "0 \<le> nullish (ai_keystrokeCount e) 0"
    using assms(3) e by (cases "ai_durationSec e"; cases "ai_durationMs e"; force)
      (cases "ai_keystrokeCount e"; use assms(3) e in force)
  have w: "case ae_windowTitle r of None \<Rightarrow> True | Some t \<Rightarrow> t \<noteq> [] \<and> length t \<le> 500"
    using r by (cases "ai_windowTitle e") (auto simp: activity_row_def queued_activity_def split: option.splits if_splits)
  have l: "length rows = length events"
    using all_rows_length [OF assms(1) [unfolded activity_rows_def]] by (simp add: activity_payload_def)
  have f: "ae_appName r = take 255 (ai_appName e) \<and>
      ae_durationSec r = nullish (ai_durationSec e) \<lfloor>nullish (ai_durationMs e) 0 / 1000 + 1 / 2\<rfloor> \<and>
      ae_keystrokeCount r = nullish (ai_keystrokeCount e) 0"
    and o: "ae_userId r = u_id user" "ae_organizationId r = u_organizationId user" "ae_deviceId r = deviceId"
    using r by (auto simp: activity_row_def activity_payload_def queued_activity_def split: option.splits)
  show ?thesis using f o n e by (intro conjI w l bexI [OF _ e]) simp_all
qed

definition typing_event :: ActivityEventItemDto where
  "typing_event = \<lparr>ai_appName = ''Code'', ai_windowTitle = Some [], ai_startedAt = ''now'',
     ai_endedAt = None, ai_durationSec = None, ai_durationMs = Some 1500, ai_keystrokeCount = Some 4\<rparr>"

definition plain_user :: User where
  "plain_user = new_user 0 ''u'' ''o'' ''a@x'' ''h'' ''A'' [] EMPLOYEE None"

theorem queued_rows_well_formed_witness:
  "\<exists>r :: ActivityEvent. ae_userId r = u_id plain_user \<and> ae_deviceId r = Some ''d'' \<and>
    0 \<le> ae_durationSec r \<and> length (ae_appName r) \<le> 255"
proof -
  obtain r where "activity_rows (\<lambda>s. Some 0) (activity_payload plain_user [typing_event] (Some ''d'')) = Some [r]"
    by (auto simp: activity_rows_def activity_payload_def activity_row_def queued_activity_def)
  from queued_rows_well_formed [OF this, of r] have "ae_userId r = u_id plain_user \<and> ae_deviceId r = Some ''d'' \<and>
    0 \<le> ae_durationSec r \<and> length (ae_appName r) \<le> 255"
    by (simp add: typing_event_def)
  then show ?thesis by blast
qed

text \<open>
  The key of a screenshot is the agent's word: an agent that reports another organisation's
  key makes the row of its own organisation point there, and the download link for that object is
  sent to its own dashboards.
\<close>

theorem screenshot_signs_any_key:
  assumes "repository R ss_id" and "D (si_capturedAt dto) = Some captured"
    and "si_screenshotKey dto = screenshot_key t victim"
    and "u_organizationId victim \<noteq> u_organizationId user"
  shows "case saveScreenshot X D R now newId user dto deviceId st of (res, st') \<Rightarrow>
    (\<exists>s \<in> set (ag_screenshots st'). ss_organizationId s = u_organizationId user \<and>
       ss_s3Key s = screenshot_key t victim) \<and>
    (\<exists>p cs. mg_out (ag_monitor st') = mg_out (ag_monitor st)
        @ [(room_of (u_organizationId user), Employee_screenshot p, cs)] \<and>
      sp_url p = getPresignedDownloadUrl X (screenshot_key t victim) (ag_storage st))"
  using assms
  by (auto simp: saveScreenshot_def repository.set_save emitScreenshotTaken_def monitor_emit_def Let_def)

definition no_storage :: agent_storage where
  "no_storage = \<lparr>as_s3 = None, as_bucket = None, as_cdnUrl = None, as_supabase = True\<rparr>"

definition fresh_agent :: "(unit, unit, unit, unit) AgentService" where
  "fresh_agent = \<lparr>ag_people = \<lparr>uv_users = [plain_user], uv_orgs = [], uv_devices = [], uv_audit = [],
       uv_kv = (), uv_mail = []\<rparr>, ag_screenshots = [], ag_gps = [], ag_telemetry = [],
     ag_heartbeats = \<lparr>hb_pending = []\<rparr>, ag_activityQueue = (), ag_metricsQueue = (),
     ag_keystrokesQueue = (), ag_monitor = empty_monitor, ag_storage = no_storage,
     ag_supaBuckets = [], ag_s3Objects = {}, ag_files = (\<lambda>f. [])\<rparr>"

definition plain_sdk :: storage_sdk where
  "plain_sdk = \<lparr>sx_signed_upload = (\<lambda>k. Inr (Some (''put:'' @ k))), sx_signed_download = (\<lambda>k. Inr (''get:'' @ k)),
     sx_s3_put = (\<lambda>b k. ''put:'' @ k), sx_s3_get = (\<lambda>b k. ''get:'' @ k)\<rparr>"

theorem screenshot_signs_any_key_witness:
  "case saveScreenshot plain_sdk (\<lambda>s. Some 0) (typeorm_list ss_id) 5 ''n'' plain_user
      \<lparr>si_screenshotKey = screenshot_key 3 (plain_user\<lparr>u_organizationId := ''o2''\<rparr>),
       si_capturedAt = ''t'', si_fileSizeBytes = 1\<rparr> None fresh_agent of (res, st') \<Rightarrow>
    (\<exists>s \<in> set (ag_screenshots st'). ss_organizationId s = u_organizationId plain_user \<and>
       ss_s3Key s = screenshot_key 3 (plain_user\<lparr>u_organizationId := ''o2''\<rparr>)) \<and>
    (\<exists>p cs. mg_out (ag_monitor st') = mg_out (ag_monitor fresh_agent)
        @ [(room_of (u_organizationId plain_user), Employee_screenshot p, cs)] \<and>
      sp_url p = getPresignedDownloadUrl plain_sdk (screenshot_key 3 (plain_user\<lparr>u_organizationId := ''o2''\<rparr>))
        (ag_storage fresh_agent))"
  by (rule screenshot_signs_any_key) (simp_all add: plain_user_def new_user_def)

section \<open>Registration\<close>

lemma resolve_devices:
  "resolve_agent_user E now dto w = (r, w1) \<Longrightarrow> uv_devices w1 = uv_devices w \<and> uv_users w1 = uv_users w"
  by (auto simp: resolve_agent_user_def split: if_splits option.splits prod.splits)

lemma rotate_devices: "uv_devices (snd (rotateAgentToken E now uuid uid w)) = uv_devices w"
  by (auto simp: rotateAgentToken_def set_agent_token_def Let_def split: option.splits)

lemma rotate_kv: "uv_kv (snd (rotateAgentToken E now uuid uid w)) = uv_kv w"
  by (auto simp: rotateAgentToken_def set_agent_token_def Let_def split: option.splits)

lemma registerAgent_success:
  assumes "registerAgent E now newId dtok uuid dto w = (Inr res, w')"
  shows "\<exists>user w1. resolve_agent_user E now dto w = (Inr (Some user), w1) \<and> u_isActive user \<and>
    falsy_str (ra_personalToken dto) \<noteq> falsy_str (ra_inviteToken dto) \<and>
    res = \<lparr>an_agentToken = dtok, an_employeeId = u_id user, an_orgId = u_organizationId user\<rparr> \<and>
    w' = snd (rotateAgentToken E now uuid (u_id user) (w1\<lparr>uv_devices :=
      orm_save (ue_devices E) (new_device now newId dtok user dto) (uv_devices w1)\<rparr>))"
proof -
  have tok: "falsy_str (ra_personalToken dto) \<noteq> falsy_str (ra_inviteToken dto)"
    using assms by (auto simp: registerAgent_def split: if_splits)
  obtain r w1 where r: "resolve_agent_user E now dto w = (r, w1)" by fastforce
  have body: "(case r of Inl e \<Rightarrow> (Inl e, w1)
      | Inr None \<Rightarrow> (Inl (Unauthorized ''User not found or inactive''), w1)
      | Inr (Some user) \<Rightarrow>
          if \<not> u_isActive user then (Inl (Unauthorized ''User not found or inactive''), w1)
          else (Inr \<lparr>an_agentToken = dtok, an_employeeId = u_id user,
                  an_orgId = u_organizationId user\<rparr>,
                snd (rotateAgentToken E now uuid (u_id user)
                  (w1\<lparr>uv_devices := orm_save (ue_devices E) (new_device now newId dtok user dto)
                    (uv_devices w1)\<rparr>)))) = (Inr res, w')"
    using assms tok r by (auto simp: registerAgent_def split: sum.splits option.splits)
  then show ?thesis using r tok by (auto split: sum.splits option.splits if_splits)
qed


text \<open>
  A token registers one device: after a success the same invitation is refused, and so is the
  same personal token, provided the token generated in its place differs.
\<close>

theorem registration_spends_token:
  assumes U: "repository (ue_users E) u_id" and S: "kv_store (ue_kv E) live"
    and reg: "registerAgent E now newId dtok uuid dto w = (Inr res, w')" and later: "now \<le> now'"
    and owner: "\<forall>u \<in> set (uv_users w). u_agentToken u = ra_personalToken dto \<longrightarrow> u_id u = an_employeeId res"
    and rotated: "\<forall>u \<in> set (uv_users w).
      Some (buildPersonalToken uuid (u_firstName u) (u_lastName u) (u_email u)) \<noteq> ra_personalToken dto"
  shows "\<exists>e. fst (registerAgent E now' newId' dtok' uuid' dto w') = Inl (Unauthorized e)"
proof -
  obtain user w1 where r: "resolve_agent_user E now dto w = (Inr (Some user), w1)"
    and tok: "falsy_str (ra_personalToken dto) \<noteq> falsy_str (ra_inviteToken dto)"
    and res: "an_employeeId res = u_id user"
    and w': "w' = snd (rotateAgentToken E now uuid (u_id user) (w1\<lparr>uv_devices :=
      orm_save (ue_devices E) (new_device now newId dtok user dto) (uv_devices w1)\<rparr>))"
    using registerAgent_success [OF reg] by auto
  have users: "uv_users w1 = uv_users w" using resolve_devices [OF r] by simp
  show ?thesis
  proof (cases "falsy_str (ra_personalToken dto)")
    case True
    obtain userId kv where c: "token_consume (ue_kv E) now Invite (the (ra_inviteToken dto)) (uv_kv w) =
        (Some userId, kv)" "userId \<noteq> []" "uv_kv w1 = kv"
      using r True by (auto simp: resolve_agent_user_def falsy_str_def split: prod.splits if_splits option.splits)
    have "fst (token_consume (ue_kv E) now' Invite (the (ra_inviteToken dto)) (uv_kv w')) = None"
      using kv_store.consume_once [OF S later, of Invite "the (ra_inviteToken dto)" "uv_kv w" userId] c
      by (simp add: w' rotate_kv)
    then show ?thesis using True tok
      by (auto simp: registerAgent_def resolve_agent_user_def split: prod.splits)
  next
    case False
    have f: "find_one (ue_users E) (\<lambda>u. u_agentToken u = ra_personalToken dto) (uv_users w) = Some user"
      using r False by (auto simp: resolve_agent_user_def split: option.splits)
    note in_w = repository.find_one_SomeD [OF U f]
    obtain u0 where u0: "find_one (ue_users E) (\<lambda>u. u_id u = u_id user) (uv_users w) = Some u0"
      using repository.find_one_ex [OF U, of user "uv_users w" "\<lambda>u. u_id u = u_id user"] in_w by auto
    then have "u0 \<in> set (uv_users w)" using repository.find_one_SomeD [OF U u0] by simp
    then have new: "Some (buildPersonalToken uuid (u_firstName u0) (u_lastName u0) (u_email u0)) \<noteq>
        ra_personalToken dto" using rotated by simp
    have "find_one (ue_users E) (\<lambda>u. u_agentToken u = ra_personalToken dto) (uv_users w') = None"
      unfolding repository.find_one_None [OF U]
      using u0 new owner by (auto simp: w' rotateAgentToken_def users set_agent_token_def
          repository.set_update [OF U] Let_def res)
    then show ?thesis using False tok by (auto simp: registerAgent_def resolve_agent_user_def)
  qed
qed

definition owner_world :: "(string \<rightharpoonup> MemEntry) RedisService UsersService" where
  "owner_world = \<lparr>uv_users = [plain_user\<lparr>u_agentToken := Some ''a-1''\<rparr>], uv_orgs = [], uv_devices = [],
     uv_audit = [], uv_kv = empty_redis, uv_mail = []\<rparr>"

definition laptop :: RegisterAgentDto where
  "laptop = \<lparr>ra_inviteToken = None, ra_personalToken = Some ''a-1'', ra_displayName = Some '' '',
     ra_hostname = Some ''host'', ra_os = None, ra_osVersion = None, ra_agentVersion = None\<rparr>"

abbreviation owner_env :: "(string \<rightharpoonup> MemEntry) RedisService users_env" where
  "owner_env \<equiv> list_users_env id file_kv"

lemma laptop_registers:
  "\<exists>w'. registerAgent owner_env 5 ''d'' ''dt'' ''77-7'' laptop owner_world =
    (Inr \<lparr>an_agentToken = ''dt'', an_employeeId = ''u'', an_orgId = ''o''\<rparr>, w')"
  by (simp add: registerAgent_def resolve_agent_user_def laptop_def owner_world_def list_users_env_def
      plain_user_def new_user_def prod_eq_iff)


theorem registration_spends_token_witness:
  "\<exists>w' e. fst (registerAgent owner_env 9 ''d2'' ''dt2'' ''88-8'' laptop w') = Inl (Unauthorized e)"
proof -
  obtain w' where reg: "registerAgent owner_env 5 ''d'' ''dt'' ''77-7'' laptop owner_world =
    (Inr \<lparr>an_agentToken = ''dt'', an_employeeId = ''u'', an_orgId = ''o''\<rparr>, w')"
    using laptop_registers by blast
  have "buildPersonalToken ''77-7'' ''A'' [] ''a@x'' \<noteq> ''a-1''" by code_simp
  then have "\<exists>e. fst (registerAgent owner_env 9 ''d2'' ''dt2'' ''88-8'' laptop w') = Inl (Unauthorized e)"
    by (intro registration_spends_token [OF _ _ reg, where live = "redis_live mem_live"])
      (simp_all add: list_users_env_def owner_world_def plain_user_def new_user_def laptop_def
        map_server.served_store)
  then show ?thesis by blast
qed

end
