(* ===== verification/AgentGuard.thy ===== *)
theory AgentGuard
  imports AgentSvc
begin

text \<open>
  AgentAuthGuard (modules/agent/agent-auth.guard.ts): who an agent request speaks for. The
  identity found in the tables is cached under the device token for five minutes as JSON, with
  \<open>JSON.stringify\<close> and \<open>JSON.parse\<close> of \<open>JsJson\<close>. What the guard puts on the request is the pair of
  the user and the device, as the JSON values later code reads; on a miss the user is the whole
  row, of which later code reads the same four fields.
\<close>

definition CACHE_TTL_SECONDS :: int where "CACHE_TTL_SECONDS = 300"

definition agent_cache_key :: "string \<Rightarrow> string" where
  "agent_cache_key raw = ''agentauth:v2:'' @ raw"

definition strip_bearer :: "string \<Rightarrow> string option" where
  "strip_bearer h = strip_prefix ''Bearer '' h"

text \<open>The \<open>Authorization\<close> header when it is a bearer token, else \<open>x-device-token\<close>.\<close>

definition device_token_of :: "string option \<Rightarrow> string option \<Rightarrow> string option" where
  "device_token_of authHeader xDeviceToken =
     (case authHeader of
        Some h \<Rightarrow> (case strip_bearer h of Some t \<Rightarrow> Some t | None \<Rightarrow> xDeviceToken)
      | None \<Rightarrow> xDeviceToken)"

definition json_opt :: "string option \<Rightarrow> json" where
  "json_opt v = (case v of None \<Rightarrow> JNull | Some s \<Rightarrow> JStr s)"

definition compact_user :: "User \<Rightarrow> json" where
  "compact_user user = JObj [(''id'', JStr (u_id user)), (''organizationId'', JStr (u_organizationId user)),
     (''role'', JStr (role_str (u_role user))), (''isActive'', JBool (u_isActive user))]"

definition compact_device :: "AgentDevice \<Rightarrow> json" where
  "compact_device device = JObj [(''id'', JStr (ad_id device)), (''displayName'', json_opt (ad_displayName device)),
     (''hostname'', json_opt (ad_hostname device))]"

text \<open>
  Reading \<open>.user\<close> and \<open>.device\<close> of what \<open>JSON.parse\<close> returned: \<open>null\<close> throws, a value that is no
  object has neither.
\<close>

definition read_property :: "string \<Rightarrow> json \<Rightarrow> json option" where
  "read_property k j = (case j of JObj ps \<Rightarrow> map_of (rev ps) k | _ \<Rightarrow> None)"

definition read_cached :: "string option \<Rightarrow> (json option \<times> json option) option" where
  "read_cached cached = (if falsy_str cached then None else case JSON_parse (the cached) of
     None \<Rightarrow> None
   | Some JNull \<Rightarrow> None
   | Some j \<Rightarrow> Some (read_property ''user'' j, read_property ''device'' j))"

record 's guard_env =
  ga_devices :: "AgentDevice orm"
  ga_users :: "User orm"
  ga_kv :: "'s kv"

definition agent_canActivate ::
  "'s guard_env \<Rightarrow> js_time \<Rightarrow> string option \<times> string option \<Rightarrow> AgentDevice list \<Rightarrow> User list \<Rightarrow> 's \<Rightarrow>
   (json option \<times> json option) outcome \<times> 's" where
  "agent_canActivate E now headers devices users kv =
     (let raw = device_token_of (fst headers) (snd headers) in
      if falsy_str raw then (Inl (Unauthorized ''No device token provided''), kv)
      else let cacheKey = agent_cache_key (the raw) in
        case kv_get (ga_kv E) now cacheKey kv of (cached, kv1) \<Rightarrow>
          (case read_cached cached of
             Some ident \<Rightarrow> (Inr ident, kv1)
           | None \<Rightarrow> (case findDeviceByToken (ga_devices E) (the raw) devices of
               None \<Rightarrow> (Inl (Unauthorized ''Invalid or expired device token''), kv1)
             | Some device \<Rightarrow>
                 (case find_one (ga_users E) (\<lambda>u. u_id u = ad_userId device) users of
                    None \<Rightarrow> (Inl (Unauthorized ''User not found or inactive''), kv1)
                  | Some user \<Rightarrow> if \<not> u_isActive user
                      then (Inl (Unauthorized ''User not found or inactive''), kv1)
                      else (Inr (Some (compact_user user), Some (compact_device device)),
                        kv_set (ga_kv E) now cacheKey
                          (stringify (JObj [(''user'', compact_user user), (''device'', compact_device device)]))
                          (Some CACHE_TTL_SECONDS) kv1)))))"

lemma agent_cache_key_inj [simp]: "agent_cache_key a = agent_cache_key b \<longleftrightarrow> a = b"
  by (simp add: agent_cache_key_def)

lemma read_cached_written:
  "read_cached (Some (stringify (JObj [(''user'', u), (''device'', d)]))) = Some (Some u, Some d)"
proof -
  define s where "s = stringify (JObj [(''user'', u), (''device'', d)])"
  have "JSON_parse s = Some (JObj [(''user'', u), (''device'', d)])" "s \<noteq> []"
    unfolding s_def by (rule JSON_parse_stringify, simp)
  then show ?thesis unfolding s_def [symmetric] by (simp add: read_cached_def read_property_def)
qed

text \<open>What one call leaves of an entry: its own may be written, any other is untouched.\<close>

lemma guard_frame:
  assumes S: "kv_store (ga_kv E) live" and "now \<le> t'"
    and "findDeviceByToken (ga_devices E) tok devices = None"
  shows "live t' (agent_cache_key tok) (snd (agent_canActivate E now headers devices users kv)) =
    live t' (agent_cache_key tok) kv"
proof -
  have get: "live t' k (snd (kv_get (ga_kv E) now k' kv)) = live t' k kv" for k k'
    by (rule kv_store.get_frame [OF S assms(2)])
  show ?thesis
  proof (cases "device_token_of (fst headers) (snd headers)")
    case None
    then show ?thesis by (simp add: agent_canActivate_def)
  next
    case (Some raw)
    obtain cached kv1 where g: "kv_get (ga_kv E) now (agent_cache_key raw) kv = (cached, kv1)" by fastforce
    have kv1: "live t' (agent_cache_key tok) kv1 = live t' (agent_cache_key tok) kv"
      using get [of "agent_cache_key tok" "agent_cache_key raw"] g by simp
    show ?thesis
      using Some g kv1 assms(3) kv_store.set_live [OF S assms(2)]
      by (cases "raw = tok") (auto simp: agent_canActivate_def Let_def split: option.splits)
  qed
qed

fun guard_runs ::
  "'s guard_env \<Rightarrow> AgentDevice list \<Rightarrow> User list \<Rightarrow> (js_time \<times> string option \<times> string option) list \<Rightarrow> 's \<Rightarrow> 's" where
  "guard_runs E devices users [] kv = kv"
| "guard_runs E devices users ((now, headers) # calls) kv =
     guard_runs E devices users calls (snd (agent_canActivate E now headers devices users kv))"

lemma guard_runs_frame:
  assumes S: "kv_store (ga_kv E) live" and "\<forall>(now, h) \<in> set calls. now \<le> t'"
    and "findDeviceByToken (ga_devices E) tok devices = None"
  shows "live t' (agent_cache_key tok) (guard_runs E devices users calls kv) = live t' (agent_cache_key tok) kv"
  using assms(2)
proof (induction calls arbitrary: kv)
  case (Cons c calls)
  obtain now headers where c: "c = (now, headers)" by (metis surj_pair)
  then show ?case using Cons guard_frame [OF S _ assms(3)] by auto
qed simp

lemma guard_miss:
  assumes S: "kv_store (ga_kv E) live" and "device_token_of (fst headers) (snd headers) = Some tok" "tok \<noteq> []"
    and "live now (agent_cache_key tok) kv = None"
    and "fst (agent_canActivate E now headers devices users kv) = Inr ident"
  shows "\<exists>user device kv1. findDeviceByToken (ga_devices E) tok devices = Some device \<and>
    find_one (ga_users E) (\<lambda>u. u_id u = ad_userId device) users = Some user \<and> u_isActive user \<and>
    ident = (Some (compact_user user), Some (compact_device device)) \<and>
    snd (agent_canActivate E now headers devices users kv) = kv_set (ga_kv E) now (agent_cache_key tok)
      (stringify (JObj [(''user'', compact_user user), (''device'', compact_device device)]))
      (Some CACHE_TTL_SECONDS) kv1"
proof -
  obtain kv1 where g: "kv_get (ga_kv E) now (agent_cache_key tok) kv = (None, kv1)"
    using kv_store.get_live [OF S, of now "agent_cache_key tok" kv] assms(4)
    by (cases "kv_get (ga_kv E) now (agent_cache_key tok) kv") simp
  then show ?thesis
    using assms(2,3,5)
    by (auto simp: agent_canActivate_def Let_def read_cached_def split: option.splits if_splits)
qed

text \<open>
  C19. How long a revoked device lingers: once the guard has looked a device up, and the device is
  deactivated or removed right after, requests with its token are still answered with the same
  identity for exactly five minutes after the lookup and are refused from then on, whatever other
  agents do.
\<close>

theorem revoked_device_grace:
  assumes S: "kv_store (ga_kv E) live"
    and tok: "device_token_of (fst headers) (snd headers) = Some tok" "tok \<noteq> []"
    and miss: "live t0 (agent_cache_key tok) kv = None"
    and first: "fst (agent_canActivate E t0 headers devices users kv) = Inr ident"
    and revoked: "findDeviceByToken (ga_devices E) tok devices' = None"
    and times: "t0 \<le> t'" "\<forall>(now, h) \<in> set calls. t0 \<le> now \<and> now \<le> t'"
  shows "fst (agent_canActivate E t' headers devices' users'
      (guard_runs E devices' users' calls (snd (agent_canActivate E t0 headers devices users kv)))) =
    (if t' \<le> t0 + 300 * 1000 then Inr ident else Inl (Unauthorized ''Invalid or expired device token''))"
proof -
  obtain user device kv1 where i: "ident = (Some (compact_user user), Some (compact_device device))"
    and kv': "snd (agent_canActivate E t0 headers devices users kv) = kv_set (ga_kv E) t0 (agent_cache_key tok)
      (stringify (JObj [(''user'', compact_user user), (''device'', compact_device device)]))
      (Some CACHE_TTL_SECONDS) kv1"
    using guard_miss [OF S tok miss first] by blast
  let ?kv = "guard_runs E devices' users' calls (snd (agent_canActivate E t0 headers devices users kv))"
  have "live t' (agent_cache_key tok) ?kv = live t' (agent_cache_key tok)
      (snd (agent_canActivate E t0 headers devices users kv))"
    by (rule guard_runs_frame [OF S _ revoked]) (use times in auto)
  then have l: "fst (kv_get (ga_kv E) t' (agent_cache_key tok) ?kv) = (if t' \<le> t0 + 300 * 1000
      then Some (stringify (JObj [(''user'', compact_user user), (''device'', compact_device device)]))
      else None)"
    by (simp add: kv_store.get_live [OF S] kv' kv_store.set_live [OF S times(1)] unexpired_def
        CACHE_TTL_SECONDS_def)
  obtain c kv2 where g: "kv_get (ga_kv E) t' (agent_cache_key tok) ?kv = (c, kv2)" by fastforce
  have "c = fst (kv_get (ga_kv E) t' (agent_cache_key tok) ?kv)" by (simp add: g)
  then have c: "read_cached c = (if t' \<le> t0 + 300 * 1000 then Some ident else None)"
    unfolding l i using read_cached_written [of "compact_user user" "compact_device device"]
    by (auto simp: read_cached_def [of None] simp del: stringify.simps)
  show ?thesis using tok g c revoked by (auto simp: agent_canActivate_def Let_def)
qed

definition guard_list :: "(string \<rightharpoonup> MemEntry) RedisService guard_env" where
  "guard_list = \<lparr>ga_devices = typeorm_list ad_id, ga_users = typeorm_list u_id, ga_kv = file_kv\<rparr>"

definition laptop_row :: AgentDevice where
  "laptop_row = new_device 0 ''d'' ''dt'' plain_user laptop"

theorem revoked_device_grace_witness:
  "\<exists>ident. fst (agent_canActivate guard_list 300000 (Some ''Bearer dt'', None) [] [plain_user]
      (guard_runs guard_list [] [plain_user] [(1000, (None, Some ''other''))]
        (snd (agent_canActivate guard_list 0 (Some ''Bearer dt'', None) [laptop_row] [plain_user] empty_redis)))) =
    (if (300000 :: int) \<le> 0 + 300 * 1000 then Inr ident
     else Inl (Unauthorized ''Invalid or expired device token''))"
proof -
  have t: "device_token_of (Some ''Bearer dt'') None = Some ''dt''" by code_simp
  have e: "redis_live mem_live 0 (agent_cache_key ''dt'') empty_redis = None"
    by (simp add: redis_live_def mem_live_def empty_redis_def)
  have "\<exists>ident. fst (agent_canActivate guard_list 0 (Some ''Bearer dt'', None) [laptop_row] [plain_user]
      empty_redis) = Inr ident"
    using map_server.served.get_live [of True 0 "agent_cache_key ''dt''" empty_redis]
    by (auto simp: agent_canActivate_def t guard_list_def e Let_def read_cached_def findDeviceByToken_def
        laptop_row_def new_device_def plain_user_def new_user_def split: prod.splits)
  then obtain ident where ok: "fst (agent_canActivate guard_list 0 (Some ''Bearer dt'', None) [laptop_row]
      [plain_user] empty_redis) = Inr ident" ..
  show ?thesis
    by (rule exI [of _ ident], rule revoked_device_grace [where live = "redis_live mem_live" and tok = "''dt''"])
      (use ok in \<open>simp_all add: t e guard_list_def map_server.served_store findDeviceByToken_def\<close>)
qed

end
