(* ===== verification/MonitorSvc.thy ===== *)
theory MonitorSvc
  imports AgentGuard LiveWatch
begin

text \<open>
  MonitoringService and MonitoringController (modules/monitoring), the command poll of the agent
  controller and MaintenanceService (modules/maintenance): the sweep that announces silent
  devices, activity and screenshot lists, the cached live grid, and the nightly clean-up of old
  screenshots. Responses of the live grid are JSON values, which is what both the cached and the
  computed answer are once they leave the server.
\<close>

definition ONLINE_WINDOW_MS :: int where "ONLINE_WINDOW_MS = 5 * 60 * 1000"
definition OFFLINE_THRESHOLD_MS :: int where "OFFLINE_THRESHOLD_MS = 90 * 1000"

section \<open>The offline sweep\<close>

record MonitoringService =
  mo_offlineEmitted :: "string list"
  mo_gateway :: MonitoringGateway

definition seen_before :: "js_time \<Rightarrow> AgentDevice \<Rightarrow> bool" where
  "seen_before t d \<longleftrightarrow> (case ad_lastSeenAt d of None \<Rightarrow> False | Some s \<Rightarrow> s < t)"

definition offline_event :: "AgentDevice \<Rightarrow> EmployeeStatusPayload" where
  "offline_event d = \<lparr>es_userId = ad_userId d, es_deviceId = Some (ad_id d), es_status = Offline,
     es_activeApp = None, es_lastSeen = nullish (ad_lastSeenAt d) 0\<rparr>"

fun sweep_loop :: "AgentDevice list \<Rightarrow> MonitoringService \<Rightarrow> MonitoringService" where
  "sweep_loop [] m = m"
| "sweep_loop (d # ds) m = sweep_loop ds
     (if ad_id d \<in> set (mo_offlineEmitted m) then m
      else m\<lparr>mo_offlineEmitted := mo_offlineEmitted m @ [ad_id d],
        mo_gateway := emitEmployeeStatus (ad_organizationId d) (offline_event d) (mo_gateway m)\<rparr>)"

definition sweepOfflineAgents ::
  "AgentDevice orm \<Rightarrow> js_time \<Rightarrow> AgentDevice list \<Rightarrow> MonitoringService \<Rightarrow> MonitoringService" where
  "sweepOfflineAgents R now devices m =
     (let stale = orm_find R (\<lambda>d. ad_isActive d \<and> seen_before (now - OFFLINE_THRESHOLD_MS) d)
            any_order None devices;
          m' = sweep_loop stale m
      in m'\<lparr>mo_offlineEmitted := filter (\<lambda>i. i \<in> ad_id ` set stale) (mo_offlineEmitted m')\<rparr>)"

section \<open>Lists\<close>

record monitor_query =
  mz_from :: "string option"
  mz_to :: "string option"
  mz_deviceId :: "string option"

text \<open>
  \<open>Between(new Date(from), new Date(to))\<close> when both are given; None is the error PostgreSQL raises
  on an Invalid Date. A filter that is absent or empty is not added.
\<close>

definition between_filter ::
  "(string \<Rightarrow> js_time option) \<Rightarrow> string option \<Rightarrow> string option \<Rightarrow> (js_time \<Rightarrow> bool) option" where
  "between_filter D from to =
     (if falsy_str from \<or> falsy_str to then Some (\<lambda>t. True)
      else case (D (the from), D (the to)) of
        (Some a, Some b) \<Rightarrow> Some (\<lambda>t. a \<le> t \<and> t \<le> b)
      | _ \<Rightarrow> None)"

definition given :: "string option \<Rightarrow> 'a option \<Rightarrow> ('a \<Rightarrow> string) \<Rightarrow> bool" where
  "given v c f \<longleftrightarrow> falsy_str v \<or> map_option f c = v"

definition getActivity ::
  "(string \<Rightarrow> js_time option) \<Rightarrow> ActivityEvent orm \<Rightarrow> string option \<Rightarrow> string \<Rightarrow> monitor_query \<Rightarrow>
   ActivityEvent list \<Rightarrow> ActivityEvent list outcome" where
  "getActivity D R userId organizationId q t =
     (case between_filter D (mz_from q) (mz_to q) of
        None \<Rightarrow> Inl (PlainError ''invalid input syntax for type timestamp'')
      | Some in_range \<Rightarrow> Inr (orm_find R (\<lambda>e. ae_organizationId e = organizationId
          \<and> given userId (Some (ae_userId e)) id \<and> given (mz_deviceId q) (ae_deviceId e) id
          \<and> in_range (ae_startedAt e)) (desc ae_startedAt) (Some 500) t))"

record ScreenshotWithUrl =
  su_id :: string
  su_userId :: string
  su_capturedAt :: js_time
  su_fileSizeBytes :: int
  su_url :: string

definition getScreenshots ::
  "(string \<Rightarrow> js_time option) \<Rightarrow> Screenshot orm \<Rightarrow> (string \<Rightarrow> string) \<Rightarrow> string option \<Rightarrow> string \<Rightarrow>
   monitor_query \<Rightarrow> Screenshot list \<Rightarrow> ScreenshotWithUrl list outcome" where
  "getScreenshots D R presign userId organizationId q t =
     (case between_filter D (mz_from q) (mz_to q) of
        None \<Rightarrow> Inl (PlainError ''invalid input syntax for type timestamp'')
      | Some in_range \<Rightarrow> Inr (map (\<lambda>s. \<lparr>su_id = ss_id s, su_userId = ss_userId s,
          su_capturedAt = ss_capturedAt s, su_fileSizeBytes = ss_fileSizeBytes s,
          su_url = presign (ss_s3Key s)\<rparr>)
         (orm_find R (\<lambda>e. ss_organizationId e = organizationId
          \<and> given userId (Some (ss_userId e)) id \<and> given (mz_deviceId q) (ss_deviceId e) id
          \<and> in_range (ss_capturedAt e)) (desc ss_capturedAt) (Some 100) t)))"

text \<open>The controller: an employee is pinned to the own id whatever the query says.\<close>

definition target_user :: "User \<Rightarrow> string option \<Rightarrow> string option" where
  "target_user user userId = (if u_role user = EMPLOYEE then Some (u_id user) else userId)"

definition route_getActivity where
  "route_getActivity D R user userId q t =
     getActivity D R (target_user user userId) (u_organizationId user) q t"

definition route_getScreenshots where
  "route_getScreenshots D R presign user userId q t =
     getScreenshots D R presign (target_user user userId) (u_organizationId user) q t"

section \<open>The live grid\<close>

record live_tables =
  lt_devices :: "AgentDevice list"
  lt_users :: "User list"
  lt_activity :: "ActivityEvent list"

record live_orms =
  lo_devices :: "AgentDevice orm"
  lo_activity :: "ActivityEvent orm"

definition live_key :: "string \<Rightarrow> string" where
  "live_key organizationId = ''live:v2:'' @ organizationId"

definition live_user_name :: "User option \<Rightarrow> string" where
  "live_user_name user = or_else
     (js_trim ((case user of Some u \<Rightarrow> u_firstName u | None \<Rightarrow> []) @ '' ''
        @ (case user of Some u \<Rightarrow> u_lastName u | None \<Rightarrow> [])))
     (case user of Some u \<Rightarrow> u_email u | None \<Rightarrow> [])"

definition live_device :: "live_orms \<Rightarrow> string \<Rightarrow> live_tables \<Rightarrow> AgentDevice \<Rightarrow> json" where
  "live_device L organizationId T device =
     (let lastActivity = find_one_by (lo_activity L) (\<lambda>e. ae_deviceId e = Some (ad_id device)
            \<and> ae_organizationId e = organizationId) (desc ae_startedAt) (lt_activity T);
          user = find (\<lambda>u. u_id u = ad_userId device) (lt_users T)
      in JObj [(''deviceId'', JStr (ad_id device)), (''userId'', JStr (ad_userId device)),
        (''userName'', JStr (live_user_name user)),
        (''displayName'', json_opt (ad_displayName device)), (''hostname'', json_opt (ad_hostname device)),
        (''clockedInSince'', JStr (toISOString (nullish (ad_lastSeenAt device) (ad_createdAt device)))),
        (''currentApp'', json_opt (map_option ae_appName lastActivity)),
        (''lastSeenAt'', json_opt (map_option toISOString (ad_lastSeenAt device)))])"

definition live_grid :: "live_orms \<Rightarrow> js_time \<Rightarrow> string \<Rightarrow> live_tables \<Rightarrow> json" where
  "live_grid L now organizationId T = JArr (map (live_device L organizationId T)
     (orm_find (lo_devices L) (\<lambda>d. ad_organizationId d = organizationId \<and> ad_isActive d
        \<and> (case ad_lastSeenAt d of None \<Rightarrow> False | Some s \<Rightarrow> now - ONLINE_WINDOW_MS < s))
      (nulls_first_desc ad_lastSeenAt) None (lt_devices T)))"

definition getLiveStatus ::
  "live_orms \<Rightarrow> 's kv \<Rightarrow> js_time \<Rightarrow> string \<Rightarrow> live_tables \<Rightarrow> 's \<Rightarrow> json outcome \<times> 's" where
  "getLiveStatus L K now organizationId T kv =
     (case kv_get K now (live_key organizationId) kv of (cached, kv1) \<Rightarrow>
        if \<not> falsy_str cached
        then (case JSON_parse (the cached) of
            None \<Rightarrow> (Inl (PlainError ''Unexpected token in JSON''), kv1)
          | Some j \<Rightarrow> (Inr j, kv1))
        else let result = live_grid L now organizationId T
          in (Inr result, kv_set K now (live_key organizationId) (stringify result) (Some 30) kv1))"

section \<open>The command poll\<close>

text \<open>\<open>device?.id\<close> of what the guard put on the request.\<close>

definition getCommands ::
  "js_time \<Rightarrow> string \<Rightarrow> string option \<Rightarrow> LiveWatchCache \<Rightarrow> bool \<times> LiveWatchCache" where
  "getCommands now userId deviceId s =
     (if falsy_str deviceId then (False, s) else isWatched now userId (the deviceId) s)"

section \<open>The nightly clean-up\<close>

fun cleanup_loop ::
  "Screenshot orm \<Rightarrow> (string \<Rightarrow> bool) \<Rightarrow> Screenshot list \<Rightarrow> ('s, 'qa, 'qm, 'qk) AgentService \<Rightarrow>
   ('s, 'qa, 'qm, 'qk) AgentService" where
  "cleanup_loop R s3_ok [] st = st"
| "cleanup_loop R s3_ok (s # ss) st = cleanup_loop R s3_ok ss
     (if as_s3 (ag_storage st) \<noteq> None \<and> \<not> falsy_str (as_bucket (ag_storage st)) \<and> \<not> s3_ok (ss_s3Key s)
      then st
      else (deleteS3Object (ss_s3Key s) st)\<lparr>ag_screenshots :=
        orm_delete R (\<lambda>r. ss_id r = ss_id s) (ag_screenshots st)\<rparr>)"

text \<open>\<open>cutoff\<close> is the instant 90 days back on the server's calendar; \<open>s3_ok\<close> says for which keys S3 answers.\<close>

definition cleanupOldScreenshots ::
  "Screenshot orm \<Rightarrow> (string \<Rightarrow> bool) \<Rightarrow> js_time \<Rightarrow> ('s, 'qa, 'qm, 'qk) AgentService \<Rightarrow>
   ('s, 'qa, 'qm, 'qk) AgentService" where
  "cleanupOldScreenshots R s3_ok cutoff st =
     cleanup_loop R s3_ok (orm_find R (\<lambda>s. ss_capturedAt s < cutoff) any_order (Some 500)
       (ag_screenshots st)) st"

section \<open>One offline event per silence\<close>

abbreviation stale_ids :: "js_time \<Rightarrow> AgentDevice list \<Rightarrow> string set" where
  "stale_ids now devices \<equiv>
     ad_id ` {d \<in> set devices. ad_isActive d \<and> seen_before (now - OFFLINE_THRESHOLD_MS) d}"

lemma sweep_loop_emitted:
  "set (mo_offlineEmitted (sweep_loop ds m)) = set (mo_offlineEmitted m) \<union> ad_id ` set ds"
  by (induction ds arbitrary: m) auto

definition offline_out :: "AgentDevice list \<Rightarrow> MonitoringGateway \<Rightarrow> (string \<times> monitor_event \<times> string set) list" where
  "offline_out ds g = map (\<lambda>d. (room_of (ad_organizationId d), Employee_status (offline_event d),
     room_members (room_of (ad_organizationId d)) g)) ds"

lemma room_members_emit [simp]: "room_members r (monitor_emit orgId ev g) = room_members r g"
  by (simp add: room_members_def monitor_emit_def)

lemma offline_out_emit [simp]: "offline_out ds (monitor_emit orgId ev g) = offline_out ds g"
  by (simp add: offline_out_def)

lemma sweep_loop_out:
  "keyed ad_id ds \<Longrightarrow> mg_out (mo_gateway (sweep_loop ds m)) = mg_out (mo_gateway m) @
     offline_out (filter (\<lambda>d. ad_id d \<notin> set (mo_offlineEmitted m)) ds) (mo_gateway m)"
proof (induction ds arbitrary: m)
  case (Cons d ds)
  have k: "keyed ad_id ds" and d: "ad_id d \<notin> ad_id ` set ds" using Cons.prems by (auto simp: keyed_def)
  have f: "filter (\<lambda>x. ad_id x \<notin> set (mo_offlineEmitted m @ [ad_id d])) ds =
      filter (\<lambda>x. ad_id x \<notin> set (mo_offlineEmitted m)) ds"
  proof (rule filter_cong [OF refl])
    fix x assume "x \<in> set ds"
    then have "ad_id x \<noteq> ad_id d" using d by (metis imageI)
    then show "(ad_id x \<notin> set (mo_offlineEmitted m @ [ad_id d])) = (ad_id x \<notin> set (mo_offlineEmitted m))"
      by simp
  qed
  show ?case
    using Cons.IH [OF k] f by (auto simp: emitEmployeeStatus_def offline_out_def monitor_emit_def
        room_members_def)
qed (simp add: offline_out_def)

lemma sweep_emitted:
  assumes "repository R ad_id"
  shows "set (mo_offlineEmitted (sweepOfflineAgents R now devices m)) = stale_ids now devices"
  using repository.find_set [OF assms] sweep_loop_emitted
  by (auto simp: sweepOfflineAgents_def Let_def)

text \<open>
  C20. A device that falls silent is announced once: whatever the previous sweep announced, the
  next one emits one offline event to the organisation of each device that is silent now and was
  not at the previous sweep, and nothing else, so a device that came back is announced again.
\<close>

theorem offline_once:
  assumes R: "repository R ad_id" and K: "keyed ad_id devices'"
  shows "let m1 = sweepOfflineAgents R t devices m; m2 = sweepOfflineAgents R t' devices' m1 in
    \<exists>ds. mg_out (mo_gateway m2) = mg_out (mo_gateway m1) @ offline_out ds (mo_gateway m1) \<and>
      distinct ds \<and> set ds = {d \<in> set devices'. ad_isActive d \<and>
        seen_before (t' - OFFLINE_THRESHOLD_MS) d \<and> ad_id d \<notin> stale_ids t devices}"
proof -
  let ?P = "\<lambda>d. ad_isActive d \<and> seen_before (t' - OFFLINE_THRESHOLD_MS) d"
  let ?m1 = "sweepOfflineAgents R t devices m"
  let ?stale = "orm_find R ?P any_order None devices'"
  let ?ds = "filter (\<lambda>d. ad_id d \<notin> stale_ids t devices) ?stale"
  have ms: "mset (map ad_id ?stale) = mset (map ad_id (filter ?P devices'))"
    by (simp add: repository.find_mset [OF R])
  have "distinct (map ad_id (filter ?P devices'))" using K by (simp add: keyed_def distinct_map_filter)
  then have k: "keyed ad_id ?stale" unfolding keyed_def using ms by (metis mset_eq_imp_distinct_iff)
  have "mg_out (mo_gateway (sweepOfflineAgents R t' devices' ?m1)) =
      mg_out (mo_gateway ?m1) @ offline_out ?ds (mo_gateway ?m1)"
    using sweep_loop_out [OF k, of ?m1] sweep_emitted [OF R, of t devices m]
    by (simp add: sweepOfflineAgents_def [of R t'] Let_def)
  moreover have "distinct ?ds" using k by (auto simp: keyed_def distinct_map)
  moreover have "set ?ds = {d \<in> set devices'. ad_isActive d \<and>
      seen_before (t' - OFFLINE_THRESHOLD_MS) d \<and> ad_id d \<notin> stale_ids t devices}"
    using repository.find_set [OF R, of ?P any_order devices'] by auto
  ultimately show ?thesis by (auto simp: Let_def)
qed

theorem offline_once_witness:
  "let m1 = sweepOfflineAgents (typeorm_list ad_id) 0 [] \<lparr>mo_offlineEmitted = [], mo_gateway = empty_monitor\<rparr>;
       m2 = sweepOfflineAgents (typeorm_list ad_id) 100000 [laptop_row] m1 in
    \<exists>ds. mg_out (mo_gateway m2) = mg_out (mo_gateway m1) @ offline_out ds (mo_gateway m1) \<and>
      distinct ds \<and> set ds = {d \<in> set [laptop_row]. ad_isActive d \<and>
        seen_before (100000 - OFFLINE_THRESHOLD_MS) d \<and> ad_id d \<notin> stale_ids 0 []}"
  by (rule offline_once) (simp_all add: keyed_def)

section \<open>What an employee sees\<close>

lemma latest_page:
  assumes "repository R key"
  shows "sorted (rev (map f (orm_find R P (desc f) (Some n) t))) \<and>
    length (orm_find R P (desc f) (Some n) t) \<le> n \<and>
    (\<forall>e \<in> set (orm_find R P (desc f) (Some n) t). P e)"
  using repository.find_sorted [OF assms preorder_desc [of f], of P "Some n" t]
    repository.find_length [OF assms, of P "desc f" n t]
    repository.find_subset [OF assms, of _ P "desc f" "Some n" t]
  unfolding sorted_wrt_desc by blast

text \<open>
  An employee who asks for activity or screenshots gets rows of the own account and
  organisation only, whatever user id the query names, newest first and at most 500 or 100.
\<close>

theorem employee_sees_own:
  assumes RA: "repository RA ae_id" and RS: "repository RS ss_id"
    and "u_role user = EMPLOYEE" and "u_id user \<noteq> []"
  shows "(case route_getActivity D RA user userId q acts of Inl _ \<Rightarrow> True | Inr rows \<Rightarrow>
      (\<forall>e \<in> set rows. ae_userId e = u_id user \<and> ae_organizationId e = u_organizationId user) \<and>
      sorted (rev (map ae_startedAt rows)) \<and> length rows \<le> 500) \<and>
    (case route_getScreenshots D RS presign user userId q shots of Inl _ \<Rightarrow> True | Inr rows \<Rightarrow>
      (\<forall>s \<in> set rows. su_userId s = u_id user) \<and> sorted (rev (map su_capturedAt rows)) \<and>
      length rows \<le> 100)"
proof (intro conjI)
  show "case route_getActivity D RA user userId q acts of Inl _ \<Rightarrow> True | Inr rows \<Rightarrow>
      (\<forall>e \<in> set rows. ae_userId e = u_id user \<and> ae_organizationId e = u_organizationId user) \<and>
      sorted (rev (map ae_startedAt rows)) \<and> length rows \<le> 500"
  proof (cases "between_filter D (mz_from q) (mz_to q)")
    case (Some in_range)
    let ?P = "\<lambda>e. ae_organizationId e = u_organizationId user
      \<and> given (Some (u_id user)) (Some (ae_userId e)) id \<and> given (mz_deviceId q) (ae_deviceId e) id
      \<and> in_range (ae_startedAt e)"
    define rows where "rows = orm_find RA ?P (desc ae_startedAt) (Some 500) acts"
    have "ae_userId e = u_id user \<and> ae_organizationId e = u_organizationId user" if "?P e" for e
      using assms(4) that by (simp add: given_def)
    then have "(\<forall>e \<in> set rows. ae_userId e = u_id user \<and> ae_organizationId e = u_organizationId user) \<and>
        sorted (rev (map ae_startedAt rows)) \<and> length rows \<le> 500"
      using latest_page [OF RA, of ae_startedAt ?P 500 acts] unfolding rows_def by blast
    moreover have "route_getActivity D RA user userId q acts = Inr rows"
      using assms(3) Some by (simp add: route_getActivity_def target_user_def getActivity_def rows_def)
    ultimately show ?thesis by simp
  qed (simp add: route_getActivity_def getActivity_def)
  show "case route_getScreenshots D RS presign user userId q shots of Inl _ \<Rightarrow> True | Inr rows \<Rightarrow>
      (\<forall>s \<in> set rows. su_userId s = u_id user) \<and> sorted (rev (map su_capturedAt rows)) \<and>
      length rows \<le> 100"
  proof (cases "between_filter D (mz_from q) (mz_to q)")
    case (Some in_range)
    let ?P = "\<lambda>e. ss_organizationId e = u_organizationId user
      \<and> given (Some (u_id user)) (Some (ss_userId e)) id \<and> given (mz_deviceId q) (ss_deviceId e) id
      \<and> in_range (ss_capturedAt e)"
    define rows where "rows = orm_find RS ?P (desc ss_capturedAt) (Some 100) shots"
    have "ss_userId e = u_id user" if "?P e" for e using assms(4) that by (simp add: given_def)
    then have "(\<forall>e \<in> set rows. ss_userId e = u_id user) \<and>
        sorted (rev (map ss_capturedAt rows)) \<and> length rows \<le> 100"
      using latest_page [OF RS, of ss_capturedAt ?P 100 shots] unfolding rows_def by blast
    moreover have "route_getScreenshots D RS presign user userId q shots = Inr (map (\<lambda>s.
        \<lparr>su_id = ss_id s, su_userId = ss_userId s, su_capturedAt = ss_capturedAt s,
         su_fileSizeBytes = ss_fileSizeBytes s, su_url = presign (ss_s3Key s)\<rparr>) rows)"
      using assms(3) Some by (simp add: route_getScreenshots_def target_user_def getScreenshots_def rows_def)
    ultimately show ?thesis by (simp add: comp_def)
  qed (simp add: route_getScreenshots_def getScreenshots_def)
qed

theorem employee_sees_own_witness:
  "(case route_getActivity (\<lambda>s. None) (typeorm_list ae_id) plain_user (Some ''other'')
       \<lparr>mz_from = None, mz_to = None, mz_deviceId = None\<rparr> [] of Inl _ \<Rightarrow> True | Inr rows \<Rightarrow>
      (\<forall>e \<in> set rows. ae_userId e = u_id plain_user \<and> ae_organizationId e = u_organizationId plain_user) \<and>
      sorted (rev (map ae_startedAt rows)) \<and> length rows \<le> 500) \<and>
    (case route_getScreenshots (\<lambda>s. None) (typeorm_list ss_id) id plain_user (Some ''other'')
       \<lparr>mz_from = None, mz_to = None, mz_deviceId = None\<rparr> [] of Inl _ \<Rightarrow> True | Inr rows \<Rightarrow>
      (\<forall>s \<in> set rows. su_userId s = u_id plain_user) \<and> sorted (rev (map su_capturedAt rows)) \<and>
      length rows \<le> 100)"
  by (rule employee_sees_own) (simp_all add: plain_user_def new_user_def)

section \<open>The cache of the live grid\<close>

text \<open>Other organisations' requests leave the entry alone.\<close>

lemma live_key_inj [simp]: "live_key a = live_key b \<longleftrightarrow> a = b"
  by (simp add: live_key_def)

lemma getLiveStatus_frame:
  assumes S: "kv_store K live" and "now \<le> t'" and "org' \<noteq> org"
  shows "live t' (live_key org) (snd (getLiveStatus L K now org' T kv)) = live t' (live_key org) kv"
proof -
  obtain c kv1 where g: "kv_get K now (live_key org') kv = (c, kv1)" by fastforce
  have "live t' (live_key org) kv1 = live t' (live_key org) kv"
    using kv_store.get_frame [OF S assms(2), of "live_key org" "live_key org'" kv] g by simp
  then show ?thesis using g assms(3) kv_store.set_live [OF S assms(2)]
    by (auto simp: getLiveStatus_def Let_def split: option.splits)
qed

fun live_runs ::
  "live_orms \<Rightarrow> 's kv \<Rightarrow> (js_time \<times> string \<times> live_tables) list \<Rightarrow> 's \<Rightarrow> 's" where
  "live_runs L K [] kv = kv"
| "live_runs L K ((now, org, T) # calls) kv = live_runs L K calls (snd (getLiveStatus L K now org T kv))"

lemma live_runs_frame:
  assumes S: "kv_store K live" and "\<forall>(now, org', T) \<in> set calls. now \<le> t' \<and> org' \<noteq> org"
  shows "live t' (live_key org) (live_runs L K calls kv) = live t' (live_key org) kv"
  using assms(2)
proof (induction calls arbitrary: kv)
  case (Cons c calls)
  obtain now org' T where c: "c = (now, org', T)" by (metis surj_pair)
  then show ?case using Cons getLiveStatus_frame [OF S] by auto
qed simp

text \<open>
  The cached live grid is the computed one: a request of an organisation within thirty seconds
  of a computation gets exactly the answer that was computed then, through printing and parsing
  it, and a later one the answer for the tables as they are; requests of other organisations in
  between change neither.
\<close>

theorem live_cache_equivalent:
  assumes S: "kv_store K live" and miss: "live t0 (live_key org) kv = None" and t: "t0 \<le> t'"
    and calls: "\<forall>(now, org', T) \<in> set calls. now \<le> t' \<and> org' \<noteq> org"
  shows "fst (getLiveStatus L K t' org T' (live_runs L K calls (snd (getLiveStatus L K t0 org T kv)))) =
    Inr (if t' \<le> t0 + 30 * 1000 then live_grid L t0 org T else live_grid L t' org T')"
proof -
  obtain kv1 where g0: "kv_get K t0 (live_key org) kv = (None, kv1)"
    using kv_store.get_live [OF S, of t0 "live_key org" kv] miss
    by (cases "kv_get K t0 (live_key org) kv") simp
  then have first: "snd (getLiveStatus L K t0 org T kv) =
      kv_set K t0 (live_key org) (stringify (live_grid L t0 org T)) (Some 30) kv1"
    by (simp add: getLiveStatus_def Let_def)
  let ?kv = "live_runs L K calls (snd (getLiveStatus L K t0 org T kv))"
  have l: "live t' (live_key org) ?kv = (if t' \<le> t0 + 30 * 1000 then Some (stringify (live_grid L t0 org T)) else None)"
    unfolding live_runs_frame [OF S calls] first kv_store.set_live [OF S t] by (simp add: unexpired_def)
  obtain c kv2 where g: "kv_get K t' (live_key org) ?kv = (c, kv2)" by fastforce
  have c: "c = live t' (live_key org) ?kv" using kv_store.get_live [OF S, of t' "live_key org" ?kv] g by simp
  have ne: "stringify (live_grid L t0 org T) \<noteq> []" by (simp add: live_grid_def)
  show ?thesis
  proof (cases "t' \<le> t0 + 30 * 1000")
    case True
    then have "c = Some (stringify (live_grid L t0 org T))" using l c by simp
    then show ?thesis using g True ne by (simp add: getLiveStatus_def)
  next
    case False
    then have "c = None" using l c by simp
    then show ?thesis using g False by (simp add: getLiveStatus_def Let_def)
  qed
qed

definition live_list :: live_orms where
  "live_list = \<lparr>lo_devices = typeorm_list ad_id, lo_activity = typeorm_list ae_id\<rparr>"

definition live_demo :: live_tables where
  "live_demo = \<lparr>lt_devices = [laptop_row], lt_users = [plain_user], lt_activity = []\<rparr>"

theorem live_cache_equivalent_witness:
  "fst (getLiveStatus live_list file_kv 20000 ''o'' (live_demo\<lparr>lt_devices := []\<rparr>)
      (live_runs live_list file_kv [(10000, ''o2'', live_demo)]
        (snd (getLiveStatus live_list file_kv 1000 ''o'' live_demo empty_redis)))) =
    Inr (if (20000 :: int) \<le> 1000 + 30 * 1000 then live_grid live_list 1000 ''o'' live_demo
      else live_grid live_list 20000 ''o'' (live_demo\<lparr>lt_devices := []\<rparr>))"
  by (rule live_cache_equivalent [where live = "redis_live mem_live"])
    (simp_all add: map_server.served_store redis_live_def mem_live_def empty_redis_def)

section \<open>What the clean-up removes\<close>

lemma cleanup_loop_effect:
  assumes R: "repository R ss_id"
  shows "let st' = cleanup_loop R s3_ok ss st; sg = ag_storage st;
      s3 = (as_s3 sg \<noteq> None \<and> \<not> falsy_str (as_bucket sg));
      gone = {s \<in> set ss. \<not> s3 \<or> s3_ok (ss_s3Key s)} in
    set (ag_screenshots st') = {r \<in> set (ag_screenshots st). ss_id r \<notin> ss_id ` gone} \<and>
    ag_storage st' = sg \<and>
    ag_s3Objects st' = (if s3 then ag_s3Objects st - (\<lambda>s. (the (as_bucket sg), ss_s3Key s)) ` gone
      else ag_s3Objects st)"
proof (induction ss arbitrary: st)
  case (Cons s ss)
  show ?case
    using Cons.IH by (auto simp: Let_def deleteS3Object_def repository.set_delete [OF R])
qed (simp add: Let_def)

text \<open>
  The nightly clean-up deletes at most 500 rows, all older than the cutoff, and all of them
  when there are fewer; with an S3 bucket each deleted row's object goes with it and a failing
  delete keeps the row; without one, as when screenshots live in Supabase Storage, rows go and no
  stored object does.
\<close>

theorem cleanup_deletes_old:
  assumes R: "repository R ss_id" and K: "keyed ss_id (ag_screenshots st)"
  shows "\<exists>old. length old \<le> 500 \<and> set old \<subseteq> {s \<in> set (ag_screenshots st). ss_capturedAt s < cutoff} \<and>
    (length old < 500 \<longrightarrow> set old = {s \<in> set (ag_screenshots st). ss_capturedAt s < cutoff}) \<and>
    (let st' = cleanupOldScreenshots R s3_ok cutoff st; sg = ag_storage st in
      if as_s3 sg \<noteq> None \<and> \<not> falsy_str (as_bucket sg)
      then set (ag_screenshots st') = set (ag_screenshots st) - {s \<in> set old. s3_ok (ss_s3Key s)} \<and>
        ag_s3Objects st' = ag_s3Objects st -
          {(the (as_bucket sg), ss_s3Key s) |s. s \<in> set old \<and> s3_ok (ss_s3Key s)}
      else set (ag_screenshots st') = set (ag_screenshots st) - set old \<and>
        ag_s3Objects st' = ag_s3Objects st)"
proof -
  let ?P = "\<lambda>s. ss_capturedAt s < cutoff"
  define old where "old = orm_find R ?P any_order (Some 500) (ag_screenshots st)"
  obtain ys where ys: "mset ys = filter_mset ?P (mset (ag_screenshots st))" "old = take 500 ys"
    using repository.find_rows [OF R, of ?P "ag_screenshots st" any_order "Some 500"]
    by (auto simp: old_def)
  have all: "set ys = {s \<in> set (ag_screenshots st). ?P s}"
    using ys(1) by (metis set_mset_filter set_mset_mset)
  have sub: "set old \<subseteq> {s \<in> set (ag_screenshots st). ?P s}"
    using all ys(2) by (auto dest: in_set_takeD)
  have full: "length old < 500 \<longrightarrow> set old = {s \<in> set (ag_screenshots st). ?P s}"
    using all ys(2) by auto
  have ids: "ss_id r \<in> ss_id ` A \<longleftrightarrow> r \<in> A" if "A \<subseteq> set old" "r \<in> set (ag_screenshots st)" for A r
    using that sub keyed_same [OF K that(2)] by blast
  let ?ok = "{s \<in> set old. s3_ok (ss_s3Key s)}"
  have rows: "{r \<in> set (ag_screenshots st). ss_id r \<notin> ss_id ` ?ok} = set (ag_screenshots st) - ?ok"
    "{r \<in> set (ag_screenshots st). ss_id r \<notin> ss_id ` set old} = set (ag_screenshots st) - set old"
    using ids [of ?ok] ids [of "set old"] by blast+
  have img: "(\<lambda>s. (b, ss_s3Key s)) ` ?ok = {(b, ss_s3Key s) |s. s \<in> set old \<and> s3_ok (ss_s3Key s)}" for b
    by blast
  have len: "length old \<le> 500" using ys(2) by simp
  note effect = cleanup_loop_effect [OF R, of s3_ok old st, unfolded Let_def]
  have st': "cleanupOldScreenshots R s3_ok cutoff st = cleanup_loop R s3_ok old st"
    by (simp add: cleanupOldScreenshots_def old_def)
  let ?s3 = "as_s3 (ag_storage st) \<noteq> None \<and> \<not> falsy_str (as_bucket (ag_storage st))"
  show ?thesis
  proof (cases ?s3)
    case True
    then have "{s \<in> set old. \<not> ?s3 \<or> s3_ok (ss_s3Key s)} = ?ok" by simp
    then show ?thesis
      using len sub full effect True unfolding st' Let_def
      by (intro exI [of _ old] conjI) (simp_all add: rows(1) img)
  next
    case False
    then have "{s \<in> set old. \<not> ?s3 \<or> s3_ok (ss_s3Key s)} = set old" by simp
    then show ?thesis
      using len sub full effect False unfolding st' Let_def if_not_P [OF False]
      by (intro exI [of _ old] conjI) (simp_all only: rows(2))
  qed
qed

theorem cleanup_deletes_old_witness:
  "\<exists>old. length old \<le> 500 \<and> set old \<subseteq> {s \<in> set (ag_screenshots fresh_agent). ss_capturedAt s < 9} \<and>
    (length old < 500 \<longrightarrow> set old = {s \<in> set (ag_screenshots fresh_agent). ss_capturedAt s < 9}) \<and>
    (let st' = cleanupOldScreenshots (typeorm_list ss_id) (\<lambda>k. True) 9 fresh_agent;
         sg = ag_storage fresh_agent in
      if as_s3 sg \<noteq> None \<and> \<not> falsy_str (as_bucket sg)
      then set (ag_screenshots st') = set (ag_screenshots fresh_agent) - {s \<in> set old. True} \<and>
        ag_s3Objects st' = ag_s3Objects fresh_agent -
          {(the (as_bucket sg), ss_s3Key s) |s. s \<in> set old \<and> True}
      else set (ag_screenshots st') = set (ag_screenshots fresh_agent) - set old \<and>
        ag_s3Objects st' = ag_s3Objects fresh_agent)"
  by (rule cleanup_deletes_old) (simp_all add: fresh_agent_def keyed_def)

end
