(* ===== verification/Csv.thy ===== *)
theory Csv
  imports JsText JsDate JsJson
begin

text \<open>
  CSV as the services write it and a reference reader of RFC 4180 for whole files: a record is a
  list of fields between commas, records are separated by line ends, and a quoted field may hold
  commas, line ends and doubled quotes. The writer of AnalyticsService (\<open>csvField\<close>) and the one of
  AdminService (\<open>escapeCsv\<close>) are the same function.
\<close>

definition csvField :: "string \<Rightarrow> string" where
  "csvField value = (if CHR '','' \<in> set value \<or> quote \<in> set value \<or> newline \<in> set value
     then quote # double_quotes value @ [quote] else value)"

section \<open>The reference reader\<close>

text \<open>
  The reference reader for one CSV field (RFC 4180): a quoted field ends at a quote that is not
  doubled, an unquoted one at a comma, a carriage return or a line feed. It returns the value and the rest.
\<close>

fun read_quoted :: "string \<Rightarrow> string \<times> string" where
  "read_quoted [] = ([], [])"
| "read_quoted [c] = (if c = quote then ([], []) else ([c], []))"
| "read_quoted (c # d # s) =
     (if c = quote then
        if d = quote then (case read_quoted s of (v, r) \<Rightarrow> (quote # v, r)) else ([], d # s)
      else (case read_quoted (d # s) of (v, r) \<Rightarrow> (c # v, r)))"

definition plain_char :: "char \<Rightarrow> bool" where
  "plain_char c \<longleftrightarrow> c \<noteq> CHR '','' \<and> c \<noteq> quote \<and> c \<noteq> newline \<and> c \<noteq> carriage_return"

definition read_csv_field :: "string \<Rightarrow> string \<times> string" where
  "read_csv_field s = (case s of
     c # cs \<Rightarrow> if c = quote then read_quoted cs else (takeWhile plain_char s, dropWhile plain_char s)
   | [] \<Rightarrow> ([], []))"

lemma read_quoted_plain: "c \<noteq> quote \<Longrightarrow> read_quoted (c # s) = (case read_quoted s of (v, r) \<Rightarrow> (c # v, r))"
  by (cases s) auto

lemma read_quoted_doubled:
  "r = [] \<or> hd r \<noteq> quote \<Longrightarrow> read_quoted (double_quotes v @ quote # r) = (v, r)"
proof (induction v)
  case Nil
  then show ?case by (cases r) (simp_all add: double_quotes_def)
next
  case (Cons c v)
  then show ?case by (cases "c = quote") (simp_all add: double_quotes_Cons read_quoted_plain)
qed

text \<open>A record ends at a line feed, a carriage return, or both in this order.\<close>

definition after_return :: "string \<Rightarrow> string" where
  "after_return s = (case s of c # s' \<Rightarrow> if c = newline then s' else s | [] \<Rightarrow> [])"

lemma after_return_length: "length (after_return s) \<le> length s"
  by (simp add: after_return_def split: list.split)

lemma read_quoted_length: "length (snd (read_quoted s)) \<le> length s"
  by (induction s rule: read_quoted.induct) (auto split: prod.splits)

lemma read_csv_field_length: "length (snd (read_csv_field s)) \<le> length s"
  using read_quoted_length le_trans [OF read_quoted_length]
  by (auto simp: read_csv_field_def length_dropWhile_le le_SucI split: list.splits)

function csv_records :: "string \<Rightarrow> string list \<Rightarrow> string list list" where
  "csv_records s acc = (case read_csv_field s of (v, rest) \<Rightarrow>
     (case rest of
        [] \<Rightarrow> [acc @ [v]]
      | c # s' \<Rightarrow> if c = CHR '','' then csv_records s' (acc @ [v])
          else if c = newline then (acc @ [v]) # csv_records s' []
          else if c = carriage_return then (acc @ [v]) # csv_records (after_return s') []
          else [acc @ [v]]))"
  by pat_completeness auto

termination
proof (relation "measure (length \<circ> fst)")
  fix s v c :: string and acc :: "string list" and rest x s'
  assume "(v, rest) = read_csv_field s" and "rest = x # s'"
  then have "length s' < length s" using read_csv_field_length [of s] by (metis length_Cons less_eq_Suc_le snd_conv)
  then show "((s', acc @ [v]), s, acc) \<in> measure (length \<circ> fst)" "((s', []), s, acc) \<in> measure (length \<circ> fst)"
    "((after_return s', []), s, acc) \<in> measure (length \<circ> fst)"
    using after_return_length [of s'] by simp_all
qed simp

declare csv_records.simps [simp del]

definition read_csv :: "string \<Rightarrow> string list list" where
  "read_csv s = csv_records s []"

section \<open>Reading back what was written\<close>

definition field_end :: "string \<Rightarrow> bool" where
  "field_end r \<longleftrightarrow> (case r of [] \<Rightarrow> True | c # _ \<Rightarrow> c = CHR '','' \<or> c = newline)"

text \<open>
  The writer quotes a field for a comma, a quote or a line feed in it, and not for a carriage return; such a
  field survives only if something else gets it quoted.
\<close>

definition return_quoted :: "string \<Rightarrow> bool" where
  "return_quoted v \<longleftrightarrow> carriage_return \<in> set v \<longrightarrow> CHR '','' \<in> set v \<or> quote \<in> set v \<or> newline \<in> set v"

lemma read_written_field:
  assumes "field_end r" and q: "return_quoted v"
  shows "read_csv_field (csvField v @ r) = (v, r)"
proof (cases "CHR '','' \<in> set v \<or> quote \<in> set v \<or> newline \<in> set v")
  case True
  have "r = [] \<or> hd r \<noteq> quote" using assms by (auto simp: field_end_def split: list.splits)
  then show ?thesis using True by (simp add: csvField_def read_csv_field_def read_quoted_doubled)
next
  case False
  have v: "\<forall>c \<in> set v. plain_char c" using False q by (auto simp: plain_char_def return_quoted_def)
  have "takeWhile plain_char (v @ r) = v \<and> dropWhile plain_char (v @ r) = r"
    using v assms by (cases r) (auto simp: field_end_def plain_char_def)
  then show ?thesis
    using False assms by (cases "v @ r") (auto simp: csvField_def read_csv_field_def field_end_def)
qed

lemma read_written_record:
  assumes "fs \<noteq> []" and "field_end r" and "r = [] \<or> hd r = newline" and "\<forall>f \<in> set fs. return_quoted f"
  shows "csv_records (join_with '','' (map csvField fs) @ r) acc =
    (case r of [] \<Rightarrow> [acc @ fs] | c # r' \<Rightarrow> (acc @ fs) # csv_records r' [])"
  using assms(1,4)
proof (induction fs arbitrary: acc)
  case (Cons f fs)
  have q: "return_quoted f" using Cons.prems(2) by simp
  show ?case
  proof (cases fs)
    case Nil
    then show ?thesis using read_written_field [OF assms(2) q] assms(3)
      by (subst csv_records.simps) (auto split: list.splits)
  next
    case (Cons g gs)
    have "field_end ('','' @ join_with '','' (map csvField fs) @ r)" by (simp add: field_end_def)
    from read_written_field [OF this q] show ?thesis
      using Cons.IH [of "acc @ [f]"] Cons.prems Cons
      by (subst csv_records.simps) (simp split: list.split)
  qed
qed simp

lemma read_csv_written:
  assumes "rows \<noteq> []" and "\<forall>fs \<in> set rows. fs \<noteq> [] \<and> (\<forall>f \<in> set fs. return_quoted f)"
  shows "read_csv (join_with [newline] (map (\<lambda>fs. join_with '','' (map csvField fs)) rows)) = rows"
  using assms
proof (induction rows)
  case (Cons fs rows)
  show ?case
  proof (cases rows)
    case Nil
    then show ?thesis using read_written_record [of fs "[]" "[]"] Cons.prems
      by (simp add: read_csv_def field_end_def)
  next
    case (Cons gs more)
    let ?r = "newline # join_with [newline] (map (\<lambda>fs. join_with '','' (map csvField fs)) rows)"
    have "csv_records (join_with '','' (map csvField fs) @ ?r) [] = fs # csv_records (tl ?r) []"
      using read_written_record [of fs ?r "[]"] Cons.prems by (simp add: field_end_def)
    then show ?thesis using Cons.IH Cons.prems Cons by (simp add: read_csv_def)
  qed
qed simp

section \<open>Fields that need no quoting\<close>

lemma csvField_plain: "\<forall>c \<in> set v. plain_char c \<Longrightarrow> csvField v = v"
  by (auto simp: csvField_def plain_char_def)

lemma return_quoted_plain: "\<forall>c \<in> set v. plain_char c \<Longrightarrow> return_quoted v"
  by (auto simp: return_quoted_def plain_char_def)

lemma return_quoted_Nil [simp]: "return_quoted []"
  by (simp add: return_quoted_def)

text \<open>A description of two lines ended in the way of old Macintoshes makes two records of one.\<close>

lemma lone_return_splits:
  "read_csv (join_with '','' (map csvField [''a'', ''b'' @ [carriage_return] @ ''c'', ''d''])) = [[''a'', ''b''], [''c'', ''d'']]"
  by code_simp

lemma digit_plain_char: "n < 10 \<Longrightarrow> plain_char (digit n)"
proof -
  assume n: "n < 10"
  have "of_char (digit n) \<noteq> (of_char CHR '','' :: nat)" "of_char (digit n) \<noteq> (of_char quote :: nat)"
    "of_char (digit n) \<noteq> (of_char newline :: nat)" "of_char (digit n) \<noteq> (of_char carriage_return :: nat)"
    unfolding of_char_digit [OF n] by simp_all
  then show "plain_char (digit n)" unfolding plain_char_def by metis
qed

lemma pad_plain: "c \<in> set (pad2 n) \<Longrightarrow> plain_char c" "c \<in> set (pad3 n) \<Longrightarrow> plain_char c"
  "c \<in> set (pad4 n) \<Longrightarrow> plain_char c"
  by (auto simp: pad2_def pad3_def pad4_def intro!: digit_plain_char)

lemma iso_plain: "c \<in> set (toISOString t) \<Longrightarrow> plain_char c"
proof -
  have m: "plain_char CHR ''-''" "plain_char CHR ''+''" "plain_char CHR ''T''" "plain_char CHR '':''"
    "plain_char CHR ''.''" "plain_char CHR ''Z''" by (simp_all add: plain_char_def)
  show "c \<in> set (toISOString t) \<Longrightarrow> plain_char c"
    using m by (auto simp: toISOString_def iso_year_def dest: pad_plain split: if_splits)
qed

lemma iso_texts_plain: "\<forall>c \<in> set (toISOString t). plain_char c" "\<forall>c \<in> set (iso_date t). plain_char c"
  "\<forall>c \<in> set (iso_hhmm t). plain_char c"
  by (auto simp: iso_date_def iso_hhmm_def dest!: in_set_takeD in_set_dropD dest: iso_plain)

lemma csvField_iso [simp]:
  "csvField (toISOString t) = toISOString t" "csvField (iso_date t) = iso_date t"
  "csvField (iso_hhmm t) = iso_hhmm t"
  using iso_texts_plain [of t] by (simp_all add: csvField_plain)

lemma return_quoted_iso [simp]:
  "return_quoted (toISOString t)" "return_quoted (iso_date t)" "return_quoted (iso_hhmm t)"
  using iso_texts_plain [of t] by (simp_all add: return_quoted_plain)

lemma int_str_plain: "\<forall>c \<in> set (int_str i). plain_char c"
proof
  fix c assume "c \<in> set (int_str i)"
  then have "c = CHR ''-'' \<or> c \<in> set (nat_str (nat \<bar>i\<bar>))" by (auto simp: int_str_def split: if_splits)
  then show "plain_char c"
  proof
    assume "c \<in> set (nat_str (nat \<bar>i\<bar>))"
    then show ?thesis using nat_str_digits [of c "nat \<bar>i\<bar>"] digit_plain_char by blast
  qed (simp add: plain_char_def)
qed

lemma csvField_int [simp]: "csvField (int_str i) = int_str i"
  by (rule csvField_plain [OF int_str_plain])

lemma return_quoted_int [simp]: "return_quoted (int_str i)"
  by (rule return_quoted_plain [OF int_str_plain])

lemma csvField_Nil [simp]: "csvField [] = []"
  by (simp add: csvField_def)

end
