(* ===== verification/Analytics.thy ===== *)
theory Analytics
  imports Csv MonitorSvc EntitiesWork
begin

text \<open>
  AnalyticsService and AnalyticsController (modules/analytics): productivity per day, app usage,
  the productive/unproductive report, the summary per user, the heat map and the CSV export. The
  \<open>Map\<close>s of the code are association lists in insertion order, numbers that are not whole are
  reals, and \<open>Math.round\<close> is \<open>js_round\<close>. Responses that go through the cache are JSON values.
  \<open>D\<close> is \<open>Date.parse\<close>; \<open>setDate\<close> works on a server whose time zone is UTC.
\<close>

section \<open>JavaScript maps, rounding and the cache\<close>

text \<open>\<open>m.set(k, f(m.get(k) ?? d))\<close>\<close>

fun upsert :: "'k \<Rightarrow> 'v \<Rightarrow> ('v \<Rightarrow> 'v) \<Rightarrow> ('k \<times> 'v) list \<Rightarrow> ('k \<times> 'v) list" where
  "upsert k d f [] = [(k, f d)]"
| "upsert k d f ((k', v) # m) = (if k' = k then (k, f v) # m else (k', v) # upsert k d f m)"

definition read_through ::
  "'s kv \<Rightarrow> js_time \<Rightarrow> string \<Rightarrow> int \<Rightarrow> bool \<Rightarrow> json outcome \<Rightarrow> 's \<Rightarrow> json outcome \<times> 's" where
  "read_through K now key ttl store result kv =
     (case kv_get K now key kv of (cached, kv1) \<Rightarrow>
        if \<not> falsy_str cached
        then (case JSON_parse (the cached) of
            None \<Rightarrow> (Inl (PlainError ''Unexpected token in JSON''), kv1)
          | Some j \<Rightarrow> (Inr j, kv1))
        else case result of
            Inl e \<Rightarrow> (Inl e, kv1)
          | Inr j \<Rightarrow> (Inr j, if store then kv_set K now key (stringify j) (Some ttl) kv1 else kv1))"

definition day_ms :: int where "day_ms = 86400000"

text \<open>The loops that list the days from \<open>cursor\<close> to \<open>loopEnd\<close>.\<close>

function day_list :: "js_time \<Rightarrow> js_time \<Rightarrow> js_time list" where
  "day_list cursor loopEnd =
     (if cursor \<le> loopEnd then cursor # day_list (cursor + day_ms) loopEnd else [])"
  by pat_completeness auto

termination
  by (relation "measure (\<lambda>(c, e). nat (e - c + 1))") (auto simp: day_ms_def)

declare day_list.simps [simp del]

record analytics_tables =
  nt_activity :: "ActivityEvent list"
  nt_attendance :: "Attendance list"
  nt_entries :: "TimeEntry list"
  nt_users :: "User list"

record analytics_orms =
  no_activity :: "ActivityEvent orm"
  no_attendance :: "Attendance orm"
  no_entries :: "TimeEntry orm"

definition utc_start :: "(string \<Rightarrow> js_time option) \<Rightarrow> string \<Rightarrow> js_time option" where
  "utc_start D date = D (date @ ''T00:00:00.000Z'')"

definition utc_end :: "(string \<Rightarrow> js_time option) \<Rightarrow> string \<Rightarrow> js_time option" where
  "utc_end D date = D (date @ ''T23:59:59.999Z'')"

definition cache_ttl :: "js_time \<Rightarrow> string \<Rightarrow> int" where
  "cache_ttl now to = (if to < iso_date now then 86400 else 300)"

definition scoped_activity :: "analytics_orms \<Rightarrow> string option \<Rightarrow> string \<Rightarrow> (js_time \<Rightarrow> bool) \<Rightarrow> nat option \<Rightarrow>
    analytics_tables \<Rightarrow> ActivityEvent list" where
  "scoped_activity R userId organizationId in_range n T = orm_find (no_activity R)
     (\<lambda>e. ae_organizationId e = organizationId \<and> given userId (Some (ae_userId e)) id
        \<and> in_range (ae_startedAt e)) any_order n (nt_activity T)"

section \<open>Productivity per day\<close>

record DailyProductivity =
  dp_date :: string
  dp_score :: int
  dp_workedMins :: int
  dp_activeMins :: int
  dp_idleMins :: int

definition daily_json :: "DailyProductivity \<Rightarrow> json" where
  "daily_json d = JObj [(''date'', JStr (dp_date d)), (''score'', JNum (dp_score d)),
     (''workedMins'', JNum (dp_workedMins d)), (''activeMins'', JNum (dp_activeMins d)),
     (''idleMins'', JNum (dp_idleMins d))]"

definition worked_sec :: "js_time \<Rightarrow> Attendance list \<Rightarrow> (string \<times> real) list" where
  "worked_sec now attendances = fold (\<lambda>att m.
     upsert (iso_date (att_clockIn att)) 0
       (\<lambda>w. w + max 0 (of_int (nullish (att_clockOut att) now - att_clockIn att) / 1000)) m)
     attendances []"

definition active_sec :: "ActivityEvent list \<Rightarrow> (string \<times> real) list" where
  "active_sec activities = fold (\<lambda>ev m.
     upsert (iso_date (ae_startedAt ev)) 0 (\<lambda>a. a + of_int (ae_durationSec ev)) m) activities []"

definition daily_productivity :: "(string \<times> real) list \<Rightarrow> (string \<times> real) list \<Rightarrow> string \<Rightarrow> DailyProductivity" where
  "daily_productivity worked active date =
     (let workedSec = nullish (map_of worked date) 0;
          activeSec = min (nullish (map_of active date) 0) workedSec;
          idleSec = max 0 (workedSec - activeSec)
      in \<lparr>dp_date = date,
          dp_score = (if workedSec > 0 then min 100 (js_round (activeSec / workedSec * 100)) else 0),
          dp_workedMins = js_round (workedSec / 60), dp_activeMins = js_round (activeSec / 60),
          dp_idleMins = js_round (idleSec / 60)\<rparr>)"

definition productivity_days ::
  "analytics_orms \<Rightarrow> (string \<Rightarrow> js_time option) \<Rightarrow> js_time \<Rightarrow> string option \<Rightarrow> string \<Rightarrow> string \<Rightarrow> string \<Rightarrow>
   analytics_tables \<Rightarrow> DailyProductivity list option" where
  "productivity_days R D now userId organizationId from to T =
     (case (utc_start D from, utc_end D to) of
        (Some fromDate, Some toDate) \<Rightarrow>
          let in_range = (\<lambda>t. fromDate \<le> t \<and> t \<le> toDate);
              attendances = orm_find (no_attendance R) (\<lambda>a. att_organizationId a = organizationId
                \<and> given userId (Some (att_userId a)) id \<and> in_range (att_clockIn a)) any_order None
                (nt_attendance T);
              activities = scoped_activity R userId organizationId in_range None T;
              dates = (case utc_start D to of
                None \<Rightarrow> [] | Some loopEnd \<Rightarrow> map iso_date (day_list fromDate loopEnd))
          in Some (map (daily_productivity (worked_sec now attendances) (active_sec activities)) dates)
      | _ \<Rightarrow> None)"

definition productivity_key :: "string \<Rightarrow> string \<Rightarrow> string \<Rightarrow> string option \<Rightarrow> string" where
  "productivity_key organizationId from to userId =
     ''productivity:'' @ organizationId @ '':'' @ from @ '':'' @ to @ '':'' @ nullish userId ''all''"

definition rows_or_error :: "('a \<Rightarrow> json) \<Rightarrow> 'a list option \<Rightarrow> json outcome" where
  "rows_or_error f rows = (case rows of
     None \<Rightarrow> Inl (PlainError ''invalid input syntax for type timestamp'')
   | Some rs \<Rightarrow> Inr (JArr (map f rs)))"

definition getProductivity where
  "getProductivity R K D now userId organizationId from to T kv =
     read_through K now (productivity_key organizationId from to userId) (cache_ttl now to) True
       (rows_or_error daily_json (productivity_days R D now userId organizationId from to T)) kv"

section \<open>App usage\<close>

record AppUsageRow =
  ap_appName :: string
  ap_totalMins :: int
  ap_percentage :: int

definition app_usage_json :: "AppUsageRow \<Rightarrow> json" where
  "app_usage_json r = JObj [(''appName'', JStr (ap_appName r)), (''totalMins'', JNum (ap_totalMins r)),
     (''percentage'', JNum (ap_percentage r))]"

definition app_totals :: "ActivityEvent list \<Rightarrow> (string \<times> int) list" where
  "app_totals events =
     fold (\<lambda>ev m. upsert (ae_appName ev) 0 (\<lambda>s. s + ae_durationSec ev) m) events []"

definition app_usage_rows :: "ActivityEvent list \<Rightarrow> AppUsageRow list" where
  "app_usage_rows events =
     (let totals = app_totals events; totalSec = sum_list (map snd totals) in
      if totalSec = 0 then []
      else isort_by (desc ap_totalMins) (map (\<lambda>(appName, sec).
        \<lparr>ap_appName = appName, ap_totalMins = js_round (of_int sec / 60),
         ap_percentage = js_round (of_int sec / of_int totalSec * 100)\<rparr>) totals))"

definition appusage_key :: "string \<Rightarrow> string \<Rightarrow> string \<Rightarrow> string option \<Rightarrow> string" where
  "appusage_key organizationId from to userId =
     ''appusage:'' @ organizationId @ '':'' @ from @ '':'' @ to @ '':'' @ nullish userId ''all''"

definition getAppUsage where
  "getAppUsage R K D now userId organizationId from to T kv =
     (let rows = (case (utc_start D from, utc_end D to) of
            (Some a, Some b) \<Rightarrow> Some (app_usage_rows
              (scoped_activity R userId organizationId (\<lambda>t. a \<le> t \<and> t \<le> b) (Some 10000) T))
          | _ \<Rightarrow> None)
      in read_through K now (appusage_key organizationId from to userId) (cache_ttl now to)
           (rows \<noteq> Some []) (rows_or_error app_usage_json rows) kv)"

section \<open>The report\<close>

definition PRODUCTIVE_APPS :: "string set" where
  "PRODUCTIVE_APPS = {''code'', ''vscode'', ''code.exe'', ''webstorm'', ''intellij'', ''pycharm'', ''goland'',
     ''sublime'', ''vim'', ''neovim'', ''emacs'', ''terminal'', ''iterm'', ''hyper'',
     ''figma'', ''sketch'', ''xd'', ''photoshop'', ''illustrator'',
     ''chrome'', ''firefox'', ''safari'', ''edge'',
     ''slack'', ''teams'', ''zoom'', ''meet'', ''discord'',
     ''excel'', ''sheets'', ''word'', ''docs'', ''powerpoint'', ''notion'', ''obsidian'',
     ''jira'', ''linear'', ''asana'', ''trello'', ''github'', ''gitlab'',
     ''postman'', ''insomnia'', ''docker'', ''kubectl''}"

definition UNPRODUCTIVE_APPS :: "string set" where
  "UNPRODUCTIVE_APPS = {''youtube'', ''netflix'', ''hulu'', ''disney'', ''twitch'', ''tiktok'',
     ''facebook'', ''instagram'', ''twitter'', ''reddit'', ''snapchat'',
     ''steam'', ''epic games'', ''battle.net'', ''minecraft'',
     ''spotify'', ''vlc'', ''itunes'', ''solitaire'', ''minesweeper''}"

datatype app_category = Productive | Unproductive | Neutral

fun category_str :: "app_category \<Rightarrow> string" where
  "category_str Productive = ''productive''"
| "category_str Unproductive = ''unproductive''"
| "category_str Neutral = ''neutral''"

text \<open>\<open>s.replace(pat, '')\<close> with a string pattern removes the first occurrence.\<close>

fun remove_first :: "string \<Rightarrow> string \<Rightarrow> string" where
  "remove_first pat [] = []"
| "remove_first pat (c # cs) = (case strip_prefix pat (c # cs) of
     Some rest \<Rightarrow> rest | None \<Rightarrow> c # remove_first pat cs)"

definition categorizeApp :: "string \<Rightarrow> app_category" where
  "categorizeApp appName =
     (let lower = js_trim (remove_first ''.app'' (remove_first ''.exe'' (toLowerCase appName))) in
      if lower \<in> PRODUCTIVE_APPS then Productive
      else if lower \<in> UNPRODUCTIVE_APPS then Unproductive else Neutral)"

record report_day =
  rd_productive :: int
  rd_unproductive :: int
  rd_neutral :: int
  rd_apps :: "(string \<times> int \<times> app_category) list"

definition duration_minutes :: "ActivityEvent \<Rightarrow> int" where
  "duration_minutes act = js_round (of_int (ae_durationSec act) / 60)"

definition add_activity :: "ActivityEvent \<Rightarrow> report_day \<Rightarrow> report_day" where
  "add_activity act day =
     (let mins = duration_minutes act; category = categorizeApp (ae_appName act);
          day1 = (case category of
             Productive \<Rightarrow> day\<lparr>rd_productive := rd_productive day + mins\<rparr>
           | Unproductive \<Rightarrow> day\<lparr>rd_unproductive := rd_unproductive day + mins\<rparr>
           | Neutral \<Rightarrow> day\<lparr>rd_neutral := rd_neutral day + mins\<rparr>)
      in day1\<lparr>rd_apps := upsert (ae_appName act) (0, category) (\<lambda>(m, c). (m + mins, c)) (rd_apps day1)\<rparr>)"

definition empty_day :: report_day where
  "empty_day = \<lparr>rd_productive = 0, rd_unproductive = 0, rd_neutral = 0, rd_apps = []\<rparr>"

definition report_by_date :: "ActivityEvent list \<Rightarrow> (string \<times> report_day) list" where
  "report_by_date activities =
     fold (\<lambda>act m. upsert (iso_date (ae_startedAt act)) empty_day (add_activity act) m) activities []"

definition day_total :: "report_day \<Rightarrow> int" where
  "day_total day = rd_productive day + rd_unproductive day + rd_neutral day"

definition report_json :: "string \<times> report_day \<Rightarrow> json" where
  "report_json = (\<lambda>(date, day). JObj [(''date'', JStr date),
     (''productiveMinutes'', JNum (rd_productive day)), (''unproductiveMinutes'', JNum (rd_unproductive day)),
     (''neutralMinutes'', JNum (rd_neutral day)), (''totalMinutes'', JNum (day_total day)),
     (''topApps'', JArr (map (\<lambda>(appName, m, c). JObj [(''appName'', JStr appName), (''minutes'', JNum m),
        (''category'', JStr (category_str c))])
        (take 5 (isort_by (desc (\<lambda>(a, m, c). m)) (rd_apps day)))))])"

definition report_days ::
  "analytics_orms \<Rightarrow> string option \<Rightarrow> string \<Rightarrow> analytics_tables \<Rightarrow> (string \<times> report_day) list" where
  "report_days R userId organizationId T = isort_by (asc fst)
     (report_by_date (scoped_activity R userId organizationId (\<lambda>t. True) None T))"

definition report_key :: "string \<Rightarrow> string option \<Rightarrow> string \<Rightarrow> string \<Rightarrow> string" where
  "report_key organizationId userId from to =
     ''analytics:report:'' @ organizationId @ '':'' @ nullish userId ''all'' @ '':'' @ from @ '':'' @ to"

definition getProductivityReport where
  "getProductivityReport R K now organizationId userId from to T kv =
     read_through K now (report_key organizationId userId from to) 300 True
       (Inr (JArr (map report_json (report_days R userId organizationId T)))) kv"

section \<open>Summary and heat map\<close>

record user_summary =
  um_userId :: string
  um_firstName :: string
  um_lastName :: string
  um_productivePercent :: int
  um_totalHours :: real
  um_topApp :: string

record summary_acc =
  ua_productive :: int
  ua_total :: int
  ua_topApps :: "(string \<times> int) list"

definition summary_add :: "ActivityEvent \<Rightarrow> summary_acc \<Rightarrow> summary_acc" where
  "summary_add act entry =
     (let mins = duration_minutes act in
      entry\<lparr>ua_total := ua_total entry + mins,
        ua_productive := ua_productive entry
          + (if categorizeApp (ae_appName act) = Productive then mins else 0),
        ua_topApps := upsert (ae_appName act) 0 (\<lambda>m. m + mins) (ua_topApps entry)\<rparr>)"

definition getOrgProductivitySummary ::
  "analytics_orms \<Rightarrow> string \<Rightarrow> string \<Rightarrow> string \<Rightarrow> analytics_tables \<Rightarrow> user_summary list" where
  "getOrgProductivitySummary R organizationId from to T =
     (let activities = scoped_activity R None organizationId (\<lambda>t. True) None T;
          byUser = fold (\<lambda>act m. upsert (ae_userId act)
            \<lparr>ua_productive = 0, ua_total = 0, ua_topApps = []\<rparr> (summary_add act) m) activities []
      in map (\<lambda>(uid, data).
          let user = find (\<lambda>u. u_id u = uid) (nt_users T) in
          \<lparr>um_userId = uid,
           um_firstName = (case user of Some u \<Rightarrow> u_firstName u | None \<Rightarrow> []),
           um_lastName = (case user of Some u \<Rightarrow> u_lastName u | None \<Rightarrow> []),
           um_productivePercent = (if ua_total data > 0
             then js_round (of_int (ua_productive data) / of_int (ua_total data) * 100) else 0),
           um_totalHours = of_int (js_round (of_int (ua_total data) / 60 * 10)) / 10,
           um_topApp = (case isort_by (desc snd) (ua_topApps data) of
             [] \<Rightarrow> ''N/A'' | (appName, m) # _ \<Rightarrow> appName)\<rparr>) byUser)"

record heat_day =
  hd_date :: string
  hd_productiveMinutes :: int
  hd_level :: nat

definition heat_level :: "int \<Rightarrow> nat" where
  "heat_level mins = (if mins = 0 then 0 else if mins < 60 then 1 else if mins < 120 then 2
     else if mins < 240 then 3 else 4)"

text \<open>Reading \<open>date\<close> and \<open>productiveMinutes\<close> of the rows, parsed or computed.\<close>

definition report_minutes :: "json \<Rightarrow> (string \<times> int) list" where
  "report_minutes j = (case j of JArr rows \<Rightarrow> List.map_filter (\<lambda>r.
       case (read_property ''date'' r, read_property ''productiveMinutes'' r) of
         (Some (JStr d), Some (JNum m)) \<Rightarrow> Some (d, m) | _ \<Rightarrow> None) rows
     | _ \<Rightarrow> [])"

definition getProductivityHeatmap where
  "getProductivityHeatmap R K now organizationId userId weeks T kv =
     (let start = now - weeks * 7 * day_ms in
      case getProductivityReport R K now organizationId userId (iso_date start) (iso_date now) T kv of
        (Inl e, kv') \<Rightarrow> (Inl e, kv')
      | (Inr report, kv') \<Rightarrow>
          (Inr (map (\<lambda>t. let date = iso_date t;
                 mins = nullish (map_of (rev (report_minutes report)) date) 0 in
               \<lparr>hd_date = date, hd_productiveMinutes = mins, hd_level = heat_level mins\<rparr>)
             (day_list start now)), kv'))"

section \<open>CSV export\<close>

definition csv_row :: "TimeEntry \<Rightarrow> string" where
  "csv_row e = iso_date (te_startedAt e) @ '','' @ iso_hhmm (te_startedAt e) @ '',''
     @ (case te_endedAt e of Some t \<Rightarrow> iso_hhmm t | None \<Rightarrow> []) @ '',''
     @ int_str (case te_endedAt e of
         Some t \<Rightarrow> js_round (of_int (t - te_startedAt e) / 60000) | None \<Rightarrow> 0) @ '',''
     @ csvField (nullish (te_description e) []) @ '','' @ source_str (te_source e)"

definition exportTimeEntriesCSV ::
  "analytics_orms \<Rightarrow> (string \<Rightarrow> js_time option) \<Rightarrow> string option \<Rightarrow> string \<Rightarrow> string \<Rightarrow> string \<Rightarrow>
   analytics_tables \<Rightarrow> string outcome" where
  "exportTimeEntriesCSV R D userId organizationId from to T =
     (case (utc_start D from, utc_end D to) of
        (Some a, Some b) \<Rightarrow>
          Inr (join_with [newline] (''Date,Start,End,Duration (min),Description,Source'' #
            map csv_row (orm_find (no_entries R) (\<lambda>e. te_organizationId e = organizationId
              \<and> given userId (Some (te_userId e)) id \<and> a \<le> te_startedAt e \<and> te_startedAt e \<le> b)
              (asc te_startedAt) (Some 10000) (nt_entries T))))
      | _ \<Rightarrow> Inl (PlainError ''invalid input syntax for type timestamp''))"

text \<open>The controller fills in today and pins an employee to the own id.\<close>

definition default_range :: "js_time \<Rightarrow> string option \<Rightarrow> string option \<Rightarrow> string \<times> string" where
  "default_range now from to = (let from' = nullish from (iso_date now) in (from', nullish to from'))"

definition report_target :: "User \<Rightarrow> string option \<Rightarrow> string option" where
  "report_target user userId =
     Some (if u_role user = EMPLOYEE then u_id user else nullish userId (u_id user))"

definition route_getProductivity where
  "route_getProductivity R K D now user from to userId T kv =
     (case default_range now from to of (a, b) \<Rightarrow>
        getProductivity R K D now (target_user user userId) (u_organizationId user) a b T kv)"

definition route_getAppUsage where
  "route_getAppUsage R K D now user from to userId T kv =
     (case default_range now from to of (a, b) \<Rightarrow>
        getAppUsage R K D now (target_user user userId) (u_organizationId user) a b T kv)"

definition route_exportCSV where
  "route_exportCSV R D now user from to userId T =
     (case default_range now from to of (a, b) \<Rightarrow>
        exportTimeEntriesCSV R D (target_user user userId) (u_organizationId user) a b T)"

definition route_getProductivityReport where
  "route_getProductivityReport R K now user from to userId T kv =
     getProductivityReport R K now (u_organizationId user) (report_target user userId) from to T kv"

definition route_getProductivityHeatmap where
  "route_getProductivityHeatmap R K now user weeks userId T kv =
     getProductivityHeatmap R K now (u_organizationId user) (target_user user userId) weeks T kv"

section \<open>The date loops end\<close>

lemma day_list_map:
  "day_list a b = map (\<lambda>i. a + int i * day_ms) [0..<(if a \<le> b then nat ((b - a) div day_ms) + 1 else 0)]"
proof (induction a b rule: day_list.induct)
  case (1 a b)
  show ?case
  proof (cases "a \<le> b")
    case True
    let ?n = "\<lambda>a. if a \<le> b then nat ((b - a) div day_ms) + 1 else 0"
    have n: "?n a = Suc (?n (a + day_ms))"
    proof (cases "a + day_ms \<le> b")
      case True
      have "(b - a) div day_ms = (b - (a + day_ms)) div day_ms + 1"
        using div_add_self2 [of day_ms "b - (a + day_ms)"] by (simp add: day_ms_def)
      moreover have "0 \<le> (b - (a + day_ms)) div day_ms"
        using True by (intro pos_imp_zdiv_nonneg_iff [THEN iffD2]) (auto simp: day_ms_def)
      ultimately show ?thesis using True by (simp add: day_ms_def nat_add_distrib)
    next
      case False
      then have "(b - a) div day_ms = 0" using \<open>a \<le> b\<close> by (simp add: day_ms_def)
      then show ?thesis using False \<open>a \<le> b\<close> by simp
    qed
    have "day_list a b = a # map (\<lambda>i. a + day_ms + int i * day_ms) [0..<?n (a + day_ms)]"
      using 1 True by (subst day_list.simps) simp
    also have "\<dots> = map (\<lambda>i. a + int i * day_ms) [0..<Suc (?n (a + day_ms))]"
      by (simp add: map_upt_Suc algebra_simps del: upt_Suc)
    finally show ?thesis unfolding n .
  next
    case False
    then show ?thesis by (subst day_list.simps) simp
  qed
qed

lemma le_div_iff_times:
  fixes x :: int
  assumes "0 < n"
  shows "i \<le> x div n \<longleftrightarrow> i * n \<le> x"
proof
  assume "i \<le> x div n"
  then have "i * n \<le> x div n * n" using assms by (simp add: mult_right_mono)
  also have "\<dots> \<le> x" using div_mult_mod_eq [of x n] pos_mod_sign [OF assms, of x] by linarith
  finally show "i * n \<le> x" .
next
  assume "i * n \<le> x"
  then show "i \<le> x div n" using zdiv_mono1 [of "i * n" x n] assms by simp
qed

text \<open>
  C21. The loops over the days of a range end: they run once for each whole day that fits between
  the two ends, from the first to the last, and not at all when the range is empty.
\<close>

theorem date_loop_terminates:
  "length (day_list a b) = (if a \<le> b then nat ((b - a) div day_ms) + 1 else 0) \<and>
   set (day_list a b) = {t. a \<le> t \<and> t \<le> b \<and> (t - a) mod day_ms = 0} \<and>
   sorted_wrt (<) (day_list a b)"
proof (intro conjI)
  show "length (day_list a b) = (if a \<le> b then nat ((b - a) div day_ms) + 1 else 0)"
    by (simp add: day_list_map)
  show "sorted_wrt (<) (day_list a b)"
    by (simp add: day_list_map sorted_wrt_map day_ms_def sorted_wrt_upt)
  show "set (day_list a b) = {t. a \<le> t \<and> t \<le> b \<and> (t - a) mod day_ms = 0}"
  proof (rule set_eqI)
    fix t
    show "t \<in> set (day_list a b) \<longleftrightarrow> t \<in> {t. a \<le> t \<and> t \<le> b \<and> (t - a) mod day_ms = 0}"
    proof (cases "a \<le> b")
      case True
      have in_list: "t \<in> set (day_list a b) \<longleftrightarrow> (\<exists>i. i \<le> nat ((b - a) div day_ms) \<and> t = a + int i * day_ms)"
      proof -
        have "set (day_list a b) = (\<lambda>i. a + int i * day_ms) ` {..nat ((b - a) div day_ms)}"
          using True by (simp add: day_list_map atLeast0LessThan lessThan_Suc_atMost del: upt_Suc)
        then show ?thesis by (auto simp: image_iff)
      qed
      have bound: "i \<le> nat ((b - a) div day_ms) \<longleftrightarrow> a + int i * day_ms \<le> b" for i
      proof -
        have "i \<le> nat ((b - a) div day_ms) \<longleftrightarrow> int i \<le> (b - a) div day_ms"
          using True by (intro le_nat_iff) (simp add: pos_imp_zdiv_nonneg_iff day_ms_def)
        also have "\<dots> \<longleftrightarrow> int i * day_ms \<le> b - a"
          by (rule le_div_iff_times) (simp add: day_ms_def)
        finally show ?thesis by linarith
      qed
      have "(\<exists>i. a + int i * day_ms \<le> b \<and> t = a + int i * day_ms) \<longleftrightarrow>
          a \<le> t \<and> t \<le> b \<and> (t - a) mod day_ms = 0"
      proof
        assume "\<exists>i. a + int i * day_ms \<le> b \<and> t = a + int i * day_ms"
        then show "a \<le> t \<and> t \<le> b \<and> (t - a) mod day_ms = 0" by (auto simp: day_ms_def)
      next
        assume t: "a \<le> t \<and> t \<le> b \<and> (t - a) mod day_ms = 0"
        then have "0 \<le> (t - a) div day_ms" by (simp add: day_ms_def pos_imp_zdiv_nonneg_iff)
        then have "t = a + int (nat ((t - a) div day_ms)) * day_ms"
          using div_mult_mod_eq [of "t - a" day_ms] t by simp
        then show "\<exists>i. a + int i * day_ms \<le> b \<and> t = a + int i * day_ms" using t by metis
      qed
      then show ?thesis unfolding in_list using bound by auto
    qed (auto simp: day_list_map)
  qed
qed

section \<open>Productivity figures\<close>

lemma js_round_mono: "x \<le> y \<Longrightarrow> js_round x \<le> js_round y"
  by (simp add: js_round_def floor_mono)

lemma js_round_int [simp]: "js_round (of_int i) = i"
  by (simp add: js_round_def floor_eq_iff)

lemma js_round_0 [simp]: "js_round 0 = 0"
  using js_round_int [of 0] by simp

lemma js_round_bounds: "x - 1 / 2 < of_int (js_round x) \<and> of_int (js_round x) \<le> x + 1 / 2"
  unfolding js_round_def by linarith

lemma upsert_values:
  assumes "\<forall>(k, v) \<in> set m. P v" and "P d" and "\<And>v. P v \<Longrightarrow> P (f v)"
  shows "\<forall>(k, v) \<in> set (upsert k0 d f m). P v"
  using assms by (induction m) (auto split: if_splits)

lemma fold_upsert_values:
  assumes "\<forall>x \<in> set xs. \<forall>v. P v \<longrightarrow> P (f x v)" and "P d" and "\<forall>(k, v) \<in> set m. P v"
  shows "\<forall>(k, v) \<in> set (fold (\<lambda>x m. upsert (key x) d (f x) m) xs m). P v"
  using assms(1,3)
proof (induction xs arbitrary: m)
  case (Cons x xs)
  then show ?case using upsert_values [of m P d "f x" "key x"] assms(2) by simp
qed simp

lemma map_of_values: "\<forall>(k, v) \<in> set m. P v \<Longrightarrow> P d \<Longrightarrow> P (nullish (map_of m k) d)"
  by (cases "map_of m k") (auto dest: map_of_SomeD)

lemma worked_nonneg: "0 \<le> nullish (map_of (worked_sec now atts) date) 0"
  by (rule map_of_values, unfold worked_sec_def, rule fold_upsert_values) auto

lemma active_nonneg:
  "\<forall>e \<in> set acts. 0 \<le> ae_durationSec e \<Longrightarrow> 0 \<le> nullish (map_of (active_sec acts) date) 0"
  by (rule map_of_values, unfold active_sec_def, rule fold_upsert_values) auto

lemma daily_bounds:
  assumes w: "0 \<le> nullish (map_of worked date) 0" and a: "0 \<le> nullish (map_of active date) (0 :: real)"
  shows "let d = daily_productivity worked active date in 0 \<le> dp_score d \<and> dp_score d \<le> 100 \<and>
    0 \<le> dp_activeMins d \<and> dp_activeMins d \<le> dp_workedMins d \<and> 0 \<le> dp_idleMins d \<and>
    dp_idleMins d \<le> dp_workedMins d \<and> \<bar>dp_activeMins d + dp_idleMins d - dp_workedMins d\<bar> \<le> 1"
proof -
  define W A where "W = nullish (map_of worked date) (0 :: real)"
    and "A = min (nullish (map_of active date) 0) W"
  have b: "0 \<le> W" "0 \<le> A" "A \<le> W" using w a by (auto simp: W_def A_def)
  have idle: "max 0 (W - A) = W - A" using b by simp
  have nonneg: "0 \<le> x \<Longrightarrow> 0 \<le> js_round x" for x using js_round_mono [of 0 x] by simp
  have score: "0 \<le> js_round (A / W * 100)" "0 \<le> js_round (A / 60)" "0 \<le> js_round ((W - A) / 60)"
    using b by (intro nonneg; simp)+
  have "\<bar>js_round (A / 60) + js_round ((W - A) / 60) - js_round (W / 60)\<bar> \<le> 1"
    using js_round_bounds [of "A / 60"] js_round_bounds [of "(W - A) / 60"] js_round_bounds [of "W / 60"]
    by (simp add: diff_divide_distrib) linarith
  then show ?thesis
    using b score idle js_round_mono [of "A / 60" "W / 60"] js_round_mono [of "(W - A) / 60" "W / 60"]
    unfolding daily_productivity_def Let_def W_def [symmetric] A_def [symmetric] idle
    by (auto simp: divide_right_mono)
qed

text \<open>
  The productivity of a range is one row per day in order, and its figures are sound: the
  score lies between 0 and 100, active and idle minutes never exceed the worked ones, and they
  add up to them within a minute of rounding.
\<close>

theorem productivity_figures:
  assumes R: "repository (no_activity R) ae_id"
    and dur: "\<forall>e \<in> set (nt_activity T). 0 \<le> ae_durationSec e"
    and rows: "productivity_days R D now userId organizationId from to T = Some rows"
    and start: "utc_start D from = Some a" "utc_start D to = Some b"
  shows "map dp_date rows = map iso_date (day_list a b) \<and>
    (\<forall>d \<in> set rows. 0 \<le> dp_score d \<and> dp_score d \<le> 100 \<and> 0 \<le> dp_activeMins d \<and>
      dp_activeMins d \<le> dp_workedMins d \<and> 0 \<le> dp_idleMins d \<and> dp_idleMins d \<le> dp_workedMins d \<and>
      \<bar>dp_activeMins d + dp_idleMins d - dp_workedMins d\<bar> \<le> 1)"
proof -
  obtain W acts where r: "rows = map (daily_productivity (worked_sec now W) (active_sec acts))
      (map iso_date (day_list a b))" and sub: "set acts \<subseteq> set (nt_activity T)"
    using rows start repository.find_subset [OF R]
    by (fastforce simp: productivity_days_def scoped_activity_def Let_def split: option.splits)
  have "0 \<le> nullish (map_of (active_sec acts) date) 0" for date
    by (rule active_nonneg) (use dur sub in auto)
  note bounds = daily_bounds [OF worked_nonneg this, unfolded Let_def]
  show ?thesis unfolding r using bounds by (auto simp: daily_productivity_def [of _ _ x for x] Let_def comp_def)
qed

definition list_analytics :: analytics_orms where
  "list_analytics = \<lparr>no_activity = typeorm_list ae_id, no_attendance = typeorm_list att_id,
     no_entries = typeorm_list te_id\<rparr>"

definition coding :: "string \<Rightarrow> js_time \<Rightarrow> int \<Rightarrow> ActivityEvent" where
  "coding newId t secs = \<lparr>ae_id = newId, ae_userId = ''u'', ae_organizationId = ''o'', ae_deviceId = None,
     ae_appName = ''Code.exe'', ae_windowTitle = None, ae_startedAt = t, ae_durationSec = secs,
     ae_keystrokeCount = 0, ae_createdAt = t\<rparr>"

definition one_day :: analytics_tables where
  "one_day = \<lparr>nt_activity = [coding ''a'' 0 600, coding ''b'' 5 90], nt_attendance = [], nt_entries = [], nt_users = []\<rparr>"

theorem productivity_figures_witness:
  "\<exists>rows :: DailyProductivity list. map dp_date rows = map iso_date (day_list 0 0) \<and>
    (\<forall>d \<in> set rows. 0 \<le> dp_score d \<and> dp_score d \<le> 100 \<and> 0 \<le> dp_activeMins d \<and>
      dp_activeMins d \<le> dp_workedMins d \<and> 0 \<le> dp_idleMins d \<and> dp_idleMins d \<le> dp_workedMins d \<and>
      \<bar>dp_activeMins d + dp_idleMins d - dp_workedMins d\<bar> \<le> 1)"
proof -
  obtain rows where "productivity_days list_analytics (\<lambda>s. Some 0) 9 None ''o'' [] [] one_day = Some rows"
    by (auto simp: productivity_days_def utc_start_def utc_end_def Let_def)
  from productivity_figures [OF _ _ this] show ?thesis
    by (intro exI [of _ rows]) (simp add: list_analytics_def one_day_def coding_def utc_start_def)
qed

section \<open>What the report counts\<close>

lemma map_of_upsert:
  "map_of (upsert k d f m) x = (if x = k then Some (f (nullish (map_of m k) d)) else map_of m x)"
  by (induction m) auto

lemma keys_upsert: "fst ` set (upsert k d f m) = insert k (fst ` set m)"
proof (induction m)
  case (Cons p m)
  then show ?case by (cases p; cases "fst p = k") (simp_all add: insert_commute)
qed simp

lemma distinct_upsert: "distinct (map fst m) \<Longrightarrow> distinct (map fst (upsert k d f m))"
proof (induction m)
  case (Cons p m)
  obtain k' v where p: "p = (k', v)" by fastforce
  have "fst ` set (upsert k d f m) = insert k (fst ` set m)" by (rule keys_upsert)
  then have "k' \<noteq> k \<Longrightarrow> k' \<notin> set (map fst (upsert k d f m))"
    using Cons.prems p by (simp add: set_map [symmetric] del: set_map)
  then show ?case using Cons p by auto
qed simp

lemma day_total_add: "day_total (add_activity act day) = day_total day + duration_minutes act"
  by (simp add: day_total_def add_activity_def Let_def split: app_category.split)

lemma report_fold_total:
  "day_total (nullish (map_of (fold (\<lambda>act m. upsert (iso_date (ae_startedAt act)) empty_day (add_activity act) m)
      acts m) date) empty_day) =
   day_total (nullish (map_of m date) empty_day) +
     (\<Sum>a \<leftarrow> filter (\<lambda>a. iso_date (ae_startedAt a) = date) acts. duration_minutes a)"
  by (induction acts arbitrary: m) (simp_all add: map_of_upsert day_total_add)

lemma report_fold_keys:
  "fst ` set (fold (\<lambda>act m. upsert (iso_date (ae_startedAt act)) empty_day (add_activity act) m) acts m) =
     fst ` set m \<union> (\<lambda>a. iso_date (ae_startedAt a)) ` set acts"
  by (induction acts arbitrary: m) (auto simp: keys_upsert)

lemma report_fold_distinct:
  "distinct (map fst m) \<Longrightarrow> distinct (map fst (fold (\<lambda>act m. upsert (iso_date (ae_startedAt act))
      empty_day (add_activity act) m) acts m))"
  by (induction acts arbitrary: m) (auto intro: distinct_upsert)

lemma report_by_date_total:
  assumes "(date, day) \<in> set (report_by_date acts)"
  shows "day_total day = (\<Sum>a \<leftarrow> filter (\<lambda>a. iso_date (ae_startedAt a) = date) acts. duration_minutes a)"
proof -
  have "distinct (map fst (report_by_date acts))"
    unfolding report_by_date_def by (rule report_fold_distinct) simp
  then have "map_of (report_by_date acts) date = Some day" using assms by (simp add: map_of_eq_Some_iff)
  then show ?thesis using report_fold_total [of acts "[]" date]
    by (simp add: report_by_date_def [symmetric]) (simp add: day_total_def empty_day_def)
qed

lemma read_through_miss:
  assumes "kv_store K live" and "live now key kv = None"
  shows "fst (read_through K now key ttl store result kv) = result"
proof -
  obtain kv1 where "kv_get K now key kv = (None, kv1)"
    using kv_store.get_live [OF assms(1), of now key kv] assms(2) by (cases "kv_get K now key kv") simp
  then show ?thesis by (simp add: read_through_def split: sum.split)
qed

text \<open>
  The productivity report does not look at its range: for any \<open>from\<close> and \<open>to\<close>, when the
  cache has no entry, it has one row for every date the user was ever active, in order, and the
  minutes of a row are those of all activity on that date.
\<close>

theorem report_ignores_range:
  assumes S: "kv_store K live" and R: "repository (no_activity R) ae_id"
    and miss: "live now (report_key organizationId (Some userId) from to) kv = None"
    and user: "userId \<noteq> []"
  shows "\<exists>rows. fst (getProductivityReport R K now organizationId (Some userId) from to T kv) =
      Inr (JArr (map report_json rows)) \<and>
    sorted (map fst rows) \<and> distinct (map fst rows) \<and>
    fst ` set rows = (\<lambda>e. iso_date (ae_startedAt e)) `
      {e \<in> set (nt_activity T). ae_organizationId e = organizationId \<and> ae_userId e = userId} \<and>
    (\<forall>(date, day) \<in> set rows. day_total day = (\<Sum>e \<in># filter_mset (\<lambda>e. ae_organizationId e = organizationId
      \<and> ae_userId e = userId \<and> iso_date (ae_startedAt e) = date) (mset (nt_activity T)). duration_minutes e))"
proof -
  let ?P = "\<lambda>e. ae_organizationId e = organizationId \<and> ae_userId e = userId"
  define acts where "acts = scoped_activity R (Some userId) organizationId (\<lambda>t. True) None T"
  define rows where "rows = report_days R (Some userId) organizationId T"
  have acts: "mset acts = filter_mset ?P (mset (nt_activity T))"
    using user by (simp add: acts_def scoped_activity_def repository.find_mset [OF R] given_def)
  have rows: "rows = isort_by (asc fst) (report_by_date acts)"
    by (simp add: rows_def report_days_def acts_def)
  have "sorted (map fst rows)"
    unfolding rows sorted_wrt_asc [symmetric] by (rule sorted_isort_by) simp
  moreover have "distinct (map fst rows)"
  proof -
    have "mset (map fst rows) = mset (map fst (report_by_date acts))" by (simp add: rows)
    moreover have "distinct (map fst (report_by_date acts))"
      unfolding report_by_date_def by (rule report_fold_distinct) simp
    ultimately show ?thesis by (metis mset_eq_imp_distinct_iff)
  qed
  moreover have "fst ` set rows = (\<lambda>e. iso_date (ae_startedAt e)) ` {e \<in> set (nt_activity T). ?P e}"
  proof -
    have "set acts = {e \<in> set (nt_activity T). ?P e}" using acts by (metis set_mset_filter set_mset_mset)
    then show ?thesis using report_fold_keys [of acts "[]"] by (simp add: rows report_by_date_def)
  qed
  moreover have "day_total day = (\<Sum>e \<in># filter_mset (\<lambda>e. ?P e \<and> iso_date (ae_startedAt e) = date)
      (mset (nt_activity T)). duration_minutes e)" if "(date, day) \<in> set rows" for date day
  proof -
    have "(\<Sum>a \<leftarrow> filter (\<lambda>a. iso_date (ae_startedAt a) = date) acts. duration_minutes a) =
        (\<Sum>e \<in># filter_mset (\<lambda>a. iso_date (ae_startedAt a) = date) (mset acts). duration_minutes e)"
      by (metis mset_filter mset_map sum_mset_sum_list)
    also have "filter_mset (\<lambda>a. iso_date (ae_startedAt a) = date) (mset acts) =
        filter_mset (\<lambda>e. ?P e \<and> iso_date (ae_startedAt e) = date) (mset (nt_activity T))"
      unfolding acts by (simp add: filter_filter_mset conj_commute)
    finally show ?thesis using report_by_date_total [of date day acts] that by (simp add: rows)
  qed
  moreover have "fst (getProductivityReport R K now organizationId (Some userId) from to T kv) =
      Inr (JArr (map report_json rows))"
    unfolding getProductivityReport_def read_through_miss [OF S miss] rows_def ..
  ultimately show ?thesis by (intro exI [of _ rows]) (auto simp: conj_assoc)
qed

theorem report_ignores_range_witness:
  "\<exists>rows. fst (getProductivityReport list_analytics file_kv 9 ''o'' (Some ''u'') ''2030-01-01'' ''2030-01-02''
      one_day empty_redis) = Inr (JArr (map report_json rows)) \<and>
    sorted (map fst rows) \<and> distinct (map fst rows) \<and>
    fst ` set rows = (\<lambda>e. iso_date (ae_startedAt e)) `
      {e \<in> set (nt_activity one_day). ae_organizationId e = ''o'' \<and> ae_userId e = ''u''} \<and>
    (\<forall>(date, day) \<in> set rows. day_total day = (\<Sum>e \<in># filter_mset (\<lambda>e. ae_organizationId e = ''o''
      \<and> ae_userId e = ''u'' \<and> iso_date (ae_startedAt e) = date) (mset (nt_activity one_day)). duration_minutes e))"
  by (rule report_ignores_range [OF map_server.served_store])
    (simp_all add: list_analytics_def redis_live_def mem_live_def empty_redis_def)

section \<open>The CSV export reads back\<close>

definition csv_fields :: "TimeEntry \<Rightarrow> string list" where
  "csv_fields e = [iso_date (te_startedAt e), iso_hhmm (te_startedAt e),
     (case te_endedAt e of Some t \<Rightarrow> iso_hhmm t | None \<Rightarrow> []),
     int_str (case te_endedAt e of Some t \<Rightarrow> js_round (of_int (t - te_startedAt e) / 60000) | None \<Rightarrow> 0),
     nullish (te_description e) [], source_str (te_source e)]"

lemma csv_row_fields: "csv_row = (\<lambda>e. join_with '','' (map csvField (csv_fields e)))"
proof (rule ext)
  fix e :: TimeEntry
  have "csvField (source_str (te_source e)) = source_str (te_source e)"
    by (cases "te_source e") (simp_all add: csvField_def)
  then show "csv_row e = join_with '','' (map csvField (csv_fields e))"
    by (cases "te_endedAt e") (simp_all add: csv_row_def csv_fields_def)
qed

text \<open>
  C22. The CSV export of time entries loses nothing: a reader of RFC 4180 gets back the header and one record of six
  fields per entry of the asked range, in order, whatever commas, quotes and line feeds the descriptions hold. A
  description with a carriage return must hold one of these too, since the writer does not quote for it.
\<close>

theorem csv_export_roundtrip:
  assumes "exportTimeEntriesCSV R D userId organizationId from to T = Inr csv"
    and rep: "repository (no_entries R) te_id"
    and plain: "\<forall>e \<in> set (nt_entries T). return_quoted (nullish (te_description e) [])"
  shows "\<exists>a b. utc_start D from = Some a \<and> utc_end D to = Some b \<and>
    read_csv csv = [''Date'', ''Start'', ''End'', ''Duration (min)'', ''Description'', ''Source''] #
    map csv_fields (orm_find (no_entries R) (\<lambda>e. te_organizationId e = organizationId
      \<and> given userId (Some (te_userId e)) id \<and> a \<le> te_startedAt e \<and> te_startedAt e \<le> b)
      (asc te_startedAt) (Some 10000) (nt_entries T))"
proof -
  obtain a b where ab: "utc_start D from = Some a" "utc_end D to = Some b"
    using assms(1) by (auto simp: exportTimeEntriesCSV_def split: option.splits)
  let ?es = "orm_find (no_entries R) (\<lambda>e. te_organizationId e = organizationId
      \<and> given userId (Some (te_userId e)) id \<and> a \<le> te_startedAt e \<and> te_startedAt e \<le> b)
      (asc te_startedAt) (Some 10000) (nt_entries T)"
  let ?header = "[''Date'', ''Start'', ''End'', ''Duration (min)'', ''Description'', ''Source'']"
  have h: "''Date,Start,End,Duration (min),Description,Source'' = join_with '','' (map csvField ?header)"
    by (simp add: csvField_def)
  have csv: "csv = join_with [newline] (map (\<lambda>fs. join_with '','' (map csvField fs)) (?header # map csv_fields ?es))"
    using assms(1) ab unfolding exportTimeEntriesCSV_def h by (simp add: csv_row_fields comp_def)
  have q: "\<forall>f \<in> set (csv_fields e). return_quoted f" if "e \<in> set ?es" for e
  proof -
    have "return_quoted (nullish (te_description e) [])" using plain repository.find_subset [OF rep that] by blast
    moreover have "return_quoted (source_str (te_source e))" by (cases "te_source e") (simp_all add: return_quoted_def)
    ultimately show ?thesis by (cases "te_endedAt e") (simp_all add: csv_fields_def)
  qed
  have "\<forall>f \<in> set ?header. return_quoted f" by (simp add: return_quoted_def)
  then have "read_csv csv = ?header # map csv_fields ?es"
    unfolding csv using q by (intro read_csv_written) (auto simp: csv_fields_def)
  then show ?thesis using ab by blast
qed

definition tricky_entry :: TimeEntry where
  "tricky_entry = \<lparr>te_id = ''e'', te_userId = ''u'', te_organizationId = ''o'', te_attendanceId = None,
     te_projectId = None, te_taskId = None, te_startedAt = 0, te_endedAt = Some 90000,
     te_source = MANUAL, te_description = Some (''a,b'' @ [newline, quote]), te_createdAt = 0, te_updatedAt = 0\<rparr>"

theorem csv_export_roundtrip_witness:
  "\<exists>csv. exportTimeEntriesCSV list_analytics (\<lambda>s. Some 0) None ''o'' [] []
      (one_day\<lparr>nt_entries := [tricky_entry]\<rparr>) = Inr csv \<and>
    read_csv csv = [''Date'', ''Start'', ''End'', ''Duration (min)'', ''Description'', ''Source''] #
    map csv_fields (orm_find (no_entries list_analytics) (\<lambda>e. te_organizationId e = ''o''
      \<and> given None (Some (te_userId e)) id \<and> 0 \<le> te_startedAt e \<and> te_startedAt e \<le> 0)
      (asc te_startedAt) (Some 10000) [tricky_entry])"
proof -
  obtain csv where csv: "exportTimeEntriesCSV list_analytics (\<lambda>s. Some 0) None ''o'' [] []
      (one_day\<lparr>nt_entries := [tricky_entry]\<rparr>) = Inr csv"
    by (auto simp: exportTimeEntriesCSV_def utc_start_def utc_end_def)
  from csv_export_roundtrip [OF this] csv show ?thesis
    by (auto simp: list_analytics_def tricky_entry_def return_quoted_def utc_start_def utc_end_def)
qed

end
