(* ===== verification/Admin.thy ===== *)
theory Admin
  imports Csv Users EntitiesWork
begin

text \<open>
  AdminService (modules/admin/admin.service.ts): organisation statistics, the user list, the CSV
  exports of users and timesheets, and the administrator's actions on members. Every query names
  the organisation of the administrator.
\<close>

record AdminService =
  dm_users :: "User list"
  dm_projects :: "Project list"
  dm_tasks :: "Task list"
  dm_timesheets :: "Timesheet list"
  dm_subs :: "Subscription list"

record admin_orms =
  do_users :: "User orm"
  do_projects :: "Project orm"
  do_tasks :: "Task orm"
  do_timesheets :: "Timesheet orm"
  do_subs :: "Subscription orm"

record OrgStats =
  os_totalUsers :: nat
  os_activeUsers :: nat
  os_totalProjects :: nat
  os_totalTasks :: nat
  os_completedTasks :: nat
  os_subscriptionStatus :: "string option"
  os_subscriptionPlan :: "string option"
  os_seatsUsed :: nat
  os_seatsTotal :: int

definition getOrgStats :: "admin_orms \<Rightarrow> string \<Rightarrow> AdminService \<Rightarrow> OrgStats" where
  "getOrgStats R organizationId st =
     (let activeUsers = count_where (do_users R) (\<lambda>u. u_organizationId u = organizationId \<and> u_isActive u) (dm_users st);
          subscription = find_one (do_subs R) (\<lambda>s. sub_organizationId s = organizationId) (dm_subs st)
      in \<lparr>os_totalUsers = count_where (do_users R) (\<lambda>u. u_organizationId u = organizationId) (dm_users st),
          os_activeUsers = activeUsers,
          os_totalProjects = count_where (do_projects R) (\<lambda>p. pr_organizationId p = organizationId) (dm_projects st),
          os_totalTasks = count_where (do_tasks R) (\<lambda>t. tk_organizationId t = organizationId) (dm_tasks st),
          os_completedTasks = count_where (do_tasks R) (\<lambda>t. tk_organizationId t = organizationId
            \<and> tk_status t = ''done'') (dm_tasks st),
          os_subscriptionStatus = map_option (\<lambda>s. sub_status_str (sub_status s)) subscription,
          os_subscriptionPlan = (case subscription of Some s \<Rightarrow> sub_plan s | None \<Rightarrow> None),
          os_seatsUsed = activeUsers,
          os_seatsTotal = (case subscription of Some s \<Rightarrow> sub_seats s | None \<Rightarrow> 0)\<rparr>)"

definition admin_listUsers ::
  "admin_orms \<Rightarrow> string \<Rightarrow> AdminService \<Rightarrow>
   (string \<times> string \<times> string \<times> string \<times> UserRole \<times> bool \<times> js_time) list" where
  "admin_listUsers R organizationId st = map (\<lambda>u. (u_id u, u_firstName u, u_lastName u, u_email u,
       u_role u, u_isActive u, u_createdAt u))
     (orm_find (do_users R) (\<lambda>u. u_organizationId u = organizationId) (desc u_createdAt) None (dm_users st))"

definition escapeCsv :: "string \<Rightarrow> string" where
  "escapeCsv value = (if CHR '','' \<in> set value \<or> quote \<in> set value \<or> newline \<in> set value
     then quote # double_quotes value @ [quote] else value)"

definition bool_str :: "bool \<Rightarrow> string" where
  "bool_str b = (if b then ''true'' else ''false'')"

definition exportUsersCSV :: "admin_orms \<Rightarrow> string \<Rightarrow> AdminService \<Rightarrow> string" where
  "exportUsersCSV R organizationId st = join_with [newline]
     (''id,email,firstName,lastName,role,isActive,createdAt'' #
      map (\<lambda>u. join_with '','' [u_id u, u_email u, escapeCsv (u_firstName u), escapeCsv (u_lastName u),
          role_str (u_role u), bool_str (u_isActive u), toISOString (u_createdAt u)])
        (orm_find (do_users R) (\<lambda>u. u_organizationId u = organizationId) (asc u_createdAt) None
          (dm_users st)))"

definition exportTimesheetCSV ::
  "admin_orms \<Rightarrow> string \<Rightarrow> js_time \<Rightarrow> js_time \<Rightarrow> AdminService \<Rightarrow> string" where
  "exportTimesheetCSV R organizationId from to st = join_with [newline]
     (''timesheetId,userId,userEmail,weekStart,totalMinutes,totalHours,status,approvedBy,approvedAt'' #
      map (\<lambda>ts. join_with '','' [ts_id ts, ts_userId ts,
          (case find (\<lambda>u. u_id u = ts_userId ts) (dm_users st) of Some u \<Rightarrow> u_email u | None \<Rightarrow> []),
          ts_weekStart ts, int_str (ts_totalMinutes ts), hours_fixed2 (ts_totalMinutes ts),
          ts_status_str (ts_status ts), nullish (ts_approvedBy ts) [],
          (case ts_approvedAt ts of Some t \<Rightarrow> toISOString t | None \<Rightarrow> [])])
        (orm_find (do_timesheets R) (\<lambda>t. ts_organizationId t = organizationId
          \<and> iso_date from \<le> ts_weekStart t \<and> ts_weekStart t \<le> iso_date to) (asc ts_weekStart) None
          (dm_timesheets st)))"

definition admin_find :: "admin_orms \<Rightarrow> string \<Rightarrow> string \<Rightarrow> AdminService \<Rightarrow> User option" where
  "admin_find R organizationId userId st =
     find_one (do_users R) (\<lambda>u. u_id u = userId \<and> u_organizationId u = organizationId) (dm_users st)"

definition admin_set ::
  "admin_orms \<Rightarrow> js_time \<Rightarrow> string \<Rightarrow> (User \<Rightarrow> User) \<Rightarrow> AdminService \<Rightarrow> AdminService" where
  "admin_set R now userId f st = st\<lparr>dm_users := orm_update (do_users R) (\<lambda>u. u_id u = userId)
     (\<lambda>u. (f u)\<lparr>u_updatedAt := now\<rparr>) (dm_users st)\<rparr>"

definition admin_deactivateUser ::
  "admin_orms \<Rightarrow> js_time \<Rightarrow> string \<Rightarrow> string \<Rightarrow> string \<Rightarrow> AdminService \<Rightarrow> unit outcome \<times> AdminService" where
  "admin_deactivateUser R now organizationId userId actorId st =
     (if userId = actorId then (Inl (Forbidden ''You cannot deactivate your own account''), st)
      else case admin_find R organizationId userId st of
        None \<Rightarrow> (Inl (NotFound ''User not found''), st)
      | Some user \<Rightarrow> (Inr (), admin_set R now userId (\<lambda>u. u\<lparr>u_isActive := False\<rparr>) st))"

definition admin_reactivateUser ::
  "admin_orms \<Rightarrow> js_time \<Rightarrow> string \<Rightarrow> string \<Rightarrow> AdminService \<Rightarrow> unit outcome \<times> AdminService" where
  "admin_reactivateUser R now organizationId userId st =
     (case admin_find R organizationId userId st of
        None \<Rightarrow> (Inl (NotFound ''User not found''), st)
      | Some user \<Rightarrow> (Inr (), admin_set R now userId (\<lambda>u. u\<lparr>u_isActive := True\<rparr>) st))"

definition admin_updateUserRole ::
  "admin_orms \<Rightarrow> js_time \<Rightarrow> string \<Rightarrow> string \<Rightarrow> UserRole \<Rightarrow> AdminService \<Rightarrow> unit outcome \<times> AdminService" where
  "admin_updateUserRole R now organizationId userId role st =
     (case admin_find R organizationId userId st of
        None \<Rightarrow> (Inl (NotFound ''User not found''), st)
      | Some user \<Rightarrow> (Inr (), admin_set R now userId (\<lambda>u. u\<lparr>u_role := role\<rparr>) st))"

section \<open>The exports read back\<close>

lemma escapeCsv_csvField: "escapeCsv = csvField"
  by (rule ext) (simp add: escapeCsv_def csvField_def)

definition user_fields :: "User \<Rightarrow> string list" where
  "user_fields u = [u_id u, u_email u, u_firstName u, u_lastName u, role_str (u_role u),
     bool_str (u_isActive u), toISOString (u_createdAt u)]"

text \<open>
  Ids and e-mails are written as they are, so they must need no quoting; names may, but not for a carriage
  return alone.
\<close>

lemma exportUsersCSV_read:
  assumes "repository (do_users R) u_id"
    and "\<forall>u \<in> set (dm_users st). csvField (u_id u) = u_id u \<and> csvField (u_email u) = u_email u \<and>
      (\<forall>f \<in> {u_id u, u_email u, u_firstName u, u_lastName u}. return_quoted f)"
  shows "read_csv (exportUsersCSV R organizationId st) =
    [''id'', ''email'', ''firstName'', ''lastName'', ''role'', ''isActive'', ''createdAt''] #
    map user_fields (orm_find (do_users R) (\<lambda>u. u_organizationId u = organizationId) (asc u_createdAt)
      None (dm_users st))"
proof -
  let ?us = "orm_find (do_users R) (\<lambda>u. u_organizationId u = organizationId) (asc u_createdAt)
      None (dm_users st)"
  let ?header = "[''id'', ''email'', ''firstName'', ''lastName'', ''role'', ''isActive'', ''createdAt'']"
  have h: "''id,email,firstName,lastName,role,isActive,createdAt'' = join_with '','' (map csvField ?header)"
    by (simp add: csvField_def)
  have role: "csvField (role_str r) = role_str r" "csvField (bool_str b) = bool_str b" for r b
    by (cases r; simp add: csvField_def) (simp add: csvField_def bool_str_def)
  have row: "join_with '','' [u_id u, u_email u, escapeCsv (u_firstName u), escapeCsv (u_lastName u),
      role_str (u_role u), bool_str (u_isActive u), toISOString (u_createdAt u)] =
      join_with '','' (map csvField (user_fields u))" if "u \<in> set ?us" for u
    using repository.find_subset [OF assms(1) that] assms(2)
    by (simp add: user_fields_def role escapeCsv_csvField)
  have rows: "map (\<lambda>u. join_with '','' [u_id u, u_email u, escapeCsv (u_firstName u),
      escapeCsv (u_lastName u), role_str (u_role u), bool_str (u_isActive u), toISOString (u_createdAt u)]) ?us =
      map (\<lambda>u. join_with '','' (map csvField (user_fields u))) ?us"
    by (rule map_cong [OF refl row])
  have csv: "exportUsersCSV R organizationId st =
      join_with [newline] (map (\<lambda>fs. join_with '','' (map csvField fs)) (?header # map user_fields ?us))"
    unfolding exportUsersCSV_def h rows by (simp only: list.map map_map comp_def)
  have q: "\<forall>f \<in> set (user_fields u). return_quoted f" if "u \<in> set ?us" for u
  proof -
    have "return_quoted (role_str r)" "return_quoted (bool_str b)" for r b
      by (cases r; simp add: return_quoted_def) (simp add: return_quoted_def bool_str_def)
    then show ?thesis using repository.find_subset [OF assms(1) that] assms(2) by (simp add: user_fields_def)
  qed
  have "\<forall>f \<in> set ?header. return_quoted f" by (simp add: return_quoted_def)
  then show ?thesis unfolding csv using q by (intro read_csv_written) (auto simp: user_fields_def)
qed

section \<open>Members of other organisations are out of reach\<close>

datatype admin_op =
    Admin_deactivate js_time string string
  | Admin_reactivate js_time string
  | Admin_role js_time string UserRole

fun admin_apply :: "admin_orms \<Rightarrow> string \<Rightarrow> admin_op \<Rightarrow> AdminService \<Rightarrow> AdminService" where
  "admin_apply R org (Admin_deactivate now uid actor) st = snd (admin_deactivateUser R now org uid actor st)"
| "admin_apply R org (Admin_reactivate now uid) st = snd (admin_reactivateUser R now org uid st)"
| "admin_apply R org (Admin_role now uid r) st = snd (admin_updateUserRole R now org uid r st)"

definition admin_good :: "AdminService \<Rightarrow> bool" where
  "admin_good st \<longleftrightarrow> keyed u_id (dm_users st)"

abbreviation admin_valid :: "admin_op \<Rightarrow> AdminService \<Rightarrow> bool" where
  "admin_valid \<equiv> \<lambda>_ _. True"

fun admin_uid :: "admin_op \<Rightarrow> string" where
  "admin_uid (Admin_deactivate now uid actor) = uid"
| "admin_uid (Admin_reactivate now uid) = uid"
| "admin_uid (Admin_role now uid r) = uid"

fun admin_patch :: "admin_op \<Rightarrow> User \<Rightarrow> User" where
  "admin_patch (Admin_deactivate now uid actor) u = u\<lparr>u_isActive := False, u_updatedAt := now\<rparr>"
| "admin_patch (Admin_reactivate now uid) u = u\<lparr>u_isActive := True, u_updatedAt := now\<rparr>"
| "admin_patch (Admin_role now uid r) u = u\<lparr>u_role := r, u_updatedAt := now\<rparr>"

lemma admin_patch_keeps [simp]:
  "u_organizationId (admin_patch p u) = u_organizationId u" "u_id (admin_patch p u) = u_id u"
  by (cases p; simp)+

lemma admin_apply_users:
  "dm_users (admin_apply R org p st) = dm_users st \<or>
   admin_find R org (admin_uid p) st \<noteq> None \<and>
   dm_users (admin_apply R org p st) =
     orm_update (do_users R) (\<lambda>u. u_id u = admin_uid p) (\<lambda>u. admin_patch p u) (dm_users st)"
  by (cases p) (simp_all add: admin_deactivateUser_def admin_reactivateUser_def
      admin_updateUserRole_def admin_set_def split: option.split)

lemma admin_tenant_ops:
  assumes R: "repository (do_users R) u_id"
  shows "tenant_ops u_organizationId dm_users admin_good admin_valid (admin_apply R)"
proof unfold_locales
  fix s :: AdminService and p org org'
  assume good: "admin_good s"
  show "admin_good (admin_apply R org p s)"
    using admin_apply_users [of R org p s] good repository.keyed_update [OF R]
    unfolding admin_good_def by (metis admin_patch_keeps(2))
  assume ne: "org' \<noteq> org"
  from admin_apply_users [of R org' p s]
  show "rows_of_org u_organizationId org (dm_users (admin_apply R org' p s)) =
      rows_of_org u_organizationId org (dm_users s)"
  proof (elim disjE conjE)
    assume "admin_find R org' (admin_uid p) s \<noteq> None"
    then obtain u where u: "u \<in> set (dm_users s)" "u_id u = admin_uid p" "u_organizationId u = org'"
      using repository.find_one_SomeD [OF R] by (auto simp: admin_find_def)
    have "u_organizationId r \<noteq> org" if "u_id r = admin_uid p" "r \<in> set (dm_users s)" for r
      using keyed_same [OF good [unfolded admin_good_def] that(2) u(1)] that(1) u(2,3) ne by auto
    moreover assume "dm_users (admin_apply R org' p s) =
      orm_update (do_users R) (\<lambda>u. u_id u = admin_uid p) (\<lambda>u. admin_patch p u) (dm_users s)"
    ultimately show ?thesis using repository.update_isolated [OF R] by simp
  qed simp
qed

definition list_admin :: admin_orms where
  "list_admin = \<lparr>do_users = typeorm_list u_id, do_projects = typeorm_list pr_id,
     do_tasks = typeorm_list tk_id, do_timesheets = typeorm_list ts_id, do_subs = typeorm_list sub_id\<rparr>"

interpretation admin_tenancy: tenant_ops u_organizationId dm_users admin_good admin_valid
  "admin_apply list_admin"
  by (rule admin_tenant_ops) (simp add: list_admin_def)

end
