(* ===== verification/HttpLayer.thy ===== *)
theory HttpLayer
  imports Auth JsJson JsDate
begin

text \<open>
  What stands between a request and a handler (common/): the JWT guard of \<open>Auth\<close>, RolesGuard,
  TenantGuard, TenantMiddleware, the exception filter and the response envelope. A handler is a
  function of the user and the state; \<open>guarded_route\<close> is how Nest composes the parts for a
  controller with \<open>@UseGuards(JwtAuthGuard, RolesGuard)\<close>.
\<close>

section \<open>Guards\<close>

text \<open>\<open>required\<close> is the metadata of \<open>@Roles\<close>, None when the decorator is absent.\<close>

definition roles_canActivate :: "UserRole list option \<Rightarrow> User option \<Rightarrow> bool outcome" where
  "roles_canActivate required user =
     (if nullish required [] = [] then Inr True
      else case user of
        None \<Rightarrow> Inl (Forbidden ''Access denied'')
      | Some u \<Rightarrow> if u_role u \<notin> set (the required)
          then Inl (Forbidden (''Requires one of: '' @ join_with '', '' (map role_str (the required))))
          else Inr True)"

definition tenant_canActivate ::
  "Organization orm \<Rightarrow> Subscription orm \<Rightarrow> User option \<Rightarrow> Organization list \<Rightarrow> Subscription list \<Rightarrow>
   bool outcome" where
  "tenant_canActivate RO RS user orgs subs =
     (case user of
        None \<Rightarrow> Inr True
      | Some u \<Rightarrow>
          if u_organizationId u = [] then Inr True
          else if find_one RO (\<lambda>o1. org_id o1 = u_organizationId u \<and> org_isActive o1) orgs = None
          then Inl (Forbidden ''Organization not found or inactive'')
          else case find_one RS (\<lambda>s. sub_organizationId s = u_organizationId u) subs of
            Some sub \<Rightarrow> if sub_status sub = CANCELED
              then Inl (Forbidden ''Subscription canceled. Please reactivate to continue.'') else Inr True
          | None \<Rightarrow> Inr True)"

section \<open>TenantMiddleware\<close>

definition PUBLIC_PATHS :: "string list" where
  "PUBLIC_PATHS = [''/api/docs'', ''/api/v1/auth/register'', ''/api/v1/auth/login'',
     ''/api/v1/auth/refresh'', ''/api/v1/billing/webhook'', ''/health'', ''/robots933456.txt'',
     ''/favicon.ico'', ''/'']"

definition startsWith :: "string \<Rightarrow> string \<Rightarrow> bool" where
  "startsWith s p \<longleftrightarrow> take (length p) s = p"

text \<open>The result is the error handed to \<open>next\<close>, if any, and the statements sent; \<open>ok\<close> says whether the query succeeds.\<close>

definition tenant_use ::
  "bool \<Rightarrow> string \<Rightarrow> string option \<Rightarrow> string list \<Rightarrow> http_error option \<times> string list" where
  "tenant_use ok path orgId sql =
     (if \<exists>p \<in> set PUBLIC_PATHS. startsWith path p then (None, sql)
      else if falsy_str orgId then (None, sql)
      else if \<not> is_uuid (the orgId) then (Some (PlainError ''Invalid organization id format''), sql)
      else if \<not> ok then (Some (PlainError ''query failed''), sql)
      else (None, sql @ [''SET LOCAL app.current_org = '' @ [CHR 0x27] @ the orgId @ [CHR 0x27]]))"

text \<open>
  The tenant middleware never sets the tenant: \<open>/\<close> is one of its public prefixes, so for every
  path a server can receive it hands over at once and sends no statement.
\<close>

theorem tenant_context_never_set:
  assumes "startsWith path ''/''"
  shows "tenant_use ok path orgId sql = (None, sql)"
  using assms by (auto simp: tenant_use_def PUBLIC_PATHS_def)

theorem tenant_context_never_set_witness:
  "tenant_use True ''/api/v1/users'' (Some ''01234567-89ab-cdef-0123-456789abcdef'') [] = (None, [])"
  by (rule tenant_context_never_set) (simp add: startsWith_def)

section \<open>Responses\<close>

fun http_status :: "http_error \<Rightarrow> int" where
  "http_status (BadRequest m) = 400"
| "http_status (Unauthorized m) = 401"
| "http_status (Forbidden m) = 403"
| "http_status (NotFound m) = 404"
| "http_status (Conflict m) = 409"
| "http_status (ServiceUnavailable m) = 503"
| "http_status (PlainError m) = 500"

fun http_message :: "http_error \<Rightarrow> string" where
  "http_message (BadRequest m) = m"
| "http_message (Unauthorized m) = m"
| "http_message (Forbidden m) = m"
| "http_message (NotFound m) = m"
| "http_message (Conflict m) = m"
| "http_message (ServiceUnavailable m) = m"
| "http_message (PlainError m) = ''Internal server error''"

definition exception_catch :: "js_time \<Rightarrow> string \<Rightarrow> http_error \<Rightarrow> int \<times> json" where
  "exception_catch now url e = (http_status e, JObj [(''success'', JBool False),
     (''statusCode'', JNum (http_status e)), (''message'', JStr (http_message e)),
     (''timestamp'', JStr (toISOString now)), (''path'', JStr url)])"

text \<open>A handler that returns nothing has no \<open>data\<close> member in the JSON text.\<close>

definition transform_intercept :: "js_time \<Rightarrow> json option \<Rightarrow> json" where
  "transform_intercept now data = JObj ([(''success'', JBool True)]
     @ (case data of None \<Rightarrow> [] | Some d \<Rightarrow> [(''data'', d)])
     @ [(''timestamp'', JStr (toISOString now))])"

section \<open>A guarded route\<close>

text \<open>
  passport calls \<open>validate\<close> only for a token whose signature and expiry \<open>verify\<close> accepts and
  answers 401 otherwise; the guards run in the order of the decorator, then the handler. \<open>success\<close>
  is the status of an answer without an error: 201 for a POST, 200 otherwise, or that of \<open>@HttpCode\<close>.
\<close>

definition guarded_route ::
  "'s auth_env \<Rightarrow> (js_time \<Rightarrow> string \<Rightarrow> JwtPayload option) \<Rightarrow> UserRole list option \<Rightarrow> int \<Rightarrow>
   (User \<Rightarrow> 's AuthService \<Rightarrow> json option outcome \<times> 's AuthService) \<Rightarrow> js_time \<Rightarrow> string \<Rightarrow> string option \<Rightarrow>
   's AuthService \<Rightarrow> (int \<times> json) \<times> 's AuthService" where
  "guarded_route E verify required success handler now url tok st =
     (case (if falsy_str tok then None else verify now (the tok)) of
        None \<Rightarrow> (exception_catch now url (Unauthorized ''Unauthorized''), st)
      | Some payload \<Rightarrow> (case jwt_validate E now (the tok) payload st of
          (Inl e, st1) \<Rightarrow> (exception_catch now url e, st1)
        | (Inr user, st1) \<Rightarrow> (case roles_canActivate required (Some user) of
            Inl e \<Rightarrow> (exception_catch now url e, st1)
          | Inr _ \<Rightarrow> (case handler user st1 of
              (Inl e, st2) \<Rightarrow> (exception_catch now url e, st2)
            | (Inr data, st2) \<Rightarrow> ((success, transform_intercept now data), st2)))))"

text \<open>
  C23. A guarded handler runs only for a token that verifies and is not blacklisted, for an active
  user of the organisation the token names, with a required role; in every other case the answer
  is 401 or 403 and no table has changed.
\<close>

theorem guarded_route_safe:
  assumes U: "repository (ax_users E) u_id" and S: "kv_store (ax_kv E) live"
  shows "(\<exists>t payload user st1. tok = Some t \<and> verify now t = Some payload \<and>
      live now (blacklist_key t) (au_kv st) = None \<and>
      user \<in> set (au_users st) \<and> u_id user = jp_sub payload \<and>
      u_organizationId user = jp_orgId payload \<and> u_isActive user \<and>
      (nullish required [] = [] \<or> u_role user \<in> set (the required)) \<and>
      au_users st1 = au_users st \<and> au_tokens st1 = au_tokens st \<and>
      snd (guarded_route E verify required success handler now url tok st) = snd (handler user st1)) \<or>
    (fst (fst (guarded_route E verify required success handler now url tok st)) \<in> {401, 403} \<and>
      (let st' = snd (guarded_route E verify required success handler now url tok st) in
        au_users st' = au_users st \<and> au_orgs st' = au_orgs st \<and> au_tokens st' = au_tokens st \<and>
        au_subs st' = au_subs st \<and> au_mail st' = au_mail st))"
proof (cases "if falsy_str tok then None else verify now (the tok)")
  case None
  then show ?thesis by (auto simp: guarded_route_def exception_catch_def Let_def)
next
  case (Some payload)
  then obtain t where t: "tok = Some t" "verify now t = Some payload"
    by (cases tok) (auto split: if_splits)
  obtain b kv where e: "kv_exists (ax_kv E) now (blacklist_key t) (au_kv st) = (b, kv)" by fastforce
  have b: "b = (live now (blacklist_key t) (au_kv st) \<noteq> None)"
    using kv_store.exists_live [OF S, of now "blacklist_key t" "au_kv st"] e by simp
  let ?P = "\<lambda>u. u_id u = jp_sub payload \<and> u_organizationId u = jp_orgId payload \<and> u_isActive u"
  show ?thesis
  proof (cases "\<not> b \<and> find_one (ax_users E) ?P (au_users st) \<noteq> None")
    case False
    then show ?thesis using Some t e
      by (auto simp: guarded_route_def jwt_validate_def exception_catch_def Let_def split: option.splits)
  next
    case True
    then obtain user where u: "find_one (ax_users E) ?P (au_users st) = Some user" by auto
    have v: "jwt_validate E now t payload st = (Inr user, st\<lparr>au_kv := kv\<rparr>)"
      using True u e by (simp add: jwt_validate_def)
    show ?thesis
    proof (cases "nullish required [] = [] \<or> u_role user \<in> set (the required)")
      case True
      then have "\<exists>r. roles_canActivate required (Some user) = Inr r" by (auto simp: roles_canActivate_def)
      then have "snd (guarded_route E verify required success handler now url tok st) =
          snd (handler user (st\<lparr>au_kv := kv\<rparr>))"
        using Some t v by (auto simp: guarded_route_def split: sum.splits prod.splits)
      then show ?thesis
        using True t b \<open>\<not> b \<and> _\<close> repository.find_one_SomeD [OF U u]
        by (intro disjI1 exI [of _ t] exI [of _ payload] exI [of _ user] exI [of _ "st\<lparr>au_kv := kv\<rparr>"]) simp
    next
      case False
      then have "\<exists>m. roles_canActivate required (Some user) = Inl (Forbidden m)"
        by (auto simp: roles_canActivate_def)
      then show ?thesis using Some t v
        by (auto simp: guarded_route_def exception_catch_def Let_def)
    qed
  qed
qed

theorem guarded_route_safe_witness:
  "fst (fst (guarded_route (plain_auth file_kv) (\<lambda>now t. None) (Some [ADMIN]) 200 (\<lambda>u st. (Inr None, st)) 5
     ''/api/v1/users'' (Some ''x'') (one_user empty_redis))) \<in> {401, 403}"
  using guarded_route_safe [of "plain_auth file_kv" "redis_live mem_live" "Some ''x''" "\<lambda>now t. None" 5
      "one_user empty_redis" "Some [ADMIN]" 200 "\<lambda>u st. (Inr None, st)" "''/api/v1/users''"]
    map_server.served_store by auto

end
