(* ===== verification/Billing.thy ===== *)
theory Billing
  imports HttpLayer AuditTrail
begin

text \<open>
  BillingService (modules/billing): checkout, portal and invoices through Stripe, and the webhook
  that keeps the subscription row in step with Stripe's events. The Stripe SDK is third-party
  code, the record \<open>stripe_sdk\<close>; \<open>sf_event\<close> is \<open>webhooks.constructEvent\<close>, None when the
  signature does not verify. Times in events are seconds. Price ids are not names of properties
  every JavaScript object has.
\<close>

record stripe_invoice =
  vi_id :: string
  vi_number :: "string option"
  vi_amount_paid :: int
  vi_currency :: string
  vi_status :: "string option"
  vi_created :: int
  vi_hostedInvoiceUrl :: "string option"
  vi_invoicePdf :: "string option"

datatype stripe_event =
    Checkout_completed string string "string option" "string option" "string option"
  | Subscription_updated string string int int
  | Payment_failed "string option"
  | Payment_succeeded "string option" "int option"
  | Trial_will_end
  | Subscription_deleted string
  | Unhandled string

record stripe_sdk =
  sf_customer :: "string \<Rightarrow> string \<Rightarrow> string"
  sf_checkout :: "string \<Rightarrow> string \<Rightarrow> int \<Rightarrow> string \<Rightarrow> string"
  sf_portal :: "string \<Rightarrow> string"
  sf_invoices :: "string \<Rightarrow> nat \<Rightarrow> stripe_invoice list"
  sf_event :: "string \<Rightarrow> string \<Rightarrow> stripe_event option"

record billing_env =
  be_subs :: "Subscription orm"
  be_orgs :: "Organization orm"
  be_logs :: "AuditLog orm"
  be_stripe :: stripe_sdk
  be_config :: "string \<Rightarrow> string option"

record BillingService =
  bs_subs :: "Subscription list"
  bs_orgs :: "Organization list"
  bs_logs :: "AuditLog list"

text \<open>An object literal with computed keys: a later entry with the same key replaces an earlier one.\<close>

definition priceMap :: "(string \<Rightarrow> string option) \<Rightarrow> string \<Rightarrow> string option" where
  "priceMap config = [nullish (config ''STRIPE_PRICE_STARTER'') [] \<mapsto> ''starter'',
     nullish (config ''STRIPE_PRICE_PRO'') [] \<mapsto> ''pro'',
     nullish (config ''STRIPE_PRICE_ENTERPRISE'') [] \<mapsto> ''enterprise'']"

definition getPlanName :: "billing_env \<Rightarrow> string \<Rightarrow> string option" where
  "getPlanName E priceId = priceMap (be_config E) priceId"

definition getSubscription :: "billing_env \<Rightarrow> string \<Rightarrow> BillingService \<Rightarrow> Subscription option" where
  "getSubscription E organizationId st =
     find_one (be_subs E) (\<lambda>s. sub_organizationId s = organizationId) (bs_subs st)"

definition set_sub ::
  "billing_env \<Rightarrow> js_time \<Rightarrow> string \<Rightarrow> (Subscription \<Rightarrow> Subscription) \<Rightarrow> BillingService \<Rightarrow> BillingService" where
  "set_sub E now sid f st = st\<lparr>bs_subs := orm_update (be_subs E) (\<lambda>s. sub_id s = sid)
     (\<lambda>s. (f s)\<lparr>sub_updatedAt := now\<rparr>) (bs_subs st)\<rparr>"

definition createCheckoutSession ::
  "billing_env \<Rightarrow> js_time \<Rightarrow> string \<Rightarrow> string \<Rightarrow> int \<Rightarrow> BillingService \<Rightarrow> string outcome \<times> BillingService" where
  "createCheckoutSession E now organizationId priceId seats st =
     (let sub = getSubscription E organizationId st;
          org = find_one (be_orgs E) (\<lambda>o1. org_id o1 = organizationId) (bs_orgs st);
          customerId = (case sub of Some s \<Rightarrow> sub_stripeCustomerId s | None \<Rightarrow> None)
      in if \<not> falsy_str customerId
         then (Inr (sf_checkout (be_stripe E) (the customerId) priceId seats organizationId), st)
         else case org of
           None \<Rightarrow> (Inl (PlainError ''Cannot read properties of null''), st)
         | Some o1 \<Rightarrow>
             let customer = sf_customer (be_stripe E) (org_name o1) organizationId;
                 st' = (case sub of
                   Some s \<Rightarrow> set_sub E now (sub_id s) (\<lambda>s. s\<lparr>sub_stripeCustomerId := Some customer\<rparr>) st
                 | None \<Rightarrow> st)
             in (Inr (sf_checkout (be_stripe E) customer priceId seats organizationId), st'))"

definition createPortalSession :: "billing_env \<Rightarrow> string \<Rightarrow> BillingService \<Rightarrow> string outcome" where
  "createPortalSession E organizationId st =
     (case getSubscription E organizationId st of
        None \<Rightarrow> Inl (PlainError ''No Stripe customer found for this organization'')
      | Some s \<Rightarrow> if falsy_str (sub_stripeCustomerId s)
          then Inl (PlainError ''No Stripe customer found for this organization'')
          else Inr (sf_portal (be_stripe E) (the (sub_stripeCustomerId s))))"

definition getInvoices :: "billing_env \<Rightarrow> string \<Rightarrow> BillingService \<Rightarrow> stripe_invoice list" where
  "getInvoices E organizationId st =
     (case getSubscription E organizationId st of
        None \<Rightarrow> []
      | Some s \<Rightarrow> if falsy_str (sub_stripeCustomerId s) then []
          else sf_invoices (be_stripe E) (the (sub_stripeCustomerId s)) 24)"

text \<open>A customer that is null in the event is a null operand of the query.\<close>

definition of_customer :: "billing_env \<Rightarrow> string option \<Rightarrow> BillingService \<Rightarrow> Subscription option" where
  "of_customer E customer st = find_one (be_subs E) (\<lambda>s. case customer of
     None \<Rightarrow> where_null (be_subs E) (sub_stripeCustomerId s)
   | Some c \<Rightarrow> sub_stripeCustomerId s = Some c) (bs_subs st)"

definition of_stripe_sub :: "billing_env \<Rightarrow> string \<Rightarrow> BillingService \<Rightarrow> Subscription option" where
  "of_stripe_sub E sid st =
     find_one (be_subs E) (\<lambda>s. sub_stripeSubscriptionId s = Some sid) (bs_subs st)"

definition updated_status :: "string \<Rightarrow> SubscriptionStatus \<Rightarrow> SubscriptionStatus" where
  "updated_status stripeStatus old = (if stripeStatus = ''active'' then ACTIVE
     else if stripeStatus = ''past_due'' then PAST_DUE else old)"

fun billing_event ::
  "billing_env \<Rightarrow> js_time \<Rightarrow> string \<Rightarrow> stripe_event \<Rightarrow> BillingService \<Rightarrow> unit outcome \<times> BillingService" where
  "billing_event E now logId (Checkout_completed organizationId seats priceId subscription customer) st =
     (let plan = nullish (getPlanName E (nullish priceId [])) ''starter'' in
      case parseInt10 seats of
        None \<Rightarrow> (Inl (PlainError ''invalid input syntax for type integer''), st)
      | Some n \<Rightarrow> (Inr (), st\<lparr>bs_subs := orm_update (be_subs E) (\<lambda>s. sub_organizationId s = organizationId)
          (\<lambda>s. s\<lparr>sub_stripeSubscriptionId := subscription, sub_stripeCustomerId := customer,
            sub_status := ACTIVE, sub_seats := n, sub_plan := Some plan, sub_updatedAt := now\<rparr>)
          (bs_subs st)\<rparr>))"
| "billing_event E now logId (Subscription_updated sid stripeStatus periodStart periodEnd) st =
     (case of_stripe_sub E sid st of
        None \<Rightarrow> (Inr (), st)
      | Some sub \<Rightarrow>
          let status = updated_status stripeStatus (sub_status sub) in
          (Inr (), (set_sub E now (sub_id sub) (\<lambda>s. s\<lparr>sub_status := status,
             sub_currentPeriodStart := Some (periodStart * 1000),
             sub_currentPeriodEnd := Some (periodEnd * 1000)\<rparr>) st)\<lparr>bs_logs :=
             audit_log (be_logs E) logId now (sub_organizationId sub)
               \<lparr>aa_id = None, aa_email = ''stripe-webhook''\<rparr> ''subscription.changed'' ''subscription''
               (Some (sub_id sub)) (Some (JObj [(''oldStatus'', JStr (sub_status_str (sub_status sub))),
                 (''newStatus'', JStr (sub_status_str status)),
                 (''plan'', case sub_plan sub of None \<Rightarrow> JNull | Some p \<Rightarrow> JStr p)])) None (bs_logs st)\<rparr>))"
| "billing_event E now logId (Payment_failed customer) st =
     (case of_customer E customer st of
        None \<Rightarrow> (Inr (), st)
      | Some sub \<Rightarrow> (Inr (), set_sub E now (sub_id sub) (\<lambda>s. s\<lparr>sub_status := PAST_DUE\<rparr>) st))"
| "billing_event E now logId (Payment_succeeded customer periodEnd) st =
     (case of_customer E customer st of
        None \<Rightarrow> (Inr (), st)
      | Some sub \<Rightarrow> if nullish periodEnd 0 = 0 then (Inr (), st)
          else (Inr (), set_sub E now (sub_id sub)
            (\<lambda>s. s\<lparr>sub_currentPeriodEnd := Some (the periodEnd * 1000)\<rparr>) st))"
| "billing_event E now logId Trial_will_end st = (Inr (), st)"
| "billing_event E now logId (Subscription_deleted sid) st =
     (case of_stripe_sub E sid st of
        None \<Rightarrow> (Inr (), st)
      | Some sub \<Rightarrow> (Inr (), set_sub E now (sub_id sub)
          (\<lambda>s. s\<lparr>sub_status := CANCELED, sub_canceledAt := Some now\<rparr>) st))"
| "billing_event E now logId (Unhandled t) st = (Inr (), st)"

definition billing_handleWebhook ::
  "billing_env \<Rightarrow> js_time \<Rightarrow> string \<Rightarrow> string \<Rightarrow> string \<Rightarrow> BillingService \<Rightarrow> unit outcome \<times> BillingService" where
  "billing_handleWebhook E now logId payload signature st =
     (case sf_event (be_stripe E) payload signature of
        None \<Rightarrow> (Inl (PlainError ''Invalid webhook signature''), st)
      | Some event \<Rightarrow> billing_event E now logId event st)"

definition route_webhook ::
  "billing_env \<Rightarrow> js_time \<Rightarrow> string \<Rightarrow> string option \<Rightarrow> string option \<Rightarrow> BillingService \<Rightarrow>
   unit outcome \<times> BillingService" where
  "route_webhook E now logId rawBody signature st =
     (case rawBody of
        None \<Rightarrow> (Inl (BadRequest ''Missing raw body''), st)
      | Some body \<Rightarrow> if falsy_str signature
          then (Inl (BadRequest ''Missing stripe-signature header''), st)
          else billing_handleWebhook E now logId body (the signature) st)"

declare billing_event.simps [simp del]

section \<open>Unset prices\<close>

lemma unset_price_is_enterprise:
  "be_config E ''STRIPE_PRICE_ENTERPRISE'' = None \<Longrightarrow> getPlanName E [] = Some ''enterprise''"
  by (simp add: getPlanName_def priceMap_def)

section \<open>Cancelled is not final\<close>

lemma of_stripe_sub_unique:
  assumes R: "repository (be_subs E) sub_id" and s: "s \<in> set (bs_subs st)" "sub_stripeSubscriptionId s = Some sid"
    and one: "\<forall>r \<in> set (bs_subs st). sub_stripeSubscriptionId r = Some sid \<longrightarrow> r = s"
  shows "of_stripe_sub E sid st = Some s"
  unfolding of_stripe_sub_def by (rule repository.find_one_unique [OF R s(1)]) (use s one in blast)+

lemma set_sub_rows:
  assumes R: "repository (be_subs E) sub_id" and K: "keyed sub_id (bs_subs st)" and s: "s \<in> set (bs_subs st)"
  shows "set (bs_subs (set_sub E now (sub_id s) f st)) =
    (set (bs_subs st) - {s}) \<union> {(f s)\<lparr>sub_updatedAt := now\<rparr>}"
proof -
  have "sub_id r = sub_id s \<longleftrightarrow> r = s" if "r \<in> set (bs_subs st)" for r
    using keyed_same [OF K that s] by auto
  then show ?thesis using s by (auto simp: set_sub_def repository.set_update [OF R])
qed

text \<open>
  Stripe does not promise the order of its events, and the handler depends on it: an active
  organisation's tenant check refuses it after its subscription was deleted, and lets it in again
  when an older update that says active arrives late.
\<close>

theorem late_update_reopens_tenant:
  assumes R: "repository (be_subs E) sub_id" and O1: "repository (be_orgs E) org_id"
    and K: "keyed sub_id (bs_subs st)" and s: "s \<in> set (bs_subs st)" "sub_stripeSubscriptionId s = Some sid"
    and one: "\<forall>r \<in> set (bs_subs st). sub_stripeSubscriptionId r = Some sid \<or>
      sub_organizationId r = sub_organizationId s \<longrightarrow> r = s"
    and user: "u_organizationId user = sub_organizationId s" "sub_organizationId s \<noteq> []"
    and org: "\<exists>o1 \<in> set (bs_orgs st). org_id o1 = sub_organizationId s \<and> org_isActive o1"
  shows "let st1 = snd (billing_event E t logId (Subscription_deleted sid) st);
      st2 = snd (billing_event E t' logId (Subscription_updated sid ''active'' a b) st1);
      check = (\<lambda>x. tenant_canActivate (be_orgs E) (be_subs E) (Some user) (bs_orgs x) (bs_subs x)) in
    check st1 = Inl (Forbidden ''Subscription canceled. Please reactivate to continue.'') \<and>
    check st2 = Inr True"
proof -
  let ?c = "s\<lparr>sub_status := CANCELED, sub_canceledAt := Some t, sub_updatedAt := t\<rparr>"
  let ?st1 = "snd (billing_event E t logId (Subscription_deleted sid) st)"
  let ?st2 = "snd (billing_event E t' logId (Subscription_updated sid ''active'' a b) ?st1)"
  have del: "?st1 = set_sub E t (sub_id s) (\<lambda>s. s\<lparr>sub_status := CANCELED, sub_canceledAt := Some t\<rparr>) st"
    using of_stripe_sub_unique [OF R s] one by (simp add: billing_event.simps)
  have rows1: "set (bs_subs ?st1) = (set (bs_subs st) - {s}) \<union> {?c}"
    unfolding del set_sub_rows [OF R K s(1)] by simp
  have K1: "keyed sub_id (bs_subs ?st1)"
    unfolding del by (simp add: set_sub_def repository.keyed_update [OF R K])
  have one1: "\<forall>r \<in> set (bs_subs ?st1). sub_stripeSubscriptionId r = Some sid \<or>
      sub_organizationId r = sub_organizationId s \<longrightarrow> r = ?c"
    unfolding rows1 using one by auto
  have in1: "?c \<in> set (bs_subs ?st1)" "sub_stripeSubscriptionId ?c = Some sid"
    unfolding rows1 using s by auto
  have upd: "bs_subs ?st2 = bs_subs (set_sub E t' (sub_id ?c) (\<lambda>s. s\<lparr>sub_status := ACTIVE,
      sub_currentPeriodStart := Some (a * 1000), sub_currentPeriodEnd := Some (b * 1000)\<rparr>) ?st1)"
    using of_stripe_sub_unique [OF R in1] one1 by (simp add: billing_event.simps updated_status_def Let_def)
  let ?d = "?c\<lparr>sub_status := ACTIVE, sub_currentPeriodStart := Some (a * 1000),
      sub_currentPeriodEnd := Some (b * 1000), sub_updatedAt := t'\<rparr>"
  have rows2: "set (bs_subs ?st2) = (set (bs_subs ?st1) - {?c}) \<union> {?d}"
    unfolding upd set_sub_rows [OF R K1 in1(1)] by simp
  have orgs: "bs_orgs ?st1 = bs_orgs st" "bs_orgs ?st2 = bs_orgs st"
    by (auto simp: billing_event.simps set_sub_def Let_def split: option.splits)
  have active: "find_one (be_orgs E) (\<lambda>o1. org_id o1 = u_organizationId user \<and> org_isActive o1) (bs_orgs st) \<noteq> None"
    using org user by (auto simp: repository.find_one_None [OF O1])
  have f1: "find_one (be_subs E) (\<lambda>r. sub_organizationId r = u_organizationId user) (bs_subs ?st1) = Some ?c"
    by (rule repository.find_one_unique [OF R in1(1)]) (use one1 user in \<open>simp, metis\<close>)
  have f2: "find_one (be_subs E) (\<lambda>r. sub_organizationId r = u_organizationId user) (bs_subs ?st2) = Some ?d"
    by (rule repository.find_one_unique [OF R]) (use one1 user rows2 in \<open>auto\<close>)
  show ?thesis
    using active f1 f2 user unfolding Let_def tenant_canActivate_def orgs by simp
qed

definition acme_billing :: BillingService where
  "acme_billing = \<lparr>bs_subs = [(new_sub 0 ''s'' ''o'')\<lparr>sub_stripeSubscriptionId := Some ''sub_1''\<rparr>],
     bs_orgs = [new_org 0 ''o'' ''Acme'' ''acme''], bs_logs = []\<rparr>"

definition list_billing :: "stripe_sdk \<Rightarrow> billing_env" where
  "list_billing sdk = \<lparr>be_subs = typeorm_list sub_id, be_orgs = typeorm_list org_id,
     be_logs = typeorm_list lg_id, be_stripe = sdk, be_config = Map.empty\<rparr>"

definition no_stripe :: stripe_sdk where
  "no_stripe = \<lparr>sf_customer = (\<lambda>a b. ''cus_1''), sf_checkout = (\<lambda>a b c d. []), sf_portal = (\<lambda>c. []),
     sf_invoices = (\<lambda>c n. []), sf_event = (\<lambda>a b. None)\<rparr>"

theorem late_update_reopens_tenant_witness:
  "let E = list_billing no_stripe;
      st1 = snd (billing_event E 5 ''l'' (Subscription_deleted ''sub_1'') acme_billing);
      st2 = snd (billing_event E 6 ''l'' (Subscription_updated ''sub_1'' ''active'' 1 2) st1);
      check = (\<lambda>x. tenant_canActivate (be_orgs E) (be_subs E)
        (Some (new_user 0 ''u'' ''o'' ''a@x'' [] [] [] ADMIN None)) (bs_orgs x) (bs_subs x)) in
    check st1 = Inl (Forbidden ''Subscription canceled. Please reactivate to continue.'') \<and>
    check st2 = Inr True"
  unfolding Let_def [of "list_billing no_stripe"]
  by (rule late_update_reopens_tenant [where s = "(new_sub 0 ''s'' ''o'')\<lparr>sub_stripeSubscriptionId := Some ''sub_1''\<rparr>"])
    (simp_all add: list_billing_def acme_billing_def keyed_def new_sub_def new_org_def new_user_def)

end
