(* ===== verification/Projects.thy ===== *)
theory Projects
  imports Tenancy TimeTracking
begin

text \<open>
  ProjectsService (modules/projects): projects, their tasks on the board, milestones and the
  comments of tasks. Project rows are never deleted; deleting a task also deletes its comments, the
  cascade that the comment entity declares. \<open>D\<close> is \<open>new Date(s)\<close>, None for an invalid date, which
  the database refuses. A field of a request that may be null is an option in an option; null for
  a field whose type excludes it is not modelled.
\<close>

record CreateProjectDto =
  cp_name :: string
  cp_description :: "string option"
  cp_deadline :: "string option"
  cp_color :: "string option"

record UpdateProjectDto =
  xp_name :: "string option"
  xp_description :: "string option"
  xp_status :: "string option"
  xp_deadline :: "string option option"
  xp_color :: "string option"

record CreateTaskDto =
  ck_title :: string
  ck_description :: "string option"
  ck_priority :: "string option"
  ck_assigneeId :: "string option"
  ck_estimatedHours :: "real option"
  ck_dueDate :: "string option"

record UpdateTaskDto =
  xk_title :: "string option"
  xk_description :: "string option"
  xk_status :: "string option"
  xk_priority :: "string option"
  xk_assigneeId :: "string option option"
  xk_estimatedHours :: "real option option"
  xk_dueDate :: "string option option"

record CreateMilestoneDto =
  cz_name :: string
  cz_dueDate :: "string option"

record UpdateMilestoneDto =
  xz_name :: "string option"
  xz_dueDate :: "string option option"
  xz_markComplete :: "bool option"

record MoveTaskDto =
  mv_status :: string
  mv_position :: int

record ProjectsService =
  pj_projects :: "Project list"
  pj_tasks :: "Task list"
  pj_milestones :: "Milestone list"
  pj_comments :: "TaskComment list"

record projects_orms =
  pm_projects :: "Project orm"
  pm_tasks :: "Task orm"
  pm_milestones :: "Milestone orm"
  pm_comments :: "TaskComment orm"

text \<open>\<open>s ? new Date(s) : null\<close>, and the same for a field that is only set when it is in the request.\<close>

definition date_or_null :: "(string \<Rightarrow> js_time option) \<Rightarrow> string option \<Rightarrow> js_time option outcome" where
  "date_or_null D s = (if falsy_str s then Inr None
     else case D (the s) of None \<Rightarrow> Inl invalid_date | Some t \<Rightarrow> Inr (Some t))"

definition date_patch ::
  "(string \<Rightarrow> js_time option) \<Rightarrow> string option option \<Rightarrow> js_time option \<Rightarrow> js_time option outcome" where
  "date_patch D s old = (case s of None \<Rightarrow> Inr old | Some v \<Rightarrow> date_or_null D v)"

text \<open>PostgreSQL sorts nulls last in ascending order.\<close>

definition due_order :: "Milestone \<Rightarrow> Milestone \<Rightarrow> bool" where
  "due_order a b = (case (ms_dueDate a, ms_dueDate b) of
     (_, None) \<Rightarrow> True | (None, Some _) \<Rightarrow> False | (Some x, Some y) \<Rightarrow> x \<le> y)"

section \<open>Projects\<close>

definition project_in_org :: "projects_orms \<Rightarrow> string \<Rightarrow> string \<Rightarrow> ProjectsService \<Rightarrow> Project option" where
  "project_in_org R projectId organizationId st = find_one (pm_projects R)
     (\<lambda>p. pr_id p = projectId \<and> pr_organizationId p = organizationId) (pj_projects st)"

definition findProjectInOrg :: "projects_orms \<Rightarrow> string \<Rightarrow> string \<Rightarrow> ProjectsService \<Rightarrow> Project outcome" where
  "findProjectInOrg R projectId organizationId st =
     (case project_in_org R projectId organizationId st of
        None \<Rightarrow> Inl (Forbidden ''Project not found in this organization'')
      | Some project \<Rightarrow> Inr project)"

definition getProjects :: "projects_orms \<Rightarrow> string \<Rightarrow> ProjectsService \<Rightarrow> Project list" where
  "getProjects R organizationId st = orm_find (pm_projects R)
     (\<lambda>p. pr_organizationId p = organizationId) (desc pr_createdAt) None (pj_projects st)"

definition createProject ::
  "projects_orms \<Rightarrow> (string \<Rightarrow> js_time option) \<Rightarrow> js_time \<Rightarrow> string \<Rightarrow> string \<Rightarrow> string \<Rightarrow> CreateProjectDto \<Rightarrow>
   ProjectsService \<Rightarrow> Project outcome \<times> ProjectsService" where
  "createProject R D now newId organizationId userId dto st =
     (case date_or_null D (cp_deadline dto) of
        Inl e \<Rightarrow> (Inl e, st)
      | Inr deadline \<Rightarrow>
          let project = \<lparr>pr_id = newId, pr_organizationId = organizationId, pr_name = cp_name dto,
            pr_description = cp_description dto, pr_status = ''active'', pr_deadline = deadline,
            pr_color = nullish (cp_color dto) ''#3B82F6'', pr_createdBy = userId,
            pr_createdAt = now, pr_updatedAt = now\<rparr>
          in (Inr project, st\<lparr>pj_projects := orm_save (pm_projects R) project (pj_projects st)\<rparr>))"

definition project_tasks :: "projects_orms \<Rightarrow> string \<Rightarrow> string \<Rightarrow> ProjectsService \<Rightarrow> Task list" where
  "project_tasks R projectId organizationId st = orm_find (pm_tasks R)
     (\<lambda>t. tk_projectId t = projectId \<and> tk_organizationId t = organizationId) (asc tk_createdAt) None (pj_tasks st)"

definition project_milestones :: "projects_orms \<Rightarrow> string \<Rightarrow> string \<Rightarrow> ProjectsService \<Rightarrow> Milestone list" where
  "project_milestones R projectId organizationId st = orm_find (pm_milestones R)
     (\<lambda>m. ms_projectId m = projectId \<and> ms_organizationId m = organizationId) due_order None (pj_milestones st)"

definition getProjectWithDetails ::
  "projects_orms \<Rightarrow> string \<Rightarrow> string \<Rightarrow> ProjectsService \<Rightarrow> (Project \<times> Task list \<times> Milestone list) outcome" where
  "getProjectWithDetails R projectId organizationId st =
     (case project_in_org R projectId organizationId st of
        None \<Rightarrow> Inl (NotFound ''Project not found'')
      | Some project \<Rightarrow> Inr (project, project_tasks R projectId organizationId st,
          project_milestones R projectId organizationId st))"

definition save_project :: "projects_orms \<Rightarrow> js_time \<Rightarrow> Project \<Rightarrow> Project \<Rightarrow> ProjectsService \<Rightarrow>
    Project \<times> ProjectsService" where
  "save_project R now old project st =
     (let saved = touched (\<lambda>p. p\<lparr>pr_updatedAt := now\<rparr>) old project
      in (saved, st\<lparr>pj_projects := orm_save (pm_projects R) saved (pj_projects st)\<rparr>))"

definition updateProject ::
  "projects_orms \<Rightarrow> (string \<Rightarrow> js_time option) \<Rightarrow> js_time \<Rightarrow> string \<Rightarrow> string \<Rightarrow> UpdateProjectDto \<Rightarrow>
   ProjectsService \<Rightarrow> Project outcome \<times> ProjectsService" where
  "updateProject R D now projectId organizationId dto st =
     (case project_in_org R projectId organizationId st of
        None \<Rightarrow> (Inl (NotFound ''Project not found''), st)
      | Some project \<Rightarrow> (case date_patch D (xp_deadline dto) (pr_deadline project) of
          Inl e \<Rightarrow> (Inl e, st)
        | Inr deadline \<Rightarrow>
            apfst Inr (save_project R now project
              (patch (xp_color dto) (\<lambda>v p. p\<lparr>pr_color := v\<rparr>)
              ((patch (xp_status dto) (\<lambda>v p. p\<lparr>pr_status := v\<rparr>)
              (patch (xp_description dto) (\<lambda>v p. p\<lparr>pr_description := Some v\<rparr>)
              (patch (xp_name dto) (\<lambda>v p. p\<lparr>pr_name := v\<rparr>) project)))\<lparr>pr_deadline := deadline\<rparr>)) st)))"

definition archiveProject ::
  "projects_orms \<Rightarrow> js_time \<Rightarrow> string \<Rightarrow> string \<Rightarrow> ProjectsService \<Rightarrow> unit outcome \<times> ProjectsService" where
  "archiveProject R now projectId organizationId st =
     (case project_in_org R projectId organizationId st of
        None \<Rightarrow> (Inl (NotFound ''Project not found''), st)
      | Some project \<Rightarrow> (Inr (), snd (save_project R now project (project\<lparr>pr_status := ''archived''\<rparr>) st)))"

section \<open>Tasks\<close>

definition find_task :: "projects_orms \<Rightarrow> string \<Rightarrow> string \<Rightarrow> string \<Rightarrow> ProjectsService \<Rightarrow> Task outcome" where
  "find_task R projectId taskId organizationId st =
     (case findProjectInOrg R projectId organizationId st of
        Inl e \<Rightarrow> Inl e
      | Inr _ \<Rightarrow> (case find_one (pm_tasks R) (\<lambda>t. tk_id t = taskId \<and> tk_projectId t = projectId
            \<and> tk_organizationId t = organizationId) (pj_tasks st) of
          None \<Rightarrow> Inl (NotFound ''Task not found'')
        | Some task \<Rightarrow> Inr task))"

definition getTasks :: "projects_orms \<Rightarrow> string \<Rightarrow> string \<Rightarrow> ProjectsService \<Rightarrow> Task list outcome" where
  "getTasks R projectId organizationId st =
     (case findProjectInOrg R projectId organizationId st of
        Inl e \<Rightarrow> Inl e | Inr _ \<Rightarrow> Inr (project_tasks R projectId organizationId st))"

definition createTask ::
  "projects_orms \<Rightarrow> (string \<Rightarrow> js_time option) \<Rightarrow> js_time \<Rightarrow> string \<Rightarrow> string \<Rightarrow> string \<Rightarrow> CreateTaskDto \<Rightarrow>
   ProjectsService \<Rightarrow> Task outcome \<times> ProjectsService" where
  "createTask R D now newId projectId organizationId dto st =
     (case findProjectInOrg R projectId organizationId st of
        Inl e \<Rightarrow> (Inl e, st)
      | Inr _ \<Rightarrow> (case date_or_null D (ck_dueDate dto) of
          Inl e \<Rightarrow> (Inl e, st)
        | Inr dueDate \<Rightarrow>
            let task = \<lparr>tk_id = newId, tk_projectId = projectId, tk_organizationId = organizationId,
              tk_assigneeId = ck_assigneeId dto, tk_title = ck_title dto,
              tk_description = ck_description dto, tk_status = ''todo'',
              tk_priority = nullish (ck_priority dto) ''medium'',
              tk_estimatedHours = ck_estimatedHours dto, tk_dueDate = dueDate, tk_position = 0,
              tk_createdBy = None, tk_createdAt = now, tk_updatedAt = now\<rparr>
            in (Inr task, st\<lparr>pj_tasks := orm_save (pm_tasks R) task (pj_tasks st)\<rparr>)))"

definition save_task :: "projects_orms \<Rightarrow> js_time \<Rightarrow> Task \<Rightarrow> Task \<Rightarrow> ProjectsService \<Rightarrow> Task \<times> ProjectsService" where
  "save_task R now old task st =
     (let saved = touched (\<lambda>t. t\<lparr>tk_updatedAt := now\<rparr>) old task
      in (saved, st\<lparr>pj_tasks := orm_save (pm_tasks R) saved (pj_tasks st)\<rparr>))"

definition updateTask ::
  "projects_orms \<Rightarrow> (string \<Rightarrow> js_time option) \<Rightarrow> js_time \<Rightarrow> string \<Rightarrow> string \<Rightarrow> string \<Rightarrow> UpdateTaskDto \<Rightarrow>
   ProjectsService \<Rightarrow> Task outcome \<times> ProjectsService" where
  "updateTask R D now projectId taskId organizationId dto st =
     (case find_task R projectId taskId organizationId st of
        Inl e \<Rightarrow> (Inl e, st)
      | Inr task \<Rightarrow> (case date_patch D (xk_dueDate dto) (tk_dueDate task) of
          Inl e \<Rightarrow> (Inl e, st)
        | Inr dueDate \<Rightarrow>
            apfst Inr (save_task R now task
              ((patch (xk_estimatedHours dto) (\<lambda>v t. t\<lparr>tk_estimatedHours := v\<rparr>)
              (patch (xk_assigneeId dto) (\<lambda>v t. t\<lparr>tk_assigneeId := v\<rparr>)
              (patch (xk_priority dto) (\<lambda>v t. t\<lparr>tk_priority := v\<rparr>)
              (patch (xk_status dto) (\<lambda>v t. t\<lparr>tk_status := v\<rparr>)
              (patch (xk_description dto) (\<lambda>v t. t\<lparr>tk_description := Some v\<rparr>)
              (patch (xk_title dto) (\<lambda>v t. t\<lparr>tk_title := v\<rparr>) task))))))\<lparr>tk_dueDate := dueDate\<rparr>) st)))"

text \<open>The database deletes the comments with the task.\<close>

definition deleteTask ::
  "projects_orms \<Rightarrow> string \<Rightarrow> string \<Rightarrow> string \<Rightarrow> ProjectsService \<Rightarrow> unit outcome \<times> ProjectsService" where
  "deleteTask R projectId taskId organizationId st =
     (case find_task R projectId taskId organizationId st of
        Inl e \<Rightarrow> (Inl e, st)
      | Inr task \<Rightarrow> (Inr (), st\<lparr>
          pj_tasks := orm_delete (pm_tasks R) (\<lambda>t. tk_id t = taskId) (pj_tasks st),
          pj_comments := orm_delete (pm_comments R) (\<lambda>c. tc_taskId c = taskId) (pj_comments st)\<rparr>))"

definition moveTask ::
  "projects_orms \<Rightarrow> js_time \<Rightarrow> string \<Rightarrow> string \<Rightarrow> string \<Rightarrow> MoveTaskDto \<Rightarrow>
   ProjectsService \<Rightarrow> Task outcome \<times> ProjectsService" where
  "moveTask R now projectId taskId organizationId dto st =
     (case find_task R projectId taskId organizationId st of
        Inl e \<Rightarrow> (Inl e, st)
      | Inr task \<Rightarrow> apfst Inr (save_task R now task
          (task\<lparr>tk_status := mv_status dto, tk_position := mv_position dto\<rparr>) st))"

section \<open>Milestones\<close>

definition find_milestone :: "projects_orms \<Rightarrow> string \<Rightarrow> string \<Rightarrow> string \<Rightarrow> ProjectsService \<Rightarrow> Milestone outcome" where
  "find_milestone R projectId milestoneId organizationId st =
     (case findProjectInOrg R projectId organizationId st of
        Inl e \<Rightarrow> Inl e
      | Inr _ \<Rightarrow> (case find_one (pm_milestones R) (\<lambda>m. ms_id m = milestoneId \<and> ms_projectId m = projectId
            \<and> ms_organizationId m = organizationId) (pj_milestones st) of
          None \<Rightarrow> Inl (NotFound ''Milestone not found'')
        | Some milestone \<Rightarrow> Inr milestone))"

definition getMilestones :: "projects_orms \<Rightarrow> string \<Rightarrow> string \<Rightarrow> ProjectsService \<Rightarrow> Milestone list outcome" where
  "getMilestones R projectId organizationId st =
     (case findProjectInOrg R projectId organizationId st of
        Inl e \<Rightarrow> Inl e | Inr _ \<Rightarrow> Inr (project_milestones R projectId organizationId st))"

definition createMilestone ::
  "projects_orms \<Rightarrow> (string \<Rightarrow> js_time option) \<Rightarrow> js_time \<Rightarrow> string \<Rightarrow> string \<Rightarrow> string \<Rightarrow> CreateMilestoneDto \<Rightarrow>
   ProjectsService \<Rightarrow> Milestone outcome \<times> ProjectsService" where
  "createMilestone R D now newId projectId organizationId dto st =
     (case findProjectInOrg R projectId organizationId st of
        Inl e \<Rightarrow> (Inl e, st)
      | Inr _ \<Rightarrow> (case date_or_null D (cz_dueDate dto) of
          Inl e \<Rightarrow> (Inl e, st)
        | Inr dueDate \<Rightarrow>
            let milestone = \<lparr>ms_id = newId, ms_projectId = projectId, ms_organizationId = organizationId,
              ms_name = cz_name dto, ms_dueDate = dueDate, ms_completedAt = None, ms_createdAt = now,
              ms_updatedAt = now\<rparr>
            in (Inr milestone, st\<lparr>pj_milestones := orm_save (pm_milestones R) milestone (pj_milestones st)\<rparr>)))"

definition mark_complete :: "js_time \<Rightarrow> bool option \<Rightarrow> Milestone \<Rightarrow> Milestone" where
  "mark_complete now mark m = (case mark of
     Some True \<Rightarrow> (if ms_completedAt m = None then m\<lparr>ms_completedAt := Some now\<rparr> else m)
   | Some False \<Rightarrow> m\<lparr>ms_completedAt := None\<rparr>
   | None \<Rightarrow> m)"

definition updateMilestone ::
  "projects_orms \<Rightarrow> (string \<Rightarrow> js_time option) \<Rightarrow> js_time \<Rightarrow> string \<Rightarrow> string \<Rightarrow> string \<Rightarrow> UpdateMilestoneDto \<Rightarrow>
   ProjectsService \<Rightarrow> Milestone outcome \<times> ProjectsService" where
  "updateMilestone R D now projectId milestoneId organizationId dto st =
     (case find_milestone R projectId milestoneId organizationId st of
        Inl e \<Rightarrow> (Inl e, st)
      | Inr milestone \<Rightarrow> (case date_patch D (xz_dueDate dto) (ms_dueDate milestone) of
          Inl e \<Rightarrow> (Inl e, st)
        | Inr dueDate \<Rightarrow>
            let saved = touched (\<lambda>m. m\<lparr>ms_updatedAt := now\<rparr>) milestone
              (mark_complete now (xz_markComplete dto)
                ((patch (xz_name dto) (\<lambda>v m. m\<lparr>ms_name := v\<rparr>) milestone)\<lparr>ms_dueDate := dueDate\<rparr>))
            in (Inr saved, st\<lparr>pj_milestones := orm_save (pm_milestones R) saved (pj_milestones st)\<rparr>)))"

definition deleteMilestone ::
  "projects_orms \<Rightarrow> string \<Rightarrow> string \<Rightarrow> string \<Rightarrow> ProjectsService \<Rightarrow> unit outcome \<times> ProjectsService" where
  "deleteMilestone R projectId milestoneId organizationId st =
     (case find_milestone R projectId milestoneId organizationId st of
        Inl e \<Rightarrow> (Inl e, st)
      | Inr _ \<Rightarrow> (Inr (), st\<lparr>pj_milestones :=
          orm_delete (pm_milestones R) (\<lambda>m. ms_id m = milestoneId) (pj_milestones st)\<rparr>))"

section \<open>Comments\<close>

definition addComment ::
  "projects_orms \<Rightarrow> js_time \<Rightarrow> string \<Rightarrow> string \<Rightarrow> string \<Rightarrow> string \<Rightarrow> string \<Rightarrow> string \<Rightarrow>
   ProjectsService \<Rightarrow> TaskComment outcome \<times> ProjectsService" where
  "addComment R now newId projectId taskId organizationId userId content st =
     (case find_task R projectId taskId organizationId st of
        Inl e \<Rightarrow> (Inl e, st)
      | Inr _ \<Rightarrow>
          let comment = \<lparr>tc_id = newId, tc_taskId = taskId, tc_userId = userId, tc_content = content,
            tc_createdAt = now, tc_updatedAt = now\<rparr>
          in (Inr comment, st\<lparr>pj_comments := orm_save (pm_comments R) comment (pj_comments st)\<rparr>))"

definition getComments ::
  "projects_orms \<Rightarrow> string \<Rightarrow> string \<Rightarrow> string \<Rightarrow> ProjectsService \<Rightarrow> TaskComment list outcome" where
  "getComments R projectId taskId organizationId st =
     (case find_task R projectId taskId organizationId st of
        Inl e \<Rightarrow> Inl e
      | Inr _ \<Rightarrow> Inr (orm_find (pm_comments R) (\<lambda>c. tc_taskId c = taskId) (asc tc_createdAt) None
          (pj_comments st)))"

section \<open>What a request may change\<close>

text \<open>
  Every request either leaves the tables as they are, or saves or deletes one row of its own
  organisation; tasks and milestones are only saved under a project of the organisation.
\<close>

definition project_of :: "string \<Rightarrow> string \<Rightarrow> ProjectsService \<Rightarrow> bool" where
  "project_of pid org st \<longleftrightarrow> (\<exists>p \<in> set (pj_projects st). pr_id p = pid \<and> pr_organizationId p = org)"

inductive pj_change :: "projects_orms \<Rightarrow> string \<Rightarrow> ProjectsService \<Rightarrow> ProjectsService \<Rightarrow> bool"
  for R org s where
  unchanged: "pj_change R org s s"
| save_project: "may_save pr_id pr_organizationId org e (pj_projects s) \<Longrightarrow>
    pj_change R org s (s\<lparr>pj_projects := orm_save (pm_projects R) e (pj_projects s)\<rparr>)"
| save_task: "may_save tk_id tk_organizationId org e (pj_tasks s) \<Longrightarrow> project_of (tk_projectId e) org s \<Longrightarrow>
    pj_change R org s (s\<lparr>pj_tasks := orm_save (pm_tasks R) e (pj_tasks s)\<rparr>)"
| delete_task: "t \<in> set (pj_tasks s) \<Longrightarrow> tk_organizationId t = org \<Longrightarrow>
    pj_change R org s (s\<lparr>pj_tasks := orm_delete (pm_tasks R) (\<lambda>r. tk_id r = tk_id t) (pj_tasks s),
      pj_comments := orm_delete (pm_comments R) (\<lambda>c. tc_taskId c = tk_id t) (pj_comments s)\<rparr>)"
| save_milestone: "may_save ms_id ms_organizationId org m (pj_milestones s) \<Longrightarrow>
    project_of (ms_projectId m) org s \<Longrightarrow>
    pj_change R org s (s\<lparr>pj_milestones := orm_save (pm_milestones R) m (pj_milestones s)\<rparr>)"
| delete_milestone: "m \<in> set (pj_milestones s) \<Longrightarrow> ms_organizationId m = org \<Longrightarrow>
    pj_change R org s (s\<lparr>pj_milestones :=
      orm_delete (pm_milestones R) (\<lambda>r. ms_id r = ms_id m) (pj_milestones s)\<rparr>)"
| save_comment: "t \<in> set (pj_tasks s) \<Longrightarrow> tc_taskId c = tk_id t \<Longrightarrow> tk_organizationId t = org \<Longrightarrow>
    pj_change R org s (s\<lparr>pj_comments := orm_save (pm_comments R) c (pj_comments s)\<rparr>)"

datatype project_op =
    Create_project js_time string string CreateProjectDto
  | Update_project js_time string UpdateProjectDto
  | Archive_project js_time string
  | Create_task js_time string string CreateTaskDto
  | Update_task js_time string string UpdateTaskDto
  | Move_task js_time string string MoveTaskDto
  | Delete_task string string
  | Create_milestone js_time string string CreateMilestoneDto
  | Update_milestone js_time string string UpdateMilestoneDto
  | Delete_milestone string string
  | Add_comment js_time string string string string string

fun project_apply ::
  "projects_orms \<Rightarrow> (string \<Rightarrow> js_time option) \<Rightarrow> string \<Rightarrow> project_op \<Rightarrow> ProjectsService \<Rightarrow> ProjectsService" where
  "project_apply R D org (Create_project now i u dto) s = snd (createProject R D now i org u dto s)"
| "project_apply R D org (Update_project now pid dto) s = snd (updateProject R D now pid org dto s)"
| "project_apply R D org (Archive_project now pid) s = snd (archiveProject R now pid org s)"
| "project_apply R D org (Create_task now i pid dto) s = snd (createTask R D now i pid org dto s)"
| "project_apply R D org (Update_task now pid tid dto) s = snd (updateTask R D now pid tid org dto s)"
| "project_apply R D org (Move_task now pid tid dto) s = snd (moveTask R now pid tid org dto s)"
| "project_apply R D org (Delete_task pid tid) s = snd (deleteTask R pid tid org s)"
| "project_apply R D org (Create_milestone now i pid dto) s = snd (createMilestone R D now i pid org dto s)"
| "project_apply R D org (Update_milestone now pid mid dto) s = snd (updateMilestone R D now pid mid org dto s)"
| "project_apply R D org (Delete_milestone pid mid) s = snd (deleteMilestone R pid mid org s)"
| "project_apply R D org (Add_comment now i pid tid u c) s = snd (addComment R now i pid tid org u c s)"

text \<open>Generated ids are new.\<close>

fun project_valid :: "project_op \<Rightarrow> ProjectsService \<Rightarrow> bool" where
  "project_valid (Create_project now i u dto) s \<longleftrightarrow> i \<notin> pr_id ` set (pj_projects s)"
| "project_valid (Create_task now i pid dto) s \<longleftrightarrow> i \<notin> tk_id ` set (pj_tasks s)"
| "project_valid (Create_milestone now i pid dto) s \<longleftrightarrow> i \<notin> ms_id ` set (pj_milestones s)"
| "project_valid _ s \<longleftrightarrow> True"

definition projects_repos :: "projects_orms \<Rightarrow> bool" where
  "projects_repos R \<longleftrightarrow> repository (pm_projects R) pr_id \<and> repository (pm_tasks R) tk_id \<and>
     repository (pm_milestones R) ms_id \<and> repository (pm_comments R) tc_id"

lemma project_in_orgD:
  "projects_repos R \<Longrightarrow> project_in_org R pid org s = Some p \<Longrightarrow>
   p \<in> set (pj_projects s) \<and> pr_id p = pid \<and> pr_organizationId p = org"
  by (auto simp: project_in_org_def projects_repos_def dest!: repository.find_one_SomeD)

lemma findProjectInOrgD: "projects_repos R \<Longrightarrow> findProjectInOrg R pid org s = Inr p \<Longrightarrow> project_of pid org s"
  using project_in_orgD [of R pid org s p] by (auto simp: findProjectInOrg_def project_of_def split: option.splits)

lemma find_taskD:
  assumes R: "projects_repos R" and f: "find_task R pid tid org s = Inr t"
  shows "t \<in> set (pj_tasks s) \<and> tk_id t = tid \<and> tk_projectId t = pid \<and>
    tk_organizationId t = org \<and> project_of pid org s"
proof -
  obtain p where p: "findProjectInOrg R pid org s = Inr p"
    and o: "find_one (pm_tasks R) (\<lambda>r. tk_id r = tid \<and> tk_projectId r = pid \<and>
      tk_organizationId r = org) (pj_tasks s) = Some t"
    using f by (auto simp: find_task_def split: sum.splits option.splits)
  have "repository (pm_tasks R) tk_id" using R by (simp add: projects_repos_def)
  from repository.find_one_SomeD [OF this o] findProjectInOrgD [OF R p] show ?thesis by blast
qed

lemma find_milestoneD:
  assumes R: "projects_repos R" and f: "find_milestone R pid mid org s = Inr m"
  shows "m \<in> set (pj_milestones s) \<and> ms_id m = mid \<and> ms_projectId m = pid \<and>
    ms_organizationId m = org \<and> project_of pid org s"
proof -
  obtain p where p: "findProjectInOrg R pid org s = Inr p"
    and o: "find_one (pm_milestones R) (\<lambda>r. ms_id r = mid \<and> ms_projectId r = pid \<and>
      ms_organizationId r = org) (pj_milestones s) = Some m"
    using f by (auto simp: find_milestone_def split: sum.splits option.splits)
  have "repository (pm_milestones R) ms_id" using R by (simp add: projects_repos_def)
  from repository.find_one_SomeD [OF this o] findProjectInOrgD [OF R p] show ?thesis by blast
qed

lemma saved_project:
  assumes "p \<in> set (pj_projects s)" "pr_organizationId p = org" "pr_id e = pr_id p"
    "pr_organizationId e = pr_organizationId p"
  shows "pj_change R org s (snd (save_project R now p e s))"
  unfolding save_project_def Let_def snd_conv
  by (rule pj_change.save_project, rule may_save_known [OF assms(1)]) (use assms in \<open>simp_all add: touched_def\<close>)

lemma saved_task:
  assumes "t \<in> set (pj_tasks s)" "tk_organizationId t = org" "project_of (tk_projectId t) org s"
    "tk_id e = tk_id t" "tk_organizationId e = tk_organizationId t" "tk_projectId e = tk_projectId t"
  shows "pj_change R org s (snd (save_task R now t e s))"
  unfolding save_task_def Let_def snd_conv
  by (rule pj_change.save_task, rule may_save_known [OF assms(1)]) (use assms in \<open>simp_all add: touched_def\<close>)

lemma project_apply_change:
  assumes R: "projects_repos R" and v: "project_valid op s"
  shows "pj_change R org s (project_apply R D org op s)"
proof (cases op)
  case (Create_project now i u dto)
  then show ?thesis using v
    by (auto simp: createProject_def Let_def intro!: pj_change.intros may_save_fresh split: sum.split)
next
  case (Update_project now pid dto)
  then show ?thesis using project_in_orgD [OF R, of pid org s]
    by (auto simp: updateProject_def patch_keeps intro!: pj_change.unchanged saved_project
        split: sum.split option.split)
next
  case (Archive_project now pid)
  then show ?thesis using project_in_orgD [OF R, of pid org s]
    by (auto simp: archiveProject_def intro!: pj_change.unchanged saved_project split: option.split)
next
  case (Create_task now i pid dto)
  then show ?thesis using v findProjectInOrgD [OF R, of pid org s]
    by (auto simp: createTask_def Let_def intro!: pj_change.unchanged pj_change.save_task may_save_fresh
        split: sum.split)
next
  case (Update_task now pid tid dto)
  then show ?thesis using find_taskD [OF R, of pid tid org s]
    by (auto simp: updateTask_def patch_keeps intro!: pj_change.unchanged saved_task split: sum.split)
next
  case (Move_task now pid tid dto)
  then show ?thesis using find_taskD [OF R, of pid tid org s]
    by (auto simp: moveTask_def intro!: pj_change.unchanged saved_task split: sum.split)
next
  case (Delete_task pid tid)
  show ?thesis
  proof (cases "find_task R pid tid org s")
    case (Inr t)
    then show ?thesis using Delete_task find_taskD [OF R Inr] pj_change.delete_task [of t s org R]
      by (simp add: deleteTask_def)
  qed (simp add: Delete_task deleteTask_def pj_change.unchanged)
next
  case (Create_milestone now i pid dto)
  then show ?thesis using v findProjectInOrgD [OF R, of pid org s]
    by (auto simp: createMilestone_def Let_def intro!: pj_change.unchanged pj_change.save_milestone may_save_fresh
        split: sum.split)
next
  case (Update_milestone now pid mid dto)
  have keep: "ms_id (mark_complete now k m) = ms_id m" "ms_organizationId (mark_complete now k m) = ms_organizationId m"
    "ms_projectId (mark_complete now k m) = ms_projectId m" for k m
    by (auto simp: mark_complete_def split: option.split bool.split)
  show ?thesis
  proof (cases "find_milestone R pid mid org s")
    case (Inr m)
    note m = find_milestoneD [OF R Inr]
    show ?thesis using m
      by (auto simp: Update_milestone updateMilestone_def Inr Let_def keep patch_keeps touched_def
          intro!: pj_change.unchanged pj_change.save_milestone may_save_known [of m] split: sum.split)
  qed (simp add: Update_milestone updateMilestone_def pj_change.unchanged)
next
  case (Delete_milestone pid mid)
  show ?thesis
  proof (cases "find_milestone R pid mid org s")
    case (Inr m)
    then show ?thesis using Delete_milestone find_milestoneD [OF R Inr] pj_change.delete_milestone [of m s org R]
      by (simp add: deleteMilestone_def)
  qed (simp add: Delete_milestone deleteMilestone_def pj_change.unchanged)
next
  case (Add_comment now i pid tid u c)
  show ?thesis
  proof (cases "find_task R pid tid org s")
    case (Inr t)
    then show ?thesis using Add_comment find_taskD [OF R Inr]
      by (auto simp: addComment_def Let_def intro: pj_change.save_comment [of t])
  qed (simp add: Add_comment addComment_def pj_change.unchanged)
qed

section \<open>The tables stay consistent, and tenants apart\<close>

definition projects_good :: "ProjectsService \<Rightarrow> bool" where
  "projects_good s \<longleftrightarrow> keyed pr_id (pj_projects s) \<and> keyed tk_id (pj_tasks s) \<and>
     keyed ms_id (pj_milestones s) \<and>
     (\<forall>t \<in> set (pj_tasks s). project_of (tk_projectId t) (tk_organizationId t) s) \<and>
     (\<forall>m \<in> set (pj_milestones s). project_of (ms_projectId m) (ms_organizationId m) s) \<and>
     (\<forall>c \<in> set (pj_comments s). \<exists>t \<in> set (pj_tasks s). tk_id t = tc_taskId c)"

lemma project_of_save:
  assumes "repository R pr_id" and "keyed pr_id (pj_projects s)"
    and e: "may_save pr_id pr_organizationId org e (pj_projects s)" and p: "project_of pid org' s"
  shows "project_of pid org' (s\<lparr>pj_projects := orm_save R e (pj_projects s)\<rparr>)"
proof -
  obtain p where p: "p \<in> set (pj_projects s)" "pr_id p = pid" "pr_organizationId p = org'"
    using p by (auto simp: project_of_def)
  have "pr_organizationId e = org'" if "pr_id p = pr_id e"
    using may_save_same [OF assms(2) e p(1) that] p(3) e by (simp add: may_save_def)
  then show ?thesis using p by (auto simp: project_of_def repository.set_save [OF assms(1)])
qed

lemma pj_change_good:
  assumes R: "projects_repos R" and "pj_change R org s s'" and g: "projects_good s"
  shows "projects_good s'"
  using assms(2)
proof cases
  case (save_project e)
  then show ?thesis using g R
    by (auto simp: projects_good_def projects_repos_def repository.keyed_save intro: project_of_save)
next
  case (save_task e)
  have T: "repository (pm_tasks R) tk_id" using R by (simp add: projects_repos_def)
  have c: "\<exists>t \<in> set (orm_save (pm_tasks R) e (pj_tasks s)). tk_id t = i"
    if "\<exists>t \<in> set (pj_tasks s). tk_id t = i" for i
    using that by (auto simp: repository.set_save [OF T])
  have p: "\<forall>t \<in> set (orm_save (pm_tasks R) e (pj_tasks s)). project_of (tk_projectId t) (tk_organizationId t) s"
    using save_task g by (auto simp: repository.set_save [OF T] projects_good_def may_save_def)
  from c p g show ?thesis
    unfolding save_task(1) by (simp add: projects_good_def project_of_def repository.keyed_save [OF T])
next
  case (delete_task t)
  have T: "repository (pm_tasks R) tk_id" "repository (pm_comments R) tc_id" using R by (auto simp: projects_repos_def)
  have refs: "\<forall>c \<in> set (pj_comments s). \<exists>r \<in> set (pj_tasks s). tk_id r = tc_taskId c"
    using g unfolding projects_good_def by (elim conjE)
  have c: "\<exists>r \<in> set (pj_tasks s). tk_id r \<noteq> tk_id t \<and> tk_id r = tc_taskId c"
    if cin: "c \<in> set (pj_comments s)" and ne: "tc_taskId c \<noteq> tk_id t" for c
  proof -
    obtain r where "r \<in> set (pj_tasks s)" "tk_id r = tc_taskId c"
      using bspec [OF refs cin] by blast
    then show ?thesis using ne by (intro bexI [of _ r]) auto
  qed
  have cc: "\<forall>c \<in> set (orm_delete (pm_comments R) (\<lambda>c. tc_taskId c = tk_id t) (pj_comments s)).
      \<exists>r \<in> set (orm_delete (pm_tasks R) (\<lambda>r. tk_id r = tk_id t) (pj_tasks s)). tk_id r = tc_taskId c"
    unfolding repository.set_delete [OF T(1)] repository.set_delete [OF T(2)] using c by blast
  have tt: "\<forall>r \<in> set (orm_delete (pm_tasks R) (\<lambda>r. tk_id r = tk_id t) (pj_tasks s)).
      project_of (tk_projectId r) (tk_organizationId r) s"
    using g by (simp add: projects_good_def repository.set_delete [OF T(1)])
  from cc tt g show ?thesis
    unfolding delete_task(1) by (simp add: projects_good_def project_of_def repository.keyed_delete [OF T(1)])
next
  case (save_milestone m)
  then show ?thesis using g R
    by (auto simp: projects_good_def projects_repos_def project_of_def may_save_def repository.keyed_save
        repository.set_save)
next
  case (delete_milestone m)
  then show ?thesis using g R
    by (auto simp: projects_good_def projects_repos_def project_of_def repository.keyed_delete repository.set_delete)
next
  case (save_comment t c)
  have C: "repository (pm_comments R) tc_id" using R by (simp add: projects_repos_def)
  have "\<forall>c \<in> set (orm_save (pm_comments R) c (pj_comments s)). \<exists>r \<in> set (pj_tasks s). tk_id r = tc_taskId c"
    unfolding repository.set_save [OF C] using save_comment(2,3) g by (auto simp: projects_good_def)
  with g show ?thesis unfolding save_comment(1) by (simp add: projects_good_def project_of_def)
qed (use g in simp)

lemma pj_change_isolated:
  assumes R: "projects_repos R" and "pj_change R org s s'" and g: "projects_good s" and ne: "org \<noteq> org'"
  shows "rows_of_org pr_organizationId org' (pj_projects s') = rows_of_org pr_organizationId org' (pj_projects s)"
    and "rows_of_org tk_organizationId org' (pj_tasks s') = rows_of_org tk_organizationId org' (pj_tasks s)"
    and "rows_of_org ms_organizationId org' (pj_milestones s') = rows_of_org ms_organizationId org' (pj_milestones s)"
proof -
  have r: "repository (pm_projects R) pr_id" "repository (pm_tasks R) tk_id" "repository (pm_milestones R) ms_id"
    using R by (auto simp: projects_repos_def)
  have k: "keyed pr_id (pj_projects s)" "keyed tk_id (pj_tasks s)" "keyed ms_id (pj_milestones s)"
    using g by (auto simp: projects_good_def)
  show "rows_of_org pr_organizationId org' (pj_projects s') = rows_of_org pr_organizationId org' (pj_projects s)"
    using assms(2) by cases (use ne k repository.save_owned [OF r(1) k(1)] in auto)
  show "rows_of_org tk_organizationId org' (pj_tasks s') = rows_of_org tk_organizationId org' (pj_tasks s)"
    using assms(2) by cases (use ne repository.save_owned [OF r(2) k(2)]
      repository.delete_owned [OF r(2) k(2)] in auto)
  show "rows_of_org ms_organizationId org' (pj_milestones s') = rows_of_org ms_organizationId org' (pj_milestones s)"
    using assms(2) by cases (use ne repository.save_owned [OF r(3) k(3)]
      repository.delete_owned [OF r(3) k(3)] in auto)
qed

lemma projects_tenant_ops:
  assumes R: "projects_repos R"
  shows "tenant_ops pr_organizationId pj_projects projects_good project_valid (project_apply R D)"
    and "tenant_ops tk_organizationId pj_tasks projects_good project_valid (project_apply R D)"
    and "tenant_ops ms_organizationId pj_milestones projects_good project_valid (project_apply R D)"
proof -
  note ch = project_apply_change [OF R]
  show "tenant_ops pr_organizationId pj_projects projects_good project_valid (project_apply R D)"
    using pj_change_isolated(1) [OF R ch] pj_change_good [OF R ch] by (simp add: tenant_ops_def)
  show "tenant_ops tk_organizationId pj_tasks projects_good project_valid (project_apply R D)"
    using pj_change_isolated(2) [OF R ch] pj_change_good [OF R ch] by (simp add: tenant_ops_def)
  show "tenant_ops ms_organizationId pj_milestones projects_good project_valid (project_apply R D)"
    using pj_change_isolated(3) [OF R ch] pj_change_good [OF R ch] by (simp add: tenant_ops_def)
qed

definition list_projects :: projects_orms where
  "list_projects = \<lparr>pm_projects = typeorm_list pr_id, pm_tasks = typeorm_list tk_id,
     pm_milestones = typeorm_list ms_id, pm_comments = typeorm_list tc_id\<rparr>"

lemma list_projects_repos: "projects_repos list_projects"
  by (simp add: projects_repos_def list_projects_def)

interpretation project_tenancy: tenant_ops pr_organizationId pj_projects projects_good project_valid
  "project_apply list_projects D" for D
  by (rule projects_tenant_ops [OF list_projects_repos])

interpretation task_tenancy: tenant_ops tk_organizationId pj_tasks projects_good project_valid
  "project_apply list_projects D" for D
  by (rule projects_tenant_ops [OF list_projects_repos])

interpretation milestone_tenancy: tenant_ops ms_organizationId pj_milestones projects_good project_valid
  "project_apply list_projects D" for D
  by (rule projects_tenant_ops [OF list_projects_repos])

text \<open>
  C24. The project tables stay consistent whatever requests come from whatever organisations: ids
  stay unique, every task and milestone lies in a project of its own organisation, and every
  comment belongs to a task that exists.
\<close>

theorem projects_consistent:
  assumes "projects_repos R" and "projects_good s" and "ops_valid project_valid (project_apply R D) ops s"
  shows "projects_good (org_runs (project_apply R D) ops s)"
  using tenant_ops.runs_good [OF projects_tenant_ops(1) [OF assms(1)] assms(2,3)] .

definition board :: ProjectsService where
  "board = \<lparr>pj_projects = [\<lparr>pr_id = ''p'', pr_organizationId = ''o1'', pr_name = [], pr_description = None,
       pr_status = ''active'', pr_deadline = None, pr_color = [], pr_createdBy = [], pr_createdAt = 0,
       pr_updatedAt = 0\<rparr>],
     pj_tasks = [\<lparr>tk_id = ''t'', tk_projectId = ''p'', tk_organizationId = ''o1'', tk_assigneeId = None,
       tk_title = [], tk_description = None, tk_status = ''todo'', tk_priority = ''medium'',
       tk_estimatedHours = None, tk_dueDate = None, tk_position = 0, tk_createdBy = None,
       tk_createdAt = 0, tk_updatedAt = 0\<rparr>],
     pj_milestones = [], pj_comments = []\<rparr>"

lemma board_good: "projects_good board"
  by (simp add: board_def projects_good_def keyed_def project_of_def)

theorem projects_consistent_witness:
  "projects_good (org_runs (project_apply list_projects (\<lambda>s. None))
     [(''o1'', Add_comment 1 ''c'' ''p'' ''t'' ''u'' ''hi''), (''o2'', Delete_task ''p'' ''t''),
      (''o1'', Delete_task ''p'' ''t'')] board)"
  by (rule projects_consistent [OF list_projects_repos board_good]) simp

text \<open>
  Requests of other organisations, whatever ids they name, change no project, task or
  milestone of an organisation.
\<close>

theorem projects_isolated:
  assumes "projects_repos R" and "projects_good s" and "ops_valid project_valid (project_apply R D) ops s"
    and "org \<notin> fst ` set ops"
  shows "rows_of_org pr_organizationId org (pj_projects (org_runs (project_apply R D) ops s)) =
      rows_of_org pr_organizationId org (pj_projects s) \<and>
    rows_of_org tk_organizationId org (pj_tasks (org_runs (project_apply R D) ops s)) =
      rows_of_org tk_organizationId org (pj_tasks s) \<and>
    rows_of_org ms_organizationId org (pj_milestones (org_runs (project_apply R D) ops s)) =
      rows_of_org ms_organizationId org (pj_milestones s)"
  using projects_tenant_ops [OF assms(1), THEN tenant_ops.runs_isolated] assms(2-4) by blast

theorem projects_isolated_witness:
  "let s = org_runs (project_apply list_projects (\<lambda>s. None)) [(''o2'', Delete_task ''p'' ''t''),
      (''o2'', Archive_project 5 ''p''), (''o2'', Create_project 6 ''q'' ''u'' \<lparr>cp_name = ''Q'',
        cp_description = None, cp_deadline = None, cp_color = None\<rparr>)] board in
   rows_of_org pr_organizationId ''o1'' (pj_projects s) = rows_of_org pr_organizationId ''o1'' (pj_projects board) \<and>
   rows_of_org tk_organizationId ''o1'' (pj_tasks s) = rows_of_org tk_organizationId ''o1'' (pj_tasks board) \<and>
   rows_of_org ms_organizationId ''o1'' (pj_milestones s) = rows_of_org ms_organizationId ''o1'' (pj_milestones board)"
  unfolding Let_def
  by (rule projects_isolated [OF list_projects_repos board_good])
    (simp_all add: archiveProject_def project_in_org_def deleteTask_def find_task_def findProjectInOrg_def
      list_projects_def board_def)

end
