(* ===== verification/Gps.thy ===== *)
theory Gps
  imports Tenancy EntitiesAgent TimeTracking MonitorGateway
begin

text \<open>
  GpsService and the location routes of GpsController (modules/gps): the history and the last known
  place of every employee, geofences, and the test whether a point lies in one. Numbers are
  reals; where rounding can change an answer, in the distance, the arithmetic of the engine is a parameter.
  \<open>D\<close> is \<open>new Date(s)\<close>, None for an invalid date.
\<close>

record GpsPointInput =
  gq_lat :: real
  gq_lng :: real
  gq_accuracy :: "real option"
  gq_batteryLevel :: "real option"
  gq_recordedAt :: string

record CreateGeofenceDto =
  cf_name :: string
  cf_lat :: real
  cf_lng :: real
  cf_radiusMeters :: "int option"
  cf_autoClockIn :: "bool option"
  cf_autoClockOut :: "bool option"

record UpdateGeofenceDto =
  xf_name :: "string option"
  xf_lat :: "real option"
  xf_lng :: "real option"
  xf_radiusMeters :: "int option"
  xf_autoClockIn :: "bool option"
  xf_autoClockOut :: "bool option"
  xf_isActive :: "bool option"

record GetLocationsQueryDto =
  gx_from :: string
  gx_to :: string
  gx_userId :: "string option"

record CheckGeofenceResult =
  gc_isInside :: bool
  gc_distanceMeters :: "real option"
  gc_geofence :: Geofence

record GpsService =
  gs_locations :: "GpsLocation list"
  gs_geofences :: "Geofence list"

text \<open>
  The arithmetic of the engine: \<open>jm_fl\<close> rounds the exact result of a basic operation, and the functions of \<open>Math\<close>
  are approximations that ECMAScript leaves open. \<open>exact_math\<close> rounds nothing.
\<close>

record js_math =
  jm_fl :: "real \<Rightarrow> real"
  jm_pi :: real
  jm_sin :: "real \<Rightarrow> real"
  jm_cos :: "real \<Rightarrow> real"
  jm_sqrt :: "real \<Rightarrow> real"
  jm_asin :: "real \<Rightarrow> real"

definition exact_math :: js_math where
  "exact_math = \<lparr>jm_fl = (\<lambda>x. x), jm_pi = pi, jm_sin = sin, jm_cos = cos, jm_sqrt = sqrt, jm_asin = arcsin\<rparr>"

record gps_orms =
  go_locations :: "GpsLocation orm"
  go_geofences :: "Geofence orm"
  go_math :: js_math

definition radians :: "js_math \<Rightarrow> real \<Rightarrow> real" where
  "radians M d = jm_fl M (jm_fl M (d * jm_pi M) / 180)"

definition haversine_a :: "js_math \<Rightarrow> real \<Rightarrow> real \<Rightarrow> real \<Rightarrow> real \<Rightarrow> real" where
  "haversine_a M lat1 lng1 lat2 lng2 =
     (let dLat = radians M (jm_fl M (lat2 - lat1)); dLng = radians M (jm_fl M (lng2 - lng1));
          sq = (\<lambda>x. jm_fl M ((jm_sin M (jm_fl M (x / 2)))\<^sup>2))
      in jm_fl M (sq dLat +
           jm_fl M (jm_fl M (jm_cos M (radians M lat1) * jm_cos M (radians M lat2)) * sq dLng)))"

text \<open>\<open>Math.sqrt\<close> of a negative number and \<open>Math.asin\<close> of one above 1 are NaN, here None.\<close>

definition haversineDistanceMeters :: "js_math \<Rightarrow> real \<Rightarrow> real \<Rightarrow> real \<Rightarrow> real \<Rightarrow> real option" where
  "haversineDistanceMeters M lat1 lng1 lat2 lng2 =
     (let a = haversine_a M lat1 lng1 lat2 lng2
      in if a < 0 \<or> 1 < jm_sqrt M a then None else Some (jm_fl M (6371000 * 2 * jm_asin M (jm_sqrt M a))))"

text \<open>The points are inserted in one transaction, under ids the database generates.\<close>

fun gps_entities ::
  "(string \<Rightarrow> js_time option) \<Rightarrow> js_time \<Rightarrow> string \<Rightarrow> string \<Rightarrow> (string \<times> GpsPointInput) list \<Rightarrow>
   GpsLocation list option" where
  "gps_entities D now userId organizationId [] = Some []"
| "gps_entities D now userId organizationId ((i, p) # ps) =
     (case (D (gq_recordedAt p), gps_entities D now userId organizationId ps) of
        (Some t, Some es) \<Rightarrow> Some (\<lparr>gl_id = i, gl_userId = userId, gl_organizationId = organizationId,
          gl_lat = gq_lat p, gl_lng = gq_lng p, gl_accuracy = gq_accuracy p,
          gl_batteryLevel = gq_batteryLevel p, gl_recordedAt = t, gl_createdAt = now\<rparr> # es)
      | _ \<Rightarrow> None)"

definition saveLocations ::
  "gps_orms \<Rightarrow> (string \<Rightarrow> js_time option) \<Rightarrow> js_time \<Rightarrow> string list \<Rightarrow> string \<Rightarrow> string \<Rightarrow> GpsPointInput list \<Rightarrow>
   GpsService \<Rightarrow> nat outcome \<times> GpsService" where
  "saveLocations R D now newIds userId organizationId points st =
     (case gps_entities D now userId organizationId (zip newIds points) of
        None \<Rightarrow> (Inl invalid_date, st)
      | Some entities \<Rightarrow> (Inr (length points), st\<lparr>gs_locations :=
          save_all (go_locations R) entities (gs_locations st)\<rparr>))"

text \<open>\<open>DISTINCT ON (key)\<close> keeps the first row of every group of the sorted rows.\<close>

fun distinct_on :: "('e \<Rightarrow> 'k) \<Rightarrow> 'e list \<Rightarrow> 'e list" where
  "distinct_on f [] = []"
| "distinct_on f [x] = [x]"
| "distinct_on f (x # y # ys) = (if f x = f y then distinct_on f (x # ys) else x # distinct_on f (y # ys))"

definition user_then_newest :: "GpsLocation \<Rightarrow> GpsLocation \<Rightarrow> bool" where
  "user_then_newest a b \<longleftrightarrow> gl_userId a < gl_userId b \<or>
     gl_userId a = gl_userId b \<and> gl_recordedAt b \<le> gl_recordedAt a"

definition getLiveLocations :: "gps_orms \<Rightarrow> string \<Rightarrow> GpsService \<Rightarrow> GpsLocation list" where
  "getLiveLocations R organizationId st = distinct_on gl_userId (orm_find (go_locations R)
     (\<lambda>l. gl_organizationId l = organizationId) user_then_newest None (gs_locations st))"

definition getLocations ::
  "gps_orms \<Rightarrow> (string \<Rightarrow> js_time option) \<Rightarrow> string \<Rightarrow> GetLocationsQueryDto \<Rightarrow> GpsService \<Rightarrow>
   GpsLocation list outcome" where
  "getLocations R D organizationId q st =
     (case (D (gx_from q), D (gx_to q)) of
        (Some a, Some b) \<Rightarrow> Inr (orm_find (go_locations R) (\<lambda>l. gl_organizationId l = organizationId
          \<and> a \<le> gl_recordedAt l \<and> gl_recordedAt l \<le> b
          \<and> (falsy_str (gx_userId q) \<or> Some (gl_userId l) = gx_userId q))
          (desc gl_recordedAt) (Some 1000) (gs_locations st))
      | _ \<Rightarrow> Inl invalid_date)"

definition route_getLocations ::
  "gps_orms \<Rightarrow> (string \<Rightarrow> js_time option) \<Rightarrow> User \<Rightarrow> GetLocationsQueryDto \<Rightarrow> GpsService \<Rightarrow>
   GpsLocation list outcome" where
  "route_getLocations R D user q st = getLocations R D (u_organizationId user)
     (if u_role user = EMPLOYEE then q\<lparr>gx_userId := Some (u_id user)\<rparr> else q) st"

section \<open>Geofences\<close>

definition geofence_in_org :: "gps_orms \<Rightarrow> string \<Rightarrow> string \<Rightarrow> GpsService \<Rightarrow> Geofence outcome" where
  "geofence_in_org R organizationId geofenceId st = (case find_one (go_geofences R)
       (\<lambda>g. gf_id g = geofenceId \<and> gf_organizationId g = organizationId) (gs_geofences st) of
     None \<Rightarrow> Inl (NotFound (''Geofence '' @ geofenceId @ '' not found''))
   | Some fence \<Rightarrow> Inr fence)"

definition listGeofences :: "gps_orms \<Rightarrow> string \<Rightarrow> GpsService \<Rightarrow> Geofence list" where
  "listGeofences R organizationId st = orm_find (go_geofences R)
     (\<lambda>g. gf_organizationId g = organizationId) (desc gf_createdAt) None (gs_geofences st)"

definition createGeofence ::
  "gps_orms \<Rightarrow> js_time \<Rightarrow> string \<Rightarrow> string \<Rightarrow> CreateGeofenceDto \<Rightarrow> GpsService \<Rightarrow> Geofence \<times> GpsService" where
  "createGeofence R now newId organizationId dto st =
     (let fence = \<lparr>gf_id = newId, gf_organizationId = organizationId, gf_name = cf_name dto,
        gf_lat = cf_lat dto, gf_lng = cf_lng dto, gf_radiusMeters = nullish (cf_radiusMeters dto) 100,
        gf_autoClockIn = nullish (cf_autoClockIn dto) False,
        gf_autoClockOut = nullish (cf_autoClockOut dto) False, gf_isActive = True,
        gf_createdAt = now, gf_updatedAt = now\<rparr>
      in (fence, st\<lparr>gs_geofences := orm_save (go_geofences R) fence (gs_geofences st)\<rparr>))"

definition patch_geofence :: "UpdateGeofenceDto \<Rightarrow> Geofence \<Rightarrow> Geofence" where
  "patch_geofence dto fence =
     patch (xf_isActive dto) (\<lambda>v g. g\<lparr>gf_isActive := v\<rparr>)
     (patch (xf_autoClockOut dto) (\<lambda>v g. g\<lparr>gf_autoClockOut := v\<rparr>)
     (patch (xf_autoClockIn dto) (\<lambda>v g. g\<lparr>gf_autoClockIn := v\<rparr>)
     (patch (xf_radiusMeters dto) (\<lambda>v g. g\<lparr>gf_radiusMeters := v\<rparr>)
     (patch (xf_lng dto) (\<lambda>v g. g\<lparr>gf_lng := v\<rparr>)
     (patch (xf_lat dto) (\<lambda>v g. g\<lparr>gf_lat := v\<rparr>)
     (patch (xf_name dto) (\<lambda>v g. g\<lparr>gf_name := v\<rparr>) fence))))))"

definition updateGeofence ::
  "gps_orms \<Rightarrow> js_time \<Rightarrow> string \<Rightarrow> string \<Rightarrow> UpdateGeofenceDto \<Rightarrow> GpsService \<Rightarrow> Geofence outcome \<times> GpsService" where
  "updateGeofence R now organizationId geofenceId dto st =
     (case geofence_in_org R organizationId geofenceId st of
        Inl e \<Rightarrow> (Inl e, st)
      | Inr fence \<Rightarrow>
          let saved = touched (\<lambda>g. g\<lparr>gf_updatedAt := now\<rparr>) fence (patch_geofence dto fence)
          in (Inr saved, st\<lparr>gs_geofences := orm_save (go_geofences R) saved (gs_geofences st)\<rparr>))"

definition deleteGeofence ::
  "gps_orms \<Rightarrow> string \<Rightarrow> string \<Rightarrow> GpsService \<Rightarrow> unit outcome \<times> GpsService" where
  "deleteGeofence R organizationId geofenceId st =
     (case geofence_in_org R organizationId geofenceId st of
        Inl e \<Rightarrow> (Inl e, st)
      | Inr fence \<Rightarrow> (Inr (), st\<lparr>gs_geofences :=
          orm_delete (go_geofences R) (\<lambda>g. gf_id g = geofenceId) (gs_geofences st)\<rparr>))"

definition checkGeofence ::
  "gps_orms \<Rightarrow> string \<Rightarrow> string \<Rightarrow> real \<Rightarrow> real \<Rightarrow> GpsService \<Rightarrow> CheckGeofenceResult outcome" where
  "checkGeofence R organizationId geofenceId lat lng st =
     (case geofence_in_org R organizationId geofenceId st of
        Inl e \<Rightarrow> Inl e
      | Inr fence \<Rightarrow>
          let distanceMeters = haversineDistanceMeters (go_math R) (jm_fl (go_math R) (gf_lat fence))
                (jm_fl (go_math R) (gf_lng fence)) lat lng
          in Inr \<lparr>gc_isInside = (case distanceMeters of None \<Rightarrow> False | Some d \<Rightarrow> d \<le> of_int (gf_radiusMeters fence)),
               gc_distanceMeters = map_option (\<lambda>d. jm_fl (go_math R)
                 (of_int (js_round (jm_fl (go_math R) (d * 100))) / 100)) distanceMeters,
               gc_geofence = fence\<rparr>)"

section \<open>How far the distance is from the great circle\<close>

abbreviation exact_a :: "real \<Rightarrow> real \<Rightarrow> real \<Rightarrow> real \<Rightarrow> real" where
  "exact_a \<equiv> haversine_a exact_math"

text \<open>The distance on a sphere of radius 6371 km by the spherical law of cosines.\<close>

definition great_circle :: "real \<Rightarrow> real \<Rightarrow> real \<Rightarrow> real \<Rightarrow> real" where
  "great_circle lat1 lng1 lat2 lng2 = (let rad = (\<lambda>d. d * pi / 180) in
     6371000 * arccos (sin (rad lat1) * sin (rad lat2) + cos (rad lat1) * cos (rad lat2) * cos (rad (lng2 - lng1))))"

lemma exact_math_simps [simp]:
  "jm_fl exact_math x = x" "jm_sin exact_math = sin" "jm_cos exact_math = cos" "jm_sqrt exact_math = sqrt"
  "jm_asin exact_math = arcsin" "radians exact_math d = d * pi / 180"
  by (simp_all add: exact_math_def radians_def)

lemma exact_a_cos:
  "1 - 2 * exact_a lat1 lng1 lat2 lng2 = sin (lat1 * pi / 180) * sin (lat2 * pi / 180)
     + cos (lat1 * pi / 180) * cos (lat2 * pi / 180) * cos ((lng2 - lng1) * pi / 180)"
proof -
  have half: "2 * (sin (x / 2))\<^sup>2 = 1 - cos x" for x :: real
    using cos_double_sin [of "x / 2"] by simp
  have diff: "(lat2 - lat1) * pi / 180 = lat2 * pi / 180 - lat1 * pi / 180"
    by (simp add: algebra_simps diff_divide_distrib)
  have "2 * exact_a lat1 lng1 lat2 lng2 = 2 * (sin ((lat2 - lat1) * pi / 180 / 2))\<^sup>2
      + cos (lat1 * pi / 180) * cos (lat2 * pi / 180) * (2 * (sin ((lng2 - lng1) * pi / 180 / 2))\<^sup>2)"
    by (simp add: haversine_a_def Let_def)
  then have "2 * exact_a lat1 lng1 lat2 lng2 = (1 - cos ((lat2 - lat1) * pi / 180))
      + cos (lat1 * pi / 180) * cos (lat2 * pi / 180) * (1 - cos ((lng2 - lng1) * pi / 180))"
    unfolding half .
  then show ?thesis unfolding diff cos_diff by (simp add: algebra_simps)
qed

lemma exact_a_range: "0 \<le> exact_a lat1 lng1 lat2 lng2 \<and> exact_a lat1 lng1 lat2 lng2 \<le> 1"
proof -
  let ?p = "lat1 * pi / 180" let ?q = "lat2 * pi / 180" let ?c = "cos ((lng2 - lng1) * pi / 180)"
  let ?v = "sin ?p * sin ?q + cos ?p * cos ?q * ?c"
  have lin: "?v = (1 + ?c) / 2 * cos (?p - ?q) + (1 - ?c) / 2 * (- cos (?p + ?q))"
    by (simp add: cos_diff cos_add algebra_simps add_divide_distrib diff_divide_distrib)
  have c: "- 1 \<le> ?c" "?c \<le> 1" by simp_all
  have w: "0 \<le> (1 + ?c) / 2" "0 \<le> (1 - ?c) / 2" by (rule divide_nonneg_pos; use c in linarith)+
  have "?v \<le> (1 + ?c) / 2 * 1 + (1 - ?c) / 2 * 1"
    unfolding lin by (rule add_mono; rule mult_left_mono) (use w cos_ge_minus_one [of "?p + ?q"] in auto)
  moreover have "(1 + ?c) / 2 * (- 1) + (1 - ?c) / 2 * (- 1) \<le> ?v"
    unfolding lin by (rule add_mono; rule mult_left_mono) (use w in auto)
  ultimately have "-1 \<le> ?v \<and> ?v \<le> 1" by (simp add: field_simps)
  then show ?thesis using exact_a_cos [of lat1 lng1 lat2 lng2] by auto
qed

lemma great_circle_exact: "great_circle lat1 lng1 lat2 lng2 = 6371000 * arccos (1 - 2 * exact_a lat1 lng1 lat2 lng2)"
  by (simp only: great_circle_def Let_def exact_a_cos)

lemma arcsin_sqrt_arccos:
  assumes a: "0 \<le> a" "a \<le> 1"
  shows "2 * arcsin (sqrt a) = arccos (1 - 2 * a)"
proof -
  have s: "- 1 \<le> sqrt a" "sqrt a \<le> 1"
    using a real_sqrt_ge_zero [OF a(1)] by (simp_all add: order_trans [of "- 1" 0] real_sqrt_le_1_iff del: real_sqrt_ge_zero)
  define x where "x = arcsin (sqrt a)"
  have x: "0 \<le> x" "x \<le> pi / 2"
    using arcsin_le_arcsin [of 0 "sqrt a"] arcsin_ubound [OF s] a s by (auto simp: x_def)
  have "sin x = sqrt a" unfolding x_def by (rule sin_arcsin [OF s])
  then have "cos (2 * x) = 1 - 2 * a" using a by (simp add: cos_double_sin)
  then show ?thesis using arccos_cos [of "2 * x"] x by (simp add: x_def)
qed

lemma sin_ge_half:
  assumes "0 \<le> h" "h \<le> pi / 2"
  shows "h / 2 \<le> sin h"
proof -
  let ?x = "h / 2"
  have "(\<lambda>x. sin x - x * cos x) 0 \<le> (\<lambda>x. sin x - x * cos x) ?x"
  proof (rule DERIV_nonneg_imp_nondecreasing [where f = "\<lambda>x. sin x - x * cos x"])
    fix x :: real assume x: "0 \<le> x" "x \<le> ?x"
    have "((\<lambda>x. sin x - x * cos x) has_real_derivative x * sin x) (at x)"
      by (auto intro!: derivative_eq_intros)
    moreover have "0 \<le> x * sin x" using x assms sin_ge_zero [of x] by simp
    ultimately show "\<exists>y. ((\<lambda>x. sin x - x * cos x) has_real_derivative y) (at x) \<and> 0 \<le> y" by blast
  qed (use assms in simp)
  then have s: "?x * cos ?x \<le> sin ?x" by simp
  have c: "0 \<le> cos ?x" using assms by (intro cos_ge_zero) auto
  have "0 \<le> cos h" using assms by (intro cos_ge_zero) auto
  then have "1 / 2 \<le> (cos ?x)\<^sup>2" using cos_double_cos [of ?x] by simp
  then have "h * (1 / 2) \<le> h * (cos ?x)\<^sup>2" using assms(1) by (intro mult_left_mono)
  also have "\<dots> = 2 * (?x * cos ?x) * cos ?x" by (simp add: power2_eq_square)
  also have "\<dots> \<le> 2 * sin ?x * cos ?x" using s c by (intro mult_right_mono) auto
  also have "\<dots> = sin h" using sin_double [of ?x] by simp
  finally show ?thesis by simp
qed

lemma cos_apart:
  assumes "0 \<le> \<beta>" "\<beta> \<le> \<alpha>" "\<alpha> \<le> pi"
  shows "(\<alpha> - \<beta>)\<^sup>2 \<le> 8 * (cos \<beta> - cos \<alpha>)"
proof -
  define h where "h = (\<alpha> - \<beta>) / 2"
  define m where "m = (\<alpha> + \<beta>) / 2"
  have h: "0 \<le> h" "h \<le> pi / 2" "h \<le> m" "m \<le> pi - h" using assms by (auto simp: h_def m_def field_simps)
  have "sin h \<le> sin m"
  proof (cases "m \<le> pi / 2")
    case True
    then show ?thesis using h sin_monotone_2pi_le [of h m] by simp
  next
    case False
    then have "sin h \<le> sin (pi - m)" using h by (intro sin_monotone_2pi_le) auto
    then show ?thesis by simp
  qed
  then have "sin h * sin h \<le> sin m * sin h" using sin_ge_zero [of h] h by (intro mult_right_mono) auto
  moreover have "h / 2 * (h / 2) \<le> sin h * sin h" using sin_ge_half [OF h(1,2)] h by (intro mult_mono) auto
  moreover have "cos \<beta> - cos \<alpha> = 2 * (sin m * sin h)"
    using cos_diff_cos [of \<beta> \<alpha>] by (simp add: h_def m_def add.commute)
  moreover have "(\<alpha> - \<beta>)\<^sup>2 = 16 * (h / 2 * (h / 2))" by (simp add: h_def power2_eq_square)
  moreover have "16 * x \<le> 8 * y" if "z \<le> w" "x \<le> z" "y = 2 * w" for x y z w :: real using that by simp
  ultimately show ?thesis by metis
qed

lemma arccos_apart:
  assumes "\<bar>u\<bar> \<le> 1" "\<bar>v\<bar> \<le> 1"
  shows "\<bar>arccos u - arccos v\<bar> \<le> sqrt (8 * \<bar>u - v\<bar>)"
proof -
  have ord: "(arccos u - arccos v)\<^sup>2 \<le> 8 * \<bar>u - v\<bar>" if "u \<le> v" "\<bar>u\<bar> \<le> 1" "\<bar>v\<bar> \<le> 1" for u v
    using cos_apart [of "arccos v" "arccos u"] that
    by (simp add: arccos_le_arccos abs_le_iff arccos_lbound arccos_ubound)
  have "(arccos u - arccos v)\<^sup>2 \<le> 8 * \<bar>u - v\<bar>"
    using ord [of u v] ord [of v u] assms by (cases "u \<le> v") (simp_all add: power2_commute abs_minus_commute)
  then show ?thesis using real_sqrt_le_mono by fastforce
qed

text \<open>
  What is asked of the arithmetic at two points: the haversine is computed up to \<open>\<epsilon>\<close> and is not negative, a square root above 1
  comes from a number above 1, and what follows the haversine is computed up to \<open>\<delta>\<close> metres.
\<close>

definition accurate_at :: "js_math \<Rightarrow> real \<Rightarrow> real \<Rightarrow> real \<Rightarrow> real \<Rightarrow> real \<Rightarrow> real \<Rightarrow> bool" where
  "accurate_at M \<epsilon> \<delta> lat1 lng1 lat2 lng2 \<longleftrightarrow> (let a = haversine_a M lat1 lng1 lat2 lng2 in
     0 \<le> a \<and> \<bar>a - exact_a lat1 lng1 lat2 lng2\<bar> \<le> \<epsilon> \<and> (1 < jm_sqrt M a \<longleftrightarrow> 1 < a) \<and>
     (a \<le> 1 \<longrightarrow> \<bar>jm_fl M (6371000 * 2 * jm_asin M (jm_sqrt M a)) - 6371000 * 2 * arcsin (sqrt a)\<bar> \<le> \<delta>))"

definition margin :: "real \<Rightarrow> real \<Rightarrow> real" where
  "margin \<epsilon> \<delta> = 6371000 * 4 * sqrt \<epsilon> + \<delta>"

lemma half_circle_near:
  assumes "0 \<le> a" "a \<le> 1" "0 \<le> b" "b \<le> 1" "\<bar>a - b\<bar> \<le> \<epsilon>"
  shows "\<bar>arccos (1 - 2 * a) - arccos (1 - 2 * b)\<bar> \<le> 4 * sqrt \<epsilon>"
proof -
  have "8 * \<bar>(1 - 2 * a) - (1 - 2 * b)\<bar> \<le> 16 * \<epsilon>" using assms(5) by (simp add: abs_if split: if_splits)
  then have "sqrt (8 * \<bar>(1 - 2 * a) - (1 - 2 * b)\<bar>) \<le> sqrt (16 * \<epsilon>)" by (rule real_sqrt_le_mono)
  also have "sqrt (16 * \<epsilon>) = 4 * sqrt \<epsilon>" by (simp add: real_sqrt_mult)
  finally have "sqrt (8 * \<bar>(1 - 2 * a) - (1 - 2 * b)\<bar>) \<le> 4 * sqrt \<epsilon>" .
  moreover have "\<bar>1 - 2 * a\<bar> \<le> 1" "\<bar>1 - 2 * b\<bar> \<le> 1" using assms by (simp_all add: abs_le_iff)
  ultimately show ?thesis using arccos_apart [of "1 - 2 * a" "1 - 2 * b"] by (rule_tac order_trans)
qed

lemma distance_near:
  assumes acc: "accurate_at M \<epsilon> \<delta> lat1 lng1 lat2 lng2"
  shows "case haversineDistanceMeters M lat1 lng1 lat2 lng2 of
      Some d \<Rightarrow> \<bar>d - great_circle lat1 lng1 lat2 lng2\<bar> \<le> margin \<epsilon> \<delta>
    | None \<Rightarrow> 6371000 * pi - 6371000 * 4 * sqrt \<epsilon> \<le> great_circle lat1 lng1 lat2 lng2"
proof -
  define a where "a = haversine_a M lat1 lng1 lat2 lng2"
  define e where "e = exact_a lat1 lng1 lat2 lng2"
  have e: "0 \<le> e" "e \<le> 1" using exact_a_range by (auto simp: e_def)
  have a: "0 \<le> a" "\<bar>a - e\<bar> \<le> \<epsilon>" "1 < jm_sqrt M a \<longleftrightarrow> 1 < a"
    "a \<le> 1 \<Longrightarrow> \<bar>jm_fl M (6371000 * 2 * jm_asin M (jm_sqrt M a)) - 6371000 * 2 * arcsin (sqrt a)\<bar> \<le> \<delta>"
    using acc by (auto simp: accurate_at_def Let_def a_def e_def)
  have gc: "great_circle lat1 lng1 lat2 lng2 = 6371000 * arccos (1 - 2 * e)"
    by (simp add: great_circle_exact e_def)
  show ?thesis
  proof (cases "a \<le> 1")
    case True
    have "6371000 * 2 * arcsin (sqrt a) = 6371000 * arccos (1 - 2 * a)" using arcsin_sqrt_arccos [OF a(1) True] by simp
    then have "\<bar>jm_fl M (6371000 * 2 * jm_asin M (jm_sqrt M a)) - 6371000 * arccos (1 - 2 * e)\<bar> \<le> margin \<epsilon> \<delta>"
      using a(4) [OF True] half_circle_near [OF a(1) True e a(2)] by (simp add: margin_def abs_le_iff)
    then show ?thesis using True a(1,3) gc by (simp add: haversineDistanceMeters_def Let_def flip: a_def)
  next
    case False
    then have "\<bar>1 - e\<bar> \<le> \<epsilon>" using a(2) e by simp
    then have "\<bar>arccos (1 - 2 * 1) - arccos (1 - 2 * e)\<bar> \<le> 4 * sqrt \<epsilon>" using e by (intro half_circle_near) auto
    then show ?thesis using False a(1,3) gc by (simp add: haversineDistanceMeters_def Let_def abs_le_iff flip: a_def)
  qed
qed


definition office_fence :: Geofence where
  "office_fence = \<lparr>gf_id = ''g'', gf_organizationId = ''o'', gf_name = ''HQ'', gf_lat = 0, gf_lng = 0,
     gf_radiusMeters = 100, gf_autoClockIn = False, gf_autoClockOut = False, gf_isActive = True,
     gf_createdAt = 0, gf_updatedAt = 0\<rparr>"

definition list_gps :: gps_orms where
  "list_gps = \<lparr>go_locations = typeorm_list gl_id, go_geofences = typeorm_list gf_id, go_math = exact_math\<rparr>"

lemma exact_accurate: "accurate_at exact_math 0 0 lat1 lng1 lat2 lng2"
  using exact_a_range [of lat1 lng1 lat2 lng2] by (simp add: accurate_at_def Let_def)


text \<open>
  Without rounding the distance is the great-circle distance. When rounding lifts the haversine of two points on
  opposite sides of the globe above 1, there is none, and the answer carries \<open>null\<close>.
\<close>

lemma haversine_great_circle: "haversineDistanceMeters exact_math lat1 lng1 lat2 lng2 = Some (great_circle lat1 lng1 lat2 lng2)"
  using exact_a_range [of lat1 lng1 lat2 lng2] arcsin_sqrt_arccos [of "exact_a lat1 lng1 lat2 lng2"]
  by (simp add: haversineDistanceMeters_def Let_def great_circle_exact)

lemma rounded_above_one:
  "1 < jm_sqrt M (haversine_a M lat1 lng1 lat2 lng2) \<Longrightarrow> haversineDistanceMeters M lat1 lng1 lat2 lng2 = None"
  by (simp add: haversineDistanceMeters_def Let_def)

section \<open>The last known place of everybody\<close>

lemma distinct_on_subset: "set (distinct_on f xs) \<subseteq> set xs"
  by (induction f xs rule: distinct_on.induct) auto

lemma distinct_on_sorted:
  fixes f :: "'e \<Rightarrow> 'k::linorder"
  shows "(\<And>a b. le a b \<Longrightarrow> f a \<le> f b) \<Longrightarrow> sorted_wrt le xs \<Longrightarrow>
    sorted_wrt (\<lambda>a b. f a < f b) (distinct_on f xs)"
proof (induction f xs rule: distinct_on.induct)
  case (3 f x y ys)
  note le = "3.prems"(1)
  show ?case
  proof (cases "f x = f y")
    case False
    have "f x < f z" if z: "z \<in> set (distinct_on f (y # ys))" for z
    proof -
      have "f x \<le> f y" by (rule le) (use "3.prems"(2) in simp)
      moreover have "f y \<le> f z"
        using z "3.prems" le [of y z] distinct_on_subset [of f "y # ys"] by auto
      ultimately show ?thesis using False by simp
    qed
    then show ?thesis using 3 False by simp
  qed (use 3 in simp)
qed simp_all

lemma distinct_on_covers:
  assumes refl: "\<And>a. le a a" and trans: "\<And>a b c. le a b \<Longrightarrow> le b c \<Longrightarrow> le a c"
  shows "sorted_wrt le xs \<Longrightarrow> z \<in> set xs \<Longrightarrow> \<exists>y \<in> set (distinct_on f xs). f y = f z \<and> le y z"
proof (induction f xs arbitrary: z rule: distinct_on.induct)
  case (3 f x y ys)
  show ?case
  proof (cases "f x = f y")
    case True
    define z' where "z' = (if z = y then x else z)"
    have z': "z' \<in> set (x # ys)" "f z' = f z" "le z' z"
      using "3.prems" True refl by (auto simp: z'_def)
    have s: "sorted_wrt le (x # ys)" using "3.prems"(1) by simp
    show ?thesis using "3.IH"(1) [OF True s z'(1)] z'(2,3) trans True by (auto 4 3)
  next
    case False
    then show ?thesis using 3 refl by auto
  qed
qed (use refl in auto)

lemma user_then_newest_preorder: "preorder_by user_then_newest"
  by (auto simp: preorder_by_def user_then_newest_def)

text \<open>
  The live map shows every user of the organisation who ever sent a position exactly once, at
  the newest position, and nobody else.
\<close>

theorem live_locations_newest:
  assumes R: "repository (go_locations R) gl_id"
  shows "let live = getLiveLocations R org st in
    distinct (map gl_userId live) \<and>
    set live \<subseteq> {l \<in> set (gs_locations st). gl_organizationId l = org} \<and>
    (\<forall>l \<in> set (gs_locations st). gl_organizationId l = org \<longrightarrow>
      (\<exists>n \<in> set live. gl_userId n = gl_userId l \<and> gl_recordedAt l \<le> gl_recordedAt n))"
proof -
  define rows where "rows = orm_find (go_locations R) (\<lambda>l. gl_organizationId l = org) user_then_newest None (gs_locations st)"
  have live: "getLiveLocations R org st = distinct_on gl_userId rows"
    by (simp add: getLiveLocations_def rows_def)
  have set: "set rows = {l \<in> set (gs_locations st). gl_organizationId l = org}"
    unfolding rows_def by (rule repository.find_set [OF R])
  have sorted: "sorted_wrt user_then_newest rows"
    unfolding rows_def by (rule repository.find_sorted [OF R user_then_newest_preorder])
  have "sorted_wrt (<) (map gl_userId (distinct_on gl_userId rows))"
    unfolding sorted_wrt_map by (rule distinct_on_sorted [OF _ sorted]) (auto simp: user_then_newest_def)
  then have d: "distinct (map gl_userId (distinct_on gl_userId rows))"
    by (simp add: strict_sorted_iff)
  have cover: "\<exists>n \<in> set (distinct_on gl_userId rows). gl_userId n = gl_userId l \<and> gl_recordedAt l \<le> gl_recordedAt n"
    if l: "l \<in> set rows" for l
    using distinct_on_covers [OF _ _ sorted l, of gl_userId] by (force simp: user_then_newest_def)
  show ?thesis unfolding Let_def live using d cover distinct_on_subset [of gl_userId rows] set by blast
qed

definition seen_at :: "string \<Rightarrow> string \<Rightarrow> string \<Rightarrow> js_time \<Rightarrow> GpsLocation" where
  "seen_at i u org t = \<lparr>gl_id = i, gl_userId = u, gl_organizationId = org, gl_lat = 0, gl_lng = 0,
     gl_accuracy = None, gl_batteryLevel = None, gl_recordedAt = t, gl_createdAt = t\<rparr>"

definition two_walkers :: GpsService where
  "two_walkers = \<lparr>gs_locations = [seen_at ''1'' ''u'' ''o'' 5, seen_at ''2'' ''v'' ''o'' 6,
     seen_at ''3'' ''u'' ''o'' 9, seen_at ''4'' ''w'' ''o2'' 7], gs_geofences = []\<rparr>"

theorem live_locations_newest_witness:
  "let live = getLiveLocations list_gps ''o'' two_walkers in
    distinct (map gl_userId live) \<and>
    set live \<subseteq> {l \<in> set (gs_locations two_walkers). gl_organizationId l = ''o''} \<and>
    (\<forall>l \<in> set (gs_locations two_walkers). gl_organizationId l = ''o'' \<longrightarrow>
      (\<exists>n \<in> set live. gl_userId n = gl_userId l \<and> gl_recordedAt l \<le> gl_recordedAt n))"
  by (rule live_locations_newest) (simp add: list_gps_def)

section \<open>Geofences of other organisations are out of reach\<close>

datatype geofence_op =
    Create_geofence js_time string CreateGeofenceDto
  | Update_geofence js_time string UpdateGeofenceDto
  | Delete_geofence string

fun geofence_apply :: "gps_orms \<Rightarrow> string \<Rightarrow> geofence_op \<Rightarrow> GpsService \<Rightarrow> GpsService" where
  "geofence_apply R org (Create_geofence now i dto) st = snd (createGeofence R now i org dto st)"
| "geofence_apply R org (Update_geofence now i dto) st = snd (updateGeofence R now org i dto st)"
| "geofence_apply R org (Delete_geofence i) st = snd (deleteGeofence R org i st)"

fun geofence_valid :: "geofence_op \<Rightarrow> GpsService \<Rightarrow> bool" where
  "geofence_valid (Create_geofence now i dto) st \<longleftrightarrow> i \<notin> gf_id ` set (gs_geofences st)"
| "geofence_valid _ st \<longleftrightarrow> True"

lemma geofence_in_orgD:
  "repository (go_geofences R) gf_id \<Longrightarrow> geofence_in_org R org i st = Inr g \<Longrightarrow>
   g \<in> set (gs_geofences st) \<and> gf_id g = i \<and> gf_organizationId g = org"
  by (auto simp: geofence_in_org_def dest!: repository.find_one_SomeD split: option.splits)

lemma patch_geofence_keeps [simp]:
  "gf_id (patch_geofence dto g) = gf_id g" "gf_organizationId (patch_geofence dto g) = gf_organizationId g"
  by (simp_all add: patch_geofence_def patch_keeps)

lemma geofence_owned_table:
  assumes R: "repository (go_geofences R) gf_id"
  shows "owned_table (go_geofences R) gf_id gf_organizationId gs_geofences geofence_valid (geofence_apply R)"
proof (rule owned_table.intro [OF R], unfold_locales)
  fix st p org
  assume k: "keyed gf_id (gs_geofences st)" and v: "geofence_valid p st"
  show "owned_change (go_geofences R) gf_id gf_organizationId org (gs_geofences st)
    (gs_geofences (geofence_apply R org p st))"
  proof (cases p)
    case (Create_geofence now i dto)
    then show ?thesis using v
      by (auto simp: createGeofence_def Let_def intro!: owned_save may_save_fresh)
  next
    case (Update_geofence now i dto)
    show ?thesis
    proof (cases "geofence_in_org R org i st")
      case (Inr g)
      note g = geofence_in_orgD [OF R Inr]
      then show ?thesis
        by (auto simp: Update_geofence updateGeofence_def Inr Let_def touched_def
            intro!: owned_save may_save_known [of g])
    qed (simp add: Update_geofence updateGeofence_def)
  next
    case (Delete_geofence i)
    show ?thesis
    proof (cases "geofence_in_org R org i st")
      case (Inr g)
      note g = geofence_in_orgD [OF R Inr]
      then show ?thesis using owned_delete_key [OF k, of g gf_organizationId org i]
        by (simp add: Delete_geofence deleteGeofence_def Inr)
    qed (simp add: Delete_geofence deleteGeofence_def)
  qed
qed

interpretation geofence_table: owned_table "typeorm_list gf_id" gf_id gf_organizationId gs_geofences
  geofence_valid "geofence_apply list_gps"
  using geofence_owned_table [of list_gps] by (simp add: list_gps_def)

lemma geofences_isolated:
  assumes "keyed gf_id (gs_geofences st)" and "ops_valid geofence_valid (geofence_apply list_gps) ops st"
    and "org \<notin> fst ` set ops"
  shows "rows_of_org gf_organizationId org (gs_geofences (org_runs (geofence_apply list_gps) ops st)) =
    rows_of_org gf_organizationId org (gs_geofences st)"
  using assms by (rule geofence_table.runs_isolated)

end
