(* ===== verification/Integrations.thy ===== *)
theory Integrations
  imports Tenancy EntitiesAgent JsJson JsDate
begin

text \<open>
  IntegrationsService (modules/integrations): the webhook endpoints of an organisation, the
  delivery of an event to all of them, and the Slack channel. \<open>fetch\<close> is third-party: it answers
  a request with a status, or None when the network fails or five seconds pass. The requests sent
  are kept in \<open>is_sent\<close>. \<open>hmac\<close> is HMAC-SHA256 in hexadecimal; the endpoints of one event are
  served in the order of the list, and \<open>ids\<close> are the ids the database generates.
\<close>

record CreateEndpointDto =
  ce_url :: string
  ce_secret :: "string option"
  ce_events :: "string list option"

record UpdateEndpointDto =
  xe_url :: "string option"
  xe_secret :: "string option option"
  xe_events :: "string list option"
  xe_isActive :: "bool option"

record SlackConfigView =
  sv_id :: string
  sv_maskedUrl :: string
  sv_isActive :: bool

record http_request =
  hr_url :: string
  hr_headers :: "(string \<times> string) list"
  hr_body :: string

record integrations_env =
  ie_endpoints :: "WebhookEndpoint orm"
  ie_deliveries :: "WebhookDelivery orm"
  ie_slack :: "SlackIntegration orm"
  ie_fetch :: "http_request \<Rightarrow> int option"
  ie_hmac :: "string \<Rightarrow> string \<Rightarrow> string"

record IntegrationsService =
  is_endpoints :: "WebhookEndpoint list"
  is_deliveries :: "WebhookDelivery list"
  is_slack :: "SlackIntegration list"
  is_sent :: "http_request list"

definition WEBHOOK_EVENTS :: "string list" where
  "WEBHOOK_EVENTS = [''clock.in'', ''clock.out'', ''timesheet.submitted'', ''timesheet.approved'',
     ''task.status_changed'']"

definition maskUrl :: "string \<Rightarrow> string" where
  "maskUrl url = (if length url \<le> 30 then ''****'' else take 30 url @ ''****'')"

definition sign_body :: "integrations_env \<Rightarrow> string \<Rightarrow> string \<Rightarrow> string" where
  "sign_body E body secret = ''sha256='' @ ie_hmac E secret body"

section \<open>Endpoints\<close>

definition endpoint_in_org ::
  "integrations_env \<Rightarrow> string \<Rightarrow> string \<Rightarrow> IntegrationsService \<Rightarrow> WebhookEndpoint outcome" where
  "endpoint_in_org E organizationId endpointId st = (case find_one (ie_endpoints E)
       (\<lambda>e. we_id e = endpointId \<and> we_organizationId e = organizationId) (is_endpoints st) of
     None \<Rightarrow> Inl (NotFound ''Webhook endpoint not found'')
   | Some endpoint \<Rightarrow> Inr endpoint)"

definition listEndpoints :: "integrations_env \<Rightarrow> string \<Rightarrow> IntegrationsService \<Rightarrow> WebhookEndpoint list" where
  "listEndpoints E organizationId st = orm_find (ie_endpoints E)
     (\<lambda>e. we_organizationId e = organizationId) (desc we_createdAt) None (is_endpoints st)"

definition createEndpoint ::
  "integrations_env \<Rightarrow> js_time \<Rightarrow> string \<Rightarrow> string \<Rightarrow> CreateEndpointDto \<Rightarrow> IntegrationsService \<Rightarrow>
   WebhookEndpoint \<times> IntegrationsService" where
  "createEndpoint E now newId organizationId dto st =
     (let endpoint = \<lparr>we_id = newId, we_organizationId = organizationId, we_url = ce_url dto,
        we_secret = ce_secret dto, we_events = nullish (ce_events dto) [], we_isActive = True,
        we_createdAt = now, we_updatedAt = now\<rparr>
      in (endpoint, st\<lparr>is_endpoints := orm_save (ie_endpoints E) endpoint (is_endpoints st)\<rparr>))"

definition patch_endpoint :: "UpdateEndpointDto \<Rightarrow> WebhookEndpoint \<Rightarrow> WebhookEndpoint" where
  "patch_endpoint dto endpoint =
     patch (xe_isActive dto) (\<lambda>v e. e\<lparr>we_isActive := v\<rparr>)
     (patch (xe_events dto) (\<lambda>v e. e\<lparr>we_events := v\<rparr>)
     (patch (xe_secret dto) (\<lambda>v e. e\<lparr>we_secret := v\<rparr>)
     (patch (xe_url dto) (\<lambda>v e. e\<lparr>we_url := v\<rparr>) endpoint)))"

definition updateEndpoint ::
  "integrations_env \<Rightarrow> js_time \<Rightarrow> string \<Rightarrow> string \<Rightarrow> UpdateEndpointDto \<Rightarrow> IntegrationsService \<Rightarrow>
   WebhookEndpoint outcome \<times> IntegrationsService" where
  "updateEndpoint E now organizationId endpointId dto st =
     (case endpoint_in_org E organizationId endpointId st of
        Inl e \<Rightarrow> (Inl e, st)
      | Inr endpoint \<Rightarrow>
          let saved = touched (\<lambda>e. e\<lparr>we_updatedAt := now\<rparr>) endpoint (patch_endpoint dto endpoint)
          in (Inr saved, st\<lparr>is_endpoints := orm_save (ie_endpoints E) saved (is_endpoints st)\<rparr>))"

definition deleteEndpoint ::
  "integrations_env \<Rightarrow> string \<Rightarrow> string \<Rightarrow> IntegrationsService \<Rightarrow> unit outcome \<times> IntegrationsService" where
  "deleteEndpoint E organizationId endpointId st =
     (case endpoint_in_org E organizationId endpointId st of
        Inl e \<Rightarrow> (Inl e, st)
      | Inr _ \<Rightarrow> (Inr (), st\<lparr>is_endpoints := orm_delete (ie_endpoints E)
          (\<lambda>e. we_id e = endpointId \<and> we_organizationId e = organizationId) (is_endpoints st)\<rparr>))"

definition getDeliveries ::
  "integrations_env \<Rightarrow> string \<Rightarrow> string \<Rightarrow> IntegrationsService \<Rightarrow> WebhookDelivery list outcome" where
  "getDeliveries E organizationId endpointId st =
     (case endpoint_in_org E organizationId endpointId st of
        Inl e \<Rightarrow> Inl e
      | Inr _ \<Rightarrow> Inr (orm_find (ie_deliveries E) (\<lambda>d. wd_endpointId d = Some endpointId)
          (desc wd_createdAt) (Some 200) (is_deliveries st)))"

section \<open>Delivery\<close>

definition resp_ok :: "int option \<Rightarrow> bool" where
  "resp_ok resp = (case resp of None \<Rightarrow> False | Some status \<Rightarrow> 200 \<le> status \<and> status \<le> 299)"

definition webhook_body :: "js_time \<Rightarrow> string \<Rightarrow> json \<Rightarrow> string" where
  "webhook_body now eventType payload = stringify (JObj [(''event'', JStr eventType),
     (''payload'', payload), (''timestamp'', JStr (toISOString now))])"

definition webhook_request ::
  "integrations_env \<Rightarrow> js_time \<Rightarrow> string \<Rightarrow> json \<Rightarrow> WebhookEndpoint \<Rightarrow> http_request" where
  "webhook_request E now eventType payload endpoint =
     (let body = webhook_body now eventType payload in
      \<lparr>hr_url = we_url endpoint,
       hr_headers = [(''Content-Type'', ''application/json''), (''User-Agent'', ''TimeChamp-Webhook/1.0'')]
         @ (if falsy_str (we_secret endpoint) then []
            else [(''X-Webhook-Signature'', sign_body E body (the (we_secret endpoint)))]),
       hr_body = body\<rparr>)"

definition delivery_row ::
  "js_time \<Rightarrow> string \<Rightarrow> string option \<Rightarrow> string \<Rightarrow> json \<Rightarrow> int option \<Rightarrow> WebhookDelivery" where
  "delivery_row now newId endpointId eventType payload resp =
     \<lparr>wd_id = newId, wd_endpointId = endpointId, wd_eventType = eventType, wd_payload = payload,
      wd_statusCode = resp, wd_attemptCount = 1, wd_succeeded = resp_ok resp,
      wd_deliveredAt = (if resp_ok resp then Some now else None), wd_createdAt = now\<rparr>"

definition postToEndpoint ::
  "integrations_env \<Rightarrow> js_time \<Rightarrow> string \<Rightarrow> string \<Rightarrow> json \<Rightarrow> WebhookEndpoint \<Rightarrow>
   IntegrationsService \<Rightarrow> IntegrationsService" where
  "postToEndpoint E now newId eventType payload endpoint st =
     (let request = webhook_request E now eventType payload endpoint;
          delivery = delivery_row now newId (Some (we_id endpoint)) eventType payload (ie_fetch E request)
      in st\<lparr>is_sent := is_sent st @ [request],
        is_deliveries := orm_save (ie_deliveries E) delivery (is_deliveries st)\<rparr>)"

definition subscribed :: "string \<Rightarrow> WebhookEndpoint \<Rightarrow> bool" where
  "subscribed eventType ep \<longleftrightarrow> length (we_events ep) = 0 \<or> eventType \<in> set (we_events ep)"

definition deliverWebhook ::
  "integrations_env \<Rightarrow> js_time \<Rightarrow> (nat \<Rightarrow> string) \<Rightarrow> string \<Rightarrow> string \<Rightarrow> json \<Rightarrow>
   IntegrationsService \<Rightarrow> IntegrationsService" where
  "deliverWebhook E now ids organizationId eventType payload st =
     (let endpoints = orm_find (ie_endpoints E) (\<lambda>e. we_organizationId e = organizationId \<and> we_isActive e)
            any_order None (is_endpoints st)
      in fold (\<lambda>(n, ep). postToEndpoint E now (ids n) eventType payload ep)
           (enumerate 0 (filter (subscribed eventType) endpoints)) st)"

definition testEndpoint ::
  "integrations_env \<Rightarrow> js_time \<Rightarrow> string \<Rightarrow> string \<Rightarrow> string \<Rightarrow> IntegrationsService \<Rightarrow>
   unit outcome \<times> IntegrationsService" where
  "testEndpoint E now newId organizationId endpointId st =
     (case endpoint_in_org E organizationId endpointId st of
        Inl e \<Rightarrow> (Inl e, st)
      | Inr endpoint \<Rightarrow> (Inr (), postToEndpoint E now newId ''test.ping''
          (JObj [(''message'', JStr ''This is a test webhook from Time Champ''),
            (''timestamp'', JStr (toISOString now))]) endpoint st))"

section \<open>Slack\<close>

definition slack_of ::
  "integrations_env \<Rightarrow> string \<Rightarrow> IntegrationsService \<Rightarrow> SlackIntegration option" where
  "slack_of E organizationId st =
     find_one (ie_slack E) (\<lambda>s. sl_organizationId s = organizationId) (is_slack st)"

definition slack_view :: "SlackIntegration \<Rightarrow> SlackConfigView" where
  "slack_view s = \<lparr>sv_id = sl_id s, sv_maskedUrl = maskUrl (sl_webhookUrl s), sv_isActive = sl_isActive s\<rparr>"

definition getSlackConfig :: "integrations_env \<Rightarrow> string \<Rightarrow> IntegrationsService \<Rightarrow> SlackConfigView option" where
  "getSlackConfig E organizationId st = map_option slack_view (slack_of E organizationId st)"

definition saveSlackConfig ::
  "integrations_env \<Rightarrow> js_time \<Rightarrow> string \<Rightarrow> string \<Rightarrow> string \<Rightarrow> IntegrationsService \<Rightarrow>
   SlackConfigView \<times> IntegrationsService" where
  "saveSlackConfig E now newId organizationId webhookUrl st =
     (let saved = (case slack_of E organizationId st of
            Some config \<Rightarrow> touched (\<lambda>s. s\<lparr>sl_updatedAt := now\<rparr>) config
              (config\<lparr>sl_webhookUrl := webhookUrl, sl_isActive := True\<rparr>)
          | None \<Rightarrow> \<lparr>sl_id = newId, sl_organizationId = organizationId, sl_webhookUrl = webhookUrl,
              sl_isActive = True, sl_createdAt = now, sl_updatedAt = now\<rparr>)
      in (slack_view saved, st\<lparr>is_slack := orm_save (ie_slack E) saved (is_slack st)\<rparr>))"

definition deleteSlackConfig ::
  "integrations_env \<Rightarrow> string \<Rightarrow> IntegrationsService \<Rightarrow> unit outcome \<times> IntegrationsService" where
  "deleteSlackConfig E organizationId st =
     (case slack_of E organizationId st of
        None \<Rightarrow> (Inl (NotFound ''Slack integration not configured''), st)
      | Some _ \<Rightarrow> (Inr (), st\<lparr>is_slack :=
          orm_delete (ie_slack E) (\<lambda>s. sl_organizationId s = organizationId) (is_slack st)\<rparr>))"

definition sendSlackNotification ::
  "integrations_env \<Rightarrow> js_time \<Rightarrow> string \<Rightarrow> string \<Rightarrow> string \<Rightarrow> IntegrationsService \<Rightarrow> IntegrationsService" where
  "sendSlackNotification E now newId organizationId message st =
     (case find_one (ie_slack E) (\<lambda>s. sl_organizationId s = organizationId \<and> sl_isActive s) (is_slack st) of
        None \<Rightarrow> st
      | Some config \<Rightarrow>
          let request = \<lparr>hr_url = sl_webhookUrl config,
                hr_headers = [(''Content-Type'', ''application/json'')],
                hr_body = stringify (JObj [(''text'', JStr message)])\<rparr>;
              delivery = delivery_row now newId None ''slack.notification''
                (JObj [(''message'', JStr message)]) (ie_fetch E request)
          in st\<lparr>is_sent := is_sent st @ [request],
            is_deliveries := orm_save (ie_deliveries E) delivery (is_deliveries st)\<rparr>)"

definition testSlack ::
  "integrations_env \<Rightarrow> js_time \<Rightarrow> string \<Rightarrow> string \<Rightarrow> IntegrationsService \<Rightarrow>
   unit outcome \<times> IntegrationsService" where
  "testSlack E now newId organizationId st =
     (case slack_of E organizationId st of
        None \<Rightarrow> (Inl (NotFound ''Slack integration not configured''), st)
      | Some _ \<Rightarrow> (Inr (), sendSlackNotification E now newId organizationId
          '':wave: This is a test notification from Time Champ!'' st))"

section \<open>One request and one delivery row for each subscriber\<close>

definition delivery_facts :: "WebhookDelivery \<Rightarrow> string option \<times> string \<times> json \<times> int option \<times> bool" where
  "delivery_facts d = (wd_endpointId d, wd_eventType d, wd_payload d, wd_statusCode d, wd_succeeded d)"

definition answer_facts ::
  "integrations_env \<Rightarrow> js_time \<Rightarrow> string \<Rightarrow> json \<Rightarrow> WebhookEndpoint \<Rightarrow>
   string option \<times> string \<times> json \<times> int option \<times> bool" where
  "answer_facts E now eventType payload ep =
     (let resp = ie_fetch E (webhook_request E now eventType payload ep)
      in (Some (we_id ep), eventType, payload, resp, resp_ok resp))"

lemma post_all:
  assumes R: "repository (ie_deliveries E) wd_id" and inj: "inj ids"
    and fresh: "\<forall>n \<ge> k. ids n \<notin> wd_id ` set (is_deliveries st)"
  shows "let st' = fold (\<lambda>(n, ep). postToEndpoint E now (ids n) ev p ep) (enumerate k eps) st in
    is_sent st' = is_sent st @ map (webhook_request E now ev p) eps \<and>
    image_mset delivery_facts (mset (is_deliveries st')) =
      image_mset delivery_facts (mset (is_deliveries st)) + image_mset (answer_facts E now ev p) (mset eps)"
  using fresh
proof (induction eps arbitrary: k st)
  case (Cons ep eps)
  let ?st = "postToEndpoint E now (ids k) ev p ep st"
  define d where "d = delivery_row now (ids k) (Some (we_id ep)) ev p (ie_fetch E (webhook_request E now ev p ep))"
  have d: "wd_id d = ids k" "delivery_facts d = answer_facts E now ev p ep"
    by (simp_all add: d_def delivery_row_def delivery_facts_def answer_facts_def Let_def)
  have rows: "is_deliveries ?st = orm_save (ie_deliveries E) d (is_deliveries st)"
    and sent: "is_sent ?st = is_sent st @ [webhook_request E now ev p ep]"
    by (simp_all add: postToEndpoint_def d_def Let_def)
  have m: "mset (is_deliveries ?st) = mset (is_deliveries st) + {#d#}"
    unfolding rows by (rule repository.save_fresh [OF R]) (use Cons.prems d in simp)
  have "set (is_deliveries ?st) = insert d (set (is_deliveries st))"
    using m by (metis set_mset_mset set_mset_add_mset_insert add_mset_add_single)
  then have "\<forall>n \<ge> Suc k. ids n \<notin> wd_id ` set (is_deliveries ?st)"
    using Cons.prems d(1) injD [OF inj] by (auto dest: Suc_leD) (metis Suc_n_not_le_n)
  from Cons.IH [OF this] show ?case by (simp add: Let_def m sent d(2))
qed simp

text \<open>
  C26. An event of an organisation is posted to each of its active endpoints that subscribe to it,
  exactly once, and to nobody else; each request is answered or not, and the log gets one row for
  each that holds the answer, and counts it as a success only for a status from 200 to 299.
\<close>

theorem webhook_fanout:
  assumes RE: "repository (ie_endpoints E) we_id" and RD: "repository (ie_deliveries E) wd_id"
    and "inj ids" and "\<forall>n. ids n \<notin> wd_id ` set (is_deliveries st)"
  shows "let st' = deliverWebhook E now ids org ev p st;
      targets = {#ep \<in># mset (is_endpoints st). we_organizationId ep = org \<and> we_isActive ep \<and>
        (we_events ep = [] \<or> ev \<in> set (we_events ep))#} in
    mset (is_sent st') = mset (is_sent st) + image_mset (webhook_request E now ev p) targets \<and>
    image_mset delivery_facts (mset (is_deliveries st')) =
      image_mset delivery_facts (mset (is_deliveries st)) + image_mset (answer_facts E now ev p) targets"
proof -
  define eps where "eps = filter (subscribed ev) (orm_find (ie_endpoints E)
    (\<lambda>e. we_organizationId e = org \<and> we_isActive e) any_order None (is_endpoints st))"
  have targets: "mset eps = {#ep \<in># mset (is_endpoints st). we_organizationId ep = org \<and> we_isActive ep \<and>
        (we_events ep = [] \<or> ev \<in> set (we_events ep))#}"
    unfolding eps_def mset_filter repository.find_mset [OF RE] filter_filter_mset
    by (rule filter_mset_cong) (auto simp: subscribed_def)
  have "deliverWebhook E now ids org ev p st =
      fold (\<lambda>(n, ep). postToEndpoint E now (ids n) ev p ep) (enumerate 0 eps) st"
    by (simp add: deliverWebhook_def eps_def Let_def)
  moreover note post_all [OF RD assms(3), of 0 st now ev p eps]
  ultimately show ?thesis using assms(4) unfolding Let_def targets [symmetric] by simp
qed

definition list_integrations :: "(http_request \<Rightarrow> int option) \<Rightarrow> integrations_env" where
  "list_integrations fetch = \<lparr>ie_endpoints = typeorm_list we_id, ie_deliveries = typeorm_list wd_id,
     ie_slack = typeorm_list sl_id, ie_fetch = fetch, ie_hmac = (\<lambda>s b. s @ b)\<rparr>"

definition two_hooks :: IntegrationsService where
  "two_hooks = \<lparr>is_endpoints = [
      \<lparr>we_id = ''1'', we_organizationId = ''o'', we_url = ''https://a'', we_secret = Some ''k'',
       we_events = [], we_isActive = True, we_createdAt = 0, we_updatedAt = 0\<rparr>,
      \<lparr>we_id = ''2'', we_organizationId = ''o'', we_url = ''https://b'', we_secret = None,
       we_events = [''clock.in''], we_isActive = True, we_createdAt = 0, we_updatedAt = 0\<rparr>],
     is_deliveries = [], is_slack = [], is_sent = []\<rparr>"

theorem webhook_fanout_witness:
  "let E = list_integrations (\<lambda>r. if hr_url r = ''https://a'' then Some 200 else None);
      st' = deliverWebhook E 0 (\<lambda>n. replicate n CHR ''i'') ''o'' ''clock.in'' (JObj []) two_hooks;
      targets = {#ep \<in># mset (is_endpoints two_hooks). we_organizationId ep = ''o'' \<and> we_isActive ep \<and>
        (we_events ep = [] \<or> ''clock.in'' \<in> set (we_events ep))#} in
    mset (is_sent st') = mset (is_sent two_hooks) + image_mset (webhook_request E 0 ''clock.in'' (JObj [])) targets \<and>
    image_mset delivery_facts (mset (is_deliveries st')) =
      image_mset delivery_facts (mset (is_deliveries two_hooks))
      + image_mset (answer_facts E 0 ''clock.in'' (JObj [])) targets"
proof -
  have inj: "inj (\<lambda>n. replicate n CHR ''i'')" by (rule injI) (simp add: replicate_eq_replicate)
  show ?thesis
    unfolding Let_def [of "list_integrations (\<lambda>r. if hr_url r = ''https://a'' then Some 200 else None)"]
    by (rule webhook_fanout [OF _ _ inj]) (simp_all add: list_integrations_def two_hooks_def)
qed

section \<open>Endpoints of other organisations are out of reach\<close>

datatype endpoint_op =
    Create_endpoint js_time string CreateEndpointDto
  | Update_endpoint js_time string UpdateEndpointDto
  | Delete_endpoint string

fun endpoint_apply :: "integrations_env \<Rightarrow> string \<Rightarrow> endpoint_op \<Rightarrow> IntegrationsService \<Rightarrow> IntegrationsService" where
  "endpoint_apply E org (Create_endpoint now i dto) st = snd (createEndpoint E now i org dto st)"
| "endpoint_apply E org (Update_endpoint now i dto) st = snd (updateEndpoint E now org i dto st)"
| "endpoint_apply E org (Delete_endpoint i) st = snd (deleteEndpoint E org i st)"

fun endpoint_valid :: "endpoint_op \<Rightarrow> IntegrationsService \<Rightarrow> bool" where
  "endpoint_valid (Create_endpoint now i dto) st \<longleftrightarrow> i \<notin> we_id ` set (is_endpoints st)"
| "endpoint_valid _ st \<longleftrightarrow> True"

lemma endpoint_owned_table:
  assumes R: "repository (ie_endpoints E) we_id"
  shows "owned_table (ie_endpoints E) we_id we_organizationId is_endpoints endpoint_valid (endpoint_apply E)"
proof (rule owned_table.intro [OF R], unfold_locales)
  fix st p org
  assume v: "endpoint_valid p st"
  show "owned_change (ie_endpoints E) we_id we_organizationId org (is_endpoints st)
    (is_endpoints (endpoint_apply E org p st))"
  proof (cases p)
    case (Create_endpoint now i dto)
    then show ?thesis using v
      by (auto simp: createEndpoint_def Let_def intro!: owned_save may_save_fresh)
  next
    case (Update_endpoint now i dto)
    show ?thesis
    proof (cases "endpoint_in_org E org i st")
      case (Inr g)
      have "g \<in> set (is_endpoints st) \<and> we_id g = i \<and> we_organizationId g = org"
        using Inr by (auto simp: endpoint_in_org_def dest!: repository.find_one_SomeD [OF R] split: option.splits)
      then show ?thesis
        by (auto simp: Update_endpoint updateEndpoint_def Inr Let_def touched_def patch_endpoint_def patch_keeps
            intro!: owned_save may_save_known [of g])
    qed (simp add: Update_endpoint updateEndpoint_def)
  next
    case (Delete_endpoint i)
    have "owned_change (ie_endpoints E) we_id we_organizationId org (is_endpoints st)
        (orm_delete (ie_endpoints E) (\<lambda>e. we_id e = i \<and> we_organizationId e = org) (is_endpoints st))"
      by (rule owned_delete) simp
    then show ?thesis unfolding Delete_endpoint endpoint_apply.simps deleteEndpoint_def
      by (cases "endpoint_in_org E org i st") simp_all
  qed
qed

interpretation endpoint_table: owned_table "typeorm_list we_id" we_id we_organizationId is_endpoints
  endpoint_valid "endpoint_apply (list_integrations fetch)" for fetch
  using endpoint_owned_table [of "list_integrations fetch"] by (simp add: list_integrations_def)

end
