(* ===== verification/Alerts.thy ===== *)
theory Alerts
  imports Users EntitiesAgent MonitorGateway
begin

text \<open>
  AlertsService and AlertsController (modules/alerts): the alert rules of an organisation, the
  events they raise, and the scheduled checks. E-mails are kept in \<open>ay_mail\<close>; a failing mailer is
  caught and logged, so its answer does not matter. The page size of a listing is positive.
\<close>

record CreateAlertRuleDto =
  ca_name :: string
  ca_type :: AlertType
  ca_threshold :: "int option"
  ca_enabled :: "bool option"
  ca_notifyEmail :: "bool option"
  ca_notifyInApp :: "bool option"

record UpdateAlertRuleDto =
  xa_name :: "string option"
  xa_type :: "AlertType option"
  xa_threshold :: "int option"
  xa_enabled :: "bool option"
  xa_notifyEmail :: "bool option"
  xa_notifyInApp :: "bool option"

record AlertsService =
  ay_rules :: "AlertRule list"
  ay_events :: "AlertEvent list"
  ay_gateway :: MonitoringGateway
  ay_mail :: "(string \<times> string \<times> string \<times> string) list"

record alerts_orms =
  az_rules :: "AlertRule orm"
  az_events :: "AlertEvent orm"

section \<open>Rules\<close>

definition getRules :: "alerts_orms \<Rightarrow> string \<Rightarrow> AlertsService \<Rightarrow> AlertRule list" where
  "getRules R organizationId st = orm_find (az_rules R)
     (\<lambda>r. ar_organizationId r = organizationId) (desc ar_createdAt) None (ay_rules st)"

definition createRule ::
  "alerts_orms \<Rightarrow> js_time \<Rightarrow> string \<Rightarrow> string \<Rightarrow> CreateAlertRuleDto \<Rightarrow> AlertsService \<Rightarrow>
   AlertRule \<times> AlertsService" where
  "createRule R now newId organizationId dto st =
     (let rule = \<lparr>ar_id = newId, ar_organizationId = organizationId, ar_name = ca_name dto,
        ar_metric = None, ar_type = ca_type dto, ar_threshold = nullish (ca_threshold dto) 30,
        ar_enabled = nullish (ca_enabled dto) True, ar_notifyEmail = nullish (ca_notifyEmail dto) True,
        ar_notifyInApp = nullish (ca_notifyInApp dto) True, ar_createdAt = now, ar_updatedAt = now\<rparr>
      in (rule, st\<lparr>ay_rules := orm_save (az_rules R) rule (ay_rules st)\<rparr>))"

definition rule_in_org :: "alerts_orms \<Rightarrow> string \<Rightarrow> string \<Rightarrow> AlertsService \<Rightarrow> AlertRule outcome" where
  "rule_in_org R ruleId organizationId st = (case find_one (az_rules R)
       (\<lambda>r. ar_id r = ruleId \<and> ar_organizationId r = organizationId) (ay_rules st) of
     None \<Rightarrow> Inl (NotFound ''Alert rule not found'')
   | Some rule \<Rightarrow> Inr rule)"

definition patch_rule :: "UpdateAlertRuleDto \<Rightarrow> AlertRule \<Rightarrow> AlertRule" where
  "patch_rule dto rule =
     patch (xa_notifyInApp dto) (\<lambda>v r. r\<lparr>ar_notifyInApp := v\<rparr>)
     (patch (xa_notifyEmail dto) (\<lambda>v r. r\<lparr>ar_notifyEmail := v\<rparr>)
     (patch (xa_enabled dto) (\<lambda>v r. r\<lparr>ar_enabled := v\<rparr>)
     (patch (xa_threshold dto) (\<lambda>v r. r\<lparr>ar_threshold := v\<rparr>)
     (patch (xa_type dto) (\<lambda>v r. r\<lparr>ar_type := v\<rparr>)
     (patch (xa_name dto) (\<lambda>v r. r\<lparr>ar_name := v\<rparr>) rule)))))"

definition updateRule ::
  "alerts_orms \<Rightarrow> js_time \<Rightarrow> string \<Rightarrow> string \<Rightarrow> UpdateAlertRuleDto \<Rightarrow> AlertsService \<Rightarrow>
   AlertRule outcome \<times> AlertsService" where
  "updateRule R now ruleId organizationId dto st =
     (case rule_in_org R ruleId organizationId st of
        Inl e \<Rightarrow> (Inl e, st)
      | Inr rule \<Rightarrow>
          let saved = touched (\<lambda>r. r\<lparr>ar_updatedAt := now\<rparr>) rule (patch_rule dto rule)
          in (Inr saved, st\<lparr>ay_rules := orm_save (az_rules R) saved (ay_rules st)\<rparr>))"

definition deleteRule ::
  "alerts_orms \<Rightarrow> string \<Rightarrow> string \<Rightarrow> AlertsService \<Rightarrow> unit outcome \<times> AlertsService" where
  "deleteRule R ruleId organizationId st =
     (case rule_in_org R ruleId organizationId st of
        Inl e \<Rightarrow> (Inl e, st)
      | Inr _ \<Rightarrow> (Inr (), st\<lparr>ay_rules := orm_delete (az_rules R)
          (\<lambda>r. ar_id r = ruleId \<and> ar_organizationId r = organizationId) (ay_rules st)\<rparr>))"

section \<open>Events\<close>

definition getEvents ::
  "alerts_orms \<Rightarrow> string \<Rightarrow> string option \<Rightarrow> nat \<Rightarrow> AlertsService \<Rightarrow> (AlertEvent \<times> AlertRule option) list" where
  "getEvents R organizationId userId limit st =
     map (\<lambda>e. (e, case al_ruleId e of None \<Rightarrow> None
        | Some i \<Rightarrow> find_one (az_rules R) (\<lambda>r. ar_id r = i) (ay_rules st)))
       (orm_find (az_events R) (\<lambda>e. al_organizationId e = organizationId
          \<and> (falsy_str userId \<or> Some (al_userId e) = userId)) (desc al_triggeredAt) (Some limit) (ay_events st))"

definition markSeen ::
  "alerts_orms \<Rightarrow> js_time \<Rightarrow> string \<Rightarrow> string \<Rightarrow> AlertsService \<Rightarrow> AlertEvent outcome \<times> AlertsService" where
  "markSeen R now eventId organizationId st =
     (case find_one (az_events R) (\<lambda>e. al_id e = eventId \<and> al_organizationId e = organizationId) (ay_events st) of
        None \<Rightarrow> (Inl (NotFound ''Alert event not found''), st)
      | Some event \<Rightarrow> if al_seenAt event = None
          then let saved = event\<lparr>al_seenAt := Some now\<rparr>
            in (Inr saved, st\<lparr>ay_events := orm_save (az_events R) saved (ay_events st)\<rparr>)
          else (Inr event, st))"

definition getUnreadCount :: "alerts_orms \<Rightarrow> string \<Rightarrow> string \<Rightarrow> AlertsService \<Rightarrow> nat" where
  "getUnreadCount R organizationId userId st = count_where (az_events R)
     (\<lambda>e. al_organizationId e = organizationId \<and> al_userId e = userId \<and> al_seenAt e = None) (ay_events st)"

definition fireAlert ::
  "alerts_orms \<Rightarrow> js_time \<Rightarrow> string \<Rightarrow> AlertRule \<Rightarrow> string \<Rightarrow> string \<Rightarrow> string \<Rightarrow> string \<Rightarrow> AlertsService \<Rightarrow>
   AlertEvent \<times> AlertsService" where
  "fireAlert R now newId rule userId message employeeEmail employeeName st =
     (let saved = \<lparr>al_id = newId, al_organizationId = ar_organizationId rule, al_userId = userId,
            al_ruleId = Some (ar_id rule), al_type = Some (ar_type rule), al_message = Some message,
            al_seenAt = None, al_triggeredAt = now, al_createdAt = now\<rparr>;
          st1 = st\<lparr>ay_events := orm_save (az_events R) saved (ay_events st)\<rparr>;
          st2 = (if ar_notifyEmail rule
            then st1\<lparr>ay_mail := ay_mail st1 @ [(employeeEmail, ar_name rule, message, employeeName)]\<rparr> else st1);
          st3 = (if ar_notifyInApp rule
            then st2\<lparr>ay_gateway := emitAlertNew (ar_organizationId rule)
              \<lparr>el_eventId = newId, el_ruleId = ar_id rule, el_ruleName = ar_name rule,
               el_type = alert_type_str (ar_type rule), el_userId = userId, el_message = message,
               el_triggeredAt = now\<rparr> (ay_gateway st2)\<rparr> else st2)
      in (saved, st3))"

section \<open>Scheduled checks\<close>

text \<open>
  The checks read the enabled rules of their type and write a debug line with their number, the
  result here; None is the early return. \<open>ok\<close> says whether the query succeeds; a failure is logged.
\<close>

definition check_rules :: "alerts_orms \<Rightarrow> bool \<Rightarrow> AlertType \<Rightarrow> AlertsService \<Rightarrow> nat option \<times> AlertsService" where
  "check_rules R ok type st =
     (if \<not> ok then (None, st)
      else let rules = orm_find (az_rules R) (\<lambda>r. ar_type r = type \<and> ar_enabled r) any_order None (ay_rules st)
        in if length rules = 0 then (None, st) else (Some (length rules), st))"

definition checkIdleAlerts :: "alerts_orms \<Rightarrow> bool \<Rightarrow> AlertsService \<Rightarrow> nat option \<times> AlertsService" where
  "checkIdleAlerts R ok st = check_rules R ok IDLE_TOO_LONG st"

definition checkOvertimeAlerts :: "alerts_orms \<Rightarrow> bool \<Rightarrow> AlertsService \<Rightarrow> nat option \<times> AlertsService" where
  "checkOvertimeAlerts R ok st = check_rules R ok OVERTIME st"

definition checkLateClockIn :: "alerts_orms \<Rightarrow> bool \<Rightarrow> AlertsService \<Rightarrow> nat option \<times> AlertsService" where
  "checkLateClockIn R ok st = check_rules R ok LATE_CLOCK_IN st"

section \<open>Routes\<close>

definition listEvents ::
  "alerts_orms \<Rightarrow> User \<Rightarrow> string option \<Rightarrow> nat \<Rightarrow> AlertsService \<Rightarrow> (AlertEvent \<times> AlertRule option) list" where
  "listEvents R user userId limit st =
     (let isManager = (u_role user = ADMIN \<or> u_role user = MANAGER)
      in getEvents R (u_organizationId user) (if isManager then userId else Some (u_id user)) limit st)"

definition route_markSeen ::
  "alerts_orms \<Rightarrow> js_time \<Rightarrow> User \<Rightarrow> string \<Rightarrow> AlertsService \<Rightarrow> AlertEvent outcome \<times> AlertsService" where
  "route_markSeen R now user eventId st =
     (case markSeen R now eventId (u_organizationId user) st of
        (Inl e, st') \<Rightarrow> (Inl e, st')
      | (Inr event, st') \<Rightarrow> if u_role user = EMPLOYEE \<and> al_userId event \<noteq> u_id user
          then (Inl (Forbidden ''Cannot mark another user's alert as seen''), st') else (Inr event, st'))"

section \<open>A refused request that takes effect\<close>

text \<open>
  C27. The check that an employee marks only own alerts comes after the write: a request for the
  unseen alert of a colleague is answered with 403, and yet the alert is marked as seen and the
  colleague's count of unread alerts goes down by one.
\<close>

theorem refused_mark_takes_effect:
  assumes R: "repository (az_events R) al_id" and K: "keyed al_id (ay_events st)"
    and e: "e \<in> set (ay_events st)" "al_organizationId e = u_organizationId user" "al_seenAt e = None"
    and u: "u_role user = EMPLOYEE" "al_userId e \<noteq> u_id user"
  shows "case route_markSeen R now user (al_id e) st of (res, st') \<Rightarrow>
    res = Inl (Forbidden ''Cannot mark another user's alert as seen'') \<and>
    e\<lparr>al_seenAt := Some now\<rparr> \<in> set (ay_events st') \<and>
    getUnreadCount R (u_organizationId user) (al_userId e) st =
      Suc (getUnreadCount R (u_organizationId user) (al_userId e) st')"
proof -
  let ?s = "e\<lparr>al_seenAt := Some now\<rparr>"
  let ?t = "orm_save (az_events R) ?s (ay_events st)"
  let ?P = "\<lambda>r. al_organizationId r = u_organizationId user \<and> al_userId r = al_userId e \<and> al_seenAt r = None"
  have only: "r = e" if "r \<in> set (ay_events st)" "al_id r = al_id e" for r
    using keyed_same [OF K that(1) e(1) that(2)] .
  have find: "find_one (az_events R) (\<lambda>r. al_id r = al_id e \<and> al_organizationId r = u_organizationId user)
      (ay_events st) = Some e"
    by (rule repository.find_one_unique [OF R e(1)]) (use e only in auto)
  define rest where "rest = filter_mset (\<lambda>r. al_id r \<noteq> al_id e) (mset (ay_events st))"
  have rest: "mset (ay_events st) = add_mset e rest"
    unfolding rest_def by (rule keyed_remove [OF K e(1)])
  have t: "mset ?t = add_mset ?s rest" by (simp add: repository.save_rows [OF R] rest_def)
  have "count_where (az_events R) ?P (ay_events st) = Suc (size (filter_mset ?P rest))"
    using e by (simp add: count_where_def repository.find_count [OF R] rest)
  moreover have "count_where (az_events R) ?P ?t = size (filter_mset ?P rest)"
    by (simp add: count_where_def repository.find_count [OF R] t)
  moreover have "?s \<in> set ?t" by (simp add: repository.set_save [OF R])
  ultimately show ?thesis
    using find e(3) u by (simp add: route_markSeen_def markSeen_def getUnreadCount_def Let_def)
qed

definition list_alerts :: alerts_orms where
  "list_alerts = \<lparr>az_rules = typeorm_list ar_id, az_events = typeorm_list al_id\<rparr>"

definition one_alert :: AlertsService where
  "one_alert = \<lparr>ay_rules = [], ay_events = [\<lparr>al_id = ''e'', al_organizationId = ''o'', al_userId = ''v'',
     al_ruleId = None, al_type = None, al_message = None, al_seenAt = None, al_triggeredAt = 0,
     al_createdAt = 0\<rparr>], ay_gateway = empty_monitor, ay_mail = []\<rparr>"

theorem refused_mark_takes_effect_witness:
  "case route_markSeen list_alerts 7 (new_user 0 ''u'' ''o'' ''u@x'' [] [] [] EMPLOYEE None) ''e'' one_alert of
    (res, st') \<Rightarrow> res = Inl (Forbidden ''Cannot mark another user's alert as seen'') \<and>
    (hd (ay_events one_alert))\<lparr>al_seenAt := Some 7\<rparr> \<in> set (ay_events st') \<and>
    getUnreadCount list_alerts ''o'' ''v'' one_alert = Suc (getUnreadCount list_alerts ''o'' ''v'' st')"
  using refused_mark_takes_effect [of list_alerts one_alert "hd (ay_events one_alert)"
    "new_user 0 ''u'' ''o'' ''u@x'' [] [] [] EMPLOYEE None" 7]
  by (simp add: list_alerts_def one_alert_def keyed_def new_user_def)

section \<open>Rules of other organisations are out of reach\<close>

datatype rule_op =
    Create_rule js_time string CreateAlertRuleDto
  | Update_rule js_time string UpdateAlertRuleDto
  | Delete_rule string

fun rule_apply :: "alerts_orms \<Rightarrow> string \<Rightarrow> rule_op \<Rightarrow> AlertsService \<Rightarrow> AlertsService" where
  "rule_apply R org (Create_rule now i dto) st = snd (createRule R now i org dto st)"
| "rule_apply R org (Update_rule now i dto) st = snd (updateRule R now i org dto st)"
| "rule_apply R org (Delete_rule i) st = snd (deleteRule R i org st)"

fun rule_valid :: "rule_op \<Rightarrow> AlertsService \<Rightarrow> bool" where
  "rule_valid (Create_rule now i dto) st \<longleftrightarrow> i \<notin> ar_id ` set (ay_rules st)"
| "rule_valid _ st \<longleftrightarrow> True"

lemma rule_owned_table:
  assumes R: "repository (az_rules R) ar_id"
  shows "owned_table (az_rules R) ar_id ar_organizationId ay_rules rule_valid (rule_apply R)"
proof (rule owned_table.intro [OF R], unfold_locales)
  fix st p org
  assume v: "rule_valid p st"
  show "owned_change (az_rules R) ar_id ar_organizationId org (ay_rules st) (ay_rules (rule_apply R org p st))"
  proof (cases p)
    case (Create_rule now i dto)
    then show ?thesis using v by (auto simp: createRule_def Let_def intro!: owned_save may_save_fresh)
  next
    case (Update_rule now i dto)
    show ?thesis
    proof (cases "rule_in_org R i org st")
      case (Inr g)
      have "g \<in> set (ay_rules st) \<and> ar_id g = i \<and> ar_organizationId g = org"
        using Inr by (auto simp: rule_in_org_def dest!: repository.find_one_SomeD [OF R] split: option.splits)
      then show ?thesis
        by (auto simp: Update_rule updateRule_def Inr Let_def touched_def patch_rule_def patch_keeps
            intro!: owned_save may_save_known [of g])
    qed (simp add: Update_rule updateRule_def)
  next
    case (Delete_rule i)
    have "owned_change (az_rules R) ar_id ar_organizationId org (ay_rules st)
        (orm_delete (az_rules R) (\<lambda>r. ar_id r = i \<and> ar_organizationId r = org) (ay_rules st))"
      by (rule owned_delete) simp
    then show ?thesis unfolding Delete_rule rule_apply.simps deleteRule_def
      by (cases "rule_in_org R i org st") simp_all
  qed
qed

interpretation rule_table: owned_table "typeorm_list ar_id" ar_id ar_organizationId ay_rules
  rule_valid "rule_apply list_alerts"
  using rule_owned_table [of list_alerts] by (simp add: list_alerts_def)

end
