(* ===== verification/PresenceStore.thy ===== *)
theory PresenceStore
  imports MonitorGateway
begin

text \<open>
  The presence board of the web client (stores/monitoring-store.ts, hooks/use-monitoring-socket.ts): what the dashboard shows for
  each employee, and the two timers per employee that downgrade it when nothing arrives. Beside
  the fields of the store the state holds what the browser keeps for it: the pending timeouts
  (handle, due time and the arguments of the callback) and the sockets that are open, with their
  \<open>connected\<close> property. Object keys that every JavaScript object has are not user ids.
\<close>

record EmployeeStatus =
  ew_userId :: string
  ew_status :: presence
  ew_activeApp :: "string option"
  ew_lastSeen :: string

record PresenceTimers =
  ph_idle :: "nat option"
  ph_offline :: "nat option"

record MonitoringStore =
  mw_employees :: "string \<rightharpoonup> EmployeeStatus"
  mw_employeeNames :: "string \<rightharpoonup> string \<times> string"
  mw_timers :: "string \<rightharpoonup> PresenceTimers"
  mw_socket :: "nat option"
  mw_connected :: bool
  mw_pending :: "(nat \<times> js_time \<times> string \<times> presence) list"
  mw_next :: nat
  mw_sockets :: "nat \<rightharpoonup> bool"

definition IDLE_AFTER_MS :: int where "IDLE_AFTER_MS = 60000"
definition OFFLINE_AFTER_MS :: int where "OFFLINE_AFTER_MS = 300000"

definition fresh_store :: MonitoringStore where
  "fresh_store = \<lparr>mw_employees = Map.empty, mw_employeeNames = Map.empty, mw_timers = Map.empty,
     mw_socket = None, mw_connected = False, mw_pending = [], mw_next = 0, mw_sockets = Map.empty\<rparr>"

section \<open>The timers of the browser\<close>

definition setTimeout :: "js_time \<Rightarrow> string \<Rightarrow> presence \<Rightarrow> MonitoringStore \<Rightarrow> nat \<times> MonitoringStore" where
  "setTimeout due userId to st = (mw_next st,
     st\<lparr>mw_pending := mw_pending st @ [(mw_next st, due, userId, to)], mw_next := Suc (mw_next st)\<rparr>)"

definition clearTimeout :: "nat option \<Rightarrow> MonitoringStore \<Rightarrow> MonitoringStore" where
  "clearTimeout handle st = (case handle of None \<Rightarrow> st
     | Some h \<Rightarrow> st\<lparr>mw_pending := filter (\<lambda>p. fst p \<noteq> h) (mw_pending st)\<rparr>)"

section \<open>The actions of the store\<close>

definition setStatus :: "EmployeeStatus \<Rightarrow> MonitoringStore \<Rightarrow> MonitoringStore" where
  "setStatus payload st = st\<lparr>mw_employees := (mw_employees st)(ew_userId payload \<mapsto> payload)\<rparr>"

definition setActivity :: "string \<Rightarrow> string \<Rightarrow> string \<Rightarrow> MonitoringStore \<Rightarrow> MonitoringStore" where
  "setActivity userId appName timestamp st = (case mw_employees st userId of
     None \<Rightarrow> st
   | Some existing \<Rightarrow> st\<lparr>mw_employees := (mw_employees st)(userId \<mapsto>
       existing\<lparr>ew_activeApp := Some appName, ew_lastSeen := timestamp\<rparr>)\<rparr>)"

definition seedNames :: "(string \<times> string \<times> string) list \<Rightarrow> MonitoringStore \<Rightarrow> MonitoringStore" where
  "seedNames employees st = st\<lparr>mw_employeeNames := map_of (rev employees)\<rparr>"

definition downgradeStatus :: "string \<Rightarrow> presence \<Rightarrow> MonitoringStore \<Rightarrow> MonitoringStore" where
  "downgradeStatus userId to st = (case mw_employees st userId of
     None \<Rightarrow> st
   | Some existing \<Rightarrow> if to = Idle \<and> ew_status existing = Offline then st
       else st\<lparr>mw_employees := (mw_employees st)(userId \<mapsto> existing\<lparr>ew_status := to\<rparr>)\<rparr>)"

definition resetPresenceTimers :: "js_time \<Rightarrow> string \<Rightarrow> MonitoringStore \<Rightarrow> MonitoringStore" where
  "resetPresenceTimers now userId st =
     (let cleared = (case mw_timers st userId of None \<Rightarrow> st
          | Some existing \<Rightarrow> clearTimeout (ph_offline existing) (clearTimeout (ph_idle existing) st));
          (idle, st1) = setTimeout (now + IDLE_AFTER_MS) userId Idle cleared;
          (offline, st2) = setTimeout (now + OFFLINE_AFTER_MS) userId Offline st1
      in st2\<lparr>mw_timers := (mw_timers st2)(userId \<mapsto> \<lparr>ph_idle = Some idle, ph_offline = Some offline\<rparr>)\<rparr>)"

definition on_employee_status :: "js_time \<Rightarrow> EmployeeStatus \<Rightarrow> MonitoringStore \<Rightarrow> MonitoringStore" where
  "on_employee_status now payload st =
     (let st1 = st\<lparr>mw_employees := (mw_employees st)(ew_userId payload \<mapsto> payload)\<rparr>
      in if ew_status payload \<noteq> Offline then resetPresenceTimers now (ew_userId payload) st1 else st1)"

definition on_employee_activity ::
  "js_time \<Rightarrow> string \<Rightarrow> string \<Rightarrow> string \<Rightarrow> MonitoringStore \<Rightarrow> MonitoringStore" where
  "on_employee_activity now userId appName timestamp st =
     resetPresenceTimers now userId (setActivity userId appName timestamp st)"

text \<open>\<open>io\<close> opens a socket that is not connected yet; \<open>socket?.connected\<close> is its property.\<close>

definition store_connect :: "nat \<Rightarrow> MonitoringStore \<Rightarrow> MonitoringStore" where
  "store_connect newSocket st =
     (case mw_socket st of
        Some s \<Rightarrow> if mw_sockets st s = Some True then st
          else st\<lparr>mw_sockets := (mw_sockets st)(newSocket \<mapsto> False), mw_socket := Some newSocket\<rparr>
      | None \<Rightarrow> st\<lparr>mw_sockets := (mw_sockets st)(newSocket \<mapsto> False), mw_socket := Some newSocket\<rparr>)"

definition on_connect :: "nat \<Rightarrow> MonitoringStore \<Rightarrow> MonitoringStore" where
  "on_connect s st = st\<lparr>mw_sockets := (mw_sockets st)(s \<mapsto> True), mw_connected := True\<rparr>"

definition on_disconnect :: "nat \<Rightarrow> MonitoringStore \<Rightarrow> MonitoringStore" where
  "on_disconnect s st = st\<lparr>mw_sockets := (mw_sockets st)(s \<mapsto> False), mw_connected := False\<rparr>"

definition clear_handles :: "PresenceTimers \<Rightarrow> nat set" where
  "clear_handles t = set_option (ph_idle t) \<union> set_option (ph_offline t)"

text \<open>The loop over \<open>Object.values(timers)\<close> clears every handle the store knows.\<close>

definition store_disconnect :: "MonitoringStore \<Rightarrow> MonitoringStore" where
  "store_disconnect st = st\<lparr>
     mw_sockets := (case mw_socket st of None \<Rightarrow> mw_sockets st | Some s \<Rightarrow> (mw_sockets st)(s := None)),
     mw_pending := filter (\<lambda>p. \<not> (\<exists>t \<in> ran (mw_timers st). fst p \<in> clear_handles t)) (mw_pending st),
     mw_socket := None, mw_connected := False, mw_timers := Map.empty\<rparr>"

text \<open>The browser runs the callbacks that are due in the order of their due times.\<close>

definition run_timer :: "nat \<times> js_time \<times> string \<times> presence \<Rightarrow> MonitoringStore \<Rightarrow> MonitoringStore" where
  "run_timer p st = (case p of (h, due, userId, to) \<Rightarrow>
     downgradeStatus userId to (st\<lparr>mw_pending := filter (\<lambda>q. fst q \<noteq> h) (mw_pending st)\<rparr>))"

definition run_timers :: "js_time \<Rightarrow> MonitoringStore \<Rightarrow> MonitoringStore" where
  "run_timers now st =
     fold run_timer (isort_by (asc (\<lambda>p. fst (snd p))) (filter (\<lambda>p. fst (snd p) \<le> now) (mw_pending st))) st"

section \<open>The states of the store\<close>

inductive quiet_step :: "MonitoringStore \<Rightarrow> MonitoringStore \<Rightarrow> bool" where
  activity: "quiet_step st (on_employee_activity now u app ts st)"
| names: "quiet_step st (seedNames es st)"
| timer: "p \<in> set (mw_pending st) \<Longrightarrow> quiet_step st (run_timer p st)"
| connect: "mw_sockets st s = None \<Longrightarrow> quiet_step st (store_connect s st)"
| connected: "mw_sockets st s = Some False \<Longrightarrow> quiet_step st (on_connect s st)"
| lost: "mw_sockets st s = Some True \<Longrightarrow> quiet_step st (on_disconnect s st)"
| disconnect: "quiet_step st (store_disconnect st)"

inductive store_step :: "MonitoringStore \<Rightarrow> MonitoringStore \<Rightarrow> bool" where
  status: "store_step st (on_employee_status now payload st)"
| seed: "store_step st (setStatus payload st)"
| quiet: "quiet_step st st' \<Longrightarrow> store_step st st'"

abbreviation store_reachable :: "MonitoringStore \<Rightarrow> bool" where
  "store_reachable \<equiv> store_step\<^sup>*\<^sup>* fresh_store"

text \<open>Every pending timeout is one of the two that the store keeps for its employee.\<close>

definition timers_known :: "MonitoringStore \<Rightarrow> bool" where
  "timers_known st \<longleftrightarrow>
     (\<forall>(h, due, u, to) \<in> set (mw_pending st). h < mw_next st \<and> (\<exists>t. mw_timers st u = Some t \<and>
        (to = Idle \<and> ph_idle t = Some h \<or> to = Offline \<and> ph_offline t = Some h))) \<and>
     (\<forall>u t h. mw_timers st u = Some t \<longrightarrow> h \<in> clear_handles t \<longrightarrow> h < mw_next st) \<and>
     (\<forall>u v t t'. mw_timers st u = Some t \<longrightarrow> mw_timers st v = Some t' \<longrightarrow> u \<noteq> v \<longrightarrow>
        clear_handles t \<inter> clear_handles t' = {})"

lemma timers_knownD:
  assumes "timers_known st" and "(h, due, u, to) \<in> set (mw_pending st)"
  obtains t where "mw_timers st u = Some t" "h \<in> clear_handles t"
    "to = Idle \<and> ph_idle t = Some h \<or> to = Offline \<and> ph_offline t = Some h" "h < mw_next st"
  using assms unfolding timers_known_def clear_handles_def by fastforce

lemma clearTimeout_fields [simp]:
  "mw_timers (clearTimeout h st) = mw_timers st" "mw_next (clearTimeout h st) = mw_next st"
  "mw_employees (clearTimeout h st) = mw_employees st"
  by (cases h; simp add: clearTimeout_def)+

lemma clearTimeout_pending [simp]:
  "mw_pending (clearTimeout h st) = filter (\<lambda>p. Some (fst p) \<noteq> h) (mw_pending st)"
  by (cases h) (simp_all add: clearTimeout_def)

lemma reset_fields:
  "mw_employees (resetPresenceTimers now u st) = mw_employees st"
  "mw_next (resetPresenceTimers now u st) = mw_next st + 2"
  "mw_timers (resetPresenceTimers now u st) =
     (mw_timers st)(u \<mapsto> \<lparr>ph_idle = Some (mw_next st), ph_offline = Some (Suc (mw_next st))\<rparr>)"
  by (auto simp: resetPresenceTimers_def setTimeout_def Let_def split: option.split)

lemma own_handles:
  assumes K: "timers_known st" and p: "p \<in> set (mw_pending st)"
  shows "fst (snd (snd p)) = u \<longleftrightarrow> (\<exists>t. mw_timers st u = Some t \<and> fst p \<in> clear_handles t)"
proof -
  obtain h due v to where ps: "p = (h, due, v, to)" by (metis surj_pair)
  obtain t where t: "mw_timers st v = Some t" "h \<in> clear_handles t" using timers_knownD [OF K] p ps by metis
  have "v = u" if "mw_timers st u = Some t'" "h \<in> clear_handles t'" for t'
    using K t that unfolding timers_known_def by blast
  then show ?thesis using t ps by auto
qed

lemma reset_pending:
  assumes K: "timers_known st"
  shows "mw_pending (resetPresenceTimers now u st) =
    filter (\<lambda>p. fst (snd (snd p)) \<noteq> u) (mw_pending st) @
      [(mw_next st, now + IDLE_AFTER_MS, u, Idle), (Suc (mw_next st), now + OFFLINE_AFTER_MS, u, Offline)]"
proof -
  have "mw_pending (case mw_timers st u of None \<Rightarrow> st
          | Some existing \<Rightarrow> clearTimeout (ph_offline existing) (clearTimeout (ph_idle existing) st)) =
      filter (\<lambda>p. fst (snd (snd p)) \<noteq> u) (mw_pending st)"
  proof (cases "mw_timers st u")
    case None
    then show ?thesis using own_handles [OF K, of _ u] by (simp add: filter_id_conv)
  next
    case (Some t)
    have "fst (snd (snd p)) \<noteq> u \<longleftrightarrow> Some (fst p) \<noteq> ph_idle t \<and> Some (fst p) \<noteq> ph_offline t"
      if "p \<in> set (mw_pending st)" for p
      using own_handles [OF K that, of u] Some by (auto simp: clear_handles_def)
    then show ?thesis using Some by (auto intro!: filter_cong)
  qed
  then show ?thesis
    by (auto simp: resetPresenceTimers_def setTimeout_def Let_def split: option.split)
qed

lemma reset_known:
  assumes K: "timers_known st"
  shows "timers_known (resetPresenceTimers now u st)"
proof -
  have known: "\<exists>t. mw_timers st v = Some t \<and> (to = Idle \<and> ph_idle t = Some h \<or> to = Offline \<and> ph_offline t = Some h)"
    and less: "h < mw_next st" if "(h, due, v, to) \<in> set (mw_pending st)" for h due v to
    using timers_knownD [OF K that] by metis+
  have bound: "h < mw_next st" if "mw_timers st v = Some t" "h \<in> clear_handles t" for v t h
    using K that unfolding timers_known_def by blast
  have apart: "clear_handles t \<inter> clear_handles t' = {}"
    if "mw_timers st v = Some t" "mw_timers st w = Some t'" "v \<noteq> w" for v w t t'
    using K that unfolding timers_known_def by blast
  have fresh: "clear_handles t \<inter> {mw_next st, Suc (mw_next st)} = {}" if "mw_timers st v = Some t" for v t
    using bound [OF that] by fastforce
  let ?t = "\<lparr>ph_idle = Some (mw_next st), ph_offline = Some (Suc (mw_next st))\<rparr>"
  have new: "clear_handles ?t = {mw_next st, Suc (mw_next st)}" by (auto simp: clear_handles_def)
  show ?thesis
    unfolding timers_known_def reset_pending [OF K] reset_fields
  proof (intro conjI)
    show "\<forall>(h, due, v, to) \<in> set (filter (\<lambda>p. fst (snd (snd p)) \<noteq> u) (mw_pending st) @
        [(mw_next st, now + IDLE_AFTER_MS, u, Idle), (Suc (mw_next st), now + OFFLINE_AFTER_MS, u, Offline)]).
      h < mw_next st + 2 \<and> (\<exists>t. ((mw_timers st)(u \<mapsto> ?t)) v = Some t \<and>
        (to = Idle \<and> ph_idle t = Some h \<or> to = Offline \<and> ph_offline t = Some h))"
      using known less by (auto simp: less_SucI)
    show "\<forall>v t h. ((mw_timers st)(u \<mapsto> ?t)) v = Some t \<longrightarrow> h \<in> clear_handles t \<longrightarrow> h < mw_next st + 2"
      using bound by (auto simp: new less_SucI)
    show "\<forall>v w t t'. ((mw_timers st)(u \<mapsto> ?t)) v = Some t \<longrightarrow> ((mw_timers st)(u \<mapsto> ?t)) w = Some t' \<longrightarrow>
        v \<noteq> w \<longrightarrow> clear_handles t \<inter> clear_handles t' = {}"
      using apart fresh by (auto simp: new)
  qed
qed

lemma fewer_pending_known:
  "timers_known st \<Longrightarrow> set (mw_pending st') \<subseteq> set (mw_pending st) \<Longrightarrow> mw_timers st' = mw_timers st \<Longrightarrow>
   mw_next st' = mw_next st \<Longrightarrow> timers_known st'"
  unfolding timers_known_def by (auto dest!: subsetD)

lemma run_timer_fields [simp]:
  "mw_timers (run_timer p st) = mw_timers st" "mw_next (run_timer p st) = mw_next st"
  "mw_pending (run_timer p st) = filter (\<lambda>q. fst q \<noteq> fst p) (mw_pending st)"
  by (cases p; simp add: run_timer_def downgradeStatus_def split: option.split)+

lemma disconnect_clears:
  assumes "timers_known st"
  shows "mw_pending (store_disconnect st) = []"
proof -
  have "\<exists>t \<in> ran (mw_timers st). fst p \<in> clear_handles t" if p: "p \<in> set (mw_pending st)" for p
    using own_handles [OF assms p, of "fst (snd (snd p))"] by (auto intro: ranI)
  then show ?thesis unfolding store_disconnect_def by (simp add: filter_empty_conv)
qed

lemma setActivity_fields [simp]:
  "mw_pending (setActivity u app ts st) = mw_pending st" "mw_timers (setActivity u app ts st) = mw_timers st"
  "mw_next (setActivity u app ts st) = mw_next st"
  by (simp_all add: setActivity_def split: option.split)

lemma store_connect_fields [simp]:
  "mw_pending (store_connect s st) = mw_pending st" "mw_timers (store_connect s st) = mw_timers st"
  "mw_next (store_connect s st) = mw_next st"
  by (simp_all add: store_connect_def split: option.split)

lemma quiet_known:
  assumes "quiet_step st st'" and K: "timers_known st"
  shows "timers_known st'"
  using assms(1)
proof cases
  case (activity now u app ts)
  have "timers_known (setActivity u app ts st)" by (rule fewer_pending_known [OF K]) simp_all
  then show ?thesis unfolding activity on_employee_activity_def by (rule reset_known)
next
  case disconnect
  have "mw_timers (store_disconnect st) = Map.empty" by (simp add: store_disconnect_def)
  then show ?thesis using disconnect_clears [OF K] disconnect by (simp add: timers_known_def)
next
  case (timer p)
  show ?thesis unfolding timer(1) by (rule fewer_pending_known [OF K]) auto
next
  case (names es)
  show ?thesis unfolding names by (rule fewer_pending_known [OF K]) (simp_all add: seedNames_def)
next
  case (connect s)
  show ?thesis unfolding connect by (rule fewer_pending_known [OF K]) simp_all
next
  case (connected s)
  show ?thesis unfolding connected by (rule fewer_pending_known [OF K]) (simp_all add: on_connect_def)
next
  case (lost s)
  show ?thesis unfolding lost by (rule fewer_pending_known [OF K]) (simp_all add: on_disconnect_def)
qed

lemma status_known:
  assumes K: "timers_known st"
  shows "timers_known (on_employee_status now payload st)"
proof -
  have "timers_known (st\<lparr>mw_employees := (mw_employees st)(ew_userId payload \<mapsto> payload)\<rparr>)"
    by (rule fewer_pending_known [OF K]) simp_all
  then show ?thesis by (simp add: on_employee_status_def Let_def reset_known)
qed

lemma fresh_known: "timers_known fresh_store"
  by (simp add: timers_known_def fresh_store_def)

lemma seed_known: "timers_known st \<Longrightarrow> timers_known (setStatus payload st)"
  by (erule fewer_pending_known) (simp_all add: setStatus_def)

lemma reachable_known: "store_reachable st \<Longrightarrow> timers_known st"
proof (induction rule: rtranclp_induct)
  case (step y z)
  from step(2,3) show ?case by cases (auto intro: status_known quiet_known seed_known)
qed (rule fresh_known)

section \<open>What the timers do to one employee\<close>

definition lower :: "presence \<Rightarrow> EmployeeStatus \<Rightarrow> EmployeeStatus" where
  "lower to e = (if to = Idle \<and> ew_status e = Offline then e else e\<lparr>ew_status := to\<rparr>)"

lemma downgrade_employees:
  "mw_employees (downgradeStatus v to st) u = (if v = u then map_option (lower to) (mw_employees st u)
     else mw_employees st u)"
  by (auto simp: downgradeStatus_def lower_def split: option.split)

lemma run_timer_employees:
  "mw_employees (run_timer p st) u = (if fst (snd (snd p)) = u
     then map_option (lower (snd (snd (snd p)))) (mw_employees st u) else mw_employees st u)"
  by (cases p) (simp add: run_timer_def downgrade_employees)

lemma fold_timers_employees:
  "mw_employees (fold run_timer ps st) u = fold (\<lambda>p. map_option (lower (snd (snd (snd p)))))
     (filter (\<lambda>p. fst (snd (snd p)) = u) ps) (mw_employees st u)"
  by (induction ps arbitrary: st) (simp_all add: run_timer_employees)

lemma filter_insort_by:
  "preorder_by le \<Longrightarrow> sorted_wrt le ys \<Longrightarrow>
   filter P (insort_by le x ys) = (if P x then insort_by le x (filter P ys) else filter P ys)"
proof (induction ys)
  case (Cons y ys)
  have "insort_by le x (filter P ys) = x # filter P ys" if "le x y" "P x"
  proof (cases "filter P ys")
    case (Cons z zs)
    then have "z \<in> set ys" by (metis filter_is_subset in_mono list.set_intros(1))
    then have "le x z" using that(1) Cons.prems by (auto simp: preorder_by_def)
    then show ?thesis using Cons by simp
  qed simp
  then show ?case using Cons by auto
qed simp

lemma filter_isort_by: "preorder_by le \<Longrightarrow> filter P (isort_by le xs) = isort_by le (filter P xs)"
  by (induction xs) (simp_all add: filter_insort_by sorted_isort_by)

lemma run_timers_employees:
  "mw_employees (run_timers now st) u = fold (\<lambda>p. map_option (lower (snd (snd (snd p)))))
     (isort_by (asc (\<lambda>p. fst (snd p)))
       (filter (\<lambda>p. fst (snd p) \<le> now \<and> fst (snd (snd p)) = u) (mw_pending st))) (mw_employees st u)"
  by (simp add: run_timers_def fold_timers_employees filter_isort_by conj_commute)

text \<open>
  What can happen to the board, with the time at which it does: a message of the server, a fetch
  of the device grid that seeds statuses and names, and the life of the sockets. The callbacks that are due run
  before it.
\<close>

datatype board_event =
  Status EmployeeStatus | Activity string string string | Seed EmployeeStatus
  | Names "(string \<times> string \<times> string) list" | Open nat | Up nat | Down nat | Close

fun board_does :: "js_time \<Rightarrow> board_event \<Rightarrow> MonitoringStore \<Rightarrow> MonitoringStore" where
  "board_does now (Status payload) st = on_employee_status now payload st"
| "board_does now (Activity userId appName timestamp) st = on_employee_activity now userId appName timestamp st"
| "board_does now (Seed payload) st = setStatus payload st"
| "board_does now (Names employees) st = seedNames employees st"
| "board_does now (Open newSocket) st = store_connect newSocket st"
| "board_does now (Up s) st = on_connect s st"
| "board_does now (Down s) st = on_disconnect s st"
| "board_does now Close st = store_disconnect st"

fun board_run :: "(js_time \<times> board_event) list \<Rightarrow> MonitoringStore \<Rightarrow> MonitoringStore" where
  "board_run [] st = st"
| "board_run ((now, e) # es) st = board_run es (board_does now e (run_timers now st))"

fun spares :: "string \<Rightarrow> board_event \<Rightarrow> bool" where
  "spares u (Status payload) \<longleftrightarrow> ew_userId payload \<noteq> u"
| "spares u (Activity v _ _) \<longleftrightarrow> v \<noteq> u"
| "spares u (Seed payload) \<longleftrightarrow> ew_userId payload \<noteq> u"
| "spares u Close \<longleftrightarrow> False"
| "spares u _ \<longleftrightarrow> True"

definition timers_of :: "string \<Rightarrow> MonitoringStore \<Rightarrow> (nat \<times> js_time \<times> string \<times> presence) list" where
  "timers_of u st = filter (\<lambda>p. fst (snd (snd p)) = u) (mw_pending st)"

definition faded :: "js_time \<Rightarrow> js_time \<Rightarrow> presence \<Rightarrow> presence" where
  "faded since now shown = (if now < since + 60000 then shown else if now < since + 300000 then Idle else Offline)"

definition waiting :: "string \<Rightarrow> presence \<Rightarrow> js_time \<Rightarrow> nat \<Rightarrow> js_time \<Rightarrow> MonitoringStore \<Rightarrow> bool" where
  "waiting u shown t h now st \<longleftrightarrow> timers_known st \<and>
     map_option ew_status (mw_employees st u) = Some (faded t now shown) \<and>
     timers_of u st = filter (\<lambda>p. now < fst (snd p))
       [(h, t + IDLE_AFTER_MS, u, Idle), (Suc h, t + OFFLINE_AFTER_MS, u, Offline)]"

lemma fold_run_timer_fields:
  "mw_timers (fold run_timer ps st) = mw_timers st \<and> mw_next (fold run_timer ps st) = mw_next st \<and>
   mw_pending (fold run_timer ps st) = filter (\<lambda>q. fst q \<notin> fst ` set ps) (mw_pending st)"
  by (induction ps arbitrary: st) (auto intro!: filter_cong)

lemma run_timers_known: "timers_known st \<Longrightarrow> timers_known (run_timers now st)"
  by (erule fewer_pending_known) (auto simp: run_timers_def fold_run_timer_fields)

lemma run_timers_of:
  assumes K: "timers_known st" and d: "distinct (map fst (timers_of u st))"
  shows "timers_of u (run_timers now st) = filter (\<lambda>p. now < fst (snd p)) (timers_of u st)"
proof -
  define F where "F = fst ` set (isort_by (asc (\<lambda>p. fst (snd p))) (filter (\<lambda>p. fst (snd p) \<le> now) (mw_pending st)))"
  have F: "fst q \<notin> F \<longleftrightarrow> now < fst (snd q)"
    if q: "q \<in> set (mw_pending st)" "fst (snd (snd q)) = u" for q
  proof -
    have "p = q" if p: "p \<in> set (mw_pending st)" "fst p = fst q" for p
    proof -
      have "fst (snd (snd p)) = u" using own_handles [OF K p(1), of u] own_handles [OF K q(1), of u] p(2) q(2) by simp
      then have "p \<in> set (timers_of u st)" "q \<in> set (timers_of u st)" using p q by (simp_all add: timers_of_def)
      then show ?thesis using d p(2) by (auto simp: distinct_map dest: inj_onD)
    qed
    then show ?thesis using q(1) by (force simp: F_def not_le)
  qed
  have "mw_pending (run_timers now st) = filter (\<lambda>q. fst q \<notin> F) (mw_pending st)"
    by (simp only: run_timers_def fold_run_timer_fields F_def)
  then show ?thesis using F by (auto simp: timers_of_def intro!: filter_cong)
qed

lemma fold_lower_status:
  "map_option ew_status (fold (\<lambda>p. map_option (lower (snd (snd (snd p))))) ps e) =
   fold (\<lambda>p. map_option (\<lambda>s. if snd (snd (snd p)) = Idle \<and> s = Offline then s else snd (snd (snd p)))) ps
     (map_option ew_status e)"
  by (induction ps arbitrary: e) (simp_all add: option.map_comp comp_def lower_def if_distrib cong: if_cong)

lemma waiting_time:
  assumes W: "waiting u shown t h s st" and "s \<le> now" "t \<le> s" "shown \<noteq> Offline"
  shows "waiting u shown t h now (run_timers now st)"
proof -
  have K: "timers_known st" and e: "map_option ew_status (mw_employees st u) = Some (faded t s shown)"
    and T: "timers_of u st = filter (\<lambda>p. s < fst (snd p))
       [(h, t + IDLE_AFTER_MS, u, Idle), (Suc h, t + OFFLINE_AFTER_MS, u, Offline)]"
    using W by (simp_all add: waiting_def)
  have "distinct (map fst (timers_of u st))" unfolding T by simp
  from run_timers_of [OF K this, of now] have p: "timers_of u (run_timers now st) = filter (\<lambda>p. now < fst (snd p))
       [(h, t + IDLE_AFTER_MS, u, Idle), (Suc h, t + OFFLINE_AFTER_MS, u, Offline)]"
    unfolding T using assms(2) by (simp del: filter.simps) (auto intro!: filter_cong)
  have "filter (\<lambda>p. fst (snd p) \<le> now \<and> fst (snd (snd p)) = u) (mw_pending st) = filter (\<lambda>p. fst (snd p) \<le> now) (timers_of u st)"
    by (auto simp: timers_of_def intro!: filter_cong)
  then have "map_option ew_status (mw_employees (run_timers now st) u) = Some (faded t now shown)"
    unfolding run_timers_employees fold_lower_status T e using assms(2-4)
    by (auto simp: IDLE_AFTER_MS_def OFFLINE_AFTER_MS_def asc_def faded_def)
  then show ?thesis using p run_timers_known [OF K] by (simp add: waiting_def)
qed

lemma spared_event:
  assumes K: "timers_known st" and "spares u e"
  shows "timers_known (board_does now e st) \<and> mw_employees (board_does now e st) u = mw_employees st u \<and>
    timers_of u (board_does now e st) = timers_of u st"
proof (cases e)
  case (Status payload)
  have "timers_known (st\<lparr>mw_employees := (mw_employees st)(ew_userId payload \<mapsto> payload)\<rparr>)"
    by (rule fewer_pending_known [OF K]) simp_all
  note R = this reset_known [OF this] reset_pending [OF this]
  show ?thesis using Status assms(2) R
    by (simp add: on_employee_status_def Let_def reset_fields timers_of_def conj_commute cong: conj_cong)
next
  case (Activity v app ts)
  have "timers_known (setActivity v app ts st)" by (rule fewer_pending_known [OF K]) simp_all
  note R = this reset_known [OF this] reset_pending [OF this]
  show ?thesis using Activity assms(2) R
    by (auto simp: on_employee_activity_def reset_fields timers_of_def setActivity_def split: option.split intro!: filter_cong)
qed (use assms in \<open>auto intro!: fewer_pending_known [OF K] simp: setStatus_def seedNames_def store_connect_def
    on_connect_def on_disconnect_def timers_of_def split: option.split\<close>)

lemma waiting_run:
  assumes "waiting u shown t h s st" and "t \<le> s" and "shown \<noteq> Offline"
    and "sorted (s # map fst es @ [now])" and "\<And>e. e \<in> set es \<Longrightarrow> spares u (snd e)"
  shows "waiting u shown t h now (run_timers now (board_run es st))"
  using assms
proof (induction es arbitrary: s st)
  case Nil
  then show ?case using waiting_time by simp
next
  case (Cons x es)
  obtain s' e where x: "x = (s', e)" by force
  have ord: "s \<le> s'" "t \<le> s'" "sorted (s' # map fst es @ [now])" using Cons.prems(2,4) x by auto
  have "waiting u shown t h s' (run_timers s' st)" by (rule waiting_time [OF Cons.prems(1) ord(1) Cons.prems(2,3)])
  then have "waiting u shown t h s' (board_does s' e (run_timers s' st))"
    using spared_event [of "run_timers s' st" u e s'] Cons.prems(5) [of x] x by (simp add: waiting_def)
  from Cons.IH [OF this ord(2) Cons.prems(3) ord(3)] show ?case using Cons.prems(5) x by simp
qed

lemma reset_waiting:
  assumes K: "timers_known st" and "map_option ew_status (mw_employees st u) = Some shown"
  shows "waiting u shown t (mw_next st) t (resetPresenceTimers t u st)"
  using assms reset_known [OF K]
  by (auto simp: waiting_def reset_fields faded_def timers_of_def reset_pending [OF K] IDLE_AFTER_MS_def OFFLINE_AFTER_MS_def
      filter_empty_conv)


definition working :: EmployeeStatus where
  "working = \<lparr>ew_userId = ''u'', ew_status = Online, ew_activeApp = None, ew_lastSeen = []\<rparr>"


text \<open>
  The scope is the code's: seeding sets the status and no timer, and a board that is closed shows for ever what it
  showed.
\<close>

lemma seeding_sets_no_timer:
  "mw_pending (setStatus payload st) = mw_pending st \<and> mw_employees (setStatus payload st) (ew_userId payload) = Some payload"
  by (simp add: setStatus_def)

lemma closed_board_freezes:
  "store_reachable st \<Longrightarrow> mw_employees (run_timers now (store_disconnect st)) = mw_employees st"
  using disconnect_clears [OF reachable_known, of st] by (simp add: run_timers_def) (simp add: store_disconnect_def)

section \<open>Only a status message raises anybody\<close>

fun presence_rank :: "presence \<Rightarrow> nat" where
  "presence_rank Online = 2"
| "presence_rank Idle = 1"
| "presence_rank Offline = 0"

definition not_raised :: "MonitoringStore \<Rightarrow> MonitoringStore \<Rightarrow> bool" where
  "not_raised st st' \<longleftrightarrow> (\<forall>u e'. mw_employees st' u = Some e' \<longrightarrow>
     (\<exists>e. mw_employees st u = Some e \<and> presence_rank (ew_status e') \<le> presence_rank (ew_status e)))"

lemma not_raised_trans: "not_raised a b \<Longrightarrow> not_raised b c \<Longrightarrow> not_raised a c"
  unfolding not_raised_def by (meson order_trans)

lemma not_raised_same: "mw_employees st' = mw_employees st \<Longrightarrow> not_raised st st'"
  by (auto simp: not_raised_def)

lemma lower_rank: "to = Idle \<or> to = Offline \<Longrightarrow> presence_rank (ew_status (lower to e)) \<le> presence_rank (ew_status e)"
  by (cases "ew_status e") (auto simp: lower_def)

lemma quiet_not_raised:
  assumes "quiet_step st st'" and K: "timers_known st"
  shows "not_raised st st'"
  using assms(1)
proof cases
  case (activity now u app ts)
  then show ?thesis
    by (auto simp: not_raised_def on_employee_activity_def reset_fields setActivity_def split: option.split)
next
  case (timer p)
  obtain h due v to where p: "p = (h, due, v, to)" by (metis surj_pair)
  then have "to = Idle \<or> to = Offline" using timers_knownD [OF K] timer(2) by metis
  then show ?thesis unfolding not_raised_def timer(1) run_timer_employees p
    by (auto intro: lower_rank split: if_splits)
qed (auto simp: seedNames_def store_connect_def on_connect_def on_disconnect_def store_disconnect_def
    intro!: not_raised_same split: option.splits)

text \<open>
  Without a status message nobody's presence ever goes up, whatever activity arrives and
  however the socket comes and goes: an employee whom a timer, or one lost message, has put
  offline is shown as offline however busily the agent reports activity.
\<close>

theorem activity_never_revives:
  assumes "store_reachable st" and "quiet_step\<^sup>*\<^sup>* st st'" and "mw_employees st' u = Some e'"
  shows "\<exists>e. mw_employees st u = Some e \<and> presence_rank (ew_status e') \<le> presence_rank (ew_status e)"
proof -
  have "timers_known st' \<and> not_raised st st'" using assms(2)
  proof (induction rule: rtranclp_induct)
    case (step y z)
    then show ?case using quiet_known [OF step(2)] quiet_not_raised [OF step(2)] not_raised_trans by blast
  qed (simp add: reachable_known [OF assms(1)] not_raised_same)
  then show ?thesis using assms(3) unfolding not_raised_def by blast
qed

theorem activity_never_revives_witness:
  "\<exists>e. mw_employees (on_employee_status 0 (working\<lparr>ew_status := Offline\<rparr>) fresh_store) ''u'' = Some e \<and>
    presence_rank Offline \<le> presence_rank (ew_status e)"
proof -
  let ?st = "on_employee_status 0 (working\<lparr>ew_status := Offline\<rparr>) fresh_store"
  let ?st' = "on_employee_activity 9 ''u'' ''code'' ''t'' ?st"
  have "store_reachable ?st" by (intro r_into_rtranclp store_step.status)
  moreover have "quiet_step\<^sup>*\<^sup>* ?st ?st'" by (intro r_into_rtranclp quiet_step.activity)
  moreover have "mw_employees ?st' ''u'' = Some (working\<lparr>ew_status := Offline, ew_activeApp := Some ''code'',
      ew_lastSeen := ''t''\<rparr>)"
    by (simp add: on_employee_activity_def reset_fields setActivity_def on_employee_status_def working_def)
  ultimately show ?thesis using activity_never_revives [of ?st ?st' "''u''"] by force
qed

section \<open>Two sockets\<close>

text \<open>A second \<open>connect\<close> before the first socket is connected leaves the first one open for ever.\<close>

lemma second_connect_leaks:
  assumes "mw_socket st = Some s" and "mw_sockets st s = Some False" and "n \<noteq> s"
  shows "mw_sockets (store_disconnect (store_connect n st)) s = Some False"
  using assms by (simp add: store_connect_def store_disconnect_def)

text \<open>After \<open>disconnect\<close> no timeout is left that could change the store.\<close>

lemma disconnect_leaves_no_timer:
  "store_reachable st \<Longrightarrow> mw_pending (store_disconnect st) = []"
  by (rule disconnect_clears [OF reachable_known])

section \<open>The hook that shares the socket\<close>

text \<open>
  \<open>useMonitoringSocket\<close> connects when a component mounts and disconnects when it unmounts. The
  dashboard layout, the live page inside it and the full-screen view inside that all use it.
\<close>

definition hook_mount :: "string option \<Rightarrow> string option \<Rightarrow> nat \<Rightarrow> MonitoringStore \<Rightarrow> MonitoringStore" where
  "hook_mount token role newSocket st =
     (if falsy_str token \<or> (role \<noteq> Some ''admin'' \<and> role \<noteq> Some ''manager'') then st
      else store_connect newSocket st)"

definition hook_unmount :: "string option \<Rightarrow> string option \<Rightarrow> MonitoringStore \<Rightarrow> MonitoringStore" where
  "hook_unmount token role st =
     (if falsy_str token \<or> (role \<noteq> Some ''admin'' \<and> role \<noteq> Some ''manager'') then st
      else store_disconnect st)"

text \<open>
  Closing an inner view cuts the whole dashboard off: once the layout's socket is connected, a
  component that mounts uses it too, and when that component unmounts it closes the socket and
  stops every timer, although the layout is still mounted and does not connect again.
\<close>

theorem closing_view_cuts_board:
  assumes "mw_socket st = Some s" and "mw_sockets st s = Some True" and "store_reachable st"
    and "role = Some ''admin'' \<or> role = Some ''manager''" and "token \<noteq> []"
  shows "hook_mount (Some token) role n st = st \<and>
    (let st' = hook_unmount (Some token) role (hook_mount (Some token) role n st) in
      mw_socket st' = None \<and> mw_sockets st' s = None \<and> \<not> mw_connected st' \<and> mw_pending st' = [] \<and>
      mw_employees st' = mw_employees st)"
proof -
  have g: "\<not> (falsy_str (Some token) \<or> (role \<noteq> Some ''admin'' \<and> role \<noteq> Some ''manager''))"
    using assms(4,5) by auto
  have "hook_mount (Some token) role n st = st"
    unfolding hook_mount_def if_not_P [OF g] using assms(1,2) by (simp add: store_connect_def)
  moreover have "hook_unmount (Some token) role st = store_disconnect st"
    unfolding hook_unmount_def if_not_P [OF g] ..
  moreover have "mw_pending (store_disconnect st) = []" by (rule disconnect_leaves_no_timer [OF assms(3)])
  ultimately show ?thesis using assms(1,2) by (simp add: Let_def store_disconnect_def)
qed

definition connected_board :: MonitoringStore where
  "connected_board = on_connect 7 (store_connect 7 fresh_store)"

lemma connected_board_facts:
  "mw_socket connected_board = Some 7" "mw_sockets connected_board 7 = Some True"
  "store_reachable connected_board"
proof -
  let ?c = "store_connect 7 fresh_store"
  have c: "?c = fresh_store\<lparr>mw_sockets := [7 \<mapsto> False], mw_socket := Some 7\<rparr>"
    by (simp add: store_connect_def fresh_store_def)
  then show "mw_socket connected_board = Some 7" "mw_sockets connected_board 7 = Some True"
    by (simp_all add: connected_board_def on_connect_def)
  have "store_step fresh_store ?c"
    by (intro store_step.quiet quiet_step.connect) (simp add: fresh_store_def)
  moreover have "store_step ?c connected_board"
    unfolding connected_board_def by (intro store_step.quiet quiet_step.connected) (simp add: c)
  ultimately show "store_reachable connected_board" by (blast intro: converse_rtranclp_into_rtranclp)
qed

theorem closing_view_cuts_board_witness:
  "hook_mount (Some ''t'') (Some ''admin'') 8 connected_board = connected_board \<and>
   mw_socket (hook_unmount (Some ''t'') (Some ''admin'')
     (hook_mount (Some ''t'') (Some ''admin'') 8 connected_board)) = None"
  using closing_view_cuts_board [OF connected_board_facts, of "Some ''admin''" "''t''" 8] unfolding Let_def by blast

end
