(* ===== verification/StreamClient.thy ===== *)
theory StreamClient
  imports StreamProtocol Complex_Main
begin

text \<open>
  The live streams in the browser (hooks/use-streaming.ts) and the frames of the full-screen view
  (components/streaming/live-screenshot-view.tsx). The client has its own parser of the frames the
  gateway relays. An \<open>ArrayBuffer\<close> is a list of bytes; \<open>decode\<close> is \<open>createImageBitmap\<close>, None
  when it rejects; a frame is decoded before the next event is handled. The \<open>Map\<close> of the code is a
  map. Messages to the server are kept in \<open>xs_emitted\<close>, calls of the API in \<open>xs_calls\<close>.
\<close>

section \<open>Frames\<close>

definition client_parseFrame :: "buffer \<Rightarrow> (8 word \<times> buffer) option" where
  "client_parseFrame buf =
     (if length buf < 8 then None
      else let type = buf ! 1; payloadLen = readUInt32BE buf 4 in
        if length buf < 8 + payloadLen then None
        else Some (type, take payloadLen (drop 8 buf)))"

text \<open>\<open>getInt16\<close>, little-endian, of the pairs of bytes; a last single byte is no sample.\<close>

fun samples16 :: "buffer \<Rightarrow> 16 word list" where
  "samples16 (lo # hi # rest) = word_cat hi lo # samples16 rest"
| "samples16 _ = []"

definition computeAudioLevel :: "buffer \<Rightarrow> real" where
  "computeAudioLevel pcm =
     (let samples = length pcm div 2;
          sumSq = sum_list (map (\<lambda>w. (of_int (sint w) / 32768)\<^sup>2) (samples16 pcm))
      in sqrt (sumSq / of_nat (max 1 samples)))"

section \<open>The streams\<close>

record 'b EmployeeStream =
  xm_userId :: string
  xm_name :: string
  xm_lastFrameAt :: js_time
  xm_mode :: string
  xm_screenBitmap :: "'b option"
  xm_cameraBitmap :: "'b option"
  xm_audioLevel :: real

record 'b StreamHook =
  xs_streams :: "string \<rightharpoonup> 'b EmployeeStream"
  xs_mutedStreams :: "string set"
  xs_emitted :: "(string \<times> string) list"
  xs_calls :: "string list"

definition updateStream ::
  "string \<Rightarrow> ('b EmployeeStream \<Rightarrow> 'b EmployeeStream) \<Rightarrow> 'b StreamHook \<Rightarrow> 'b StreamHook" where
  "updateStream userId f st =
     (let current = nullish (xs_streams st userId) \<lparr>xm_userId = userId, xm_name = userId, xm_lastFrameAt = 0,
        xm_mode = ''idle'', xm_screenBitmap = None, xm_cameraBitmap = None, xm_audioLevel = 0\<rparr>
      in st\<lparr>xs_streams := (xs_streams st)(userId \<mapsto> f current)\<rparr>)"

definition on_online :: "string \<Rightarrow> 'b StreamHook \<Rightarrow> 'b StreamHook" where
  "on_online userId = updateStream userId (\<lambda>s. s\<lparr>xm_userId := userId, xm_name := userId\<rparr>)"

definition on_offline :: "string \<Rightarrow> 'b StreamHook \<Rightarrow> 'b StreamHook" where
  "on_offline userId st = st\<lparr>xs_streams := (xs_streams st)(userId := None)\<rparr>"

definition on_frame ::
  "(buffer \<Rightarrow> 'b option) \<Rightarrow> js_time \<Rightarrow> buffer \<Rightarrow> string \<Rightarrow> 'b StreamHook \<Rightarrow> 'b StreamHook" where
  "on_frame decode now data userId st = (case client_parseFrame data of
     None \<Rightarrow> st
   | Some (type, payload) \<Rightarrow>
       if type = 0x02 \<or> type = 0x01 then (case decode payload of
           None \<Rightarrow> st
         | Some bitmap \<Rightarrow> updateStream userId
             (\<lambda>s. s\<lparr>xm_screenBitmap := Some bitmap, xm_lastFrameAt := now\<rparr>) st)
       else if type = 0x03 then (case decode payload of
           None \<Rightarrow> st
         | Some bitmap \<Rightarrow> updateStream userId (\<lambda>s. s\<lparr>xm_cameraBitmap := Some bitmap\<rparr>) st)
       else if type = 0x04 then updateStream userId (\<lambda>s. s\<lparr>xm_audioLevel := computeAudioLevel payload\<rparr>) st
       else st)"

definition on_mode_changed :: "string \<Rightarrow> string \<Rightarrow> 'b StreamHook \<Rightarrow> 'b StreamHook" where
  "on_mode_changed userId mode = updateStream userId (\<lambda>s. s\<lparr>xm_mode := mode\<rparr>)"

definition stream_subscribe :: "string \<Rightarrow> 'b StreamHook \<Rightarrow> 'b StreamHook" where
  "stream_subscribe userId st = st\<lparr>xs_emitted := xs_emitted st @ [(''subscribe'', userId)]\<rparr>"

definition stream_unsubscribe :: "string \<Rightarrow> 'b StreamHook \<Rightarrow> 'b StreamHook" where
  "stream_unsubscribe userId st = st\<lparr>xs_emitted := xs_emitted st @ [(''unsubscribe'', userId)]\<rparr>"

definition hook_requestStream :: "bool \<Rightarrow> string \<Rightarrow> 'b StreamHook \<Rightarrow> bool \<times> 'b StreamHook" where
  "hook_requestStream ok userId st =
     (let st1 = st\<lparr>xs_calls := xs_calls st @ [''/streaming/request/'' @ userId]\<rparr>
      in if ok then (True, stream_subscribe userId st1) else (False, st1))"

definition hook_stopStream :: "bool \<Rightarrow> string \<Rightarrow> 'b StreamHook \<Rightarrow> 'b StreamHook" where
  "hook_stopStream ok userId st =
     (let st1 = st\<lparr>xs_calls := xs_calls st @ [''/streaming/request/'' @ userId @ ''/stop'']\<rparr>
      in if ok then stream_unsubscribe userId st1 else st1)"

definition muteStream :: "string \<Rightarrow> bool \<Rightarrow> 'b StreamHook \<Rightarrow> 'b StreamHook" where
  "muteStream userId muted st = st\<lparr>xs_mutedStreams :=
     (if muted then insert userId (xs_mutedStreams st) else xs_mutedStreams st - {userId})\<rparr>"

section \<open>The full-screen view\<close>

record LiveView =
  lv_lastId :: "string option"
  lv_currentUrl :: "string option"
  lv_prevUrl :: "string option"
  lv_capturedAt :: "string option"

definition pushNewFrame :: "string \<Rightarrow> string \<Rightarrow> string \<Rightarrow> LiveView \<Rightarrow> LiveView" where
  "pushNewFrame i url ts v =
     (if url = [] then v
      else if Some i = lv_lastId v then v
      else \<lparr>lv_lastId = Some i, lv_currentUrl = Some url, lv_prevUrl = lv_currentUrl v, lv_capturedAt = Some ts\<rparr>)"

text \<open>The handler of \<open>employee:screenshot\<close>; \<open>toISO\<close> is the time as the JSON of the event has it.\<close>

definition on_screenshot_event ::
  "string \<Rightarrow> string option \<Rightarrow> string \<Rightarrow> string option \<Rightarrow> string \<Rightarrow> string \<Rightarrow> string \<Rightarrow> LiveView \<Rightarrow> LiveView" where
  "on_screenshot_event userId deviceId p_userId p_deviceId screenshotId capturedAt url v =
     (if \<not> falsy_str deviceId
      then (if p_deviceId \<noteq> deviceId then v else pushNewFrame screenshotId url capturedAt v)
      else if p_userId \<noteq> userId then v else pushNewFrame screenshotId url capturedAt v)"

text \<open>The poll shows the first of the rows the API returns, unless the view has closed meanwhile.\<close>

definition on_poll :: "bool \<Rightarrow> (string \<times> string \<times> string) list \<Rightarrow> LiveView \<Rightarrow> LiveView" where
  "on_poll cancelled shots v = (if cancelled then v else case shots of
     [] \<Rightarrow> v | (i, url, ts) # _ \<Rightarrow> pushNewFrame i url ts v)"

section \<open>Client and server agree on the frames\<close>

text \<open>
  The parser of the browser and the one of the server agree on every buffer: one accepts it
  exactly when the other does, with the same type and payload.
\<close>

theorem client_parser_equivalent:
  "client_parseFrame buf = (case parseFrame buf of Inl _ \<Rightarrow> None | Inr r \<Rightarrow> Some r)"
  by (simp add: client_parseFrame_def parseFrame_def HEADER_SIZE_def Let_def)

lemma samples16_length: "length (samples16 b) = length b div 2"
  by (induction b rule: samples16.induct) simp_all

lemma sample_bound: "(of_int (sint (w :: 16 word)) / 32768 :: real)\<^sup>2 \<le> 1"
proof -
  define i where "i = sint w"
  have "- 32768 \<le> i" "i < 32768" using sint_ge [of w] sint_lt [of w] by (simp_all add: i_def)
  then have "\<bar>of_int i / 32768 :: real\<bar> \<le> 1" by (simp add: abs_le_iff)
  then show ?thesis unfolding i_def by (simp add: abs_square_le_1)
qed

text \<open>
  The level meter of a stream stays between 0 and 1 for every audio frame, an empty one, one
  of odd length and full-scale samples of either sign included.
\<close>

theorem audio_level_bounds:
  "0 \<le> computeAudioLevel pcm \<and> computeAudioLevel pcm \<le> 1"
proof -
  define xs where "xs = map (\<lambda>w. (of_int (sint w) / 32768 :: real)\<^sup>2) (samples16 pcm)"
  have "sum_list ys \<le> of_nat (length ys)" if "\<forall>y \<in> set ys. y \<le> 1" for ys :: "real list"
    using that by (induction ys) auto
  from this [of xs] have up: "sum_list xs \<le> of_nat (length pcm div 2)"
    using sample_bound by (simp add: xs_def samples16_length)
  have low: "0 \<le> sum_list xs" unfolding xs_def by (rule sum_list_nonneg) auto
  have "sum_list xs / of_nat (max 1 (length pcm div 2)) \<le> 1"
    using up by (simp add: divide_le_eq_1 max_def)
  moreover have "computeAudioLevel pcm = sqrt (sum_list xs / of_nat (max 1 (length pcm div 2)))"
    by (simp only: computeAudioLevel_def Let_def xs_def)
  ultimately show ?thesis using low by simp
qed

section \<open>A frame after the end\<close>

text \<open>A frame that arrives after \<open>stream:offline\<close> brings the stream back under a default entry.\<close>

lemma late_frame_revives_stream:
  "client_parseFrame data = Some (2, payload) \<Longrightarrow> decode payload = Some b \<Longrightarrow>
   xs_streams (on_frame decode now data u (on_offline u st)) u \<noteq> None"
  by (simp add: on_frame_def updateStream_def Let_def)

end
