(* ===== verification/WebSession.thy ===== *)
theory WebSession
  imports Auth
begin

text \<open>
  The session of the web client: NextAuth's callbacks (lib/auth.ts) and the interceptors of the
  API client (lib/api.ts), composed with the refresh handler of the server (\<open>Auth\<close>). \<open>post\<close> is a
  request of the client, with the state of the server: None when axios rejects. \<open>exp_of\<close> decodes
  the expiry of an access token in seconds, None when decoding throws; a token has an expiry.
  Every call of the \<open>jwt\<close> callback starts from the token in the cookie of its own request.
\<close>

record SessionUser =
  wu_id :: string
  wu_role :: string
  wu_organizationId :: string
  wu_accessToken :: string
  wu_refreshToken :: string

record SessionToken =
  ht_sub :: string
  ht_accessToken :: "string option"
  ht_refreshToken :: "string option"
  ht_role :: string
  ht_organizationId :: string
  ht_accessTokenExpires :: "js_time option"
  ht_error :: "string option"

record WebSession =
  hw_userId :: string
  hw_role :: string
  hw_organizationId :: string
  hw_accessToken :: "string option"
  hw_error :: "string option"

definition refreshAccessToken ::
  "(string option \<Rightarrow> 's \<Rightarrow> (string \<times> string option) option \<times> 's) \<Rightarrow> string option \<Rightarrow> 's \<Rightarrow>
   (string option \<times> string option \<times> string option) \<times> 's" where
  "refreshAccessToken post refreshToken server =
     (case post refreshToken server of
        (Some (accessToken, newRefreshToken), server') \<Rightarrow>
          ((Some accessToken, case newRefreshToken of None \<Rightarrow> refreshToken | Some t \<Rightarrow> Some t, None), server')
      | (None, server') \<Rightarrow> ((None, refreshToken, Some ''RefreshFailed''), server'))"

definition session_authorize ::
  "(string \<Rightarrow> string \<Rightarrow> 's \<Rightarrow> SessionUser option \<times> 's) \<Rightarrow> string option \<Rightarrow> string option \<Rightarrow> 's \<Rightarrow>
   SessionUser option \<times> 's" where
  "session_authorize login email password server =
     (if falsy_str email \<or> falsy_str password then (None, server)
      else login (the email) (the password) server)"

definition expires_at :: "(string \<Rightarrow> int option) \<Rightarrow> js_time \<Rightarrow> string \<Rightarrow> js_time" where
  "expires_at exp_of now accessToken = (case exp_of accessToken of
     Some e \<Rightarrow> e * 1000 | None \<Rightarrow> now + 7 * 24 * 60 * 60 * 1000)"

definition jwt_callback ::
  "(string option \<Rightarrow> 's \<Rightarrow> (string \<times> string option) option \<times> 's) \<Rightarrow> (string \<Rightarrow> int option) \<Rightarrow> js_time \<Rightarrow>
   SessionUser option \<Rightarrow> SessionToken \<Rightarrow> 's \<Rightarrow> SessionToken \<times> 's" where
  "jwt_callback post exp_of now user token server = (case user of
     Some u \<Rightarrow> (token\<lparr>ht_accessToken := Some (wu_accessToken u), ht_refreshToken := Some (wu_refreshToken u),
         ht_role := wu_role u, ht_organizationId := wu_organizationId u,
         ht_accessTokenExpires := Some (expires_at exp_of now (wu_accessToken u))\<rparr>, server)
   | None \<Rightarrow>
       if now < nullish (ht_accessTokenExpires token) 0 - 5 * 60 * 1000 then (token, server)
       else case refreshAccessToken post (ht_refreshToken token) server of
         ((accessToken, refreshToken, err), server') \<Rightarrow>
           if err \<noteq> None then (token\<lparr>ht_error := Some ''RefreshFailed''\<rparr>, server')
           else (token\<lparr>ht_accessTokenExpires := Some (expires_at exp_of now (the accessToken)),
               ht_accessToken := accessToken, ht_refreshToken := refreshToken\<rparr>, server'))"

definition session_callback :: "SessionToken \<Rightarrow> WebSession" where
  "session_callback token = \<lparr>hw_userId = ht_sub token, hw_role = ht_role token,
     hw_organizationId = ht_organizationId token, hw_accessToken = ht_accessToken token,
     hw_error = ht_error token\<rparr>"

text \<open>
  The interceptors of the API client: whether the user is signed out, and the Authorization header
  of the request; and what a failed response does.
\<close>

definition api_request :: "WebSession option \<Rightarrow> bool \<times> string option" where
  "api_request session = (case session of
     None \<Rightarrow> (False, None)
   | Some s \<Rightarrow> if hw_error s = Some ''RefreshFailed'' then (True, None)
       else if falsy_str (hw_accessToken s) then (False, None)
       else (False, Some (''Bearer '' @ the (hw_accessToken s))))"

definition api_response_error :: "int option \<Rightarrow> bool" where
  "api_response_error status \<longleftrightarrow> status = Some 401"

text \<open>The server's answer to POST /auth/refresh.\<close>

definition server_refresh ::
  "'s auth_env \<Rightarrow> fresh_auth \<Rightarrow> string option \<Rightarrow> 's AuthService \<Rightarrow>
   (string \<times> string option) option \<times> 's AuthService" where
  "server_refresh E F tok st = (case refreshTokens E F tok st of
     (Inl e, st') \<Rightarrow> (None, st')
   | (Inr res, st') \<Rightarrow> (Some (tr_accessToken res, Some (tr_refreshToken res)), st'))"

section \<open>Two requests at once\<close>

text \<open>
  The same when the handler made its reads earlier, in the state \<open>read\<close>, and makes its writes now. What it
  answers depends on the reads alone.
\<close>

definition server_refresh_since ::
  "'s auth_env \<Rightarrow> fresh_auth \<Rightarrow> 's AuthService \<Rightarrow> string option \<Rightarrow> 's AuthService \<Rightarrow>
   (string \<times> string option) option \<times> 's AuthService" where
  "server_refresh_since E F read tok st = (case refresh_stored E (fa_now F) tok read of
     Inl e \<Rightarrow> (None, st)
   | Inr stored \<Rightarrow> (case refresh_owner E stored read of
       Inl e \<Rightarrow> (None, st)
     | Inr user \<Rightarrow> (case generateTokens E F user (refresh_revoke E (fa_now F) stored st) of
         (res, st') \<Rightarrow> (Some (tr_accessToken res, Some (tr_refreshToken res)), st'))))"

lemma server_refresh_now: "server_refresh_since E F st tok st = server_refresh E F tok st"
  by (simp add: server_refresh_since_def server_refresh_def refreshTokens_def split: sum.split prod.split)

lemma stored_found:
  assumes R: "repository (ax_tokens E) rt_id" and K: "keyed rt_token (au_tokens st)"
    and r: "r \<in> set (au_tokens st)" "\<not> rt_revoked r" "now \<le> rt_expiresAt r"
  shows "refresh_stored E now (Some (rt_token r)) st = Inr r"
proof -
  have "find_one (ax_tokens E) (\<lambda>x. where_opt (ax_tokens E) (Some (rt_token r)) (rt_token x) \<and> \<not> rt_revoked x)
      (au_tokens st) = Some r"
    by (rule repository.find_one_unique [OF R r(1)]) (use r(2) keyed_same [OF K _ r(1)] in \<open>auto simp: where_opt_def\<close>)
  then show ?thesis using r(3) by (simp add: refresh_stored_def)
qed

lemma stored_spent:
  assumes R: "repository (ax_tokens E) rt_id" and "spent tok st"
  shows "refresh_stored E now (Some tok) st = Inl (Unauthorized ''Invalid or expired refresh token'')"
proof -
  have "find_one (ax_tokens E) (\<lambda>r. where_opt (ax_tokens E) (Some tok) (rt_token r) \<and> \<not> rt_revoked r)
      (au_tokens st) = None"
    using assms(2) by (auto simp: repository.find_one_None [OF R] where_opt_def spent_def)
  then show ?thesis by (simp add: refresh_stored_def)
qed

lemma revoked_spent:
  assumes R: "repository (ax_tokens E) rt_id" and K: "keyed rt_token (au_tokens st)" and r: "r \<in> set (au_tokens st)"
  shows "spent (rt_token r) (refresh_revoke E now r st)"
  unfolding spent_def refresh_revoke_def
  using keyed_same [OF K _ r] by (auto simp: repository.set_update [OF R] split: if_splits)

lemma refused_callback:
  assumes "ht_refreshToken c = Some tok" and "nullish (ht_accessTokenExpires c) 0 - 300000 \<le> now"
    and "refresh_stored E (fa_now G) (Some tok) read = Inl e"
  shows "jwt_callback (server_refresh_since E G read) exp_of now None c st = (c\<lparr>ht_error := Some ''RefreshFailed''\<rparr>, st)"
  using assms by (simp add: jwt_callback_def refreshAccessToken_def server_refresh_since_def)

lemma served_callback:
  assumes "ht_refreshToken c = Some tok" and "nullish (ht_accessTokenExpires c) 0 - 300000 \<le> now" "ht_error c = None"
    and "refresh_stored E (fa_now G) (Some tok) read = Inr r" and "refresh_owner E r read = Inr user"
  shows "\<exists>c'. jwt_callback (server_refresh_since E G read) exp_of now None c st =
      (c', snd (generateTokens E G user (refresh_revoke E (fa_now G) r st))) \<and>
    ht_error c' = None \<and> ht_refreshToken c' = Some (fa_refresh G)"
  using assms by (auto simp: jwt_callback_def refreshAccessToken_def server_refresh_since_def generateTokens_def)

text \<open>
  C29. Two requests of a browser find the access token about to expire, and each exchanges the refresh token of
  its own cookie, valid so far. The first is served. What becomes of the second depends on when the server reads
  the token for it. If it does so before the first has revoked the token, both are served, and the one token
  has become two that are valid; if it does so afterwards, before or after the first has stored its new token,
  the second gets the error that makes the API client sign the user out.
\<close>

theorem parallel_refresh:
  assumes R: "repository (ax_tokens E) rt_id" and K: "keyed rt_token (au_tokens st)"
    and r: "r \<in> set (au_tokens st)" "\<not> rt_revoked r" "fa_now F \<le> rt_expiresAt r" "fa_now G \<le> rt_expiresAt r"
    and owner: "refresh_owner E r st = Inr user"
    and new: "fa_refresh F \<noteq> rt_token r" "fa_rowId F \<notin> rt_id ` set (au_tokens st)"
      "fa_rowId G \<notin> rt_id ` set (au_tokens st)" "fa_rowId F \<noteq> fa_rowId G"
    and c: "ht_refreshToken c = Some (rt_token r)" "ht_error c = None"
    and due: "nullish (ht_accessTokenExpires c) 0 - 300000 \<le> now"
  shows "let (c1, s1) = jwt_callback (server_refresh_since E F st) exp_of now None c st;
      second = (\<lambda>read. jwt_callback (server_refresh_since E G read) exp_of now None c s1)
    in ht_error c1 = None \<and> ht_refreshToken c1 = Some (fa_refresh F) \<and>
      (case second st of (c2, s2) \<Rightarrow> ht_error c2 = None \<and> ht_refreshToken c2 = Some (fa_refresh G) \<and>
        new_refresh F user \<in> set (au_tokens s2) \<and> new_refresh G user \<in> set (au_tokens s2)) \<and>
      (\<forall>read \<in> {refresh_revoke E (fa_now F) r st, s1}. case second read of (c2, s2) \<Rightarrow>
        ht_error c2 = Some ''RefreshFailed'' \<and> s2 = s1 \<and> api_request (Some (session_callback c2)) = (True, None))"
proof -
  let ?rev = "refresh_revoke E (fa_now F) r st"
  define s1 where "s1 = snd (generateTokens E F user ?rev)"
  have t1: "set (au_tokens s1) = {x \<in> set (au_tokens ?rev). rt_id x \<noteq> fa_rowId F} \<union> {new_refresh F user}"
    unfolding s1_def by (auto simp: generateTokens_def repository.set_save [OF R] new_refresh_def)
  have spent: "spent (rt_token r) ?rev" by (rule revoked_spent [OF R K r(1)])
  then have "spent (rt_token r) s1" unfolding spent_def t1 using new(1) by (auto simp: new_refresh_def)
  note refused = refused_callback [OF c(1) due stored_spent [OF R spent]] refused_callback [OF c(1) due stored_spent [OF R this]]
  have found: "refresh_stored E now' (Some (rt_token r)) st = Inr r" if "now' \<le> rt_expiresAt r" for now'
    by (rule stored_found [OF R K r(1,2) that])
  obtain c1 where c1: "jwt_callback (server_refresh_since E F st) exp_of now None c st = (c1, s1)"
    "ht_error c1 = None" "ht_refreshToken c1 = Some (fa_refresh F)"
    using served_callback [OF c(1) due c(2) found [OF r(3)] owner, of exp_of st] unfolding s1_def by blast
  define s2 where "s2 = snd (generateTokens E G user (refresh_revoke E (fa_now G) r s1))"
  obtain c2 where c2: "jwt_callback (server_refresh_since E G st) exp_of now None c s1 = (c2, s2)"
    "ht_error c2 = None" "ht_refreshToken c2 = Some (fa_refresh G)"
    using served_callback [OF c(1) due c(2) found [OF r(4)] owner, of exp_of s1] unfolding s2_def by blast
  have "fa_rowId F \<noteq> rt_id r" using new(2) r(1) by auto
  then have "new_refresh F user \<in> set (au_tokens (refresh_revoke E (fa_now G) r s1))"
    by (auto simp: refresh_revoke_def repository.set_update [OF R] t1 new_refresh_def image_iff)
  then have rows: "new_refresh F user \<in> set (au_tokens s2)" "new_refresh G user \<in> set (au_tokens s2)"
    unfolding s2_def using new(4) by (auto simp: generateTokens_def repository.set_save [OF R] new_refresh_def)
  show ?thesis unfolding c1(1) Let_def split c2(1)
    using c1 c2 rows refused by (simp add: session_callback_def api_request_def)
qed

definition stale_cookie :: SessionToken where
  "stale_cookie = \<lparr>ht_sub = ''u'', ht_accessToken = Some ''old'', ht_refreshToken = Some ''r0'',
     ht_role = ''employee'', ht_organizationId = ''o'', ht_accessTokenExpires = Some 0, ht_error = None\<rparr>"

theorem parallel_refresh_witness:
  "let (c1, s1) = jwt_callback (server_refresh_since (plain_auth file_kv) (nonce 5 ''r1'') (one_user empty_redis))
        (\<lambda>t. Some 9) 5 None stale_cookie (one_user empty_redis)
    in ht_error (fst (jwt_callback (server_refresh_since (plain_auth file_kv) (nonce 6 ''r2'') (one_user empty_redis))
        (\<lambda>t. Some 9) 5 None stale_cookie s1)) = None \<and>
      ht_error (fst (jwt_callback (server_refresh_since (plain_auth file_kv) (nonce 6 ''r2'') s1)
        (\<lambda>t. Some 9) 5 None stale_cookie s1)) = Some ''RefreshFailed''"
proof -
  let ?u = "new_user 0 ''u'' ''o'' ''a@x'' ''spw'' ''A'' [] ADMIN None"
  have u: "refresh_owner (plain_auth file_kv) (new_refresh (nonce 0 ''r0'') ?u) (one_user empty_redis) = Inr ?u"
    by (simp add: refresh_owner_def new_refresh_def new_user_def)
  show ?thesis
    using parallel_refresh [OF _ _ _ _ _ _ u, where F = "nonce 5 ''r1''" and G = "nonce 6 ''r2''" and c = stale_cookie
        and now = 5 and exp_of = "\<lambda>t. Some 9"]
    by (simp add: keyed_def stale_cookie_def Let_def new_refresh_def case_prod_unfold)
qed

section \<open>An error that stays\<close>

fun session_checks ::
  "(string \<Rightarrow> int option) \<Rightarrow> (js_time \<times> (string option \<Rightarrow> 's \<Rightarrow> (string \<times> string option) option \<times> 's)) list \<Rightarrow>
   SessionToken \<Rightarrow> 's \<Rightarrow> SessionToken \<times> 's" where
  "session_checks exp_of [] token server = (token, server)"
| "session_checks exp_of ((now, post) # cs) token server =
     (case jwt_callback post exp_of now None token server of
        (token', server') \<Rightarrow> session_checks exp_of cs token' server')"

text \<open>
  Nothing but a new sign-in clears a failed refresh: whatever the server answers to later
  checks, a successful refresh included, the next API request signs the user out.
\<close>

theorem failed_refresh_sticks:
  assumes "ht_error token = Some ''RefreshFailed''"
  shows "api_request (Some (session_callback (fst (session_checks exp_of cs token server)))) = (True, None)"
proof -
  have "ht_error (fst (session_checks exp_of cs token server)) = Some ''RefreshFailed''" using assms
  proof (induction exp_of cs token server rule: session_checks.induct)
    case (2 exp_of now post cs token server)
    have "ht_error (fst (jwt_callback post exp_of now None token server)) = Some ''RefreshFailed''"
      using "2.prems" by (auto simp: jwt_callback_def refreshAccessToken_def split: prod.split option.split)
    then show ?case using "2.IH" by (auto split: prod.split)
  qed simp
  then show ?thesis by (simp add: api_request_def session_callback_def)
qed

theorem failed_refresh_sticks_witness:
  "api_request (Some (session_callback (fst (session_checks (\<lambda>t. Some 9)
     [(100, \<lambda>tok s. (Some (''new'', None), s))] (stale_cookie\<lparr>ht_error := Some ''RefreshFailed''\<rparr>) ())))) = (True, None)"
  by (rule failed_refresh_sticks) simp

end
