(* ===== verification/HttpRoutes.thy ===== *)
theory HttpRoutes
  imports HttpLayer
begin

text \<open>
  What joins the web client and the controllers. A controller is the list of its routes, each with
  what its decorators say (method, path pattern, \<open>@Roles\<close>, the parameters behind \<open>ParseUUIDPipe\<close>)
  and its handler; \<open>dispatch\<close> is how Nest serves a request of a signed-in user: the first route in
  the order of declaration whose method and path fit, the roles guard, the pipes, the handler. A
  literal segment of a pattern fits itself, a segment \<open>:p\<close> any segment that is not empty (Express
  also takes other capitalisations and a trailing slash, which the client never sends). A hook of the
  client is the request it makes and, for a mutation, the query keys it invalidates. The cache of
  React Query is the locale \<open>cached_api\<close>: which keys a filter matches is a parameter.
\<close>

section \<open>Requests and routes\<close>

datatype http_method = GET | POST | PATCH | PUT | DELETE

record 'b request =
  rq_method :: http_method
  rq_path :: string
  rq_query :: "(string \<times> string option) list"
  rq_body :: "'b option"

type_synonym path_params = "(string \<times> string) list"

definition param :: "string \<Rightarrow> (string \<times> string) list \<Rightarrow> string" where
  "param name ps = nullish (map_of ps name) []"

text \<open>A member whose value is \<open>undefined\<close> is left out of the query string.\<close>

definition query_param :: "string \<Rightarrow> 'b request \<Rightarrow> string option" where
  "query_param name r = (case map_of (rq_query r) name of None \<Rightarrow> None | Some v \<Rightarrow> v)"

record ('b, 's, 'r) route =
  ro_method :: http_method
  ro_path :: string
  ro_roles :: "UserRole list option"
  ro_uuids :: "string list"
  ro_handler :: "User \<Rightarrow> path_params \<Rightarrow> 'b request \<Rightarrow> 's \<Rightarrow> 'r outcome \<times> 's"

fun add_char :: "char \<Rightarrow> string list \<Rightarrow> string list" where
  "add_char c [] = [[c]]"
| "add_char c (s # ss) = (c # s) # ss"

fun segments :: "string \<Rightarrow> string list" where
  "segments [] = [[]]"
| "segments (c # cs) = (if c = CHR 0x2F then [] # segments cs
     else add_char c (segments cs))"

fun path_match :: "string list \<Rightarrow> string list \<Rightarrow> path_params option" where
  "path_match [] [] = Some []"
| "path_match (p # ps) (s # ss) =
     (if p = [] then (if s = [] then path_match ps ss else None)
      else if hd p = CHR 0x3A then (if s = [] then None else map_option ((#) (tl p, s)) (path_match ps ss))
      else if p = s then path_match ps ss else None)"
| "path_match _ _ = None"

definition route_key :: "('b, 's, 'r) route \<Rightarrow> http_method \<times> string list" where
  "route_key ro = (ro_method ro, segments (ro_path ro))"

definition request_key :: "'b request \<Rightarrow> http_method \<times> string list" where
  "request_key r = (rq_method r, segments (rq_path r))"

definition route_match :: "'b request \<Rightarrow> ('b, 's, 'r) route \<Rightarrow> path_params option" where
  "route_match r ro = (if fst (route_key ro) = fst (request_key r)
     then path_match (snd (route_key ro)) (snd (request_key r)) else None)"

fun method_str :: "http_method \<Rightarrow> string" where
  "method_str GET = ''GET''"
| "method_str POST = ''POST''"
| "method_str PATCH = ''PATCH''"
| "method_str PUT = ''PUT''"
| "method_str DELETE = ''DELETE''"

definition cannot :: "'b request \<Rightarrow> http_error" where
  "cannot r = NotFound (''Cannot '' @ method_str (rq_method r) @ '' '' @ rq_path r)"

definition serve :: "(string \<Rightarrow> bool) \<Rightarrow> User \<Rightarrow> 'b request \<Rightarrow> path_params \<Rightarrow> ('b, 's, 'r) route \<Rightarrow> 's \<Rightarrow>
   'r outcome \<times> 's" where
  "serve uuid user r ps ro st =
     (case roles_canActivate (ro_roles ro) (Some user) of
        Inl e \<Rightarrow> (Inl e, st)
      | Inr _ \<Rightarrow> if \<exists>n \<in> set (ro_uuids ro). \<not> uuid (param n ps)
          then (Inl (BadRequest ''Validation failed (uuid is expected)''), st)
          else ro_handler ro user ps r st)"

fun dispatch :: "(string \<Rightarrow> bool) \<Rightarrow> ('b, 's, 'r) route list \<Rightarrow> User \<Rightarrow> 'b request \<Rightarrow> 's \<Rightarrow> 'r outcome \<times> 's" where
  "dispatch uuid [] user r st = (Inl (cannot r), st)"
| "dispatch uuid (ro # ros) user r st = (case route_match r ro of
     Some ps \<Rightarrow> serve uuid user r ps ro st
   | None \<Rightarrow> dispatch uuid ros user r st)"

text \<open>An id that the pipe accepts is one path segment.\<close>

definition uuid_pipe :: "(string \<Rightarrow> bool) \<Rightarrow> bool" where
  "uuid_pipe uuid \<longleftrightarrow> (\<forall>s. uuid s \<longrightarrow> s \<noteq> [] \<and> CHR 0x2F \<notin> set s)"

lemma add_char_not_Nil [simp]: "add_char c ss \<noteq> []"
  by (cases ss) simp_all

lemma segments_not_Nil [simp]: "segments s \<noteq> []"
  by (induction s) auto

lemma segments_plain [simp]: "CHR 0x2F \<notin> set s \<Longrightarrow> segments s = [s]"
  by (induction s) auto

lemma segments_append [simp]: "CHR 0x2F \<notin> set s \<Longrightarrow> segments (s @ CHR 0x2F # t) = s # segments t"
  by (induction s) auto

lemma uuid_pipeD: "uuid_pipe uuid \<Longrightarrow> uuid s \<Longrightarrow> s \<noteq> []" "uuid_pipe uuid \<Longrightarrow> uuid s \<Longrightarrow> CHR 0x2F \<notin> set s"
  by (auto simp: uuid_pipe_def)

lemma route_match_other_method: "ro_method ro \<noteq> rq_method r \<Longrightarrow> route_match r ro = None"
  by (simp add: route_match_def route_key_def request_key_def)

text \<open>A request that no route fits is answered with 404 and changes nothing.\<close>

lemma dispatch_nowhere:
  "(\<And>ro. ro \<in> set ros \<Longrightarrow> route_match r ro = None) \<Longrightarrow> dispatch uuid ros user r st = (Inl (cannot r), st)"
  by (induction ros) simp_all

text \<open>A route of a table is reached when no earlier route fits.\<close>

lemma dispatch_route:
  assumes "\<And>x. x \<in> set pre \<Longrightarrow> route_match r x = None" and "route_match r ro = Some ps"
  shows "dispatch uuid (pre @ ro # post) user r st = serve uuid user r ps ro st"
  using assms by (induction pre) simp_all

text \<open>Whatever the request, only the roles named by the route reach its handler.\<close>

lemma serve_forbidden:
  "roles_canActivate (ro_roles ro) (Some user) = Inl e \<Longrightarrow> serve uuid user r ps ro st = (Inl e, st)"
  by (simp add: serve_def)

section \<open>Handlers\<close>

text \<open>The clock and the id the database hands out are arguments of a request.\<close>

record api_call =
  tn_now :: js_time
  tn_id :: string

definition map_result :: "('a \<Rightarrow> 'b) \<Rightarrow> 'a outcome \<times> 's \<Rightarrow> 'b outcome \<times> 's" where
  "map_result f r = (case fst r of Inl e \<Rightarrow> Inl e | Inr x \<Rightarrow> Inr (f x), snd r)"

definition ok_result :: "('a \<Rightarrow> 'b) \<Rightarrow> 'a \<times> 's \<Rightarrow> 'b outcome \<times> 's" where
  "ok_result f r = (Inr (f (fst r)), snd r)"

lemma map_result_simps [simp]:
  "map_result f (Inl e, st) = (Inl e, st)" "map_result f (Inr x, st) = (Inr (f x), st)"
  "snd (map_result f r) = snd r"
  by (simp_all add: map_result_def)

definition missing_body :: http_error where "missing_body = BadRequest ''Bad Request''"

abbreviation admins :: "UserRole list option" where "admins \<equiv> Some [ADMIN]"

abbreviation managers :: "UserRole list option" where "managers \<equiv> Some [ADMIN, MANAGER]"

lemma map_result_fst_Inl [simp]: "fst (map_result f r) = Inl e \<longleftrightarrow> fst r = Inl e"
  by (simp add: map_result_def split: sum.split)

section \<open>Hooks\<close>

datatype key_part = Key string | KeyParams "(string \<times> string option) list"

type_synonym query_key = "key_part list"

record 'b query_hook =
  qh_key :: query_key
  qh_request :: "'b request"
  qh_enabled :: bool
  qh_refetchInterval :: "int option"

record 'b mutation_hook =
  mh_requests :: "'b request list"
  mh_invalidates :: "query_key list"
  mh_success :: "string option"
  mh_failure :: "string option"

definition a_query :: "query_key \<Rightarrow> string \<Rightarrow> (string \<times> string option) list \<Rightarrow> 'b query_hook" where
  "a_query key path params = \<lparr>qh_key = key,
     qh_request = \<lparr>rq_method = GET, rq_path = path, rq_query = params, rq_body = None\<rparr>,
     qh_enabled = True, qh_refetchInterval = None\<rparr>"

definition a_mutation ::
  "http_method \<Rightarrow> string \<Rightarrow> 'b option \<Rightarrow> query_key list \<Rightarrow> string option \<Rightarrow> string option \<Rightarrow> 'b mutation_hook" where
  "a_mutation meth path body keys success failure = \<lparr>
     mh_requests = [\<lparr>rq_method = meth, rq_path = path, rq_query = [], rq_body = body\<rparr>],
     mh_invalidates = keys, mh_success = success, mh_failure = failure\<rparr>"

lemma a_query_simps [simp]:
  "qh_key (a_query k p ps) = k"
  "qh_request (a_query k p ps) = \<lparr>rq_method = GET, rq_path = p, rq_query = ps, rq_body = None\<rparr>"
  "qh_enabled (a_query k p ps)" "qh_refetchInterval (a_query k p ps) = None"
  by (simp_all add: a_query_def)

lemma a_mutation_simps [simp]:
  "mh_requests (a_mutation m p b ks s f) = [\<lparr>rq_method = m, rq_path = p, rq_query = [], rq_body = b\<rparr>]"
  "mh_invalidates (a_mutation m p b ks s f) = ks"
  "mh_success (a_mutation m p b ks s f) = s" "mh_failure (a_mutation m p b ks s f) = f"
  by (simp_all add: a_mutation_def)

text \<open>
  The toast of a failed mutation: the server's message when the response has one, else the text of
  the hook.
\<close>

definition failure_toast :: "'b mutation_hook \<Rightarrow> string option \<Rightarrow> string option" where
  "failure_toast h message = map_option (nullish message) (mh_failure h)"

text \<open>
  The requests of one mutation, in order; each has its own clock and ids, \<open>send n\<close>. The mutation
  succeeds when every request does.
\<close>

fun send_all :: "(nat \<Rightarrow> 'b request \<Rightarrow> 's \<Rightarrow> 'r outcome \<times> 's) \<Rightarrow> nat \<Rightarrow> 'b request list \<Rightarrow> 's \<Rightarrow> bool \<times> 's" where
  "send_all send n [] st = (True, st)"
| "send_all send n (r # rs) st = (case send n r st of (res, st1) \<Rightarrow>
     (case send_all send (Suc n) rs st1 of (ok, st2) \<Rightarrow> ((\<exists>x. res = Inr x) \<and> ok, st2)))"

lemma send_all_one:
  "send_all send n [r] st = ((\<exists>x. fst (send n r st) = Inr x), snd (send n r st))"
  by (simp split: prod.split)

lemma send_all_keeps:
  assumes "\<And>n r st. r \<in> set rs \<Longrightarrow> f (snd (send n r st)) = f st"
  shows "f (snd (send_all send n rs st)) = f st"
  using assms
proof (induction rs arbitrary: n st)
  case (Cons r rs)
  have "f (snd (send_all send (Suc n) rs st1)) = f st1" for st1 by (rule Cons.IH) (use Cons.prems in simp)
  then show ?case using Cons.prems [of r n st] by (simp split: prod.split) (metis snd_conv)
qed simp

text \<open>
  The value of a hook is the member \<open>data\<close> of the body; a member that is not there is \<open>undefined\<close>,
  and so is any member of a value that is no object.
\<close>

fun json_member :: "string \<Rightarrow> json \<Rightarrow> json option" where
  "json_member k (JObj ps) = map_of ps k"
| "json_member k _ = None"

lemma envelope_members [simp]:
  "json_member ''data'' (transform_intercept now (Some d)) = Some d"
  "json_member ''count'' (transform_intercept now (Some d)) = None"
  by (simp_all add: transform_intercept_def)

section \<open>The cache of the client\<close>

text \<open>
  \<open>invalidateQueries\<close> is documented to match every query whose key starts with the given one.
\<close>

definition key_filter :: "(query_key \<Rightarrow> query_key \<Rightarrow> bool) \<Rightarrow> bool" where
  "key_filter matches \<longleftrightarrow> (\<forall>f k. take (length f) k = f \<longrightarrow> matches f k)"

text \<open>
  A client sends mutations and reads queries: \<open>perform\<close> says whether the mutation succeeded and
  what it did to the server, \<open>answer\<close> what the server would say now. The law: a query none of whose
  matching keys is invalidated has the same answer after the mutation. \<open>watched\<close> are the queries
  the law is claimed for. A step is a whole exchange: the request, the commit, the response and
  \<open>onSuccess\<close>. What happens between them (a fetch in flight while a mutation commits, a response that is lost after
  the commit) and what other users and tabs do to the server are not steps, so the theorems over this relation are
  about one client that waits for every answer.
\<close>

datatype ('q, 'm) client_action = Fetch 'q | Mutate 'm

definition client_step ::
  "(query_key \<Rightarrow> query_key \<Rightarrow> bool) \<Rightarrow> ('q \<Rightarrow> query_key) \<Rightarrow> ('m \<Rightarrow> query_key list) \<Rightarrow> ('q \<Rightarrow> 's \<Rightarrow> 'd) \<Rightarrow>
   ('m \<Rightarrow> 's \<Rightarrow> bool \<times> 's) \<Rightarrow> ('q, 'm) client_action \<Rightarrow> ('q \<rightharpoonup> 'd \<times> bool) \<times> 's \<Rightarrow> ('q \<rightharpoonup> 'd \<times> bool) \<times> 's" where
  "client_step matches key invalidates answer perform x c = (case x of
     Fetch q \<Rightarrow> ((fst c)(q \<mapsto> (answer q (snd c), False)), snd c)
   | Mutate m \<Rightarrow> (case perform m (snd c) of
       (False, s') \<Rightarrow> (fst c, s')
     | (True, s') \<Rightarrow> ((\<lambda>q. map_option (\<lambda>(d, stale).
         (d, stale \<or> (\<exists>f \<in> set (invalidates m). matches f (key q)))) (fst c q)), s')))"

text \<open>Every result of \<open>Q\<close> that the cache holds as valid is what the server would answer now.\<close>

definition coherent :: "('q \<Rightarrow> 's \<Rightarrow> 'd) \<Rightarrow> 'q set \<Rightarrow> ('q \<rightharpoonup> 'd \<times> bool) \<times> 's \<Rightarrow> bool" where
  "coherent answer Q c \<longleftrightarrow> (\<forall>q \<in> Q. \<forall>d. fst c q = Some (d, False) \<longrightarrow> d = answer q (snd c))"

locale cached_api =
  fixes matches :: "query_key \<Rightarrow> query_key \<Rightarrow> bool"
    and key :: "'q \<Rightarrow> query_key"
    and invalidates :: "'m \<Rightarrow> query_key list"
    and answer :: "'q \<Rightarrow> 's \<Rightarrow> 'd"
    and perform :: "'m \<Rightarrow> 's \<Rightarrow> bool \<times> 's"
    and watched :: "'q \<Rightarrow> 'm \<Rightarrow> bool"
  assumes failed: "perform m s = (False, s') \<Longrightarrow> watched q m \<Longrightarrow> answer q s' = answer q s"
    and covered: "perform m s = (True, s') \<Longrightarrow> watched q m \<Longrightarrow>
      \<not> (\<exists>f \<in> set (invalidates m). matches f (key q)) \<Longrightarrow> answer q s' = answer q s"
begin

abbreviation step :: "('q, 'm) client_action \<Rightarrow> ('q \<rightharpoonup> 'd \<times> bool) \<times> 's \<Rightarrow> ('q \<rightharpoonup> 'd \<times> bool) \<times> 's" where
  "step \<equiv> client_step matches key invalidates answer perform"

lemma coherent_fetch: "coherent answer Q c \<Longrightarrow> coherent answer Q (step (Fetch q) c)"
  by (simp add: coherent_def client_step_def)

lemma coherent_mutate:
  assumes C: "coherent answer Q c" and w: "\<And>q. q \<in> Q \<Longrightarrow> watched q m"
  shows "coherent answer Q (step (Mutate m) c)"
proof (cases "perform m (snd c)")
  case (Pair ok s')
  show ?thesis
  proof (cases ok)
    case True
    then show ?thesis using C w covered [of m "snd c" s'] Pair
      by (auto simp: coherent_def client_step_def)
  next
    case False
    then show ?thesis using C w failed [of m "snd c" s'] Pair
      by (auto simp: coherent_def client_step_def)
  qed
qed

lemma coherent_runs:
  assumes "coherent answer Q c" and "\<And>q m. q \<in> Q \<Longrightarrow> Mutate m \<in> set xs \<Longrightarrow> watched q m"
  shows "coherent answer Q (fold step xs c)"
  using assms
proof (induction xs arbitrary: c)
  case (Cons x xs)
  have "coherent answer Q (step x c)"
  proof (cases x)
    case (Mutate m)
    then show ?thesis using Cons.prems by (auto intro: coherent_mutate)
  qed (use Cons.prems coherent_fetch in auto)
  then show ?case using Cons by auto
qed simp

end

end
