(* ===== verification/AuthWeb.thy ===== *)
theory AuthWeb
  imports WebSession HttpRoutes
begin

text \<open>
  Signing up, signing in and the flows that start with a mail, from the browser to the tables: the
  routes of AuthController (modules/auth), the links of MailerService (infrastructure/mailer), the pages
  of the web client (app/, middleware.ts), the forms (components/auth) and the banner that asks to verify
  the e-mail address. The body of a request is checked as its DTO says; whether a text is an e-mail address is
  a parameter of the server (class-validator) and one of the client (zod). The tokens in the links are
  hexadecimal, so that no character of them is encoded in a URL.
\<close>

section \<open>The controller\<close>

datatype auth_body =
    RegisterBody RegisterDto
  | LoginBody LoginDto
  | RefreshBody "string option"
  | ForgotBody string
  | ResetBody string string
  | AcceptBody string string string string

datatype auth_result = ASession AuthResult | AMessage string | ADone

record 's auth_web =
  zw_env :: "'s auth_env"
  zw_verify :: "js_time \<Rightarrow> string \<Rightarrow> JwtPayload option"
  zw_isEmail :: "string \<Rightarrow> bool"

type_synonym 's auth_route = "(auth_body, 's AuthService, auth_result) route"

text \<open>What the decorators of the DTOs accept.\<close>

definition RegisterDto_valid :: "'s auth_web \<Rightarrow> RegisterDto \<Rightarrow> bool" where
  "RegisterDto_valid W dto \<longleftrightarrow>
     2 \<le> length (rg_organizationName dto) \<and> length (rg_organizationName dto) \<le> 100 \<and>
     1 \<le> length (rg_firstName dto) \<and> length (rg_firstName dto) \<le> 100 \<and>
     1 \<le> length (rg_lastName dto) \<and> length (rg_lastName dto) \<le> 100 \<and>
     zw_isEmail W (rg_email dto) \<and>
     8 \<le> length (rg_password dto) \<and> length (rg_password dto) \<le> 100"

definition LoginDto_valid :: "'s auth_web \<Rightarrow> LoginDto \<Rightarrow> bool" where
  "LoginDto_valid W dto \<longleftrightarrow> zw_isEmail W (ln_email dto)"

definition ForgotPasswordDto_valid :: "'s auth_web \<Rightarrow> string \<Rightarrow> bool" where
  "ForgotPasswordDto_valid W email \<longleftrightarrow> zw_isEmail W email"

definition ResetPasswordDto_valid :: "string \<Rightarrow> bool" where
  "ResetPasswordDto_valid password \<longleftrightarrow> 8 \<le> length password"

definition AcceptInviteDto_valid :: "string \<Rightarrow> bool" where
  "AcceptInviteDto_valid password \<longleftrightarrow> 8 \<le> length password"

text \<open>
  \<open>ExtractJwt.fromAuthHeaderAsBearerToken\<close>, and JwtAuthGuard: passport verifies the token, then asks
  JwtStrategy for the user.
\<close>

definition bearer :: "string option \<Rightarrow> string option" where
  "bearer header = (case header of
     Some h \<Rightarrow> if startsWith h ''Bearer '' \<and> drop 7 h \<noteq> [] then Some (drop 7 h) else None
   | None \<Rightarrow> None)"

definition jwt_guard ::
  "'s auth_web \<Rightarrow> js_time \<Rightarrow> string option \<Rightarrow> (User \<Rightarrow> string \<Rightarrow> 's AuthService \<Rightarrow> 'r outcome \<times> 's AuthService) \<Rightarrow>
   's AuthService \<Rightarrow> 'r outcome \<times> 's AuthService" where
  "jwt_guard W now header handler st = (case bearer header of
     None \<Rightarrow> (Inl (Unauthorized ''Unauthorized''), st)
   | Some tok \<Rightarrow> (case zw_verify W now tok of
       None \<Rightarrow> (Inl (Unauthorized ''Unauthorized''), st)
     | Some payload \<Rightarrow> (case jwt_validate (zw_env W) now tok payload st of
         (Inl e, st1) \<Rightarrow> (Inl e, st1)
       | (Inr user, st1) \<Rightarrow> handler user tok st1)))"

definition ctl_register :: "'s auth_web \<Rightarrow> fresh_auth \<Rightarrow> string option \<Rightarrow> 's auth_route" where
  "ctl_register W F header = \<lparr>ro_method = POST, ro_path = ''/auth/register'', ro_roles = None,
     ro_uuids = [], ro_handler = (\<lambda>user ps r st. case rq_body r of
       Some (RegisterBody dto) \<Rightarrow> if RegisterDto_valid W dto
         then map_result ASession (auth_register (zw_env W) F dto st) else (Inl missing_body, st)
     | _ \<Rightarrow> (Inl missing_body, st))\<rparr>"

definition ctl_login :: "'s auth_web \<Rightarrow> fresh_auth \<Rightarrow> string option \<Rightarrow> 's auth_route" where
  "ctl_login W F header = \<lparr>ro_method = POST, ro_path = ''/auth/login'', ro_roles = None,
     ro_uuids = [], ro_handler = (\<lambda>user ps r st. case rq_body r of
       Some (LoginBody dto) \<Rightarrow> if LoginDto_valid W dto
         then map_result ASession (auth_login (zw_env W) F dto st) else (Inl missing_body, st)
     | _ \<Rightarrow> (Inl missing_body, st))\<rparr>"

definition ctl_logout :: "'s auth_web \<Rightarrow> fresh_auth \<Rightarrow> string option \<Rightarrow> 's auth_route" where
  "ctl_logout W F header = \<lparr>ro_method = POST, ro_path = ''/auth/logout'', ro_roles = None,
     ro_uuids = [], ro_handler = (\<lambda>user ps r st. jwt_guard W (fa_now F) header (\<lambda>u tok st1.
       (Inr ADone, auth_logout (zw_env W) (fa_now F) (u_id u) tok st1)) st)\<rparr>"

definition ctl_refresh :: "'s auth_web \<Rightarrow> fresh_auth \<Rightarrow> string option \<Rightarrow> 's auth_route" where
  "ctl_refresh W F header = \<lparr>ro_method = POST, ro_path = ''/auth/refresh'', ro_roles = None,
     ro_uuids = [], ro_handler = (\<lambda>user ps r st. map_result ASession (refreshTokens (zw_env W) F
       (case rq_body r of Some (RefreshBody tok) \<Rightarrow> tok | _ \<Rightarrow> None) st))\<rparr>"

text \<open>A missing query parameter is \<open>undefined\<close>, which the key of the token spells out.\<close>

definition ctl_verifyEmail :: "'s auth_web \<Rightarrow> fresh_auth \<Rightarrow> string option \<Rightarrow> 's auth_route" where
  "ctl_verifyEmail W F header = \<lparr>ro_method = GET, ro_path = ''/auth/verify-email'', ro_roles = None,
     ro_uuids = [], ro_handler = (\<lambda>user ps r st. map_result (\<lambda>_. AMessage ''Email verified successfully'')
       (verifyEmail (zw_env W) (fa_now F) (nullish (query_param ''token'' r) ''undefined'') st))\<rparr>"

definition ctl_resendVerification :: "'s auth_web \<Rightarrow> fresh_auth \<Rightarrow> string option \<Rightarrow> 's auth_route" where
  "ctl_resendVerification W F header = \<lparr>ro_method = POST, ro_path = ''/auth/resend-verification'',
     ro_roles = None, ro_uuids = [], ro_handler = (\<lambda>user ps r st. jwt_guard W (fa_now F) header (\<lambda>u tok st1.
       map_result (\<lambda>_. AMessage ''Verification email sent'') (resendVerification (zw_env W) F (u_id u) st1)) st)\<rparr>"

definition ctl_forgotPassword :: "'s auth_web \<Rightarrow> fresh_auth \<Rightarrow> string option \<Rightarrow> 's auth_route" where
  "ctl_forgotPassword W F header = \<lparr>ro_method = POST, ro_path = ''/auth/forgot-password'', ro_roles = None,
     ro_uuids = [], ro_handler = (\<lambda>user ps r st. case rq_body r of
       Some (ForgotBody email) \<Rightarrow> if ForgotPasswordDto_valid W email
         then (Inr (AMessage ''If that email exists, a reset link has been sent''),
               forgotPassword (zw_env W) F email st) else (Inl missing_body, st)
     | _ \<Rightarrow> (Inl missing_body, st))\<rparr>"

definition ctl_resetPassword :: "'s auth_web \<Rightarrow> fresh_auth \<Rightarrow> string option \<Rightarrow> 's auth_route" where
  "ctl_resetPassword W F header = \<lparr>ro_method = POST, ro_path = ''/auth/reset-password'', ro_roles = None,
     ro_uuids = [], ro_handler = (\<lambda>user ps r st. case rq_body r of
       Some (ResetBody tok password) \<Rightarrow> if ResetPasswordDto_valid password
         then map_result (\<lambda>_. AMessage ''Password reset successfully'')
           (resetPassword (zw_env W) F tok password st) else (Inl missing_body, st)
     | _ \<Rightarrow> (Inl missing_body, st))\<rparr>"

definition ctl_acceptInvite :: "'s auth_web \<Rightarrow> fresh_auth \<Rightarrow> string option \<Rightarrow> 's auth_route" where
  "ctl_acceptInvite W F header = \<lparr>ro_method = POST, ro_path = ''/auth/accept-invite'', ro_roles = None,
     ro_uuids = [], ro_handler = (\<lambda>user ps r st. case rq_body r of
       Some (AcceptBody tok firstName lastName password) \<Rightarrow> if AcceptInviteDto_valid password
         then map_result (\<lambda>_. AMessage ''Account set up successfully'')
           (acceptInvite (zw_env W) F tok firstName lastName password st) else (Inl missing_body, st)
     | _ \<Rightarrow> (Inl missing_body, st))\<rparr>"

definition auth_routes :: "'s auth_web \<Rightarrow> fresh_auth \<Rightarrow> string option \<Rightarrow> 's auth_route list" where
  "auth_routes W F header = [ctl_register W F header, ctl_login W F header, ctl_logout W F header,
     ctl_refresh W F header, ctl_verifyEmail W F header, ctl_resendVerification W F header,
     ctl_forgotPassword W F header, ctl_resetPassword W F header, ctl_acceptInvite W F header]"

text \<open>
  None of these routes asks for a role or looks at a user other than the one of its own guard, so
  the user a request of \<open>dispatch\<close> comes from is nobody in particular.
\<close>

definition nobody :: User where
  "nobody = new_user 0 [] [] [] [] [] [] EMPLOYEE None"

definition auth_api ::
  "'s auth_web \<Rightarrow> fresh_auth \<Rightarrow> string option \<Rightarrow> auth_body request \<Rightarrow> 's AuthService \<Rightarrow>
   auth_result outcome \<times> 's AuthService" where
  "auth_api W F header r st = dispatch (\<lambda>_. True) (auth_routes W F header) nobody r st"

section \<open>Links and pages\<close>

definition verification_url :: "string \<Rightarrow> string \<Rightarrow> string" where
  "verification_url appUrl token = appUrl @ ''/verify-email?token='' @ token"

definition invite_url :: "string \<Rightarrow> string \<Rightarrow> string" where
  "invite_url appUrl token = appUrl @ ''/accept-invite?token='' @ token"

definition password_reset_url :: "string \<Rightarrow> string \<Rightarrow> string" where
  "password_reset_url appUrl token = appUrl @ ''/reset-password?token='' @ token"

fun mail_link :: "string \<Rightarrow> mail \<Rightarrow> string" where
  "mail_link appUrl (Verification_email to tok) = verification_url appUrl tok"
| "mail_link appUrl (Invite_email to inviterName orgName tok) = invite_url appUrl tok"
| "mail_link appUrl (Password_reset_email to tok) = password_reset_url appUrl tok"

datatype page = Home | LoginPage | RegisterPage | ForgotPasswordPage | ResetPasswordPage
  | AcceptInvitePage | DashboardPage string

text \<open>
  The pages of app/ by the path of their directory, a literal segment before a dynamic one; a
  directory in parentheses is no segment.
\<close>

definition web_pages :: "(string \<times> page) list" where
  "web_pages = [(''/'', Home), (''/login'', LoginPage), (''/register'', RegisterPage),
     (''/forgot-password'', ForgotPasswordPage), (''/reset-password'', ResetPasswordPage),
     (''/accept-invite'', AcceptInvitePage)] @ map (\<lambda>p. (p, DashboardPage p))
     [''/overview'', ''/time-tracking'', ''/time-tracking/team'', ''/time-tracking/approvals'',
      ''/time-tracking/reports'', ''/admin'', ''/projects'', ''/projects/:id'', ''/monitoring'',
      ''/monitoring/screenshots'', ''/monitoring/:userId'', ''/gps'', ''/settings/users'',
      ''/settings/agent'', ''/settings/billing'', ''/settings/organization'', ''/integrations'',
      ''/onboarding/plan'', ''/live'', ''/alerts'', ''/analytics'']"

definition page_of :: "string \<Rightarrow> page option" where
  "page_of path = map_option snd (find (\<lambda>(p, _). path_match (segments p) (segments path) \<noteq> None) web_pages)"

text \<open>The paths behind NextAuth's middleware: \<open>/overview/:path*\<close> is /overview and all below it.\<close>

definition MATCHER :: "string list" where
  "MATCHER = [''overview'', ''monitoring'', ''live'', ''time-tracking'', ''analytics'', ''projects'', ''gps'',
     ''alerts'', ''integrations'', ''settings'', ''admin'', ''onboarding'']"

definition needs_session :: "string \<Rightarrow> bool" where
  "needs_session path \<longleftrightarrow> (\<exists>p \<in> set MATCHER. take 2 (segments path) = [[], p])"

fun split_at :: "char \<Rightarrow> string \<Rightarrow> string list" where
  "split_at sep [] = [[]]"
| "split_at sep (c # cs) = (if c = sep then [] # split_at sep cs else add_char c (split_at sep cs))"

text \<open>\<open>params.get(name)\<close>; its value ends at the next ampersand.\<close>

definition search_param :: "string \<Rightarrow> string \<Rightarrow> string option" where
  "search_param name url = map_option (\<lambda>kv. drop 1 (dropWhile (\<lambda>c. c \<noteq> CHR 0x3D) kv))
     (find (\<lambda>kv. takeWhile (\<lambda>c. c \<noteq> CHR 0x3D) kv = name)
       (split_at (CHR 0x26) (drop 1 (dropWhile (\<lambda>c. c \<noteq> CHR 0x3F) url))))"

datatype view = Shows page "string option" | Redirects string | Not_found_page

text \<open>HomePage sends visitors on; the other pages are shown with the parameter \<open>token\<close>.\<close>

definition open_url :: "bool \<Rightarrow> string \<Rightarrow> view" where
  "open_url signedIn url = (let path = takeWhile (\<lambda>c. c \<noteq> CHR 0x3F) url in
     if needs_session path \<and> \<not> signedIn then Redirects ''/login''
     else case page_of path of
       None \<Rightarrow> Not_found_page
     | Some Home \<Rightarrow> if signedIn then Redirects ''/overview'' else Redirects ''/login''
     | Some p \<Rightarrow> Shows p (search_param ''token'' url))"

section \<open>The forms\<close>

text \<open>
  What a submitted form ends with: messages at its fields and no request, a message that the link is no
  good, the page it goes to, the text of an error, or the note that a mail may be on its way.
\<close>

datatype form_result = Field_errors | Bad_link | Goes string | Fails string | Submitted

type_synonym 's auth_send = "nat \<Rightarrow> auth_body request \<Rightarrow> 's \<Rightarrow> auth_result outcome \<times> 's"

definition post_to :: "string \<Rightarrow> auth_body option \<Rightarrow> auth_body request" where
  "post_to path body = \<lparr>rq_method = POST, rq_path = path, rq_query = [], rq_body = body\<rparr>"

text \<open>The request NextAuth's \<open>authorize\<close> makes, and what it keeps of the answer.\<close>

definition server_login ::
  "(auth_body request \<Rightarrow> 's \<Rightarrow> auth_result outcome \<times> 's) \<Rightarrow> string \<Rightarrow> string \<Rightarrow> 's \<Rightarrow> SessionUser option \<times> 's" where
  "server_login send email password st =
     (case send (post_to ''/auth/login'' (Some (LoginBody \<lparr>ln_email = email, ln_password = password\<rparr>))) st of
        (Inr (ASession res), st') \<Rightarrow> (Some \<lparr>wu_id = pu_id (tr_user res), wu_role = role_str (pu_role (tr_user res)),
          wu_organizationId = pu_organizationId (tr_user res), wu_accessToken = tr_accessToken res,
          wu_refreshToken = tr_refreshToken res\<rparr>, st')
      | (_, st') \<Rightarrow> (None, st'))"

definition signIn ::
  "(auth_body request \<Rightarrow> 's \<Rightarrow> auth_result outcome \<times> 's) \<Rightarrow> string \<Rightarrow> string \<Rightarrow> 's \<Rightarrow> SessionUser option \<times> 's" where
  "signIn send email password st = session_authorize (server_login send) (Some email) (Some password) st"

definition login_schema :: "(string \<Rightarrow> bool) \<Rightarrow> LoginDto \<Rightarrow> bool" where
  "login_schema zodEmail d \<longleftrightarrow> zodEmail (ln_email d) \<and> 8 \<le> length (ln_password d)"

definition LoginForm ::
  "(string \<Rightarrow> bool) \<Rightarrow> 's auth_send \<Rightarrow> LoginDto \<Rightarrow> 's \<Rightarrow> (form_result \<times> SessionUser option) \<times> 's" where
  "LoginForm zodEmail send d st = (if \<not> login_schema zodEmail d then ((Field_errors, None), st)
     else case signIn (send 0) (ln_email d) (ln_password d) st of
       (None, st') \<Rightarrow> ((Fails ''Invalid email or password. Please try again.'', None), st')
     | (Some u, st') \<Rightarrow> ((Goes ''/overview'', Some u), st'))"

definition register_schema :: "(string \<Rightarrow> bool) \<Rightarrow> RegisterDto \<Rightarrow> bool" where
  "register_schema zodEmail d \<longleftrightarrow> 2 \<le> length (rg_organizationName d) \<and> 1 \<le> length (rg_firstName d) \<and>
     1 \<le> length (rg_lastName d) \<and> zodEmail (rg_email d) \<and>
     8 \<le> length (rg_password d) \<and> length (rg_password d) \<le> 100"

definition RegisterForm ::
  "(string \<Rightarrow> bool) \<Rightarrow> 's auth_send \<Rightarrow> RegisterDto \<Rightarrow> 's \<Rightarrow> (form_result \<times> SessionUser option) \<times> 's" where
  "RegisterForm zodEmail send d st = (if \<not> register_schema zodEmail d then ((Field_errors, None), st)
     else case send 0 (post_to ''/auth/register'' (Some (RegisterBody d))) st of
       (Inl e, st') \<Rightarrow> ((Fails (http_message e), None), st')
     | (Inr _, st') \<Rightarrow> (case signIn (send 1) (rg_email d) (rg_password d) st' of
         (None, st'') \<Rightarrow> ((Goes ''/login'', None), st'')
       | (Some u, st'') \<Rightarrow> ((Goes ''/overview'', Some u), st'')))"

definition ForgotPasswordForm :: "(string \<Rightarrow> bool) \<Rightarrow> 's auth_send \<Rightarrow> string \<Rightarrow> 's \<Rightarrow> form_result \<times> 's" where
  "ForgotPasswordForm zodEmail send email st = (if \<not> zodEmail email then (Field_errors, st)
     else (Submitted, snd (send 0 (post_to ''/auth/forgot-password'' (Some (ForgotBody email))) st)))"

record NewPassword =
  zf_firstName :: string
  zf_lastName :: string
  zf_password :: string
  zf_confirmPassword :: string

definition reset_schema :: "NewPassword \<Rightarrow> bool" where
  "reset_schema d \<longleftrightarrow> 8 \<le> length (zf_password d) \<and> zf_password d = zf_confirmPassword d"

definition accept_schema :: "NewPassword \<Rightarrow> bool" where
  "accept_schema d \<longleftrightarrow> 1 \<le> length (zf_firstName d) \<and> 1 \<le> length (zf_lastName d) \<and>
     8 \<le> length (zf_password d) \<and> zf_password d = zf_confirmPassword d"

definition form_answer :: "'r outcome \<times> 's \<Rightarrow> form_result \<times> 's" where
  "form_answer r = (case fst r of Inl e \<Rightarrow> Fails (http_message e) | Inr _ \<Rightarrow> Goes ''/login'', snd r)"

definition ResetPasswordForm ::
  "'s auth_send \<Rightarrow> string option \<Rightarrow> NewPassword \<Rightarrow> 's \<Rightarrow> form_result \<times> 's" where
  "ResetPasswordForm send token d st = (if nullish token [] = [] then (Bad_link, st)
     else if \<not> reset_schema d then (Field_errors, st)
     else form_answer (send 0 (post_to ''/auth/reset-password''
       (Some (ResetBody (nullish token []) (zf_password d)))) st))"

definition AcceptInviteForm ::
  "'s auth_send \<Rightarrow> string option \<Rightarrow> NewPassword \<Rightarrow> 's \<Rightarrow> form_result \<times> 's" where
  "AcceptInviteForm send token d st = (if nullish token [] = [] then (Bad_link, st)
     else if \<not> accept_schema d then (Field_errors, st)
     else form_answer (send 0 (post_to ''/auth/accept-invite''
       (Some (AcceptBody (nullish token []) (zf_firstName d) (zf_lastName d) (zf_password d)))) st))"

section \<open>The banner\<close>

text \<open>
  \<open>session.user\<close>: what NextAuth puts there from the token and what the session callback adds. A member that
  is not there is \<open>undefined\<close>.
\<close>

definition session_user :: "string \<Rightarrow> string \<Rightarrow> WebSession \<Rightarrow> (string \<times> json) list" where
  "session_user name email s = [(''name'', JStr name), (''email'', JStr email), (''id'', JStr (hw_userId s)),
     (''role'', JStr (hw_role s)), (''organizationId'', JStr (hw_organizationId s))]"

definition showBanner :: "bool \<Rightarrow> (string \<times> json) list option \<Rightarrow> bool" where
  "showBanner dismissed user \<longleftrightarrow> \<not> dismissed \<and> (case user of
     None \<Rightarrow> False | Some u \<Rightarrow> map_of u ''emailVerified'' = Some (JBool False))"

definition handleResend :: "'s auth_send \<Rightarrow> 's \<Rightarrow> bool \<times> 's" where
  "handleResend send st = (case send 0 (post_to ''/auth/resend-verification'' None) st of
     (Inr _, st') \<Rightarrow> (True, st')
   | (Inl _, st') \<Rightarrow> (False, st'))"

section \<open>What the requests of the forms reach\<close>

lemmas auth_route_defs = ctl_register_def ctl_login_def ctl_logout_def ctl_refresh_def ctl_verifyEmail_def
  ctl_resendVerification_def ctl_forgotPassword_def ctl_resetPassword_def ctl_acceptInvite_def

lemma auth_route_keys [simp]:
  "route_key (ctl_register W F h) = (POST, [[], ''auth'', ''register''])"
  "route_key (ctl_login W F h) = (POST, [[], ''auth'', ''login''])"
  "route_key (ctl_logout W F h) = (POST, [[], ''auth'', ''logout''])"
  "route_key (ctl_refresh W F h) = (POST, [[], ''auth'', ''refresh''])"
  "route_key (ctl_verifyEmail W F h) = (GET, [[], ''auth'', ''verify-email''])"
  "route_key (ctl_resendVerification W F h) = (POST, [[], ''auth'', ''resend-verification''])"
  "route_key (ctl_forgotPassword W F h) = (POST, [[], ''auth'', ''forgot-password''])"
  "route_key (ctl_resetPassword W F h) = (POST, [[], ''auth'', ''reset-password''])"
  "route_key (ctl_acceptInvite W F h) = (POST, [[], ''auth'', ''accept-invite''])"
  by (simp_all add: route_key_def auth_route_defs)

lemma auth_api_reaches:
  "auth_api W F h (post_to ''/auth/register'' (Some (RegisterBody d))) st = (if RegisterDto_valid W d
     then map_result ASession (auth_register (zw_env W) F d st) else (Inl missing_body, st))"
  "auth_api W F h (post_to ''/auth/login'' (Some (LoginBody l))) st = (if LoginDto_valid W l
     then map_result ASession (auth_login (zw_env W) F l st) else (Inl missing_body, st))"
  "auth_api W F h (post_to ''/auth/forgot-password'' (Some (ForgotBody email))) st =
     (if ForgotPasswordDto_valid W email
      then (Inr (AMessage ''If that email exists, a reset link has been sent''), forgotPassword (zw_env W) F email st)
      else (Inl missing_body, st))"
  "auth_api W F h (post_to ''/auth/reset-password'' (Some (ResetBody tok pw))) st = (if ResetPasswordDto_valid pw
     then map_result (\<lambda>_. AMessage ''Password reset successfully'') (resetPassword (zw_env W) F tok pw st)
     else (Inl missing_body, st))"
  "auth_api W F h (post_to ''/auth/accept-invite'' (Some (AcceptBody tok f l' pw))) st = (if AcceptInviteDto_valid pw
     then map_result (\<lambda>_. AMessage ''Account set up successfully'') (acceptInvite (zw_env W) F tok f l' pw st)
     else (Inl missing_body, st))"
  by (simp add: auth_api_def auth_routes_def route_match_def request_key_def post_to_def,
    simp add: serve_def roles_canActivate_def auth_route_defs)+

section \<open>Signing up\<close>

definition session_of :: "AuthResult \<Rightarrow> SessionUser" where
  "session_of res = \<lparr>wu_id = pu_id (tr_user res), wu_role = role_str (pu_role (tr_user res)),
     wu_organizationId = pu_organizationId (tr_user res), wu_accessToken = tr_accessToken res,
     wu_refreshToken = tr_refreshToken res\<rparr>"

lemma signIn_api:
  assumes "email \<noteq> []" and "pw \<noteq> []" and "zw_isEmail W email"
  shows "signIn (auth_api W F h) email pw st =
    (case auth_login (zw_env W) F \<lparr>ln_email = email, ln_password = pw\<rparr> st of
       (Inl e, st') \<Rightarrow> (None, st') | (Inr res, st') \<Rightarrow> (Some (session_of res), st'))"
  using assms by (simp add: signIn_def session_authorize_def server_login_def auth_api_reaches LoginDto_valid_def
      session_of_def map_result_def split: prod.split sum.split)

lemma signIn_result:
  assumes "email \<noteq> []" and "pw \<noteq> []" and "zw_isEmail W email"
  shows "fst (auth_login (zw_env W) F \<lparr>ln_email = email, ln_password = pw\<rparr> st) = Inr res \<Longrightarrow>
      fst (signIn (auth_api W F h) email pw st) = Some (session_of res)"
    and "fst (auth_login (zw_env W) F \<lparr>ln_email = email, ln_password = pw\<rparr> st) = Inl e \<Longrightarrow>
      fst (signIn (auth_api W F h) email pw st) = None"
  using assms by (auto simp: signIn_api split: prod.splits)

text \<open>bcrypt: the hash of a password made with a salt is accepted with that password.\<close>

definition hash_matches :: "'s auth_env \<Rightarrow> string \<Rightarrow> bool" where
  "hash_matches E salt \<longleftrightarrow> (\<forall>pw. ax_compare E pw (ax_hash E salt pw))"

lemma register_succeeds:
  assumes U: "repository (ax_users E) u_id" and G: "repository (ax_orgs E) org_id"
    and slug: "\<forall>g \<in> set (au_orgs st). org_slug g \<noteq> org_slug_of (rg_organizationName d) (fa_slugHex F)"
  shows "if \<exists>u \<in> set (au_users st). u_email u = toLowerCase (rg_email d)
    then auth_register E F d st =
      (Inl (Conflict ''An account with this email already exists. Please log in instead.''), st)
    else \<exists>res st'. auth_register E F d st = (Inr res, st')"
  using slug repository.find_one_None [OF G] repository.find_one_None [OF U]
  by (auto simp: auth_register_def Let_def generateTokens_def)

text \<open>
  C36. The registration form leads into the new workspace: a form that its schema accepts, with names the
  server accepts too, ends on the overview with a session of the administrator just created, the address
  in whatever capitals; when the address is taken it ends with the server's message and nothing has changed.
\<close>

theorem register_form_enters:
  assumes U: "repository (ax_users (zw_env W)) u_id" and G: "repository (ax_orgs (zw_env W)) org_id"
    and H: "hash_matches (zw_env W) (fa_salt (F 0))"
    and lower: "\<forall>u \<in> set (au_users st). toLowerCase (u_email u) = u_email u"
    and slug: "\<forall>g \<in> set (au_orgs st). org_slug g \<noteq> org_slug_of (rg_organizationName d) (fa_slugHex (F 0))"
    and form: "register_schema zodEmail d" and dto: "RegisterDto_valid W d" and email: "rg_email d \<noteq> []"
  shows "let r = RegisterForm zodEmail (\<lambda>n. auth_api W (F n) h) d st;
      taken = (\<exists>u \<in> set (au_users st). u_email u = toLowerCase (rg_email d));
      admin = new_user (fa_now (F 0)) (fa_userId (F 0)) (fa_orgId (F 0)) (toLowerCase (rg_email d))
        (ax_hash (zw_env W) (fa_salt (F 0)) (rg_password d)) (rg_firstName d) (rg_lastName d) ADMIN None in
    fst r = (if taken
      then (Fails ''An account with this email already exists. Please log in instead.'', None)
      else (Goes ''/overview'', Some \<lparr>wu_id = u_id admin, wu_role = ''admin'',
        wu_organizationId = u_organizationId admin,
        wu_accessToken = ax_sign (zw_env W) (fa_now (F 1)) (jwt_payload admin),
        wu_refreshToken = fa_refresh (F 1)\<rparr>)) \<and> (taken \<longrightarrow> snd r = st)"
proof (cases "\<exists>u \<in> set (au_users st). u_email u = toLowerCase (rg_email d)")
  case True
  then show ?thesis using register_succeeds [OF U G slug] form dto
    by (simp add: RegisterForm_def auth_api_reaches)
next
  case False
  let ?E = "zw_env W"
  let ?admin = "new_user (fa_now (F 0)) (fa_userId (F 0)) (fa_orgId (F 0)) (toLowerCase (rg_email d))
        (ax_hash ?E (fa_salt (F 0)) (rg_password d)) (rg_firstName d) (rg_lastName d) ADMIN None"
  obtain res st' where reg: "auth_register ?E (F 0) d st = (Inr res, st')"
    using register_succeeds [OF U G slug] False by auto
  have "fst (auth_login ?E (F 1) \<lparr>ln_email = rg_email d, ln_password = rg_password d\<rparr> st') =
      Inr \<lparr>tr_accessToken = ax_sign ?E (fa_now (F 1)) (jwt_payload ?admin), tr_refreshToken = fa_refresh (F 1),
        tr_user = public_user ?admin\<rparr>"
    using register_then_login [OF U lower reg, where l = "\<lparr>ln_email = rg_email d, ln_password = rg_password d\<rparr>"
        and G = "F 1"] H by (simp add: Let_def hash_matches_def)
  note login = signIn_result(1) [OF _ _ _ this, where h = h]
  have "rg_password d \<noteq> []" "zw_isEmail W (rg_email d)" using form dto
    by (auto simp: register_schema_def RegisterDto_valid_def)
  with login email have "fst (signIn (auth_api W (F 1) h) (rg_email d) (rg_password d) st') =
      Some (session_of \<lparr>tr_accessToken = ax_sign ?E (fa_now (F 1)) (jwt_payload ?admin),
        tr_refreshToken = fa_refresh (F 1), tr_user = public_user ?admin\<rparr>)" by simp
  then show ?thesis using reg form dto False
    by (auto simp: RegisterForm_def auth_api_reaches session_of_def public_user_def new_user_def Let_def
        split: prod.splits)
qed

section \<open>Losing a password\<close>

text \<open>A token is written in hexadecimal digits.\<close>

definition hex_token :: "string \<Rightarrow> bool" where
  "hex_token tok \<longleftrightarrow> tok \<noteq> [] \<and> set tok \<subseteq> set ''0123456789abcdef''"

lemma split_at_plain [simp]: "sep \<notin> set s \<Longrightarrow> split_at sep s = [s]"
  by (induction s) auto

lemma hex_token_plain: "hex_token tok \<Longrightarrow> tok \<noteq> []" "hex_token tok \<Longrightarrow> CHR 0x26 \<notin> set tok"
  by (auto simp: hex_token_def)

lemma reset_link_opens:
  "hex_token tok \<Longrightarrow> open_url signedIn (drop (length app) (password_reset_url app tok)) =
     Shows ResetPasswordPage (Some tok)"
  using hex_token_plain [of tok]
  by (simp add: verification_url_def invite_url_def password_reset_url_def open_url_def Let_def needs_session_def MATCHER_def page_of_def web_pages_def
      search_param_def)

lemma invite_link_opens:
  "hex_token tok \<Longrightarrow> open_url signedIn (drop (length app) (invite_url app tok)) =
     Shows AcceptInvitePage (Some tok)"
  using hex_token_plain [of tok]
  by (simp add: verification_url_def invite_url_def password_reset_url_def open_url_def Let_def needs_session_def MATCHER_def page_of_def web_pages_def
      search_param_def)

lemma verification_link_dead:
  "open_url signedIn (drop (length app) (verification_url app tok)) = Not_found_page"
  by (simp add: verification_url_def invite_url_def password_reset_url_def open_url_def Let_def needs_session_def MATCHER_def page_of_def web_pages_def)

text \<open>
  The server finds the address only as it is stored, in lower case: any other capitals get the same note
  and no mail.
\<close>

lemma forgot_needs_stored_address:
  assumes U: "repository (ax_users (zw_env W)) u_id"
    and lower: "\<forall>u \<in> set (au_users st). toLowerCase (u_email u) = u_email u"
    and typed: "toLowerCase email \<noteq> email" and form: "zodEmail email"
  shows "ForgotPasswordForm zodEmail (\<lambda>n. auth_api W (F n) h) email st = (Submitted, st)"
proof -
  have "find_one (ax_users (zw_env W)) (\<lambda>u. u_email u = email) (au_users st) = None"
    using lower typed by (auto simp: repository.find_one_None [OF U])
  then show ?thesis using form by (simp add: ForgotPasswordForm_def auth_api_reaches forgotPassword_def)
qed

lemma forgot_form_mails:
  assumes U: "repository (ax_users (zw_env W)) u_id"
    and u: "u \<in> set (au_users st)" and only: "\<forall>r \<in> set (au_users st). u_email r = u_email u \<longrightarrow> r = u"
    and form: "zodEmail (u_email u)" "zw_isEmail W (u_email u)"
  shows "ForgotPasswordForm zodEmail (\<lambda>n. auth_api W F h) (u_email u) st = (Submitted,
    st\<lparr>au_kv := snd (token_generate (ax_kv (zw_env W)) (fa_now F) (fa_mailToken F) Password_reset (u_id u) (au_kv st)),
      au_mail := au_mail st @ [Password_reset_email (u_email u) (fa_mailToken F)]\<rparr>)"
proof -
  have "find_one (ax_users (zw_env W)) (\<lambda>x. u_email x = u_email u) (au_users st) = Some u"
    by (rule repository.find_one_unique [OF U u]) (use only in auto)
  then show ?thesis using form
    by (simp add: ForgotPasswordForm_def auth_api_reaches forgotPassword_def ForgotPasswordDto_valid_def
        token_generate_def)
qed

lemma reset_form_reaches:
  "reset_schema d \<Longrightarrow> tok \<noteq> [] \<Longrightarrow> ResetPasswordForm (\<lambda>n. auth_api W F h) (Some tok) d st =
     form_answer (resetPassword (zw_env W) F tok (zf_password d) st)"
  by (auto simp: ResetPasswordForm_def auth_api_reaches ResetPasswordDto_valid_def reset_schema_def form_answer_def
      map_result_def split: sum.split)

lemma login_after_update:
  assumes U: "repository (ax_users E) u_id"
    and u: "u \<in> set (au_users st)" "u_isActive u" and H: "hash_matches E salt"
    and only: "\<forall>r \<in> set (au_users st). u_id r = u_id u \<or> toLowerCase (u_email r) = toLowerCase (u_email u) \<longrightarrow> r = u"
    and st': "au_users st' = orm_update (ax_users E) (\<lambda>x. u_id x = u_id u)
      (\<lambda>x. x\<lparr>u_passwordHash := ax_hash E salt pw, u_updatedAt := now\<rparr>) (au_users st)"
  shows "fst (auth_login E G \<lparr>ln_email = u_email u, ln_password = pw\<rparr> st') =
    Inr \<lparr>tr_accessToken = ax_sign E (fa_now G) (jwt_payload u), tr_refreshToken = fa_refresh G, tr_user = public_user u\<rparr>"
proof -
  let ?u = "u\<lparr>u_passwordHash := ax_hash E salt pw, u_updatedAt := now\<rparr>"
  have set': "set (au_users st') = (\<lambda>x. if u_id x = u_id u
      then x\<lparr>u_passwordHash := ax_hash E salt pw, u_updatedAt := now\<rparr> else x) ` set (au_users st)"
    by (simp add: st' repository.set_update [OF U])
  have "find_one (ax_users E) (\<lambda>x. toLowerCase (u_email x) = toLowerCase (u_email u) \<and> u_isActive x)
      (au_users st') = Some ?u"
    by (rule repository.find_one_unique [OF U]) (use u only in \<open>auto simp: set'\<close>)
  then show ?thesis using H
    by (simp add: auth_login_def generateTokens_def Let_def hash_matches_def jwt_payload_def public_user_def)
qed

lemma reset_of_generated:
  assumes S: "kv_store (ax_kv E) live" and id: "u_id u \<noteq> []" and t: "t \<le> fa_now F" "fa_now F \<le> t + 3600000"
    and kv: "au_kv st' = snd (token_generate (ax_kv E) t tok Password_reset (u_id u) s)"
  shows "fst (resetPassword E F tok pw st') = Inr ()"
    and "fst (token_consume (ax_kv E) (fa_now F) Password_reset tok (au_kv st')) = Some (u_id u)"
proof -
  show c: "fst (token_consume (ax_kv E) (fa_now F) Password_reset tok (au_kv st')) = Some (u_id u)"
    unfolding kv using t by (simp add: kv_store.consume_generated [OF S t(1) id])
  then show "fst (resetPassword E F tok pw st') = Inr ()" using id
    by (auto simp: resetPassword_def Let_def split: prod.splits)
qed

text \<open>
  C37. The way back into an account: the form for a lost password, filled in with the address as it is stored,
  sends a mail whose link, opened in any browser, shows the form for a new password; submitted within the
  hour it leads to the login page, and the login form then signs the user in with the new password. Every
  refresh token of the time before is refused from then on, and the same link does not work twice.
\<close>

theorem reset_link_takes_over:
  assumes R: "repository (ax_tokens (zw_env W)) rt_id" and U: "repository (ax_users (zw_env W)) u_id"
    and S: "kv_store (ax_kv (zw_env W)) live" and H: "hash_matches (zw_env W) (fa_salt F1)"
    and K: "keyed rt_token (au_tokens st)"
    and u: "u \<in> set (au_users st)" "u_isActive u" "u_id u \<noteq> []" "u_email u \<noteq> []"
    and only: "\<forall>r \<in> set (au_users st). u_id r = u_id u \<or> toLowerCase (u_email r) = toLowerCase (u_email u) \<longrightarrow> r = u"
    and forms: "zodEmail (u_email u)" "zw_isEmail W (u_email u)" "reset_schema d"
    and tok: "hex_token (fa_mailToken F0)"
    and t: "fa_now F0 \<le> fa_now F1" "fa_now F1 \<le> fa_now F0 + 3600000" "fa_now F1 \<le> fa_now F3"
  shows "let (v0, st1) = ForgotPasswordForm zodEmail (\<lambda>n. auth_api W F0 h) (u_email u) st;
      link = drop (length app) (mail_link app (last (au_mail st1)));
      (v1, st2) = ResetPasswordForm (\<lambda>n. auth_api W F1 h) (Some (fa_mailToken F0)) d st1 in
    open_url signedIn link = Shows ResetPasswordPage (Some (fa_mailToken F0)) \<and> v1 = Goes ''/login'' \<and>
    fst (LoginForm zodEmail (\<lambda>n. auth_api W F2 h) \<lparr>ln_email = u_email u, ln_password = zf_password d\<rparr> st2) =
      (Goes ''/overview'', Some \<lparr>wu_id = u_id u, wu_role = role_str (u_role u),
        wu_organizationId = u_organizationId u, wu_accessToken = ax_sign (zw_env W) (fa_now F2) (jwt_payload u),
        wu_refreshToken = fa_refresh F2\<rparr>) \<and>
    fst (ResetPasswordForm (\<lambda>n. auth_api W F3 h) (Some (fa_mailToken F0)) d st2) =
      Fails ''Invalid or expired reset token'' \<and>
    (\<forall>r \<in> set (au_tokens st). \<forall>ops. rt_userId r = u_id u \<longrightarrow> rt_token r \<notin> (\<lambda>(X, p). fa_refresh X) ` set ops \<longrightarrow>
       fst (refreshTokens (zw_env W) F3 (Some (rt_token r)) (auth_runs (zw_env W) ops st2)) =
         Inl (Unauthorized ''Invalid or expired refresh token''))"
proof -
  let ?E = "zw_env W" and ?tok = "fa_mailToken F0" and ?pw = "zf_password d"
  let ?st1 = "st\<lparr>au_kv := snd (token_generate (ax_kv ?E) (fa_now F0) ?tok Password_reset (u_id u) (au_kv st)),
      au_mail := au_mail st @ [Password_reset_email (u_email u) ?tok]\<rparr>"
  let ?st2 = "snd (resetPassword ?E F1 ?tok ?pw ?st1)"
  have mail: "ForgotPasswordForm zodEmail (\<lambda>n. auth_api W F0 h) (u_email u) st = (Submitted, ?st1)"
    by (rule forgot_form_mails [OF U u(1)]) (use only forms in auto)
  have ok: "fst (resetPassword ?E F1 ?tok ?pw ?st1) = Inr ()"
    and c: "fst (token_consume (ax_kv ?E) (fa_now F1) Password_reset ?tok (au_kv ?st1)) = Some (u_id u)"
    by (rule reset_of_generated [OF S u(3) t(1,2)], simp)+
  have K1: "keyed rt_token (au_tokens ?st1)" using K by simp
  obtain uid where uid: "live (fa_now F1) (token_key Password_reset ?tok) (au_kv ?st1) = Some uid"
    and again: "fst (resetPassword ?E F3 ?tok ?pw ?st2) = Inl (BadRequest ''Invalid or expired reset token'')"
    and refused: "\<forall>r \<in> set (au_tokens ?st1). \<forall>ops. rt_userId r = uid \<longrightarrow>
         rt_token r \<notin> (\<lambda>(X, p). fa_refresh X) ` set ops \<longrightarrow>
         fst (refreshTokens ?E F3 (Some (rt_token r)) (auth_runs ?E ops ?st2)) =
           Inl (Unauthorized ''Invalid or expired refresh token'')"
    using reset_takes_over [OF R U S K1 ok t(3), where pw' = ?pw] unfolding Let_def by blast
  have uid': "uid = u_id u" using c uid by (simp add: kv_store.consume_live [OF S])
  have users: "au_users ?st2 = orm_update (ax_users ?E) (\<lambda>x. u_id x = u_id u)
      (\<lambda>x. x\<lparr>u_passwordHash := ax_hash ?E (fa_salt F1) ?pw, u_updatedAt := fa_now F1\<rparr>) (au_users st)"
    using resetPassword_success [OF ok] c by auto
  have login: "fst (signIn (auth_api W F2 h) (u_email u) ?pw ?st2) = Some (session_of
      \<lparr>tr_accessToken = ax_sign ?E (fa_now F2) (jwt_payload u), tr_refreshToken = fa_refresh F2, tr_user = public_user u\<rparr>)"
    by (rule signIn_result(1) [OF u(4) _ forms(2) login_after_update [OF U u(1,2) H only users]])
      (use forms(3) in \<open>auto simp: reset_schema_def\<close>)
  have form: "ResetPasswordForm (\<lambda>n. auth_api W X h) (Some ?tok) d s = form_answer (resetPassword ?E X ?tok ?pw s)" for X s
    by (rule reset_form_reaches [OF forms(3) hex_token_plain(1) [OF tok]])
  have "login_schema zodEmail \<lparr>ln_email = u_email u, ln_password = ?pw\<rparr>"
    using forms by (auto simp: login_schema_def reset_schema_def)
  with login have l: "fst (LoginForm zodEmail (\<lambda>n. auth_api W F2 h) \<lparr>ln_email = u_email u, ln_password = ?pw\<rparr> ?st2) =
      (Goes ''/overview'', Some \<lparr>wu_id = u_id u, wu_role = role_str (u_role u),
        wu_organizationId = u_organizationId u, wu_accessToken = ax_sign ?E (fa_now F2) (jwt_payload u),
        wu_refreshToken = fa_refresh F2\<rparr>)"
    by (auto simp: LoginForm_def session_of_def public_user_def split: prod.splits)
  have "open_url signedIn (drop (length app) (mail_link app (last (au_mail ?st1)))) = Shows ResetPasswordPage (Some ?tok)"
    by (simp add: reset_link_opens [OF tok])
  then show ?thesis
    using l again refused ok unfolding mail Let_def form split form_answer_def uid' by simp
qed

section \<open>Witnesses\<close>

definition plain_web :: "(string \<rightharpoonup> MemEntry) RedisService auth_web" where
  "plain_web = \<lparr>zw_env = plain_auth file_kv, zw_verify = (\<lambda>now tok. None), zw_isEmail = (\<lambda>s. CHR 0x40 \<in> set s)\<rparr>"

lemma plain_web_simps [simp]:
  "zw_env plain_web = plain_auth file_kv" "zw_isEmail plain_web s \<longleftrightarrow> CHR 0x40 \<in> set s"
  "hash_matches (plain_auth K) ''s''"
  by (simp_all add: plain_web_def hash_matches_def)

theorem register_form_enters_witness:
  "fst (RegisterForm (\<lambda>s. True) (\<lambda>n. auth_api plain_web (nonce (int n) (if n = 0 then ''r0'' else ''r1'')) None)
      (acme\<lparr>rg_password := ''password''\<rparr>) ((one_user empty_redis)\<lparr>au_users := []\<rparr>)) =
    (Goes ''/overview'', Some \<lparr>wu_id = ''u'', wu_role = ''admin'', wu_organizationId = ''o'',
      wu_accessToken = ''jwtu'', wu_refreshToken = ''r1''\<rparr>)"
  using register_form_enters [where W = plain_web and F = "\<lambda>n. nonce (int n) (if n = 0 then ''r0'' else ''r1'')"
      and h = None and d = "acme\<lparr>rg_password := ''password''\<rparr>" and st = "(one_user empty_redis)\<lparr>au_users := []\<rparr>"
      and zodEmail = "\<lambda>s. True"]
  by (simp add: acme_def register_schema_def RegisterDto_valid_def Let_def new_user_def jwt_payload_def)

theorem reset_link_takes_over_witness:
  "let (v0, st1) = ForgotPasswordForm (\<lambda>s. True) (\<lambda>n. auth_api plain_web (nonce 10 ''ab'') None) ''a@x'' (one_user empty_redis);
      (v1, st2) = ResetPasswordForm (\<lambda>n. auth_api plain_web (nonce 20 ''cd'') None) (Some ''ab'')
        \<lparr>zf_firstName = [], zf_lastName = [], zf_password = ''password'', zf_confirmPassword = ''password''\<rparr> st1 in
    open_url False (drop (length ''http://tc'') (mail_link ''http://tc'' (last (au_mail st1)))) = Shows ResetPasswordPage (Some ''ab'') \<and>
    v1 = Goes ''/login'' \<and>
    fst (refreshTokens (plain_auth file_kv) (nonce 40 ''gh'') (Some ''r0'') st2) =
      Inl (Unauthorized ''Invalid or expired refresh token'')"
proof -
  let ?u = "new_user 0 ''u'' ''o'' ''a@x'' ''spw'' ''A'' [] ADMIN None"
  let ?d = "\<lparr>zf_firstName = [], zf_lastName = [], zf_password = ''password'', zf_confirmPassword = ''password''\<rparr>"
  have u: "u_id ?u = ''u''" "u_email ?u = ''a@x''" "u_isActive ?u" by (simp_all add: new_user_def)
  show ?thesis
    using reset_link_takes_over [where W = plain_web and st = "one_user empty_redis" and u = ?u and d = ?d
        and live = "redis_live mem_live" and ?F0.0 = "nonce 10 ''ab''" and ?F1.0 = "nonce 20 ''cd''"
        and ?F2.0 = "nonce 30 ''ef''" and ?F3.0 = "nonce 40 ''gh''" and app = "''http://tc''" and h = None
        and zodEmail = "\<lambda>s. True" and signedIn = False]
    by (auto simp: u keyed_def map_server.served_store reset_schema_def hex_token_def new_refresh_def
        dest: spec [where x = "[]"] split: prod.splits)
qed

section \<open>The address that nobody verifies\<close>

text \<open>What a browser does with the pages before the session and with the banner.\<close>

datatype auth_action =
    Fill_register RegisterDto
  | Fill_login LoginDto
  | Fill_forgot string
  | Follow bool string NewPassword
  | Banner bool "(string \<times> string \<times> SessionToken) option"

fun browse :: "'s auth_web \<Rightarrow> (string \<Rightarrow> bool) \<Rightarrow> (nat \<Rightarrow> fresh_auth) \<times> string option \<times> auth_action \<Rightarrow>
    's AuthService \<Rightarrow> 's AuthService" where
  "browse W zodEmail (F, h, Fill_register d) st = snd (RegisterForm zodEmail (\<lambda>n. auth_api W (F n) h) d st)"
| "browse W zodEmail (F, h, Fill_login d) st = snd (LoginForm zodEmail (\<lambda>n. auth_api W (F n) h) d st)"
| "browse W zodEmail (F, h, Fill_forgot email) st = snd (ForgotPasswordForm zodEmail (\<lambda>n. auth_api W (F n) h) email st)"
| "browse W zodEmail (F, h, Follow signedIn url d) st = (case open_url signedIn url of
     Shows ResetPasswordPage tok \<Rightarrow> snd (ResetPasswordForm (\<lambda>n. auth_api W (F n) h) tok d st)
   | Shows AcceptInvitePage tok \<Rightarrow> snd (AcceptInviteForm (\<lambda>n. auth_api W (F n) h) tok d st)
   | _ \<Rightarrow> st)"
| "browse W zodEmail (F, h, Banner dismissed session) st =
     (if showBanner dismissed (map_option (\<lambda>(name, email, token). session_user name email (session_callback token)) session)
      then snd (handleResend (\<lambda>n. auth_api W (F n) h) st) else st)"

definition verifies_nobody :: "'s AuthService \<Rightarrow> 's AuthService \<Rightarrow> bool" where
  "verifies_nobody st st' \<longleftrightarrow>
     (\<forall>u' \<in> set (au_users st'). u_emailVerified u' \<longrightarrow> (\<exists>u \<in> set (au_users st). u_id u = u_id u' \<and> u_emailVerified u)) \<and>
     (\<forall>to tok. Verification_email to tok \<in> set (au_mail st') \<longrightarrow> Verification_email to tok \<in> set (au_mail st))"

lemma verifies_nobody_refl [simp]: "verifies_nobody st st"
  by (auto simp: verifies_nobody_def)

lemma verifies_nobody_trans:
  assumes "verifies_nobody st st'" and "verifies_nobody st' st''"
  shows "verifies_nobody st st''"
  unfolding verifies_nobody_def
proof (intro conjI ballI impI allI)
  fix u assume "u \<in> set (au_users st'')" "u_emailVerified u"
  then obtain u' where "u' \<in> set (au_users st')" "u_id u' = u_id u" "u_emailVerified u'"
    using assms(2) unfolding verifies_nobody_def by blast
  then obtain u0 where "u0 \<in> set (au_users st)" "u_id u0 = u_id u" "u_emailVerified u0"
    using assms(1) unfolding verifies_nobody_def by metis
  then show "\<exists>x \<in> set (au_users st). u_id x = u_id u \<and> u_emailVerified x" by blast
next
  fix to tok assume "Verification_email to tok \<in> set (au_mail st'')"
  then show "Verification_email to tok \<in> set (au_mail st)" using assms unfolding verifies_nobody_def by blast
qed

lemma same_users_verify_nobody:
  "au_users st' = au_users st \<Longrightarrow> au_mail st' = au_mail st \<Longrightarrow> verifies_nobody st st'"
  by (auto simp: verifies_nobody_def)

lemma calls_verify_nobody:
  assumes U: "repository (ax_users E) u_id"
  shows "verifies_nobody st (snd (auth_register E F d st))" "verifies_nobody st (snd (auth_login E F l st))"
    "verifies_nobody st (forgotPassword E F email st)" "verifies_nobody st (snd (resetPassword E F tok pw st))"
proof -
  show "verifies_nobody st (snd (auth_register E F d st))"
    by (auto simp: auth_register_def generateTokens_def Let_def verifies_nobody_def repository.set_save [OF U] new_user_def)
  show "verifies_nobody st (snd (auth_login E F l st))"
    by (rule same_users_verify_nobody)
      (auto simp: auth_login_def generateTokens_def Let_def split: option.split)
  show "verifies_nobody st (forgotPassword E F email st)"
    by (auto simp: forgotPassword_def verifies_nobody_def split: option.split prod.split)
  show "verifies_nobody st (snd (resetPassword E F tok pw st))"
    by (auto simp: resetPassword_def update_user_def Let_def verifies_nobody_def repository.set_update [OF U]
        split: prod.split if_splits)
qed

lemma signIn_verifies_nobody:
  assumes U: "repository (ax_users (zw_env W)) u_id"
  shows "verifies_nobody st (snd (signIn (auth_api W F h) email pw st))"
  using calls_verify_nobody(2) [OF U]
  by (auto simp: signIn_def session_authorize_def server_login_def auth_api_reaches map_result_def
      split: prod.split sum.split if_splits)

lemma forms_verify_nobody:
  assumes U: "repository (ax_users (zw_env W)) u_id"
  shows "verifies_nobody st (snd (LoginForm zodEmail (\<lambda>n. auth_api W (F n) h) l st))"
    and "verifies_nobody st (snd (RegisterForm zodEmail (\<lambda>n. auth_api W (F n) h) d st))"
    and "verifies_nobody st (snd (ForgotPasswordForm zodEmail (\<lambda>n. auth_api W (F n) h) email st))"
    and "verifies_nobody st (snd (ResetPasswordForm (\<lambda>n. auth_api W (F n) h) tok p st))"
proof -
  note calls = calls_verify_nobody [OF U]
  have sign: "verifies_nobody s s'" if "signIn (auth_api W G h) e pw s = (v, s')" for G e pw s v s'
    using signIn_verifies_nobody [OF U, of s G h e pw] that by simp
  show "verifies_nobody st (snd (LoginForm zodEmail (\<lambda>n. auth_api W (F n) h) l st))"
    by (auto simp: LoginForm_def split: prod.split option.split dest: sign)
  have reg: "verifies_nobody st s'" if "auth_api W G h (post_to ''/auth/register'' (Some (RegisterBody d))) st = (v, s')"
    for G v s' using calls(1) [of st G d] that
    by (auto simp: auth_api_reaches split: if_splits) (metis map_result_simps(3) snd_conv)
  show "verifies_nobody st (snd (RegisterForm zodEmail (\<lambda>n. auth_api W (F n) h) d st))"
    by (auto simp: RegisterForm_def split: prod.split option.split sum.split dest: reg sign
        intro: verifies_nobody_trans)
  show "verifies_nobody st (snd (ForgotPasswordForm zodEmail (\<lambda>n. auth_api W (F n) h) email st))"
    by (simp add: ForgotPasswordForm_def auth_api_reaches calls)
  show "verifies_nobody st (snd (ResetPasswordForm (\<lambda>n. auth_api W (F n) h) tok p st))"
    by (simp add: ResetPasswordForm_def auth_api_reaches form_answer_def calls)
qed

text \<open>The session has no member \<open>emailVerified\<close>, so the banner is never shown.\<close>

lemma banner_never_shows: "\<not> showBanner dismissed
    (map_option (\<lambda>(name, email, token). session_user name email (session_callback token)) session)"
  by (auto simp: showBanner_def session_user_def split: option.split)

lemma browse_verifies_nobody:
  assumes U: "repository (ax_users (zw_env W)) u_id"
    and a: "\<forall>s url p tok. a = Follow s url p \<longrightarrow> open_url s url \<noteq> Shows AcceptInvitePage tok"
  shows "verifies_nobody st (browse W zodEmail (F, h, a) st)"
proof (cases a)
  case (Follow s url p)
  then show ?thesis using a forms_verify_nobody(4) [OF U, of st F h _ p]
    by (auto split: view.split page.split)
next
  case (Banner dismissed session)
  then show ?thesis by (simp add: banner_never_shows)
qed (simp_all add: forms_verify_nobody [OF U])

text \<open>
  C38. No address is ever verified from the web client, the way of an invitation apart: whoever registers,
  signs in, loses passwords, follows links of any kind and looks for the banner, no account becomes verified
  and no verification mail is sent; and the link of such a mail leads to no page of the client.
\<close>

theorem address_never_verified:
  assumes U: "repository (ax_users (zw_env W)) u_id"
    and acts: "\<forall>(F, h, a) \<in> set acts. \<forall>s url p tok. a = Follow s url p \<longrightarrow> open_url s url \<noteq> Shows AcceptInvitePage tok"
  shows "(\<forall>u \<in> set (au_users (fold (browse W zodEmail) acts st)). u_emailVerified u \<longrightarrow>
      (\<exists>u0 \<in> set (au_users st). u_id u0 = u_id u \<and> u_emailVerified u0)) \<and>
    (\<forall>to tok. Verification_email to tok \<in> set (au_mail (fold (browse W zodEmail) acts st)) \<longrightarrow>
      Verification_email to tok \<in> set (au_mail st)) \<and>
    open_url signedIn (drop (length app) (mail_link app (Verification_email to tok))) = Not_found_page"
proof -
  have "verifies_nobody st (fold (browse W zodEmail) acts st)" using acts
  proof (induction acts arbitrary: st)
    case (Cons x acts)
    obtain F h a where x: "x = (F, h, a)" by (cases x) auto
    have "verifies_nobody st (browse W zodEmail x st)"
      unfolding x by (rule browse_verifies_nobody [OF U]) (use Cons.prems x in auto)
    moreover have "verifies_nobody (browse W zodEmail x st) (fold (browse W zodEmail) acts (browse W zodEmail x st))"
      by (rule Cons.IH) (use Cons.prems in simp)
    ultimately show ?case by (simp add: verifies_nobody_trans [rotated])
  qed simp
  then show ?thesis unfolding verifies_nobody_def by (simp add: verification_link_dead)
qed

definition no_password :: NewPassword where
  "no_password = \<lparr>zf_firstName = [], zf_lastName = [], zf_password = [], zf_confirmPassword = []\<rparr>"

theorem address_never_verified_witness:
  "filter u_emailVerified (au_users (fold (browse plain_web (\<lambda>s. True))
      [(\<lambda>n. nonce (int n) ''ab'', None, Fill_register (acme\<lparr>rg_password := ''password''\<rparr>)),
       (\<lambda>n. nonce 9 ''ab'', None, Follow False ''/verify-email?token=ab'' no_password)]
      ((one_user empty_redis)\<lparr>au_users := []\<rparr>))) = []"
  using address_never_verified [where W = plain_web and st = "(one_user empty_redis)\<lparr>au_users := []\<rparr>"
      and zodEmail = "\<lambda>s. True" and acts = "[(\<lambda>n. nonce (int n) ''ab'', None, Fill_register (acme\<lparr>rg_password := ''password''\<rparr>)),
       (\<lambda>n. nonce 9 ''ab'', None, Follow False ''/verify-email?token=ab'' no_password)]"]
    verification_link_dead [of _ "[]" "''ab''"]
  unfolding filter_empty_conv by (auto simp: verification_url_def)

end
