(* ===== verification/WebDates.thy ===== *)
theory WebDates
  imports JsDate
begin

text \<open>
  The date helpers of the web client: \<open>getWeekStart\<close> and \<open>formatMinutes\<close> (hooks/use-time-tracking.ts),
  the presets of the analytics page (hooks/use-analytics.ts) and \<open>elapsedSince\<close> (hooks/use-monitoring.ts).
  They take the day of the week and the day of the month from the browser's clock and the text from
  UTC. The browser's clock is \<open>off\<close> milliseconds ahead of UTC, the same before and after; then
  \<open>setDate\<close> with n more than \<open>getDate\<close> moves the time by n days.
\<close>

definition local_day :: "int \<Rightarrow> js_time \<Rightarrow> nat" where
  "local_day off t = WeekDay (t + off)"

definition plus_local_days :: "js_time \<Rightarrow> int \<Rightarrow> js_time" where
  "plus_local_days t n = t + n * 86400000"

definition week_start_time :: "int \<Rightarrow> js_time \<Rightarrow> js_time" where
  "week_start_time off date =
     (let day = local_day off date; diff = (if day = 0 then - 6 else 1 - int day)
      in plus_local_days date diff)"

definition getWeekStart :: "int \<Rightarrow> js_time \<Rightarrow> string" where
  "getWeekStart off date = iso_date (week_start_time off date)"

definition formatMinutes :: "int \<Rightarrow> string" where
  "formatMinutes minutes = (let h = minutes div 60; m = minutes mod 60
     in if h > 0 then int_str h @ ''h '' @ int_str m @ ''m'' else int_str m @ ''m'')"

definition elapsedSince :: "(string \<Rightarrow> js_time) \<Rightarrow> js_time \<Rightarrow> string \<Rightarrow> string" where
  "elapsedSince D now isoString =
     (let ms = max 0 (now - D isoString); h = ms div 3600000; m = ms mod 3600000 div 60000
      in if h > 0 then int_str h @ ''h '' @ int_str m @ ''m'' else int_str m @ ''m'')"

definition todayISO :: "js_time \<Rightarrow> string" where "todayISO now = iso_date now"

definition daysAgoISO :: "js_time \<Rightarrow> int \<Rightarrow> string" where
  "daysAgoISO now n = iso_date (plus_local_days now (- n))"

definition lastNDays :: "js_time \<Rightarrow> int \<Rightarrow> string \<times> string" where
  "lastNDays now n = (iso_date (plus_local_days now (- (n - 1))), iso_date now)"

definition this_monday :: "int \<Rightarrow> js_time \<Rightarrow> js_time" where
  "this_monday off today = plus_local_days today (- ((int (local_day off today) + 6) mod 7))"

definition thisWeek :: "int \<Rightarrow> js_time \<Rightarrow> string \<times> string" where
  "thisWeek off today = (let monday = this_monday off today; sunday = plus_local_days monday 6
     in (iso_date monday, iso_date sunday))"

text \<open>A date without a time is read as midnight UTC; \<open>D\<close> is \<open>new Date(text)\<close>.\<close>

definition lastWeek :: "(string \<Rightarrow> js_time) \<Rightarrow> int \<Rightarrow> js_time \<Rightarrow> string \<times> string" where
  "lastWeek D off today = (case thisWeek off today of (from, to) \<Rightarrow>
     (iso_date (plus_local_days (D from) (- 7)), iso_date (plus_local_days (D to) (- 7))))"

definition last7Days :: "js_time \<Rightarrow> string \<times> string" where "last7Days now = lastNDays now 7"
definition last30Days :: "js_time \<Rightarrow> string \<times> string" where "last30Days now = lastNDays now 30"

section \<open>The week\<close>

lemma Day_plus_local_days [simp]: "Day (plus_local_days t n) = Day t + n"
  by (simp add: Day_def plus_local_days_def)

lemma WeekDay_mod: "int (WeekDay t) = (Day t + 4) mod 7"
  by (simp add: WeekDay_def)

lemma six_more_mod_7:
  fixes w :: int
  shows "0 \<le> w \<Longrightarrow> w < 7 \<Longrightarrow> (w + 6) mod 7 = (if w = 0 then 6 else w - 1)"
  by presburger

lemma local_day_range: "0 \<le> int (local_day off t)" "int (local_day off t) < 7"
  unfolding local_day_def WeekDay_mod by simp_all

lemma this_monday_same: "this_monday off t = week_start_time off t"
  using six_more_mod_7 [OF local_day_range]
  by (auto simp: this_monday_def week_start_time_def Let_def)

lemma week_start_day:
  "Day (week_start_time off t) = Day t - (Day (t + off) + 3) mod 7"
proof -
  define w where "w = (Day (t + off) + 4) mod 7"
  have d: "int (local_day off t) = w" by (simp add: local_day_def WeekDay_mod w_def)
  have "0 \<le> w" "w < 7" by (simp_all add: w_def)
  moreover have "(Day (t + off) + 3) mod 7 = (w + 6) mod 7"
    unfolding w_def by presburger
  ultimately have "(Day (t + off) + 3) mod 7 = (if w = 0 then 6 else w - 1)" using six_more_mod_7 by simp
  then show ?thesis using d by (auto simp: week_start_time_def Let_def)
qed

lemma local_day_near:
  assumes "\<bar>off\<bar> \<le> 50400000"
  shows "\<bar>Day (t + off) - Day t\<bar> \<le> 1"
proof -
  have "Day t * 86400000 \<le> t" "t < Day t * 86400000 + 86400000"
    "Day (t + off) * 86400000 \<le> t + off" "t + off < Day (t + off) * 86400000 + 86400000"
    using div_bounds [of 86400000 t] div_bounds [of 86400000 "t + off"] by (simp_all add: Day_def mult.commute)
  then show ?thesis using assms by linarith
qed

text \<open>
  The client submits timesheets for the week it computes. The day it sends is a Monday exactly
  when the date of the browser and the date in UTC are the same at that moment; in the hours when
  they differ, east of Greenwich in the early morning, it is a Sunday or a Tuesday. In either case
  the start and end of \<open>thisWeek\<close> are six days apart.
\<close>

theorem week_start_monday:
  assumes "\<bar>off\<bar> \<le> 50400000"
  shows "(WeekDay (week_start_time off t) = 1 \<longleftrightarrow> Day (t + off) = Day t) \<and>
    (Day (t + off) = Day t + 1 \<longrightarrow> WeekDay (week_start_time off t) = 0) \<and>
    (Day (t + off) = Day t - 1 \<longrightarrow> WeekDay (week_start_time off t) = 2) \<and>
    thisWeek off t = (getWeekStart off t, iso_date (plus_local_days (week_start_time off t) 6))"
proof -
  define e where "e = Day t - Day (t + off)"
  have "\<bar>e\<bar> \<le> 1" using local_day_near [OF assms, of t] by (simp add: e_def abs_minus_commute)
  then have e: "e = 0 \<or> e = 1 \<or> e = - 1" by auto
  define x where "x = Day (t + off)"
  have "int (WeekDay (week_start_time off t)) = (x + e - (x + 3) mod 7 + 4) mod 7"
    unfolding WeekDay_mod week_start_day by (simp add: e_def x_def)
  also have "\<dots> = (x + e + 4 - (x + 3) mod 7) mod 7" by (simp only: algebra_simps)
  also have "\<dots> = (x + e + 4 - (x + 3)) mod 7" by (rule mod_diff_right_eq)
  also have "\<dots> = (e + 1) mod 7" by simp
  finally have w: "int (WeekDay (week_start_time off t)) = (e + 1) mod 7" .
  have "thisWeek off t = (getWeekStart off t, iso_date (plus_local_days (week_start_time off t) 6))"
    by (simp add: thisWeek_def getWeekStart_def this_monday_same Let_def)
  moreover have "WeekDay (week_start_time off t) = 1 \<longleftrightarrow> e = 0" "e = - 1 \<Longrightarrow> WeekDay (week_start_time off t) = 0"
    "e = 1 \<Longrightarrow> WeekDay (week_start_time off t) = 2"
    using e w by auto
  moreover have "Day (t + off) = Day t \<longleftrightarrow> e = 0" "Day (t + off) = Day t + 1 \<longleftrightarrow> e = - 1"
    "Day (t + off) = Day t - 1 \<longleftrightarrow> e = 1"
    unfolding e_def by linarith+
  ultimately show ?thesis by blast
qed

text \<open>Half past two at night on a Wednesday in Kolkata, where it is still Tuesday in UTC.\<close>

theorem week_start_monday_witness:
  "WeekDay (week_start_time 19800000 1775595600000) = 0 \<and> getWeekStart 19800000 1775595600000 = ''2026-04-05''"
proof
  show "WeekDay (week_start_time 19800000 1775595600000) = 0"
    using week_start_monday [of 19800000 1775595600000] by (simp add: Day_def)
qed code_simp

section \<open>The presets\<close>

text \<open>The last n days are n days, today included, and the last week is the seven days before this one.\<close>

lemma lastNDays_span:
  assumes "four_digit_year now" "four_digit_year (plus_local_days now (1 - n))"
  shows "lastNDays now n = (iso_date s, iso_date now) \<Longrightarrow> four_digit_year s \<Longrightarrow> Day now - Day s + 1 = n"
  using assms iso_date_eq_iff [of "plus_local_days now (1 - n)" s] by (simp add: lastNDays_def)

lemma lastWeek_before_thisWeek:
  assumes D: "\<And>t. four_digit_year t \<Longrightarrow> D (iso_date t) = Day t * 86400000"
    and y: "four_digit_year (week_start_time off t)" "four_digit_year (plus_local_days (week_start_time off t) 6)"
  shows "lastWeek D off t = (iso_date ((Day (week_start_time off t) - 7) * 86400000),
      iso_date ((Day (week_start_time off t) - 1) * 86400000))"
proof -
  have "plus_local_days (D (iso_date (week_start_time off t))) (- 7) = (Day (week_start_time off t) - 7) * 86400000"
    unfolding D [OF y(1)] by (simp add: plus_local_days_def)
  moreover have "plus_local_days (D (iso_date (plus_local_days (week_start_time off t) 6))) (- 7) =
      (Day (week_start_time off t) - 1) * 86400000"
    unfolding D [OF y(2)] Day_plus_local_days by (simp add: plus_local_days_def)
  ultimately show ?thesis by (simp add: lastWeek_def thisWeek_def this_monday_same Let_def)
qed

section \<open>Durations\<close>

text \<open>The text of a duration names its hours and minutes.\<close>

lemma formatMinutes_text:
  assumes "0 \<le> h" "0 \<le> m" "m < 60"
  shows "formatMinutes (60 * h + m) = (if 0 < h then int_str h @ ''h '' else []) @ int_str m @ ''m''"
proof -
  have "(60 * h + m) div 60 = h" "(60 * h + m) mod 60 = m" using assms by simp_all
  then show ?thesis by (simp add: formatMinutes_def Let_def)
qed

lemma elapsedSince_formatMinutes:
  "elapsedSince D now s = formatMinutes (max 0 (now - D s) div 60000)"
proof -
  have h: "ms div 3600000 = ms div 60000 div 60" and m: "ms mod 3600000 div 60000 = ms div 60000 mod 60"
    for ms :: int
  proof -
    have "ms div (60000 * 60) = ms div 60000 div 60" by (rule zdiv_zmult2_eq) simp
    then show "ms div 3600000 = ms div 60000 div 60" by simp
    have "ms mod (60000 * 60) = 60000 * (ms div 60000 mod 60) + ms mod 60000" by (rule zmod_zmult2_eq) simp
    moreover have "(60000 * q + ms mod 60000) div 60000 = q" for q by (simp add: div_add1_eq)
    ultimately show "ms mod 3600000 div 60000 = ms div 60000 mod 60" by simp
  qed
  show ?thesis unfolding elapsedSince_def formatMinutes_def Let_def h m ..
qed

end
