(* ===== verification/LiveBoard.thy ===== *)
theory LiveBoard
  imports PresenceStore MonitorSvc WebDates "HOL-Library.AList"
begin

text \<open>
  What the dashboard shows of the live grid and of the working day, composed with the server's answer
  (\<open>live_grid\<close> of \<open>MonitorSvc\<close>) and the presence board (\<open>PresenceStore\<close>): the seeding of the board
  (components/monitoring/live-status-board.tsx), the tiles of the overview page, the clock widget and
  the entries table. \<open>D\<close> is \<open>new Date(s).getTime()\<close> of a text the server wrote; \<open>off\<close> is how far the browser's clock
  is ahead of UTC. The data of the grid are what the hook casts to LiveDevice.
\<close>

record LiveDevice =
  lv_deviceId :: string
  lv_userId :: string
  lv_userName :: string
  lv_displayName :: "string option"
  lv_hostname :: "string option"
  lv_clockedInSince :: string
  lv_currentApp :: "string option"
  lv_lastSeenAt :: "string option"

definition text_of :: "string \<Rightarrow> json \<Rightarrow> string option" where
  "text_of k j = (case read_property k j of Some (JStr s) \<Rightarrow> Some s | _ \<Rightarrow> None)"

definition as_live_device :: "json \<Rightarrow> LiveDevice" where
  "as_live_device j = \<lparr>lv_deviceId = nullish (text_of ''deviceId'' j) [], lv_userId = nullish (text_of ''userId'' j) [],
     lv_userName = nullish (text_of ''userName'' j) [], lv_displayName = text_of ''displayName'' j,
     lv_hostname = text_of ''hostname'' j, lv_clockedInSince = nullish (text_of ''clockedInSince'' j) [],
     lv_currentApp = text_of ''currentApp'' j, lv_lastSeenAt = text_of ''lastSeenAt'' j\<rparr>"

definition live_devices :: "json \<Rightarrow> LiveDevice list" where
  "live_devices j = (case j of JArr rows \<Rightarrow> map as_live_device rows | _ \<Rightarrow> [])"

section \<open>Seeding the board\<close>

definition newer :: "LiveDevice \<Rightarrow> LiveDevice \<Rightarrow> bool" where
  "newer d prev \<longleftrightarrow> nullish (lv_lastSeenAt prev) [] < nullish (lv_lastSeenAt d) []"

definition bySeen_add :: "LiveDevice \<Rightarrow> (string \<times> LiveDevice) list \<Rightarrow> (string \<times> LiveDevice) list" where
  "bySeen_add d m = (if lv_userId d = [] then m else case map_of m (lv_userId d) of
     None \<Rightarrow> AList.update (lv_userId d) d m
   | Some prev \<Rightarrow> if newer d prev then AList.update (lv_userId d) d m else m)"

definition bySeen :: "LiveDevice list \<Rightarrow> (string \<times> LiveDevice) list" where
  "bySeen devices = fold bySeen_add devices []"

text \<open>\<open>split(/\s+/)\<close>.\<close>

function split_spaces :: "string \<Rightarrow> string list" where
  "split_spaces s = (let w = takeWhile (\<lambda>c. \<not> is_space c) s; r = dropWhile (\<lambda>c. \<not> is_space c) s
     in if r = [] then [w] else w # split_spaces (dropWhile is_space r))"
  by pat_completeness auto

termination
proof (relation "measure length")
  fix s w r
  assume r: "r = dropWhile (\<lambda>c. \<not> is_space c) s" and ne: "r \<noteq> []"
  then have "is_space (hd r)" using hd_dropWhile by blast
  then have "length (dropWhile is_space r) < length r"
    using ne by (cases r) (simp_all add: le_imp_less_Suc length_dropWhile_le)
  also have "\<dots> \<le> length s" unfolding r by (rule length_dropWhile_le)
  finally show "(dropWhile is_space r, s) \<in> measure length" by simp
qed simp

declare split_spaces.simps [simp del]

definition seeded_name :: "LiveDevice \<Rightarrow> string \<times> string \<times> string" where
  "seeded_name d = (let raw = js_trim (or_else (or_else (lv_userName d) (lv_userId d)) []);
     parts = split_spaces raw in (lv_userId d, hd parts, join_with '' '' (tl parts)))"

definition seeded_status :: "LiveDevice \<Rightarrow> EmployeeStatus" where
  "seeded_status d = \<lparr>ew_userId = lv_userId d, ew_status = Online, ew_activeApp = lv_currentApp d,
     ew_lastSeen = nullish (lv_lastSeenAt d) (lv_clockedInSince d)\<rparr>"

definition seedBoard :: "LiveDevice list \<Rightarrow> MonitoringStore \<Rightarrow> MonitoringStore" where
  "seedBoard devices st = (if devices = [] then st else let seen = map snd (bySeen devices)
     in fold (\<lambda>d. setStatus (seeded_status d)) seen (seedNames (map seeded_name seen) st))"

definition initials :: "(string \<Rightarrow> string) \<Rightarrow> string option \<Rightarrow> string" where
  "initials toUpperCase name = (let clean = js_trim (nullish name []) in if clean = [] then ''?''
     else or_else (take 2 (toUpperCase (concat (map (take 1) (split_spaces clean))))) ''?'')"

text \<open>Every device of a user makes an entry of that user, under its own id, with the newest text of its devices.\<close>

lemma bySeen_add_keys: "\<forall>(k, d) \<in> set m. lv_userId d = k \<and> k \<noteq> [] \<Longrightarrow> \<forall>(k, d) \<in> set (bySeen_add x m). lv_userId d = k \<and> k \<noteq> []"
proof -
  assume m: "\<forall>(k, d) \<in> set m. lv_userId d = k \<and> k \<noteq> []"
  have "\<forall>(k, d) \<in> set (AList.update (lv_userId x) x m). lv_userId d = k \<and> k \<noteq> []" if "lv_userId x \<noteq> []"
    using m that by (induction m) auto
  then show ?thesis using m by (simp add: bySeen_add_def split: option.split)
qed

lemma bySeen_keys: "\<forall>(k, d) \<in> set (bySeen devices). lv_userId d = k \<and> k \<noteq> []"
proof -
  have keep: "\<forall>(k, d) \<in> set (fold bySeen_add ds m). lv_userId d = k \<and> k \<noteq> []"
    if "\<forall>(k, d) \<in> set m. lv_userId d = k \<and> k \<noteq> []" for ds m
    using that
  proof (induction ds arbitrary: m)
    case (Cons x ds)
    show ?case using Cons.IH [OF bySeen_add_keys [OF Cons.prems]] by simp
  qed simp
  show ?thesis unfolding bySeen_def by (rule keep) simp
qed

lemma bySeen_add_map: "map_of (bySeen_add d m) k = (if lv_userId d = [] \<or> k \<noteq> lv_userId d then map_of m k
    else case map_of m k of None \<Rightarrow> Some d | Some prev \<Rightarrow> if newer d prev then Some d else Some prev)"
  by (auto simp: bySeen_add_def update_conv' split: option.split)

lemma bySeen_fold:
  assumes "d \<in> set ds \<or> map_of m (lv_userId d) \<noteq> None" and "lv_userId d \<noteq> []"
  shows "map_of (fold bySeen_add ds m) (lv_userId d) \<noteq> None"
  using assms(1)
proof (induction ds arbitrary: m)
  case (Cons x ds)
  have "d \<in> set ds \<or> map_of (bySeen_add x m) (lv_userId d) \<noteq> None"
    using Cons.prems assms(2) by (auto simp: bySeen_add_map split: option.split)
  then show ?case using Cons.IH by simp
qed simp

lemma bySeen_covers: "d \<in> set devices \<Longrightarrow> lv_userId d \<noteq> [] \<Longrightarrow> \<exists>d'. map_of (bySeen devices) (lv_userId d) = Some d'"
  using bySeen_fold [of d devices "[]"] by (auto simp: bySeen_def)

lemma seeded_employees:
  "mw_employees (fold (\<lambda>d. setStatus (seeded_status d)) ds st) uid =
    (case find (\<lambda>d. lv_userId d = uid) (rev ds) of Some d \<Rightarrow> Some (seeded_status d) | None \<Rightarrow> mw_employees st uid)"
proof (induction ds arbitrary: st rule: rev_induct)
  case (snoc d ds)
  then show ?case by (simp add: setStatus_def) (simp add: seeded_status_def)
qed simp

text \<open>
  The board shows every user of the grid as online, whatever was announced before: an idle employee,
  whose agent keeps sending heartbeats, is shown as online again each time the grid is fetched.
\<close>

theorem seeding_overrides_idle:
  assumes "d \<in> set devices" and "lv_userId d \<noteq> []"
  shows "\<exists>e. mw_employees (seedBoard devices (on_employee_status now
      \<lparr>ew_userId = lv_userId d, ew_status = Idle, ew_activeApp = app, ew_lastSeen = seen\<rparr> st)) (lv_userId d) = Some e \<and>
    ew_status e = Online"
proof -
  obtain d' where "map_of (bySeen devices) (lv_userId d) = Some d'" using bySeen_covers [OF assms] by blast
  then have "(lv_userId d, d') \<in> set (bySeen devices)" by (rule map_of_SomeD)
  then have "d' \<in> set (map snd (bySeen devices))" "lv_userId d' = lv_userId d"
    using bySeen_keys [of devices] by force+
  then have "find (\<lambda>x. lv_userId x = lv_userId d) (rev (map snd (bySeen devices))) \<noteq> None"
    by (auto simp: find_None_iff)
  then obtain y where "find (\<lambda>x. lv_userId x = lv_userId d) (rev (map snd (bySeen devices))) = Some y" by blast
  moreover have "devices \<noteq> []" "ew_status (seeded_status y) = Online" using assms(1) by (auto simp: seeded_status_def)
  ultimately show ?thesis by (simp add: seedBoard_def Let_def seeded_employees)
qed

section \<open>The tiles of the overview\<close>

definition totalMinutesToday :: "(string \<Rightarrow> js_time) \<Rightarrow> js_time \<Rightarrow> LiveDevice list \<Rightarrow> int" where
  "totalMinutesToday D now devices = fold (\<lambda>d acc. acc + (now - D (lv_clockedInSince d)) div 60000) devices 0"

definition timeTodayLabel :: "int \<Rightarrow> string" where
  "timeTodayLabel total_minutes = int_str (total_minutes div 60) @ ''h '' @ int_str (total_minutes mod 60) @ ''m''"

definition onlineCount :: "LiveDevice list \<Rightarrow> nat" where
  "onlineCount devices = length devices"

lemma totalMinutes_sum: "totalMinutesToday D now devices = (\<Sum>d \<leftarrow> devices. (now - D (lv_clockedInSince d)) div 60000)"
proof -
  have "fold (\<lambda>d acc. acc + f d) ds a = a + (\<Sum>d \<leftarrow> ds. f d)" for f :: "LiveDevice \<Rightarrow> int" and ds a
    by (induction ds arbitrary: a) simp_all
  then show ?thesis by (simp add: totalMinutesToday_def)
qed

lemma grid_since:
  "lv_clockedInSince (as_live_device (live_device L org T d)) = toISOString (nullish (ad_lastSeenAt d) (ad_createdAt d))"
  by (simp add: as_live_device_def live_device_def Let_def text_of_def read_property_def)

text \<open>
  The tile Hours Tracked Today has nothing to do with hours worked: the server fills clockedInSince of a device
  with its last heartbeat and lists devices seen in the last five minutes only, so, whatever the clock says and
  however long the day was, the tile shows at most five minutes per device and the age of the answer.
\<close>

theorem hours_today_bounded:
  assumes R: "repository (lo_devices L) ad_id" and "fetched \<le> now"
    and D: "\<forall>d \<in> set (lt_devices T). \<forall>s. ad_lastSeenAt d = Some s \<longrightarrow> D (toISOString s) = s"
  shows "totalMinutesToday D now (live_devices (live_grid L fetched org T)) \<le>
    int (onlineCount (live_devices (live_grid L fetched org T))) * ((now - fetched + 5 * 60 * 1000) div 60000)"
proof -
  define rows where "rows = orm_find (lo_devices L) (\<lambda>d. ad_organizationId d = org \<and> ad_isActive d
      \<and> (case ad_lastSeenAt d of None \<Rightarrow> False | Some s \<Rightarrow> fetched - ONLINE_WINDOW_MS < s))
      (nulls_first_desc ad_lastSeenAt) None (lt_devices T)"
  have g: "live_devices (live_grid L fetched org T) = map (\<lambda>d. as_live_device (live_device L org T d)) rows"
    by (simp add: live_devices_def live_grid_def rows_def comp_def)
  have "(now - D (lv_clockedInSince (as_live_device (live_device L org T d)))) div 60000 \<le>
      (now - fetched + 5 * 60 * 1000) div 60000" if "d \<in> set rows" for d
  proof -
    have d: "d \<in> set (lt_devices T)" "case ad_lastSeenAt d of None \<Rightarrow> False | Some s \<Rightarrow> fetched - ONLINE_WINDOW_MS < s"
      using that repository.find_subset [OF R] unfolding rows_def by blast+
    then obtain s where s: "ad_lastSeenAt d = Some s" "fetched - ONLINE_WINDOW_MS < s" by (auto split: option.splits)
    then have "D (toISOString s) = s" using D d(1) by blast
    then show ?thesis using s by (simp add: grid_since ONLINE_WINDOW_MS_def zdiv_mono1)
  qed
  then have "(\<Sum>d \<leftarrow> rows. (now - D (lv_clockedInSince (as_live_device (live_device L org T d)))) div 60000) \<le>
      (\<Sum>d \<leftarrow> rows. (now - fetched + 5 * 60 * 1000) div 60000)" by (rule sum_list_mono)
  then show ?thesis unfolding g by (simp add: totalMinutes_sum comp_def sum_list_triv onlineCount_def)
qed

theorem hours_today_bounded_witness:
  "totalMinutesToday (\<lambda>_. 0) 60000 (live_devices (live_grid live_list 60000 ''o'' live_demo)) \<le>
    int (onlineCount (live_devices (live_grid live_list 60000 ''o'' live_demo))) * ((60000 - 60000 + 5 * 60 * 1000) div 60000)"
  by (rule hours_today_bounded) (simp_all add: live_list_def live_demo_def laptop_row_def new_device_def)

section \<open>The clock widget, the entries and the payroll page\<close>

definition pad_start2 :: "string \<Rightarrow> string" where
  "pad_start2 s = replicate (2 - length s) (CHR ''0'') @ s"

definition ElapsedTimer :: "(string \<Rightarrow> js_time) \<Rightarrow> js_time \<Rightarrow> string \<Rightarrow> string" where
  "ElapsedTimer D now since = (let ms = now - D since; h = ms div 3600000; m = ms mod 3600000 div 60000;
       s = ms mod 60000 div 1000
     in pad_start2 (int_str h) @ '':'' @ pad_start2 (int_str m) @ '':'' @ pad_start2 (int_str s))"

definition durationMinutes :: "(string \<Rightarrow> js_time) \<Rightarrow> string \<Rightarrow> string option \<Rightarrow> int" where
  "durationMinutes D start theEnd = (if falsy_str theEnd then 0 else (D (the theEnd) - D start) div 60000)"

definition getMonthStart :: "int \<Rightarrow> js_time \<Rightarrow> string" where
  "getMonthStart off now = int_str (YearFromTime (now + off)) @ ''-'' @
     pad_start2 (nat_str (MonthFromTime (now + off))) @ ''-01''"

text \<open>
  The two ends of the default period come from different clocks: on the first of a month, in the hours
  in which the browser is a day ahead of UTC, the period starts after it ends.
\<close>

lemma month_start_after_today:
  "getMonthStart (2 * 3600000) (1738364400000) = ''2025-02-01''" "todayISO 1738364400000 = ''2025-01-31''"
  by (code_simp, code_simp)

end
