(* ===== verification/WatchLive.thy ===== *)
theory WatchLive
  imports StreamGateway StreamClient LiveBoard AuthWeb
begin

text \<open>
  Watching an employee live, from the pages to the flag the agent asks for: the live page
  (app/(dashboard)/live/live-page-client.tsx), the page of an employee (app/(dashboard)/monitoring/[userId]),
  the full-screen view that keeps the watch flag alive (components/streaming/live-screenshot-view.tsx), the
  stream grid and its full-screen view (stream-grid.tsx, stream-fullscreen.tsx), joined with the requests
  of StreamingController and with LiveWatchCache. \<open>D\<close> is \<open>new Date(s).getTime()\<close>.
\<close>

section \<open>The live page\<close>

fun status_order :: "presence \<Rightarrow> nat" where
  "status_order Online = 0"
| "status_order Idle = 1"
| "status_order Offline = 2"

definition card_status :: "MonitoringStore \<Rightarrow> LiveDevice \<Rightarrow> presence" where
  "card_status st d = (case mw_employees st (lv_userId d) of None \<Rightarrow> Online | Some e \<Rightarrow> ew_status e)"

definition last_seen_ms :: "(string \<Rightarrow> js_time) \<Rightarrow> LiveDevice \<Rightarrow> js_time" where
  "last_seen_ms D d = (if falsy_str (lv_lastSeenAt d) then 0 else D (the (lv_lastSeenAt d)))"

text \<open>
  The sort of JavaScript is stable, so sorting by the second criterion first and by the status afterwards
  is sorting by the status and, within it, by the last time seen.
\<close>

definition sortedDevices ::
  "(string \<Rightarrow> js_time) \<Rightarrow> MonitoringStore \<Rightarrow> LiveDevice list \<Rightarrow> (LiveDevice \<times> presence) list" where
  "sortedDevices D st devices = sort_key (\<lambda>(d, s). status_order s)
     (sort_key (\<lambda>(d, s). - last_seen_ms D d) (map (\<lambda>d. (d, card_status st d)) devices))"

definition live_onlineCount :: "(LiveDevice \<times> presence) list \<Rightarrow> nat" where
  "live_onlineCount cards = length (filter (\<lambda>(d, s). s \<noteq> Offline) cards)"

definition watchedCardTitle :: "LiveDevice option \<Rightarrow> string" where
  "watchedCardTitle watched = (case watched of None \<Rightarrow> []
     | Some d \<Rightarrow> nullish (lv_displayName d) (nullish (lv_hostname d) (lv_userName d)))"

text \<open>The device that opens by itself when the page is reached with \<open>?focus=\<close>.\<close>

definition focusMatch :: "string option \<Rightarrow> LiveDevice list \<Rightarrow> LiveDevice option" where
  "focusMatch focusDeviceId devices = (if falsy_str focusDeviceId \<or> devices = [] then None
     else find (\<lambda>d. lv_deviceId d = the focusDeviceId) devices)"

definition watch_disabled :: "LiveDevice \<times> presence \<Rightarrow> bool" where
  "watch_disabled shown \<longleftrightarrow> snd shown = Offline \<or> lv_deviceId (fst shown) = []"

section \<open>The page of an employee\<close>

definition userDevices :: "AgentDevice list \<Rightarrow> string \<Rightarrow> AgentDevice list" where
  "userDevices allDevices userId = filter (\<lambda>d. ad_userId d = userId) allDevices"

definition day_range :: "string \<Rightarrow> string \<times> string" where
  "day_range selectedDate = (selectedDate @ ''T00:00:00.000Z'', selectedDate @ ''T23:59:59.999Z'')"

text \<open>
  Whether or not the request succeeds (\<open>ok\<close> is false when it does not reach the server), the page goes
  to the live page.
\<close>

definition handleWatchLive ::
  "AgentDevice orm \<Rightarrow> js_time \<Rightarrow> string \<Rightarrow> User \<Rightarrow> bool \<Rightarrow> 's StreamingController \<Rightarrow> string \<times> 's StreamingController" where
  "handleWatchLive RD now userId user ok c =
     (''/live?focus='' @ userId, if ok then snd (requestStream RD now userId user c) else c)"

section \<open>The full-screen view\<close>

definition KEEPALIVE_INTERVAL_MS :: int where "KEEPALIVE_INTERVAL_MS = 15000"

definition FRAME_POLL_INTERVAL_MS :: int where "FRAME_POLL_INTERVAL_MS = 2000"

definition startRoute :: "string \<Rightarrow> string option \<Rightarrow> string" where
  "startRoute userId deviceId = (if falsy_str deviceId then ''/streaming/request/'' @ userId
     else ''/streaming/request/device/'' @ the deviceId)"

definition stopRoute :: "string \<Rightarrow> string option \<Rightarrow> string" where
  "stopRoute userId deviceId = (if falsy_str deviceId then ''/streaming/request/'' @ userId @ ''/stop''
     else ''/streaming/request/device/'' @ the deviceId @ ''/stop'')"

text \<open>The request behind \<open>startRoute\<close> and the one behind \<open>stopRoute\<close>, as the controller serves them.\<close>

definition view_ping ::
  "AgentDevice orm \<Rightarrow> string \<Rightarrow> string option \<Rightarrow> User \<Rightarrow> js_time \<Rightarrow> 's StreamingController \<Rightarrow> 's StreamingController" where
  "view_ping RD userId deviceId user now c = (if falsy_str deviceId then snd (requestStream RD now userId user c)
     else snd (requestStreamByDevice RD now (the deviceId) user c))"

definition view_close ::
  "AgentDevice orm \<Rightarrow> string \<Rightarrow> string option \<Rightarrow> User \<Rightarrow> 's StreamingController \<Rightarrow> 's StreamingController" where
  "view_close RD userId deviceId user c = (if falsy_str deviceId then stopStream RD userId user c
     else snd (stopStreamByDevice RD (the deviceId) user c))"

text \<open>
  The view pings when it mounts, at \<open>t0\<close>, and then every fifteen seconds. A ping takes a while to arrive,
  \<open>Some delay\<close>, or is lost.
\<close>

fun ping_arrivals :: "js_time \<Rightarrow> int option list \<Rightarrow> js_time list" where
  "ping_arrivals due [] = []"
| "ping_arrivals due (None # ps) = ping_arrivals (due + KEEPALIVE_INTERVAL_MS) ps"
| "ping_arrivals due (Some delay # ps) = (due + delay) # ping_arrivals (due + KEEPALIVE_INTERVAL_MS) ps"

text \<open>
  What reaches the server while a view is open, from this view, from other views and from elsewhere: a request
  behind a start or a stop route, of anybody, for a device or for a user; the poll of an agent; the sweep of the
  cache; and a write of the device table by the rest of the API, a heartbeat above all.
\<close>

datatype watch_request =
  Ping string "string option" User | Shut string "string option" User
  | Poll string string | SweepCache | Table "AgentDevice list"

fun serve_watch :: "AgentDevice orm \<Rightarrow> js_time \<times> watch_request \<Rightarrow> 's StreamingController \<Rightarrow> 's StreamingController" where
  "serve_watch RD (now, Ping userId deviceId user) c = view_ping RD userId deviceId user now c"
| "serve_watch RD (now, Shut userId deviceId user) c = view_close RD userId deviceId user c"
| "serve_watch RD (now, Poll userId deviceId) c = c\<lparr>sk_cache := snd (isWatched now userId deviceId (sk_cache c))\<rparr>"
| "serve_watch RD (now, SweepCache) c = c\<lparr>sk_cache := watch_sweep now (sk_cache c)\<rparr>"
| "serve_watch RD (now, Table devices) c = c\<lparr>sk_devices := devices\<rparr>"

definition watch_served ::
  "AgentDevice orm \<Rightarrow> (js_time \<times> watch_request) list \<Rightarrow> js_time \<Rightarrow> 's StreamingController \<Rightarrow> 's StreamingController" where
  "watch_served RD trace t c = fold (serve_watch RD) (filter (\<lambda>q. fst q \<le> t) trace) c"

definition frameAgeSec :: "(string \<Rightarrow> js_time) \<Rightarrow> js_time \<Rightarrow> LiveView \<Rightarrow> int option" where
  "frameAgeSec D now v = (if falsy_str (lv_capturedAt v) then None
     else Some (max 0 ((now - D (the (lv_capturedAt v))) div 1000)))"

section \<open>The stream grid\<close>

datatype Quality = HD | SD | Low

fun QUALITY_MODE :: "Quality \<Rightarrow> string" where
  "QUALITY_MODE HD = ''full''"
| "QUALITY_MODE SD = ''grid''"
| "QUALITY_MODE Low = ''grid''"

definition formatElapsed :: "int \<Rightarrow> string" where
  "formatElapsed secs = (let h = secs div 3600; m = secs mod 3600 div 60; s = secs mod 60;
       mm = pad_start2 (int_str m); ss = pad_start2 (int_str s)
     in if h > 0 then int_str h @ '':'' @ mm @ '':'' @ ss else mm @ '':'' @ ss)"

record 'b StreamGrid =
  zg_fullscreen :: "string option"
  zg_hook :: "'b StreamHook"

definition handleExpand :: "string \<Rightarrow> 'b StreamGrid \<Rightarrow> 'b StreamGrid" where
  "handleExpand userId g = g\<lparr>zg_fullscreen := Some userId\<rparr>"

definition handleCloseFullscreen :: "'b StreamGrid \<Rightarrow> 'b StreamGrid" where
  "handleCloseFullscreen g = g\<lparr>zg_fullscreen := None\<rparr>"

text \<open>The callback of the IntersectionObserver: which tiles came into view or left it.\<close>

definition observe_tiles :: "(string \<times> bool) list \<Rightarrow> 'b StreamGrid \<Rightarrow> 'b StreamGrid" where
  "observe_tiles entries g = g\<lparr>zg_hook := fold (\<lambda>(userId, isIntersecting) h.
     if userId = [] then h else if isIntersecting then stream_subscribe userId h
     else stream_unsubscribe userId h) entries (zg_hook g)\<rparr>"

definition fullscreenStream :: "'b StreamGrid \<Rightarrow> 'b EmployeeStream option" where
  "fullscreenStream g = (if falsy_str (zg_fullscreen g) then None
     else xs_streams (zg_hook g) (the (zg_fullscreen g)))"

definition handleStop :: "bool \<Rightarrow> string \<Rightarrow> 'b StreamGrid \<Rightarrow> 'b StreamGrid" where
  "handleStop ok userId g = handleCloseFullscreen (g\<lparr>zg_hook := hook_stopStream ok userId (zg_hook g)\<rparr>)"

definition handleMute :: "string \<Rightarrow> 'b StreamGrid \<Rightarrow> 'b StreamGrid" where
  "handleMute userId g = g\<lparr>zg_hook :=
     muteStream userId (userId \<notin> xs_mutedStreams (zg_hook g)) (zg_hook g)\<rparr>"

section \<open>The body of a mode change\<close>

text \<open>
  main.ts runs every body through \<open>ValidationPipe\<close> with \<open>whitelist\<close> and \<open>forbidNonWhitelisted\<close>, which is documented
  to refuse a body with a property that no validation decorator of the DTO names. UpdateModeDto and
  UpdateStreamingConfigDto have no decorator at all.
\<close>

definition validation_pipe :: "string list \<Rightarrow> (string \<times> 'v) list \<Rightarrow> bool" where
  "validation_pipe decorated body \<longleftrightarrow> fst ` set body \<subseteq> set decorated"

definition UpdateModeDto_decorated :: "string list" where
  "UpdateModeDto_decorated = []"

definition UpdateStreamingConfigDto_decorated :: "string list" where
  "UpdateStreamingConfigDto_decorated = []"

text \<open>
  POST /streaming/sessions/:userId/mode: the pipe, then the handler, for which a mode that is not in the body
  is \<open>undefined\<close>; and what the selector of the full-screen view sends.
\<close>

definition serve_mode ::
  "StreamSession orm \<Rightarrow> string \<Rightarrow> (string \<times> string) list \<Rightarrow> 's StreamingController \<Rightarrow>
   StreamMode outcome \<times> 's StreamingController" where
  "serve_mode R userId body c = (if \<not> validation_pipe UpdateModeDto_decorated body
     then (Inl (BadRequest ''Bad Request''), c)
     else ctl_updateSessionMode R userId (nullish (map_of body ''mode'') ''undefined'') c)"

definition handleQuality ::
  "StreamSession orm \<Rightarrow> string \<Rightarrow> Quality \<Rightarrow> 's StreamingController \<Rightarrow> Quality \<times> 's StreamingController" where
  "handleQuality R userId q c = (q, snd (serve_mode R userId [(''mode'', QUALITY_MODE q)] c))"

section \<open>The flag stays while somebody watches\<close>

lemma ping_arrivals_nth:
  "k < length ps \<Longrightarrow> ps ! k = Some delay \<Longrightarrow> due + KEEPALIVE_INTERVAL_MS * int k + delay \<in> set (ping_arrivals due ps)"
proof (induction due ps arbitrary: k rule: ping_arrivals.induct)
  case (2 due ps)
  then show ?case by (cases k) (auto simp: algebra_simps)
next
  case (3 due d ps)
  show ?case
  proof (cases k)
    case (Suc j)
    then have "due + KEEPALIVE_INTERVAL_MS + KEEPALIVE_INTERVAL_MS * int j + delay
        \<in> set (ping_arrivals (due + KEEPALIVE_INTERVAL_MS) ps)" using 3 by simp
    then show ?thesis using Suc by (simp add: algebra_simps)
  qed (use 3 in simp)
qed simp

text \<open>A stop that turns the flag of a device off: one for the device, or one for its user.\<close>

fun turns_off :: "string \<Rightarrow> string \<Rightarrow> watch_request \<Rightarrow> bool" where
  "turns_off dev uid (Shut userId deviceId user) \<longleftrightarrow> (if falsy_str deviceId then userId = uid else deviceId = Some dev)"
| "turns_off dev uid _ \<longleftrightarrow> False"

definition device_listed :: "string \<Rightarrow> string \<Rightarrow> string \<Rightarrow> AgentDevice list \<Rightarrow> bool" where
  "device_listed dev uid org ds \<longleftrightarrow> keyed ad_id ds \<and> (\<forall>e \<in> set ds. colon_free (ad_userId e)) \<and>
     (\<exists>e \<in> set ds. ad_id e = dev \<and> ad_userId e = uid \<and> ad_organizationId e = org)"

fun listed_in_table :: "string \<Rightarrow> string \<Rightarrow> string \<Rightarrow> watch_request \<Rightarrow> bool" where
  "listed_in_table dev uid org (Table ds) \<longleftrightarrow> device_listed dev uid org ds"
| "listed_in_table dev uid org _ \<longleftrightarrow> True"

lemma device_listedD:
  assumes "device_listed dev uid org ds" and "repository RD ad_id"
  shows "e \<in> set ds \<Longrightarrow> colon_free (ad_userId e)" "e \<in> set ds \<Longrightarrow> ad_id e = dev \<Longrightarrow> ad_userId e = uid" "colon_free uid"
    "\<exists>e. find_one RD (\<lambda>e. ad_id e = dev \<and> ad_organizationId e = org) ds = Some e \<and> ad_id e = dev \<and> ad_userId e = uid"
proof -
  obtain d where d: "d \<in> set ds" "ad_id d = dev" "ad_userId d = uid" "ad_organizationId d = org"
    and K: "keyed ad_id ds" and free: "\<And>e. e \<in> set ds \<Longrightarrow> colon_free (ad_userId e)"
    using assms(1) unfolding device_listed_def by blast
  show "e \<in> set ds \<Longrightarrow> colon_free (ad_userId e)" "colon_free uid" using free d by auto
  have one: "e = d" if "e \<in> set ds" "ad_id e = dev" for e
    by (rule keyed_same [OF K that(1) d(1)]) (simp add: that d)
  show "e \<in> set ds \<Longrightarrow> ad_id e = dev \<Longrightarrow> ad_userId e = uid" using one d by blast
  have "find_one RD (\<lambda>e. ad_id e = dev \<and> ad_organizationId e = org) ds = Some d"
  proof (rule repository.find_one_unique [OF assms(2) d(1)])
    show "ad_id d = dev \<and> ad_organizationId d = org" using d by blast
    fix r assume "r \<in> set ds" "ad_id r = dev \<and> ad_organizationId r = org"
    then show "r = d" using one [of r] by blast
  qed
  then show "\<exists>e. find_one RD (\<lambda>e. ad_id e = dev \<and> ad_organizationId e = org) ds = Some e \<and> ad_id e = dev \<and> ad_userId e = uid"
    using d by blast
qed

text \<open>The flag of the device is set until a minute after \<open>a\<close> at least.\<close>

definition flagged :: "js_time \<Rightarrow> string \<Rightarrow> 's StreamingController \<Rightarrow> bool" where
  "flagged a k c \<longleftrightarrow> (\<exists>x. lw_store (sk_cache c) k = Some x \<and> a + 60000 \<le> x)"

lemma clear_all_store:
  "\<forall>e \<in> set es. watch_key userId (ad_id e) \<noteq> k \<Longrightarrow>
   lw_store (fold (\<lambda>e. clearWatched userId (ad_id e)) es s) k = lw_store s k"
  by (induction es arbitrary: s) (auto simp: clearWatched_def)

lemma ping_flags:
  assumes "device_listed dev uid org (sk_devices c)" and RD: "repository RD ad_id" and "dev \<noteq> []"
    and "u_organizationId user = org"
  shows "flagged now (watch_key uid dev) (view_ping RD userId (Some dev) user now c)"
proof -
  obtain e where "find_one RD (\<lambda>e. ad_id e = dev \<and> ad_organizationId e = org) (sk_devices c) = Some e"
    "ad_id e = dev" "ad_userId e = uid" using device_listedD(4) [OF assms(1) RD] by blast
  then show ?thesis using assms(3,4)
    by (simp add: view_ping_def requestStreamByDevice_def send_control_def flagged_def markWatched_def WATCH_FLAG_TTL_SECONDS_def)
qed

lemma later_ping_keeps:
  assumes "flagged a k c" and "a \<le> now"
  shows "flagged a k (view_ping RD userId deviceId user now c)"
  using assms
  by (auto simp: view_ping_def live_view_defs flagged_def markWatched_def WATCH_FLAG_TTL_SECONDS_def split: option.split)

lemma other_close_keeps:
  assumes L: "device_listed dev uid org (sk_devices c)" and RD: "repository RD ad_id"
    and "flagged a (watch_key uid dev) c" and off: "\<not> turns_off dev uid (Shut userId deviceId user)"
  shows "flagged a (watch_key uid dev) (view_close RD userId deviceId user c)"
proof (cases "falsy_str deviceId")
  case True
  let ?es = "orm_find RD (\<lambda>d. ad_userId d = userId \<and> ad_organizationId d = u_organizationId user \<and> ad_isActive d)
    any_order None (sk_devices c)"
  have "watch_key userId (ad_id e) \<noteq> watch_key uid dev" if "e \<in> set ?es" for e
    using repository.find_subset [OF RD that] device_listedD(1) [OF L RD, of e] device_listedD(3) [OF L RD] off True
    by (auto simp: watch_key_inj)
  then show ?thesis using assms(3) True clear_all_store [of ?es userId "watch_key uid dev" "sk_cache c"]
    by (simp add: view_close_def stopStream_def send_control_def flagged_def Let_def)
next
  case False
  then obtain i where i: "deviceId = Some i" "i \<noteq> dev" using off by (cases deviceId) auto
  show ?thesis
  proof (cases "find_one RD (\<lambda>e. ad_id e = i \<and> ad_organizationId e = u_organizationId user) (sk_devices c)")
    case (Some e)
    have "e \<in> set (sk_devices c)" "ad_id e = i" using repository.find_one_SomeD [OF RD Some] by simp_all
    then have "watch_key (ad_userId e) (ad_id e) \<noteq> watch_key uid dev"
      using i device_listedD(1,3) [OF L RD] by (simp add: watch_key_inj)
    then show ?thesis using Some False i assms(3)
      by (auto simp: view_close_def stopStreamByDevice_def send_control_def flagged_def clearWatched_def)
  qed (use False i assms(3) in \<open>simp add: view_close_def stopStreamByDevice_def\<close>)
qed

lemma view_devices [simp]:
  "sk_devices (view_ping RD userId deviceId user now c) = sk_devices c"
  "sk_devices (view_close RD userId deviceId user c) = sk_devices c"
  by (simp_all add: view_ping_def view_close_def live_view_defs Let_def split: option.split)

lemma serve_listed:
  "device_listed dev uid org (sk_devices c) \<Longrightarrow> listed_in_table dev uid org (snd q) \<Longrightarrow>
   device_listed dev uid org (sk_devices (serve_watch RD q c))"
  by (cases "(RD, q, c)" rule: serve_watch.cases) simp_all

lemma serve_keeps:
  assumes "device_listed dev uid org (sk_devices c)" and "repository RD ad_id" and F: "flagged a (watch_key uid dev) c"
    and now: "a \<le> fst q" "fst q \<le> a + 60000" and "\<not> turns_off dev uid (snd q)"
  shows "flagged a (watch_key uid dev) (serve_watch RD q c)"
proof (cases "(RD, q, c)" rule: serve_watch.cases)
  case (1 R t userId deviceId user c')
  then show ?thesis using later_ping_keeps [OF F now(1)] by simp
next
  case (2 R t userId deviceId user c')
  then show ?thesis using other_close_keeps [OF assms(1-3), of userId deviceId user] assms(6) by simp
next
  case (3 R t userId deviceId c')
  then show ?thesis using F now by (auto simp: flagged_def isWatched_def Let_def split: option.split)
next
  case (4 R t c')
  then show ?thesis using F now by (auto simp: flagged_def watch_sweep_def)
next
  case (5 R t ds c')
  then show ?thesis using F by (simp add: flagged_def)
qed

lemma trace_keeps:
  assumes "device_listed dev uid org (sk_devices c)" and "repository RD ad_id" and "flagged a (watch_key uid dev) c"
    and "\<And>q. q \<in> set qs \<Longrightarrow> a \<le> fst q \<and> fst q \<le> a + 60000 \<and> \<not> turns_off dev uid (snd q) \<and>
      listed_in_table dev uid org (snd q)"
  shows "flagged a (watch_key uid dev) (fold (serve_watch RD) qs c)"
  using assms
proof (induction qs arbitrary: c)
  case (Cons q qs)
  have "device_listed dev uid org (sk_devices (serve_watch RD q c))" "flagged a (watch_key uid dev) (serve_watch RD q c)"
    using serve_listed [OF Cons.prems(1)] serve_keeps [OF Cons.prems(1-3)] Cons.prems(4) by simp_all
  from Cons.IH [OF this(1) Cons.prems(2) this(2)] show ?case using Cons.prems(4) by simp
qed simp

lemma trace_listed:
  "device_listed dev uid org (sk_devices c) \<Longrightarrow> (\<And>q. q \<in> set qs \<Longrightarrow> listed_in_table dev uid org (snd q)) \<Longrightarrow>
   device_listed dev uid org (sk_devices (fold (serve_watch RD) qs c))"
  by (induction qs arbitrary: c) (simp_all add: serve_listed)

text \<open>From a ping of a view on, the flag is there for a minute, unless a stop turns it off.\<close>

lemma minute_after_ping:
  assumes L: "device_listed dev uid org (sk_devices c)" and RD: "repository RD ad_id" and "dev \<noteq> []"
    and "u_organizationId user = org" and srt: "sorted (map fst trace)"
    and ping: "(a, Ping userId (Some dev) user) \<in> set trace" and t: "a \<le> t" "t \<le> a + 60000"
    and off: "\<forall>(s, q) \<in> set trace. (a \<le> s \<longrightarrow> s \<le> t \<longrightarrow> \<not> turns_off dev uid q) \<and> listed_in_table dev uid org q"
  shows "fst (isWatched t uid dev (sk_cache (watch_served RD trace t c)))"
proof -
  let ?q = "(a, Ping userId (Some dev) user)"
  have "?q \<in> set (filter (\<lambda>q. fst q \<le> t) trace)" using ping t by simp
  then obtain as bs where split: "filter (\<lambda>q. fst q \<le> t) trace = as @ ?q # bs" by (metis split_list)
  have "sorted (map fst (filter (\<lambda>q. fst q \<le> t) trace))" using srt by (rule sorted_filter)
  then have "\<forall>q \<in> set bs. a \<le> fst q" unfolding split by (simp add: sorted_append)
  moreover have in_trace: "set as \<subseteq> set trace" "set bs \<subseteq> {q \<in> set trace. fst q \<le> t}"
    using arg_cong [OF split, of set] by auto
  ultimately have bs: "a \<le> fst q \<and> fst q \<le> a + 60000 \<and> \<not> turns_off dev uid (snd q) \<and> listed_in_table dev uid org (snd q)"
    if "q \<in> set bs" for q using that off t by fastforce
  have as: "listed_in_table dev uid org (snd q)" if "q \<in> set as" for q using that in_trace(1) off by fastforce
  define c1 where "c1 = fold (serve_watch RD) as c"
  have L1: "device_listed dev uid org (sk_devices c1)" unfolding c1_def by (rule trace_listed [OF L as])
  have "flagged a (watch_key uid dev) (fold (serve_watch RD) bs (view_ping RD userId (Some dev) user a c1))"
    by (rule trace_keeps [OF _ RD ping_flags [OF L1 RD assms(3,4)] bs]) (use L1 in simp_all)
  then have "flagged a (watch_key uid dev) (watch_served RD trace t c)" by (simp add: watch_served_def split c1_def)
  then show ?thesis using t by (auto simp: flagged_def isWatched_def Let_def)
qed

text \<open>
  C39. While the full-screen view of a device is open the agent is told so without a gap, among whatever else
  the server is asked: as long as no more than two pings of the view in a row are lost and none takes longer
  than the interval, and no stop for this device or its user arrives from the first ping on, every poll of the
  agent between the arrival of the first ping and the time of the next one to be sent finds the flag. Other
  views, the stops of other devices, the polls, the sweeps and the heartbeats do no harm; a stop for this
  device does (\<open>closing_darkens_others\<close>).
\<close>

theorem watch_flag_kept:
  assumes RD: "repository RD ad_id" and L: "device_listed dev uid org (sk_devices c)" and ne: "dev \<noteq> []"
    and usr: "u_organizationId user = org"
    and first: "ps \<noteq> []" "hd ps = Some d0"
    and delay: "\<forall>p \<in> set ps. \<forall>x. p = Some x \<longrightarrow> 0 \<le> x \<and> x \<le> KEEPALIVE_INTERVAL_MS"
    and two: "\<forall>k. k + 2 < length ps \<longrightarrow> ps ! k \<noteq> None \<or> ps ! (k + 1) \<noteq> None \<or> ps ! (k + 2) \<noteq> None"
    and srt: "sorted (map fst trace)"
    and pings: "\<forall>a \<in> set (ping_arrivals t0 ps). (a, Ping userId (Some dev) user) \<in> set trace"
    and open_view: "\<forall>(s, q) \<in> set trace. (t0 + d0 \<le> s \<longrightarrow> s \<le> t \<longrightarrow> \<not> turns_off dev uid q) \<and> listed_in_table dev uid org q"
    and t: "t0 + d0 \<le> t" "t \<le> t0 + KEEPALIVE_INTERVAL_MS * int (length ps)"
  shows "fst (isWatched t uid dev (sk_cache (watch_served RD trace t c)))"
proof -
  let ?as = "ping_arrivals t0 ps" and ?K = KEEPALIVE_INTERVAL_MS
  have K: "?K = 15000" by (simp add: KEEPALIVE_INTERVAL_MS_def)
  have d0: "0 \<le> d0" "d0 \<le> ?K" using delay first by (metis list.set_sel(1))+
  have a0: "t0 + d0 \<in> set ?as" using ping_arrivals_nth [of 0 ps d0 t0] first by (cases ps) simp_all
  define m where "m = nat ((t - t0) div ?K)"
  have m: "?K * int m \<le> t - t0" "t - t0 < ?K * int m + ?K" using t d0 unfolding m_def K by auto
  have "\<exists>a \<in> set ?as. t0 + d0 \<le> a \<and> a \<le> t \<and> t \<le> a + 60000"
  proof (cases "m < 3")
    case True
    have "?K * int m \<le> ?K * 2" using True unfolding K by simp
    then have "t \<le> t0 + d0 + 60000" using m d0 unfolding K by linarith
    then show ?thesis using t(1) a0 by blast
  next
    case False
    then obtain j where j: "m = j + 3" by (metis add.commute le_Suc_ex not_less)
    have "int m \<le> int (length ps)" using m(1) t(2) unfolding K by linarith
    then have len: "j + 2 < length ps" using j by simp
    obtain i x where i: "i \<in> {j, j + 1, j + 2}" "ps ! i = Some x" using two len by fastforce
    then have il: "i < length ps" using len by auto
    then have x: "0 \<le> x" "x \<le> ?K" using delay i(2) by (metis nth_mem)+
    have later: "t0 + d0 \<le> t0 + ?K * int i + x"
    proof (cases "i = 0")
      case True
      then have "hd ps = ps ! 0" using first(1) by (simp add: hd_conv_nth)
      then show ?thesis using True i(2) first(2) by simp
    next
      case False
      then have "1 \<le> int i" by simp
      then show ?thesis using d0 x unfolding K by linarith
    qed
    have "?K * int j \<le> ?K * int i" "?K * int i \<le> ?K * int (j + 2)" using i(1) unfolding K by auto
    then have "t0 + ?K * int i + x \<le> t" "t \<le> t0 + ?K * int i + x + 60000"
      using m x j unfolding K by simp_all
    then show ?thesis using ping_arrivals_nth [OF il i(2), of t0] later by blast
  qed
  then obtain a where a: "a \<in> set ?as" "t0 + d0 \<le> a" "a \<le> t" "t \<le> a + 60000" by blast
  have "\<forall>(s, q) \<in> set trace. (a \<le> s \<longrightarrow> s \<le> t \<longrightarrow> \<not> turns_off dev uid q) \<and> listed_in_table dev uid org q"
    using open_view a(2) by (auto dest: order_trans)
  then show ?thesis using minute_after_ping [OF L RD ne usr srt _ a(3,4)] pings a(1) by blast
qed

definition watched_office :: "unit StreamingController" where
  "watched_office = \<lparr>sk_gateway = connected_gateway, sk_cache = \<lparr>lw_store = Map.empty\<rparr>, sk_devices = [sample_device]\<rparr>"

lemma watched_office_simps [simp]:
  "sk_devices watched_office = [sample_device]" "keyed ad_id [sample_device]"
  "ad_id sample_device = ''d''" "ad_userId sample_device = ''u''" "ad_organizationId sample_device = ''o''"
  by (simp_all add: watched_office_def sample_device_def keyed_def)

definition other_device :: AgentDevice where
  "other_device = sample_device\<lparr>ad_id := ''e'', ad_userId := ''v''\<rparr>"

definition busy_trace :: "(js_time \<times> watch_request) list" where
  "busy_trace = [(100, Ping ''u'' (Some ''d'') (agent_user ''m'' ''o'' ''x'')), (200, Poll ''u'' ''d''),
     (30000, Table [sample_device\<lparr>ad_lastSeenAt := Some 30000\<rparr>, other_device]),
     (40000, Shut ''v'' (Some ''e'') (agent_user ''n'' ''o'' ''y'')), (44000, SweepCache),
     (45200, Ping ''u'' (Some ''d'') (agent_user ''m'' ''o'' ''x''))]"

theorem watch_flag_kept_witness:
  "fst (isWatched 45050 ''u'' ''d'' (sk_cache (watch_served (typeorm_list ad_id) busy_trace 45050 watched_office)))"
  using watch_flag_kept [of "typeorm_list ad_id" "''d''" "''u''" "''o''" watched_office "agent_user ''m'' ''o'' ''x''"
      "[Some 100, None, None, Some 200]" 100 busy_trace 0 "''u''" 45050]
  by (auto simp: KEEPALIVE_INTERVAL_MS_def agent_user_def nth_Cons busy_trace_def device_listed_def colon_free_def
      keyed_def other_device_def sample_device_def watched_office_def split: nat.split)

text \<open>
  Three lost pings in a row are too many, against what the comment at the interval says: the fourth attempt
  is sent when the flag is about to expire, and if it takes longer than the first one did, the agent is told
  in between that nobody watches.
\<close>

lemma three_lost_pings_dark:
  assumes RD: "repository RD ad_id" and L: "device_listed dev uid org (sk_devices c)" and ne: "dev \<noteq> []"
    and usr: "u_organizationId user = org"
    and t: "t0 + 60000 + x < t" "t < t0 + 60000 + y" and x: "0 \<le> x"
  shows "\<not> fst (isWatched t uid dev (sk_cache (watch_served RD
    (map (\<lambda>a. (a, Ping userId (Some dev) user)) (ping_arrivals t0 [Some x, None, None, None, Some y])) t c)))"
proof -
  have "filter (\<lambda>q. fst q \<le> t) (map (\<lambda>a. (a, Ping userId (Some dev) user))
      (ping_arrivals t0 [Some x, None, None, None, Some y])) = [(t0 + x, Ping userId (Some dev) user)]"
    using t x by (simp add: KEEPALIVE_INTERVAL_MS_def)
  moreover obtain e where "find_one RD (\<lambda>e. ad_id e = dev \<and> ad_organizationId e = org) (sk_devices c) = Some e"
    "ad_id e = dev" "ad_userId e = uid" using device_listedD(4) [OF L RD] by blast
  ultimately show ?thesis using ne usr t
    by (simp add: watch_served_def view_ping_def requestStreamByDevice_def send_control_def isWatched_after_mark
        WATCH_FLAG_TTL_SECONDS_def)
qed

text \<open>
  The flag does not count its viewers: one who closes the view turns it off for all who still watch the device,
  until the next ping of one of them.
\<close>

lemma closing_darkens_others:
  assumes RD: "repository RD ad_id" and d: "d \<in> set (sk_devices c)" "ad_organizationId d = u_organizationId user"
    and only: "keyed ad_id (sk_devices c)" and ne: "ad_id d \<noteq> []"
  shows "\<not> fst (isWatched t (ad_userId d) (ad_id d) (sk_cache (view_close RD userId (Some (ad_id d)) user c)))"
proof -
  have "find_one RD (\<lambda>e. ad_id e = ad_id d \<and> ad_organizationId e = u_organizationId user) (sk_devices c) = Some d"
    by (rule repository.find_one_unique [OF RD d(1)]) (use d keyed_same [OF only _ d(1)] in auto)
  then show ?thesis using ne
    by (simp add: view_close_def stopStreamByDevice_def send_control_def isWatched_def clearWatched_def)
qed

section \<open>What the pages show\<close>

text \<open>
  \<open>Watch Live\<close> on the page of an employee goes to the live page with the id of the user as the focus; the live
  page looks for a device with that id, so no view opens, although the server has been asked for one.
\<close>

lemma focus_opens_nothing:
  assumes "CHR 0x26 \<notin> set userId" and "\<forall>d \<in> set devices. lv_deviceId d \<noteq> userId"
  shows "focusMatch (search_param ''focus'' (fst (handleWatchLive RD now userId user ok c))) devices = None"
proof -
  have "search_param ''focus'' (fst (handleWatchLive RD now userId user ok c)) = Some userId"
    using assms(1) by (simp add: handleWatchLive_def search_param_def)
  then show ?thesis using assms(2) by (auto simp: focusMatch_def find_None_iff)
qed

text \<open>
  The view shows what arrived last, not what was captured last: a poll that was answered before the newest
  frame was stored, and comes in after its event, brings the older frame back.
\<close>

lemma late_poll_shows_older:
  assumes "i \<noteq> i'" and "url \<noteq> []" and "url' \<noteq> []" and "lv_lastId v = Some i"
  shows "let v1 = on_screenshot_event userId (Some dev) userId (Some dev) i' ts' url' v;
      v2 = on_poll False [(i, url, ts)] v1 in
    dev \<noteq> [] \<longrightarrow> lv_currentUrl v1 = Some url' \<and> lv_currentUrl v2 = Some url \<and> lv_capturedAt v2 = Some ts"
  using assms by (auto simp: on_screenshot_event_def on_poll_def pushNewFrame_def Let_def)

text \<open>The live page lists every device once, by status, and counts those whose user is not offline.\<close>

lemma sortedDevices_perm:
  "mset (map fst (sortedDevices D st devices)) = mset devices"
proof -
  have "image_mset fst (mset (sortedDevices D st devices)) = image_mset fst (mset (map (\<lambda>d. (d, card_status st d)) devices))"
    by (simp add: sortedDevices_def)
  then show ?thesis by (simp add: image_mset.compositionality comp_def)
qed

lemma sortedDevices_by_status:
  "sorted (map (status_order \<circ> snd) (sortedDevices D st devices))"
proof -
  have "status_order \<circ> snd = (\<lambda>(d :: LiveDevice, s). status_order s)" by auto
  then show ?thesis by (simp add: sortedDevices_def)
qed

lemma filter_length_mset: "mset xs = mset ys \<Longrightarrow> length (filter P xs) = length (filter P ys)"
  by (metis mset_filter size_mset)

lemma live_count_online:
  "live_onlineCount (sortedDevices D st devices) = length (filter (\<lambda>d. card_status st d \<noteq> Offline) devices)"
proof -
  have "mset (sortedDevices D st devices) = mset (map (\<lambda>d. (d, card_status st d)) devices)"
    by (simp add: sortedDevices_def)
  then have "live_onlineCount (sortedDevices D st devices) =
      length (filter (\<lambda>(d, s). s \<noteq> Offline) (map (\<lambda>d. (d, card_status st d)) devices))"
    unfolding live_onlineCount_def by (rule filter_length_mset)
  then show ?thesis by (simp add: filter_map comp_def)
qed

lemma formatElapsed_examples:
  "formatElapsed 59 = ''00:59''" "formatElapsed 3599 = ''59:59''" "formatElapsed 36061 = ''10:01:01''"
  by (code_simp, code_simp, code_simp)

text \<open>Muting twice is no change, and stopping a stream closes the full-screen view even when the request fails.\<close>

lemma handleMute_twice: "handleMute userId (handleMute userId g) = g"
  by (cases g; cases "zg_hook g") (auto simp: handleMute_def muteStream_def)

lemma handleStop_closes: "fullscreenStream (handleStop ok userId g) = None"
  by (simp add: fullscreenStream_def handleStop_def handleCloseFullscreen_def)

section \<open>Settings that no request changes\<close>

text \<open>
  Whatever the body, a request to change the mode of a session is refused: a body with any property fails the
  pipe, an empty one the handler's own check; so the quality selector has no effect, although it shows the
  choice. The same pipe refuses every body of the streaming configuration that has anything in it.
\<close>

lemma mode_never_changes:
  "\<exists>e. serve_mode R userId body c = (Inl (BadRequest e), c)"
proof (cases body)
  case Nil
  then show ?thesis
    by (simp add: serve_mode_def validation_pipe_def ctl_updateSessionMode_def)
qed (simp add: serve_mode_def validation_pipe_def UpdateModeDto_decorated_def)

lemma quality_selector_ineffective: "handleQuality R userId q c = (q, c)"
  using mode_never_changes [of R userId "[(''mode'', QUALITY_MODE q)]" c] by (auto simp: handleQuality_def)

lemma config_body_refused: "body \<noteq> [] \<Longrightarrow> \<not> validation_pipe UpdateStreamingConfigDto_decorated body"
  by (cases body) (simp_all add: validation_pipe_def UpdateStreamingConfigDto_decorated_def)

end
