(* ===== verification/TimeTrackingWeb.thy ===== *)
theory TimeTrackingWeb
  imports Timesheets HttpRoutes
begin

text \<open>
  Time tracking from the browser to the service: the routes of TimeTrackingController and the hooks
  of hooks/use-time-tracking.ts. The bodies and queries are those the ValidationPipe accepts. The
  first property says that every hook reaches the operation it is meant for, the second that
  the client's cache never shows an outdated clock status, entry list or timesheet list as valid. The
  last section is the arithmetic of the week helper with the browser's time zone.
\<close>

section \<open>TimeTrackingController\<close>

datatype tt_body =
    ClockInBody ClockInDto
  | ClockOutBody ClockOutDto
  | EntryBody ManualEntryDto
  | RejectBody string

datatype tt_result =
    RStatus "Attendance option"
  | RAttendance Attendance
  | RAttendances "Attendance list"
  | RClockOut Attendance TimeEntry
  | REntry TimeEntry
  | REntries "TimeEntry list"
  | RDeleted
  | RSheet Timesheet
  | RSheets "Timesheet list"
  | RPayroll "PayrollRow list"
  | RText string

record tt_env = sheet_env +
  env_attendance :: "Attendance orm"
  env_user :: "string \<Rightarrow> User option"

type_synonym tt_route = "(tt_body, TimeTrackingService, tt_result) route"

definition date_range :: "tt_body request \<Rightarrow> DateRangeQueryDto" where
  "date_range r = \<lparr>dr_from = query_param ''from'' r, dr_to = query_param ''to'' r\<rparr>"

definition ctl_clockIn :: "tt_env \<Rightarrow> api_call \<Rightarrow> tt_route" where
  "ctl_clockIn E C = \<lparr>ro_method = POST, ro_path = ''/time-tracking/clock-in'', ro_roles = None, ro_uuids = [],
     ro_handler = (\<lambda>user ps r st. case rq_body r of
       Some (ClockInBody dto) \<Rightarrow> map_result RAttendance
         (clockIn (env_attendance E) (tn_now C) (tn_id C) (u_id user) (u_organizationId user) dto st)
     | _ \<Rightarrow> (Inl missing_body, st))\<rparr>"

definition ctl_clockOut :: "tt_env \<Rightarrow> api_call \<Rightarrow> tt_route" where
  "ctl_clockOut E C = \<lparr>ro_method = POST, ro_path = ''/time-tracking/clock-out'', ro_roles = None, ro_uuids = [],
     ro_handler = (\<lambda>user ps r st. case rq_body r of
       Some (ClockOutBody dto) \<Rightarrow> map_result (case_prod RClockOut)
         (clockOut (env_attendance E) (env_entries E) (tn_now C) (tn_id C) (u_id user)
            (u_organizationId user) dto st)
     | _ \<Rightarrow> (Inl missing_body, st))\<rparr>"

definition ctl_getStatus :: "tt_env \<Rightarrow> tt_route" where
  "ctl_getStatus E = \<lparr>ro_method = GET, ro_path = ''/time-tracking/status'', ro_roles = None, ro_uuids = [],
     ro_handler = (\<lambda>user ps r st.
       (Inr (RStatus (getStatus (env_attendance E) (u_id user) (u_organizationId user) st)), st))\<rparr>"

definition ctl_getAttendance :: "tt_env \<Rightarrow> tt_route" where
  "ctl_getAttendance E = \<lparr>ro_method = GET, ro_path = ''/time-tracking/attendance'', ro_roles = None,
     ro_uuids = [], ro_handler = (\<lambda>user ps r st. map_result RAttendances
       (getAttendance (env_attendance E) (env_parse E) (u_id user) (u_organizationId user) (date_range r) st, st))\<rparr>"

definition ctl_getEntries :: "tt_env \<Rightarrow> tt_route" where
  "ctl_getEntries E = \<lparr>ro_method = GET, ro_path = ''/time-tracking/entries'', ro_roles = None, ro_uuids = [],
     ro_handler = (\<lambda>user ps r st. map_result REntries
       (getEntries (env_entries E) (env_parse E) (u_id user) (u_organizationId user) (date_range r) st, st))\<rparr>"

definition ctl_createEntry :: "tt_env \<Rightarrow> api_call \<Rightarrow> tt_route" where
  "ctl_createEntry E C = \<lparr>ro_method = POST, ro_path = ''/time-tracking/entries'', ro_roles = None, ro_uuids = [],
     ro_handler = (\<lambda>user ps r st. case rq_body r of
       Some (EntryBody dto) \<Rightarrow> map_result REntry
         (createManualEntry (env_entries E) (env_parse E) (tn_now C) (tn_id C) (u_id user)
            (u_organizationId user) dto st)
     | _ \<Rightarrow> (Inl missing_body, st))\<rparr>"

definition ctl_deleteEntry :: "tt_env \<Rightarrow> tt_route" where
  "ctl_deleteEntry E = \<lparr>ro_method = DELETE, ro_path = ''/time-tracking/entries/:id'', ro_roles = None,
     ro_uuids = [''id''], ro_handler = (\<lambda>user ps r st. map_result (\<lambda>_. RDeleted)
       (deleteEntry (env_entries E) (param ''id'' ps) (u_id user) (u_organizationId user) st))\<rparr>"

definition ctl_getTimesheets :: "tt_env \<Rightarrow> tt_route" where
  "ctl_getTimesheets E = \<lparr>ro_method = GET, ro_path = ''/time-tracking/timesheets'', ro_roles = None,
     ro_uuids = [], ro_handler = (\<lambda>user ps r st.
       (Inr (RSheets (getTimesheets (env_sheets E) (u_id user) (u_organizationId user) (u_role user) st)), st))\<rparr>"

definition ctl_submitTimesheet :: "tt_env \<Rightarrow> api_call \<Rightarrow> tt_route" where
  "ctl_submitTimesheet E C = \<lparr>ro_method = POST, ro_path = ''/time-tracking/timesheets/:weekStart/submit'',
     ro_roles = None, ro_uuids = [], ro_handler = (\<lambda>user ps r st. map_result RSheet
       (submitTimesheet (env_entries E) (env_sheets E) (env_parse E) (env_plus E) (tn_now C) (tn_id C)
          (u_id user) (u_organizationId user) (param ''weekStart'' ps) st))\<rparr>"

definition ctl_approveTimesheet :: "tt_env \<Rightarrow> api_call \<Rightarrow> tt_route" where
  "ctl_approveTimesheet E C = \<lparr>ro_method = POST, ro_path = ''/time-tracking/timesheets/:id/approve'',
     ro_roles = managers, ro_uuids = [''id''], ro_handler = (\<lambda>user ps r st. map_result RSheet
       (approveTimesheet (env_sheets E) (env_logs E) (tn_now C) (tn_id C) (u_id user)
          (u_organizationId user) (param ''id'' ps) st))\<rparr>"

definition ctl_rejectTimesheet :: "tt_env \<Rightarrow> api_call \<Rightarrow> tt_route" where
  "ctl_rejectTimesheet E C = \<lparr>ro_method = POST, ro_path = ''/time-tracking/timesheets/:id/reject'',
     ro_roles = managers, ro_uuids = [''id''], ro_handler = (\<lambda>user ps r st. case rq_body r of
       Some (RejectBody note) \<Rightarrow> map_result RSheet
         (rejectTimesheet (env_sheets E) (env_logs E) (tn_now C) (tn_id C) (u_id user)
            (u_organizationId user) (param ''id'' ps) note st)
     | _ \<Rightarrow> (Inl missing_body, st))\<rparr>"

definition ctl_getTeamTimesheets :: "tt_env \<Rightarrow> tt_route" where
  "ctl_getTeamTimesheets E = \<lparr>ro_method = GET, ro_path = ''/time-tracking/team/timesheets'',
     ro_roles = managers, ro_uuids = [], ro_handler = (\<lambda>user ps r st. map_result RSheets
       (getTeamTimesheets (env_sheets E) (u_organizationId user) (query_param ''weekStart'' r)
          (query_param ''status'' r) st, st))\<rparr>"

definition ctl_getPayrollReport :: "tt_env \<Rightarrow> tt_route" where
  "ctl_getPayrollReport E = \<lparr>ro_method = GET, ro_path = ''/time-tracking/report'', ro_roles = Some [ADMIN],
     ro_uuids = [], ro_handler = (\<lambda>user ps r st.
       (Inr (RPayroll (getPayrollReport (env_sheets E) (env_user E) (u_organizationId user)
          (nullish (query_param ''from'' r) []) (nullish (query_param ''to'' r) []) st)), st))\<rparr>"

definition payroll_line :: "PayrollRow \<Rightarrow> string" where
  "payroll_line r = join_with '',''
     [[CHR 0x22] @ pay_firstName r @ '' '' @ pay_lastName r @ [CHR 0x22], pay_weekStart r,
      hours_fixed2 (pay_totalMinutes r), hours_fixed2 (pay_overtimeMinutes r), ts_status_str (pay_status r)]"

definition ctl_exportPayrollCsv :: "tt_env \<Rightarrow> tt_route" where
  "ctl_exportPayrollCsv E = \<lparr>ro_method = GET, ro_path = ''/time-tracking/export'', ro_roles = Some [ADMIN],
     ro_uuids = [], ro_handler = (\<lambda>user ps r st.
       (Inr (RText (join_with [CHR 0x0A] (''Employee,Week Start,Total Hours,Overtime Hours,Status'' #
          map payroll_line (getPayrollReport (env_sheets E) (env_user E) (u_organizationId user)
            (nullish (query_param ''from'' r) []) (nullish (query_param ''to'' r) []) st)))), st))\<rparr>"

definition ctl_getTeamStatus :: "tt_env \<Rightarrow> tt_route" where
  "ctl_getTeamStatus E = \<lparr>ro_method = GET, ro_path = ''/time-tracking/team/status'', ro_roles = managers,
     ro_uuids = [], ro_handler = (\<lambda>user ps r st.
       (Inr (RAttendances (getTeamStatus (env_attendance E) (u_organizationId user) st)), st))\<rparr>"

definition time_tracking_routes :: "tt_env \<Rightarrow> api_call \<Rightarrow> tt_route list" where
  "time_tracking_routes E C = [ctl_clockIn E C, ctl_clockOut E C, ctl_getStatus E, ctl_getAttendance E,
     ctl_getEntries E, ctl_createEntry E C, ctl_deleteEntry E, ctl_getTimesheets E, ctl_submitTimesheet E C,
     ctl_approveTimesheet E C, ctl_rejectTimesheet E C, ctl_getTeamTimesheets E, ctl_getPayrollReport E,
     ctl_exportPayrollCsv E, ctl_getTeamStatus E]"

section \<open>The hooks\<close>

definition useClockStatus :: "tt_body query_hook" where
  "useClockStatus = (a_query [Key ''clock-status''] ''/time-tracking/status'' [])
     \<lparr>qh_refetchInterval := Some 30000\<rparr>"

definition useClockIn :: "string option \<Rightarrow> tt_body mutation_hook" where
  "useClockIn note = a_mutation POST ''/time-tracking/clock-in''
     (Some (ClockInBody \<lparr>ci_locationLat = None, ci_locationLng = None, ci_note = note\<rparr>))
     [[Key ''clock-status''], [Key ''attendance'']]
     (Some ''Clocked in successfully'') (Some ''Failed to clock in'')"

definition useClockOut :: "string option \<Rightarrow> tt_body mutation_hook" where
  "useClockOut note = a_mutation POST ''/time-tracking/clock-out'' (Some (ClockOutBody \<lparr>co_note = note\<rparr>))
     [[Key ''clock-status''], [Key ''attendance''], [Key ''time-entries'']]
     (Some ''Clocked out successfully'') (Some ''Failed to clock out'')"

definition useTimeEntries :: "string option \<Rightarrow> string option \<Rightarrow> tt_body query_hook" where
  "useTimeEntries from to = a_query [Key ''time-entries'', KeyParams [(''from'', from), (''to'', to)]]
     ''/time-tracking/entries'' [(''from'', from), (''to'', to)]"

definition useCreateEntry :: "ManualEntryDto \<Rightarrow> tt_body mutation_hook" where
  "useCreateEntry payload = a_mutation POST ''/time-tracking/entries'' (Some (EntryBody payload))
     [[Key ''time-entries'']] (Some ''Time entry added'') (Some ''Failed to add entry'')"

definition useDeleteEntry :: "string \<Rightarrow> tt_body mutation_hook" where
  "useDeleteEntry i = a_mutation DELETE (''/time-tracking/entries/'' @ i) None
     [[Key ''time-entries'']] (Some ''Entry deleted'') (Some ''Failed to delete entry'')"

definition useTimesheets :: "tt_body query_hook" where
  "useTimesheets = a_query [Key ''timesheets''] ''/time-tracking/timesheets'' []"

definition useSubmitTimesheet :: "string \<Rightarrow> tt_body mutation_hook" where
  "useSubmitTimesheet weekStart = a_mutation POST (''/time-tracking/timesheets/'' @ weekStart @ ''/submit'') None
     [[Key ''timesheets'']] (Some ''Timesheet submitted for approval'') (Some ''Failed to submit timesheet'')"

definition useApproveTimesheet :: "string \<Rightarrow> tt_body mutation_hook" where
  "useApproveTimesheet i = a_mutation POST (''/time-tracking/timesheets/'' @ i @ ''/approve'') None
     [[Key ''timesheets''], [Key ''team-timesheets'']]
     (Some ''Timesheet approved'') (Some ''Failed to approve timesheet'')"

definition useRejectTimesheet :: "string \<Rightarrow> string \<Rightarrow> tt_body mutation_hook" where
  "useRejectTimesheet i rejectionNote = a_mutation POST (''/time-tracking/timesheets/'' @ i @ ''/reject'')
     (Some (RejectBody rejectionNote)) [[Key ''timesheets''], [Key ''team-timesheets'']]
     (Some ''Timesheet rejected'') (Some ''Failed to reject timesheet'')"

definition useTeamTimesheets :: "string option \<Rightarrow> string option \<Rightarrow> tt_body query_hook" where
  "useTeamTimesheets weekStart status =
     a_query [Key ''team-timesheets'', KeyParams [(''weekStart'', weekStart), (''status'', status)]]
       ''/time-tracking/team/timesheets'' [(''weekStart'', weekStart), (''status'', status)]"

definition usePayrollReport :: "string option \<Rightarrow> string option \<Rightarrow> tt_body query_hook" where
  "usePayrollReport from to = (a_query [Key ''payroll-report'', KeyParams [(''from'', from), (''to'', to)]]
     ''/time-tracking/report'' [(''from'', from), (''to'', to)])
     \<lparr>qh_enabled := \<not> falsy_str from \<and> \<not> falsy_str to\<rparr>"

text \<open>\<open>Promise.all\<close> sends every request; the mutation fails when one of them does.\<close>

definition useBulkApproveTimesheets :: "string list \<Rightarrow> tt_body mutation_hook" where
  "useBulkApproveTimesheets is = \<lparr>mh_requests =
       map (\<lambda>i. \<lparr>rq_method = POST, rq_path = ''/time-tracking/timesheets/'' @ i @ ''/approve'', rq_query = [],
         rq_body = None\<rparr>) is,
     mh_invalidates = [[Key ''team-timesheets''], [Key ''timesheets'']],
     mh_success = Some ''Timesheets approved'', mh_failure = Some ''Failed to approve some timesheets''\<rparr>"

section \<open>Every hook reaches its operation\<close>

lemmas tt_route_defs = ctl_clockIn_def ctl_clockOut_def ctl_getStatus_def ctl_getAttendance_def ctl_getEntries_def ctl_createEntry_def ctl_deleteEntry_def ctl_getTimesheets_def ctl_submitTimesheet_def ctl_approveTimesheet_def ctl_rejectTimesheet_def ctl_getTeamTimesheets_def ctl_getPayrollReport_def ctl_exportPayrollCsv_def ctl_getTeamStatus_def

lemma tt_route_keys [simp]:
  "route_key (ctl_clockIn E C) = (POST, [[], ''time-tracking'', ''clock-in''])"
  "route_key (ctl_clockOut E C) = (POST, [[], ''time-tracking'', ''clock-out''])"
  "route_key (ctl_getStatus E) = (GET, [[], ''time-tracking'', ''status''])"
  "route_key (ctl_getAttendance E) = (GET, [[], ''time-tracking'', ''attendance''])"
  "route_key (ctl_getEntries E) = (GET, [[], ''time-tracking'', ''entries''])"
  "route_key (ctl_createEntry E C) = (POST, [[], ''time-tracking'', ''entries''])"
  "route_key (ctl_deleteEntry E) = (DELETE, [[], ''time-tracking'', ''entries'', '':id''])"
  "route_key (ctl_getTimesheets E) = (GET, [[], ''time-tracking'', ''timesheets''])"
  "route_key (ctl_submitTimesheet E C) = (POST, [[], ''time-tracking'', ''timesheets'', '':weekStart'', ''submit''])"
  "route_key (ctl_approveTimesheet E C) = (POST, [[], ''time-tracking'', ''timesheets'', '':id'', ''approve''])"
  "route_key (ctl_rejectTimesheet E C) = (POST, [[], ''time-tracking'', ''timesheets'', '':id'', ''reject''])"
  "route_key (ctl_getTeamTimesheets E) = (GET, [[], ''time-tracking'', ''team'', ''timesheets''])"
  "route_key (ctl_getPayrollReport E) = (GET, [[], ''time-tracking'', ''report''])"
  "route_key (ctl_exportPayrollCsv E) = (GET, [[], ''time-tracking'', ''export''])"
  "route_key (ctl_getTeamStatus E) = (GET, [[], ''time-tracking'', ''team'', ''status''])"
  by (simp_all add: route_key_def tt_route_defs)

lemmas tt_hook_defs = useClockStatus_def useClockIn_def useClockOut_def useTimeEntries_def useCreateEntry_def
  useDeleteEntry_def useTimesheets_def useSubmitTimesheet_def useApproveTimesheet_def useRejectTimesheet_def
  useTeamTimesheets_def usePayrollReport_def useBulkApproveTimesheets_def

lemma tt_request_keys:
  "request_key (qh_request useClockStatus) = (GET, [[], ''time-tracking'', ''status''])"
  "request_key (qh_request (useTimeEntries from to)) = (GET, [[], ''time-tracking'', ''entries''])"
  "request_key (qh_request useTimesheets) = (GET, [[], ''time-tracking'', ''timesheets''])"
  "request_key (qh_request (useTeamTimesheets w s)) = (GET, [[], ''time-tracking'', ''team'', ''timesheets''])"
  "request_key (qh_request (usePayrollReport from to)) = (GET, [[], ''time-tracking'', ''report''])"
  "request_key (hd (mh_requests (useClockIn note))) = (POST, [[], ''time-tracking'', ''clock-in''])"
  "request_key (hd (mh_requests (useClockOut note))) = (POST, [[], ''time-tracking'', ''clock-out''])"
  "request_key (hd (mh_requests (useCreateEntry dto))) = (POST, [[], ''time-tracking'', ''entries''])"
  "CHR 0x2F \<notin> set i \<Longrightarrow>
   request_key (hd (mh_requests (useDeleteEntry i))) = (DELETE, [[], ''time-tracking'', ''entries'', i])"
  "CHR 0x2F \<notin> set i \<Longrightarrow> request_key (hd (mh_requests (useSubmitTimesheet i))) =
     (POST, [[], ''time-tracking'', ''timesheets'', i, ''submit''])"
  "CHR 0x2F \<notin> set i \<Longrightarrow> request_key (hd (mh_requests (useApproveTimesheet i))) =
     (POST, [[], ''time-tracking'', ''timesheets'', i, ''approve''])"
  "CHR 0x2F \<notin> set i \<Longrightarrow> request_key (hd (mh_requests (useRejectTimesheet i n))) =
     (POST, [[], ''time-tracking'', ''timesheets'', i, ''reject''])"
  by (simp_all add: request_key_def tt_hook_defs)

text \<open>The route each hook is served by: the routes declared before it do not fit.\<close>

lemma tt_dispatch:
  "dispatch uuid (time_tracking_routes E C) U (qh_request useClockStatus) st =
     serve uuid U (qh_request useClockStatus) [] (ctl_getStatus E) st"
  "dispatch uuid (time_tracking_routes E C) U (qh_request (useTimeEntries from to)) st =
     serve uuid U (qh_request (useTimeEntries from to)) [] (ctl_getEntries E) st"
  "dispatch uuid (time_tracking_routes E C) U (qh_request useTimesheets) st =
     serve uuid U (qh_request useTimesheets) [] (ctl_getTimesheets E) st"
  "dispatch uuid (time_tracking_routes E C) U (qh_request (useTeamTimesheets w s)) st =
     serve uuid U (qh_request (useTeamTimesheets w s)) [] (ctl_getTeamTimesheets E) st"
  "dispatch uuid (time_tracking_routes E C) U (qh_request (usePayrollReport from to)) st =
     serve uuid U (qh_request (usePayrollReport from to)) [] (ctl_getPayrollReport E) st"
  by (simp_all add: time_tracking_routes_def route_match_def tt_request_keys)

lemma tt_dispatch_mutations:
  "dispatch uuid (time_tracking_routes E C) U (hd (mh_requests (useClockIn note))) st =
     serve uuid U (hd (mh_requests (useClockIn note))) [] (ctl_clockIn E C) st"
  "dispatch uuid (time_tracking_routes E C) U (hd (mh_requests (useClockOut note))) st =
     serve uuid U (hd (mh_requests (useClockOut note))) [] (ctl_clockOut E C) st"
  "dispatch uuid (time_tracking_routes E C) U (hd (mh_requests (useCreateEntry dto))) st =
     serve uuid U (hd (mh_requests (useCreateEntry dto))) [] (ctl_createEntry E C) st"
  by (simp_all add: time_tracking_routes_def route_match_def tt_request_keys)

lemma tt_dispatch_ids:
  assumes "i \<noteq> []" and "CHR 0x2F \<notin> set i"
  shows "dispatch uuid (time_tracking_routes E C) U (hd (mh_requests (useDeleteEntry i))) st =
     serve uuid U (hd (mh_requests (useDeleteEntry i))) [(''id'', i)] (ctl_deleteEntry E) st"
  and "dispatch uuid (time_tracking_routes E C) U (hd (mh_requests (useSubmitTimesheet i))) st =
     serve uuid U (hd (mh_requests (useSubmitTimesheet i))) [(''weekStart'', i)] (ctl_submitTimesheet E C) st"
  and "dispatch uuid (time_tracking_routes E C) U (hd (mh_requests (useApproveTimesheet i))) st =
     serve uuid U (hd (mh_requests (useApproveTimesheet i))) [(''id'', i)] (ctl_approveTimesheet E C) st"
  and "dispatch uuid (time_tracking_routes E C) U (hd (mh_requests (useRejectTimesheet i n))) st =
     serve uuid U (hd (mh_requests (useRejectTimesheet i n))) [(''id'', i)] (ctl_rejectTimesheet E C) st"
  using assms by (simp_all add: time_tracking_routes_def route_match_def tt_request_keys)

text \<open>What a user can look at and do, the hook for it, and the operation of the service it is meant for.\<close>

datatype TTQuery = QClockStatus | QTimeEntries "string option" "string option" | QTimesheets
  | QTeamTimesheets "string option" "string option" | QPayroll "string option" "string option"

datatype TTMutation = MClockIn "string option" | MClockOut "string option" | MCreateEntry ManualEntryDto
  | MDeleteEntry string | MSubmit string | MApprove string | MReject string string | MBulkApprove "string list"

fun tt_query_hook :: "TTQuery \<Rightarrow> tt_body query_hook" where
  "tt_query_hook QClockStatus = useClockStatus"
| "tt_query_hook (QTimeEntries from to) = useTimeEntries from to"
| "tt_query_hook QTimesheets = useTimesheets"
| "tt_query_hook (QTeamTimesheets w s) = useTeamTimesheets w s"
| "tt_query_hook (QPayroll from to) = usePayrollReport from to"

fun tt_mutation_hook :: "TTMutation \<Rightarrow> tt_body mutation_hook" where
  "tt_mutation_hook (MClockIn note) = useClockIn note"
| "tt_mutation_hook (MClockOut note) = useClockOut note"
| "tt_mutation_hook (MCreateEntry dto) = useCreateEntry dto"
| "tt_mutation_hook (MDeleteEntry i) = useDeleteEntry i"
| "tt_mutation_hook (MSubmit w) = useSubmitTimesheet w"
| "tt_mutation_hook (MApprove i) = useApproveTimesheet i"
| "tt_mutation_hook (MReject i note) = useRejectTimesheet i note"
| "tt_mutation_hook (MBulkApprove is) = useBulkApproveTimesheets is"

fun tt_answer :: "tt_env \<Rightarrow> User \<Rightarrow> TTQuery \<Rightarrow> TimeTrackingService \<Rightarrow> tt_result outcome" where
  "tt_answer E U QClockStatus st = Inr (RStatus (getStatus (env_attendance E) (u_id U) (u_organizationId U) st))"
| "tt_answer E U (QTimeEntries from to) st = fst (map_result REntries
     (getEntries (env_entries E) (env_parse E) (u_id U) (u_organizationId U) \<lparr>dr_from = from, dr_to = to\<rparr> st, st))"
| "tt_answer E U QTimesheets st =
     Inr (RSheets (getTimesheets (env_sheets E) (u_id U) (u_organizationId U) (u_role U) st))"
| "tt_answer E U (QTeamTimesheets w s) st =
     fst (map_result RSheets (getTeamTimesheets (env_sheets E) (u_organizationId U) w s st, st))"
| "tt_answer E U (QPayroll from to) st = Inr (RPayroll (getPayrollReport (env_sheets E) (env_user E)
     (u_organizationId U) (nullish from []) (nullish to []) st))"

fun tt_effect :: "tt_env \<Rightarrow> User \<Rightarrow> api_call \<Rightarrow> TTMutation \<Rightarrow> TimeTrackingService \<Rightarrow>
    tt_result outcome \<times> TimeTrackingService" where
  "tt_effect E U C (MClockIn note) st = map_result RAttendance (clockIn (env_attendance E) (tn_now C) (tn_id C)
     (u_id U) (u_organizationId U) \<lparr>ci_locationLat = None, ci_locationLng = None, ci_note = note\<rparr> st)"
| "tt_effect E U C (MClockOut note) st = map_result (case_prod RClockOut) (clockOut (env_attendance E)
     (env_entries E) (tn_now C) (tn_id C) (u_id U) (u_organizationId U) \<lparr>co_note = note\<rparr> st)"
| "tt_effect E U C (MCreateEntry dto) st = map_result REntry (createManualEntry (env_entries E) (env_parse E)
     (tn_now C) (tn_id C) (u_id U) (u_organizationId U) dto st)"
| "tt_effect E U C (MDeleteEntry i) st = map_result (\<lambda>_. RDeleted)
     (deleteEntry (env_entries E) i (u_id U) (u_organizationId U) st)"
| "tt_effect E U C (MSubmit w) st = map_result RSheet (submitTimesheet (env_entries E) (env_sheets E) (env_parse E)
     (env_plus E) (tn_now C) (tn_id C) (u_id U) (u_organizationId U) w st)"
| "tt_effect E U C (MApprove i) st = map_result RSheet (approveTimesheet (env_sheets E) (env_logs E) (tn_now C)
     (tn_id C) (u_id U) (u_organizationId U) i st)"
| "tt_effect E U C (MReject i note) st = map_result RSheet (rejectTimesheet (env_sheets E) (env_logs E) (tn_now C)
     (tn_id C) (u_id U) (u_organizationId U) i note st)"
| "tt_effect E U C (MBulkApprove is) st = (Inl missing_body, st)"

fun one_segment :: "TTMutation \<Rightarrow> bool" where
  "one_segment (MDeleteEntry i) \<longleftrightarrow> i \<noteq> [] \<and> CHR 0x2F \<notin> set i"
| "one_segment (MSubmit w) \<longleftrightarrow> w \<noteq> [] \<and> CHR 0x2F \<notin> set w"
| "one_segment (MApprove i) \<longleftrightarrow> i \<noteq> [] \<and> CHR 0x2F \<notin> set i"
| "one_segment (MReject i note) \<longleftrightarrow> i \<noteq> [] \<and> CHR 0x2F \<notin> set i"
| "one_segment (MBulkApprove is) \<longleftrightarrow> (\<forall>i \<in> set is. i \<noteq> [] \<and> CHR 0x2F \<notin> set i)"
| "one_segment _ \<longleftrightarrow> True"

text \<open>The roles a hook needs, and the ids behind the uuid pipe.\<close>

fun may_query :: "UserRole \<Rightarrow> TTQuery \<Rightarrow> bool" where
  "may_query role (QTeamTimesheets w s) \<longleftrightarrow> role \<in> {ADMIN, MANAGER}"
| "may_query role (QPayroll from to) \<longleftrightarrow> role = ADMIN"
| "may_query role _ \<longleftrightarrow> True"

fun may_mutate :: "(string \<Rightarrow> bool) \<Rightarrow> UserRole \<Rightarrow> TTMutation \<Rightarrow> bool" where
  "may_mutate uuid role (MDeleteEntry i) \<longleftrightarrow> uuid i"
| "may_mutate uuid role (MApprove i) \<longleftrightarrow> uuid i \<and> role \<in> {ADMIN, MANAGER}"
| "may_mutate uuid role (MReject i note) \<longleftrightarrow> uuid i \<and> role \<in> {ADMIN, MANAGER}"
| "may_mutate uuid role _ \<longleftrightarrow> True"

definition single_request :: "TTMutation \<Rightarrow> bool" where
  "single_request m \<longleftrightarrow> (\<forall>is. m \<noteq> MBulkApprove is)"

lemmas serve_simps = serve_def roles_canActivate_def param_def query_param_def date_range_def

lemma tt_query_reaches:
  "if may_query (u_role U) q
   then dispatch uuid (time_tracking_routes E C) U (qh_request (tt_query_hook q)) st = (tt_answer E U q st, st)
   else \<exists>e. dispatch uuid (time_tracking_routes E C) U (qh_request (tt_query_hook q)) st = (Inl (Forbidden e), st)"
  by (cases q; cases "u_role U"; simp only: tt_query_hook.simps tt_dispatch)
    (simp_all add: serve_simps tt_route_defs tt_hook_defs map_result_def prod_eq_iff split: option.split)

lemma tt_mutation_reaches:
  assumes "one_segment m" and "single_request m"
  shows "if may_mutate uuid (u_role U) m
    then dispatch uuid (time_tracking_routes E C) U (hd (mh_requests (tt_mutation_hook m))) st = tt_effect E U C m st
    else \<exists>e. dispatch uuid (time_tracking_routes E C) U (hd (mh_requests (tt_mutation_hook m))) st = (Inl e, st)"
  using assms
  by (cases m; cases "u_role U"; simp add: tt_dispatch_mutations tt_dispatch_ids)
    (simp_all add: serve_simps tt_route_defs tt_hook_defs single_request_def)

text \<open>
  Client, routes and service agree: the request of every time-tracking hook of a signed-in user, except the
  bulk approval, which makes several, and for ids and weeks of one path segment,
  passes the routes and guards of the controller and is answered by the service operation it is
  meant for, with that user and organisation; without the role it needs, or with an id that is
  no uuid, it is refused and nothing changes.
\<close>

theorem time_tracking_hooks_reach:
  assumes "one_segment m" and "single_request m"
  shows "(if may_query (u_role U) q
      then dispatch uuid (time_tracking_routes E C) U (qh_request (tt_query_hook q)) st = (tt_answer E U q st, st)
      else \<exists>e. dispatch uuid (time_tracking_routes E C) U (qh_request (tt_query_hook q)) st = (Inl (Forbidden e), st)) \<and>
    (let r = hd (mh_requests (tt_mutation_hook m)) in
      if may_mutate uuid (u_role U) m
      then dispatch uuid (time_tracking_routes E C) U r st = tt_effect E U C m st
      else \<exists>e. dispatch uuid (time_tracking_routes E C) U r st = (Inl e, st))"
  using tt_query_reaches tt_mutation_reaches [OF assms] unfolding Let_def by blast

section \<open>The cache stays true\<close>

text \<open>What the browser sees and does: a query and a mutation, with the clocks and ids of its requests.\<close>

definition tt_view :: "(string \<Rightarrow> bool) \<Rightarrow> tt_env \<Rightarrow> User \<Rightarrow> TTQuery \<Rightarrow> TimeTrackingService \<Rightarrow> tt_result outcome" where
  "tt_view uuid E U q st = fst (dispatch uuid (time_tracking_routes E \<lparr>tn_now = 0, tn_id = []\<rparr>) U
     (qh_request (tt_query_hook q)) st)"

definition tt_perform :: "(string \<Rightarrow> bool) \<Rightarrow> tt_env \<Rightarrow> User \<Rightarrow> TTMutation \<times> (nat \<Rightarrow> api_call) \<Rightarrow>
    TimeTrackingService \<Rightarrow> bool \<times> TimeTrackingService" where
  "tt_perform uuid E U m st = send_all (\<lambda>n r. dispatch uuid (time_tracking_routes E (snd m n)) U r) 0
     (mh_requests (tt_mutation_hook (fst m))) st"

definition tt_key :: "TTQuery \<Rightarrow> query_key" where
  "tt_key q = qh_key (tt_query_hook q)"

definition tt_invalidates :: "TTMutation \<times> (nat \<Rightarrow> api_call) \<Rightarrow> query_key list" where
  "tt_invalidates m = mh_invalidates (tt_mutation_hook (fst m))"

text \<open>
  The pairs for which the cache is safe. Not among them: the timesheet lists under a bulk approval,
  which invalidates nothing when one of its requests fails after others have succeeded; the team
  list under a submission and the payroll report under any change of a sheet, which the hooks forget.
\<close>

fun tt_safe :: "TTQuery \<Rightarrow> TTMutation \<Rightarrow> bool" where
  "tt_safe QTimesheets m \<longleftrightarrow> single_request m"
| "tt_safe (QTeamTimesheets w s) m \<longleftrightarrow> single_request m \<and> (\<forall>v. m \<noteq> MSubmit v)"
| "tt_safe (QPayroll from to) m \<longleftrightarrow> (case m of MSubmit v \<Rightarrow> False | MApprove i \<Rightarrow> False
     | MReject i n \<Rightarrow> False | MBulkApprove is \<Rightarrow> False | _ \<Rightarrow> True)"
| "tt_safe _ m \<longleftrightarrow> True"

definition tt_watched :: "TTQuery \<Rightarrow> TTMutation \<times> (nat \<Rightarrow> api_call) \<Rightarrow> bool" where
  "tt_watched q m \<longleftrightarrow> one_segment (fst m) \<and> tt_safe q (fst m)"

text \<open>Each operation leaves the tables alone that it has nothing to do with, and everything when it fails.\<close>

lemma clockIn_frame:
  "tt_entries (snd (clockIn R n i u g d st)) = tt_entries st"
  "tt_timesheets (snd (clockIn R n i u g d st)) = tt_timesheets st"
  "fst (clockIn R n i u g d st) = Inl e \<Longrightarrow> snd (clockIn R n i u g d st) = st"
  by (auto simp: clockIn_def Let_def split: option.splits)

lemma clockOut_frame:
  "tt_timesheets (snd (clockOut R S n i u g d st)) = tt_timesheets st"
  "fst (clockOut R S n i u g d st) = Inl e \<Longrightarrow> snd (clockOut R S n i u g d st) = st"
  by (auto simp: clockOut_def Let_def split: option.splits)

lemma createManualEntry_frame:
  "tt_attendance (snd (createManualEntry R D n i u g d st)) = tt_attendance st"
  "tt_timesheets (snd (createManualEntry R D n i u g d st)) = tt_timesheets st"
  "fst (createManualEntry R D n i u g d st) = Inl e \<Longrightarrow> snd (createManualEntry R D n i u g d st) = st"
  by (auto simp: createManualEntry_def Let_def split: option.splits)

lemma deleteEntry_frame:
  "tt_attendance (snd (deleteEntry R i u g st)) = tt_attendance st"
  "tt_timesheets (snd (deleteEntry R i u g st)) = tt_timesheets st"
  "fst (deleteEntry R i u g st) = Inl e \<Longrightarrow> snd (deleteEntry R i u g st) = st"
  by (auto simp: deleteEntry_def Let_def split: option.splits)

lemma submitTimesheet_frame:
  "tt_attendance (snd (submitTimesheet R S D p n i u g w st)) = tt_attendance st"
  "tt_entries (snd (submitTimesheet R S D p n i u g w st)) = tt_entries st"
  "fst (submitTimesheet R S D p n i u g w st) = Inl e \<Longrightarrow> snd (submitTimesheet R S D p n i u g w st) = st"
  by (auto simp: submitTimesheet_def Let_def split: option.splits TimesheetStatus.splits)

lemma approveTimesheet_frame:
  "tt_attendance (snd (approveTimesheet R L n l a g i st)) = tt_attendance st"
  "tt_entries (snd (approveTimesheet R L n l a g i st)) = tt_entries st"
  "fst (approveTimesheet R L n l a g i st) = Inl e \<Longrightarrow> snd (approveTimesheet R L n l a g i st) = st"
  by (auto simp: approveTimesheet_def Let_def split: option.splits)

lemma rejectTimesheet_frame:
  "tt_attendance (snd (rejectTimesheet R L n l a g i t st)) = tt_attendance st"
  "tt_entries (snd (rejectTimesheet R L n l a g i t st)) = tt_entries st"
  "fst (rejectTimesheet R L n l a g i t st) = Inl e \<Longrightarrow> snd (rejectTimesheet R L n l a g i t st) = st"
  by (auto simp: rejectTimesheet_def Let_def split: option.splits)

lemmas tt_frames = clockIn_frame clockOut_frame createManualEntry_frame deleteEntry_frame submitTimesheet_frame
  approveTimesheet_frame rejectTimesheet_frame

lemma failed_effect: "fst (tt_effect E U C m st) = Inl e \<Longrightarrow> snd (tt_effect E U C m st) = st"
  by (cases m) (auto simp: tt_frames)

text \<open>The table a query reads is the same.\<close>

definition reads_kept :: "TTQuery \<Rightarrow> TimeTrackingService \<Rightarrow> TimeTrackingService \<Rightarrow> bool" where
  "reads_kept q st st' \<longleftrightarrow> (case q of
     QClockStatus \<Rightarrow> tt_attendance st' = tt_attendance st
   | QTimeEntries f t \<Rightarrow> tt_entries st' = tt_entries st
   | _ \<Rightarrow> tt_timesheets st' = tt_timesheets st)"

lemma answer_reads: "reads_kept q st st' \<Longrightarrow> tt_answer E U q st' = tt_answer E U q st"
  by (cases q) (simp_all add: reads_kept_def getStatus_def getEntries_def getTimesheets_def
      getTeamTimesheets_def getPayrollReport_def map_result_def split: option.split)

lemma view_reads:
  assumes "reads_kept q st st'"
  shows "tt_view uuid E U q st' = tt_view uuid E U q st"
proof -
  let ?C = "\<lparr>tn_now = 0, tn_id = []\<rparr>"
  have r: "if may_query (u_role U) q then tt_view uuid E U q s = tt_answer E U q s
      else tt_view uuid E U q s = Inl (Forbidden (''Requires one of: '' @
        join_with '', '' (map role_str (case q of QPayroll f t \<Rightarrow> [ADMIN] | _ \<Rightarrow> [ADMIN, MANAGER]))))" for s
    unfolding tt_view_def
    by (cases q; cases "u_role U"; simp only: tt_query_hook.simps tt_dispatch)
      (simp_all add: serve_simps tt_route_defs tt_hook_defs map_result_def split: option.split)
  show ?thesis using answer_reads [OF assms, of E U] r [of st] r [of st'] by (auto split: if_splits)
qed

lemma perform_single:
  assumes "single_request (fst m)"
  shows "tt_perform uuid E U m st =
    (let x = dispatch uuid (time_tracking_routes E (snd m 0)) U (hd (mh_requests (tt_mutation_hook (fst m)))) st
     in ((\<exists>y. fst x = Inr y), snd x))"
proof -
  obtain r where "mh_requests (tt_mutation_hook (fst m)) = [r]"
    using assms by (cases "fst m") (auto simp: tt_hook_defs single_request_def)
  then show ?thesis by (simp add: tt_perform_def Let_def split: prod.split)
qed

text \<open>A single request that is refused or fails changes nothing.\<close>

lemma failed_perform:
  assumes "tt_perform uuid E U m st = (False, st')" and "one_segment (fst m)" and "single_request (fst m)"
  shows "st' = st"
  using tt_mutation_reaches [OF assms(2,3), of uuid U E "snd m 0" st] assms(1)
    failed_effect [of E U "snd m 0" "fst m" st]
  unfolding perform_single [OF assms(3)] Let_def
  by (cases "fst (tt_effect E U (snd m 0) (fst m) st)") (auto split: if_splits)

lemma performed:
  assumes "tt_perform uuid E U m st = (True, st')" and "one_segment (fst m)" and "single_request (fst m)"
  shows "st' = snd (tt_effect E U (snd m 0) (fst m) st)"
  using tt_mutation_reaches [OF assms(2,3), of uuid U E "snd m 0" st] assms(1)
  unfolding perform_single [OF assms(3)] Let_def by (auto split: if_splits)

text \<open>A bulk approval touches the timesheets only.\<close>

lemma bulk_frame:
  assumes "one_segment (MBulkApprove is)" and "tt_perform uuid E U (MBulkApprove is, C) st = (ok, st')"
  shows "tt_attendance st' = tt_attendance st" and "tt_entries st' = tt_entries st"
proof -
  have one: "\<exists>i. r = hd (mh_requests (useApproveTimesheet i)) \<and> one_segment (MApprove i)"
    if "r \<in> set (mh_requests (tt_mutation_hook (MBulkApprove is)))" for r
    using that assms(1) by (auto simp: tt_hook_defs)
  have keep: "tt_attendance (snd (dispatch uuid (time_tracking_routes E (C n)) U r s)) = tt_attendance s \<and>
      tt_entries (snd (dispatch uuid (time_tracking_routes E (C n)) U r s)) = tt_entries s"
    if r: "r \<in> set (mh_requests (tt_mutation_hook (MBulkApprove is)))" for r s n
  proof -
    obtain i where i: "r = hd (mh_requests (tt_mutation_hook (MApprove i)))" "one_segment (MApprove i)"
      using one [OF r] by auto
    have "single_request (MApprove i)" by (simp add: single_request_def)
    from tt_mutation_reaches [OF i(2) this, of uuid U E "C n" s] show ?thesis
      unfolding i(1) by (auto simp: tt_frames split: if_splits)
  qed
  have "tt_attendance (snd (tt_perform uuid E U (MBulkApprove is, C) st)) = tt_attendance st"
    "tt_entries (snd (tt_perform uuid E U (MBulkApprove is, C) st)) = tt_entries st"
    unfolding tt_perform_def by (rule send_all_keeps; use keep in simp)+
  with assms(2) show "tt_attendance st' = tt_attendance st" "tt_entries st' = tt_entries st" by simp_all
qed

lemma tt_invalidated:
  assumes "key_filter matches" and "f \<in> set ks" and "take (length f) k = f"
  shows "\<exists>f \<in> set ks. matches f k"
  using assms by (auto simp: key_filter_def)

text \<open>The law of the cache: what a hook does not invalidate, its operation does not touch.\<close>

lemma not_invalidated_kept:
  assumes F: "key_filter matches" and w: "tt_watched q m"
    and p: "tt_perform uuid E U m st = (True, st')"
    and n: "\<not> (\<exists>f \<in> set (tt_invalidates m). matches f (tt_key q))"
  shows "reads_kept q st st'"
proof (cases "single_request (fst m)")
  case True
  have st': "st' = snd (tt_effect E U (snd m 0) (fst m) st)" using performed [OF p _ True] w by (simp add: tt_watched_def)
  have n': "\<forall>f \<in> set (tt_invalidates m). take (length f) (tt_key q) \<noteq> f" using F n by (auto simp: key_filter_def)
  show ?thesis unfolding st' using w n' True
    by (cases q; cases "fst m")
      (simp_all add: reads_kept_def tt_frames tt_watched_def tt_invalidates_def tt_key_def tt_hook_defs single_request_def)
next
  case False
  then obtain "is" where b: "fst m = MBulkApprove is" by (auto simp: single_request_def)
  have m: "m = (MBulkApprove is, snd m)" using b by (cases m) simp
  have "q = QClockStatus \<or> (\<exists>f t. q = QTimeEntries f t)"
    using w False b by (cases q) (auto simp: tt_watched_def)
  moreover have "one_segment (MBulkApprove is)" using w b by (simp add: tt_watched_def)
  ultimately show ?thesis using bulk_frame [of "is" uuid E U "snd m" st True st'] p m
    by (auto simp: reads_kept_def)
qed

lemma tt_cached:
  assumes "key_filter matches"
  shows "cached_api matches tt_key tt_invalidates (tt_view uuid E U) (tt_perform uuid E U) tt_watched"
proof
  fix m st st' q
  assume p: "tt_perform uuid E U m st = (False, st')" and w: "tt_watched q m"
  show "tt_view uuid E U q st' = tt_view uuid E U q st"
  proof (cases "single_request (fst m)")
    case True
    then show ?thesis using failed_perform [OF p _ True] w by (simp add: tt_watched_def)
  next
    case False
    then obtain "is" where b: "fst m = MBulkApprove is" by (auto simp: single_request_def)
    have m: "m = (MBulkApprove is, snd m)" using b by (cases m) simp
    have "q = QClockStatus \<or> (\<exists>f t. q = QTimeEntries f t)"
      using w False b by (cases q) (auto simp: tt_watched_def)
    moreover have "one_segment (MBulkApprove is)" using w b by (simp add: tt_watched_def)
    ultimately have "reads_kept q st st'" using bulk_frame [of "is" uuid E U "snd m" st False st'] p m
      by (auto simp: reads_kept_def)
    then show ?thesis by (rule view_reads)
  qed
next
  fix m st st' q
  assume "tt_perform uuid E U m st = (True, st')" "tt_watched q m"
    "\<not> (\<exists>f \<in> set (tt_invalidates m). matches f (tt_key q))"
  then show "tt_view uuid E U q st' = tt_view uuid E U q st"
    using not_invalidated_kept [OF assms] view_reads by blast
qed

text \<open>
  For a client that is alone with the server and whose requests are answered one after another, each
  in one step with its commit and its \<open>onSuccess\<close>: whatever the user does, a cached clock status, entry list or own
  timesheet list that has not been invalidated is what the server would answer now, unless timesheets were
  approved in bulk. Fetches in flight, lost responses, other users and other tabs are outside it.
\<close>

theorem time_tracking_cache_coherent:
  assumes "key_filter matches" and "coherent (tt_view uuid E U) Q c"
    and "\<And>q m. q \<in> Q \<Longrightarrow> Mutate m \<in> set xs \<Longrightarrow> one_segment (fst m) \<and> tt_safe q (fst m)"
  shows "coherent (tt_view uuid E U) Q
    (fold (client_step matches tt_key tt_invalidates (tt_view uuid E U) (tt_perform uuid E U)) xs c)"
  using cached_api.coherent_runs [OF tt_cached [OF assms(1)] assms(2)] assms(3)
  by (simp add: tt_watched_def)

text \<open>The filter of the library, as documented: a key that starts with the given one.\<close>

definition starts_with_key :: "query_key \<Rightarrow> query_key \<Rightarrow> bool" where
  "starts_with_key f k \<longleftrightarrow> take (length f) k = f"

lemma starts_with_filter: "key_filter starts_with_key"
  by (simp add: key_filter_def starts_with_key_def)

interpretation tt_cache: cached_api starts_with_key tt_key tt_invalidates "tt_view uuid E U" "tt_perform uuid E U" tt_watched
  for uuid E U
  by (rule tt_cached [OF starts_with_filter])

definition web_env :: tt_env where
  "web_env = \<lparr>env_entries = typeorm_list te_id, env_sheets = typeorm_list ts_id, env_logs = typeorm_list lg_id,
     env_parse = (\<lambda>_. Some 0), env_plus = utc_days, env_attendance = typeorm_list att_id, env_user = (\<lambda>_. None)\<rparr>"

definition web_user :: User where
  "web_user = new_user 0 ''u1'' ''o1'' ''a@x'' ''h'' ''A'' [] ADMIN None"

definition web_call :: "nat \<Rightarrow> api_call" where
  "web_call n = \<lparr>tn_now = 9, tn_id = ''x''\<rparr>"

theorem time_tracking_cache_coherent_witness:
  "coherent (tt_view is_uuid web_env web_user) {QClockStatus, QTimesheets}
    (fold (client_step starts_with_key tt_key tt_invalidates (tt_view is_uuid web_env web_user)
        (tt_perform is_uuid web_env web_user))
      [Fetch QClockStatus, Fetch QTimesheets, Mutate (MClockIn None, web_call), Mutate (MSubmit ''2026-04-06'', web_call)]
      (Map.empty, tt_empty))"
  by (rule time_tracking_cache_coherent [OF starts_with_filter])
    (auto simp: coherent_def single_request_def)

theorem time_tracking_hooks_reach_witness:
  "dispatch (\<lambda>s. s = ''s1'') (time_tracking_routes web_env (web_call 0)) web_user
     (hd (mh_requests (tt_mutation_hook (MApprove ''s1'')))) tt_empty =
     tt_effect web_env web_user (web_call 0) (MApprove ''s1'') tt_empty"
  using time_tracking_hooks_reach [of "MApprove ''s1''" web_user QTimesheets "\<lambda>s. s = ''s1''" web_env "web_call 0" tt_empty]
  by (simp add: single_request_def web_user_def new_user_def Let_def)

text \<open>
  Approving a sheet leaves the payroll report in the cache as it was: an administrator who has looked
  at the report, approves a sheet and looks again is shown the report without it.
\<close>

lemma approval_leaves_report_outdated:
  "\<not> coherent (tt_view (\<lambda>s. s = ''s1'') web_env web_user) {QPayroll (Some ''2026-04-01'') (Some ''2026-04-30'')}
    (fold (client_step starts_with_key tt_key tt_invalidates (tt_view (\<lambda>s. s = ''s1'') web_env web_user)
        (tt_perform (\<lambda>s. s = ''s1'') web_env web_user))
      [Fetch (QPayroll (Some ''2026-04-01'') (Some ''2026-04-30'')), Mutate (MApprove ''s1'', web_call)]
      (Map.empty, tt_empty\<lparr>tt_timesheets := [sample_sheet]\<rparr>))"
proof -
  let ?u = "\<lambda>s. s = ''s1''" and ?q = "QPayroll (Some ''2026-04-01'') (Some ''2026-04-30'')"
  let ?st = "tt_empty\<lparr>tt_timesheets := [sample_sheet]\<rparr>"
  have admin: "u_role web_user = ADMIN" "u_organizationId web_user = ''o1''" "u_id web_user = ''u1''"
    by (simp_all add: web_user_def new_user_def)
  have view: "tt_view ?u web_env web_user ?q st = tt_answer web_env web_user ?q st" for st
    using tt_query_reaches [of web_user ?q ?u web_env "\<lparr>tn_now = 0, tn_id = []\<rparr>" st] admin
    by (simp add: tt_view_def)
  have single: "single_request (MApprove ''s1'')" by (simp add: single_request_def)
  obtain x st2 sheet where e: "tt_effect web_env web_user (web_call 0) (MApprove ''s1'') ?st = (Inr x, st2)"
    and st2: "tt_timesheets st2 = [sheet]" "ts_organizationId sheet = ''o1''" "ts_status sheet = APPROVED"
      "ts_weekStart sheet = ''2026-04-06''"
    by (simp add: approveTimesheet_def web_env_def sample_sheet_def admin Let_def)
  have perform: "tt_perform ?u web_env web_user (MApprove ''s1'', web_call) ?st = (True, st2)"
    using tt_mutation_reaches [of "MApprove ''s1''" ?u web_user web_env "web_call 0" ?st] admin single e
    by (simp add: perform_single Let_def del: tt_effect.simps)
  have "tt_answer web_env web_user ?q ?st = Inr (RPayroll [])"
    by (simp add: getPayrollReport_def web_env_def sample_sheet_def)
  moreover have "tt_answer web_env web_user ?q st2 = Inr (RPayroll [payroll_row (\<lambda>_. None) sheet])"
    by (simp add: getPayrollReport_def web_env_def st2 admin)
  moreover have "\<not> (\<exists>f \<in> set (tt_invalidates (MApprove ''s1'', web_call)). starts_with_key f (tt_key ?q))"
    by (simp add: tt_key_def tt_invalidates_def tt_hook_defs starts_with_key_def)
  ultimately show ?thesis
    by (simp add: coherent_def client_step_def view perform del: tt_answer.simps)
qed

end
