(* ===== verification/ProjectsWeb.thy ===== *)
theory ProjectsWeb
  imports Projects HttpRoutes
begin

text \<open>
  Projects from the browser to the service: the routes of ProjectsController and the hooks of
  hooks/use-projects.ts. The bodies are those the ValidationPipe accepts. Every hook for projects,
  tasks and milestones reaches the operation it is meant for; the two hooks for comments ask for
  a path the controller does not have.
\<close>

section \<open>ProjectsController\<close>

datatype pj_body =
    CreateProjectBody CreateProjectDto
  | UpdateProjectBody UpdateProjectDto
  | CreateTaskBody CreateTaskDto
  | UpdateTaskBody UpdateTaskDto
  | MoveTaskBody MoveTaskDto
  | CommentBody string
  | CreateMilestoneBody CreateMilestoneDto
  | UpdateMilestoneBody UpdateMilestoneDto

datatype pj_result =
    PProjects "Project list"
  | PProject Project
  | PDetails Project "Task list" "Milestone list"
  | PTasks "Task list"
  | PTask Task
  | PMilestones "Milestone list"
  | PMilestone Milestone
  | PComments "TaskComment list"
  | PComment TaskComment
  | PDone

type_synonym pj_route = "(pj_body, ProjectsService, pj_result) route"

definition ctl_getProjects :: "projects_orms \<Rightarrow> (string \<Rightarrow> js_time option) \<Rightarrow> api_call \<Rightarrow> pj_route" where
  "ctl_getProjects R D C = \<lparr>ro_method = GET, ro_path = ''/projects'', ro_roles = None,
     ro_uuids = [], ro_handler = (\<lambda>user ps r st.
       (Inr (PProjects (getProjects R (u_organizationId user) st)), st))\<rparr>"

definition ctl_createProject :: "projects_orms \<Rightarrow> (string \<Rightarrow> js_time option) \<Rightarrow> api_call \<Rightarrow> pj_route" where
  "ctl_createProject R D C = \<lparr>ro_method = POST, ro_path = ''/projects'', ro_roles = managers,
     ro_uuids = [], ro_handler = (\<lambda>user ps r st. case rq_body r of
       Some (CreateProjectBody dto) \<Rightarrow>
         map_result PProject (createProject R D (tn_now C) (tn_id C) (u_organizationId user) (u_id user) dto st)
     | _ \<Rightarrow> (Inl missing_body, st))\<rparr>"

definition ctl_getProject :: "projects_orms \<Rightarrow> (string \<Rightarrow> js_time option) \<Rightarrow> api_call \<Rightarrow> pj_route" where
  "ctl_getProject R D C = \<lparr>ro_method = GET, ro_path = ''/projects/:id'', ro_roles = None,
     ro_uuids = [''id''], ro_handler = (\<lambda>user ps r st.
       map_result (\<lambda>(p, ts, ms). PDetails p ts ms) (getProjectWithDetails R (param ''id'' ps)
         (u_organizationId user) st, st))\<rparr>"

definition ctl_updateProject :: "projects_orms \<Rightarrow> (string \<Rightarrow> js_time option) \<Rightarrow> api_call \<Rightarrow> pj_route" where
  "ctl_updateProject R D C = \<lparr>ro_method = PATCH, ro_path = ''/projects/:id'', ro_roles = managers,
     ro_uuids = [''id''], ro_handler = (\<lambda>user ps r st. case rq_body r of
       Some (UpdateProjectBody dto) \<Rightarrow>
         map_result PProject (updateProject R D (tn_now C) (param ''id'' ps) (u_organizationId user) dto st)
     | _ \<Rightarrow> (Inl missing_body, st))\<rparr>"

definition ctl_archiveProject :: "projects_orms \<Rightarrow> (string \<Rightarrow> js_time option) \<Rightarrow> api_call \<Rightarrow> pj_route" where
  "ctl_archiveProject R D C = \<lparr>ro_method = DELETE, ro_path = ''/projects/:id'', ro_roles = Some [ADMIN],
     ro_uuids = [''id''], ro_handler = (\<lambda>user ps r st.
       map_result (\<lambda>_. PDone) (archiveProject R (tn_now C) (param ''id'' ps) (u_organizationId user)
         st))\<rparr>"

definition ctl_getTasks :: "projects_orms \<Rightarrow> (string \<Rightarrow> js_time option) \<Rightarrow> api_call \<Rightarrow> pj_route" where
  "ctl_getTasks R D C = \<lparr>ro_method = GET, ro_path = ''/projects/:projectId/tasks'', ro_roles = None,
     ro_uuids = [''projectId''], ro_handler = (\<lambda>user ps r st.
       map_result PTasks (getTasks R (param ''projectId'' ps) (u_organizationId user) st, st))\<rparr>"

definition ctl_createTask :: "projects_orms \<Rightarrow> (string \<Rightarrow> js_time option) \<Rightarrow> api_call \<Rightarrow> pj_route" where
  "ctl_createTask R D C = \<lparr>ro_method = POST, ro_path = ''/projects/:projectId/tasks'', ro_roles = None,
     ro_uuids = [''projectId''], ro_handler = (\<lambda>user ps r st. case rq_body r of
       Some (CreateTaskBody dto) \<Rightarrow>
         map_result PTask (createTask R D (tn_now C) (tn_id C) (param ''projectId'' ps) (u_organizationId user)
         dto st)
     | _ \<Rightarrow> (Inl missing_body, st))\<rparr>"

definition ctl_updateTask :: "projects_orms \<Rightarrow> (string \<Rightarrow> js_time option) \<Rightarrow> api_call \<Rightarrow> pj_route" where
  "ctl_updateTask R D C = \<lparr>ro_method = PATCH, ro_path = ''/projects/:projectId/tasks/:id'', ro_roles = None,
     ro_uuids = [''projectId'', ''id''], ro_handler = (\<lambda>user ps r st. case rq_body r of
       Some (UpdateTaskBody dto) \<Rightarrow>
         map_result PTask (updateTask R D (tn_now C) (param ''projectId'' ps) (param ''id'' ps)
         (u_organizationId user) dto st)
     | _ \<Rightarrow> (Inl missing_body, st))\<rparr>"

definition ctl_deleteTask :: "projects_orms \<Rightarrow> (string \<Rightarrow> js_time option) \<Rightarrow> api_call \<Rightarrow> pj_route" where
  "ctl_deleteTask R D C = \<lparr>ro_method = DELETE, ro_path = ''/projects/:projectId/tasks/:id'', ro_roles = None,
     ro_uuids = [''projectId'', ''id''], ro_handler = (\<lambda>user ps r st.
       map_result (\<lambda>_. PDone) (deleteTask R (param ''projectId'' ps) (param ''id'' ps)
         (u_organizationId user) st))\<rparr>"

definition ctl_moveTask :: "projects_orms \<Rightarrow> (string \<Rightarrow> js_time option) \<Rightarrow> api_call \<Rightarrow> pj_route" where
  "ctl_moveTask R D C = \<lparr>ro_method = PATCH, ro_path = ''/projects/:projectId/tasks/:taskId/move'', ro_roles = None,
     ro_uuids = [''projectId'', ''taskId''], ro_handler = (\<lambda>user ps r st. case rq_body r of
       Some (MoveTaskBody dto) \<Rightarrow>
         map_result PTask (moveTask R (tn_now C) (param ''projectId'' ps) (param ''taskId'' ps)
         (u_organizationId user) dto st)
     | _ \<Rightarrow> (Inl missing_body, st))\<rparr>"

definition ctl_getComments :: "projects_orms \<Rightarrow> (string \<Rightarrow> js_time option) \<Rightarrow> api_call \<Rightarrow> pj_route" where
  "ctl_getComments R D C = \<lparr>ro_method = GET, ro_path = ''/projects/:projectId/tasks/:taskId/comments'', ro_roles = None,
     ro_uuids = [''projectId'', ''taskId''], ro_handler = (\<lambda>user ps r st.
       map_result PComments (getComments R (param ''projectId'' ps) (param ''taskId'' ps) (u_organizationId
         user) st, st))\<rparr>"

definition ctl_addComment :: "projects_orms \<Rightarrow> (string \<Rightarrow> js_time option) \<Rightarrow> api_call \<Rightarrow> pj_route" where
  "ctl_addComment R D C = \<lparr>ro_method = POST, ro_path = ''/projects/:projectId/tasks/:taskId/comments'', ro_roles = None,
     ro_uuids = [''projectId'', ''taskId''], ro_handler = (\<lambda>user ps r st. case rq_body r of
       Some (CommentBody content) \<Rightarrow>
         map_result PComment (addComment R (tn_now C) (tn_id C) (param ''projectId'' ps) (param ''taskId'' ps)
         (u_organizationId user) (u_id user) content st)
     | _ \<Rightarrow> (Inl missing_body, st))\<rparr>"

definition ctl_getMilestones :: "projects_orms \<Rightarrow> (string \<Rightarrow> js_time option) \<Rightarrow> api_call \<Rightarrow> pj_route" where
  "ctl_getMilestones R D C = \<lparr>ro_method = GET, ro_path = ''/projects/:projectId/milestones'', ro_roles = None,
     ro_uuids = [''projectId''], ro_handler = (\<lambda>user ps r st.
       map_result PMilestones (getMilestones R (param ''projectId'' ps) (u_organizationId user) st, st))\<rparr>"

definition ctl_createMilestone :: "projects_orms \<Rightarrow> (string \<Rightarrow> js_time option) \<Rightarrow> api_call \<Rightarrow> pj_route" where
  "ctl_createMilestone R D C = \<lparr>ro_method = POST, ro_path = ''/projects/:projectId/milestones'', ro_roles = managers,
     ro_uuids = [''projectId''], ro_handler = (\<lambda>user ps r st. case rq_body r of
       Some (CreateMilestoneBody dto) \<Rightarrow>
         map_result PMilestone (createMilestone R D (tn_now C) (tn_id C) (param ''projectId'' ps)
         (u_organizationId user) dto st)
     | _ \<Rightarrow> (Inl missing_body, st))\<rparr>"

definition ctl_updateMilestone :: "projects_orms \<Rightarrow> (string \<Rightarrow> js_time option) \<Rightarrow> api_call \<Rightarrow> pj_route" where
  "ctl_updateMilestone R D C = \<lparr>ro_method = PATCH, ro_path = ''/projects/:projectId/milestones/:id'', ro_roles = managers,
     ro_uuids = [''projectId'', ''id''], ro_handler = (\<lambda>user ps r st. case rq_body r of
       Some (UpdateMilestoneBody dto) \<Rightarrow>
         map_result PMilestone (updateMilestone R D (tn_now C) (param ''projectId'' ps) (param ''id'' ps)
         (u_organizationId user) dto st)
     | _ \<Rightarrow> (Inl missing_body, st))\<rparr>"

definition ctl_deleteMilestone :: "projects_orms \<Rightarrow> (string \<Rightarrow> js_time option) \<Rightarrow> api_call \<Rightarrow> pj_route" where
  "ctl_deleteMilestone R D C = \<lparr>ro_method = DELETE, ro_path = ''/projects/:projectId/milestones/:id'', ro_roles = managers,
     ro_uuids = [''projectId'', ''id''], ro_handler = (\<lambda>user ps r st.
       map_result (\<lambda>_. PDone) (deleteMilestone R (param ''projectId'' ps) (param ''id'' ps)
         (u_organizationId user) st))\<rparr>"

definition projects_routes :: "projects_orms \<Rightarrow> (string \<Rightarrow> js_time option) \<Rightarrow> api_call \<Rightarrow> pj_route list" where
  "projects_routes R D C = [ctl_getProjects R D C, ctl_createProject R D C, ctl_getProject R D C, ctl_updateProject R D C,
     ctl_archiveProject R D C, ctl_getTasks R D C, ctl_createTask R D C, ctl_updateTask R D C, ctl_deleteTask R
     D C, ctl_moveTask R D C, ctl_getComments R D C, ctl_addComment R D C, ctl_getMilestones R D C,
     ctl_createMilestone R D C, ctl_updateMilestone R D C, ctl_deleteMilestone R D C]"

section \<open>The hooks\<close>

definition useProjects :: "pj_body query_hook" where
  "useProjects =
     a_query [Key ''projects''] ''/projects'' []"

definition useProject :: "string \<Rightarrow> pj_body query_hook" where
  "useProject i =
     (a_query [Key ''projects'', Key i] (''/projects/'' @ i) [])
     \<lparr>qh_enabled := i \<noteq> []\<rparr>"

definition useCreateProject :: "CreateProjectDto \<Rightarrow> pj_body mutation_hook" where
  "useCreateProject payload =
     a_mutation POST ''/projects'' (Some (CreateProjectBody payload))
     [[Key ''projects'']] (Some ''Project created'') (Some ''Failed to create project'')"

definition useUpdateProject :: "string \<Rightarrow> UpdateProjectDto \<Rightarrow> pj_body mutation_hook" where
  "useUpdateProject i payload =
     a_mutation PATCH (''/projects/'' @ i) (Some (UpdateProjectBody payload))
     [[Key ''projects''], [Key ''projects'', Key i]] (Some ''Project updated'') (Some ''Failed to update project'')"

definition useDeleteProject :: "string \<Rightarrow> pj_body mutation_hook" where
  "useDeleteProject i =
     a_mutation DELETE (''/projects/'' @ i) None
     [[Key ''projects'']] (Some ''Project archived'') (Some ''Failed to archive project'')"

definition useTasks :: "string \<Rightarrow> pj_body query_hook" where
  "useTasks projectId =
     (a_query [Key ''projects'', Key projectId, Key ''tasks''] (''/projects/'' @ projectId @ ''/tasks'') [])
     \<lparr>qh_enabled := projectId \<noteq> []\<rparr>"

definition useCreateTask :: "string \<Rightarrow> CreateTaskDto \<Rightarrow> pj_body mutation_hook" where
  "useCreateTask projectId payload =
     a_mutation POST (''/projects/'' @ projectId @ ''/tasks'') (Some (CreateTaskBody payload))
     [[Key ''projects'', Key projectId], [Key ''projects'', Key projectId, Key ''tasks'']]
     (Some ''Task created'') (Some ''Failed to create task'')"

definition useUpdateTask :: "string \<Rightarrow> string \<Rightarrow> UpdateTaskDto \<Rightarrow> pj_body
       mutation_hook" where
  "useUpdateTask projectId i payload =
     a_mutation PATCH (''/projects/'' @ projectId @ ''/tasks/'' @ i) (Some (UpdateTaskBody payload))
     [[Key ''projects'', Key projectId], [Key ''projects'', Key projectId, Key ''tasks'']] None
     (Some ''Failed to update task'')"

definition useDeleteTask :: "string \<Rightarrow> string \<Rightarrow> pj_body mutation_hook" where
  "useDeleteTask projectId taskId =
     a_mutation DELETE (''/projects/'' @ projectId @ ''/tasks/'' @ taskId) None
     [[Key ''projects'', Key projectId], [Key ''projects'', Key projectId, Key ''tasks'']]
     (Some ''Task deleted'') (Some ''Failed to delete task'')"

definition useMilestones :: "string \<Rightarrow> pj_body query_hook" where
  "useMilestones projectId =
     (a_query [Key ''projects'', Key projectId, Key ''milestones''] (''/projects/'' @ projectId @ ''/milestones'') [])
     \<lparr>qh_enabled := projectId \<noteq> []\<rparr>"

definition useCreateMilestone :: "string \<Rightarrow> CreateMilestoneDto \<Rightarrow> pj_body mutation_hook" where
  "useCreateMilestone projectId payload =
     a_mutation POST (''/projects/'' @ projectId @ ''/milestones'') (Some (CreateMilestoneBody payload))
     [[Key ''projects'', Key projectId], [Key ''projects'', Key projectId, Key ''milestones'']]
     (Some ''Milestone created'') (Some ''Failed to create milestone'')"

definition useUpdateMilestone :: "string \<Rightarrow> string \<Rightarrow> UpdateMilestoneDto \<Rightarrow>
       pj_body mutation_hook" where
  "useUpdateMilestone projectId i payload =
     a_mutation PATCH (''/projects/'' @ projectId @ ''/milestones/'' @ i) (Some (UpdateMilestoneBody payload))
     [[Key ''projects'', Key projectId], [Key ''projects'', Key projectId, Key ''milestones'']] None
     (Some ''Failed to update milestone'')"

definition useDeleteMilestone :: "string \<Rightarrow> string \<Rightarrow> pj_body mutation_hook" where
  "useDeleteMilestone projectId milestoneId =
     a_mutation DELETE (''/projects/'' @ projectId @ ''/milestones/'' @ milestoneId) None
     [[Key ''projects'', Key projectId], [Key ''projects'', Key projectId, Key ''milestones'']]
     (Some ''Milestone deleted'') (Some ''Failed to delete milestone'')"

definition useMoveTask :: "string \<Rightarrow> string \<Rightarrow> MoveTaskDto \<Rightarrow> pj_body
       mutation_hook" where
  "useMoveTask projectId taskId payload =
     a_mutation PATCH (''/projects/'' @ projectId @ ''/tasks/'' @ taskId @ ''/move'') (Some (MoveTaskBody payload))
     [[Key ''projects'', Key projectId]] None None"

definition useAddComment :: "string \<Rightarrow> string \<Rightarrow> pj_body mutation_hook" where
  "useAddComment taskId content =
     a_mutation POST (''/projects/tasks/'' @ taskId @ ''/comments'') (Some (CommentBody content))
     [[Key ''task-comments'', Key taskId]] None None"

definition useComments :: "string \<Rightarrow> pj_body query_hook" where
  "useComments taskId =
     (a_query [Key ''task-comments'', Key taskId] (''/projects/tasks/'' @ taskId @ ''/comments'') [])
     \<lparr>qh_enabled := taskId \<noteq> []\<rparr>"

section \<open>Every hook but two reaches its operation\<close>

lemmas pj_route_defs = ctl_getProjects_def ctl_createProject_def ctl_getProject_def ctl_updateProject_def ctl_archiveProject_def
  ctl_getTasks_def ctl_createTask_def ctl_updateTask_def ctl_deleteTask_def ctl_moveTask_def ctl_getComments_def
  ctl_addComment_def ctl_getMilestones_def ctl_createMilestone_def ctl_updateMilestone_def
  ctl_deleteMilestone_def

lemma pj_route_keys [simp]:
  "route_key (ctl_getProjects R D C) = (GET, [[], ''projects''])"
  "route_key (ctl_createProject R D C) = (POST, [[], ''projects''])"
  "route_key (ctl_getProject R D C) = (GET, [[], ''projects'', '':id''])"
  "route_key (ctl_updateProject R D C) = (PATCH, [[], ''projects'', '':id''])"
  "route_key (ctl_archiveProject R D C) = (DELETE, [[], ''projects'', '':id''])"
  "route_key (ctl_getTasks R D C) = (GET, [[], ''projects'', '':projectId'', ''tasks''])"
  "route_key (ctl_createTask R D C) = (POST, [[], ''projects'', '':projectId'', ''tasks''])"
  "route_key (ctl_updateTask R D C) = (PATCH, [[], ''projects'', '':projectId'', ''tasks'', '':id''])"
  "route_key (ctl_deleteTask R D C) = (DELETE, [[], ''projects'', '':projectId'', ''tasks'', '':id''])"
  "route_key (ctl_moveTask R D C) = (PATCH, [[], ''projects'', '':projectId'', ''tasks'', '':taskId'', ''move''])"
  "route_key (ctl_getComments R D C) = (GET, [[], ''projects'', '':projectId'', ''tasks'', '':taskId'', ''comments''])"
  "route_key (ctl_addComment R D C) = (POST, [[], ''projects'', '':projectId'', ''tasks'', '':taskId'', ''comments''])"
  "route_key (ctl_getMilestones R D C) = (GET, [[], ''projects'', '':projectId'', ''milestones''])"
  "route_key (ctl_createMilestone R D C) = (POST, [[], ''projects'', '':projectId'', ''milestones''])"
  "route_key (ctl_updateMilestone R D C) = (PATCH, [[], ''projects'', '':projectId'', ''milestones'', '':id''])"
  "route_key (ctl_deleteMilestone R D C) = (DELETE, [[], ''projects'', '':projectId'', ''milestones'', '':id''])"
  by (simp_all add: route_key_def pj_route_defs)

datatype PJQuery = QProjects | QProject string | QTasks string | QMilestones string

datatype PJMutation = MCreateProject CreateProjectDto | MUpdateProject string UpdateProjectDto
  | MDeleteProject string | MCreateTask string CreateTaskDto | MUpdateTask string string UpdateTaskDto
  | MDeleteTask string string | MMoveTask string string MoveTaskDto
  | MCreateMilestone string CreateMilestoneDto | MUpdateMilestone string string UpdateMilestoneDto
  | MDeleteMilestone string string

fun pj_query_hook :: "PJQuery \<Rightarrow> pj_body query_hook" where
  "pj_query_hook QProjects = useProjects"
| "pj_query_hook (QProject i) = useProject i"
| "pj_query_hook (QTasks p) = useTasks p"
| "pj_query_hook (QMilestones p) = useMilestones p"

fun pj_mutation_hook :: "PJMutation \<Rightarrow> pj_body mutation_hook" where
  "pj_mutation_hook (MCreateProject dto) = useCreateProject dto"
| "pj_mutation_hook (MUpdateProject i dto) = useUpdateProject i dto"
| "pj_mutation_hook (MDeleteProject i) = useDeleteProject i"
| "pj_mutation_hook (MCreateTask p dto) = useCreateTask p dto"
| "pj_mutation_hook (MUpdateTask p i dto) = useUpdateTask p i dto"
| "pj_mutation_hook (MDeleteTask p i) = useDeleteTask p i"
| "pj_mutation_hook (MMoveTask p i dto) = useMoveTask p i dto"
| "pj_mutation_hook (MCreateMilestone p dto) = useCreateMilestone p dto"
| "pj_mutation_hook (MUpdateMilestone p i dto) = useUpdateMilestone p i dto"
| "pj_mutation_hook (MDeleteMilestone p i) = useDeleteMilestone p i"

fun pj_answer :: "projects_orms \<Rightarrow> User \<Rightarrow> PJQuery \<Rightarrow> ProjectsService \<Rightarrow> pj_result outcome" where
  "pj_answer R U QProjects st = Inr (PProjects (getProjects R (u_organizationId U) st))"
| "pj_answer R U (QProject i) st = fst (map_result (\<lambda>(p, ts, ms). PDetails p ts ms)
     (getProjectWithDetails R i (u_organizationId U) st, st))"
| "pj_answer R U (QTasks p) st = fst (map_result PTasks (getTasks R p (u_organizationId U) st, st))"
| "pj_answer R U (QMilestones p) st = fst (map_result PMilestones (getMilestones R p (u_organizationId U) st, st))"

fun pj_effect :: "projects_orms \<Rightarrow> (string \<Rightarrow> js_time option) \<Rightarrow> User \<Rightarrow> api_call \<Rightarrow> PJMutation \<Rightarrow> ProjectsService \<Rightarrow>
    pj_result outcome \<times> ProjectsService" where
  "pj_effect R D U C (MCreateProject dto) st =
     map_result PProject (createProject R D (tn_now C) (tn_id C) (u_organizationId U) (u_id U) dto st)"
| "pj_effect R D U C (MUpdateProject i dto) st =
     map_result PProject (updateProject R D (tn_now C) i (u_organizationId U) dto st)"
| "pj_effect R D U C (MDeleteProject i) st =
     map_result (\<lambda>_. PDone) (archiveProject R (tn_now C) i (u_organizationId U) st)"
| "pj_effect R D U C (MCreateTask p dto) st =
     map_result PTask (createTask R D (tn_now C) (tn_id C) p (u_organizationId U) dto st)"
| "pj_effect R D U C (MUpdateTask p i dto) st =
     map_result PTask (updateTask R D (tn_now C) p i (u_organizationId U) dto st)"
| "pj_effect R D U C (MDeleteTask p i) st = map_result (\<lambda>_. PDone) (deleteTask R p i (u_organizationId U) st)"
| "pj_effect R D U C (MMoveTask p i dto) st =
     map_result PTask (moveTask R (tn_now C) p i (u_organizationId U) dto st)"
| "pj_effect R D U C (MCreateMilestone p dto) st =
     map_result PMilestone (createMilestone R D (tn_now C) (tn_id C) p (u_organizationId U) dto st)"
| "pj_effect R D U C (MUpdateMilestone p i dto) st =
     map_result PMilestone (updateMilestone R D (tn_now C) p i (u_organizationId U) dto st)"
| "pj_effect R D U C (MDeleteMilestone p i) st =
     map_result (\<lambda>_. PDone) (deleteMilestone R p i (u_organizationId U) st)"

text \<open>The ids in the path of a hook, and the roles its route asks for.\<close>

fun query_ids :: "PJQuery \<Rightarrow> string list" where
  "query_ids QProjects = []"
| "query_ids (QProject i) = [i]"
| "query_ids (QTasks p) = [p]"
| "query_ids (QMilestones p) = [p]"

fun mutation_ids :: "PJMutation \<Rightarrow> string list" where
  "mutation_ids (MCreateProject dto) = []"
| "mutation_ids (MUpdateProject i dto) = [i]"
| "mutation_ids (MDeleteProject i) = [i]"
| "mutation_ids (MCreateTask p dto) = [p]"
| "mutation_ids (MUpdateTask p i dto) = [p, i]"
| "mutation_ids (MDeleteTask p i) = [p, i]"
| "mutation_ids (MMoveTask p i dto) = [p, i]"
| "mutation_ids (MCreateMilestone p dto) = [p]"
| "mutation_ids (MUpdateMilestone p i dto) = [p, i]"
| "mutation_ids (MDeleteMilestone p i) = [p, i]"

fun mutation_roles :: "PJMutation \<Rightarrow> UserRole set" where
  "mutation_roles (MDeleteProject i) = {ADMIN}"
| "mutation_roles (MCreateTask p dto) = UNIV"
| "mutation_roles (MUpdateTask p i dto) = UNIV"
| "mutation_roles (MDeleteTask p i) = UNIV"
| "mutation_roles (MMoveTask p i dto) = UNIV"
| "mutation_roles _ = {ADMIN, MANAGER}"

lemmas pj_hook_defs = useProjects_def useProject_def useCreateProject_def useUpdateProject_def
  useDeleteProject_def useTasks_def useCreateTask_def useUpdateTask_def useDeleteTask_def useMoveTask_def
  useMilestones_def useCreateMilestone_def useUpdateMilestone_def useDeleteMilestone_def

lemmas pj_serve_simps = serve_def roles_canActivate_def param_def pj_route_defs

lemma pj_query_served:
  assumes "\<forall>i \<in> set (query_ids q). uuid i \<and> i \<noteq> [] \<and> CHR 0x2F \<notin> set i"
  shows "dispatch uuid (projects_routes R D C) U (qh_request (pj_query_hook q)) st = (pj_answer R U q st, st)"
  using assms
  by (cases q; simp add: projects_routes_def route_match_def request_key_def pj_hook_defs)
    (simp_all add: pj_serve_simps map_result_def split: sum.split)

lemma pj_mutation_served:
  assumes "\<forall>i \<in> set (mutation_ids m). uuid i \<and> i \<noteq> [] \<and> CHR 0x2F \<notin> set i"
  shows "if u_role U \<in> mutation_roles m
    then dispatch uuid (projects_routes R D C) U (hd (mh_requests (pj_mutation_hook m))) st = pj_effect R D U C m st
    else \<exists>e. dispatch uuid (projects_routes R D C) U (hd (mh_requests (pj_mutation_hook m))) st = (Inl (Forbidden e), st)"
  using assms
  by (cases m; simp add: projects_routes_def route_match_def request_key_def pj_hook_defs)
    (cases "u_role U"; simp add: pj_serve_simps)+

text \<open>
  Client, routes and service agree on projects: the request of every hook for projects, tasks
  and milestones is answered by the service operation it is meant for, in the organisation of the
  signed-in user, when its ids are uuids and the user has the role; without the role it is refused
  and nothing changes.
\<close>

theorem project_hooks_reach:
  assumes p: "uuid_pipe uuid" and q: "\<forall>i \<in> set (query_ids q). uuid i" and m: "\<forall>i \<in> set (mutation_ids m). uuid i"
  shows "dispatch uuid (projects_routes R D C) U (qh_request (pj_query_hook q)) st = (pj_answer R U q st, st) \<and>
    (let r = hd (mh_requests (pj_mutation_hook m)) in
      if u_role U \<in> mutation_roles m
      then dispatch uuid (projects_routes R D C) U r st = pj_effect R D U C m st
      else \<exists>e. dispatch uuid (projects_routes R D C) U r st = (Inl (Forbidden e), st))"
  using pj_query_served [of q uuid R D C U st] pj_mutation_served [of m uuid U R D C st] p q m
  unfolding Let_def uuid_pipe_def by blast

definition project_user :: "UserRole \<Rightarrow> User" where
  "project_user role = new_user 0 ''u1'' ''o1'' ''a@x'' ''h'' ''A'' [] role None"

theorem project_hooks_reach_witness:
  "\<exists>e. dispatch (\<lambda>s. s = ''p1'') (projects_routes list_projects (\<lambda>_. None) \<lparr>tn_now = 1, tn_id = ''x''\<rparr>) (project_user EMPLOYEE)
     (hd (mh_requests (pj_mutation_hook (MDeleteProject ''p1''))))
     \<lparr>pj_projects = [], pj_tasks = [], pj_milestones = [], pj_comments = []\<rparr> =
   (Inl (Forbidden e), \<lparr>pj_projects = [], pj_tasks = [], pj_milestones = [], pj_comments = []\<rparr>)"
  using project_hooks_reach [of "\<lambda>s. s = ''p1''" QProjects "MDeleteProject ''p1''" list_projects "\<lambda>_. None"
      "\<lparr>tn_now = 1, tn_id = ''x''\<rparr>" "project_user EMPLOYEE"
      "\<lparr>pj_projects = [], pj_tasks = [], pj_milestones = [], pj_comments = []\<rparr>"]
  by (simp add: uuid_pipe_def project_user_def new_user_def Let_def)

section \<open>The comments\<close>

text \<open>The controller serves the comments of a task under its project.\<close>

lemma comments_under_project:
  assumes "uuid p" "uuid t" and "\<forall>i \<in> {p, t}. i \<noteq> [] \<and> CHR 0x2F \<notin> set i"
  shows "dispatch uuid (projects_routes R D C) U \<lparr>rq_method = GET,
      rq_path = ''/projects/'' @ p @ ''/tasks/'' @ t @ ''/comments'', rq_query = [], rq_body = None\<rparr> st =
    map_result PComments (getComments R p t (u_organizationId U) st, st)"
  using assms
  by (simp add: projects_routes_def route_match_def request_key_def)
    (simp add: pj_serve_simps map_result_def split: sum.split)

text \<open>
  The comments of the client never work: whoever asks, for whatever task, both hooks name a
  path without the project, which no route of the controller fits; the answer is 404, no comment is
  stored, and the comments that exist are not shown.
\<close>

theorem comment_hooks_unreachable:
  assumes "CHR 0x2F \<notin> set taskId"
  shows "dispatch uuid (projects_routes R D C) U (qh_request (useComments taskId)) st =
      (Inl (NotFound (''Cannot GET /projects/tasks/'' @ taskId @ ''/comments'')), st) \<and>
    dispatch uuid (projects_routes R D C) U (hd (mh_requests (useAddComment taskId content))) st =
      (Inl (NotFound (''Cannot POST /projects/tasks/'' @ taskId @ ''/comments'')), st)"
  using assms
  by (simp add: projects_routes_def route_match_def request_key_def useComments_def useAddComment_def cannot_def)

theorem comment_hooks_unreachable_witness:
  "fst (dispatch (\<lambda>s. True) (projects_routes list_projects (\<lambda>_. None) \<lparr>tn_now = 1, tn_id = ''x''\<rparr>) (project_user ADMIN)
     (qh_request (useComments ''t1'')) \<lparr>pj_projects = [], pj_tasks = [], pj_milestones = [], pj_comments = []\<rparr>) =
   Inl (NotFound ''Cannot GET /projects/tasks/t1/comments'')"
  using comment_hooks_unreachable [of "''t1''" "\<lambda>s. True" list_projects "\<lambda>_. None" "\<lparr>tn_now = 1, tn_id = ''x''\<rparr>"
      "project_user ADMIN" "\<lparr>pj_projects = [], pj_tasks = [], pj_milestones = [], pj_comments = []\<rparr>"]
  by simp

end
