(* ===== verification/KanbanBoard.thy ===== *)
theory KanbanBoard
  imports ProjectsWeb
begin

text \<open>
  The board of a project (components/projects/kanban-board.tsx): the columns, what a drop of a card
  asks the server to do. A drop is composed with the hook, the
  routes and the service: the board that is fetched again differs in the dragged task only. The
  server stores the index of the drop as the position and shifts nobody, so a card lands where it
  was dropped, or one place below, only while the positions of its column are the indices.
  \<open>sort\<close> of the language is stable.
\<close>

definition COLUMNS :: "string list" where
  "COLUMNS = [''todo'', ''in_progress'', ''in_review'', ''done'']"

definition task_isOverdue :: "js_time \<Rightarrow> Task \<Rightarrow> bool" where
  "task_isOverdue now task \<longleftrightarrow> (case tk_dueDate task of None \<Rightarrow> False | Some d \<Rightarrow> d < now) \<and> tk_status task \<noteq> ''done''"

definition tasksByColumn :: "Task list \<Rightarrow> string \<Rightarrow> Task list" where
  "tasksByColumn tasks colId = sort_key tk_position (filter (\<lambda>t. tk_status t = colId) tasks)"

definition findIndex :: "('a \<Rightarrow> bool) \<Rightarrow> 'a list \<Rightarrow> nat option" where
  "findIndex P xs = (let i = length (takeWhile (\<lambda>x. \<not> P x) xs) in if i < length xs then Some i else None)"

definition target_status :: "Task list \<Rightarrow> string \<Rightarrow> Task \<Rightarrow> string" where
  "target_status tasks over dragged = nullish (find (\<lambda>c. c = over) COLUMNS)
     (nullish (map_option tk_status (find (\<lambda>t. tk_id t = over) tasks)) (tk_status dragged))"

definition target_index :: "Task list \<Rightarrow> string \<Rightarrow> string \<Rightarrow> Task \<Rightarrow> nat" where
  "target_index tasks over status dragged =
     (let colTasks = filter (\<lambda>t. tk_id t \<noteq> tk_id dragged) (tasksByColumn tasks status)
      in case find (\<lambda>t. tk_id t = over) tasks of
        None \<Rightarrow> length colTasks
      | Some overTask \<Rightarrow> if tk_status overTask = status
          then nullish (findIndex (\<lambda>t. tk_id t = tk_id overTask) colTasks) (length colTasks)
          else length colTasks)"

definition handleDragEnd :: "Task list \<Rightarrow> string \<Rightarrow> string option \<Rightarrow> (string \<times> MoveTaskDto) option" where
  "handleDragEnd tasks active over = (case over of None \<Rightarrow> None
   | Some overId \<Rightarrow> (case find (\<lambda>t. tk_id t = active) tasks of None \<Rightarrow> None
     | Some dragged \<Rightarrow>
         let status = target_status tasks overId dragged; idx = target_index tasks overId status dragged
         in if tk_status dragged = status \<and> tk_position dragged = int idx then None
           else Some (tk_id dragged, \<lparr>mv_status = status, mv_position = int idx\<rparr>)))"

section \<open>A drop moves one task\<close>

lemma handleDragEnd_SomeD:
  assumes "handleDragEnd tasks active over = Some (tid, dto)"
  shows "\<exists>t \<in> set tasks. tk_id t = active \<and> tid = active"
  using assms
  by (auto simp: handleDragEnd_def Let_def find_Some_iff intro: nth_mem split: option.splits if_splits)

lemma move_served:
  assumes R: "projects_repos R" and K: "keyed tk_id (pj_tasks st)"
    and g: "getTasks R p org st = Inr tasks" and t: "t \<in> set tasks"
    and m: "moveTask R now p (tk_id t) org dto st = (res, st')"
  shows "\<exists>t'. res = Inr t' \<and> t' = touched (\<lambda>x. x\<lparr>tk_updatedAt := now\<rparr>) t
      (t\<lparr>tk_status := mv_status dto, tk_position := mv_position dto\<rparr>) \<and>
    (\<exists>tasks'. getTasks R p org st' = Inr tasks' \<and> mset tasks' = mset tasks - {#t#} + {#t'#})"
proof -
  have RT: "repository (pm_tasks R) tk_id" using R by (simp add: projects_repos_def)
  obtain q where q: "findProjectInOrg R p org st = Inr q" and tasks: "tasks = project_tasks R p org st"
    using g by (auto simp: getTasks_def split: sum.splits)
  let ?P = "\<lambda>x. tk_projectId x = p \<and> tk_organizationId x = org"
  have mt: "mset tasks = filter_mset ?P (mset (pj_tasks st))"
    unfolding tasks project_tasks_def by (rule repository.find_mset [OF RT])
  have in_t: "t \<in> set (pj_tasks st)" "?P t" using t mt
    by (metis (mono_tags, lifting) mem_Collect_eq set_mset_filter set_mset_mset)+
  have find: "find_task R p (tk_id t) org st = Inr t"
  proof -
    have "find_one (pm_tasks R) (\<lambda>x. tk_id x = tk_id t \<and> tk_projectId x = p \<and> tk_organizationId x = org)
        (pj_tasks st) = Some t"
      by (rule repository.find_one_unique [OF RT in_t(1)]) (use in_t K keyed_same in auto)
    then show ?thesis by (simp add: find_task_def q)
  qed
  define t' where "t' = touched (\<lambda>x. x\<lparr>tk_updatedAt := now\<rparr>) t
      (t\<lparr>tk_status := mv_status dto, tk_position := mv_position dto\<rparr>)"
  have t': "tk_id t' = tk_id t" "tk_projectId t' = tk_projectId t" "tk_organizationId t' = tk_organizationId t"
    by (simp_all add: t'_def touched_def)
  have moved: "res = Inr t'" "st' = st\<lparr>pj_tasks := orm_save (pm_tasks R) t' (pj_tasks st)\<rparr>"
    using m find by (simp_all add: moveTask_def save_task_def Let_def t'_def)
  have "mset (orm_save (pm_tasks R) t' (pj_tasks st)) = mset (pj_tasks st) - {#t#} + {#t'#}"
  proof -
    have "filter_mset (\<lambda>r. tk_id r \<noteq> tk_id t) (mset (pj_tasks st)) = mset (pj_tasks st) - {#t#}"
      using keyed_remove [OF K in_t(1)] by (metis add_mset_remove_trivial)
    then show ?thesis unfolding repository.save_rows [OF RT] t' by simp
  qed
  moreover have "mset (project_tasks R p org st') =
      filter_mset ?P (mset (orm_save (pm_tasks R) t' (pj_tasks st)))"
    unfolding project_tasks_def moved by (simp add: repository.find_mset [OF RT])
  ultimately have "mset (project_tasks R p org st') = mset tasks - {#t#} + {#t'#}"
    unfolding mt using in_t t' by (simp add: filter_diff_mset)
  moreover have "getTasks R p org st' = Inr (project_tasks R p org st')"
    using q by (simp add: getTasks_def findProjectInOrg_def project_in_org_def moved split: option.splits)
  ultimately show ?thesis using moved t'_def by blast
qed

section \<open>Where the card lands\<close>

lemma sorted_index_bounds:
  fixes f :: "'a \<Rightarrow> int"
  assumes "sorted (map f xs)" and "i < length xs"
  shows "length (filter (\<lambda>y. f y < f (xs ! i)) xs) \<le> i" and "i < length (filter (\<lambda>y. f y \<le> f (xs ! i)) xs)"
proof -
  have mono: "f (xs ! a) \<le> f (xs ! b)" if "a \<le> b" "b < length xs" for a b
    using sorted_nth_mono [OF assms(1), of a b] that by simp
  have "j < i" if "j < length xs" "f (xs ! j) < f (xs ! i)" for j
    using mono [of i j] that by (meson not_less)
  then have "{j. j < length xs \<and> f (xs ! j) < f (xs ! i)} \<subseteq> {..<i}" by blast
  then have "card {j. j < length xs \<and> f (xs ! j) < f (xs ! i)} \<le> card {..<i}" by (intro card_mono) auto
  then show "length (filter (\<lambda>y. f y < f (xs ! i)) xs) \<le> i" by (simp add: length_filter_conv_card)
  have "{..i} \<subseteq> {j. j < length xs \<and> f (xs ! j) \<le> f (xs ! i)}" using mono assms(2) by auto
  then have "card {..i} \<le> card {j. j < length xs \<and> f (xs ! j) \<le> f (xs ! i)}" by (intro card_mono) auto
  then show "i < length (filter (\<lambda>y. f y \<le> f (xs ! i)) xs)" by (simp add: length_filter_conv_card)
qed

lemma card_index_below: "length (filter (\<lambda>x. x < int k) (map int [0..<n])) = min k n"
  by (induction n) (auto simp: min_def)

text \<open>The column after the move is the column without the card, and the card.\<close>

lemma column_after:
  assumes "distinct (map tk_id tasks)" and "t \<in> set tasks" and "tk_id t' = tk_id t" and "tk_status t' = s"
    and "mset tasks' = mset tasks - {#t#} + {#t'#}"
  shows "mset (tasksByColumn tasks' s) = mset (filter (\<lambda>x. tk_id x \<noteq> tk_id t) (tasksByColumn tasks s)) + {#t'#}"
proof -
  have "mset tasks - {#t#} = filter_mset (\<lambda>x. tk_id x \<noteq> tk_id t) (mset tasks)"
    using keyed_remove [of tk_id tasks t] assms(1,2) by (metis add_mset_remove_trivial keyed_def)
  then have "filter_mset (\<lambda>x. tk_status x = s) (mset tasks') =
      filter_mset (\<lambda>x. tk_status x = s) (filter_mset (\<lambda>x. tk_id x \<noteq> tk_id t) (mset tasks)) + {#t'#}"
    using assms(4,5) by simp
  then show ?thesis by (simp add: tasksByColumn_def filter_filter_mset conj_commute)
qed

lemma card_lands_near:
  assumes col: "mset (tasksByColumn tasks' s) = mset O' + {#t'#}" and dense: "map tk_position O' = map int [0..<length O']"
    and pos: "tk_position t' = int k" and k: "k \<le> length O'"
  shows "\<exists>i. (i = k \<or> i = Suc k) \<and> i < length (tasksByColumn tasks' s) \<and> tasksByColumn tasks' s ! i = t'"
proof -
  let ?c = "tasksByColumn tasks' s"
  have "t' \<in> set ?c" using col by (metis set_mset_mset union_iff multi_member_this add_mset_add_single)
  then obtain i where i: "i < length ?c" "?c ! i = t'" by (auto simp: in_set_conv_nth)
  have srt: "sorted (map tk_position ?c)" by (simp add: tasksByColumn_def)
  have count: "length (filter P ?c) = length (filter P O') + (if P t' then 1 else 0)" for P
  proof -
    have "size (filter_mset P (mset ?c)) = size (filter_mset P (mset O' + {#t'#}))" using col by simp
    then show ?thesis by (simp add: mset_filter [symmetric] del: mset_filter split: if_splits)
  qed
  have below: "length (filter (\<lambda>x. tk_position x < int m) O') = min m (length O')" for m
  proof -
    have "length (filter (\<lambda>x. tk_position x < int m) O') = length (filter (\<lambda>x. x < int m) (map tk_position O'))"
      by (simp add: filter_map comp_def)
    then show ?thesis by (simp only: dense card_index_below)
  qed
  have "k \<le> i" using sorted_index_bounds(1) [OF srt i(1)] k by (simp add: i(2) pos count below)
  moreover have "i \<le> Suc k"
  proof -
    have upto: "(\<lambda>y. tk_position y \<le> int k) = (\<lambda>y. tk_position y < int (Suc k))" by auto
    have "length (filter (\<lambda>y. tk_position y \<le> int k) O') \<le> Suc k"
      unfolding upto below by simp
    then show ?thesis using sorted_index_bounds(2) [OF srt i(1)] by (simp add: i(2) pos count)
  qed
  ultimately show ?thesis using i by (intro exI [of _ i]) auto
qed

lemma findIndex_less: "findIndex P xs = Some i \<Longrightarrow> i < length xs"
  by (auto simp: findIndex_def Let_def split: if_splits)

lemma target_index_le:
  "target_index tasks over s t \<le> length (filter (\<lambda>x. tk_id x \<noteq> tk_id t) (tasksByColumn tasks s))"
proof -
  have "nullish (findIndex P xs) (length xs) \<le> length xs" for P :: "Task \<Rightarrow> bool" and xs
    by (cases "findIndex P xs") (auto dest: findIndex_less)
  then show ?thesis by (simp add: target_index_def Let_def split: option.split)
qed

lemma handleDragEnd_index:
  assumes "handleDragEnd tasks active over = Some (tid, dto)" and "distinct (map tk_id tasks)"
    and "t \<in> set tasks" and "tk_id t = active"
  shows "tid = active \<and> (\<exists>k \<le> length (filter (\<lambda>x. tk_id x \<noteq> active) (tasksByColumn tasks (mv_status dto))).
    mv_position dto = int k)"
proof -
  have "find (\<lambda>x. tk_id x = active) tasks = Some t"
    using assms(2-4) by (auto simp: find_Some_iff in_set_conv_nth distinct_conv_nth)
  then show ?thesis using assms(1,4) target_index_le [of tasks _ _ t]
    by (auto simp: handleDragEnd_def Let_def split: option.splits if_splits)
qed

lemma fetched_distinct:
  assumes "projects_repos R" and "keyed tk_id (pj_tasks st)" and "getTasks R p org st = Inr tasks"
  shows "distinct (map tk_id tasks)"
proof -
  let ?P = "\<lambda>x. tk_projectId x = p \<and> tk_organizationId x = org"
  have RT: "repository (pm_tasks R) tk_id" using assms(1) by (simp add: projects_repos_def)
  have "tasks = project_tasks R p org st" using assms(3) by (auto simp: getTasks_def split: sum.splits)
  then have "mset tasks = mset (filter ?P (pj_tasks st))"
    by (simp add: project_tasks_def repository.find_mset [OF RT])
  then have "mset (map tk_id tasks) = mset (map tk_id (filter ?P (pj_tasks st)))" by simp
  then show ?thesis using assms(2) by (metis distinct_map_filter keyed_def mset_eq_imp_distinct_iff)
qed

text \<open>
  C32. A drop on the board, sent through the hook and the routes, moves exactly the dragged task: when the
  tasks are fetched again every other task is as it was, and the dragged one has the status of the
  column it was dropped on and the index of the drop as its position. While the other cards of that column
  have the positions 0, 1, 2, \<open>\<dots>\<close>, it is shown at that index or one below it.
\<close>

theorem drag_moves_one_task:
  assumes R: "projects_repos R" and K: "keyed tk_id (pj_tasks st)" and p: "uuid_pipe uuid" "uuid projectId" "uuid active"
    and g: "getTasks R projectId (u_organizationId U) st = Inr tasks"
    and d: "handleDragEnd tasks active over = Some (tid, dto)"
  shows "\<exists>t \<in> set tasks. \<exists>t' st' tasks'. tk_id t = active \<and> tk_id t' = active \<and>
    dispatch uuid (projects_routes R D C) U (hd (mh_requests (useMoveTask projectId tid dto))) st = (Inr (PTask t'), st') \<and>
    getTasks R projectId (u_organizationId U) st' = Inr tasks' \<and> mset tasks' = mset tasks - {#t#} + {#t'#} \<and>
    tk_status t' = mv_status dto \<and> tk_position t' = mv_position dto \<and>
    (let others = filter (\<lambda>x. tk_id x \<noteq> active) (tasksByColumn tasks (mv_status dto));
         column = tasksByColumn tasks' (mv_status dto)
     in map tk_position others = map int [0..<length others] \<longrightarrow>
       (\<exists>i. int i \<in> {mv_position dto, mv_position dto + 1} \<and> i < length column \<and> column ! i = t'))"
proof -
  obtain t where t: "t \<in> set tasks" "tk_id t = active" "tid = active" using handleDragEnd_SomeD [OF d] by blast
  have dist: "distinct (map tk_id tasks)" by (rule fetched_distinct [OF R K g])
  obtain k where k: "mv_position dto = int k"
      "k \<le> length (filter (\<lambda>x. tk_id x \<noteq> active) (tasksByColumn tasks (mv_status dto)))"
    using handleDragEnd_index [OF d dist t(1,2)] by blast
  let ?r = "hd (mh_requests (useMoveTask projectId tid dto))"
  have sent: "dispatch uuid (projects_routes R D C) U ?r st =
      map_result PTask (moveTask R (tn_now C) projectId (tk_id t) (u_organizationId U) dto st)"
    using pj_mutation_served [of "MMoveTask projectId active dto" uuid U R D C st] p t(2,3)
    by (simp add: uuid_pipe_def)
  obtain res st' where m: "moveTask R (tn_now C) projectId (tk_id t) (u_organizationId U) dto st = (res, st')"
    by fastforce
  define t' where "t' = touched (\<lambda>x. x\<lparr>tk_updatedAt := tn_now C\<rparr>) t
      (t\<lparr>tk_status := mv_status dto, tk_position := mv_position dto\<rparr>)"
  have f: "tk_id t' = active" "tk_status t' = mv_status dto" "tk_position t' = mv_position dto"
    using t(2) by (auto simp: t'_def touched_def 
        dest: arg_cong [of _ _ tk_status] arg_cong [of _ _ tk_position])
  obtain tasks' where served: "res = Inr t'" "getTasks R projectId (u_organizationId U) st' = Inr tasks'"
      "mset tasks' = mset tasks - {#t#} + {#t'#}"
    using move_served [OF R K g t(1) m] unfolding t'_def by blast
  let ?others = "filter (\<lambda>x. tk_id x \<noteq> active) (tasksByColumn tasks (mv_status dto))"
  let ?column = "tasksByColumn tasks' (mv_status dto)"
  have lands: "\<exists>i. int i \<in> {mv_position dto, mv_position dto + 1} \<and> i < length ?column \<and> ?column ! i = t'"
    if dense: "map tk_position ?others = map int [0..<length ?others]"
  proof -
    have after: "mset ?column = mset ?others + {#t'#}"
      using column_after [OF dist t(1) _ f(2) served(3)] f(1) t(2) by simp
    then obtain i where "i = k \<or> i = Suc k" "i < length ?column" "?column ! i = t'"
      using card_lands_near [OF after dense, of k] f(3) k by auto
    then show ?thesis using k(1) by (intro exI [of _ i]) auto
  qed
  have answer: "dispatch uuid (projects_routes R D C) U ?r st = (Inr (PTask t'), st')"
    using sent m served(1) by (simp add: map_result_def)
  show ?thesis unfolding Let_def
    using t(1,2) f answer served(2,3) lands by blast
qed

definition board_task :: "string \<Rightarrow> js_time \<Rightarrow> Task" where
  "board_task i created = \<lparr>tk_id = i, tk_projectId = ''p1'', tk_organizationId = ''o1'', tk_assigneeId = None,
     tk_title = i, tk_description = None, tk_status = ''todo'', tk_priority = ''medium'',
     tk_estimatedHours = None, tk_dueDate = None, tk_position = 0, tk_createdBy = None,
     tk_createdAt = created, tk_updatedAt = created\<rparr>"

definition board_project :: Project where
  "board_project = \<lparr>pr_id = ''p1'', pr_organizationId = ''o1'', pr_name = ''P'', pr_description = None,
     pr_status = ''active'', pr_deadline = None, pr_color = ''blue'', pr_createdBy = ''u1'',
     pr_createdAt = 0, pr_updatedAt = 0\<rparr>"

definition fresh_board :: ProjectsService where
  "fresh_board = \<lparr>pj_projects = [board_project], pj_tasks = [board_task ''t1'' 1, board_task ''t2'' 2],
     pj_milestones = [], pj_comments = []\<rparr>"

lemma fresh_tasks: "getTasks list_projects ''p1'' ''o1'' fresh_board = Inr [board_task ''t1'' 1, board_task ''t2'' 2]"
  by (simp add: getTasks_def findProjectInOrg_def project_in_org_def project_tasks_def list_projects_def fresh_board_def
      board_task_def board_project_def asc_def)

lemma fresh_drop: "handleDragEnd [board_task ''t1'' 1, board_task ''t2'' 2] ''t1'' (Some ''in_progress'') =
    Some (''t1'', \<lparr>mv_status = ''in_progress'', mv_position = 0\<rparr>)"
  by (simp add: handleDragEnd_def target_status_def target_index_def tasksByColumn_def COLUMNS_def board_task_def)

theorem drag_moves_one_task_witness:
  "let U = project_user EMPLOYEE; uuid = (\<lambda>s. s = ''p1'' \<or> s = ''t1'') in
    \<exists>t' st'. dispatch uuid (projects_routes list_projects (\<lambda>_. None) \<lparr>tn_now = 9, tn_id = ''x''\<rparr>) U
      (hd (mh_requests (useMoveTask ''p1'' ''t1'' \<lparr>mv_status = ''in_progress'', mv_position = 0\<rparr>))) fresh_board =
      (Inr (PTask t'), st') \<and> tk_id t' = ''t1'' \<and> tk_status t' = ''in_progress''"
proof -
  have org: "u_organizationId (project_user EMPLOYEE) = ''o1''" by (simp add: project_user_def new_user_def)
  have keys: "keyed tk_id (pj_tasks fresh_board)" by (simp add: keyed_def fresh_board_def board_task_def)
  show ?thesis
    using drag_moves_one_task [OF list_projects_repos keys _ _ _ _ fresh_drop,
        of "\<lambda>s. s = ''p1'' \<or> s = ''t1''" "''p1''" "project_user EMPLOYEE" "\<lambda>_. None" "\<lparr>tn_now = 9, tn_id = ''x''\<rparr>"]
      fresh_tasks org by (auto simp: uuid_pipe_def Let_def)
qed

section \<open>Boards whose positions are not the indices\<close>

text \<open>
  Every task is created with position 0, and a move gives its position to the dragged card only. On
  such a board a drop on the first other card of the own column asks for nothing; a drop at any other
  index, of a column whose cards all have position 0, puts the card last.
\<close>

lemma drop_on_first_ignored:
  assumes "find (\<lambda>x. tk_id x = active) tasks = Some t" and "tk_position t = 0" and "tk_id o1 \<notin> set COLUMNS"
    and "find (\<lambda>x. tk_id x = tk_id o1) tasks = Some o1" and "tk_status o1 = tk_status t"
    and "filter (\<lambda>x. tk_id x \<noteq> tk_id t) (tasksByColumn tasks (tk_status t)) = o1 # rest"
  shows "handleDragEnd tasks active (Some (tk_id o1)) = None"
proof -
  have "find (\<lambda>c. c = tk_id o1) COLUMNS = None" using assms(3) by (auto simp: find_None_iff)
  then show ?thesis using assms
    by (simp add: handleDragEnd_def target_status_def target_index_def findIndex_def Let_def)
qed

lemma drop_lands_last:
  assumes col: "mset (tasksByColumn tasks' s) = mset O' + {#t'#}" and zero: "\<forall>x \<in> set O'. tk_position x = 0"
    and pos: "0 < tk_position t'"
  shows "last (tasksByColumn tasks' s) = t'"
proof -
  let ?c = "tasksByColumn tasks' s"
  have mem: "set ?c = insert t' (set O')" using col by (metis set_mset_mset set_mset_add_mset_insert add_mset_add_single)
  then obtain i where i: "i < length ?c" "?c ! i = t'" by (metis in_set_conv_nth insertI1)
  have ne: "?c \<noteq> []" using i by auto
  have "sorted (map tk_position ?c)" by (simp add: tasksByColumn_def)
  then have "tk_position t' \<le> tk_position (last ?c)"
    using i ne sorted_nth_mono [of "map tk_position ?c" i "length ?c - 1"] by (simp add: last_conv_nth)
  then show ?thesis using last_in_set [OF ne] mem zero pos by auto
qed

end
