(* ===== verification/AdminWeb.thy ===== *)
theory AdminWeb
  imports Admin HttpRoutes
begin

text \<open>
  The administrator's page from the browser to the service: the routes of AdminController, which
  write the audit trail, and the hooks of hooks/use-admin.ts with the values they read out of the
  answer. A handler answers with a JSON value that the response envelope wraps, or, with \<open>res.send\<close>,
  with a text. The bodies and queries are those the ValidationPipe accepts.
\<close>

section \<open>AdminController\<close>

record AdminController =
  ac_admin :: AdminService
  ac_logs :: "AuditLog list"

record admin_web =
  aw_orms :: admin_orms
  aw_logs :: "AuditLog orm"
  aw_parse :: "string \<Rightarrow> js_time option"

datatype admin_reply = Wrapped json | SentText string

type_synonym ad_route = "(UserRole, AdminController, admin_reply) route"

definition opt_str :: "string option \<Rightarrow> json" where
  "opt_str s = (case s of None \<Rightarrow> JNull | Some x \<Rightarrow> JStr x)"

definition stats_json :: "OrgStats \<Rightarrow> json" where
  "stats_json s = JObj [(''totalUsers'', JNum (int (os_totalUsers s))), (''activeUsers'', JNum (int (os_activeUsers s))),
     (''totalProjects'', JNum (int (os_totalProjects s))), (''totalTasks'', JNum (int (os_totalTasks s))),
     (''completedTasks'', JNum (int (os_completedTasks s))),
     (''subscriptionStatus'', opt_str (os_subscriptionStatus s)),
     (''subscriptionPlan'', opt_str (os_subscriptionPlan s)),
     (''seatsUsed'', JNum (int (os_seatsUsed s))), (''seatsTotal'', JNum (os_seatsTotal s))]"

definition admin_user_json ::
  "string \<times> string \<times> string \<times> string \<times> UserRole \<times> bool \<times> js_time \<Rightarrow> json" where
  "admin_user_json x = (case x of (i, firstName, lastName, email, role, isActive, createdAt) \<Rightarrow>
     JObj [(''id'', JStr i), (''firstName'', JStr firstName), (''lastName'', JStr lastName), (''email'', JStr email),
       (''role'', JStr (role_str role)), (''isActive'', JBool isActive), (''createdAt'', JStr (toISOString createdAt))])"

definition log_json :: "AuditLog \<Rightarrow> json" where
  "log_json l = JObj [(''id'', JStr (lg_id l)), (''organizationId'', JStr (lg_organizationId l)),
     (''actorId'', opt_str (lg_actorId l)), (''actorEmail'', JStr (lg_actorEmail l)), (''action'', JStr (lg_action l)),
     (''resourceType'', JStr (lg_resourceType l)), (''resourceId'', opt_str (lg_resourceId l)),
     (''metadata'', nullish (lg_metadata l) JNull), (''ipAddress'', opt_str (lg_ipAddress l)),
     (''createdAt'', JStr (toISOString (lg_createdAt l)))]"

definition ctl_getStats :: "admin_web \<Rightarrow> ad_route" where
  "ctl_getStats W = \<lparr>ro_method = GET, ro_path = ''/admin/stats'', ro_roles = admins, ro_uuids = [],
     ro_handler = (\<lambda>user ps r st. (Inr (Wrapped (JObj [(''data'',
       stats_json (getOrgStats (aw_orms W) (u_organizationId user) (ac_admin st)))])), st))\<rparr>"

text \<open>A number of the query string: \<open>@Type(() => Number)\<close>, already validated; limit is 50 and offset 0 by default.\<close>

definition audit_filters :: "admin_web \<Rightarrow> (string \<Rightarrow> nat) \<Rightarrow> UserRole request \<Rightarrow> GetLogsFilters" where
  "audit_filters W number r = \<lparr>lf_actorId = query_param ''actorId'' r, lf_action = query_param ''action'' r,
     lf_from = (case query_param ''from'' r of None \<Rightarrow> None | Some s \<Rightarrow> aw_parse W s),
     lf_to = (case query_param ''to'' r of None \<Rightarrow> None | Some s \<Rightarrow> aw_parse W s),
     lf_limit = Some (case query_param ''limit'' r of None \<Rightarrow> 50 | Some s \<Rightarrow> number s),
     lf_offset = Some (case query_param ''offset'' r of None \<Rightarrow> 0 | Some s \<Rightarrow> number s)\<rparr>"

definition ctl_getAuditLog :: "admin_web \<Rightarrow> (string \<Rightarrow> nat) \<Rightarrow> ad_route" where
  "ctl_getAuditLog W number = \<lparr>ro_method = GET, ro_path = ''/admin/audit-log'', ro_roles = admins, ro_uuids = [],
     ro_handler = (\<lambda>user ps r st.
       (case getLogs (aw_logs W) (u_organizationId user) (audit_filters W number r) (ac_logs st) of
          (logs, totalCount) \<Rightarrow> (Inr (Wrapped (JObj [(''data'', JArr (map log_json logs)),
            (''total'', JNum (int totalCount))])), st)))\<rparr>"

definition ctl_exportUsers :: "admin_web \<Rightarrow> ad_route" where
  "ctl_exportUsers W = \<lparr>ro_method = GET, ro_path = ''/admin/export/users'', ro_roles = admins, ro_uuids = [],
     ro_handler = (\<lambda>user ps r st.
       (Inr (SentText (exportUsersCSV (aw_orms W) (u_organizationId user) (ac_admin st))), st))\<rparr>"

definition ctl_exportTimesheets :: "admin_web \<Rightarrow> ad_route" where
  "ctl_exportTimesheets W = \<lparr>ro_method = GET, ro_path = ''/admin/export/timesheets'', ro_roles = admins,
     ro_uuids = [], ro_handler = (\<lambda>user ps r st.
       (case (aw_parse W (nullish (query_param ''from'' r) []), aw_parse W (nullish (query_param ''to'' r) [])) of
          (Some from, Some to) \<Rightarrow>
            if from > to then (Inl (BadRequest ''from must be before to''), st)
            else (Inr (SentText (exportTimesheetCSV (aw_orms W) (u_organizationId user) from to (ac_admin st))), st)
        | _ \<Rightarrow> (Inl (BadRequest ''Invalid date range''), st)))\<rparr>"

definition ctl_listUsers :: "admin_web \<Rightarrow> ad_route" where
  "ctl_listUsers W = \<lparr>ro_method = GET, ro_path = ''/admin/users'', ro_roles = admins, ro_uuids = [],
     ro_handler = (\<lambda>user ps r st. (Inr (Wrapped (JObj [(''data'', JArr (map admin_user_json
       (admin_listUsers (aw_orms W) (u_organizationId user) (ac_admin st))))])), st))\<rparr>"

text \<open>The three actions on a member write the audit row after the service call, when that does not throw.\<close>

definition admin_audit ::
  "admin_web \<Rightarrow> api_call \<Rightarrow> User \<Rightarrow> string \<Rightarrow> string \<Rightarrow> json option \<Rightarrow> AuditLog list \<Rightarrow> AuditLog list" where
  "admin_audit W C actor action userId metadata logs = audit_log (aw_logs W) (tn_id C) (tn_now C)
     (u_organizationId actor) \<lparr>aa_id = Some (u_id actor), aa_email = u_email actor\<rparr> action ''user'' (Some userId)
     metadata None logs"

definition then_audit ::
  "admin_web \<Rightarrow> api_call \<Rightarrow> User \<Rightarrow> string \<Rightarrow> string \<Rightarrow> json option \<Rightarrow> unit outcome \<times> AdminService \<Rightarrow>
   AdminController \<Rightarrow> admin_reply outcome \<times> AdminController" where
  "then_audit W C actor action userId metadata done st = (case done of
     (Inl e, s) \<Rightarrow> (Inl e, st\<lparr>ac_admin := s\<rparr>)
   | (Inr _, s) \<Rightarrow> (Inr (Wrapped (JObj [(''data'', JObj [(''success'', JBool True)])])),
       st\<lparr>ac_admin := s, ac_logs := admin_audit W C actor action userId metadata (ac_logs st)\<rparr>))"

definition ctl_deactivateUser :: "admin_web \<Rightarrow> api_call \<Rightarrow> ad_route" where
  "ctl_deactivateUser W C = \<lparr>ro_method = PATCH, ro_path = ''/admin/users/:id/deactivate'', ro_roles = admins,
     ro_uuids = [''id''], ro_handler = (\<lambda>actor ps r st.
       then_audit W C actor ''user.deactivated'' (param ''id'' ps) None
         (admin_deactivateUser (aw_orms W) (tn_now C) (u_organizationId actor) (param ''id'' ps) (u_id actor)
            (ac_admin st)) st)\<rparr>"

definition ctl_reactivateUser :: "admin_web \<Rightarrow> api_call \<Rightarrow> ad_route" where
  "ctl_reactivateUser W C = \<lparr>ro_method = PATCH, ro_path = ''/admin/users/:id/reactivate'', ro_roles = admins,
     ro_uuids = [''id''], ro_handler = (\<lambda>actor ps r st.
       then_audit W C actor ''user.reactivated'' (param ''id'' ps) None
         (admin_reactivateUser (aw_orms W) (tn_now C) (u_organizationId actor) (param ''id'' ps) (ac_admin st)) st)\<rparr>"

definition ctl_updateUserRole :: "admin_web \<Rightarrow> api_call \<Rightarrow> ad_route" where
  "ctl_updateUserRole W C = \<lparr>ro_method = PATCH, ro_path = ''/admin/users/:id/role'', ro_roles = admins,
     ro_uuids = [''id''], ro_handler = (\<lambda>actor ps r st. case rq_body r of
       Some role \<Rightarrow> then_audit W C actor ''user.role_changed'' (param ''id'' ps)
         (Some (JObj [(''newRole'', JStr (role_str role))]))
         (admin_updateUserRole (aw_orms W) (tn_now C) (u_organizationId actor) (param ''id'' ps) role (ac_admin st)) st
     | None \<Rightarrow> (Inl missing_body, st))\<rparr>"

definition admin_routes :: "admin_web \<Rightarrow> (string \<Rightarrow> nat) \<Rightarrow> api_call \<Rightarrow> ad_route list" where
  "admin_routes W number C = [ctl_getStats W, ctl_getAuditLog W number, ctl_exportUsers W, ctl_exportTimesheets W,
     ctl_listUsers W, ctl_deactivateUser W C, ctl_reactivateUser W C, ctl_updateUserRole W C]"

section \<open>The hooks\<close>

definition useOrgStats :: "UserRole query_hook" where
  "useOrgStats = a_query [Key ''admin-stats''] ''/admin/stats'' []"

definition useAdminUsers :: "UserRole query_hook" where
  "useAdminUsers = a_query [Key ''admin-users''] ''/admin/users'' []"

definition useChangeUserRole :: "string \<Rightarrow> UserRole \<Rightarrow> UserRole mutation_hook" where
  "useChangeUserRole userId role = a_mutation PATCH (''/admin/users/'' @ userId @ ''/role'') (Some role)
     [[Key ''admin-users'']] (Some ''Role updated'') (Some ''Failed to update role'')"

definition useDeactivateUser :: "string \<Rightarrow> UserRole mutation_hook" where
  "useDeactivateUser userId = a_mutation PATCH (''/admin/users/'' @ userId @ ''/deactivate'') None
     [[Key ''admin-users'']] (Some ''User deactivated'') (Some ''Failed to deactivate user'')"

definition useReactivateUser :: "string \<Rightarrow> UserRole mutation_hook" where
  "useReactivateUser userId = a_mutation PATCH (''/admin/users/'' @ userId @ ''/reactivate'') None
     [[Key ''admin-users'']] (Some ''User reactivated'') (Some ''Failed to reactivate user'')"

definition useAuditLog :: "(string \<times> string option) list \<Rightarrow> UserRole query_hook" where
  "useAuditLog params = a_query [Key ''audit-log'', KeyParams params] ''/admin/audit-log'' params"

section \<open>What the page reads\<close>

text \<open>The value of a query hook: the client reads \<open>data\<close> out of the enveloped answer.\<close>

definition hook_value ::
  "(string \<Rightarrow> bool) \<Rightarrow> ad_route list \<Rightarrow> User \<Rightarrow> js_time \<Rightarrow> UserRole query_hook \<Rightarrow> AdminController \<Rightarrow> json option" where
  "hook_value uuid routes user now h st = (case dispatch uuid routes user (qh_request h) st of
     (Inr (Wrapped j), st') \<Rightarrow> json_member ''data'' (transform_intercept now (Some j))
   | _ \<Rightarrow> None)"

lemmas ad_route_defs = ctl_getStats_def ctl_getAuditLog_def ctl_exportUsers_def ctl_exportTimesheets_def
  ctl_listUsers_def ctl_deactivateUser_def ctl_reactivateUser_def ctl_updateUserRole_def

lemmas ad_hook_defs = useOrgStats_def useAdminUsers_def useChangeUserRole_def useDeactivateUser_def
  useReactivateUser_def useAuditLog_def

lemma ad_route_keys [simp]:
  "route_key (ctl_getStats W) = (GET, [[], ''admin'', ''stats''])"
  "route_key (ctl_getAuditLog W n) = (GET, [[], ''admin'', ''audit-log''])"
  "route_key (ctl_exportUsers W) = (GET, [[], ''admin'', ''export'', ''users''])"
  "route_key (ctl_exportTimesheets W) = (GET, [[], ''admin'', ''export'', ''timesheets''])"
  "route_key (ctl_listUsers W) = (GET, [[], ''admin'', ''users''])"
  "route_key (ctl_deactivateUser W C) = (PATCH, [[], ''admin'', ''users'', '':id'', ''deactivate''])"
  "route_key (ctl_reactivateUser W C) = (PATCH, [[], ''admin'', ''users'', '':id'', ''reactivate''])"
  "route_key (ctl_updateUserRole W C) = (PATCH, [[], ''admin'', ''users'', '':id'', ''role''])"
  by (simp_all add: route_key_def ad_route_defs)

lemma ad_query_served:
  assumes "u_role U = ADMIN"
  shows "dispatch uuid (admin_routes W n C) U (qh_request useOrgStats) st = ro_handler (ctl_getStats W) U [] (qh_request useOrgStats) st"
    and "dispatch uuid (admin_routes W n C) U (qh_request useAdminUsers) st =
      ro_handler (ctl_listUsers W) U [] (qh_request useAdminUsers) st"
    and "dispatch uuid (admin_routes W n C) U (qh_request (useAuditLog ps)) st =
      ro_handler (ctl_getAuditLog W n) U [] (qh_request (useAuditLog ps)) st"
  using assms
  by (simp_all add: admin_routes_def route_match_def request_key_def ad_hook_defs)
    (simp_all add: serve_def roles_canActivate_def ad_route_defs split: prod.split)

text \<open>
  The administrator's page never shows what the service answers: the handlers wrap their value
  in an object with the member \<open>data\<close>, the envelope wraps it again, and the hooks unwrap once. None
  of the four numbers of the overview is there, the user list is no list, and there are no logs.
\<close>

theorem admin_page_blank:
  assumes "u_role U = ADMIN"
  shows "let v = \<lambda>h. hook_value uuid (admin_routes W n C) U now h st in
    (\<exists>x. v useOrgStats = Some x \<and>
      (\<forall>f \<in> {''totalUsers'', ''adminCount'', ''activeToday'', ''hoursThisWeek''}. json_member f x = None)) \<and>
    (\<exists>x. v useAdminUsers = Some x \<and> (\<forall>xs. x \<noteq> JArr xs)) \<and>
    (\<exists>x. v (useAuditLog ps) = Some x \<and> json_member ''logs'' x = None)"
  unfolding Let_def hook_value_def ad_query_served [OF assms(1)]
  by (simp add: ad_route_defs split: prod.split)

definition admin_user :: User where
  "admin_user = new_user 0 ''u1'' ''o1'' ''a@x'' ''h'' ''A'' [] ADMIN None"

definition admin_lists :: admin_web where
  "admin_lists = \<lparr>aw_orms = \<lparr>do_users = typeorm_list u_id, do_projects = typeorm_list pr_id,
     do_tasks = typeorm_list tk_id, do_timesheets = typeorm_list ts_id, do_subs = typeorm_list sub_id\<rparr>,
     aw_logs = typeorm_list lg_id, aw_parse = (\<lambda>_. None)\<rparr>"

definition one_admin :: AdminController where
  "one_admin = \<lparr>ac_admin = \<lparr>dm_users = [admin_user], dm_projects = [], dm_tasks = [], dm_timesheets = [], dm_subs = []\<rparr>,
     ac_logs = []\<rparr>"

theorem admin_page_blank_witness:
  "\<exists>x. hook_value (\<lambda>s. True) (admin_routes admin_lists (\<lambda>s. 0) \<lparr>tn_now = 1, tn_id = ''l''\<rparr>) admin_user 5 useOrgStats
      one_admin = Some x \<and> json_member ''totalUsers'' x = None"
proof -
  have "u_role admin_user = ADMIN" by (simp add: admin_user_def new_user_def)
  from admin_page_blank [OF this, of "\<lambda>s. True" admin_lists "\<lambda>s. 0" "\<lparr>tn_now = 1, tn_id = ''l''\<rparr>" 5 one_admin]
  show ?thesis by (auto simp: Let_def)
qed

section \<open>The audit trail\<close>

datatype AdminMutation = ADeactivate string | AReactivate string | AChangeRole string UserRole

fun ad_hook :: "AdminMutation \<Rightarrow> UserRole mutation_hook" where
  "ad_hook (ADeactivate i) = useDeactivateUser i"
| "ad_hook (AReactivate i) = useReactivateUser i"
| "ad_hook (AChangeRole i role) = useChangeUserRole i role"

fun ad_target :: "AdminMutation \<Rightarrow> string" where
  "ad_target (ADeactivate i) = i"
| "ad_target (AReactivate i) = i"
| "ad_target (AChangeRole i role) = i"

fun ad_action :: "AdminMutation \<Rightarrow> string \<times> json option" where
  "ad_action (ADeactivate i) = (''user.deactivated'', None)"
| "ad_action (AReactivate i) = (''user.reactivated'', None)"
| "ad_action (AChangeRole i role) = (''user.role_changed'', Some (JObj [(''newRole'', JStr (role_str role))]))"

fun ad_effect :: "admin_web \<Rightarrow> api_call \<Rightarrow> User \<Rightarrow> AdminMutation \<Rightarrow> AdminService \<Rightarrow> unit outcome \<times> AdminService" where
  "ad_effect W C U (ADeactivate i) st =
     admin_deactivateUser (aw_orms W) (tn_now C) (u_organizationId U) i (u_id U) st"
| "ad_effect W C U (AReactivate i) st = admin_reactivateUser (aw_orms W) (tn_now C) (u_organizationId U) i st"
| "ad_effect W C U (AChangeRole i role) st =
     admin_updateUserRole (aw_orms W) (tn_now C) (u_organizationId U) i role st"

lemma ad_mutation_served:
  assumes "i = ad_target m" and "i \<noteq> []" and "CHR 0x2F \<notin> set i"
  shows "dispatch uuid (admin_routes W n C) U (hd (mh_requests (ad_hook m))) st =
    (if u_role U \<noteq> ADMIN then (Inl (Forbidden ''Requires one of: admin''), st)
     else if \<not> uuid i then (Inl (BadRequest ''Validation failed (uuid is expected)''), st)
     else then_audit W C U (fst (ad_action m)) i (snd (ad_action m)) (ad_effect W C U m (ac_admin st)) st)"
  using assms
  by (cases m; simp add: admin_routes_def route_match_def request_key_def ad_hook_defs)
    (cases "u_role U"; simp add: serve_def roles_canActivate_def param_def ad_route_defs)+

lemma failed_admin_effect: "ad_effect W C U m s = (Inl e, s') \<Longrightarrow> s' = s"
  by (cases m) (auto simp: admin_deactivateUser_def admin_reactivateUser_def admin_updateUserRole_def
      split: if_splits option.splits)

text \<open>
  The audit trail is complete: each action of an administrator on a member that succeeds adds
  exactly one row, with the actor, the organisation, the action and the member, and leaves every
  older row as it was; an action that is refused or fails adds none and changes nothing at all.
\<close>

theorem admin_actions_audited:
  assumes R: "repository (aw_logs W) lg_id" and new: "tn_id C \<notin> lg_id ` set (ac_logs st)"
    and i: "ad_target m \<noteq> []" "CHR 0x2F \<notin> set (ad_target m)"
    and d: "dispatch uuid (admin_routes W n C) U (hd (mh_requests (ad_hook m))) st = (res, st')"
  shows "case res of
      Inl e \<Rightarrow> st' = st
    | Inr _ \<Rightarrow> u_role U = ADMIN \<and> ac_admin st' = snd (ad_effect W C U m (ac_admin st)) \<and>
        mset (ac_logs st') = mset (ac_logs st) + {#\<lparr>lg_id = tn_id C, lg_organizationId = u_organizationId U,
          lg_actorId = Some (u_id U), lg_actorEmail = u_email U, lg_action = fst (ad_action m), lg_resourceType = ''user'',
          lg_resourceId = Some (ad_target m), lg_metadata = snd (ad_action m), lg_ipAddress = None,
          lg_createdAt = tn_now C\<rparr>#}"
proof -
  let ?done = "ad_effect W C U m (ac_admin st)"
  have fresh: "mset (orm_save (aw_logs W) row (ac_logs st)) = mset (ac_logs st) + {#row#}"
    if "lg_id row = tn_id C" for row
    using repository.save_fresh [OF R, of row "ac_logs st"] that new by simp
  show ?thesis
  proof (cases "fst ?done")
    case (Inl e)
    then have "?done = (Inl e, ac_admin st)" using failed_admin_effect [of W C U m "ac_admin st" e] by (cases ?done) auto
    then show ?thesis using d unfolding ad_mutation_served [OF refl i]
      by (auto simp: then_audit_def split: if_splits)
  next
    case (Inr x)
    then show ?thesis using d unfolding ad_mutation_served [OF refl i]
      by (cases ?done) (auto simp: then_audit_def admin_audit_def audit_log_def fresh split: if_splits)
  qed
qed

theorem admin_actions_audited_witness:
  "\<exists>st'. snd (dispatch (\<lambda>s. True) (admin_routes admin_lists (\<lambda>s. 0) \<lparr>tn_now = 7, tn_id = ''l''\<rparr>) admin_user
      (hd (mh_requests (ad_hook (AReactivate ''u1'')))) one_admin) = st' \<and>
    map lg_action (ac_logs st') = [''user.reactivated''] \<and> map lg_actorEmail (ac_logs st') = [''a@x'']"
proof -
  let ?C = "\<lparr>tn_now = 7, tn_id = ''l''\<rparr>"
  obtain res st' where d: "dispatch (\<lambda>s. True) (admin_routes admin_lists (\<lambda>s. 0) ?C) admin_user
      (hd (mh_requests (ad_hook (AReactivate ''u1'')))) one_admin = (res, st')" by fastforce
  have "u_role admin_user = ADMIN" by (simp add: admin_user_def new_user_def)
  then have "(res, st') = then_audit admin_lists ?C admin_user ''user.reactivated'' ''u1'' None
      (admin_reactivateUser (aw_orms admin_lists) 7 (u_organizationId admin_user) ''u1'' (ac_admin one_admin)) one_admin"
    using d ad_mutation_served [of "''u1''" "AReactivate ''u1''" "\<lambda>s. True" admin_lists "\<lambda>s. 0" ?C admin_user one_admin]
    by (simp del: ad_hook.simps)
  then obtain x where x: "res = Inr x"
    by (simp add: then_audit_def admin_reactivateUser_def admin_find_def admin_user_def new_user_def admin_lists_def
        one_admin_def)
  have "repository (aw_logs admin_lists) lg_id" by (simp add: admin_lists_def list_orm_repository)
  from admin_actions_audited [OF this _ _ _ d] x have "mset (ac_logs st') = {#\<lparr>lg_id = ''l'', lg_organizationId = ''o1'',
      lg_actorId = Some ''u1'', lg_actorEmail = ''a@x'', lg_action = ''user.reactivated'', lg_resourceType = ''user'',
      lg_resourceId = Some ''u1'', lg_metadata = None, lg_ipAddress = None, lg_createdAt = 7\<rparr>#}"
    by (simp add: one_admin_def admin_user_def new_user_def)
  then show ?thesis using d by simp
qed

end
