(* ===== verification/AlertsWeb.thy ===== *)
theory AlertsWeb
  imports Alerts HttpRoutes
begin

text \<open>
  Alerts from the browser to the service: the routes of AlertsController and the hooks of
  hooks/use-alerts.ts. The bodies and queries are those the ValidationPipe accepts; \<open>number\<close> is
  ParseIntPipe on a text it accepts.
\<close>

section \<open>The controller\<close>

datatype al_body =
    CreateRuleBody CreateAlertRuleDto
  | UpdateRuleBody UpdateAlertRuleDto

datatype al_result =
    ARules "AlertRule list"
  | ARule AlertRule
  | AEvents "(AlertEvent \<times> AlertRule option) list"
  | AEvent AlertEvent
  | ACount nat
  | ADone

type_synonym al_route = "(al_body, AlertsService, al_result) route"

definition ctl_alertRules :: "alerts_orms \<Rightarrow> (string \<Rightarrow> nat) \<Rightarrow> api_call \<Rightarrow> al_route" where
  "ctl_alertRules R number C = \<lparr>ro_method = GET, ro_path = ''/alerts/rules'', ro_roles = managers,
     ro_uuids = [], ro_handler = (\<lambda>user ps r st.
       ok_result ARules (getRules R (u_organizationId user) st, st))\<rparr>"

definition ctl_createAlertRule :: "alerts_orms \<Rightarrow> (string \<Rightarrow> nat) \<Rightarrow> api_call \<Rightarrow> al_route" where
  "ctl_createAlertRule R number C = \<lparr>ro_method = POST, ro_path = ''/alerts/rules'', ro_roles = admins,
     ro_uuids = [], ro_handler = (\<lambda>user ps r st. case rq_body r of
       Some (CreateRuleBody dto) \<Rightarrow>
         ok_result ARule (createRule R (tn_now C) (tn_id C) (u_organizationId user) dto st)
     | _ \<Rightarrow> (Inl missing_body, st))\<rparr>"

definition ctl_updateAlertRule :: "alerts_orms \<Rightarrow> (string \<Rightarrow> nat) \<Rightarrow> api_call \<Rightarrow> al_route" where
  "ctl_updateAlertRule R number C = \<lparr>ro_method = PATCH, ro_path = ''/alerts/rules/:id'', ro_roles = admins,
     ro_uuids = [''id''], ro_handler = (\<lambda>user ps r st. case rq_body r of
       Some (UpdateRuleBody dto) \<Rightarrow>
         map_result ARule (updateRule R (tn_now C) (param ''id'' ps) (u_organizationId user) dto st)
     | _ \<Rightarrow> (Inl missing_body, st))\<rparr>"

definition ctl_deleteAlertRule :: "alerts_orms \<Rightarrow> (string \<Rightarrow> nat) \<Rightarrow> api_call \<Rightarrow> al_route" where
  "ctl_deleteAlertRule R number C = \<lparr>ro_method = DELETE, ro_path = ''/alerts/rules/:id'', ro_roles = admins,
     ro_uuids = [''id''], ro_handler = (\<lambda>user ps r st.
       map_result (\<lambda>_. ADone) (deleteRule R (param ''id'' ps) (u_organizationId user) st))\<rparr>"

definition ctl_unreadCount :: "alerts_orms \<Rightarrow> (string \<Rightarrow> nat) \<Rightarrow> api_call \<Rightarrow> al_route" where
  "ctl_unreadCount R number C = \<lparr>ro_method = GET, ro_path = ''/alerts/events/unread-count'', ro_roles = None,
     ro_uuids = [], ro_handler = (\<lambda>user ps r st.
       ok_result ACount (getUnreadCount R (u_organizationId user) (u_id user) st, st))\<rparr>"

definition ctl_listAlertEvents :: "alerts_orms \<Rightarrow> (string \<Rightarrow> nat) \<Rightarrow> api_call \<Rightarrow> al_route" where
  "ctl_listAlertEvents R number C = \<lparr>ro_method = GET, ro_path = ''/alerts/events'', ro_roles = None,
     ro_uuids = [], ro_handler = (\<lambda>user ps r st.
       ok_result AEvents (listEvents R user (query_param ''userId'' r) (case query_param ''limit'' r of None
         \<Rightarrow> 50 | Some s \<Rightarrow> number s) st, st))\<rparr>"

definition ctl_markAlertSeen :: "alerts_orms \<Rightarrow> (string \<Rightarrow> nat) \<Rightarrow> api_call \<Rightarrow> al_route" where
  "ctl_markAlertSeen R number C = \<lparr>ro_method = PATCH, ro_path = ''/alerts/events/:id/seen'', ro_roles = None,
     ro_uuids = [''id''], ro_handler = (\<lambda>user ps r st.
       map_result AEvent (route_markSeen R (tn_now C) user (param ''id'' ps) st))\<rparr>"

definition ctl_acknowledgeEvent :: "alerts_orms \<Rightarrow> (string \<Rightarrow> nat) \<Rightarrow> api_call \<Rightarrow> al_route" where
  "ctl_acknowledgeEvent R number C = \<lparr>ro_method = POST, ro_path = ''/alerts/events/:id/acknowledge'', ro_roles = managers,
     ro_uuids = [''id''], ro_handler = (\<lambda>user ps r st.
       map_result AEvent (markSeen R (tn_now C) (param ''id'' ps) (u_organizationId user) st))\<rparr>"

definition al_routes :: "alerts_orms \<Rightarrow> (string \<Rightarrow> nat) \<Rightarrow> api_call \<Rightarrow> al_route list" where
  "al_routes R number C = [ctl_alertRules R number C, ctl_createAlertRule R number C, ctl_updateAlertRule R number C,
     ctl_deleteAlertRule R number C, ctl_unreadCount R number C, ctl_listAlertEvents R number C,
     ctl_markAlertSeen R number C, ctl_acknowledgeEvent R number C]"

section \<open>The hooks\<close>

definition useAlertRules :: "al_body query_hook" where
  "useAlertRules =
     a_query [Key ''alert-rules''] ''/alerts/rules'' []"

definition useCreateAlertRule :: "CreateAlertRuleDto \<Rightarrow> al_body mutation_hook" where
  "useCreateAlertRule payload = a_mutation POST ''/alerts/rules'' (Some (CreateRuleBody payload))
     [[Key ''alert-rules'']]
     (Some ''Alert rule created'') (Some ''Failed to create alert rule'')"

definition useUpdateAlertRule :: "string \<Rightarrow> UpdateAlertRuleDto \<Rightarrow> al_body mutation_hook" where
  "useUpdateAlertRule i payload = a_mutation PATCH (''/alerts/rules/'' @ i) (Some (UpdateRuleBody payload))
     [[Key ''alert-rules'']]
     (Some ''Alert rule updated'') (Some ''Failed to update alert rule'')"

definition useDeleteAlertRule :: "string \<Rightarrow> al_body mutation_hook" where
  "useDeleteAlertRule i = a_mutation DELETE (''/alerts/rules/'' @ i) None
     [[Key ''alert-rules'']]
     (Some ''Alert rule deleted'') (Some ''Failed to delete alert rule'')"

text \<open>An absent or empty user adds no query string.\<close>

definition useAlertEvents :: "string option \<Rightarrow> al_body query_hook" where
  "useAlertEvents userId =
     (a_query [Key ''alert-events'', KeyParams [(''userId'', userId)]] ''/alerts/events'' [(''userId'', if falsy_str userId then None else userId)])
     \<lparr>qh_refetchInterval := Some 60000\<rparr>"

definition useUnreadCount :: "al_body query_hook" where
  "useUnreadCount =
     (a_query [Key ''alert-unread-count''] ''/alerts/events/unread-count'' [])
     \<lparr>qh_refetchInterval := Some 30000\<rparr>"

definition useMarkSeen :: "string \<Rightarrow> al_body mutation_hook" where
  "useMarkSeen i = a_mutation PATCH (''/alerts/events/'' @ i @ ''/seen'') None
     [[Key ''alert-events''], [Key ''alert-unread-count'']]
     None (Some ''Failed to mark alert as seen'')"

section \<open>Every hook reaches its operation\<close>

lemmas al_route_defs = ctl_alertRules_def ctl_createAlertRule_def ctl_updateAlertRule_def
  ctl_deleteAlertRule_def ctl_unreadCount_def ctl_listAlertEvents_def ctl_markAlertSeen_def
  ctl_acknowledgeEvent_def

lemma al_route_keys [simp]:
  "route_key (ctl_alertRules R number C) = (GET, [[], ''alerts'', ''rules''])"
  "route_key (ctl_createAlertRule R number C) = (POST, [[], ''alerts'', ''rules''])"
  "route_key (ctl_updateAlertRule R number C) = (PATCH, [[], ''alerts'', ''rules'', '':id''])"
  "route_key (ctl_deleteAlertRule R number C) = (DELETE, [[], ''alerts'', ''rules'', '':id''])"
  "route_key (ctl_unreadCount R number C) = (GET, [[], ''alerts'', ''events'', ''unread-count''])"
  "route_key (ctl_listAlertEvents R number C) = (GET, [[], ''alerts'', ''events''])"
  "route_key (ctl_markAlertSeen R number C) = (PATCH, [[], ''alerts'', ''events'', '':id'', ''seen''])"
  "route_key (ctl_acknowledgeEvent R number C) = (POST, [[], ''alerts'', ''events'', '':id'', ''acknowledge''])"
  by (simp_all add: route_key_def al_route_defs)

lemmas al_hook_defs = useAlertRules_def useCreateAlertRule_def useUpdateAlertRule_def useDeleteAlertRule_def
  useAlertEvents_def useUnreadCount_def useMarkSeen_def

datatype ALQuery = QAlertRules | QAlertEvents "string option" | QUnread

datatype ALMutation = MCreateRule CreateAlertRuleDto | MUpdateRule string UpdateAlertRuleDto | MDeleteRule
  string | MMarkSeen string

fun al_query_hook :: "ALQuery \<Rightarrow> al_body query_hook" where
  "al_query_hook QAlertRules = useAlertRules"
| "al_query_hook (QAlertEvents x0) = useAlertEvents x0"
| "al_query_hook QUnread = useUnreadCount"

fun al_mutation_hook :: "ALMutation \<Rightarrow> al_body mutation_hook" where
  "al_mutation_hook (MCreateRule x0) = useCreateAlertRule x0"
| "al_mutation_hook (MUpdateRule x0 x1) = useUpdateAlertRule x0 x1"
| "al_mutation_hook (MDeleteRule x0) = useDeleteAlertRule x0"
| "al_mutation_hook (MMarkSeen x0) = useMarkSeen x0"

fun al_answer :: "alerts_orms \<Rightarrow> (string \<Rightarrow> nat) \<Rightarrow> api_call \<Rightarrow> User \<Rightarrow> ALQuery \<Rightarrow> AlertsService \<Rightarrow> al_result outcome" where
  "al_answer R number C U QAlertRules st = Inr (ARules (getRules R (u_organizationId U) st))"
| "al_answer R number C U (QAlertEvents x0) st = Inr (AEvents (listEvents R U (if falsy_str x0 then None else
     x0) 50 st))"
| "al_answer R number C U QUnread st = Inr (ACount (getUnreadCount R (u_organizationId U) (u_id U) st))"

fun al_effect :: "alerts_orms \<Rightarrow> (string \<Rightarrow> nat) \<Rightarrow> api_call \<Rightarrow> User \<Rightarrow> ALMutation \<Rightarrow> AlertsService \<Rightarrow>
    al_result outcome \<times> AlertsService" where
  "al_effect R number C U (MCreateRule x0) st = ok_result ARule (createRule R (tn_now C) (tn_id C)
     (u_organizationId U) x0 st)"
| "al_effect R number C U (MUpdateRule x0 x1) st = map_result ARule (updateRule R (tn_now C) x0
     (u_organizationId U) x1 st)"
| "al_effect R number C U (MDeleteRule x0) st = map_result (\<lambda>_. ADone) (deleteRule R x0
     (u_organizationId U) st)"
| "al_effect R number C U (MMarkSeen x0) st = map_result AEvent (route_markSeen R (tn_now C) U x0 st)"

text \<open>The ids in the paths, and the roles the routes ask for.\<close>

fun al_query_ids :: "ALQuery \<Rightarrow> string list" where
  "al_query_ids QAlertRules = []"
| "al_query_ids (QAlertEvents x0) = []"
| "al_query_ids QUnread = []"

fun al_mutation_ids :: "ALMutation \<Rightarrow> string list" where
  "al_mutation_ids (MCreateRule x0) = []"
| "al_mutation_ids (MUpdateRule x0 x1) = [x0]"
| "al_mutation_ids (MDeleteRule x0) = [x0]"
| "al_mutation_ids (MMarkSeen x0) = [x0]"

fun al_query_roles :: "ALQuery \<Rightarrow> UserRole set" where
  "al_query_roles QAlertRules = {ADMIN, MANAGER}"
| "al_query_roles (QAlertEvents x0) = UNIV"
| "al_query_roles QUnread = UNIV"

fun al_mutation_roles :: "ALMutation \<Rightarrow> UserRole set" where
  "al_mutation_roles (MCreateRule x0) = {ADMIN}"
| "al_mutation_roles (MUpdateRule x0 x1) = {ADMIN}"
| "al_mutation_roles (MDeleteRule x0) = {ADMIN}"
| "al_mutation_roles (MMarkSeen x0) = UNIV"

lemma al_query_served:
  assumes "\<forall>i \<in> set (al_query_ids q). uuid i \<and> i \<noteq> [] \<and> CHR 0x2F \<notin> set i"
  shows "if u_role U \<in> al_query_roles q
    then dispatch uuid (al_routes R number C) U (qh_request (al_query_hook q)) st = (al_answer R number C U q st, st)
    else \<exists>e. dispatch uuid (al_routes R number C) U (qh_request (al_query_hook q)) st = (Inl (Forbidden e), st)"
  using assms
  by (cases q; simp add: al_routes_def route_match_def request_key_def al_hook_defs)
    (cases "u_role U"; simp add: serve_def roles_canActivate_def param_def query_param_def al_route_defs
      map_result_def ok_result_def split: sum.split)+

lemma al_mutation_served:
  assumes "\<forall>i \<in> set (al_mutation_ids m). uuid i \<and> i \<noteq> [] \<and> CHR 0x2F \<notin> set i"
  shows "if u_role U \<in> al_mutation_roles m
    then dispatch uuid (al_routes R number C) U (hd (mh_requests (al_mutation_hook m))) st = al_effect R number C U m st
    else \<exists>e. dispatch uuid (al_routes R number C) U (hd (mh_requests (al_mutation_hook m))) st = (Inl (Forbidden e), st)"
  using assms
  by (cases m; simp add: al_routes_def route_match_def request_key_def al_hook_defs)
    (cases "u_role U"; simp add: serve_def roles_canActivate_def param_def ok_result_def al_route_defs)+

text \<open>
  The request of each hook is answered by the operation it is meant for, in the organisation of the
  signed-in user, when its ids are uuids and the user has the role; without the role it is refused
  and nothing changes.
\<close>

theorem al_hooks_reach:
  assumes p: "uuid_pipe uuid" and q: "\<forall>i \<in> set (al_query_ids q). uuid i" and m: "\<forall>i \<in> set (al_mutation_ids m). uuid i"
  shows "(let r = qh_request (al_query_hook q) in
      if u_role U \<in> al_query_roles q then dispatch uuid (al_routes R number C) U r st = (al_answer R number C U q st, st)
      else \<exists>e. dispatch uuid (al_routes R number C) U r st = (Inl (Forbidden e), st)) \<and>
    (let r = hd (mh_requests (al_mutation_hook m)) in
      if u_role U \<in> al_mutation_roles m then dispatch uuid (al_routes R number C) U r st = al_effect R number C U m st
      else \<exists>e. dispatch uuid (al_routes R number C) U r st = (Inl (Forbidden e), st))"
  using al_query_served [of q uuid U R number C st] al_mutation_served [of m uuid U R number C st] p q m
  unfolding Let_def uuid_pipe_def by blast

section \<open>The badge\<close>

text \<open>
  The route answers \<open>{ count }\<close>, which the envelope wraps; \<open>useUnreadCount\<close> reads \<open>count\<close> from the body
  itself, not from its \<open>data\<close>.
\<close>

definition unread_answer :: "js_time \<Rightarrow> nat \<Rightarrow> json" where
  "unread_answer now n = transform_intercept now (Some (JObj [(''count'', JNum (int n))]))"

definition useUnreadCount_value :: "json \<Rightarrow> json option" where
  "useUnreadCount_value body = json_member ''count'' body"

lemma badge_never_shows:
  "useUnreadCount_value (unread_answer now n) = None"
  "json_member ''data'' (unread_answer now n) = Some (JObj [(''count'', JNum (int n))])"
  by (simp_all add: useUnreadCount_value_def unread_answer_def)

end
