(* ===== verification/IntegrationsWeb.thy ===== *)
theory IntegrationsWeb
  imports Integrations HttpRoutes
begin

text \<open>
  Integrations from the browser to the service: the routes of IntegrationsController and the hooks
  of hooks/use-integrations.ts. The bodies are those the ValidationPipe accepts.
\<close>

definition webhooks_key :: query_key where
  "webhooks_key = [Key ''integrations'', Key ''webhooks'']"

definition deliveries_key :: "string \<Rightarrow> query_key" where
  "deliveries_key i = [Key ''integrations'', Key ''webhooks'', Key i, Key ''deliveries'']"

definition slack_key :: query_key where
  "slack_key = [Key ''integrations'', Key ''slack'']"

section \<open>The controller\<close>

datatype ig_body =
    CreateWebhookBody CreateEndpointDto
  | UpdateWebhookBody UpdateEndpointDto
  | SlackBody string

datatype ig_result =
    IEndpoints "WebhookEndpoint list"
  | IEndpoint WebhookEndpoint
  | IDeliveries "WebhookDelivery list"
  | ISlack "SlackConfigView option"
  | IDone

type_synonym ig_route = "(ig_body, IntegrationsService, ig_result) route"

definition ctl_listWebhooks :: "integrations_env \<Rightarrow> api_call \<Rightarrow> ig_route" where
  "ctl_listWebhooks E C = \<lparr>ro_method = GET, ro_path = ''/integrations/webhooks'', ro_roles = None,
     ro_uuids = [], ro_handler = (\<lambda>user ps r st.
       ok_result IEndpoints (listEndpoints E (u_organizationId user) st, st))\<rparr>"

definition ctl_createWebhook :: "integrations_env \<Rightarrow> api_call \<Rightarrow> ig_route" where
  "ctl_createWebhook E C = \<lparr>ro_method = POST, ro_path = ''/integrations/webhooks'', ro_roles = admins,
     ro_uuids = [], ro_handler = (\<lambda>user ps r st. case rq_body r of
       Some (CreateWebhookBody dto) \<Rightarrow>
         ok_result IEndpoint (createEndpoint E (tn_now C) (tn_id C) (u_organizationId user) dto st)
     | _ \<Rightarrow> (Inl missing_body, st))\<rparr>"

definition ctl_updateWebhook :: "integrations_env \<Rightarrow> api_call \<Rightarrow> ig_route" where
  "ctl_updateWebhook E C = \<lparr>ro_method = PATCH, ro_path = ''/integrations/webhooks/:id'', ro_roles = admins,
     ro_uuids = [''id''], ro_handler = (\<lambda>user ps r st. case rq_body r of
       Some (UpdateWebhookBody dto) \<Rightarrow>
         map_result IEndpoint (updateEndpoint E (tn_now C) (u_organizationId user) (param ''id'' ps) dto st)
     | _ \<Rightarrow> (Inl missing_body, st))\<rparr>"

definition ctl_deleteWebhook :: "integrations_env \<Rightarrow> api_call \<Rightarrow> ig_route" where
  "ctl_deleteWebhook E C = \<lparr>ro_method = DELETE, ro_path = ''/integrations/webhooks/:id'', ro_roles = admins,
     ro_uuids = [''id''], ro_handler = (\<lambda>user ps r st.
       map_result (\<lambda>_. IDone) (deleteEndpoint E (u_organizationId user) (param ''id'' ps) st))\<rparr>"

definition ctl_testWebhook :: "integrations_env \<Rightarrow> api_call \<Rightarrow> ig_route" where
  "ctl_testWebhook E C = \<lparr>ro_method = POST, ro_path = ''/integrations/webhooks/:id/test'', ro_roles = admins,
     ro_uuids = [''id''], ro_handler = (\<lambda>user ps r st.
       map_result (\<lambda>_. IDone) (testEndpoint E (tn_now C) (tn_id C) (u_organizationId user) (param ''id''
         ps) st))\<rparr>"

definition ctl_webhookDeliveries :: "integrations_env \<Rightarrow> api_call \<Rightarrow> ig_route" where
  "ctl_webhookDeliveries E C = \<lparr>ro_method = GET, ro_path = ''/integrations/webhooks/:id/deliveries'', ro_roles = admins,
     ro_uuids = [''id''], ro_handler = (\<lambda>user ps r st.
       map_result IDeliveries (getDeliveries E (u_organizationId user) (param ''id'' ps) st, st))\<rparr>"

definition ctl_getSlack :: "integrations_env \<Rightarrow> api_call \<Rightarrow> ig_route" where
  "ctl_getSlack E C = \<lparr>ro_method = GET, ro_path = ''/integrations/slack'', ro_roles = None,
     ro_uuids = [], ro_handler = (\<lambda>user ps r st.
       ok_result ISlack (getSlackConfig E (u_organizationId user) st, st))\<rparr>"

definition ctl_saveSlack :: "integrations_env \<Rightarrow> api_call \<Rightarrow> ig_route" where
  "ctl_saveSlack E C = \<lparr>ro_method = POST, ro_path = ''/integrations/slack'', ro_roles = admins,
     ro_uuids = [], ro_handler = (\<lambda>user ps r st. case rq_body r of
       Some (SlackBody url) \<Rightarrow>
         ok_result (\<lambda>v. ISlack (Some v)) (saveSlackConfig E (tn_now C) (tn_id C) (u_organizationId user)
           url st)
     | _ \<Rightarrow> (Inl missing_body, st))\<rparr>"

definition ctl_deleteSlack :: "integrations_env \<Rightarrow> api_call \<Rightarrow> ig_route" where
  "ctl_deleteSlack E C = \<lparr>ro_method = DELETE, ro_path = ''/integrations/slack'', ro_roles = admins,
     ro_uuids = [], ro_handler = (\<lambda>user ps r st.
       map_result (\<lambda>_. IDone) (deleteSlackConfig E (u_organizationId user) st))\<rparr>"

definition ctl_testSlackRoute :: "integrations_env \<Rightarrow> api_call \<Rightarrow> ig_route" where
  "ctl_testSlackRoute E C = \<lparr>ro_method = POST, ro_path = ''/integrations/slack/test'', ro_roles = admins,
     ro_uuids = [], ro_handler = (\<lambda>user ps r st.
       map_result (\<lambda>_. IDone) (testSlack E (tn_now C) (tn_id C) (u_organizationId user) st))\<rparr>"

definition ig_routes :: "integrations_env \<Rightarrow> api_call \<Rightarrow> ig_route list" where
  "ig_routes E C = [ctl_listWebhooks E C, ctl_createWebhook E C, ctl_updateWebhook E C, ctl_deleteWebhook E C,
     ctl_testWebhook E C, ctl_webhookDeliveries E C, ctl_getSlack E C, ctl_saveSlack E C, ctl_deleteSlack E C,
     ctl_testSlackRoute E C]"

section \<open>The hooks\<close>

definition useWebhooks :: "ig_body query_hook" where
  "useWebhooks =
     a_query webhooks_key ''/integrations/webhooks'' []"

definition useCreateWebhook :: "CreateEndpointDto \<Rightarrow> ig_body mutation_hook" where
  "useCreateWebhook payload = a_mutation POST ''/integrations/webhooks'' (Some (CreateWebhookBody payload))
     [webhooks_key]
     (Some ''Webhook endpoint created'') (Some ''Failed to create webhook'')"

definition useUpdateWebhook :: "string \<Rightarrow> UpdateEndpointDto \<Rightarrow> ig_body mutation_hook" where
  "useUpdateWebhook i payload = a_mutation PATCH (''/integrations/webhooks/'' @ i) (Some (UpdateWebhookBody payload))
     [webhooks_key]
     (Some ''Webhook endpoint updated'') (Some ''Failed to update webhook'')"

definition useDeleteWebhook :: "string \<Rightarrow> ig_body mutation_hook" where
  "useDeleteWebhook i = a_mutation DELETE (''/integrations/webhooks/'' @ i) None
     [webhooks_key]
     (Some ''Webhook endpoint deleted'') (Some ''Failed to delete webhook'')"

definition useTestWebhook :: "string \<Rightarrow> ig_body mutation_hook" where
  "useTestWebhook i = a_mutation POST (''/integrations/webhooks/'' @ i @ ''/test'') None
     []
     (Some ''Test ping sent'') (Some ''Failed to send test ping'')"

definition useDeliveries :: "string \<Rightarrow> ig_body query_hook" where
  "useDeliveries endpointId =
     (a_query (deliveries_key endpointId) (''/integrations/webhooks/'' @ endpointId @ ''/deliveries'') [])
     \<lparr>qh_enabled := endpointId \<noteq> []\<rparr>"

definition useSlackConfig :: "ig_body query_hook" where
  "useSlackConfig =
     a_query slack_key ''/integrations/slack'' []"

definition useSaveSlack :: "string \<Rightarrow> ig_body mutation_hook" where
  "useSaveSlack webhookUrl = a_mutation POST ''/integrations/slack'' (Some (SlackBody webhookUrl))
     [slack_key]
     (Some ''Slack integration saved'') (Some ''Failed to save Slack config'')"

definition useDeleteSlack :: "ig_body mutation_hook" where
  "useDeleteSlack = a_mutation DELETE ''/integrations/slack'' None
     [slack_key]
     (Some ''Slack integration removed'') (Some ''Failed to remove Slack integration'')"

definition useTestSlack :: "ig_body mutation_hook" where
  "useTestSlack = a_mutation POST ''/integrations/slack/test'' None
     []
     (Some ''Test message sent to Slack'') (Some ''Failed to send Slack test'')"

definition ALL_WEBHOOK_EVENTS :: "(string \<times> string) list" where
  "ALL_WEBHOOK_EVENTS = [(''clock.in'', ''Clock In''), (''clock.out'', ''Clock Out''),
     (''timesheet.submitted'', ''Timesheet Submitted''), (''timesheet.approved'', ''Timesheet Approved''),
     (''task.status_changed'', ''Task Status Changed'')]"

section \<open>Every hook reaches its operation\<close>

lemmas ig_route_defs = ctl_listWebhooks_def ctl_createWebhook_def ctl_updateWebhook_def ctl_deleteWebhook_def
  ctl_testWebhook_def ctl_webhookDeliveries_def ctl_getSlack_def ctl_saveSlack_def ctl_deleteSlack_def
  ctl_testSlackRoute_def

lemma ig_route_keys [simp]:
  "route_key (ctl_listWebhooks E C) = (GET, [[], ''integrations'', ''webhooks''])"
  "route_key (ctl_createWebhook E C) = (POST, [[], ''integrations'', ''webhooks''])"
  "route_key (ctl_updateWebhook E C) = (PATCH, [[], ''integrations'', ''webhooks'', '':id''])"
  "route_key (ctl_deleteWebhook E C) = (DELETE, [[], ''integrations'', ''webhooks'', '':id''])"
  "route_key (ctl_testWebhook E C) = (POST, [[], ''integrations'', ''webhooks'', '':id'', ''test''])"
  "route_key (ctl_webhookDeliveries E C) = (GET, [[], ''integrations'', ''webhooks'', '':id'', ''deliveries''])"
  "route_key (ctl_getSlack E C) = (GET, [[], ''integrations'', ''slack''])"
  "route_key (ctl_saveSlack E C) = (POST, [[], ''integrations'', ''slack''])"
  "route_key (ctl_deleteSlack E C) = (DELETE, [[], ''integrations'', ''slack''])"
  "route_key (ctl_testSlackRoute E C) = (POST, [[], ''integrations'', ''slack'', ''test''])"
  by (simp_all add: route_key_def ig_route_defs)

lemmas ig_hook_defs = useWebhooks_def useCreateWebhook_def useUpdateWebhook_def useDeleteWebhook_def
  useTestWebhook_def useDeliveries_def useSlackConfig_def useSaveSlack_def useDeleteSlack_def useTestSlack_def

datatype IGQuery = QWebhooks | QDeliveries string | QSlack

datatype IGMutation = MCreateWebhook CreateEndpointDto | MUpdateWebhook string UpdateEndpointDto |
  MDeleteWebhook string | MTestWebhook string | MSaveSlack string | MDeleteSlack | MTestSlack

fun ig_query_hook :: "IGQuery \<Rightarrow> ig_body query_hook" where
  "ig_query_hook QWebhooks = useWebhooks"
| "ig_query_hook (QDeliveries x0) = useDeliveries x0"
| "ig_query_hook QSlack = useSlackConfig"

fun ig_mutation_hook :: "IGMutation \<Rightarrow> ig_body mutation_hook" where
  "ig_mutation_hook (MCreateWebhook x0) = useCreateWebhook x0"
| "ig_mutation_hook (MUpdateWebhook x0 x1) = useUpdateWebhook x0 x1"
| "ig_mutation_hook (MDeleteWebhook x0) = useDeleteWebhook x0"
| "ig_mutation_hook (MTestWebhook x0) = useTestWebhook x0"
| "ig_mutation_hook (MSaveSlack x0) = useSaveSlack x0"
| "ig_mutation_hook MDeleteSlack = useDeleteSlack"
| "ig_mutation_hook MTestSlack = useTestSlack"

fun ig_answer :: "integrations_env \<Rightarrow> api_call \<Rightarrow> User \<Rightarrow> IGQuery \<Rightarrow> IntegrationsService \<Rightarrow> ig_result outcome" where
  "ig_answer E C U QWebhooks st = Inr (IEndpoints (listEndpoints E (u_organizationId U) st))"
| "ig_answer E C U (QDeliveries x0) st = fst (map_result IDeliveries (getDeliveries E (u_organizationId U) x0
     st, st))"
| "ig_answer E C U QSlack st = Inr (ISlack (getSlackConfig E (u_organizationId U) st))"

fun ig_effect :: "integrations_env \<Rightarrow> api_call \<Rightarrow> User \<Rightarrow> IGMutation \<Rightarrow> IntegrationsService \<Rightarrow>
    ig_result outcome \<times> IntegrationsService" where
  "ig_effect E C U (MCreateWebhook x0) st = ok_result IEndpoint (createEndpoint E (tn_now C) (tn_id C)
     (u_organizationId U) x0 st)"
| "ig_effect E C U (MUpdateWebhook x0 x1) st = map_result IEndpoint (updateEndpoint E (tn_now C)
     (u_organizationId U) x0 x1 st)"
| "ig_effect E C U (MDeleteWebhook x0) st = map_result (\<lambda>_. IDone) (deleteEndpoint E (u_organizationId
     U) x0 st)"
| "ig_effect E C U (MTestWebhook x0) st = map_result (\<lambda>_. IDone) (testEndpoint E (tn_now C) (tn_id C)
     (u_organizationId U) x0 st)"
| "ig_effect E C U (MSaveSlack x0) st = ok_result (\<lambda>v. ISlack (Some v)) (saveSlackConfig E (tn_now C)
     (tn_id C) (u_organizationId U) x0 st)"
| "ig_effect E C U MDeleteSlack st = map_result (\<lambda>_. IDone) (deleteSlackConfig E (u_organizationId U)
     st)"
| "ig_effect E C U MTestSlack st = map_result (\<lambda>_. IDone) (testSlack E (tn_now C) (tn_id C)
     (u_organizationId U) st)"

text \<open>The ids in the paths, and the roles the routes ask for.\<close>

fun ig_query_ids :: "IGQuery \<Rightarrow> string list" where
  "ig_query_ids QWebhooks = []"
| "ig_query_ids (QDeliveries x0) = [x0]"
| "ig_query_ids QSlack = []"

fun ig_mutation_ids :: "IGMutation \<Rightarrow> string list" where
  "ig_mutation_ids (MCreateWebhook x0) = []"
| "ig_mutation_ids (MUpdateWebhook x0 x1) = [x0]"
| "ig_mutation_ids (MDeleteWebhook x0) = [x0]"
| "ig_mutation_ids (MTestWebhook x0) = [x0]"
| "ig_mutation_ids (MSaveSlack x0) = []"
| "ig_mutation_ids MDeleteSlack = []"
| "ig_mutation_ids MTestSlack = []"

fun ig_query_roles :: "IGQuery \<Rightarrow> UserRole set" where
  "ig_query_roles QWebhooks = UNIV"
| "ig_query_roles (QDeliveries x0) = {ADMIN}"
| "ig_query_roles QSlack = UNIV"

fun ig_mutation_roles :: "IGMutation \<Rightarrow> UserRole set" where
  "ig_mutation_roles (MCreateWebhook x0) = {ADMIN}"
| "ig_mutation_roles (MUpdateWebhook x0 x1) = {ADMIN}"
| "ig_mutation_roles (MDeleteWebhook x0) = {ADMIN}"
| "ig_mutation_roles (MTestWebhook x0) = {ADMIN}"
| "ig_mutation_roles (MSaveSlack x0) = {ADMIN}"
| "ig_mutation_roles MDeleteSlack = {ADMIN}"
| "ig_mutation_roles MTestSlack = {ADMIN}"

lemma ig_query_served:
  assumes "\<forall>i \<in> set (ig_query_ids q). uuid i \<and> i \<noteq> [] \<and> CHR 0x2F \<notin> set i"
  shows "if u_role U \<in> ig_query_roles q
    then dispatch uuid (ig_routes E C) U (qh_request (ig_query_hook q)) st = (ig_answer E C U q st, st)
    else \<exists>e. dispatch uuid (ig_routes E C) U (qh_request (ig_query_hook q)) st = (Inl (Forbidden e), st)"
  using assms
  by (cases q; simp add: ig_routes_def route_match_def request_key_def ig_hook_defs)
    (cases "u_role U"; simp add: serve_def roles_canActivate_def param_def query_param_def ig_route_defs
      map_result_def ok_result_def split: sum.split)+

lemma ig_mutation_served:
  assumes "\<forall>i \<in> set (ig_mutation_ids m). uuid i \<and> i \<noteq> [] \<and> CHR 0x2F \<notin> set i"
  shows "if u_role U \<in> ig_mutation_roles m
    then dispatch uuid (ig_routes E C) U (hd (mh_requests (ig_mutation_hook m))) st = ig_effect E C U m st
    else \<exists>e. dispatch uuid (ig_routes E C) U (hd (mh_requests (ig_mutation_hook m))) st = (Inl (Forbidden e), st)"
  using assms
  by (cases m; simp add: ig_routes_def route_match_def request_key_def ig_hook_defs)
    (cases "u_role U"; simp add: serve_def roles_canActivate_def param_def ok_result_def ig_route_defs)+

text \<open>
  The request of each hook is answered by the operation it is meant for, in the organisation of the
  signed-in user, when its ids are uuids and the user has the role; without the role it is refused
  and nothing changes.
\<close>

theorem ig_hooks_reach:
  assumes p: "uuid_pipe uuid" and q: "\<forall>i \<in> set (ig_query_ids q). uuid i" and m: "\<forall>i \<in> set (ig_mutation_ids m). uuid i"
  shows "(let r = qh_request (ig_query_hook q) in
      if u_role U \<in> ig_query_roles q then dispatch uuid (ig_routes E C) U r st = (ig_answer E C U q st, st)
      else \<exists>e. dispatch uuid (ig_routes E C) U r st = (Inl (Forbidden e), st)) \<and>
    (let r = hd (mh_requests (ig_mutation_hook m)) in
      if u_role U \<in> ig_mutation_roles m then dispatch uuid (ig_routes E C) U r st = ig_effect E C U m st
      else \<exists>e. dispatch uuid (ig_routes E C) U r st = (Inl (Forbidden e), st))"
  using ig_query_served [of q uuid U E C st] ig_mutation_served [of m uuid U E C st] p q m
  unfolding Let_def uuid_pipe_def by blast

section \<open>Client and service agree on the events\<close>

lemma webhook_events_agree: "map fst ALL_WEBHOOK_EVENTS = WEBHOOK_EVENTS"
  by (simp add: ALL_WEBHOOK_EVENTS_def WEBHOOK_EVENTS_def)

text \<open>
  A change of an endpoint invalidates the delivery logs along with the list, since their keys
  start with its key; a test ping, which adds a row to the log, invalidates nothing.
\<close>

lemma webhook_keys:
  "key_filter matches \<Longrightarrow> matches webhooks_key (deliveries_key i)"
  "mh_invalidates (useTestWebhook i) = []"
  by (simp_all add: key_filter_def webhooks_key_def deliveries_key_def useTestWebhook_def)

end
