(* ===== verification/GpsWeb.thy ===== *)
theory GpsWeb
  imports Gps HttpRoutes
begin

text \<open>
  GPS from the browser to the service: the routes of GpsController and the hooks of
  hooks/use-gps.ts. The bodies and queries are those the ValidationPipe accepts.
\<close>

section \<open>The controller\<close>

datatype gp_body =
    CreateFenceBody CreateGeofenceDto
  | UpdateFenceBody UpdateGeofenceDto
  | CheckBody real real

datatype gp_result =
    GLocations "GpsLocation list"
  | GFences "Geofence list"
  | GFence Geofence
  | GCheck CheckGeofenceResult
  | GDone

type_synonym gp_route = "(gp_body, GpsService, gp_result) route"

definition ctl_gpsLocations :: "gps_orms \<Rightarrow> (string \<Rightarrow> js_time option) \<Rightarrow> api_call \<Rightarrow> gp_route" where
  "ctl_gpsLocations R D C = \<lparr>ro_method = GET, ro_path = ''/gps/locations'', ro_roles = None,
     ro_uuids = [], ro_handler = (\<lambda>user ps r st.
       map_result GLocations (route_getLocations R D user \<lparr>gx_from = nullish (query_param ''from'' r) [],
         gx_to = nullish (query_param ''to'' r) [], gx_userId = query_param ''userId'' r\<rparr> st, st))\<rparr>"

definition ctl_gpsLive :: "gps_orms \<Rightarrow> (string \<Rightarrow> js_time option) \<Rightarrow> api_call \<Rightarrow> gp_route" where
  "ctl_gpsLive R D C = \<lparr>ro_method = GET, ro_path = ''/gps/locations/live'', ro_roles = managers,
     ro_uuids = [], ro_handler = (\<lambda>user ps r st.
       ok_result GLocations (getLiveLocations R (u_organizationId user) st, st))\<rparr>"

definition ctl_gpsGeofences :: "gps_orms \<Rightarrow> (string \<Rightarrow> js_time option) \<Rightarrow> api_call \<Rightarrow> gp_route" where
  "ctl_gpsGeofences R D C = \<lparr>ro_method = GET, ro_path = ''/gps/geofences'', ro_roles = None,
     ro_uuids = [], ro_handler = (\<lambda>user ps r st.
       ok_result GFences (listGeofences R (u_organizationId user) st, st))\<rparr>"

definition ctl_gpsCreateGeofence :: "gps_orms \<Rightarrow> (string \<Rightarrow> js_time option) \<Rightarrow> api_call \<Rightarrow> gp_route" where
  "ctl_gpsCreateGeofence R D C = \<lparr>ro_method = POST, ro_path = ''/gps/geofences'', ro_roles = managers,
     ro_uuids = [], ro_handler = (\<lambda>user ps r st. case rq_body r of
       Some (CreateFenceBody dto) \<Rightarrow>
         ok_result GFence (createGeofence R (tn_now C) (tn_id C) (u_organizationId user) dto st)
     | _ \<Rightarrow> (Inl missing_body, st))\<rparr>"

definition ctl_gpsUpdateGeofence :: "gps_orms \<Rightarrow> (string \<Rightarrow> js_time option) \<Rightarrow> api_call \<Rightarrow> gp_route" where
  "ctl_gpsUpdateGeofence R D C = \<lparr>ro_method = PATCH, ro_path = ''/gps/geofences/:id'', ro_roles = managers,
     ro_uuids = [''id''], ro_handler = (\<lambda>user ps r st. case rq_body r of
       Some (UpdateFenceBody dto) \<Rightarrow>
         map_result GFence (updateGeofence R (tn_now C) (u_organizationId user) (param ''id'' ps) dto st)
     | _ \<Rightarrow> (Inl missing_body, st))\<rparr>"

definition ctl_gpsDeleteGeofence :: "gps_orms \<Rightarrow> (string \<Rightarrow> js_time option) \<Rightarrow> api_call \<Rightarrow> gp_route" where
  "ctl_gpsDeleteGeofence R D C = \<lparr>ro_method = DELETE, ro_path = ''/gps/geofences/:id'', ro_roles = managers,
     ro_uuids = [''id''], ro_handler = (\<lambda>user ps r st.
       map_result (\<lambda>_. GDone) (deleteGeofence R (u_organizationId user) (param ''id'' ps) st))\<rparr>"

definition ctl_gpsCheckGeofence :: "gps_orms \<Rightarrow> (string \<Rightarrow> js_time option) \<Rightarrow> api_call \<Rightarrow> gp_route" where
  "ctl_gpsCheckGeofence R D C = \<lparr>ro_method = POST, ro_path = ''/gps/geofences/:id/check'', ro_roles = None,
     ro_uuids = [''id''], ro_handler = (\<lambda>user ps r st. case rq_body r of
       Some (CheckBody lat lng) \<Rightarrow>
         map_result GCheck (checkGeofence R (u_organizationId user) (param ''id'' ps) lat lng st, st)
     | _ \<Rightarrow> (Inl missing_body, st))\<rparr>"

definition gp_routes :: "gps_orms \<Rightarrow> (string \<Rightarrow> js_time option) \<Rightarrow> api_call \<Rightarrow> gp_route list" where
  "gp_routes R D C = [ctl_gpsLocations R D C, ctl_gpsLive R D C, ctl_gpsGeofences R D C, ctl_gpsCreateGeofence R D
     C, ctl_gpsUpdateGeofence R D C, ctl_gpsDeleteGeofence R D C, ctl_gpsCheckGeofence R D C]"

section \<open>The hooks\<close>

definition useGpsLocations :: "string \<Rightarrow> string \<Rightarrow> string option \<Rightarrow> gp_body query_hook" where
  "useGpsLocations from to userId =
     (a_query [Key ''gps-locations'', KeyParams [(''from'', Some from), (''to'', Some to), (''userId'', userId)]] ''/gps/locations'' [(''from'', Some from), (''to'', Some to), (''userId'', userId)])
     \<lparr>qh_enabled := from \<noteq> [] \<and> to \<noteq> []\<rparr>"

definition useGpsLive :: "gp_body query_hook" where
  "useGpsLive =
     (a_query [Key ''gps-live''] ''/gps/locations/live'' [])
     \<lparr>qh_refetchInterval := Some 60000\<rparr>"

definition useGeofences :: "gp_body query_hook" where
  "useGeofences =
     a_query [Key ''geofences''] ''/gps/geofences'' []"

definition useCreateGeofence :: "CreateGeofenceDto \<Rightarrow> gp_body mutation_hook" where
  "useCreateGeofence payload = a_mutation POST ''/gps/geofences'' (Some (CreateFenceBody payload))
     [[Key ''geofences'']]
     (Some ''Geofence created'') (Some ''Failed to create geofence'')"

definition useUpdateGeofence :: "string \<Rightarrow> UpdateGeofenceDto \<Rightarrow> gp_body mutation_hook" where
  "useUpdateGeofence i payload = a_mutation PATCH (''/gps/geofences/'' @ i) (Some (UpdateFenceBody payload))
     [[Key ''geofences'']]
     (Some ''Geofence updated'') (Some ''Failed to update geofence'')"

definition useDeleteGeofence :: "string \<Rightarrow> gp_body mutation_hook" where
  "useDeleteGeofence i = a_mutation DELETE (''/gps/geofences/'' @ i) None
     [[Key ''geofences'']]
     (Some ''Geofence deleted'') (Some ''Failed to delete geofence'')"

section \<open>Every hook reaches its operation\<close>

lemmas gp_route_defs = ctl_gpsLocations_def ctl_gpsLive_def ctl_gpsGeofences_def ctl_gpsCreateGeofence_def
  ctl_gpsUpdateGeofence_def ctl_gpsDeleteGeofence_def ctl_gpsCheckGeofence_def

lemma gp_route_keys [simp]:
  "route_key (ctl_gpsLocations R D C) = (GET, [[], ''gps'', ''locations''])"
  "route_key (ctl_gpsLive R D C) = (GET, [[], ''gps'', ''locations'', ''live''])"
  "route_key (ctl_gpsGeofences R D C) = (GET, [[], ''gps'', ''geofences''])"
  "route_key (ctl_gpsCreateGeofence R D C) = (POST, [[], ''gps'', ''geofences''])"
  "route_key (ctl_gpsUpdateGeofence R D C) = (PATCH, [[], ''gps'', ''geofences'', '':id''])"
  "route_key (ctl_gpsDeleteGeofence R D C) = (DELETE, [[], ''gps'', ''geofences'', '':id''])"
  "route_key (ctl_gpsCheckGeofence R D C) = (POST, [[], ''gps'', ''geofences'', '':id'', ''check''])"
  by (simp_all add: route_key_def gp_route_defs)

lemmas gp_hook_defs = useGpsLocations_def useGpsLive_def useGeofences_def useCreateGeofence_def
  useUpdateGeofence_def useDeleteGeofence_def

datatype GPQuery = QLocations string string "string option" | QLive | QGeofences

datatype GPMutation = MCreateFence CreateGeofenceDto | MUpdateFence string UpdateGeofenceDto | MDeleteFence
  string

fun gp_query_hook :: "GPQuery \<Rightarrow> gp_body query_hook" where
  "gp_query_hook (QLocations x0 x1 x2) = useGpsLocations x0 x1 x2"
| "gp_query_hook QLive = useGpsLive"
| "gp_query_hook QGeofences = useGeofences"

fun gp_mutation_hook :: "GPMutation \<Rightarrow> gp_body mutation_hook" where
  "gp_mutation_hook (MCreateFence x0) = useCreateGeofence x0"
| "gp_mutation_hook (MUpdateFence x0 x1) = useUpdateGeofence x0 x1"
| "gp_mutation_hook (MDeleteFence x0) = useDeleteGeofence x0"

fun gp_answer :: "gps_orms \<Rightarrow> (string \<Rightarrow> js_time option) \<Rightarrow> api_call \<Rightarrow> User \<Rightarrow> GPQuery \<Rightarrow> GpsService \<Rightarrow> gp_result outcome" where
  "gp_answer R D C U (QLocations x0 x1 x2) st = fst (map_result GLocations (route_getLocations R D U
     \<lparr>gx_from = x0, gx_to = x1, gx_userId = x2\<rparr> st, st))"
| "gp_answer R D C U QLive st = Inr (GLocations (getLiveLocations R (u_organizationId U) st))"
| "gp_answer R D C U QGeofences st = Inr (GFences (listGeofences R (u_organizationId U) st))"

fun gp_effect :: "gps_orms \<Rightarrow> (string \<Rightarrow> js_time option) \<Rightarrow> api_call \<Rightarrow> User \<Rightarrow> GPMutation \<Rightarrow> GpsService \<Rightarrow>
    gp_result outcome \<times> GpsService" where
  "gp_effect R D C U (MCreateFence x0) st = ok_result GFence (createGeofence R (tn_now C) (tn_id C)
     (u_organizationId U) x0 st)"
| "gp_effect R D C U (MUpdateFence x0 x1) st = map_result GFence (updateGeofence R (tn_now C) (u_organizationId
     U) x0 x1 st)"
| "gp_effect R D C U (MDeleteFence x0) st = map_result (\<lambda>_. GDone) (deleteGeofence R (u_organizationId
     U) x0 st)"

text \<open>The ids in the paths, and the roles the routes ask for.\<close>

fun gp_query_ids :: "GPQuery \<Rightarrow> string list" where
  "gp_query_ids (QLocations x0 x1 x2) = []"
| "gp_query_ids QLive = []"
| "gp_query_ids QGeofences = []"

fun gp_mutation_ids :: "GPMutation \<Rightarrow> string list" where
  "gp_mutation_ids (MCreateFence x0) = []"
| "gp_mutation_ids (MUpdateFence x0 x1) = [x0]"
| "gp_mutation_ids (MDeleteFence x0) = [x0]"

fun gp_query_roles :: "GPQuery \<Rightarrow> UserRole set" where
  "gp_query_roles (QLocations x0 x1 x2) = UNIV"
| "gp_query_roles QLive = {ADMIN, MANAGER}"
| "gp_query_roles QGeofences = UNIV"

fun gp_mutation_roles :: "GPMutation \<Rightarrow> UserRole set" where
  "gp_mutation_roles (MCreateFence x0) = {ADMIN, MANAGER}"
| "gp_mutation_roles (MUpdateFence x0 x1) = {ADMIN, MANAGER}"
| "gp_mutation_roles (MDeleteFence x0) = {ADMIN, MANAGER}"

lemma gp_query_served:
  assumes "\<forall>i \<in> set (gp_query_ids q). uuid i \<and> i \<noteq> [] \<and> CHR 0x2F \<notin> set i"
  shows "if u_role U \<in> gp_query_roles q
    then dispatch uuid (gp_routes R D C) U (qh_request (gp_query_hook q)) st = (gp_answer R D C U q st, st)
    else \<exists>e. dispatch uuid (gp_routes R D C) U (qh_request (gp_query_hook q)) st = (Inl (Forbidden e), st)"
  using assms
  by (cases q; simp add: gp_routes_def route_match_def request_key_def gp_hook_defs)
    (cases "u_role U"; simp add: serve_def roles_canActivate_def param_def query_param_def gp_route_defs
      map_result_def ok_result_def split: sum.split)+

lemma gp_mutation_served:
  assumes "\<forall>i \<in> set (gp_mutation_ids m). uuid i \<and> i \<noteq> [] \<and> CHR 0x2F \<notin> set i"
  shows "if u_role U \<in> gp_mutation_roles m
    then dispatch uuid (gp_routes R D C) U (hd (mh_requests (gp_mutation_hook m))) st = gp_effect R D C U m st
    else \<exists>e. dispatch uuid (gp_routes R D C) U (hd (mh_requests (gp_mutation_hook m))) st = (Inl (Forbidden e), st)"
  using assms
  by (cases m; simp add: gp_routes_def route_match_def request_key_def gp_hook_defs)
    (cases "u_role U"; simp add: serve_def roles_canActivate_def param_def ok_result_def gp_route_defs)+

text \<open>
  The request of each hook is answered by the operation it is meant for, in the organisation of the
  signed-in user, when its ids are uuids and the user has the role; without the role it is refused
  and nothing changes.
\<close>

theorem gp_hooks_reach:
  assumes p: "uuid_pipe uuid" and q: "\<forall>i \<in> set (gp_query_ids q). uuid i" and m: "\<forall>i \<in> set (gp_mutation_ids m). uuid i"
  shows "(let r = qh_request (gp_query_hook q) in
      if u_role U \<in> gp_query_roles q then dispatch uuid (gp_routes R D C) U r st = (gp_answer R D C U q st, st)
      else \<exists>e. dispatch uuid (gp_routes R D C) U r st = (Inl (Forbidden e), st)) \<and>
    (let r = hd (mh_requests (gp_mutation_hook m)) in
      if u_role U \<in> gp_mutation_roles m then dispatch uuid (gp_routes R D C) U r st = gp_effect R D C U m st
      else \<exists>e. dispatch uuid (gp_routes R D C) U r st = (Inl (Forbidden e), st))"
  using gp_query_served [of q uuid U R D C st] gp_mutation_served [of m uuid U R D C st] p q m
  unfolding Let_def uuid_pipe_def by blast

end
