(* ===== verification/MonitorWeb.thy ===== *)
theory MonitorWeb
  imports Analytics HttpRoutes
begin

text \<open>
  The figures a member may look at: the routes of MonitoringController and AnalyticsController behind
  their guard, and the hooks of hooks/use-monitoring.ts and hooks/use-analytics.ts. A query may write the
  cache in the key-value store, so a route returns the state. \<open>number\<close> is ParseIntPipe, None when it
  refuses the text; an absent parameter that the code puts into a text is \<open>undefined\<close> there.
\<close>

section \<open>The controllers\<close>

datatype mon_result =
    MActivity "ActivityEvent list"
  | MScreens "ScreenshotWithUrl list"
  | MJson json
  | MSummary "user_summary list"
  | MHeat "heat_day list"
  | MText string

record 's monitor_env =
  xv_parse :: "string \<Rightarrow> js_time option"
  xv_number :: "string \<Rightarrow> int option"
  xv_presign :: "string \<Rightarrow> string"
  xv_live :: live_orms
  xv_analytics :: analytics_orms
  xv_screens :: "Screenshot orm"
  xv_kv :: "'s kv"

record 's MonitorData =
  xd_devices :: "AgentDevice list"
  xd_users :: "User list"
  xd_activity :: "ActivityEvent list"
  xd_screens :: "Screenshot list"
  xd_attendance :: "Attendance list"
  xd_entries :: "TimeEntry list"
  xd_kv :: 's

definition live_of :: "'s MonitorData \<Rightarrow> live_tables" where
  "live_of st = \<lparr>lt_devices = xd_devices st, lt_users = xd_users st, lt_activity = xd_activity st\<rparr>"

definition analytics_of :: "'s MonitorData \<Rightarrow> analytics_tables" where
  "analytics_of st = \<lparr>nt_activity = xd_activity st, nt_attendance = xd_attendance st,
     nt_entries = xd_entries st, nt_users = xd_users st\<rparr>"

definition cached :: "('a \<Rightarrow> mon_result) \<Rightarrow> 's MonitorData \<Rightarrow> 'a outcome \<times> 's \<Rightarrow> mon_result outcome \<times> 's MonitorData" where
  "cached f st r = map_result f (fst r, st\<lparr>xd_kv := snd r\<rparr>)"

type_synonym 's mon_route = "(unit, 's MonitorData, mon_result) route"

definition range_query :: "unit request \<Rightarrow> monitor_query" where
  "range_query r = \<lparr>mz_from = query_param ''from'' r, mz_to = query_param ''to'' r,
     mz_deviceId = query_param ''deviceId'' r\<rparr>"

definition in_text :: "string \<Rightarrow> unit request \<Rightarrow> string" where
  "in_text name r = nullish (query_param name r) ''undefined''"

definition ctl_liveStatus :: "'s monitor_env \<Rightarrow> api_call \<Rightarrow> 's mon_route" where
  "ctl_liveStatus E C = \<lparr>ro_method = GET, ro_path = ''/monitoring/live'', ro_roles = managers, ro_uuids = [],
     ro_handler = (\<lambda>user ps r st. cached MJson st
       (getLiveStatus (xv_live E) (xv_kv E) (tn_now C) (u_organizationId user) (live_of st) (xd_kv st)))\<rparr>"

definition ctl_activity :: "'s monitor_env \<Rightarrow> api_call \<Rightarrow> 's mon_route" where
  "ctl_activity E C = \<lparr>ro_method = GET, ro_path = ''/monitoring/activity'', ro_roles = None, ro_uuids = [],
     ro_handler = (\<lambda>user ps r st. map_result MActivity
       (route_getActivity (xv_parse E) (no_activity (xv_analytics E)) user (query_param ''userId'' r)
          (range_query r) (xd_activity st), st))\<rparr>"

definition ctl_screenshots :: "'s monitor_env \<Rightarrow> api_call \<Rightarrow> 's mon_route" where
  "ctl_screenshots E C = \<lparr>ro_method = GET, ro_path = ''/monitoring/screenshots'', ro_roles = None, ro_uuids = [],
     ro_handler = (\<lambda>user ps r st. map_result MScreens
       (route_getScreenshots (xv_parse E) (xv_screens E) (xv_presign E) user (query_param ''userId'' r)
          (range_query r) (xd_screens st), st))\<rparr>"

definition ctl_productivity :: "'s monitor_env \<Rightarrow> api_call \<Rightarrow> 's mon_route" where
  "ctl_productivity E C = \<lparr>ro_method = GET, ro_path = ''/analytics/productivity'', ro_roles = None, ro_uuids = [],
     ro_handler = (\<lambda>user ps r st. cached MJson st
       (route_getProductivity (xv_analytics E) (xv_kv E) (xv_parse E) (tn_now C) user (query_param ''from'' r)
          (query_param ''to'' r) (query_param ''userId'' r) (analytics_of st) (xd_kv st)))\<rparr>"

definition ctl_appUsage :: "'s monitor_env \<Rightarrow> api_call \<Rightarrow> 's mon_route" where
  "ctl_appUsage E C = \<lparr>ro_method = GET, ro_path = ''/analytics/app-usage'', ro_roles = None, ro_uuids = [],
     ro_handler = (\<lambda>user ps r st. cached MJson st
       (route_getAppUsage (xv_analytics E) (xv_kv E) (xv_parse E) (tn_now C) user (query_param ''from'' r)
          (query_param ''to'' r) (query_param ''userId'' r) (analytics_of st) (xd_kv st)))\<rparr>"

definition ctl_exportCSV :: "'s monitor_env \<Rightarrow> api_call \<Rightarrow> 's mon_route" where
  "ctl_exportCSV E C = \<lparr>ro_method = GET, ro_path = ''/analytics/export/csv'', ro_roles = None, ro_uuids = [],
     ro_handler = (\<lambda>user ps r st. map_result MText
       (route_exportCSV (xv_analytics E) (xv_parse E) (tn_now C) user (query_param ''from'' r)
          (query_param ''to'' r) (query_param ''userId'' r) (analytics_of st), st))\<rparr>"

definition ctl_report :: "'s monitor_env \<Rightarrow> api_call \<Rightarrow> 's mon_route" where
  "ctl_report E C = \<lparr>ro_method = GET, ro_path = ''/analytics/productivity/report'', ro_roles = None, ro_uuids = [],
     ro_handler = (\<lambda>user ps r st. cached MJson st
       (route_getProductivityReport (xv_analytics E) (xv_kv E) (tn_now C) user (in_text ''from'' r)
          (in_text ''to'' r) (query_param ''userId'' r) (analytics_of st) (xd_kv st)))\<rparr>"

definition ctl_summary :: "'s monitor_env \<Rightarrow> api_call \<Rightarrow> 's mon_route" where
  "ctl_summary E C = \<lparr>ro_method = GET, ro_path = ''/analytics/productivity/summary'', ro_roles = managers, ro_uuids = [],
     ro_handler = (\<lambda>user ps r st. ok_result MSummary
       (getOrgProductivitySummary (xv_analytics E) (u_organizationId user) (in_text ''from'' r)
          (in_text ''to'' r) (analytics_of st), st))\<rparr>"

definition ctl_heatmap :: "'s monitor_env \<Rightarrow> api_call \<Rightarrow> 's mon_route" where
  "ctl_heatmap E C = \<lparr>ro_method = GET, ro_path = ''/analytics/productivity/heatmap'', ro_roles = None, ro_uuids = [],
     ro_handler = (\<lambda>user ps r st.
       case (case query_param ''weeks'' r of None \<Rightarrow> Some 8 | Some s \<Rightarrow> xv_number E s) of
         None \<Rightarrow> (Inl (BadRequest ''Validation failed (numeric string is expected)''), st)
       | Some weeks \<Rightarrow> cached MHeat st
           (route_getProductivityHeatmap (xv_analytics E) (xv_kv E) (tn_now C) user weeks
              (query_param ''userId'' r) (analytics_of st) (xd_kv st)))\<rparr>"

definition monitoring_routes :: "'s monitor_env \<Rightarrow> api_call \<Rightarrow> 's mon_route list" where
  "monitoring_routes E C = [ctl_liveStatus E C, ctl_activity E C, ctl_screenshots E C]"

definition analytics_routes :: "'s monitor_env \<Rightarrow> api_call \<Rightarrow> 's mon_route list" where
  "analytics_routes E C = [ctl_productivity E C, ctl_appUsage E C, ctl_exportCSV E C, ctl_report E C,
     ctl_summary E C, ctl_heatmap E C]"

definition figure_routes :: "'s monitor_env \<Rightarrow> api_call \<Rightarrow> 's mon_route list" where
  "figure_routes E C = monitoring_routes E C @ analytics_routes E C"

lemmas mon_route_defs = ctl_liveStatus_def ctl_activity_def ctl_screenshots_def ctl_productivity_def
  ctl_appUsage_def ctl_exportCSV_def ctl_report_def ctl_summary_def ctl_heatmap_def

lemmas figure_routes_simps = figure_routes_def monitoring_routes_def analytics_routes_def

lemma mon_route_keys [simp]:
  "route_key (ctl_liveStatus E C) = (GET, [[], ''monitoring'', ''live''])"
  "route_key (ctl_activity E C) = (GET, [[], ''monitoring'', ''activity''])"
  "route_key (ctl_screenshots E C) = (GET, [[], ''monitoring'', ''screenshots''])"
  "route_key (ctl_productivity E C) = (GET, [[], ''analytics'', ''productivity''])"
  "route_key (ctl_appUsage E C) = (GET, [[], ''analytics'', ''app-usage''])"
  "route_key (ctl_exportCSV E C) = (GET, [[], ''analytics'', ''export'', ''csv''])"
  "route_key (ctl_report E C) = (GET, [[], ''analytics'', ''productivity'', ''report''])"
  "route_key (ctl_summary E C) = (GET, [[], ''analytics'', ''productivity'', ''summary''])"
  "route_key (ctl_heatmap E C) = (GET, [[], ''analytics'', ''productivity'', ''heatmap''])"
  by (simp_all add: route_key_def mon_route_defs)

section \<open>An employee reads own rows only\<close>

text \<open>A property of every answer of a table of routes follows from the same for every route.\<close>

lemma dispatch_cases:
  assumes "dispatch uuid ros user r st = (res, st')"
  shows "res = Inl (cannot r) \<or> (\<exists>ro \<in> set ros. \<exists>ps. serve uuid user r ps ro st = (res, st'))"
  using assms by (induction ros) (auto split: option.splits)

lemma serve_cases:
  assumes "serve uuid user r ps ro st = (Inr x, st')"
  shows "ro_handler ro user ps r st = (Inr x, st')"
  using assms by (auto simp: serve_def split: sum.splits if_splits)

lemma given_own: "uid \<noteq> [] \<Longrightarrow> given (Some uid) (Some x) id \<longleftrightarrow> x = uid"
  by (auto simp: given_def)

lemma activity_own:
  assumes "repository R ae_id" and "u_role U = EMPLOYEE" and "u_id U \<noteq> []"
    and "route_getActivity D R U userId q t = Inr rows" and "e \<in> set rows"
  shows "ae_userId e = u_id U \<and> ae_organizationId e = u_organizationId U"
  using assms(2-5) repository.find_subset [OF assms(1)]
  by (fastforce simp: route_getActivity_def getActivity_def target_user_def given_own split: option.splits)

lemma screens_own:
  assumes "repository R ss_id" and "u_role U = EMPLOYEE" and "u_id U \<noteq> []"
    and "route_getScreenshots D R presign U userId q t = Inr rows" and "s \<in> set rows"
  shows "\<exists>e \<in> set t. su_id s = ss_id e \<and> ss_userId e = u_id U \<and> ss_organizationId e = u_organizationId U"
  using assms(2-5) repository.find_subset [OF assms(1)]
  by (fastforce simp: route_getScreenshots_def getScreenshots_def target_user_def given_own split: option.splits)

text \<open>For an employee the parameter \<open>userId\<close> makes no difference to any route.\<close>

lemma employee_userId_ignored:
  assumes "u_role U = EMPLOYEE" and "ro \<in> set (figure_routes E C)"
  shows "serve uuid U (r\<lparr>rq_query := (''userId'', x) # rq_query r\<rparr>) ps ro st = serve uuid U r ps ro st"
proof -
  have others: "query_param name (r\<lparr>rq_query := (''userId'', x) # rq_query r\<rparr>) = query_param name r"
    if "name \<noteq> ''userId''" for name using that by (simp add: query_param_def)
  have "ro_handler ro U ps (r\<lparr>rq_query := (''userId'', x) # rq_query r\<rparr>) st = ro_handler ro U ps r st"
    using assms(2) unfolding figure_routes_simps
    by (auto simp: mon_route_defs others range_query_def in_text_def route_getActivity_def route_getScreenshots_def
        route_getProductivity_def route_getAppUsage_def route_exportCSV_def route_getProductivityReport_def
        route_getProductivityHeatmap_def target_user_def report_target_def assms(1) split: option.split)
  then show ?thesis by (auto simp: serve_def split: sum.split)
qed

lemma route_match_query: "route_match (r\<lparr>rq_query := qs\<rparr>) ro = route_match r ro"
  by (simp add: route_match_def request_key_def)

lemma dispatch_userId_ignored:
  assumes "u_role U = EMPLOYEE"
  shows "dispatch uuid (figure_routes E C) U (r\<lparr>rq_query := (''userId'', x) # rq_query r\<rparr>) st =
    dispatch uuid (figure_routes E C) U r st"
proof -
  have "dispatch uuid ros U (r\<lparr>rq_query := (''userId'', x) # rq_query r\<rparr>) st = dispatch uuid ros U r st"
    if "set ros \<subseteq> set (figure_routes E C)" for ros
    using that
    by (induction ros)
      (simp_all add: route_match_query employee_userId_ignored [OF assms, of _ E C] cannot_def split: option.split)
  then show ?thesis by blast
qed

lemma result_Inr:
  "map_result f x = (Inr v, s) \<longleftrightarrow> (\<exists>y. fst x = Inr y \<and> v = f y \<and> s = snd x)"
  "ok_result f z = (Inr v, s) \<longleftrightarrow> v = f (fst z) \<and> s = snd z"
  by (auto simp: map_result_def ok_result_def split: sum.splits)

lemma handler_own:
  assumes R: "repository (no_activity (xv_analytics E)) ae_id" "repository (xv_screens E) ss_id"
    and U: "u_role U = EMPLOYEE" "u_id U \<noteq> []"
    and ro: "ro \<in> set (figure_routes E C)" and h: "ro_handler ro U ps r st = (Inr v, st')"
  shows "(v = MActivity rows \<longrightarrow> (\<forall>e \<in> set rows. ae_userId e = u_id U \<and> ae_organizationId e = u_organizationId U)) \<and>
    (v = MScreens shots \<longrightarrow> (\<forall>s \<in> set shots. \<exists>e \<in> set (xd_screens st). su_id s = ss_id e \<and>
      ss_userId e = u_id U \<and> ss_organizationId e = u_organizationId U))"
  using ro unfolding figure_routes_simps
  by (simp; elim disjE; use h in \<open>simp add: mon_route_defs cached_def result_Inr split: option.splits\<close>)
    (auto dest: activity_own [OF R(1) U] screens_own [OF R(2) U])

lemma whole_org_segments:
  "s \<in> {''/monitoring/live'', ''/analytics/productivity/summary''} \<Longrightarrow>
    (GET, segments s) \<in> {(GET, [[], ''monitoring'', ''live'']), (GET, [[], ''analytics'', ''productivity'', ''summary''])}"
proof (elim insertE emptyE)
  assume "s = ''/monitoring/live''"
  moreover have "segments ''/monitoring/live'' = [[], ''monitoring'', ''live'']" by simp
  ultimately show ?thesis by simp
next
  assume "s = ''/analytics/productivity/summary''"
  moreover have "segments ''/analytics/productivity/summary'' = [[], ''analytics'', ''productivity'', ''summary'']" by simp
  ultimately show ?thesis by simp
qed

lemma whole_org_refused:
  assumes "u_role U = EMPLOYEE" and "request_key r \<in> {(GET, [[], ''monitoring'', ''live'']),
      (GET, [[], ''analytics'', ''productivity'', ''summary''])}"
  shows "\<exists>e. dispatch uuid (figure_routes E C) U r st = (Inl (Forbidden e), st)"
  using assms
  by (auto simp: figure_routes_simps route_match_def)
    (auto simp: serve_def roles_canActivate_def ctl_liveStatus_def ctl_summary_def)

text \<open>
  C34. An employee who asks for figures gets the own ones only: naming another user in the query changes
  no answer of any route of the monitoring and analytics controllers and nothing in the state, every
  activity row and every screenshot in an answer is the employee's own, in the own organisation, and the
  two routes that show the whole organisation are refused.
\<close>

theorem employee_reads_own_only:
  assumes R: "repository (no_activity (xv_analytics E)) ae_id" "repository (xv_screens E) ss_id"
    and U: "u_role U = EMPLOYEE" "u_id U \<noteq> []"
  shows "let (res, st') = dispatch uuid (figure_routes E C) U r st in
    dispatch uuid (figure_routes E C) U (r\<lparr>rq_query := (''userId'', x) # rq_query r\<rparr>) st = (res, st') \<and>
    (\<forall>rows. res = Inr (MActivity rows) \<longrightarrow>
      (\<forall>e \<in> set rows. ae_userId e = u_id U \<and> ae_organizationId e = u_organizationId U)) \<and>
    (\<forall>shots. res = Inr (MScreens shots) \<longrightarrow> (\<forall>s \<in> set shots. \<exists>e \<in> set (xd_screens st). su_id s = ss_id e \<and>
      ss_userId e = u_id U \<and> ss_organizationId e = u_organizationId U)) \<and>
    (rq_method r = GET \<and> rq_path r \<in> {''/monitoring/live'', ''/analytics/productivity/summary''} \<longrightarrow>
      (\<exists>e. res = Inl (Forbidden e)) \<and> st' = st)"
proof -
  obtain res st' where d: "dispatch uuid (figure_routes E C) U r st = (res, st')" by fastforce
  have own: "(v = MActivity rows \<longrightarrow> (\<forall>e \<in> set rows. ae_userId e = u_id U \<and> ae_organizationId e = u_organizationId U)) \<and>
    (v = MScreens shots \<longrightarrow> (\<forall>s \<in> set shots. \<exists>e \<in> set (xd_screens st). su_id s = ss_id e \<and>
      ss_userId e = u_id U \<and> ss_organizationId e = u_organizationId U))" if v: "res = Inr v" for v rows shots
  proof -
    obtain ro ps where "ro \<in> set (figure_routes E C)" and "serve uuid U r ps ro st = (Inr v, st')"
      using dispatch_cases [OF d] v by auto
    then show ?thesis using handler_own [OF R U] serve_cases by metis
  qed
  have refused: "(\<exists>e. res = Inl (Forbidden e)) \<and> st' = st"
    if "rq_method r = GET \<and> rq_path r \<in> {''/monitoring/live'', ''/analytics/productivity/summary''}"
  proof -
    have "request_key r \<in> {(GET, [[], ''monitoring'', ''live'']), (GET, [[], ''analytics'', ''productivity'', ''summary''])}"
      unfolding request_key_def conjunct1 [OF that] by (rule whole_org_segments [OF conjunct2 [OF that]])
    from whole_org_refused [OF U(1) this, of uuid E C st] show ?thesis using d by auto
  qed
  show ?thesis unfolding Let_def d prod.case
  proof (intro conjI allI impI)
    show "dispatch uuid (figure_routes E C) U (r\<lparr>rq_query := (''userId'', x) # rq_query r\<rparr>) st = (res, st')"
      using dispatch_userId_ignored [OF U(1), of uuid E C x r st] d by simp
  qed (use own refused in blast)+
qed

definition employee_of :: "string \<Rightarrow> User" where
  "employee_of uid = new_user 0 uid ''o'' ''a@x'' ''h'' ''A'' [] EMPLOYEE None"

definition list_monitor :: "(string \<rightharpoonup> MemEntry) RedisService monitor_env" where
  "list_monitor = \<lparr>xv_parse = (\<lambda>_. None), xv_number = (\<lambda>_. None), xv_presign = id, xv_live = live_list,
     xv_analytics = list_analytics, xv_screens = typeorm_list ss_id, xv_kv = file_kv\<rparr>"

definition monitor_demo :: "(string \<rightharpoonup> MemEntry) RedisService MonitorData" where
  "monitor_demo = \<lparr>xd_devices = [], xd_users = [], xd_activity = [coding ''a'' 0 600], xd_screens = [],
     xd_attendance = [], xd_entries = [], xd_kv = empty_redis\<rparr>"

theorem employee_reads_own_only_witness:
  "let r = \<lparr>rq_method = GET, rq_path = ''/monitoring/activity'', rq_query = [], rq_body = None\<rparr>;
       C = \<lparr>tn_now = 0, tn_id = ''x''\<rparr> in
    fst (dispatch (\<lambda>s. True) (figure_routes list_monitor C) (employee_of ''v'')
      (r\<lparr>rq_query := (''userId'', Some ''u'') # rq_query r\<rparr>) monitor_demo) =
    fst (dispatch (\<lambda>s. True) (figure_routes list_monitor C) (employee_of ''v'') r monitor_demo)"
proof -
  have R: "repository (no_activity (xv_analytics list_monitor)) ae_id" "repository (xv_screens list_monitor) ss_id"
    by (simp_all add: list_monitor_def list_analytics_def)
  have U: "u_role (employee_of ''v'') = EMPLOYEE" "u_id (employee_of ''v'') \<noteq> []"
    by (simp_all add: employee_of_def new_user_def)
  show ?thesis
    using employee_reads_own_only [OF R U, where r = "\<lparr>rq_method = GET, rq_path = ''/monitoring/activity'',
        rq_query = [], rq_body = None\<rparr>" and C = "\<lparr>tn_now = 0, tn_id = ''x''\<rparr>" and st = monitor_demo
        and uuid = "\<lambda>s. True" and x = "Some ''u''"]
    unfolding Let_def prod.case_eq_if by simp
qed

section \<open>The hooks\<close>

definition useLiveStatus :: "unit query_hook" where
  "useLiveStatus = (a_query [Key ''monitoring-live''] ''/monitoring/live'' [])\<lparr>qh_refetchInterval := Some 30000\<rparr>"

definition useActivity :: "(string \<times> string option) list \<Rightarrow> unit query_hook" where
  "useActivity params = a_query [Key ''monitoring-activity'', KeyParams params] ''/monitoring/activity'' params"

definition useScreenshots :: "(string \<times> string option) list \<Rightarrow> unit query_hook" where
  "useScreenshots params = a_query [Key ''monitoring-screenshots'', KeyParams params] ''/monitoring/screenshots'' params"

text \<open>\<open>from\<close> and \<open>to\<close> are always given to the hooks of the analytics page.\<close>

definition range_params :: "string \<Rightarrow> string \<Rightarrow> string option \<Rightarrow> (string \<times> string option) list" where
  "range_params from to userId = [(''from'', Some from), (''to'', Some to), (''userId'', userId)]"

definition useProductivity :: "string \<Rightarrow> string \<Rightarrow> string option \<Rightarrow> unit query_hook" where
  "useProductivity from to userId = a_query [Key ''analytics-productivity'', KeyParams (range_params from to userId)]
     ''/analytics/productivity'' (range_params from to userId)"

definition useAppUsage :: "string \<Rightarrow> string \<Rightarrow> string option \<Rightarrow> unit query_hook" where
  "useAppUsage from to userId = a_query [Key ''analytics-app-usage'', KeyParams (range_params from to userId)]
     ''/analytics/app-usage'' (range_params from to userId)"

definition useExportCSV :: "string \<Rightarrow> string \<Rightarrow> string option \<Rightarrow> unit mutation_hook" where
  "useExportCSV from to userId = \<lparr>
     mh_requests = [\<lparr>rq_method = GET, rq_path = ''/analytics/export/csv'', rq_query = range_params from to userId,
       rq_body = None\<rparr>],
     mh_invalidates = [], mh_success = Some ''CSV downloaded'', mh_failure = Some ''Failed to export CSV''\<rparr>"

definition useProductivityReport :: "string \<Rightarrow> string \<Rightarrow> string option \<Rightarrow> unit query_hook" where
  "useProductivityReport from to userId =
     (a_query [Key ''analytics-productivity-report'', KeyParams (range_params from to userId)]
        ''/analytics/productivity/report'' (range_params from to userId))
     \<lparr>qh_enabled := from \<noteq> [] \<and> to \<noteq> []\<rparr>"

definition useProductivitySummary :: "string \<Rightarrow> string \<Rightarrow> unit query_hook" where
  "useProductivitySummary from to =
     (a_query [Key ''analytics-productivity-summary'', KeyParams [(''from'', Some from), (''to'', Some to)]]
        ''/analytics/productivity/summary'' [(''from'', Some from), (''to'', Some to)])
     \<lparr>qh_enabled := from \<noteq> [] \<and> to \<noteq> []\<rparr>"

definition useCategoryBreakdown :: "string \<Rightarrow> string \<Rightarrow> string option \<Rightarrow> unit query_hook" where
  "useCategoryBreakdown from to userId =
     (a_query [Key ''analytics-category-breakdown'', KeyParams (range_params from to userId)]
        ''/analytics/productivity/breakdown'' (range_params from to userId))
     \<lparr>qh_enabled := from \<noteq> [] \<and> to \<noteq> []\<rparr>"

definition useHeatmap :: "string option \<Rightarrow> string option \<Rightarrow> unit query_hook" where
  "useHeatmap weeks userId = a_query [Key ''analytics-heatmap'', KeyParams [(''weeks'', weeks), (''userId'', userId)]]
     ''/analytics/productivity/heatmap'' [(''weeks'', weeks), (''userId'', userId)]"

lemmas mon_hook_defs = useLiveStatus_def useActivity_def useScreenshots_def useProductivity_def useAppUsage_def
  useExportCSV_def useProductivityReport_def useProductivitySummary_def useCategoryBreakdown_def useHeatmap_def

text \<open>
  Each hook but one is answered by the handler it is meant for, behind the guard; the breakdown of
  categories has no route.
\<close>

lemma monitoring_hooks_reach:
  "dispatch uuid (figure_routes E C) U (qh_request useLiveStatus) st =
     serve uuid U (qh_request useLiveStatus) [] (ctl_liveStatus E C) st"
  "dispatch uuid (figure_routes E C) U (qh_request (useActivity params)) st =
     serve uuid U (qh_request (useActivity params)) [] (ctl_activity E C) st"
  "dispatch uuid (figure_routes E C) U (qh_request (useScreenshots params)) st =
     serve uuid U (qh_request (useScreenshots params)) [] (ctl_screenshots E C) st"
  by (simp_all add: figure_routes_simps route_match_def request_key_def mon_hook_defs)

lemma analytics_hooks_reach:
  "dispatch uuid (figure_routes E C) U (qh_request (useProductivity a b u)) st =
     serve uuid U (qh_request (useProductivity a b u)) [] (ctl_productivity E C) st"
  "dispatch uuid (figure_routes E C) U (qh_request (useAppUsage a b u)) st =
     serve uuid U (qh_request (useAppUsage a b u)) [] (ctl_appUsage E C) st"
  "dispatch uuid (figure_routes E C) U (hd (mh_requests (useExportCSV a b u))) st =
     serve uuid U (hd (mh_requests (useExportCSV a b u))) [] (ctl_exportCSV E C) st"
  "dispatch uuid (figure_routes E C) U (qh_request (useProductivityReport a b u)) st =
     serve uuid U (qh_request (useProductivityReport a b u)) [] (ctl_report E C) st"
  "dispatch uuid (figure_routes E C) U (qh_request (useProductivitySummary a b)) st =
     serve uuid U (qh_request (useProductivitySummary a b)) [] (ctl_summary E C) st"
  "dispatch uuid (figure_routes E C) U (qh_request (useHeatmap w u)) st =
     serve uuid U (qh_request (useHeatmap w u)) [] (ctl_heatmap E C) st"
  by (simp_all add: figure_routes_simps route_match_def request_key_def mon_hook_defs)

lemma breakdown_unreachable:
  "dispatch uuid (figure_routes E C) U (qh_request (useCategoryBreakdown a b u)) st =
     (Inl (NotFound ''Cannot GET /analytics/productivity/breakdown''), st)"
  by (simp add: figure_routes_simps route_match_def request_key_def mon_hook_defs cannot_def)

end
