(* ===== verification/UsersWeb.thy ===== *)
theory UsersWeb
  imports Users HttpRoutes
begin

text \<open>
  Members and the organisation from the browser to the service: the routes of UsersController and
  OrganizationsController and the hooks of hooks/use-organization.ts and hooks/use-agent.ts that ask for
  them. The bodies are those the ValidationPipe accepts. Reading the personal agent token creates it, so
  its query is treated with the mutations.
\<close>

section \<open>What leaves the server of a member\<close>

text \<open>
  The columns \<open>passwordHash\<close> and \<open>agentToken\<close> are declared \<open>select: false\<close>: a row that was read, and one that
  was read and saved, does not have them. A row made with \<open>create\<close> has the columns it was given.
\<close>

datatype us_result =
    UJson json
  | UToken "string \<times> string"
  | UOrg Organization
  | UDone

definition member_json :: "User \<Rightarrow> (string \<times> json) list" where
  "member_json u = [(''id'', JStr (u_id u)), (''organizationId'', JStr (u_organizationId u)),
     (''email'', JStr (u_email u)), (''firstName'', JStr (u_firstName u)), (''lastName'', JStr (u_lastName u)),
     (''role'', JStr (role_str (u_role u))),
     (''avatarUrl'', case u_avatarUrl u of None \<Rightarrow> JNull | Some s \<Rightarrow> JStr s),
     (''emailVerified'', JBool (u_emailVerified u)), (''isActive'', JBool (u_isActive u)),
     (''invitedBy'', case u_invitedBy u of None \<Rightarrow> JNull | Some s \<Rightarrow> JStr s),
     (''createdAt'', JStr (toISOString (u_createdAt u))), (''updatedAt'', JStr (toISOString (u_updatedAt u)))]"

definition members_json :: "(User \<times> nat) list \<Rightarrow> us_result" where
  "members_json rows = UJson (JArr (map (\<lambda>(u, n). JObj (member_json u @ [(''deviceCount'', JNum (int n))])) rows))"

definition updated_json :: "User \<Rightarrow> us_result" where
  "updated_json u = UJson (JObj (member_json u))"

definition invited_json :: "User \<Rightarrow> us_result" where
  "invited_json u = UJson (JObj ((''passwordHash'', JStr (u_passwordHash u)) # member_json u))"

section \<open>The controller\<close>

datatype us_body =
    InviteBody InviteUserDto
  | UpdateUserBody UpdateUserDto
  | UpdateOrgBody UpdateOrganizationDto

type_synonym 's us_route = "(us_body, 's UsersService, us_result) route"

definition ctl_listMembers :: "'s users_env \<Rightarrow> fresh_values \<Rightarrow> 's us_route" where
  "ctl_listMembers E F = \<lparr>ro_method = GET, ro_path = ''/users'', ro_roles = managers,
     ro_uuids = [], ro_handler = (\<lambda>user ps r st.
       ok_result members_json (users_findAll E (u_organizationId user) st, st))\<rparr>"

definition ctl_inviteMember :: "'s users_env \<Rightarrow> fresh_values \<Rightarrow> 's us_route" where
  "ctl_inviteMember E F = \<lparr>ro_method = POST, ro_path = ''/users/invite'', ro_roles = admins,
     ro_uuids = [], ro_handler = (\<lambda>user ps r st. case rq_body r of
       Some (InviteBody dto) \<Rightarrow>
         map_result invited_json (users_invite E F (u_organizationId user) (u_id user) dto st)
     | _ \<Rightarrow> (Inl missing_body, st))\<rparr>"

definition ctl_myAgentToken :: "'s users_env \<Rightarrow> fresh_values \<Rightarrow> 's us_route" where
  "ctl_myAgentToken E F = \<lparr>ro_method = GET, ro_path = ''/users/me/agent-token'', ro_roles = None,
     ro_uuids = [], ro_handler = (\<lambda>user ps r st.
       map_result UToken (getOrGenerateAgentToken E (fv_now F) (fv_token F) (u_id user) st))\<rparr>"

definition ctl_rotateMyAgentToken :: "'s users_env \<Rightarrow> fresh_values \<Rightarrow> 's us_route" where
  "ctl_rotateMyAgentToken E F = \<lparr>ro_method = POST, ro_path = ''/users/me/agent-token/rotate'', ro_roles = None,
     ro_uuids = [], ro_handler = (\<lambda>user ps r st.
       map_result UToken (rotateAgentToken E (fv_now F) (fv_token F) (u_id user) st))\<rparr>"

definition ctl_updateMember :: "'s users_env \<Rightarrow> fresh_values \<Rightarrow> 's us_route" where
  "ctl_updateMember E F = \<lparr>ro_method = PATCH, ro_path = ''/users/:id'', ro_roles = admins,
     ro_uuids = [''id''], ro_handler = (\<lambda>user ps r st. case rq_body r of
       Some (UpdateUserBody dto) \<Rightarrow>
         map_result updated_json (users_update E (fv_now F) (param ''id'' ps) (u_organizationId user) dto st)
     | _ \<Rightarrow> (Inl missing_body, st))\<rparr>"

definition ctl_deactivateMember :: "'s users_env \<Rightarrow> fresh_values \<Rightarrow> 's us_route" where
  "ctl_deactivateMember E F = \<lparr>ro_method = DELETE, ro_path = ''/users/:id'', ro_roles = admins,
     ro_uuids = [''id''], ro_handler = (\<lambda>user ps r st.
       map_result (\<lambda>_. UDone) (users_deactivate E (fv_now F) (param ''id'' ps) (u_organizationId user)
         (u_id user) st))\<rparr>"

definition ctl_myOrg :: "'s users_env \<Rightarrow> fresh_values \<Rightarrow> 's us_route" where
  "ctl_myOrg E F = \<lparr>ro_method = GET, ro_path = ''/organizations/me'', ro_roles = None,
     ro_uuids = [], ro_handler = (\<lambda>user ps r st.
       map_result UOrg (organizations_findById (ue_orgs E) (u_organizationId user) (uv_orgs st), st))\<rparr>"

definition ctl_updateMyOrg :: "'s users_env \<Rightarrow> fresh_values \<Rightarrow> 's us_route" where
  "ctl_updateMyOrg E F = \<lparr>ro_method = PATCH, ro_path = ''/organizations/me'', ro_roles = admins,
     ro_uuids = [], ro_handler = (\<lambda>user ps r st. case rq_body r of
       Some (UpdateOrgBody dto) \<Rightarrow>
         map_result UOrg (apsnd (\<lambda>t. st\<lparr>uv_orgs := t\<rparr>) (organizations_update (ue_orgs E)
           (fv_now F) (u_organizationId user) dto (uv_orgs st)))
     | _ \<Rightarrow> (Inl missing_body, st))\<rparr>"

definition us_routes :: "'s users_env \<Rightarrow> fresh_values \<Rightarrow> 's us_route list" where
  "us_routes E F = [ctl_listMembers E F, ctl_inviteMember E F, ctl_myAgentToken E F, ctl_rotateMyAgentToken E F,
     ctl_updateMember E F, ctl_deactivateMember E F, ctl_myOrg E F, ctl_updateMyOrg E F]"

section \<open>The hooks\<close>

definition useOrganization :: "us_body query_hook" where
  "useOrganization =
     a_query [Key ''organization''] ''/organizations/me'' []"

definition useUpdateOrganization :: "UpdateOrganizationDto \<Rightarrow> us_body mutation_hook" where
  "useUpdateOrganization payload = a_mutation PATCH ''/organizations/me'' (Some (UpdateOrgBody payload))
     [[Key ''organization'']]
     (Some ''Organization updated successfully'') (Some ''Failed to update organization'')"

definition useUsers :: "us_body query_hook" where
  "useUsers =
     a_query [Key ''users''] ''/users'' []"

definition useInviteUser :: "InviteUserDto \<Rightarrow> us_body mutation_hook" where
  "useInviteUser payload = a_mutation POST ''/users/invite'' (Some (InviteBody payload))
     [[Key ''users'']]
     (Some ''Invitation sent successfully'') (Some ''Failed to invite user'')"

text \<open>The answer of the rotation is put into the cache under the key of the token.\<close>

definition usePersonalAgentToken :: "us_body query_hook" where
  "usePersonalAgentToken =
     a_query [Key ''personal-agent-token''] ''/users/me/agent-token'' []"

definition useRotatePersonalAgentToken :: "us_body mutation_hook" where
  "useRotatePersonalAgentToken = a_mutation POST ''/users/me/agent-token/rotate'' None
     []
     (Some ''Token rotated'') (Some ''Failed to rotate token'')"

section \<open>Every hook reaches its operation\<close>

lemmas us_route_defs = ctl_listMembers_def ctl_inviteMember_def ctl_myAgentToken_def ctl_rotateMyAgentToken_def
  ctl_updateMember_def ctl_deactivateMember_def ctl_myOrg_def ctl_updateMyOrg_def

lemma us_route_keys [simp]:
  "route_key (ctl_listMembers E F) = (GET, [[], ''users''])"
  "route_key (ctl_inviteMember E F) = (POST, [[], ''users'', ''invite''])"
  "route_key (ctl_myAgentToken E F) = (GET, [[], ''users'', ''me'', ''agent-token''])"
  "route_key (ctl_rotateMyAgentToken E F) = (POST, [[], ''users'', ''me'', ''agent-token'', ''rotate''])"
  "route_key (ctl_updateMember E F) = (PATCH, [[], ''users'', '':id''])"
  "route_key (ctl_deactivateMember E F) = (DELETE, [[], ''users'', '':id''])"
  "route_key (ctl_myOrg E F) = (GET, [[], ''organizations'', ''me''])"
  "route_key (ctl_updateMyOrg E F) = (PATCH, [[], ''organizations'', ''me''])"
  by (simp_all add: route_key_def us_route_defs)

lemmas us_hook_defs = useOrganization_def useUpdateOrganization_def useUsers_def useInviteUser_def
  usePersonalAgentToken_def useRotatePersonalAgentToken_def

datatype USQuery = QOrganization | QUsers

datatype USMutation = MUpdateOrg UpdateOrganizationDto | MInvite InviteUserDto | MRotate

fun us_query_hook :: "USQuery \<Rightarrow> us_body query_hook" where
  "us_query_hook QOrganization = useOrganization"
| "us_query_hook QUsers = useUsers"

fun us_mutation_hook :: "USMutation \<Rightarrow> us_body mutation_hook" where
  "us_mutation_hook (MUpdateOrg x0) = useUpdateOrganization x0"
| "us_mutation_hook (MInvite x0) = useInviteUser x0"
| "us_mutation_hook MRotate = useRotatePersonalAgentToken"

fun us_answer :: "'s users_env \<Rightarrow> fresh_values \<Rightarrow> User \<Rightarrow> USQuery \<Rightarrow> 's UsersService \<Rightarrow> us_result outcome" where
  "us_answer E F U QOrganization st = fst (map_result UOrg (organizations_findById (ue_orgs E) (u_organizationId
     U) (uv_orgs st), st))"
| "us_answer E F U QUsers st = Inr (members_json (users_findAll E (u_organizationId U) st))"

fun us_effect :: "'s users_env \<Rightarrow> fresh_values \<Rightarrow> User \<Rightarrow> USMutation \<Rightarrow> 's UsersService \<Rightarrow>
    us_result outcome \<times> 's UsersService" where
  "us_effect E F U (MUpdateOrg x0) st = map_result UOrg (apsnd (\<lambda>t. st\<lparr>uv_orgs := t\<rparr>)
     (organizations_update (ue_orgs E) (fv_now F) (u_organizationId U) x0 (uv_orgs st)))"
| "us_effect E F U (MInvite x0) st = map_result invited_json (users_invite E F (u_organizationId U) (u_id U) x0
     st)"
| "us_effect E F U MRotate st = map_result UToken (rotateAgentToken E (fv_now F) (fv_token F) (u_id U) st)"

text \<open>The ids in the paths, and the roles the routes ask for.\<close>

fun us_query_ids :: "USQuery \<Rightarrow> string list" where
  "us_query_ids QOrganization = []"
| "us_query_ids QUsers = []"

fun us_mutation_ids :: "USMutation \<Rightarrow> string list" where
  "us_mutation_ids (MUpdateOrg x0) = []"
| "us_mutation_ids (MInvite x0) = []"
| "us_mutation_ids MRotate = []"

fun us_query_roles :: "USQuery \<Rightarrow> UserRole set" where
  "us_query_roles QOrganization = UNIV"
| "us_query_roles QUsers = {ADMIN, MANAGER}"

fun us_mutation_roles :: "USMutation \<Rightarrow> UserRole set" where
  "us_mutation_roles (MUpdateOrg x0) = {ADMIN}"
| "us_mutation_roles (MInvite x0) = {ADMIN}"
| "us_mutation_roles MRotate = UNIV"

lemma us_query_served:
  assumes "\<forall>i \<in> set (us_query_ids q). uuid i \<and> i \<noteq> [] \<and> CHR 0x2F \<notin> set i"
  shows "if u_role U \<in> us_query_roles q
    then dispatch uuid (us_routes E F) U (qh_request (us_query_hook q)) st = (us_answer E F U q st, st)
    else \<exists>e. dispatch uuid (us_routes E F) U (qh_request (us_query_hook q)) st = (Inl (Forbidden e), st)"
  using assms
  by (cases q; simp add: us_routes_def route_match_def request_key_def us_hook_defs)
    (cases "u_role U"; simp add: serve_def roles_canActivate_def param_def query_param_def us_route_defs
      map_result_def ok_result_def split: sum.split)+

lemma us_mutation_served:
  assumes "\<forall>i \<in> set (us_mutation_ids m). uuid i \<and> i \<noteq> [] \<and> CHR 0x2F \<notin> set i"
  shows "if u_role U \<in> us_mutation_roles m
    then dispatch uuid (us_routes E F) U (hd (mh_requests (us_mutation_hook m))) st = us_effect E F U m st
    else \<exists>e. dispatch uuid (us_routes E F) U (hd (mh_requests (us_mutation_hook m))) st = (Inl (Forbidden e), st)"
  using assms
  by (cases m; simp add: us_routes_def route_match_def request_key_def us_hook_defs)
    (cases "u_role U"; simp add: serve_def roles_canActivate_def param_def ok_result_def us_route_defs)+

text \<open>
  The request of each hook is answered by the operation it is meant for, in the organisation of the
  signed-in user, when its ids are uuids and the user has the role; without the role it is refused
  and nothing changes.
\<close>

theorem us_hooks_reach:
  assumes p: "uuid_pipe uuid" and q: "\<forall>i \<in> set (us_query_ids q). uuid i" and m: "\<forall>i \<in> set (us_mutation_ids m). uuid i"
  shows "(let r = qh_request (us_query_hook q) in
      if u_role U \<in> us_query_roles q then dispatch uuid (us_routes E F) U r st = (us_answer E F U q st, st)
      else \<exists>e. dispatch uuid (us_routes E F) U r st = (Inl (Forbidden e), st)) \<and>
    (let r = hd (mh_requests (us_mutation_hook m)) in
      if u_role U \<in> us_mutation_roles m then dispatch uuid (us_routes E F) U r st = us_effect E F U m st
      else \<exists>e. dispatch uuid (us_routes E F) U r st = (Inl (Forbidden e), st))"
  using us_query_served [of q uuid U E F st] us_mutation_served [of m uuid U E F st] p q m
  unfolding Let_def uuid_pipe_def by blast

section \<open>The personal token and the password hash\<close>

text \<open>Reading the token, and rotating it, act on the caller only, whatever the role.\<close>

lemma personal_token_served:
  "dispatch uuid (us_routes E F) U (qh_request usePersonalAgentToken) st =
     map_result UToken (getOrGenerateAgentToken E (fv_now F) (fv_token F) (u_id U) st)"
  by (simp add: us_routes_def route_match_def request_key_def us_hook_defs)
    (simp add: serve_def roles_canActivate_def us_route_defs)

lemma hash_not_selected: "map_of (member_json u) ''passwordHash'' = None" "map_of (member_json u) ''agentToken'' = None"
  by (simp_all add: member_json_def)

text \<open>
  What the server tells of a member holds no password hash and no agent token, except the answer to an
  invitation, which is the saved row as it was created and holds the hash of the temporary password.
\<close>

lemma only_invitation_answers_hash:
  "json_member ''passwordHash'' (JObj (member_json u @ [(''deviceCount'', JNum n)])) = None"
  "updated_json u = UJson j \<Longrightarrow> json_member ''passwordHash'' j = None"
  "invited_json u = UJson j \<Longrightarrow> json_member ''passwordHash'' j = Some (JStr (u_passwordHash u))"
  by (auto simp: hash_not_selected map_add_def updated_json_def invited_json_def)

end
