(* ===== verification/BillingWeb.thy ===== *)
theory BillingWeb
  imports Billing HttpRoutes
begin

text \<open>
  Billing from the browser to the service: the routes of BillingController, all for administrators, and
  the hooks of hooks/use-organization.ts that ask for them. A body is one the ValidationPipe accepts. What
  Stripe does with the URLs the answers hold is outside.
\<close>

section \<open>The controller\<close>

datatype bi_body =
    CheckoutBody string int

datatype bi_result =
    BSub "Subscription option"
  | BUrl string
  | BInvoices "stripe_invoice list"

type_synonym bi_route = "(bi_body, BillingService, bi_result) route"

definition ctl_subscription :: "billing_env \<Rightarrow> api_call \<Rightarrow> bi_route" where
  "ctl_subscription E C = \<lparr>ro_method = GET, ro_path = ''/billing/subscription'', ro_roles = admins,
     ro_uuids = [], ro_handler = (\<lambda>user ps r st.
       ok_result BSub (getSubscription E (u_organizationId user) st, st))\<rparr>"

definition ctl_checkout :: "billing_env \<Rightarrow> api_call \<Rightarrow> bi_route" where
  "ctl_checkout E C = \<lparr>ro_method = POST, ro_path = ''/billing/checkout'', ro_roles = admins,
     ro_uuids = [], ro_handler = (\<lambda>user ps r st. case rq_body r of
       Some (CheckoutBody priceId seats) \<Rightarrow>
         map_result BUrl (createCheckoutSession E (tn_now C) (u_organizationId user) priceId seats st)
     | _ \<Rightarrow> (Inl missing_body, st))\<rparr>"

definition ctl_portal :: "billing_env \<Rightarrow> api_call \<Rightarrow> bi_route" where
  "ctl_portal E C = \<lparr>ro_method = POST, ro_path = ''/billing/portal'', ro_roles = admins,
     ro_uuids = [], ro_handler = (\<lambda>user ps r st.
       map_result BUrl (createPortalSession E (u_organizationId user) st, st))\<rparr>"

definition ctl_invoices :: "billing_env \<Rightarrow> api_call \<Rightarrow> bi_route" where
  "ctl_invoices E C = \<lparr>ro_method = GET, ro_path = ''/billing/invoices'', ro_roles = admins,
     ro_uuids = [], ro_handler = (\<lambda>user ps r st.
       ok_result BInvoices (getInvoices E (u_organizationId user) st, st))\<rparr>"

definition bi_routes :: "billing_env \<Rightarrow> api_call \<Rightarrow> bi_route list" where
  "bi_routes E C = [ctl_subscription E C, ctl_checkout E C, ctl_portal E C, ctl_invoices E C]"

section \<open>The hooks\<close>

definition useSubscription :: "bi_body query_hook" where
  "useSubscription =
     a_query [Key ''subscription''] ''/billing/subscription'' []"

definition useInvoices :: "bi_body query_hook" where
  "useInvoices =
     a_query [Key ''billing-invoices''] ''/billing/invoices'' []"

definition useCheckout :: "string \<Rightarrow> int \<Rightarrow> bi_body mutation_hook" where
  "useCheckout priceId seats = a_mutation POST ''/billing/checkout'' (Some (CheckoutBody priceId seats))
     []
     None (Some ''Failed to create checkout session. Please try again.'')"

section \<open>Every hook reaches its operation\<close>

lemmas bi_route_defs = ctl_subscription_def ctl_checkout_def ctl_portal_def ctl_invoices_def

lemma bi_route_keys [simp]:
  "route_key (ctl_subscription E C) = (GET, [[], ''billing'', ''subscription''])"
  "route_key (ctl_checkout E C) = (POST, [[], ''billing'', ''checkout''])"
  "route_key (ctl_portal E C) = (POST, [[], ''billing'', ''portal''])"
  "route_key (ctl_invoices E C) = (GET, [[], ''billing'', ''invoices''])"
  by (simp_all add: route_key_def bi_route_defs)

lemmas bi_hook_defs = useSubscription_def useInvoices_def useCheckout_def

datatype BIQuery = QSubscription | QInvoices

datatype BIMutation = MCheckout string int

fun bi_query_hook :: "BIQuery \<Rightarrow> bi_body query_hook" where
  "bi_query_hook QSubscription = useSubscription"
| "bi_query_hook QInvoices = useInvoices"

fun bi_mutation_hook :: "BIMutation \<Rightarrow> bi_body mutation_hook" where
  "bi_mutation_hook (MCheckout x0 x1) = useCheckout x0 x1"

fun bi_answer :: "billing_env \<Rightarrow> api_call \<Rightarrow> User \<Rightarrow> BIQuery \<Rightarrow> BillingService \<Rightarrow> bi_result outcome" where
  "bi_answer E C U QSubscription st = Inr (BSub (getSubscription E (u_organizationId U) st))"
| "bi_answer E C U QInvoices st = Inr (BInvoices (getInvoices E (u_organizationId U) st))"

fun bi_effect :: "billing_env \<Rightarrow> api_call \<Rightarrow> User \<Rightarrow> BIMutation \<Rightarrow> BillingService \<Rightarrow>
    bi_result outcome \<times> BillingService" where
  "bi_effect E C U (MCheckout x0 x1) st = map_result BUrl (createCheckoutSession E (tn_now C) (u_organizationId
     U) x0 x1 st)"

text \<open>The ids in the paths, and the roles the routes ask for.\<close>

fun bi_query_ids :: "BIQuery \<Rightarrow> string list" where
  "bi_query_ids QSubscription = []"
| "bi_query_ids QInvoices = []"

fun bi_mutation_ids :: "BIMutation \<Rightarrow> string list" where
  "bi_mutation_ids (MCheckout x0 x1) = []"

fun bi_query_roles :: "BIQuery \<Rightarrow> UserRole set" where
  "bi_query_roles QSubscription = {ADMIN}"
| "bi_query_roles QInvoices = {ADMIN}"

fun bi_mutation_roles :: "BIMutation \<Rightarrow> UserRole set" where
  "bi_mutation_roles (MCheckout x0 x1) = {ADMIN}"

lemma bi_query_served:
  assumes "\<forall>i \<in> set (bi_query_ids q). uuid i \<and> i \<noteq> [] \<and> CHR 0x2F \<notin> set i"
  shows "if u_role U \<in> bi_query_roles q
    then dispatch uuid (bi_routes E C) U (qh_request (bi_query_hook q)) st = (bi_answer E C U q st, st)
    else \<exists>e. dispatch uuid (bi_routes E C) U (qh_request (bi_query_hook q)) st = (Inl (Forbidden e), st)"
  using assms
  by (cases q; simp add: bi_routes_def route_match_def request_key_def bi_hook_defs)
    (cases "u_role U"; simp add: serve_def roles_canActivate_def param_def query_param_def bi_route_defs
      map_result_def ok_result_def split: sum.split)+

lemma bi_mutation_served:
  assumes "\<forall>i \<in> set (bi_mutation_ids m). uuid i \<and> i \<noteq> [] \<and> CHR 0x2F \<notin> set i"
  shows "if u_role U \<in> bi_mutation_roles m
    then dispatch uuid (bi_routes E C) U (hd (mh_requests (bi_mutation_hook m))) st = bi_effect E C U m st
    else \<exists>e. dispatch uuid (bi_routes E C) U (hd (mh_requests (bi_mutation_hook m))) st = (Inl (Forbidden e), st)"
  using assms
  by (cases m; simp add: bi_routes_def route_match_def request_key_def bi_hook_defs)
    (cases "u_role U"; simp add: serve_def roles_canActivate_def param_def ok_result_def bi_route_defs)+

text \<open>
  The request of each hook is answered by the operation it is meant for, in the organisation of the
  signed-in user, when its ids are uuids and the user has the role; without the role it is refused
  and nothing changes.
\<close>

theorem bi_hooks_reach:
  assumes p: "uuid_pipe uuid" and q: "\<forall>i \<in> set (bi_query_ids q). uuid i" and m: "\<forall>i \<in> set (bi_mutation_ids m). uuid i"
  shows "(let r = qh_request (bi_query_hook q) in
      if u_role U \<in> bi_query_roles q then dispatch uuid (bi_routes E C) U r st = (bi_answer E C U q st, st)
      else \<exists>e. dispatch uuid (bi_routes E C) U r st = (Inl (Forbidden e), st)) \<and>
    (let r = hd (mh_requests (bi_mutation_hook m)) in
      if u_role U \<in> bi_mutation_roles m then dispatch uuid (bi_routes E C) U r st = bi_effect E C U m st
      else \<exists>e. dispatch uuid (bi_routes E C) U r st = (Inl (Forbidden e), st))"
  using bi_query_served [of q uuid U E C st] bi_mutation_served [of m uuid U E C st] p q m
  unfolding Let_def uuid_pipe_def by blast

end
