(* ===== verification/AgentApi.thy ===== *)
theory AgentApi
  imports MonitorSvc HttpRoutes
begin

text \<open>
  The requests of the desktop agent, end to end: AgentController (modules/agent/agent.controller.ts) behind
  AgentAuthGuard, on the state of AgentService and LiveWatchCache. What the guard puts on the request
  is read back as the controller does, \<open>user.id\<close>, \<open>user.organizationId\<close> and \<open>device?.id\<close>; no handler reads
  anything else
  of them, so the other columns of \<open>agent_user\<close> are blank. Bodies are those the agent sends.
\<close>

section \<open>AgentController\<close>

datatype agent_request =
    Sync_activity "ActivityEventItemDto list"
  | Sync_keystrokes "KeystrokeEventItemDto list"
  | Upload_url
  | Save_screenshot SyncScreenshotDto
  | Sync_gps "GpsPointDto list"
  | Get_commands
  | Get_config
  | Send_heartbeat "bool option"
  | Sync_metrics "MetricsEventDto list"
  | Sync_telemetry SyncTelemetryDto

datatype agent_reply =
    Saved nat
  | Upload_to string string
  | Screenshot_row Screenshot
  | Commands bool
  | Config org_config
  | Agent_ok

record ('s, 'qa, 'qm, 'qk) agent_env =
  zq_guard :: "'s guard_env"
  zq_people :: "'s users_env"
  zq_parse :: "string \<Rightarrow> js_time option"
  zq_sdk :: storage_sdk
  zq_screens :: "Screenshot orm"
  zq_gps :: "GpsLocation orm"
  zq_telemetry :: "AgentTelemetry orm"
  zq_activity :: "(ActivityQueuePayload, 'qa) pgmq"
  zq_metrics :: "(MetricsQueuePayload, 'qm) pgmq"
  zq_keystrokes :: "(KeystrokesQueuePayload, 'qk) pgmq"

text \<open>The clock of a request and the ids the database generates for its rows.\<close>

record agent_call =
  zc_now :: js_time
  zc_id :: "nat \<Rightarrow> string"

record ('s, 'qa, 'qm, 'qk) AgentApi =
  zp_service :: "('s, 'qa, 'qm, 'qk) AgentService"
  zp_watch :: LiveWatchCache

definition json_text :: "string \<Rightarrow> json option \<Rightarrow> string" where
  "json_text k j = (case j of None \<Rightarrow> [] | Some v \<Rightarrow> (case read_property k v of Some (JStr s) \<Rightarrow> s | _ \<Rightarrow> []))"

definition agent_user :: "json option \<Rightarrow> User" where
  "agent_user j = new_user 0 (json_text ''id'' j) (json_text ''organizationId'' j) [] [] [] [] EMPLOYEE None"

definition agent_device :: "json option \<Rightarrow> string option" where
  "agent_device j = (case j of None \<Rightarrow> None | Some v \<Rightarrow> (case read_property ''id'' v of Some (JStr s) \<Rightarrow> Some s | _ \<Rightarrow> None))"

definition on_service ::
  "('a \<Rightarrow> agent_reply) \<Rightarrow> 'a outcome \<times> ('s, 'qa, 'qm, 'qk) AgentService \<Rightarrow> ('s, 'qa, 'qm, 'qk) AgentApi \<Rightarrow>
   agent_reply outcome \<times> ('s, 'qa, 'qm, 'qk) AgentApi" where
  "on_service f r st = (case fst r of Inl e \<Rightarrow> Inl e | Inr x \<Rightarrow> Inr (f x), st\<lparr>zp_service := snd r\<rparr>)"

fun agent_handle ::
  "('s, 'qa, 'qm, 'qk) agent_env \<Rightarrow> agent_call \<Rightarrow> User \<Rightarrow> string option \<Rightarrow> agent_request \<Rightarrow>
   ('s, 'qa, 'qm, 'qk) AgentApi \<Rightarrow> agent_reply outcome \<times> ('s, 'qa, 'qm, 'qk) AgentApi" where
  "agent_handle E C user device (Sync_activity events) st = on_service Saved
     (apfst Inr (saveActivities (zq_activity E) (zq_parse E) user events device (zp_service st))) st"
| "agent_handle E C user device (Sync_keystrokes events) st = on_service Saved
     (apfst Inr (saveKeystrokes (zq_keystrokes E) user events (zp_service st))) st"
| "agent_handle E C user device Upload_url st = on_service (\<lambda>(url, key). Upload_to url key)
     (generateUploadUrl (zq_sdk E) (zc_now C) user (ag_storage (zp_service st)), zp_service st) st"
| "agent_handle E C user device (Save_screenshot dto) st = on_service Screenshot_row
     (saveScreenshot (zq_sdk E) (zq_parse E) (zq_screens E) (zc_now C) (zc_id C 0) user dto device (zp_service st)) st"
| "agent_handle E C user device (Sync_gps points) st = on_service Saved
     (saveGpsLocations (zq_parse E) (zq_gps E) (zc_now C) (map (zc_id C) [0..<length points]) user points
        (zp_service st)) st"
| "agent_handle E C user device Get_commands st =
     (case getCommands (zc_now C) (u_id user) device (zp_watch st) of
        (liveView, w) \<Rightarrow> (Inr (Commands liveView), st\<lparr>zp_watch := w\<rparr>))"
| "agent_handle E C user device Get_config st =
     (Inr (Config (getOrgConfig (zq_people E) (u_organizationId user) (zp_service st))), st)"
| "agent_handle E C user device (Send_heartbeat idle) st = on_service (\<lambda>_. Agent_ok)
     (Inr (), recordHeartbeat (zc_now C) user idle device (zp_service st)) st"
| "agent_handle E C user device (Sync_metrics events) st = on_service (\<lambda>_. Agent_ok)
     (Inr (), saveMetrics (zq_metrics E) user events (zp_service st)) st"
| "agent_handle E C user device (Sync_telemetry dto) st = on_service (\<lambda>_. Agent_ok)
     (Inr (), saveTelemetry (zq_telemetry E) (zc_now C) (zc_id C 0) user dto (zp_service st)) st"

abbreviation api_kv :: "('s, 'qa, 'qm, 'qk) AgentApi \<Rightarrow> 's" where
  "api_kv st \<equiv> uv_kv (ag_people (zp_service st))"

abbreviation api_devices :: "('s, 'qa, 'qm, 'qk) AgentApi \<Rightarrow> AgentDevice list" where
  "api_devices st \<equiv> uv_devices (ag_people (zp_service st))"

abbreviation api_users :: "('s, 'qa, 'qm, 'qk) AgentApi \<Rightarrow> User list" where
  "api_users st \<equiv> uv_users (ag_people (zp_service st))"

definition with_people ::
  "('s UsersService \<Rightarrow> 's UsersService) \<Rightarrow> ('s, 'qa, 'qm, 'qk) AgentApi \<Rightarrow> ('s, 'qa, 'qm, 'qk) AgentApi" where
  "with_people f st = st\<lparr>zp_service := (zp_service st)\<lparr>ag_people := f (ag_people (zp_service st))\<rparr>\<rparr>"

definition agent_api ::
  "('s, 'qa, 'qm, 'qk) agent_env \<Rightarrow> agent_call \<Rightarrow> string option \<times> string option \<Rightarrow> agent_request \<Rightarrow>
   ('s, 'qa, 'qm, 'qk) AgentApi \<Rightarrow> agent_reply outcome \<times> ('s, 'qa, 'qm, 'qk) AgentApi" where
  "agent_api E C headers req st =
     (case agent_canActivate (zq_guard E) (zc_now C) headers (api_devices st) (api_users st) (api_kv st) of
        (Inl e, kv) \<Rightarrow> (Inl e, with_people (\<lambda>w. w\<lparr>uv_kv := kv\<rparr>) st)
      | (Inr (user, device), kv) \<Rightarrow> agent_handle E C (agent_user user) (agent_device device) req
          (with_people (\<lambda>w. w\<lparr>uv_kv := kv\<rparr>) st))"

section \<open>What a request leaves behind\<close>

lemma with_people_simps [simp]:
  "zp_watch (with_people f st) = zp_watch st" "ag_people (zp_service (with_people f st)) = f (ag_people (zp_service st))"
  "ag_gps (zp_service (with_people f st)) = ag_gps (zp_service st)"
  "ag_screenshots (zp_service (with_people f st)) = ag_screenshots (zp_service st)"
  "ag_telemetry (zp_service (with_people f st)) = ag_telemetry (zp_service st)"
  "ag_activityQueue (zp_service (with_people f st)) = ag_activityQueue (zp_service st)"
  "ag_metricsQueue (zp_service (with_people f st)) = ag_metricsQueue (zp_service st)"
  "ag_keystrokesQueue (zp_service (with_people f st)) = ag_keystrokesQueue (zp_service st)"
  by (simp_all add: with_people_def)

lemma agent_user_compact [simp]:
  "u_id (agent_user (Some (compact_user u))) = u_id u"
  "u_organizationId (agent_user (Some (compact_user u))) = u_organizationId u"
  "agent_device (Some (compact_device d)) = Some (ad_id d)"
  by (simp_all add: agent_user_def new_user_def json_text_def read_property_def compact_user_def
      agent_device_def compact_device_def)

lemma snd_on_service [simp]: "snd (on_service f r st) = st\<lparr>zp_service := snd r\<rparr>"
  by (simp add: on_service_def)

lemmas agent_service_defs = saveActivities_def saveKeystrokes_def saveMetrics_def saveScreenshot_def
  saveGpsLocations_def saveTelemetry_def recordHeartbeat_def

lemma handle_people: "ag_people (zp_service (snd (agent_handle E C user device req st))) = ag_people (zp_service st)"
  by (cases req) (simp_all add: agent_service_defs Let_def split: option.split prod.split)

text \<open>A handler reads the id and the organisation of the user only.\<close>

lemma gps_row_cong: "u_id a = u_id b \<Longrightarrow> u_organizationId a = u_organizationId b \<Longrightarrow> gps_row D now a = gps_row D now b"
  by (auto simp: gps_row_def split: option.split)

lemma handle_user_cong:
  assumes "u_id a = u_id b" and "u_organizationId a = u_organizationId b"
  shows "agent_handle E C a device req st = agent_handle E C b device req st"
  using assms
  by (cases req) (simp_all add: agent_service_defs activity_payload_def generateUploadUrl_def screenshot_key_def
      gps_row_cong [OF assms] Let_def cong: option.case_cong)

text \<open>What third-party code promises: the tables, the key-value store and the three queues.\<close>

definition agent_laws ::
  "('s, 'qa, 'qm, 'qk) agent_env \<Rightarrow> (js_time \<Rightarrow> string \<Rightarrow> 's \<Rightarrow> string option) \<Rightarrow>
   ('qa \<Rightarrow> (int \<times> ActivityQueuePayload) list) \<Rightarrow> ('qm \<Rightarrow> (int \<times> MetricsQueuePayload) list) \<Rightarrow>
   ('qk \<Rightarrow> (int \<times> KeystrokesQueuePayload) list) \<Rightarrow> bool" where
  "agent_laws E live qa qm qk \<longleftrightarrow>
     repository (ga_devices (zq_guard E)) ad_id \<and> repository (ga_users (zq_guard E)) u_id \<and>
     repository (zq_screens E) ss_id \<and> repository (zq_gps E) gl_id \<and> repository (zq_telemetry E) at_id \<and>
     kv_store (ga_kv (zq_guard E)) live \<and>
     (\<exists>h. pgmq_queue (zq_activity E) ''agent_activity'' qa h) \<and>
     (\<exists>h. pgmq_queue (zq_metrics E) ''agent_metrics'' qm h) \<and>
     (\<exists>h. pgmq_queue (zq_keystrokes E) ''agent_keystrokes'' qk h)"

text \<open>The user and the organisation of a registered device.\<close>

definition device_owner :: "AgentDevice list \<Rightarrow> User list \<Rightarrow> string \<Rightarrow> string \<Rightarrow> bool" where
  "device_owner devices users uid org \<longleftrightarrow> (\<exists>d \<in> set devices. \<exists>u \<in> set users.
     ad_userId d = uid \<and> u_id u = uid \<and> u_organizationId u = org)"

definition rows_owned ::
  "('qa \<Rightarrow> (int \<times> ActivityQueuePayload) list) \<Rightarrow> ('qm \<Rightarrow> (int \<times> MetricsQueuePayload) list) \<Rightarrow>
   ('qk \<Rightarrow> (int \<times> KeystrokesQueuePayload) list) \<Rightarrow> ('s, 'qa, 'qm, 'qk) AgentApi \<Rightarrow> bool" where
  "rows_owned qa qm qk st \<longleftrightarrow> (let own = device_owner (api_devices st) (api_users st); s = zp_service st in
     (\<forall>g \<in> set (ag_gps s). own (gl_userId g) (gl_organizationId g)) \<and>
     (\<forall>x \<in> set (ag_screenshots s). own (ss_userId x) (ss_organizationId x)) \<and>
     (\<forall>t \<in> set (ag_telemetry s). own (at_userId t) (at_organizationId t)) \<and>
     (\<forall>(i, p) \<in> set (qa (ag_activityQueue s)). own (aq_userId p) (aq_organizationId p)) \<and>
     (\<forall>(i, p) \<in> set (qm (ag_metricsQueue s)). own (mq_userId p) (mq_organizationId p)) \<and>
     (\<forall>(i, p) \<in> set (qk (ag_keystrokesQueue s)). own (kq_userId p) (kq_organizationId p)))"

lemma save_set: "repository R key \<Longrightarrow> set (orm_save R e t) = {r \<in> set t. key r \<noteq> key e} \<union> {e}"
proof -
  assume "repository R key"
  then have "set_mset (mset (orm_save R e t)) = set_mset (filter_mset (\<lambda>r. key r \<noteq> key e) (mset t) + {#e#})"
    by (simp add: repository.save_rows)
  then show ?thesis by simp
qed

lemma save_all_subset: "repository R key \<Longrightarrow> set (save_all R es t) \<subseteq> set t \<union> set es"
proof (induction es arbitrary: t)
  case (Cons e es)
  have "set (save_all R es (orm_save R e t)) \<subseteq> set (orm_save R e t) \<union> set es" by (rule Cons.IH [OF Cons.prems])
  then show ?case using save_set [OF Cons.prems, of e t] by (auto simp: save_all_def)
qed (simp add: save_all_def)

lemma sent_contents: "pgmq_queue P name contents h \<Longrightarrow>
    set (contents (snd (queue_enqueue P name m q))) = insert (fst (pg_send P name m q), m) (set (contents q))"
  by (simp add: queue_enqueue_def pgmq_queue.send)

lemma gps_rows_owner:
  "all_rows (gps_row D now user) xs = Some rows \<Longrightarrow> g \<in> set rows \<Longrightarrow>
    gl_userId g = u_id user \<and> gl_organizationId g = u_organizationId user"
  by (drule (1) all_rows_set) (auto simp: gps_row_def split: option.splits)

text \<open>A handler called for the owner of a device keeps every row with an owner.\<close>

lemma handle_rows_owned:
  assumes L: "agent_laws E live qa qm qk" and own: "device_owner (api_devices st) (api_users st) (u_id user) (u_organizationId user)"
    and rows: "rows_owned qa qm qk st"
  shows "rows_owned qa qm qk (snd (agent_handle E C user device req st))"
proof -
  have R: "repository (zq_screens E) ss_id" "repository (zq_gps E) gl_id" "repository (zq_telemetry E) at_id"
    using L by (simp_all add: agent_laws_def)
  obtain ha hm hk where Q: "pgmq_queue (zq_activity E) ''agent_activity'' qa ha"
      "pgmq_queue (zq_metrics E) ''agent_metrics'' qm hm" "pgmq_queue (zq_keystrokes E) ''agent_keystrokes'' qk hk"
    using L by (auto simp: agent_laws_def)
  show ?thesis
  proof (cases req)
    case (Sync_activity events)
    then show ?thesis using own rows sent_contents [OF Q(1)]
      by (auto simp: rows_owned_def Let_def saveActivities_def activity_enqueue_def activity_payload_def)
  next
    case (Sync_keystrokes events)
    then show ?thesis using own rows sent_contents [OF Q(3)]
      by (auto simp: rows_owned_def Let_def saveKeystrokes_def keystrokes_enqueue_def)
  next
    case (Sync_metrics events)
    then show ?thesis using own rows sent_contents [OF Q(2)]
      by (auto simp: rows_owned_def Let_def saveMetrics_def metrics_enqueue_def)
  next
    case (Save_screenshot dto)
    then show ?thesis using own rows
      by (auto simp: rows_owned_def Let_def saveScreenshot_def save_set [OF R(1)] split: option.split)
  next
    case (Sync_gps points)
    then show ?thesis using own rows save_all_subset [OF R(2)]
      by (fastforce simp: rows_owned_def Let_def saveGpsLocations_def split: option.split dest: gps_rows_owner)
  next
    case (Sync_telemetry dto)
    then show ?thesis using own rows
      by (auto simp: rows_owned_def Let_def saveTelemetry_def save_set [OF R(3)])
  next
    case (Send_heartbeat idle)
    then show ?thesis using rows by (simp add: rows_owned_def Let_def recordHeartbeat_def)
  qed (use rows in \<open>simp_all add: rows_owned_def Let_def split: prod.split\<close>)
qed

section \<open>The identity in the cache\<close>

definition identity_text :: "User \<Rightarrow> AgentDevice \<Rightarrow> string" where
  "identity_text u d = stringify (JObj [(''user'', compact_user u), (''device'', compact_device d)])"

text \<open>The device of a token and its owner, as the tables have them now.\<close>

definition vouched :: "AgentDevice list \<Rightarrow> User list \<Rightarrow> string \<Rightarrow> User \<Rightarrow> AgentDevice \<Rightarrow> bool" where
  "vouched devices users tok u0 d0 \<longleftrightarrow> (\<exists>d \<in> set devices. \<exists>u \<in> set users. ad_deviceToken d = tok \<and>
     ad_id d = ad_id d0 \<and> ad_userId d = u_id u0 \<and> u_id u = u_id u0 \<and> u_organizationId u = u_organizationId u0)"

definition honest :: "(js_time \<Rightarrow> string \<Rightarrow> 's \<Rightarrow> string option) \<Rightarrow> js_time \<Rightarrow> AgentDevice list \<Rightarrow> User list \<Rightarrow> 's \<Rightarrow> bool" where
  "honest live t devices users kv \<longleftrightarrow> (\<forall>t' tok c. t \<le> t' \<and> live t' (agent_cache_key tok) kv = Some c \<longrightarrow>
     (\<exists>u0 d0. c = identity_text u0 d0 \<and> vouched devices users tok u0 d0))"

lemma read_identity: "read_cached (Some (identity_text u d)) = Some (Some (compact_user u), Some (compact_device d))"
  unfolding identity_text_def by (rule read_cached_written)

lemma honestD:
  "honest live t devices users kv \<Longrightarrow> t \<le> t' \<Longrightarrow> live t' (agent_cache_key tok) kv = Some c \<Longrightarrow>
    \<exists>u0 d0. c = identity_text u0 d0 \<and> vouched devices users tok u0 d0"
  unfolding honest_def by blast

lemma honest_later: "honest live t devices users kv \<Longrightarrow> t \<le> now \<Longrightarrow> honest live now devices users kv"
  unfolding honest_def by (meson order_trans)

text \<open>What the guard does with a token, by what the cache and the tables say.\<close>

lemma guard_cases:
  fixes devices users
  defines "found G tok \<equiv> \<lambda>d u. findDeviceByToken (ga_devices G) tok devices = Some d \<and>
      find_one (ga_users G) (\<lambda>u. u_id u = ad_userId d) users = Some u \<and> u_isActive u"
  assumes "device_token_of (fst headers) (snd headers) = Some tok" and "tok \<noteq> []"
    and "kv_get (ga_kv G) now (agent_cache_key tok) kv = (cached, kv1)"
  shows "cached = Some (identity_text u0 d0) \<Longrightarrow> agent_canActivate G now headers devices users kv =
      (Inr (Some (compact_user u0), Some (compact_device d0)), kv1)"
    and "cached = None \<Longrightarrow> found G tok d u \<Longrightarrow> agent_canActivate G now headers devices users kv =
      (Inr (Some (compact_user u), Some (compact_device d)),
       kv_set (ga_kv G) now (agent_cache_key tok) (identity_text u d) (Some CACHE_TTL_SECONDS) kv1)"
    and "cached = None \<Longrightarrow> \<nexists>d u. found G tok d u \<Longrightarrow>
      \<exists>e. agent_canActivate G now headers devices users kv = (Inl e, kv1)"
  using assms(2-) unfolding found_def
  by (auto simp: agent_canActivate_def Let_def read_identity identity_text_def [symmetric] read_cached_def [of None]
      simp del: stringify.simps split: option.split)

lemma found_vouched:
  assumes "repository (ga_devices G) ad_id" and "repository (ga_users G) u_id"
    and "findDeviceByToken (ga_devices G) tok devices = Some d"
    and "find_one (ga_users G) (\<lambda>u. u_id u = ad_userId d) users = Some u"
  shows "vouched devices users tok u d"
  using assms(3,4) repository.find_one_SomeD [OF assms(1)] repository.find_one_SomeD [OF assms(2)]
  by (fastforce simp: findDeviceByToken_def vouched_def)

text \<open>One call of the guard keeps the cache honest, and the identity it finds is that of the token's device.\<close>

lemma guard_identity:
  assumes R: "repository (ga_devices G) ad_id" "repository (ga_users G) u_id" and S: "kv_store (ga_kv G) live"
    and H: "honest live t devices users kv" and t: "t \<le> now"
  shows "honest live now devices users (snd (agent_canActivate G now headers devices users kv)) \<and>
    (\<forall>user device. fst (agent_canActivate G now headers devices users kv) = Inr (user, device) \<longrightarrow>
      (\<exists>tok u0 d0. device_token_of (fst headers) (snd headers) = Some tok \<and> user = Some (compact_user u0) \<and>
        device = Some (compact_device d0) \<and> vouched devices users tok u0 d0))"
proof (cases "falsy_str (device_token_of (fst headers) (snd headers))")
  case True
  then show ?thesis using honest_later [OF H t] by (simp add: agent_canActivate_def)
next
  case False
  then obtain tok where tok: "device_token_of (fst headers) (snd headers) = Some tok" "tok \<noteq> []"
    by (cases "device_token_of (fst headers) (snd headers)") auto
  obtain cached kv1 where g: "kv_get (ga_kv G) now (agent_cache_key tok) kv = (cached, kv1)" by fastforce
  have l: "cached = live now (agent_cache_key tok) kv" using kv_store.get_live [OF S, of now _ kv] g by (metis fst_conv)
  have kv1: "honest live now devices users kv1"
    using honest_later [OF H t] kv_store.get_frame [OF S, of now _ _ "agent_cache_key tok" kv] g
    by (auto simp: honest_def)
  note parts = guard_cases [OF tok g, where devices = devices and users = users]
  show ?thesis
  proof (cases cached)
    case (Some c)
    then obtain u0 d0 where c: "cached = Some (identity_text u0 d0)" "vouched devices users tok u0 d0"
      using honestD [OF H t] l by metis
    then show ?thesis using parts(1) [OF c(1)] kv1 tok(1) by auto
  next
    case None
    show ?thesis
    proof (cases "\<exists>d u. findDeviceByToken (ga_devices G) tok devices = Some d \<and>
        find_one (ga_users G) (\<lambda>u. u_id u = ad_userId d) users = Some u \<and> u_isActive u")
      case True
      then obtain d u where f: "findDeviceByToken (ga_devices G) tok devices = Some d \<and>
          find_one (ga_users G) (\<lambda>u. u_id u = ad_userId d) users = Some u \<and> u_isActive u" by blast
      then have v: "vouched devices users tok u d" by (intro found_vouched [OF R]) auto
      have "honest live now devices users
          (kv_set (ga_kv G) now (agent_cache_key tok) (identity_text u d) (Some CACHE_TTL_SECONDS) kv1)"
        using kv1 v kv_store.set_live [OF S] by (auto simp: honest_def split: if_splits) blast
      then show ?thesis using parts(2) [OF None f] v tok(1) by auto
    next
      case False
      then show ?thesis using parts(3) [OF None] kv1 by auto
    qed
  qed
qed

section \<open>Sequences of requests\<close>

text \<open>
  Between the requests of agents the tables of devices and users may change in any way in which a
  registered device keeps its token and its owner, and the owner the organisation: devices are
  registered and revoked, members join, are deactivated and change roles.
\<close>

datatype agent_event =
    Request agent_call "string option \<times> string option" agent_request
  | Tables "AgentDevice list" "User list"

definition tables_persist :: "AgentDevice list \<Rightarrow> User list \<Rightarrow> AgentDevice list \<Rightarrow> User list \<Rightarrow> bool" where
  "tables_persist ds us ds' us' \<longleftrightarrow>
     (\<forall>d \<in> set ds. \<exists>d' \<in> set ds'. ad_id d' = ad_id d \<and> ad_deviceToken d' = ad_deviceToken d \<and> ad_userId d' = ad_userId d) \<and>
     (\<forall>u \<in> set us. \<exists>u' \<in> set us'. u_id u' = u_id u \<and> u_organizationId u' = u_organizationId u)"

fun agent_event_step ::
  "('s, 'qa, 'qm, 'qk) agent_env \<Rightarrow> agent_event \<Rightarrow> ('s, 'qa, 'qm, 'qk) AgentApi \<Rightarrow> ('s, 'qa, 'qm, 'qk) AgentApi" where
  "agent_event_step E (Request C headers req) st = snd (agent_api E C headers req st)"
| "agent_event_step E (Tables ds us) st = with_people (\<lambda>w. w\<lparr>uv_devices := ds, uv_users := us\<rparr>) st"

fun agent_valid ::
  "('s, 'qa, 'qm, 'qk) agent_env \<Rightarrow> js_time \<Rightarrow> agent_event list \<Rightarrow> ('s, 'qa, 'qm, 'qk) AgentApi \<Rightarrow> bool" where
  "agent_valid E t [] st \<longleftrightarrow> True"
| "agent_valid E t (e # es) st \<longleftrightarrow> (case e of Request C headers req \<Rightarrow> t \<le> zc_now C
      | Tables ds us \<Rightarrow> tables_persist (api_devices st) (api_users st) ds us) \<and>
    agent_valid E (case e of Request C headers req \<Rightarrow> zc_now C | Tables ds us \<Rightarrow> t) es (agent_event_step E e st)"

fun agent_time :: "js_time \<Rightarrow> agent_event list \<Rightarrow> js_time" where
  "agent_time t [] = t"
| "agent_time t (Request C headers req # es) = agent_time (zc_now C) es"
| "agent_time t (Tables ds us # es) = agent_time t es"

definition agent_runs ::
  "('s, 'qa, 'qm, 'qk) agent_env \<Rightarrow> agent_event list \<Rightarrow> ('s, 'qa, 'qm, 'qk) AgentApi \<Rightarrow> ('s, 'qa, 'qm, 'qk) AgentApi" where
  "agent_runs E es st = fold (agent_event_step E) es st"

lemma vouched_owner: "vouched ds us tok u0 d0 \<Longrightarrow> device_owner ds us (u_id u0) (u_organizationId u0)"
  by (auto simp: vouched_def device_owner_def)

lemma persist_owner: "tables_persist ds us ds' us' \<Longrightarrow> device_owner ds us uid org \<Longrightarrow> device_owner ds' us' uid org"
  by (fastforce simp: tables_persist_def device_owner_def)

lemma persist_vouched: "tables_persist ds us ds' us' \<Longrightarrow> vouched ds us tok u0 d0 \<Longrightarrow> vouched ds' us' tok u0 d0"
  by (fastforce simp: tables_persist_def vouched_def)

lemma agent_api_cases:
  defines "c E C headers st \<equiv> agent_canActivate (zq_guard E) (zc_now C) headers (api_devices st) (api_users st) (api_kv st)"
  shows "fst (c E C headers st) = Inl e \<Longrightarrow>
      agent_api E C headers req st = (Inl e, with_people (\<lambda>w. w\<lparr>uv_kv := snd (c E C headers st)\<rparr>) st)"
    and "fst (c E C headers st) = Inr (user, device) \<Longrightarrow>
      agent_api E C headers req st = agent_handle E C (agent_user user) (agent_device device) req
        (with_people (\<lambda>w. w\<lparr>uv_kv := snd (c E C headers st)\<rparr>) st)"
  unfolding c_def agent_api_def by (auto split: prod.split)

lemma request_keeps:
  assumes L: "agent_laws E live qa qm qk" and H: "honest live t (api_devices st) (api_users st) (api_kv st)"
    and t: "t \<le> zc_now C" and rows: "rows_owned qa qm qk st"
  shows "honest live (zc_now C) (api_devices st) (api_users st) (api_kv (snd (agent_api E C headers req st))) \<and>
    api_devices (snd (agent_api E C headers req st)) = api_devices st \<and>
    api_users (snd (agent_api E C headers req st)) = api_users st \<and>
    rows_owned qa qm qk (snd (agent_api E C headers req st))"
proof -
  have G: "repository (ga_devices (zq_guard E)) ad_id" "repository (ga_users (zq_guard E)) u_id"
      "kv_store (ga_kv (zq_guard E)) live" using L by (simp_all add: agent_laws_def)
  let ?c = "agent_canActivate (zq_guard E) (zc_now C) headers (api_devices st) (api_users st) (api_kv st)"
  let ?st = "with_people (\<lambda>w. w\<lparr>uv_kv := snd ?c\<rparr>) st"
  note g = guard_identity [OF G H t, of headers]
  have r: "rows_owned qa qm qk ?st" using rows by (simp add: rows_owned_def Let_def)
  show ?thesis
  proof (cases "fst ?c")
    case (Inl e)
    then have "agent_api E C headers req st = (Inl e, ?st)" by (rule agent_api_cases)
    then show ?thesis using r g by simp
  next
    case (Inr ident)
    obtain user device where i: "ident = (user, device)" by fastforce
    have a: "agent_api E C headers req st = agent_handle E C (agent_user user) (agent_device device) req ?st"
      by (rule agent_api_cases) (use Inr i in simp)
    obtain tok u0 d0 where v: "user = Some (compact_user u0)" "vouched (api_devices st) (api_users st) tok u0 d0"
      using g Inr i by blast
    have own: "device_owner (api_devices ?st) (api_users ?st) (u_id (agent_user user)) (u_organizationId (agent_user user))"
      using vouched_owner [OF v(2)] v(1) by simp
    show ?thesis unfolding a using handle_rows_owned [OF L own r] g by (simp add: handle_people)
  qed
qed

lemma runs_keep:
  assumes L: "agent_laws E live qa qm qk" and "honest live t (api_devices st) (api_users st) (api_kv st)"
    and "rows_owned qa qm qk st" and "agent_valid E t es st"
  shows "rows_owned qa qm qk (agent_runs E es st) \<and> honest live (agent_time t es) (api_devices (agent_runs E es st))
    (api_users (agent_runs E es st)) (api_kv (agent_runs E es st))"
  using assms(2-)
proof (induction es arbitrary: t st)
  case Nil
  then show ?case by (auto simp: agent_runs_def)
next
  case (Cons e es)
  show ?case
  proof (cases e)
    case (Request C headers req)
    then have "t \<le> zc_now C" "agent_valid E (zc_now C) es (snd (agent_api E C headers req st))"
      using Cons.prems(3) by simp_all
    then show ?thesis
      using Cons.IH [of "zc_now C" "snd (agent_api E C headers req st)"] Request
        request_keeps [OF L Cons.prems(1) _ Cons.prems(2), of C headers req]
      by (simp add: agent_runs_def)
  next
    case (Tables ds us)
    let ?st = "with_people (\<lambda>w. w\<lparr>uv_devices := ds, uv_users := us\<rparr>) st"
    have p: "tables_persist (api_devices st) (api_users st) ds us" and v: "agent_valid E t es ?st"
      using Cons.prems(3) Tables by simp_all
    have "honest live t (api_devices ?st) (api_users ?st) (api_kv ?st)"
      using Cons.prems(1) persist_vouched [OF p] unfolding honest_def by (simp; metis)
    moreover have "rows_owned qa qm qk ?st"
      using Cons.prems(2) persist_owner [OF p] by (auto simp: rows_owned_def Let_def)
    ultimately show ?thesis using Cons.IH [OF _ _ v] Tables by (simp add: agent_runs_def)
  qed
qed

text \<open>
  C35. Whatever agents send, whatever the bodies say, and however devices are registered and revoked in
  between, every GPS point, screenshot and telemetry row, and every batch in the three queues, carries
  the user and the organisation of a registered device; a request with a token that no device has is
  refused and leaves all of them as they are.
\<close>

theorem agent_rows_owned:
  assumes L: "agent_laws E live qa qm qk" and H: "honest live t (api_devices st) (api_users st) (api_kv st)"
    and rows: "rows_owned qa qm qk st" and valid: "agent_valid E t es st" and time: "agent_time t es \<le> zc_now C"
    and tok: "device_token_of (fst headers) (snd headers) = Some tok"
    and unknown: "tok \<notin> ad_deviceToken ` set (api_devices (agent_runs E es st))"
  shows "rows_owned qa qm qk (agent_runs E es st) \<and>
    (let (res, st') = agent_api E C headers req (agent_runs E es st) in
      (\<exists>e. res = Inl (Unauthorized e)) \<and> st' = with_people (\<lambda>w. w\<lparr>uv_kv := api_kv st'\<rparr>) (agent_runs E es st))"
proof -
  let ?s = "agent_runs E es st"
  have k: "rows_owned qa qm qk ?s" "honest live (agent_time t es) (api_devices ?s) (api_users ?s) (api_kv ?s)"
    using runs_keep [OF L H rows valid] by blast+
  have G: "repository (ga_devices (zq_guard E)) ad_id" "repository (ga_users (zq_guard E)) u_id"
      "kv_store (ga_kv (zq_guard E)) live" using L by (simp_all add: agent_laws_def)
  let ?c = "agent_canActivate (zq_guard E) (zc_now C) headers (api_devices ?s) (api_users ?s) (api_kv ?s)"
  have "fst ?c \<noteq> Inr (user, device)" for user device
    using guard_identity [OF G k(2) time, of headers] tok unknown by (auto simp: vouched_def)
  then obtain e where e: "fst ?c = Inl e" by (cases "fst ?c") auto
  then have "\<exists>m. e = Unauthorized m"
    by (auto simp: agent_canActivate_def Let_def split: if_splits option.splits prod.splits)
  moreover have "agent_api E C headers req ?s = (Inl e, with_people (\<lambda>w. w\<lparr>uv_kv := snd ?c\<rparr>) ?s)"
    using e by (rule agent_api_cases)
  ultimately show ?thesis using k(1) by auto
qed

lemma api_tables:
  "api_devices (snd (agent_api E C headers req st)) = api_devices st"
  by (simp add: agent_api_def handle_people split: prod.split sum.split)

text \<open>Tables, a key-value store and queues in memory; the laptop of the demonstration is registered, sends a point and is asked about.\<close>

definition memory_agent ::
  "((string \<rightharpoonup> MemEntry) RedisService, ActivityQueuePayload slots, MetricsQueuePayload slots,
    KeystrokesQueuePayload slots) agent_env" where
  "memory_agent = \<lparr>zq_guard = guard_list, zq_people = list_users_env id file_kv, zq_parse = (\<lambda>s. Some 0),
     zq_sdk = plain_sdk, zq_screens = typeorm_list ss_id, zq_gps = typeorm_list gl_id,
     zq_telemetry = typeorm_list at_id, zq_activity = memory_pgmq, zq_metrics = memory_pgmq,
     zq_keystrokes = memory_pgmq\<rparr>"

definition idle_api ::
  "((string \<rightharpoonup> MemEntry) RedisService, ActivityQueuePayload slots, MetricsQueuePayload slots,
    KeystrokesQueuePayload slots) AgentApi" where
  "idle_api = \<lparr>zp_service = \<lparr>ag_people = \<lparr>uv_users = [], uv_orgs = [], uv_devices = [], uv_audit = [],
       uv_kv = empty_redis, uv_mail = []\<rparr>, ag_screenshots = [], ag_gps = [], ag_telemetry = [],
     ag_heartbeats = \<lparr>hb_pending = []\<rparr>, ag_activityQueue = [], ag_metricsQueue = [],
     ag_keystrokesQueue = [], ag_monitor = empty_monitor, ag_storage = no_storage,
     ag_supaBuckets = [], ag_s3Objects = {}, ag_files = (\<lambda>f. [])\<rparr>, zp_watch = \<lparr>lw_store = Map.empty\<rparr>\<rparr>"

definition laptop_events :: "agent_event list" where
  "laptop_events = [Tables [laptop_row] [plain_user],
     Request \<lparr>zc_now = 5, zc_id = (\<lambda>n. ''g'')\<rparr> (Some ''Bearer dt'', None)
       (Sync_gps [\<lparr>pt_lat = 0, pt_lng = 0, pt_accuracy = None, pt_batteryLevel = None, pt_recordedAt = ''now''\<rparr>])]"

lemma memory_agent_laws: "agent_laws memory_agent (redis_live mem_live) (live_from 0) (live_from 0) (live_from 0)"
  by (simp add: agent_laws_def memory_agent_def guard_list_def map_server.served_store)
    (intro conjI exI [of _ "hidden_from 0"] memory.pgmq_queue_axioms)

theorem agent_rows_owned_witness:
  "rows_owned (live_from 0) (live_from 0) (live_from 0) (agent_runs memory_agent laptop_events idle_api) \<and>
   (\<exists>e. fst (agent_api memory_agent \<lparr>zc_now = 9, zc_id = (\<lambda>n. ''x'')\<rparr> (Some ''Bearer no'', None) Get_config
      (agent_runs memory_agent laptop_events idle_api)) = Inl (Unauthorized e))"
proof -
  have H: "honest (redis_live mem_live) 0 (api_devices idle_api) (api_users idle_api) (api_kv idle_api)"
    by (simp add: honest_def idle_api_def redis_live_def mem_live_def empty_redis_def)
  have rows: "rows_owned (live_from 0) (live_from 0) (live_from 0) idle_api"
    by (simp add: rows_owned_def idle_api_def Let_def)
  have valid: "agent_valid memory_agent 0 laptop_events idle_api"
    by (simp add: laptop_events_def tables_persist_def idle_api_def)
  have time: "agent_time 0 laptop_events \<le> zc_now \<lparr>zc_now = 9, zc_id = (\<lambda>n. ''x'')\<rparr>"
    by (simp add: laptop_events_def)
  have tok: "device_token_of (fst (Some ''Bearer no'', None)) (snd (Some ''Bearer no'', None)) = Some ''no''"
    by code_simp
  have "''no'' \<notin> ad_deviceToken ` set (api_devices (agent_runs memory_agent laptop_events idle_api))"
    by (simp add: agent_runs_def laptop_events_def api_tables laptop_row_def new_device_def)
  from agent_rows_owned [OF memory_agent_laws H rows valid time tok this, of Get_config]
  show ?thesis by (auto simp: Let_def split: prod.splits)
qed

section \<open>Registration and the list of devices\<close>

text \<open>
  AgentRegistrationController has no guard; AgentManagementController, asked by the hooks of
  hooks/use-agent.ts, is behind JwtAuthGuard and asks for no role.
\<close>

definition ctl_registerAgent ::
  "('s, 'qa, 'qm, 'qk) agent_env \<Rightarrow> agent_call \<Rightarrow> string \<Rightarrow> string \<Rightarrow> RegisterAgentDto \<Rightarrow>
   ('s, 'qa, 'qm, 'qk) AgentApi \<Rightarrow> agent_registration outcome \<times> ('s, 'qa, 'qm, 'qk) AgentApi" where
  "ctl_registerAgent E C deviceToken uuid dto st =
     (case registerAgent (zq_people E) (zc_now C) (zc_id C 0) deviceToken uuid dto (ag_people (zp_service st)) of
        (res, w) \<Rightarrow> (res, with_people (\<lambda>_. w) st))"

definition ctl_receiveCrash ::
  "(string \<Rightarrow> string option) \<Rightarrow> bool \<Rightarrow> js_time \<Rightarrow> (string \<times> json) list \<Rightarrow>
   ('s, 'qa, 'qm, 'qk) AgentApi \<Rightarrow> bool outcome \<times> ('s, 'qa, 'qm, 'qk) AgentApi" where
  "ctl_receiveCrash config io now report st =
     (Inr True, st\<lparr>zp_service := saveCrashReport config io now report (zp_service st)\<rparr>)"

datatype manage_result = Invite_token string | Device_list "AgentDevice list"

type_synonym 's manage_route = "(unit, 's UsersService, manage_result) route"

definition ctl_generateInviteToken :: "'s users_env \<Rightarrow> fresh_values \<Rightarrow> 's manage_route" where
  "ctl_generateInviteToken E F = \<lparr>ro_method = POST, ro_path = ''/agent/invite-token'', ro_roles = None,
     ro_uuids = [], ro_handler = (\<lambda>user ps r st.
       case token_generate (ue_kv E) (fv_now F) (fv_token F) Invite (u_id user) (uv_kv st) of
         (tok, kv) \<Rightarrow> (Inr (Invite_token tok), st\<lparr>uv_kv := kv\<rparr>))\<rparr>"

definition ctl_listDevices :: "'s users_env \<Rightarrow> fresh_values \<Rightarrow> 's manage_route" where
  "ctl_listDevices E F = \<lparr>ro_method = GET, ro_path = ''/agent/devices'', ro_roles = None, ro_uuids = [],
     ro_handler = (\<lambda>user ps r st.
       (Inr (Device_list (getDevicesForOrg (ue_devices E) (u_organizationId user) (uv_devices st))), st))\<rparr>"

definition manage_routes :: "'s users_env \<Rightarrow> fresh_values \<Rightarrow> 's manage_route list" where
  "manage_routes E F = [ctl_generateInviteToken E F, ctl_listDevices E F]"

definition useAgentDevices :: "unit query_hook" where
  "useAgentDevices = a_query [Key ''agent-devices''] ''/agent/devices'' []"

definition useGenerateInviteToken :: "unit mutation_hook" where
  "useGenerateInviteToken = a_mutation POST ''/agent/invite-token'' None [] None (Some ''Failed to generate invite token'')"

lemmas manage_defs = ctl_generateInviteToken_def ctl_listDevices_def

lemma manage_route_keys [simp]:
  "route_key (ctl_generateInviteToken E F) = (POST, [[], ''agent'', ''invite-token''])"
  "route_key (ctl_listDevices E F) = (GET, [[], ''agent'', ''devices''])"
  by (simp_all add: route_key_def manage_defs)

lemma manage_hooks_reach:
  "dispatch uuid (manage_routes E F) U (qh_request useAgentDevices) st =
     (Inr (Device_list (getDevicesForOrg (ue_devices E) (u_organizationId U) (uv_devices st))), st)"
  "dispatch uuid (manage_routes E F) U (hd (mh_requests useGenerateInviteToken)) st =
     (case token_generate (ue_kv E) (fv_now F) (fv_token F) Invite (u_id U) (uv_kv st) of
        (tok, kv) \<Rightarrow> (Inr (Invite_token tok), st\<lparr>uv_kv := kv\<rparr>))"
  by (simp add: manage_routes_def route_match_def request_key_def useAgentDevices_def useGenerateInviteToken_def;
      simp add: serve_def roles_canActivate_def manage_defs)+

end
