(* ===== verification/BrowserExtension.thy ===== *)
theory BrowserExtension
  imports Prelude
begin

text \<open>
  The background worker of the browser extension (src/apps/agent/extensions/chrome/background.js):
  it holds a port to the native messaging host and sends the address of the active tab through it.
  Beside the two variables of the script the state holds what the browser keeps: the ports that are
  open, the ports whose \<open>onDisconnect\<close> is still to be delivered, the pending timeouts, the number
  of \<open>sendCurrentTab\<close> calls that wait for \<open>chrome.tabs.query\<close>, and the messages the host got.
  Whether \<open>connectNative\<close> throws is part of the event; \<open>postMessage\<close> throws on a port that is not
  open. A handle of a timeout is never 0.
\<close>

record Extension =
  xt_port :: "nat option"
  xt_reconnectTimer :: "nat option"
  xt_open :: "nat list"
  xt_closing :: "nat list"
  xt_timeouts :: "nat list"
  xt_queries :: nat
  xt_next :: nat
  xt_sent :: "(nat \<times> string) list"

definition fresh_extension :: Extension where
  "fresh_extension = \<lparr>xt_port = None, xt_reconnectTimer = None, xt_open = [], xt_closing = [],
     xt_timeouts = [], xt_queries = 0, xt_next = 1, xt_sent = []\<rparr>"

section \<open>The script\<close>

definition scheduleReconnect :: "Extension \<Rightarrow> Extension" where
  "scheduleReconnect st = (if xt_reconnectTimer st \<noteq> None then st
     else st\<lparr>xt_reconnectTimer := Some (xt_next st), xt_timeouts := xt_timeouts st @ [xt_next st],
       xt_next := Suc (xt_next st)\<rparr>)"

text \<open>\<open>sendCurrentTab\<close> runs up to its query; the rest is \<open>tab_url\<close>.\<close>

definition sendCurrentTab :: "Extension \<Rightarrow> Extension" where
  "sendCurrentTab st = st\<lparr>xt_queries := Suc (xt_queries st)\<rparr>"

definition native_connect :: "bool \<Rightarrow> Extension \<Rightarrow> Extension" where
  "native_connect host st =
     (if host then sendCurrentTab (st\<lparr>xt_port := Some (xt_next st), xt_open := xt_open st @ [xt_next st],
        xt_next := Suc (xt_next st)\<rparr>)
      else scheduleReconnect st)"

definition on_host_disconnect :: "Extension \<Rightarrow> Extension" where
  "on_host_disconnect st = scheduleReconnect (st\<lparr>xt_port := None\<rparr>)"

definition reconnect_timeout :: "bool \<Rightarrow> Extension \<Rightarrow> Extension" where
  "reconnect_timeout host st = native_connect host (st\<lparr>xt_reconnectTimer := None\<rparr>)"

definition extension_send :: "bool \<Rightarrow> string \<Rightarrow> Extension \<Rightarrow> Extension" where
  "extension_send host url st = (case xt_port st of
     None \<Rightarrow> native_connect host st
   | Some p \<Rightarrow> if p \<in> set (xt_open st) then st\<lparr>xt_sent := xt_sent st @ [(p, url)]\<rparr>
       else scheduleReconnect (st\<lparr>xt_port := None\<rparr>))"

definition startsWith :: "string \<Rightarrow> string \<Rightarrow> bool" where
  "startsWith s prefix \<longleftrightarrow> take (length prefix) s = prefix"

definition getActiveTabURL :: "string option list option \<Rightarrow> string" where
  "getActiveTabURL answer = (case answer of Some (tab # _) \<Rightarrow> nullish tab [] | _ \<Rightarrow> [])"

definition reportable :: "string \<Rightarrow> bool" where
  "reportable url \<longleftrightarrow> url \<noteq> [] \<and> \<not> startsWith url ''chrome://'' \<and> \<not> startsWith url ''chrome-extension://''"

definition tab_url :: "bool \<Rightarrow> string option list option \<Rightarrow> Extension \<Rightarrow> Extension" where
  "tab_url host answer st = (let url = getActiveTabURL answer
     in if reportable url then extension_send host url st else st)"

text \<open>
  What may happen to the worker. \<open>On_updated\<close> carries the status of the change, \<open>On_focus\<close> whether a
  window of the browser has the focus; \<open>Host_exits\<close> is the end of the process behind a port.
\<close>

datatype extension_event =
    Host_exits nat
  | On_disconnect nat
  | On_timeout nat bool
  | On_activated
  | On_updated "string option"
  | On_focus bool
  | On_tabs bool "string option list option"

fun extension_step :: "extension_event \<Rightarrow> Extension \<Rightarrow> Extension" where
  "extension_step (Host_exits p) st = (if p \<in> set (xt_open st)
     then st\<lparr>xt_open := removeAll p (xt_open st), xt_closing := xt_closing st @ [p]\<rparr> else st)"
| "extension_step (On_disconnect p) st = (if p \<in> set (xt_closing st)
     then on_host_disconnect (st\<lparr>xt_closing := remove1 p (xt_closing st)\<rparr>) else st)"
| "extension_step (On_timeout t host) st = (if t \<in> set (xt_timeouts st)
     then reconnect_timeout host (st\<lparr>xt_timeouts := removeAll t (xt_timeouts st)\<rparr>) else st)"
| "extension_step On_activated st = sendCurrentTab st"
| "extension_step (On_updated status) st = (if status = Some ''complete'' then sendCurrentTab st else st)"
| "extension_step (On_focus window) st = (if window then sendCurrentTab st else st)"
| "extension_step (On_tabs host answer) st = (case xt_queries st of 0 \<Rightarrow> st
     | Suc n \<Rightarrow> tab_url host answer (st\<lparr>xt_queries := n\<rparr>))"

definition extension_runs :: "bool \<Rightarrow> extension_event list \<Rightarrow> Extension" where
  "extension_runs host es = fold extension_step es (native_connect host fresh_extension)"

section \<open>A lost connection is retried\<close>

text \<open>
  The script never waits for nothing: without a port there is a timeout that will connect again, the
  one the variable names, and no other; and what was sent are addresses of pages.
\<close>

definition extension_ok :: "Extension \<Rightarrow> bool" where
  "extension_ok st \<longleftrightarrow> (xt_port st = None \<longrightarrow> xt_reconnectTimer st \<noteq> None) \<and>
     xt_timeouts st = (case xt_reconnectTimer st of None \<Rightarrow> [] | Some t \<Rightarrow> [t]) \<and>
     (\<forall>(p, url) \<in> set (xt_sent st). reportable url)"

named_theorems extension_ops

declare scheduleReconnect_def [extension_ops] sendCurrentTab_def [extension_ops] native_connect_def [extension_ops]
  on_host_disconnect_def [extension_ops] reconnect_timeout_def [extension_ops] extension_send_def [extension_ops]
  tab_url_def [extension_ops]

lemma extension_ok_step: "extension_ok st \<Longrightarrow> extension_ok (extension_step e st)"
  by (cases e) (auto simp: extension_ok_def extension_ops Let_def split: option.splits nat.splits)

lemma extension_ok_start: "extension_ok (native_connect host fresh_extension)"
  by (simp add: extension_ok_def extension_ops fresh_extension_def)

lemma extension_ok_runs: "extension_ok (extension_runs host es)"
  using extension_ok_start [of host]
  by (induction es rule: rev_induct) (simp_all add: extension_runs_def extension_ok_step)

text \<open>
  C33. Whatever happens to the browser extension, in any order, it never stays cut off: when it has no port
  to the native host there is exactly one pending timeout, and when the host is there as that timeout
  fires, the extension has an open port again and asks for the address of the active tab, which it sends
  if it is that of a page. Addresses of the browser's own pages are never sent.
\<close>

theorem extension_reconnects:
  "let st = extension_runs host es in
    (\<forall>(p, url) \<in> set (xt_sent st). reportable url) \<and>
    (xt_port st = None \<longrightarrow> (\<exists>t. xt_timeouts st = [t] \<and>
      (let st' = extension_step (On_timeout t True) st in
        \<exists>p. xt_port st' = Some p \<and> p \<in> set (xt_open st') \<and> xt_timeouts st' = [] \<and> 0 < xt_queries st' \<and>
          (\<forall>url rest. reportable url \<longrightarrow>
            xt_sent (extension_step (On_tabs True (Some (Some url # rest))) st') = xt_sent st @ [(p, url)]))))"
proof -
  define st where "st = extension_runs host es"
  have ok: "extension_ok st" unfolding st_def by (rule extension_ok_runs)
  have "\<exists>t. xt_timeouts st = [t]" if "xt_port st = None" using ok that by (auto simp: extension_ok_def)
  then show ?thesis unfolding st_def [symmetric] using ok
    by (auto simp: extension_ok_def extension_ops Let_def getActiveTabURL_def)
qed

theorem extension_reconnects_witness:
  "let st = extension_runs True [Host_exits 1, On_disconnect 1] in xt_port st = None \<and>
     (\<exists>t. xt_timeouts st = [t])"
proof -
  have "xt_port (extension_runs True [Host_exits 1, On_disconnect 1]) = None"
    by (simp add: extension_runs_def extension_ops fresh_extension_def)
  then show ?thesis
    using extension_reconnects [of True "[Host_exits 1, On_disconnect 1]"] by (auto simp: Let_def)
qed

section \<open>Two ports\<close>

text \<open>
  \<open>send\<close> connects at once when there is no port and leaves the timeout pending: when it fires, a
  second port is opened, and the first, which nothing closes, still has its \<open>onDisconnect\<close>. When the
  process behind the first ends, the second is forgotten although it works.
\<close>

definition reconnect_race :: "extension_event list" where
  "reconnect_race = [On_activated, Host_exits 1, On_disconnect 1, On_tabs True (Some [Some ''http://a'']), On_timeout 2 True]"

lemma two_ports_open: "xt_open (extension_runs True reconnect_race) = [3, 4] \<and> xt_port (extension_runs True reconnect_race) = Some 4"
  by (simp add: extension_runs_def reconnect_race_def extension_ops fresh_extension_def getActiveTabURL_def
      reportable_def startsWith_def)

lemma stale_port_cuts_live:
  "let st = extension_runs True (reconnect_race @ [Host_exits 3, On_disconnect 3]) in xt_port st = None \<and> xt_open st = [4]"
  by (simp add: extension_runs_def reconnect_race_def extension_ops fresh_extension_def getActiveTabURL_def
      reportable_def startsWith_def Let_def)

end
