(* ===== verification/ApprovalPages.thy ===== *)
theory ApprovalPages
  imports TimeTrackingWeb WebDates
begin

text \<open>
  Approving timesheets in the browser, from a click to the tables: the handlers of the approvals page, of the team
  page (app/(dashboard)/time-tracking) and of the timesheets view (components/time-tracking), joined with the
  hooks and routes of \<open>TimeTrackingWeb\<close>. What a page sends is the request of the hook it calls.
\<close>

section \<open>Approving timesheets\<close>

text \<open>
  The list of the approvals page, and what its two buttons do: \<open>Approve All\<close> for the sheets listed, and the
  rejection, which needs a reason.
\<close>

definition pending_query :: TTQuery where
  "pending_query = QTeamTimesheets None (Some ''submitted'')"

definition sheets_shown :: "tt_result outcome \<Rightarrow> Timesheet list" where
  "sheets_shown answer = (case answer of Inr (RSheets ts) \<Rightarrow> ts | _ \<Rightarrow> [])"

definition approveAll :: "Timesheet list \<Rightarrow> TTMutation" where
  "approveAll pending = MBulkApprove (map ts_id pending)"

definition submittedIds :: "Timesheet list \<Rightarrow> string list" where
  "submittedIds timesheets = map ts_id (filter (\<lambda>ts. ts_status ts = SUBMITTED) timesheets)"

definition handleReject :: "string \<Rightarrow> string \<Rightarrow> TTMutation option" where
  "handleReject i rejectNote = (if js_trim rejectNote = [] then None else Some (MReject i rejectNote))"

text \<open>
  The week before or after: \<open>new Date\<close> of a date is midnight UTC, \<open>setDate\<close> moves the local date and keeps the
  local time, \<open>toISOString\<close> gives the date in UTC again. The clock of the browser is ahead of UTC by \<open>off\<close> at the
  first day and by \<open>off'\<close> at the other.
\<close>

definition shifted_week :: "int \<Rightarrow> int \<Rightarrow> int \<Rightarrow> js_time \<Rightarrow> js_time" where
  "shifted_week off off' delta t = t + off + delta * 7 * 86400000 - off'"

definition shiftWeek :: "int \<Rightarrow> int \<Rightarrow> int \<Rightarrow> js_time \<Rightarrow> string" where
  "shiftWeek off off' delta t = iso_date (shifted_week off off' delta t)"

lemma shifted_midnight:
  assumes "t mod 86400000 = 0" and "\<bar>off' - off\<bar> < 86400000"
  shows "Day (shifted_week off off' delta t) = Day t + 7 * delta - (if off < off' then 1 else 0)"
proof -
  obtain d where d: "t = d * 86400000" using assms(1) by (metis dvd_div_mult_self mod_eq_0_iff_dvd)
  define e where "e = off - off'"
  have "shifted_week off off' delta t = e + (d + 7 * delta) * 86400000"
    unfolding shifted_week_def e_def d by (simp add: algebra_simps)
  then have "Day (shifted_week off off' delta t) = d + 7 * delta + e div 86400000"
    unfolding Day_def by (simp add: div_plus_div_distrib_dvd_right)
  moreover have "e div 86400000 = (if off < off' then -1 else 0)"
  proof (cases "off < off'")
    case True
    then have "e < 0" "- 86400000 \<le> e" using assms(2) unfolding e_def by auto
    then have "(e + 86400000) div 86400000 = 0" by (simp add: div_pos_pos_trivial)
    then have "e div 86400000 = - 1" by simp
    then show ?thesis using True by simp
  next
    case False
    then have "0 \<le> e" "e < 86400000" using assms(2) unfolding e_def by auto
    then show ?thesis using False by (simp add: div_pos_pos_trivial)
  qed
  ultimately show ?thesis unfolding Day_def d by simp
qed

text \<open>
  In the weeks in which the clocks are put forward, the button goes six days on, to a Sunday for which no sheet
  exists, and stays one day off from there.
\<close>

lemma spring_week_lost_day:
  "t mod 86400000 = 0 \<Longrightarrow> Day (shifted_week 3600000 7200000 1 t) = Day t + 6"
  "t mod 86400000 = 0 \<Longrightarrow> Day (shifted_week 3600000 3600000 1 t) = Day t + 7"
  by (simp_all add: shifted_midnight)

text \<open>One approval, on the rows of the table.\<close>

definition approved_by :: "User \<Rightarrow> js_time \<Rightarrow> Timesheet \<Rightarrow> Timesheet" where
  "approved_by U now s = s\<lparr>ts_status := APPROVED, ts_approvedBy := Some (u_id U), ts_approvedAt := Some now,
     ts_updatedAt := now\<rparr>"

lemma approve_one:
  assumes R: "repository (env_sheets E) ts_id" and K: "keyed ts_id (tt_timesheets st)"
    and s: "s \<in> set (tt_timesheets st)" "ts_status s = SUBMITTED" "ts_organizationId s = u_organizationId U"
  shows "\<exists>x st'. tt_effect E U C (MApprove (ts_id s)) st = (Inr x, st') \<and> keyed ts_id (tt_timesheets st') \<and>
    set (tt_timesheets st') = {r \<in> set (tt_timesheets st). ts_id r \<noteq> ts_id s} \<union> {approved_by U (tn_now C) s}"
proof -
  have "find_one (env_sheets E) (\<lambda>x. ts_id x = ts_id s \<and> ts_organizationId x = u_organizationId U)
      (tt_timesheets st) = Some s"
    by (rule repository.find_one_unique [OF R s(1)]) (use s keyed_same [OF K _ s(1)] in auto)
  then show ?thesis using s(2) repository.keyed_save [OF R K]
    by (auto simp: approveTimesheet_def approved_by_def Let_def repository.set_save [OF R])
qed

definition approve_request :: "string \<Rightarrow> tt_body request" where
  "approve_request i = hd (mh_requests (useApproveTimesheet i))"

lemma approve_all_requests:
  "mh_requests (tt_mutation_hook (approveAll ss)) = map approve_request (map ts_id ss)"
  by (simp add: approveAll_def approve_request_def useBulkApproveTimesheets_def useApproveTimesheet_def)

lemma approve_reaches:
  assumes "uuid_pipe uuid" and "uuid i" and "u_role U = ADMIN \<or> u_role U = MANAGER"
  shows "dispatch uuid (time_tracking_routes E C) U (approve_request i) st = tt_effect E U C (MApprove i) st"
proof -
  have "one_segment (MApprove i)" "single_request (MApprove i)"
    using uuid_pipeD [OF assms(1,2)] by (auto simp: single_request_def)
  from tt_mutation_reaches [OF this, of uuid U E C st] show ?thesis
    using assms(2,3) by (auto simp: approve_request_def)
qed

lemma bulk_approves:
  assumes R: "repository (env_sheets E) ts_id" and p: "uuid_pipe uuid" and role: "u_role U = ADMIN \<or> u_role U = MANAGER"
    and "keyed ts_id (tt_timesheets st)" and "distinct (map ts_id ss)" and "set ss \<subseteq> set (tt_timesheets st)"
    and "\<forall>s \<in> set ss. ts_status s = SUBMITTED \<and> ts_organizationId s = u_organizationId U \<and> uuid (ts_id s)"
  shows "\<exists>st'. send_all (\<lambda>n r. dispatch uuid (time_tracking_routes E (C n)) U r) n (map approve_request (map ts_id ss)) st =
      (True, st') \<and>
    (\<forall>s \<in> set ss. \<exists>k. approved_by U (tn_now (C k)) s \<in> set (tt_timesheets st')) \<and>
    ts_id ` set (tt_timesheets st') = ts_id ` set (tt_timesheets st) \<and>
    (\<forall>r \<in> set (tt_timesheets st'). if ts_id r \<in> ts_id ` set ss then ts_status r = APPROVED else r \<in> set (tt_timesheets st)) \<and>
    {r \<in> set (tt_timesheets st). ts_id r \<notin> ts_id ` set ss} \<subseteq> set (tt_timesheets st')"
  using assms(4-7)
proof (induction ss arbitrary: st n)
  case (Cons s ss)
  obtain x st1 where one: "tt_effect E U (C n) (MApprove (ts_id s)) st = (Inr x, st1)" "keyed ts_id (tt_timesheets st1)"
    "set (tt_timesheets st1) = {r \<in> set (tt_timesheets st). ts_id r \<noteq> ts_id s} \<union> {approved_by U (tn_now (C n)) s}"
    using approve_one [OF R Cons.prems(1), of s U "C n"] Cons.prems(3,4) by auto
  have d: "dispatch uuid (time_tracking_routes E (C n)) U (approve_request (ts_id s)) st = (Inr x, st1)"
    using approve_reaches [OF p _ role, of "ts_id s" E "C n" st] Cons.prems(4) one(1) by simp
  have "set ss \<subseteq> set (tt_timesheets st1)" using Cons.prems(2,3) unfolding one(3) by (auto simp: image_iff)
  then obtain st' where st': "send_all (\<lambda>n r. dispatch uuid (time_tracking_routes E (C n)) U r) (Suc n)
      (map approve_request (map ts_id ss)) st1 = (True, st')"
    "\<forall>r \<in> set (tt_timesheets st'). if ts_id r \<in> ts_id ` set ss then ts_status r = APPROVED else r \<in> set (tt_timesheets st1)"
    "{r \<in> set (tt_timesheets st1). ts_id r \<notin> ts_id ` set ss} \<subseteq> set (tt_timesheets st')"
    "\<forall>s \<in> set ss. \<exists>k. approved_by U (tn_now (C k)) s \<in> set (tt_timesheets st')"
    "ts_id ` set (tt_timesheets st') = ts_id ` set (tt_timesheets st1)"
    using Cons.IH [OF one(2), of "Suc n"] Cons.prems(2,4) by auto
  have "\<forall>r \<in> set (tt_timesheets st'). if ts_id r \<in> ts_id ` set (s # ss) then ts_status r = APPROVED
      else r \<in> set (tt_timesheets st)"
    using st'(2) unfolding one(3) by (auto simp: approved_by_def split: if_splits)
  moreover have "{r \<in> set (tt_timesheets st). ts_id r \<notin> ts_id ` set (s # ss)} \<subseteq> set (tt_timesheets st')"
    using st'(3) unfolding one(3) by auto
  moreover have "approved_by U (tn_now (C n)) s \<in> set (tt_timesheets st')"
    using st'(3) Cons.prems(2) unfolding one(3) by (auto simp: approved_by_def)
  moreover have "ts_id ` set (tt_timesheets st') = ts_id ` set (tt_timesheets st)"
    using Cons.prems(3) unfolding st'(5) one(3) by (auto simp: approved_by_def image_iff)
  ultimately show ?case using d st'(1,4) by auto
qed simp

text \<open>
  C40. \<open>Approve All\<close> approves everything that waits: when a manager presses it on the list just fetched, every request
  reaches its sheet and the mutation succeeds; every sheet of the organisation that was submitted is afterwards in the table
  approved by this manager with all else unchanged, every other sheet is as it was, and no row is added
  or lost, up to the five hundred sheets a list holds.
\<close>

theorem approve_all_clears:
  assumes R: "repository (env_sheets E) ts_id" and p: "uuid_pipe uuid" and role: "u_role U = ADMIN \<or> u_role U = MANAGER"
    and K: "keyed ts_id (tt_timesheets st)" and ids: "\<forall>s \<in> set (tt_timesheets st). uuid (ts_id s)"
    and few: "size {#s \<in># mset (tt_timesheets st). ts_organizationId s = u_organizationId U \<and> ts_status s = SUBMITTED#} \<le> 500"
  shows "let pending = sheets_shown (tt_view uuid E U pending_query st);
      (ok, st') = tt_perform uuid E U (approveAll pending, C) st in
    ok \<and>
    (\<forall>s \<in> set (tt_timesheets st). if ts_organizationId s = u_organizationId U \<and> ts_status s = SUBMITTED
       then \<exists>k. s\<lparr>ts_status := APPROVED, ts_approvedBy := Some (u_id U), ts_approvedAt := Some (tn_now (C k)),
         ts_updatedAt := tn_now (C k)\<rparr> \<in> set (tt_timesheets st')
       else s \<in> set (tt_timesheets st')) \<and>
    (\<forall>r \<in> set (tt_timesheets st'). \<not> (ts_organizationId r = u_organizationId U \<and> ts_status r = SUBMITTED)) \<and>
    ts_id ` set (tt_timesheets st') = ts_id ` set (tt_timesheets st)"
proof -
  let ?P = "\<lambda>s. ts_organizationId s = u_organizationId U \<and> ts_status s = SUBMITTED"
  let ?find = "orm_find (env_sheets E) ?P week_then_created (Some 500) (tt_timesheets st)"
  have P: "(\<lambda>s. ts_organizationId s = u_organizationId U \<and> ts_status_str (ts_status s) = ''submitted'') = ?P"
  proof (rule ext)
    fix s show "(ts_organizationId s = u_organizationId U \<and> ts_status_str (ts_status s) = ''submitted'') = ?P s"
      by (cases "ts_status s") simp_all
  qed
  have view: "sheets_shown (tt_view uuid E U pending_query st) = ?find"
    using tt_query_reaches [of U pending_query uuid E "\<lparr>tn_now = 0, tn_id = []\<rparr>" st] role
    by (auto simp: tt_view_def sheets_shown_def pending_query_def getTeamTimesheets_def P)
  obtain ys where ys: "mset ys = filter_mset ?P (mset (tt_timesheets st))" "?find = page (Some 500) ys"
    using repository.find_rows [OF R, of ?P "tt_timesheets st" week_then_created "Some 500"] by blast
  have "length ys \<le> 500" using few ys(1) by (metis size_mset)
  then have find: "?find = ys" using ys(2) by simp
  have set_ys: "set ys = {s \<in> set (tt_timesheets st). ?P s}" using ys(1) by (metis set_mset_filter set_mset_mset)
  have "mset (map ts_id ys) = mset (map ts_id (filter ?P (tt_timesheets st)))" using ys(1) by (simp add: mset_filter)
  then have dist: "distinct (map ts_id ys)"
    using K unfolding keyed_def by (metis distinct_map_filter mset_eq_imp_distinct_iff)
  obtain st' where st': "tt_perform uuid E U (approveAll ys, C) st = (True, st')"
    "\<forall>r \<in> set (tt_timesheets st'). if ts_id r \<in> ts_id ` set ys then ts_status r = APPROVED else r \<in> set (tt_timesheets st)"
    "{r \<in> set (tt_timesheets st). ts_id r \<notin> ts_id ` set ys} \<subseteq> set (tt_timesheets st')"
    "\<forall>s \<in> set ys. \<exists>k. approved_by U (tn_now (C k)) s \<in> set (tt_timesheets st')"
    "ts_id ` set (tt_timesheets st') = ts_id ` set (tt_timesheets st)"
  proof -
    have "\<forall>s \<in> set ys. ts_status s = SUBMITTED \<and> ts_organizationId s = u_organizationId U \<and> uuid (ts_id s)"
      "set ys \<subseteq> set (tt_timesheets st)" using ids set_ys by auto
    from bulk_approves [OF R p role K dist this(2,1), of C 0] show ?thesis
      using that unfolding tt_perform_def fst_conv snd_conv approve_all_requests by blast
  qed
  have other: "ts_id r \<notin> ts_id ` set ys" if "r \<in> set (tt_timesheets st)" "\<not> ?P r" for r
    using that keyed_same [OF K that(1)] unfolding set_ys by auto
  have none: "\<not> ?P r" if r: "r \<in> set (tt_timesheets st')" for r
  proof (cases "ts_id r \<in> ts_id ` set ys")
    case True
    then have "ts_status r = APPROVED" using st'(2) r by auto
    then show ?thesis by simp
  next
    case False
    then have "r \<in> set (tt_timesheets st)" using st'(2) r by auto
    then show ?thesis using False unfolding set_ys by blast
  qed
  have "if ?P s then \<exists>k. approved_by U (tn_now (C k)) s \<in> set (tt_timesheets st') else s \<in> set (tt_timesheets st')"
    if "s \<in> set (tt_timesheets st)" for s
  proof (cases "?P s")
    case True
    then have "s \<in> set ys" using that unfolding set_ys by blast
    then show ?thesis using True st'(4) by simp
  next
    case False
    then show ?thesis using other [OF that] st'(3) that by auto
  qed
  then show ?thesis unfolding view find Let_def st'(1) split using none st'(5) unfolding approved_by_def by blast
qed

theorem approve_all_clears_witness:
  "let (ok, st') = tt_perform (\<lambda>s. s = ''s1'') web_env web_user (approveAll (sheets_shown
      (tt_view (\<lambda>s. s = ''s1'') web_env web_user pending_query (tt_empty\<lparr>tt_timesheets := [sample_sheet]\<rparr>))), web_call)
      (tt_empty\<lparr>tt_timesheets := [sample_sheet]\<rparr>) in ok \<and> ts_id ` set (tt_timesheets st') = {''s1''} \<and>
      filter (\<lambda>r. ts_organizationId r = ''o1'' \<and> ts_status r = SUBMITTED) (tt_timesheets st') = []"
  using approve_all_clears [of web_env "\<lambda>s. s = ''s1''" web_user "tt_empty\<lparr>tt_timesheets := [sample_sheet]\<rparr>" web_call]
  by (auto simp: web_env_def web_user_def new_user_def uuid_pipe_def keyed_def sample_sheet_def Let_def filter_empty_conv
      split: prod.splits)

end
