(* ===== verification/DashboardForms.thy ===== *)
theory DashboardForms
  imports Gps Integrations Projects Alerts WebDates "HOL-Library.AList"
begin

text \<open>
  The forms and figures of the dashboard, from what is typed to the tables: the geofence form (components/gps),
  the webhook form (components/integrations), alert rules (app/(dashboard)/alerts), milestones and the progress of
  projects (components/projects), the usage of apps (components/monitoring) and of seats (settings/billing).
  \<open>parseFloat\<close>, \<open>parseInt\<close> and \<open>String\<close> of a number are parameters.
\<close>

section \<open>The geofence form\<close>

record GeofenceFormValues =
  yf_name :: string
  yf_lat :: string
  yf_lng :: string
  yf_radiusMeters :: string
  yf_autoClockIn :: bool
  yf_autoClockOut :: bool
  yf_isActive :: bool

definition emptyForm :: GeofenceFormValues where
  "emptyForm = \<lparr>yf_name = [], yf_lat = [], yf_lng = [], yf_radiusMeters = ''100'', yf_autoClockIn = False,
     yf_autoClockOut = False, yf_isActive = True\<rparr>"

record number_texts =
  nt_parseFloat :: "string \<Rightarrow> real"
  nt_parseInt :: "string \<Rightarrow> int"
  nt_of_real :: "real \<Rightarrow> string"
  nt_of_int :: "int \<Rightarrow> string"

definition geofenceToForm :: "number_texts \<Rightarrow> Geofence \<Rightarrow> GeofenceFormValues" where
  "geofenceToForm N g = \<lparr>yf_name = gf_name g, yf_lat = nt_of_real N (gf_lat g), yf_lng = nt_of_real N (gf_lng g),
     yf_radiusMeters = nt_of_int N (gf_radiusMeters g), yf_autoClockIn = gf_autoClockIn g,
     yf_autoClockOut = gf_autoClockOut g, yf_isActive = gf_isActive g\<rparr>"

text \<open>What the two handlers hand to their mutations.\<close>

definition handleCreate :: "number_texts \<Rightarrow> GeofenceFormValues \<Rightarrow> CreateGeofenceDto" where
  "handleCreate N v = \<lparr>cf_name = yf_name v, cf_lat = nt_parseFloat N (yf_lat v), cf_lng = nt_parseFloat N (yf_lng v),
     cf_radiusMeters = Some (nt_parseInt N (yf_radiusMeters v)), cf_autoClockIn = Some (yf_autoClockIn v),
     cf_autoClockOut = Some (yf_autoClockOut v)\<rparr>"

definition handleUpdate :: "number_texts \<Rightarrow> GeofenceFormValues \<Rightarrow> UpdateGeofenceDto" where
  "handleUpdate N v = \<lparr>xf_name = Some (yf_name v), xf_lat = Some (nt_parseFloat N (yf_lat v)),
     xf_lng = Some (nt_parseFloat N (yf_lng v)), xf_radiusMeters = Some (nt_parseInt N (yf_radiusMeters v)),
     xf_autoClockIn = Some (yf_autoClockIn v), xf_autoClockOut = Some (yf_autoClockOut v),
     xf_isActive = Some (yf_isActive v)\<rparr>"

definition texts_read_back :: "number_texts \<Rightarrow> bool" where
  "texts_read_back N \<longleftrightarrow> (\<forall>x. nt_parseFloat N (nt_of_real N x) = x) \<and> (\<forall>i. nt_parseInt N (nt_of_int N i) = i)"

text \<open>
  Opening a fence in the form and saving it is no change, not even of the time of the last change; and whatever is
  typed comes back when the form is opened again.
\<close>

lemma saved_form_unchanged:
  assumes N: "texts_read_back N" and f: "geofence_in_org R g i st = Inr fence"
  shows "fst (updateGeofence R now g i (handleUpdate N (geofenceToForm N fence)) st) = Inr fence"
  using f N by (simp add: updateGeofence_def patch_geofence_def handleUpdate_def geofenceToForm_def
      texts_read_back_def touched_def Let_def)

lemma typed_values_saved:
  assumes f: "geofence_in_org R g i st = Inr fence"
  shows "\<exists>saved. fst (updateGeofence R now g i (handleUpdate N v) st) = Inr saved \<and>
    gf_name saved = yf_name v \<and> gf_lat saved = nt_parseFloat N (yf_lat v) \<and> gf_lng saved = nt_parseFloat N (yf_lng v) \<and>
    gf_radiusMeters saved = nt_parseInt N (yf_radiusMeters v) \<and> gf_isActive saved = yf_isActive v"
  using f by (cases fence) (auto simp: updateGeofence_def patch_geofence_def handleUpdate_def Let_def touched_def)

text \<open>The box \<open>Active\<close> of the form for a new fence has no effect: the fence is active.\<close>

lemma new_fence_active:
  "gf_isActive (fst (createGeofence R now i g (handleCreate N (v\<lparr>yf_isActive := False\<rparr>)) st))"
  by (simp add: createGeofence_def Let_def)

section \<open>The webhook form\<close>

definition toggleEvent :: "string \<Rightarrow> string list \<Rightarrow> string list" where
  "toggleEvent value prev = (if value \<in> set prev then filter (\<lambda>e. e \<noteq> value) prev else prev @ [value])"

record WebhookForm =
  yw_url :: string
  yw_secret :: string
  yw_events :: "string list"

definition WebhookForm_initial :: "WebhookEndpoint option \<Rightarrow> WebhookForm" where
  "WebhookForm_initial initial = (case initial of
     None \<Rightarrow> \<lparr>yw_url = [], yw_secret = [], yw_events = []\<rparr>
   | Some e \<Rightarrow> \<lparr>yw_url = we_url e, yw_secret = nullish (we_secret e) [], yw_events = we_events e\<rparr>)"

definition blank_undefined :: "string \<Rightarrow> string option" where
  "blank_undefined s = (if js_trim s = [] then None else Some (js_trim s))"

definition WebhookForm_create :: "WebhookForm \<Rightarrow> CreateEndpointDto" where
  "WebhookForm_create f = \<lparr>ce_url = js_trim (yw_url f), ce_secret = blank_undefined (yw_secret f),
     ce_events = Some (yw_events f)\<rparr>"

definition WebhookForm_update :: "WebhookForm \<Rightarrow> UpdateEndpointDto" where
  "WebhookForm_update f = \<lparr>xe_url = Some (js_trim (yw_url f)),
     xe_secret = map_option Some (blank_undefined (yw_secret f)), xe_events = Some (yw_events f), xe_isActive = None\<rparr>"

text \<open>An event is subscribed exactly when it was clicked an odd number of times since the form was opened.\<close>

lemma toggleEvent_set: "set (toggleEvent v es) = (if v \<in> set es then set es - {v} else insert v (set es))"
  by (auto simp: toggleEvent_def)

lemma toggled_events:
  "v \<in> set (fold toggleEvent clicks es) \<longleftrightarrow> (v \<in> set es) \<noteq> odd (count_list clicks v)"
  by (induction clicks arbitrary: es) (auto simp: toggleEvent_set)

text \<open>
  The note at the field says to leave it blank to skip signing. For an endpoint that has a secret that does not
  work: the member is left out of the request, the stored secret stays, and deliveries are signed as before.
\<close>

lemma blank_secret_keeps_signing:
  assumes e: "endpoint_in_org E g i st = Inr endpoint"
    and blank: "js_trim (yw_secret f) = []"
  shows "\<exists>saved. fst (updateEndpoint E now g i (WebhookForm_update f) st) = Inr saved \<and> we_secret saved = we_secret endpoint \<and>
    we_url saved = js_trim (yw_url f) \<and> we_events saved = yw_events f"
  using e blank by (cases endpoint) (auto simp: updateEndpoint_def patch_endpoint_def WebhookForm_update_def blank_undefined_def
      Let_def touched_def)

section \<open>Alert rules\<close>

definition AddRuleModal_initial :: CreateAlertRuleDto where
  "AddRuleModal_initial = \<lparr>ca_name = [], ca_type = IDLE_TOO_LONG, ca_threshold = Some 30, ca_enabled = Some True,
     ca_notifyEmail = Some True, ca_notifyInApp = Some True\<rparr>"

definition AddRuleModal_submit :: "CreateAlertRuleDto \<Rightarrow> CreateAlertRuleDto option" where
  "AddRuleModal_submit form = (if js_trim (ca_name form) = [] then None
     else Some (form\<lparr>ca_name := js_trim (ca_name form)\<rparr>))"

section \<open>Milestones and projects\<close>

definition toggleComplete :: "Milestone \<Rightarrow> UpdateMilestoneDto" where
  "toggleComplete m = \<lparr>xz_name = None, xz_dueDate = None, xz_markComplete = Some (ms_completedAt m = None)\<rparr>"

text \<open>A click completes a milestone that is open and opens one that is complete, and changes nothing else of it.\<close>

lemma toggle_flips:
  assumes m: "find_milestone R pid i g st = Inr m"
  shows "\<exists>saved. fst (updateMilestone R D now pid i g (toggleComplete m) st) = Inr saved \<and>
    (ms_completedAt saved = None) = (ms_completedAt m \<noteq> None) \<and> ms_name saved = ms_name m \<and> ms_dueDate saved = ms_dueDate m"
  using m by (cases m; cases "ms_completedAt m")
    (auto simp: updateMilestone_def toggleComplete_def mark_complete_def date_patch_def Let_def touched_def)

text \<open>\<open>Math.round\<close> of the share of tasks done. No answer of the server has the two counts, which are then \<open>undefined\<close>.\<close>

definition project_progress :: "nat option \<Rightarrow> nat option \<Rightarrow> int" where
  "project_progress taskCount doneCount = (let tasks = nullish taskCount 0; finished = nullish doneCount 0
     in if tasks > 0 then \<lfloor>real finished / real tasks * 100 + 1 / 2\<rfloor> else 0)"

lemma progress_percent:
  assumes "finished \<le> n"
  shows "0 \<le> project_progress (Some n) (Some finished) \<and> project_progress (Some n) (Some finished) \<le> 100"
proof (cases "n > 0")
  case True
  then have "real finished / real n \<le> 1" using assms by simp
  then have "\<lfloor>real finished / real n * 100 + 1 / 2\<rfloor> \<le> 100" by linarith
  moreover have "0 \<le> \<lfloor>real finished / real n * 100 + 1 / 2\<rfloor>" by simp
  ultimately show ?thesis using True by (simp add: project_progress_def Let_def)
qed (simp add: project_progress_def Let_def)

lemma cards_show_no_progress: "project_progress None None = 0"
  by (simp add: project_progress_def Let_def)

section \<open>The usage of apps and seats\<close>

text \<open>
  \<open>appTotals\<close> is an object: the apps stand in the order of their first event, for names that are neither array
  indices nor members every object has.
\<close>

definition appTotals :: "ActivityEvent list \<Rightarrow> (string \<times> int) list" where
  "appTotals events = fold (\<lambda>e acc. AList.update (ae_appName e)
     (nullish (map_of acc (ae_appName e)) 0 + ae_durationSec e) acc) events []"

definition sorted_apps :: "ActivityEvent list \<Rightarrow> (string \<times> int) list" where
  "sorted_apps events = sort_key (\<lambda>(app, sec). - sec) (appTotals events)"

definition totalSec :: "ActivityEvent list \<Rightarrow> int" where
  "totalSec events = (let s = sum_list (map snd (sorted_apps events)) in if s = 0 then 1 else s)"

definition fmtDuration :: "int \<Rightarrow> string" where
  "fmtDuration sec = (if sec < 60 then int_str sec @ ''s'' else let m = sec div 60 in
     if m < 60 then int_str m @ ''m'' else int_str (m div 60) @ ''h '' @ int_str (m mod 60) @ ''m'')"

definition seatUsagePct :: "bool list \<Rightarrow> nat option \<Rightarrow> real" where
  "seatUsagePct active seats = (case seats of
     Some n \<Rightarrow> if n = 0 then 0 else min 100 (real (length (filter id active)) / real n * 100)
   | None \<Rightarrow> 0)"

lemma sum_after_update:
  "distinct (map fst acc) \<Longrightarrow> sum_list (map snd (AList.update k (nullish (map_of acc k) 0 + d) acc)) =
    sum_list (map snd acc) + (d :: int)"
proof (induction acc)
  case (Cons p acc)
  obtain k' v where p: "p = (k', v)" by (cases p)
  show ?case
  proof (cases "k' = k")
    case False
    then show ?thesis using Cons by (simp add: p)
  qed (simp add: p)
qed simp

lemma appTotals_fold:
  assumes "distinct (map fst acc)"
  shows "distinct (map fst (fold (\<lambda>e acc. AList.update (ae_appName e)
      (nullish (map_of acc (ae_appName e)) 0 + ae_durationSec e) acc) events acc)) \<and>
    sum_list (map snd (fold (\<lambda>e acc. AList.update (ae_appName e)
      (nullish (map_of acc (ae_appName e)) 0 + ae_durationSec e) acc) events acc)) =
    sum_list (map snd acc) + sum_list (map ae_durationSec events)"
  using assms
proof (induction events arbitrary: acc)
  case (Cons e events)
  have "distinct (map fst (AList.update (ae_appName e) (nullish (map_of acc (ae_appName e)) 0 + ae_durationSec e) acc))"
    by (rule distinct_update [OF Cons.prems])
  from Cons.IH [OF this] show ?case using sum_after_update [OF Cons.prems] by simp
qed simp

text \<open>
  The bars of the timeline account for every second of the events, whatever the apps: no app twice, the totals
  add up to the durations, and the longest comes first.
\<close>

lemma timeline_accounts:
  "distinct (map fst (sorted_apps events)) \<and> sum_list (map snd (sorted_apps events)) = sum_list (map ae_durationSec events) \<and>
    sorted (map (\<lambda>p. - snd p) (sorted_apps events))"
proof -
  have m: "mset (sorted_apps events) = mset (appTotals events)" by (simp add: sorted_apps_def)
  have "distinct (map fst (appTotals events))" "sum_list (map snd (appTotals events)) = sum_list (map ae_durationSec events)"
    using appTotals_fold [of "[]" events] by (simp_all add: appTotals_def)
  then have "distinct (map fst (sorted_apps events))"
    "sum_list (map snd (sorted_apps events)) = sum_list (map ae_durationSec events)"
    using m by (metis mset_eq_imp_distinct_iff mset_map, metis mset_map sum_mset_sum_list)
  moreover have "(\<lambda>(app :: string, sec :: int). - sec) = (\<lambda>p. - snd p)" by auto
  then have "sorted (map (\<lambda>p. - snd p) (sorted_apps events))" by (metis sorted_apps_def sorted_sort_key)
  ultimately show ?thesis by simp
qed

lemma seatUsagePct_bounds: "0 \<le> seatUsagePct active seats \<and> seatUsagePct active seats \<le> 100"
  by (simp add: seatUsagePct_def split: option.split)

end
