(* ===== verification/Spec2Isabelle.thy ===== *)
theory Spec2Isabelle
  imports EntitiesAgent KeyValueStore Timesheets StreamGateway HeartbeatBuffer IngestQueue Auth MonitorSvc Analytics Admin Billing Projects Gps Integrations Alerts PresenceStore StreamClient
    AuthWeb WatchLive TimeTrackingWeb WebDates KanbanBoard AdminWeb AlertsWeb IntegrationsWeb GpsWeb MonitorWeb UsersWeb BillingWeb AgentApi LiveBoard BrowserExtension ApprovalPages DashboardForms
begin

text \<open>
  TimeChamp, a tool that records working time: a NestJS server (src/apps/api), a Next.js client
  (src/apps/web), a desktop agent in Go and its browser extension (src/apps/agent). This development
  models the TypeScript of the server and of the client's logic and the JavaScript of the extension's
  service worker, and states what they do.

  \<^bold>\<open>How the parts interact.\<close> A member signs in (AuthService), gets an access token and a refresh
  token, and the client sends requests through its API module; a controller's guards find the user,
  a handler calls a service, the service queries the tables of its organisation. The desktop agent
  registers with a token (AgentService), sends batches that go to queues in Postgres and are
  inserted by workers, and heartbeats that a buffer writes behind; the services announce what
  happens to dashboards over socket.io, and a second socket relays live frames from agents to
  dashboards.

  \<^bold>\<open>Conventions.\<close> An entity is a record with a field per column; a table is a list of rows. A
  service's state is a record of its tables and its own fields, an operation a function from
  arguments and state to an outcome and the new state. An exception is the left value of
  \<open>'a outcome\<close>, so that errors with the state they leave behind are results like any other. What an
  operation reads from outside is an argument: the clock in milliseconds, the ids the database
  generates, random values. Where the code awaits in the middle of an operation and something else
  may run and a property depends on it, the operation is cut there: \<open>flush_begin\<close> and \<open>flush_end\<close>, \<open>drain_begin\<close> and
  \<open>drain_end\<close>, the read and the write of the bandwidth counter, the reads and the writes of a token refresh
  (\<open>refresh_stored\<close>, \<open>refresh_owner\<close>, \<open>refresh_revoke\<close>), the pieces of the connect and disconnect handlers of the stream
  gateway (\<open>gw_step\<close>). Elsewhere an operation is taken to run alone. JavaScript numbers are ints where the code only
  counts, reals where it divides, \<open>None\<close> for NaN; where rounding can change an answer, in the distance of \<open>Gps\<close>, the
  arithmetic is a parameter with a bound on its error. The bytes of the wire format are words.

  \<^bold>\<open>Parameters.\<close> Code that is not in the repository is an argument with its documented behaviour as a
  locale or a named hypothesis: TypeORM (\<open>repository\<close>, with \<open>list_orm\<close> as a concrete instance), Redis
  (\<open>redis_server\<close>), pgmq (\<open>pgmq_queue\<close>), bcrypt and JWT signatures, Stripe, Supabase and S3, HMAC, \<open>fetch\<close>,
  the image decoder, React Query's key matching, \<open>Date.parse\<close> outside the ISO format.

  \<^bold>\<open>Theories\<close>, each with the files it models (below src/apps/api/src unless said otherwise):
  \<^item> \<open>Prelude\<close>: exceptions, nullable values, the repository interface. \<open>Tenancy\<close>: tenant isolation as a
    locale, interpreted by every service with rows of an organisation.
  \<^item> \<open>EntitiesPeople\<close>, \<open>EntitiesWork\<close>, \<open>EntitiesAgent\<close>: database/entities.
  \<^item> \<open>JsText\<close>, \<open>JsDate\<close>, \<open>JsJson\<close>, \<open>Csv\<close>: the parts of JavaScript's library the services use: decimal text,
    \<open>toISOString\<close>, \<open>JSON.stringify\<close> and \<open>JSON.parse\<close>, and a reference reader of CSV that ends records at CR, LF and CRLF.
  \<^item> \<open>KeyValueStore\<close>: infrastructure/redis and infrastructure/token. Both modes of RedisService provide the
    one interface \<open>kv_store\<close> the other services use.
  \<^item> \<open>TimeTracking\<close>, \<open>Timesheets\<close>: modules/time-tracking. At most one attendance is open; the workflow of
    a sheet refines an abstract step relation; a total is the sum of the entries of the week.
  \<^item> \<open>AuditTrail\<close>, \<open>Admin\<close>: modules/admin. \<open>Billing\<close>: modules/billing. \<open>Users\<close>, \<open>Auth\<close>: modules/users, organizations,
    auth. Refresh tokens are spent once, logout and password reset end those of the user, logout bars the
    access token for fifteen minutes, mail tokens work once.
  \<^item> \<open>HttpLayer\<close>: common/ (guards, middleware, filter, interceptor).
  \<^item> \<open>StreamProtocol\<close>, \<open>LiveWatch\<close>, \<open>StreamingSvc\<close>, \<open>StreamGateway\<close>: modules/streaming. The frame format round-trips,
    the watch cache refines a map with expiry, sessions and connections stay matched however the handlers
    interleave, and the daily cap an organisation sets is not enforced.
  \<^item> \<open>HeartbeatBuffer\<close>, \<open>IngestQueue\<close>, \<open>AgentSvc\<close>, \<open>AgentGuard\<close>: modules/agent. No heartbeat is lost and every
    row of a batch is in the queue or the table, whatever the order of failures.
  \<^item> \<open>MonitorGateway\<close>, \<open>MonitorSvc\<close>, \<open>Analytics\<close>: modules/monitoring, maintenance, analytics.
  \<^item> \<open>Projects\<close>, \<open>Gps\<close>, \<open>Integrations\<close>, \<open>Alerts\<close>: the modules of these names.
  \<^item> \<open>HttpRoutes\<close>: routing and the client's query cache (the locale \<open>cached_api\<close>, for one client
    whose exchanges are single steps: fetches in flight, lost responses and other users are outside it). \<open>TimeTrackingWeb\<close>, \<open>ProjectsWeb\<close>,
    \<open>AdminWeb\<close>, \<open>AlertsWeb\<close>, \<open>IntegrationsWeb\<close>, \<open>GpsWeb\<close>, \<open>MonitorWeb\<close>, \<open>UsersWeb\<close>, \<open>BillingWeb\<close>: the controllers of
    those modules joined with the hooks of src/apps/web/hooks: every hook reaches the operation it is meant for, or the lemma says
    which does not. \<open>KanbanBoard\<close>: a drop on the board of src/apps/web/components/projects, end to end.
  \<^item> \<open>PresenceStore\<close>, \<open>StreamClient\<close>, \<open>WebSession\<close>, \<open>WebDates\<close>: the client's presence board with its timers, its
    stream view, its session callbacks and its date helpers. \<open>LiveBoard\<close>: what the overview, the live board and
    the clock widget show of the server's answers.
  \<^item> \<open>AgentApi\<close>: the controllers of modules/agent on one state with their guard: what agents send is stored under
    the user and organisation of a registered device.
  \<^item> \<open>AuthWeb\<close>: AuthController, the links of the mails, the pages and forms of src/apps/web before the session:
    signing up, losing a password and verifying an address, from the form to the tables.
  \<^item> \<open>WatchLive\<close>: the live page, the full-screen view and its pings, joined with the requests of
    StreamingController and the flag the agent asks for.
  \<^item> \<open>ApprovalPages\<close>: the pages on which managers approve timesheets, from a click to the tables.
    \<open>DashboardForms\<close>: the forms for fences, webhooks, alert rules and milestones, and the figures of the dashboard.
  \<^item> \<open>BrowserExtension\<close>: src/apps/agent/extensions/chrome/background.js, its connection to the desktop agent and
    the events it reports.

  \<^bold>\<open>What the lemmas show.\<close> The numbered properties (C1 and so on) stand in the theory of their component, and
  those that span components in the theory that joins them. Beside contracts that hold there are
  theorems about what the code does where it does not do what it means to: these are stated as they
  are (a refused request that takes effect, two refreshes at once that are both served or sign the user
  out, a cap that is not enforced, hooks that reach no route, an address that nobody can verify). Every hypothesis of a property has a witness on concrete tables.

  \<^bold>\<open>Bounds and fuel.\<close> The JSON parser recurses with fuel, which the length of the text bounds and the round
  trip shows to be enough. The year of a time is the guess of the mean year corrected by one, which the
  bracketing lemma of \<open>JsDate\<close> shows to be right for every time; the text of a date is that of the
  years 0 to 9999. Loops of the services are structural recursion or have a termination proof.

  \<^bold>\<open>Not modelled.\<close> The mail templates and the transport, TypeORM's migrations, the wiring of modules, the
  adapter that spreads socket.io over Redis, the probes, logging, Swagger decorators and, except for the
  bodies of AuthController and of the streaming settings, the validation decorators (a request body is
  one the ValidationPipe accepts), the throttler; in the client JSX, styles, drag sensors and charts; the
  Go agent and its generated bindings; infrastructure files.
\<close>

end
